(* ===== verification/Rail_Prelude.thy ===== *)
theory Rail_Prelude
  imports Main "HOL-Library.Word"
begin

text \<open>
  Shared vocabulary of the development: the types that stand for Go's scalar types and for the
  identifiers of the platform, the wrap-around of Go's \<^verbatim>\<open>int64\<close>, and the generic lemmas on
  lists, sums and bit sets that several components use.

  \<^item> \<open>uuid\<close>: a \<^verbatim>\<open>uuid.UUID\<close> read as a big-endian number; \<^verbatim>\<open>uuid.Nil\<close> is 0 and the order of the
    canonical strings is the order of the numbers.
  \<^item> \<open>gotime\<close>: a \<^verbatim>\<open>time.Time\<close> instant in nanoseconds since January 1, year 1 UTC, so that Go's
    zero time (the one \<^verbatim>\<open>IsZero\<close> recognises) is 0. Zones do not change the instant, so \<^verbatim>\<open>UTC()\<close>
    is the identity.
  \<^item> \<open>int64\<close>: an integer with \<open>in_int64\<close>; arithmetic that Go may wrap goes through \<open>wrap64\<close>.
\<close>

type_synonym uuid = nat
type_synonym gotime = int
type_synonym int64 = int
type_synonym byte = "8 word"

abbreviation (input) uuid_Nil :: uuid where
  "uuid_Nil \<equiv> 0"

abbreviation (input) IsZero_time :: "gotime \<Rightarrow> bool" where
  "IsZero_time t \<equiv> t = 0"

definition MaxInt64 :: int64 where
  "MaxInt64 = 2 ^ 63 - 1"

definition MinInt64 :: int64 where
  "MinInt64 = - (2 ^ 63)"

definition in_int64 :: "int \<Rightarrow> bool" where
  "in_int64 i \<longleftrightarrow> MinInt64 \<le> i \<and> i \<le> MaxInt64"

text \<open>Two's complement wrap-around of 64-bit signed arithmetic.\<close>

definition wrap64 :: "int \<Rightarrow> int64" where
  "wrap64 i = (i + 2 ^ 63) mod 2 ^ 64 - 2 ^ 63"

text \<open>Go's integer division truncates towards zero.\<close>

definition quot :: "int \<Rightarrow> int \<Rightarrow> int" where
  "quot a b = sgn a * sgn b * (\<bar>a\<bar> div \<bar>b\<bar>)"

named_theorems go_num \<open>unfolding rules for Go's integer arithmetic\<close>

lemma wrap64_id [simp]: "in_int64 i \<Longrightarrow> wrap64 i = i"
  by (simp add: in_int64_def MinInt64_def MaxInt64_def wrap64_def)

lemma in_int64_wrap64 [simp]: "in_int64 (wrap64 i)"
proof -
  have "0 \<le> (i + 2 ^ 63) mod 2 ^ 64" and "(i + 2 ^ 63) mod 2 ^ 64 < 2 ^ 64"
    by simp_all
  then show ?thesis by (simp add: in_int64_def MinInt64_def MaxInt64_def wrap64_def)
qed

lemma quot_nonneg [simp]: "0 \<le> a \<Longrightarrow> 0 < b \<Longrightarrow> quot a b = a div b"
  by (cases "a = 0") (simp_all add: quot_def)

declare MaxInt64_def [go_num] MinInt64_def [go_num] in_int64_def [go_num]

text \<open>A result is an error on the left or a value on the right, as a Go pair (value, error).\<close>

lemma sum_case_Inr [simp]:
  "(case x of Inl e \<Rightarrow> Inl e | Inr y \<Rightarrow> f y) = Inr z \<longleftrightarrow> (\<exists>y. x = Inr y \<and> f y = Inr z)"
  by (cases x) auto

lemma if_Inl_eq_Inr [simp]:
  "(if b then Inl e else x) = Inr z \<longleftrightarrow> \<not> b \<and> x = Inr z"
  by simp

text \<open>Lists.\<close>

lemma nth_map2 [simp]:
  "i < length xs \<Longrightarrow> i < length ys \<Longrightarrow> map2 f xs ys ! i = f (xs ! i) (ys ! i)"
  by simp

lemma nat_ceil_div8: "i < n \<Longrightarrow> i div 8 < (n + 7) div (8::nat)"
  by linarith

end
