(* ===== verification/Segment_Algebra.thy ===== *)
theory Segment_Algebra
  imports Rail_Prelude
begin

text \<open>
  The contract between the inventory and the representation of occupied segments. The booking
  store reserves a journey by joining its mask into the seat's mask and releases it by taking the
  mask out again; it relies on a representation only through the laws below. Two representations
  provide them: the byte masks of the domain package and PostgreSQL's \<^verbatim>\<open>BIT VARYING\<close> values.
\<close>

text \<open>
  \<open>exact_cover occ m A C\<close>: the claims \<open>C\<close>, claim \<open>c\<close> standing for the journey mask \<open>A c\<close>, are pairwise
  disjoint and together occupy exactly what \<open>m\<close> occupies.
\<close>

definition exact_cover :: "('m \<Rightarrow> nat set) \<Rightarrow> 'm \<Rightarrow> ('c \<Rightarrow> 'm) \<Rightarrow> 'c set \<Rightarrow> bool" where
  "exact_cover occ m A C \<longleftrightarrow>
     occ m = (\<Union>c\<in>C. occ (A c)) \<and>
     (\<forall>a\<in>C. \<forall>b\<in>C. a \<noteq> b \<longrightarrow> occ (A a) \<inter> occ (A b) = {})"

lemma exact_cover_disjoint:
  "exact_cover occ m A C \<Longrightarrow> a \<in> C \<Longrightarrow> b \<in> C \<Longrightarrow> a \<noteq> b \<Longrightarrow> occ (A a) \<inter> occ (A b) = {}"
  by (auto simp: exact_cover_def)

lemma exact_cover_cong:
  assumes "exact_cover occ m A C" "occ m = occ m'" "C = D" "\<And>c. c \<in> D \<Longrightarrow> A c = B c"
  shows "exact_cover occ m' B D"
  using assms by (simp add: exact_cover_def)

locale segment_algebra =
  fixes wf :: "'m \<Rightarrow> bool"
    and len :: "'m \<Rightarrow> nat"
    and occ :: "'m \<Rightarrow> nat set"
    and overlaps :: "'m \<Rightarrow> 'm \<Rightarrow> bool"
    and join :: "'m \<Rightarrow> 'm \<Rightarrow> 'm"
    and take_out :: "'m \<Rightarrow> 'm \<Rightarrow> 'm"
  assumes occ_bound: "wf m \<Longrightarrow> occ m \<subseteq> {..<len m}"
    and occ_inj: "wf m \<Longrightarrow> wf n \<Longrightarrow> len m = len n \<Longrightarrow> occ m = occ n \<Longrightarrow> m = n"
    and overlaps_iff: "wf m \<Longrightarrow> wf n \<Longrightarrow> len m = len n \<Longrightarrow> overlaps m n \<longleftrightarrow> occ m \<inter> occ n \<noteq> {}"
    and wf_join: "wf m \<Longrightarrow> wf n \<Longrightarrow> len m = len n \<Longrightarrow> wf (join m n)"
    and len_join: "wf m \<Longrightarrow> wf n \<Longrightarrow> len m = len n \<Longrightarrow> len (join m n) = len m"
    and occ_join: "wf m \<Longrightarrow> wf n \<Longrightarrow> len m = len n \<Longrightarrow> occ (join m n) = occ m \<union> occ n"
    and wf_take_out: "wf m \<Longrightarrow> wf n \<Longrightarrow> len m = len n \<Longrightarrow> wf (take_out m n)"
    and len_take_out: "wf m \<Longrightarrow> wf n \<Longrightarrow> len m = len n \<Longrightarrow> len (take_out m n) = len m"
    and occ_take_out: "wf m \<Longrightarrow> wf n \<Longrightarrow> len m = len n \<Longrightarrow> occ (take_out m n) = occ m - occ n"
begin

lemma overlaps_commute: "wf m \<Longrightarrow> wf n \<Longrightarrow> len m = len n \<Longrightarrow> overlaps m n = overlaps n m"
  by (simp add: overlaps_iff Int_commute)

text \<open>Reserving a free journey and releasing it again restores the mask.\<close>

lemma release_reserve:
  assumes "wf m" "wf n" "len m = len n" "\<not> overlaps m n"
  shows "take_out (join m n) n = m"
proof (rule occ_inj)
  show "occ (take_out (join m n) n) = occ m"
    using assms by (auto simp: occ_take_out occ_join wf_join len_join overlaps_iff)
qed (use assms in \<open>simp_all add: wf_take_out wf_join len_join len_take_out\<close>)

text \<open>After a reservation nothing that meets the journey is free any more.\<close>

lemma reserved_overlaps:
  assumes "wf m" "wf n" "wf k" "len m = len n" "len k = len n" "occ n \<inter> occ k \<noteq> {}"
  shows "overlaps (join m n) k"
  using assms by (auto simp: overlaps_iff wf_join len_join occ_join)

lemma exact_cover_reserve:
  assumes "exact_cover occ m A C" "c \<notin> C" "wf m" "wf (A c)" "len m = len (A c)" "\<not> overlaps m (A c)"
  shows "exact_cover occ (join m (A c)) A (insert c C)"
  using assms unfolding exact_cover_def by (auto simp: overlaps_iff occ_join)

lemma exact_cover_release:
  assumes "exact_cover occ m A C" "c \<in> C" "wf m" "wf (A c)" "len m = len (A c)"
  shows "exact_cover occ (take_out m (A c)) A (C - {c})"
  using assms unfolding exact_cover_def by (auto simp: occ_take_out)

end

end
