(* ===== verification/Segment_Mask.thy ===== *)
theory Segment_Mask
  imports Segment_Algebra
begin

unbundle bit_operations_syntax

text \<open>
  \<^verbatim>\<open>src/internal/booking/domain/segment_mask.go\<close>: the occupied route segments of a seat as a byte
  string, bit zero being the most significant bit of the first byte. The abstract value of a mask
  is the set of its occupied segment indices; every operation is shown to compute the set operation
  it is named after, and the padding bits of the last byte stay clear. Byte counts are those of
  slices, so they are far below the 64-bit limit.
\<close>

record SegmentMask =
  mask_bits :: "byte list"
  bitLength :: int

datatype MaskError = ErrInvalidSegmentRange | ErrInvalidSegmentMask | ErrSegmentMaskLengthMismatch

definition bit_byte :: "nat \<Rightarrow> byte" where
  "bit_byte index = drop_bit (index mod 8) 0x80"

text \<open>The loop of \<^verbatim>\<open>NewSegmentMask\<close> that sets the bits of the requested interval.\<close>

function set_segments :: "byte list \<Rightarrow> nat \<Rightarrow> nat \<Rightarrow> byte list" where
  "set_segments bs index toIndex =
     (if index < toIndex
      then set_segments (bs[index div 8 := (bs ! (index div 8)) OR bit_byte index]) (Suc index) toIndex
      else bs)"
  by pat_completeness auto
termination
  by (relation "measure (\<lambda>(bs, index, toIndex). toIndex - index)") auto

declare set_segments.simps [simp del]

definition NewSegmentMask :: "int \<Rightarrow> int \<Rightarrow> int \<Rightarrow> MaskError + SegmentMask" where
  "NewSegmentMask segmentCount fromIndex toIndex =
     (if segmentCount \<le> 0 \<or> fromIndex < 0 \<or> toIndex \<le> fromIndex \<or> segmentCount < toIndex
      then Inl ErrInvalidSegmentRange
      else Inr \<lparr>mask_bits = set_segments (replicate (nat ((segmentCount + 7) div 8)) 0)
                             (nat fromIndex) (nat toIndex),
                bitLength = segmentCount\<rparr>)"

definition SegmentMaskFromBytes :: "int \<Rightarrow> byte list \<Rightarrow> MaskError + SegmentMask" where
  "SegmentMaskFromBytes len source =
     (if len \<le> 0 \<or> int (length source) \<noteq> (len + 7) div 8 then Inl ErrInvalidSegmentMask
      else let unusedBits = int (length source) * 8 - len in
        if unusedBits > 0 \<and> last source AND mask (nat unusedBits) \<noteq> 0
        then Inl ErrInvalidSegmentMask
        else Inr \<lparr>mask_bits = source, bitLength = len\<rparr>)"

definition mask_bit :: "SegmentMask \<Rightarrow> nat \<Rightarrow> bool" where
  "mask_bit m index \<longleftrightarrow> (mask_bits m ! (index div 8)) AND bit_byte index \<noteq> 0"

definition SegmentMask_String :: "SegmentMask \<Rightarrow> string" where
  "SegmentMask_String m =
     map (\<lambda>index. if mask_bit m index then CHR ''1'' else CHR ''0'') [0..<nat (bitLength m)]"

definition mask_valid :: "SegmentMask \<Rightarrow> bool" where
  "mask_valid m \<longleftrightarrow>
     \<not> (bitLength m \<le> 0 \<or> int (length (mask_bits m)) \<noteq> (bitLength m + 7) div 8) \<and>
     (let unusedBits = int (length (mask_bits m)) * 8 - bitLength m in
        unusedBits = 0 \<or> last (mask_bits m) AND mask (nat unusedBits) = 0)"

definition Overlaps :: "SegmentMask \<Rightarrow> SegmentMask \<Rightarrow> MaskError + bool" where
  "Overlaps m other =
     (if \<not> mask_valid m \<or> \<not> mask_valid other then Inl ErrInvalidSegmentMask
      else if bitLength m \<noteq> bitLength other then Inl ErrSegmentMaskLengthMismatch
      else Inr (list_ex (\<lambda>(a, b). a AND b \<noteq> 0) (zip (mask_bits m) (mask_bits other))))"

definition mask_zip :: "(byte \<Rightarrow> byte \<Rightarrow> byte) \<Rightarrow> SegmentMask \<Rightarrow> SegmentMask \<Rightarrow> MaskError + SegmentMask"
where
  "mask_zip f m other =
     (if \<not> mask_valid m \<or> \<not> mask_valid other then Inl ErrInvalidSegmentMask
      else if bitLength m \<noteq> bitLength other then Inl ErrSegmentMaskLengthMismatch
      else Inr \<lparr>mask_bits = map2 f (mask_bits m) (mask_bits other), bitLength = bitLength m\<rparr>)"

definition Union_mask :: "SegmentMask \<Rightarrow> SegmentMask \<Rightarrow> MaskError + SegmentMask" where
  "Union_mask m other = mask_zip (\<lambda>a b. a OR b) m other"

definition Subtract :: "SegmentMask \<Rightarrow> SegmentMask \<Rightarrow> MaskError + SegmentMask" where
  "Subtract m other = mask_zip (\<lambda>a b. a AND NOT b) m other"

definition IsZero_mask :: "SegmentMask \<Rightarrow> bool" where
  "IsZero_mask m \<longleftrightarrow> list_all (\<lambda>v. v = 0) (mask_bits m)"

fun bytes_equal :: "byte list \<Rightarrow> byte list \<Rightarrow> bool" where
  "bytes_equal (a # as) (b # bs) = (a = b \<and> bytes_equal as bs)"
| "bytes_equal _ _ = True"

definition Equal_mask :: "SegmentMask \<Rightarrow> SegmentMask \<Rightarrow> bool" where
  "Equal_mask m other \<longleftrightarrow>
     bitLength m = bitLength other \<and> length (mask_bits m) = length (mask_bits other) \<and>
     bytes_equal (mask_bits m) (mask_bits other)"

subsection \<open>Bits of a byte string\<close>

text \<open>Bit \<open>i\<close> of a byte string in route order.\<close>

definition bits_at :: "byte list \<Rightarrow> nat \<Rightarrow> bool" where
  "bits_at bs i \<longleftrightarrow> bit (bs ! (i div 8)) (7 - i mod 8)"

lemma bit_0x80: "bit (0x80 :: byte) n \<longleftrightarrow> n = 7"
proof -
  have *: "(0x80 :: byte) = 2 ^ 7" by simp
  show ?thesis unfolding * by (simp only: bit_exp_iff possible_bit_word) auto
qed

lemma bit_bit_byte: "bit (bit_byte i) n \<longleftrightarrow> n = 7 - i mod 8"
proof -
  have "bit (bit_byte i) n \<longleftrightarrow> i mod 8 + n = 7"
    unfolding bit_byte_def bit_drop_bit_eq comp_def bit_0x80 ..
  moreover have "i mod 8 < 8" by simp
  ultimately show ?thesis by linarith
qed

lemma word_eq_0_iff_bits: "w = 0 \<longleftrightarrow> (\<forall>n. \<not> bit (w :: byte) n)"
  by (metis bit_eqI bit_0_eq bot_apply bot_bool_def)

lemma and_bit_byte_iff: "w AND bit_byte i \<noteq> 0 \<longleftrightarrow> bit w (7 - i mod 8)"
  unfolding word_eq_0_iff_bits bit_and_iff bit_bit_byte by blast

lemma mask_bit_iff: "mask_bit m i \<longleftrightarrow> bits_at (mask_bits m) i"
  by (simp add: mask_bit_def bits_at_def and_bit_byte_iff)

lemma and_mask_0_iff: "w AND mask u = 0 \<longleftrightarrow> (\<forall>j < u. \<not> bit (w :: byte) j)"
proof -
  have "bit w j \<Longrightarrow> j < 8" for j using bit_imp_le_length [of w j] by simp
  then show ?thesis
    unfolding word_eq_0_iff_bits bit_and_iff bit_mask_iff by (auto simp: possible_bit_word)
qed

lemma bits_at_of_byte: "j < 8 \<Longrightarrow> bit (bs ! k) j \<longleftrightarrow> bits_at bs (8 * k + (7 - j))"
proof -
  assume j: "j < 8"
  then have "8 * k + (7 - j) = (7 - j) + k * 8" and "7 - j < 8" by simp_all
  then have "(8 * k + (7 - j)) div 8 = k" and "(8 * k + (7 - j)) mod 8 = 7 - j" by simp_all
  with j show ?thesis unfolding bits_at_def by simp
qed

lemma byte_eqI:
  assumes "\<And>i. i < 8 \<Longrightarrow> bits_at bs (8 * k + i) = bits_at cs (8 * k + i)"
  shows "bs ! k = cs ! k"
proof (rule bit_word_eqI)
  fix n assume n: "n < LENGTH(8)"
  with assms [of "7 - n"] show "bit (bs ! k) n = bit (cs ! k) n"
    by (simp add: bits_at_of_byte)
qed

lemma bytes_eqI:
  assumes "length bs = length cs"
    and "\<And>i. i < 8 * length bs \<Longrightarrow> bits_at bs i = bits_at cs i"
  shows "bs = cs"
  using assms by (auto intro!: nth_equalityI byte_eqI)

lemma bits_at_replicate [simp]: "i < 8 * n \<Longrightarrow> \<not> bits_at (replicate n 0) i"
  by (simp add: bits_at_def less_mult_imp_div_less mult.commute)

lemma bits_at_map2:
  assumes "length xs = length ys" "i < 8 * length xs"
    and "\<And>a b n. n < 8 \<Longrightarrow> bit (f a b :: byte) n = g (bit a n) (bit b n)"
  shows "bits_at (map2 f xs ys) i = g (bits_at xs i) (bits_at ys i)"
proof -
  have "i div 8 < length xs" using assms(2) by (simp add: less_mult_imp_div_less mult.commute)
  then show ?thesis using assms(1) by (simp add: bits_at_def assms(3))
qed

lemma bits_at_set_bit:
  assumes "i < 8 * length bs"
  shows "bits_at (bs[i div 8 := (bs ! (i div 8)) OR bit_byte i]) k \<longleftrightarrow> bits_at bs k \<or> k = i"
proof (cases "k div 8 = i div 8")
  case True
  have "7 - k mod 8 = 7 - i mod 8 \<longleftrightarrow> k mod 8 = i mod 8"
    using mod_less_divisor [of 8 k] mod_less_divisor [of 8 i] by linarith
  also have "\<dots> \<longleftrightarrow> k = i" using True by (metis div_mult_mod_eq)
  finally have "7 - k mod 8 = 7 - i mod 8 \<longleftrightarrow> k = i" .
  moreover have "i div 8 < length bs" using assms by (simp add: less_mult_imp_div_less mult.commute)
  ultimately show ?thesis using True by (simp add: bits_at_def bit_or_iff bit_bit_byte)
next
  case False
  then show ?thesis by (auto simp: bits_at_def)
qed

lemma length_set_segments [simp]: "length (set_segments bs i j) = length bs"
  by (induction bs i j rule: set_segments.induct) (subst set_segments.simps, simp)

lemma bits_at_set_segments:
  "j \<le> 8 * length bs \<Longrightarrow> bits_at (set_segments bs i j) k \<longleftrightarrow> bits_at bs k \<or> (i \<le> k \<and> k < j)"
proof (induction bs i j rule: set_segments.induct)
  case (1 bs i j)
  show ?case
  proof (cases "i < j")
    case True
    with 1 show ?thesis
      by (subst set_segments.simps) (auto simp: bits_at_set_bit)
  next
    case False
    then show ?thesis by (subst set_segments.simps) auto
  qed
qed

subsection \<open>Validity and the abstract value\<close>

definition segments :: "SegmentMask \<Rightarrow> nat set" where
  "segments m = {i. i < nat (bitLength m) \<and> mask_bit m i}"

definition pad_clear :: "nat \<Rightarrow> byte list \<Rightarrow> bool" where
  "pad_clear n bs \<longleftrightarrow> (\<forall>i. n \<le> i \<and> i < 8 * length bs \<longrightarrow> \<not> bits_at bs i)"

lemma last_pad_iff:
  assumes len: "int (length bs) = (n + 7) div 8" and n: "0 < n"
  shows "last bs AND mask (nat (int (length bs) * 8 - n)) = 0 \<longleftrightarrow> pad_clear (nat n) bs"
    (is "?L \<longleftrightarrow> ?R")
proof -
  define u where "u = nat (int (length bs) * 8 - n)"
  have u: "u < 8" and un: "nat n + u = 8 * length bs" and L: "0 < length bs"
    using len n by (auto simp: u_def)
  have last: "last bs = bs ! (length bs - 1)" using L by (simp add: last_conv_nth)
  have "?L \<longleftrightarrow> (\<forall>j < u. \<not> bits_at bs (8 * (length bs - 1) + (7 - j)))"
    unfolding u_def [symmetric] last and_mask_0_iff using u by (simp add: bits_at_of_byte)
  also have "\<dots> \<longleftrightarrow> ?R"
  proof
    assume *: "\<forall>j < u. \<not> bits_at bs (8 * (length bs - 1) + (7 - j))"
    show ?R unfolding pad_clear_def
    proof (intro allI impI)
      fix i assume i: "nat n \<le> i \<and> i < 8 * length bs"
      then have "8 * length bs - 1 - i < u" using un by linarith
      moreover have "8 * (length bs - 1) + (7 - (8 * length bs - 1 - i)) = i"
        using i un u L by linarith
      ultimately show "\<not> bits_at bs i" using * by metis
    qed
  next
    assume *: ?R
    show "\<forall>j < u. \<not> bits_at bs (8 * (length bs - 1) + (7 - j))"
    proof (intro allI impI)
      fix j assume j: "j < u"
      then have "nat n \<le> 8 * (length bs - 1) + (7 - j) \<and> 8 * (length bs - 1) + (7 - j) < 8 * length bs"
        using un u L by linarith
      then show "\<not> bits_at bs (8 * (length bs - 1) + (7 - j))" using * by (simp add: pad_clear_def)
    qed
  qed
  finally show ?thesis .
qed

lemma mask_valid_iff:
  "mask_valid m \<longleftrightarrow>
     0 < bitLength m \<and> int (length (mask_bits m)) = (bitLength m + 7) div 8 \<and>
     pad_clear (nat (bitLength m)) (mask_bits m)"
proof (cases "0 < bitLength m \<and> int (length (mask_bits m)) = (bitLength m + 7) div 8")
  case True
  then have "mask_valid m \<longleftrightarrow> int (length (mask_bits m)) * 8 - bitLength m = 0 \<or>
      pad_clear (nat (bitLength m)) (mask_bits m)"
    using last_pad_iff [of "mask_bits m" "bitLength m"] by (simp add: mask_valid_def Let_def)
  moreover have "pad_clear (nat (bitLength m)) (mask_bits m)"
    if "int (length (mask_bits m)) * 8 - bitLength m = 0"
    using that by (auto simp: pad_clear_def)
  ultimately show ?thesis using True by auto
next
  case False
  then show ?thesis by (auto simp: mask_valid_def)
qed

lemma SegmentMaskFromBytes_iff:
  "SegmentMaskFromBytes n bs =
     (if mask_valid \<lparr>mask_bits = bs, bitLength = n\<rparr> then Inr \<lparr>mask_bits = bs, bitLength = n\<rparr>
      else Inl ErrInvalidSegmentMask)"
proof -
  have "int (length bs) * 8 - n \<ge> 0" if "int (length bs) = (n + 7) div 8" using that by linarith
  then show ?thesis by (auto simp: SegmentMaskFromBytes_def mask_valid_def Let_def)
qed

subsection \<open>The operations compute the set operations\<close>

lemma length_valid: "mask_valid m \<Longrightarrow> nat (bitLength m) \<le> 8 * length (mask_bits m)"
  by (auto simp: mask_valid_iff)

lemma same_length:
  "mask_valid m \<Longrightarrow> mask_valid n \<Longrightarrow> bitLength m = bitLength n \<Longrightarrow>
   length (mask_bits m) = length (mask_bits n)"
  by (auto simp: mask_valid_iff)

lemma segments_bound: "segments m \<subseteq> {..<nat (bitLength m)}"
  by (auto simp: segments_def)

lemma bits_at_iff_segments:
  assumes "mask_valid m" "i < 8 * length (mask_bits m)"
  shows "bits_at (mask_bits m) i \<longleftrightarrow> i \<in> segments m"
  using assms by (auto simp: segments_def mask_bit_iff mask_valid_iff pad_clear_def not_less)

lemma NewSegmentMask_spec:
  assumes "0 < n" "0 \<le> f" "f < t" "t \<le> n"
  shows "\<exists>m. NewSegmentMask n f t = Inr m \<and> mask_valid m \<and> bitLength m = n \<and>
             segments m = {nat f..<nat t}"
proof -
  define bs where "bs = set_segments (replicate (nat ((n + 7) div 8)) 0) (nat f) (nat t)"
  have len: "length bs = nat ((n + 7) div 8)" by (simp add: bs_def)
  have fit: "nat t \<le> 8 * nat ((n + 7) div 8)" using assms by linarith
  have bit: "bits_at bs i \<longleftrightarrow> nat f \<le> i \<and> i < nat t" if "i < 8 * length bs" for i
    using that fit unfolding bs_def by (simp add: bits_at_set_segments)
  have "mask_valid \<lparr>mask_bits = bs, bitLength = n\<rparr>"
    using assms len bit by (auto simp: mask_valid_iff pad_clear_def)
  moreover have "segments \<lparr>mask_bits = bs, bitLength = n\<rparr> = {nat f..<nat t}"
    using assms len bit by (auto simp: segments_def mask_bit_iff)
  ultimately show ?thesis using assms by (simp add: NewSegmentMask_def bs_def)
qed

lemma mask_zip_spec:
  assumes "mask_valid m" "mask_valid n" "bitLength m = bitLength n"
    and f: "\<And>a b k. k < 8 \<Longrightarrow> bit (f a b :: byte) k = g (bit a k) (bit b k)"
    and g: "\<not> g False False"
  shows "\<exists>r. mask_zip f m n = Inr r \<and> mask_valid r \<and> bitLength r = bitLength m \<and>
             segments r = {i. i < nat (bitLength m) \<and> g (i \<in> segments m) (i \<in> segments n)}"
proof -
  define bs where "bs = map2 f (mask_bits m) (mask_bits n)"
  note len = same_length [OF assms(1-3)]
  have bit: "bits_at bs i \<longleftrightarrow> g (i \<in> segments m) (i \<in> segments n)" if "i < 8 * length bs" for i
    using that len assms(1,2) unfolding bs_def
    by (subst bits_at_map2 [where g = g, OF len _ f]) (simp_all add: bits_at_iff_segments)
  have "i \<notin> segments m" and "i \<notin> segments n" if "nat (bitLength m) \<le> i" for i
    using that assms(3) by (auto simp: segments_def)
  then have "pad_clear (nat (bitLength m)) bs" using bit g by (simp add: pad_clear_def)
  moreover have "length bs = length (mask_bits m)" using len by (simp add: bs_def)
  ultimately have "mask_valid \<lparr>mask_bits = bs, bitLength = bitLength m\<rparr>"
    using assms(1) by (simp add: mask_valid_iff)
  moreover have "segments \<lparr>mask_bits = bs, bitLength = bitLength m\<rparr> =
      {i. i < nat (bitLength m) \<and> g (i \<in> segments m) (i \<in> segments n)}"
    using bit length_valid [OF assms(1)] len by (auto simp: segments_def mask_bit_iff bs_def)
  ultimately show ?thesis using assms(1-3) by (simp add: mask_zip_def bs_def)
qed

lemma Union_mask_spec:
  assumes "mask_valid m" "mask_valid n" "bitLength m = bitLength n"
  shows "\<exists>r. Union_mask m n = Inr r \<and> mask_valid r \<and> bitLength r = bitLength m \<and>
             segments r = segments m \<union> segments n"
  using mask_zip_spec [OF assms, of "\<lambda>a b. a OR b" "(\<or>)"] segments_bound [of m] segments_bound [of n]
    assms(3)
  by (fastforce simp: Union_mask_def bit_or_iff)

lemma Subtract_spec:
  assumes "mask_valid m" "mask_valid n" "bitLength m = bitLength n"
  shows "\<exists>r. Subtract m n = Inr r \<and> mask_valid r \<and> bitLength r = bitLength m \<and>
             segments r = segments m - segments n"
  using mask_zip_spec [OF assms, of "\<lambda>a b. a AND NOT b" "\<lambda>p q. p \<and> \<not> q"] segments_bound [of m]
  by (fastforce simp: Subtract_def bit_and_iff bit_not_iff)

lemma byte_nonzero_iff: "(w :: byte) \<noteq> 0 \<longleftrightarrow> (\<exists>n < 8. bit w n)"
proof -
  have "bit w n \<Longrightarrow> n < 8" for n using bit_imp_le_length [of w n] by simp
  then show ?thesis unfolding word_eq_0_iff_bits by blast
qed

lemma ex_byte_bit_iff:
  "(\<exists>k < L. \<exists>j < 8. P (8 * k + (7 - j))) \<longleftrightarrow> (\<exists>i < 8 * L. P (i :: nat))" (is "?A \<longleftrightarrow> ?B")
proof
  assume ?A
  then obtain k j where "k < L" "j < 8" "P (8 * k + (7 - j))" by blast
  moreover have "8 * k + (7 - j) < 8 * L" using \<open>k < L\<close> by linarith
  ultimately show ?B by blast
next
  assume ?B
  then obtain i where i: "i < 8 * L" "P i" by blast
  have "8 * (i div 8) + (7 - (7 - i mod 8)) = i"
    using mod_less_divisor [of 8 i] mult_div_mod_eq [of 8 i] by linarith
  with i have "P (8 * (i div 8) + (7 - (7 - i mod 8)))" by simp
  moreover have "i div 8 < L" using i(1) by (simp add: less_mult_imp_div_less mult.commute)
  moreover have "7 - i mod 8 < 8" by simp
  ultimately show ?A by blast
qed

lemma list_ex_zip_iff:
  "length xs = length ys \<Longrightarrow>
   list_ex (\<lambda>(a, b). P a b) (zip xs ys) \<longleftrightarrow> (\<exists>k < length xs. P (xs ! k) (ys ! k))"
  by (fastforce simp: list_ex_iff set_zip)

lemma Overlaps_spec:
  assumes "mask_valid m" "mask_valid n" "bitLength m = bitLength n"
  shows "Overlaps m n = Inr (segments m \<inter> segments n \<noteq> {})"
proof -
  note len = same_length [OF assms]
  have "list_ex (\<lambda>(a, b). a AND b \<noteq> 0) (zip (mask_bits m) (mask_bits n)) \<longleftrightarrow>
      (\<exists>k < length (mask_bits m). \<exists>j < 8. bit (mask_bits m ! k) j \<and> bit (mask_bits n ! k) j)"
    unfolding list_ex_zip_iff [OF len] byte_nonzero_iff bit_and_iff ..
  also have "\<dots> \<longleftrightarrow> (\<exists>k < length (mask_bits m). \<exists>j < 8.
      bits_at (mask_bits m) (8 * k + (7 - j)) \<and> bits_at (mask_bits n) (8 * k + (7 - j)))"
    using bits_at_of_byte by blast
  also have "\<dots> \<longleftrightarrow> (\<exists>i < 8 * length (mask_bits m). bits_at (mask_bits m) i \<and> bits_at (mask_bits n) i)"
    by (rule ex_byte_bit_iff)
  also have "\<dots> \<longleftrightarrow> segments m \<inter> segments n \<noteq> {}"
    using assms len length_valid [OF assms(1)] bits_at_iff_segments [OF assms(1)]
      bits_at_iff_segments [OF assms(2)] segments_bound [of m]
    by (fastforce simp: subset_eq)
  finally show ?thesis using assms by (simp add: Overlaps_def)
qed

lemma mask_eq_iff:
  assumes "mask_valid m" "mask_valid n"
  shows "m = n \<longleftrightarrow> bitLength m = bitLength n \<and> segments m = segments n"
proof (intro iffI conjI)
  assume *: "bitLength m = bitLength n \<and> segments m = segments n"
  then have "mask_bits m = mask_bits n"
    using assms same_length [OF assms] by (auto intro!: bytes_eqI simp: bits_at_iff_segments)
  with * show "m = n" by simp
qed auto

lemma bytes_equal_iff: "length bs = length cs \<Longrightarrow> bytes_equal bs cs \<longleftrightarrow> bs = cs"
  by (induction bs cs rule: list_induct2) auto

lemma Equal_mask_iff: "Equal_mask m n \<longleftrightarrow> m = n"
  by (cases m, cases n) (auto simp: Equal_mask_def bytes_equal_iff)

lemma IsZero_mask_iff:
  assumes "mask_valid m"
  shows "IsZero_mask m \<longleftrightarrow> segments m = {}"
proof -
  have "\<not> IsZero_mask m \<longleftrightarrow> (\<exists>k < length (mask_bits m). \<exists>j < 8. bits_at (mask_bits m) (8 * k + (7 - j)))"
    using bits_at_of_byte [of _ "mask_bits m"]
    unfolding IsZero_mask_def list_all_length by (auto simp only: byte_nonzero_iff not_all not_imp)
  also have "\<dots> \<longleftrightarrow> segments m \<noteq> {}"
    using assms length_valid [OF assms] segments_bound [of m] unfolding ex_byte_bit_iff
    by (fastforce simp: bits_at_iff_segments subset_eq)
  finally show ?thesis by blast
qed

subsection \<open>The masks provide the segment algebra\<close>

lemmas mask_specs = Overlaps_spec Union_mask_spec Subtract_spec

interpretation sm: segment_algebra mask_valid "\<lambda>m. nat (bitLength m)" segments
  "\<lambda>m n. Overlaps m n = Inr True" "\<lambda>m n. projr (Union_mask m n)" "\<lambda>m n. projr (Subtract m n)"
proof unfold_locales
  fix m n :: SegmentMask
  assume v: "mask_valid m" "mask_valid n" and "nat (bitLength m) = nat (bitLength n)"
  then have len: "bitLength m = bitLength n" by (auto simp: mask_valid_iff)
  show "m = n" if "segments m = segments n" using that v len by (simp add: mask_eq_iff)
  show "(Overlaps m n = Inr True) \<longleftrightarrow> segments m \<inter> segments n \<noteq> {}"
    using Overlaps_spec [OF v len] by auto
  obtain r where "Union_mask m n = Inr r" "mask_valid r" "bitLength r = bitLength m"
    "segments r = segments m \<union> segments n"
    using Union_mask_spec [OF v len] by auto
  then show "mask_valid (projr (Union_mask m n))"
    "nat (bitLength (projr (Union_mask m n))) = nat (bitLength m)"
    "segments (projr (Union_mask m n)) = segments m \<union> segments n"
    by simp_all
  obtain d where "Subtract m n = Inr d" "mask_valid d" "bitLength d = bitLength m"
    "segments d = segments m - segments n"
    using Subtract_spec [OF v len] by auto
  then show "mask_valid (projr (Subtract m n))"
    "nat (bitLength (projr (Subtract m n))) = nat (bitLength m)"
    "segments (projr (Subtract m n)) = segments m - segments n"
    by simp_all
qed (simp add: segments_bound)

end
