(* ===== verification/Varbit.thy ===== *)
theory Varbit
  imports Segment_Mask
begin

text \<open>
  \<^verbatim>\<open>src/internal/booking/postgres/segment_bits.go\<close> and the \<^verbatim>\<open>BIT VARYING\<close> operators its queries use.
  A \<^verbatim>\<open>pgtype.Bits\<close> value carries the bytes of a mask and its length, a 32-bit integer; the database
  column holds the bit string they denote, first bit first. The bitwise operators of PostgreSQL are defined on bit
  strings of equal length, which the queries guard by comparing \<^verbatim>\<open>bit_length\<close> first.
\<close>

record Bits =
  Bytes :: "byte list"
  Bits_Len :: "32 word"
  Valid :: bool

datatype SegmentBitsError = ErrInvalidSegmentBits

text \<open>
  \<^verbatim>\<open>int32(n)\<close> keeps the low 32 bits of the length, \<^verbatim>\<open>int(bits.Len)\<close> reads them as a signed number.
\<close>

definition EncodeSegmentMask :: "SegmentMask \<Rightarrow> Bits" where
  "EncodeSegmentMask m = \<lparr>Bytes = mask_bits m, Bits_Len = word_of_int (bitLength m), Valid = True\<rparr>"

definition DecodeSegmentMask :: "Bits \<Rightarrow> SegmentBitsError + SegmentMask" where
  "DecodeSegmentMask b =
     (if \<not> Valid b \<or> sint (Bits_Len b) \<le> 0 \<or> MaxInt64 < sint (Bits_Len b) then Inl ErrInvalidSegmentBits
      else if int (length (Bytes b)) \<noteq> (sint (Bits_Len b) + 7) div 8 then Inl ErrInvalidSegmentBits
      else case SegmentMaskFromBytes (sint (Bits_Len b)) (Bytes b) of
             Inl e \<Rightarrow> Inl ErrInvalidSegmentBits
           | Inr m \<Rightarrow> Inr m)"

type_synonym varbit = "bool list"

text \<open>
  The bit string a \<^verbatim>\<open>pgtype.Bits\<close> parameter denotes. The driver sends the length and all bytes; the binary
  input function of the column type refuses a negative length, and the server a parameter of which the
  length does not account for every byte.
\<close>

definition varbit_recv_ok :: "Bits \<Rightarrow> bool" where
  "varbit_recv_ok b \<longleftrightarrow> 0 \<le> sint (Bits_Len b) \<and> int (length (Bytes b)) = (sint (Bits_Len b) + 7) div 8"

definition varbit_of :: "Bits \<Rightarrow> varbit" where
  "varbit_of b = map (\<lambda>i. bit (Bytes b ! (i div 8)) (7 - i mod 8)) [0..<nat (sint (Bits_Len b))]"

definition bit_length_sql :: "varbit \<Rightarrow> nat" where
  "bit_length_sql v = length v"

definition bit_count_sql :: "varbit \<Rightarrow> nat" where
  "bit_count_sql v = length (filter id v)"

definition bit_and_sql :: "varbit \<Rightarrow> varbit \<Rightarrow> varbit" where
  "bit_and_sql = map2 (\<and>)"

definition bit_or_sql :: "varbit \<Rightarrow> varbit \<Rightarrow> varbit" where
  "bit_or_sql = map2 (\<or>)"

definition bit_not_sql :: "varbit \<Rightarrow> varbit" where
  "bit_not_sql = map Not"

definition zero_varbit :: "nat \<Rightarrow> varbit" where
  "zero_varbit n = replicate n False"

text \<open>The occupied positions of a bit string.\<close>

definition occupied :: "varbit \<Rightarrow> nat set" where
  "occupied v = {i. i < length v \<and> v ! i}"

lemmas varbit_defs = bit_length_sql_def bit_count_sql_def bit_and_sql_def bit_or_sql_def
  bit_not_sql_def zero_varbit_def

lemma occupied_zero [simp]: "occupied (zero_varbit n) = {}"
  by (auto simp: occupied_def zero_varbit_def)

lemma occupied_eq_iff: "length v = length w \<Longrightarrow> occupied v = occupied w \<longleftrightarrow> v = w"
proof
  assume len: "length v = length w" and occ: "occupied v = occupied w"
  have "v ! i = w ! i" if "i < length v" for i
  proof -
    have "v ! i \<longleftrightarrow> i \<in> occupied v" and "w ! i \<longleftrightarrow> i \<in> occupied w"
      using that len by (simp_all add: occupied_def)
    with occ show ?thesis by simp
  qed
  with len show "v = w" by (simp add: nth_equalityI)
qed simp

lemma and_zero_iff:
  "length v = length w \<Longrightarrow> bit_and_sql v w = zero_varbit (length v) \<longleftrightarrow> occupied v \<inter> occupied w = {}"
  by (auto simp: list_eq_iff_nth_eq occupied_def varbit_defs)

lemma and_absorb_iff:
  "length v = length w \<Longrightarrow> bit_and_sql v w = w \<longleftrightarrow> occupied w \<subseteq> occupied v"
  by (auto simp: list_eq_iff_nth_eq occupied_def varbit_defs)

lemma occupied_or: "length v = length w \<Longrightarrow> occupied (bit_or_sql v w) = occupied v \<union> occupied w"
  by (auto simp: occupied_def varbit_defs)

lemma occupied_and_not:
  "length v = length w \<Longrightarrow> occupied (bit_and_sql v (bit_not_sql w)) = occupied v - occupied w"
  by (auto simp: occupied_def varbit_defs)

lemma bit_count_pos_iff: "bit_count_sql v > 0 \<longleftrightarrow> occupied v \<noteq> {}"
proof -
  have "bit_count_sql v > 0 \<longleftrightarrow> (\<exists>x\<in>set v. x)"
    by (simp add: bit_count_sql_def filter_empty_conv)
  also have "\<dots> \<longleftrightarrow> (\<exists>i < length v. v ! i)" unfolding set_conv_nth by blast
  finally show ?thesis by (auto simp: occupied_def)
qed

lemma length_varbit_ops [simp]:
  "length (bit_or_sql v w) = min (length v) (length w)"
  "length (bit_and_sql v w) = min (length v) (length w)"
  "length (bit_not_sql v) = length v"
  by (simp_all add: varbit_defs)

interpretation vb: segment_algebra "\<lambda>_. True" length occupied
  "\<lambda>v w. bit_and_sql v w \<noteq> zero_varbit (length v)" bit_or_sql "\<lambda>v w. bit_and_sql v (bit_not_sql w)"
proof unfold_locales
  fix m n :: varbit
  assume len: "length m = length n"
  show "bit_and_sql m n \<noteq> zero_varbit (length m) \<longleftrightarrow> occupied m \<inter> occupied n \<noteq> {}"
    using and_zero_iff [OF len] by blast
  show "m = n" if "occupied m = occupied n" using that len by (simp add: occupied_eq_iff)
qed (simp_all add: occupied_or occupied_and_not, auto simp: occupied_def)

subsection \<open>Encoding\<close>

definition MaxInt32 :: int where
  "MaxInt32 = 2 ^ 31 - 1"

lemma sint_int32:
  fixes n :: int
  assumes "0 \<le> n"
  shows "if n \<le> MaxInt32 then sint (word_of_int n :: 32 word) = n
    else sint (word_of_int n :: 32 word) + 8 \<le> n"
proof -
  have s: "sint (word_of_int n :: 32 word) = (n + 2 ^ 31) mod 2 ^ 32 - 2 ^ 31"
    by (simp add: int_word_sint)
  show ?thesis
  proof (cases "n \<le> MaxInt32")
    case True
    then have "(n + 2 ^ 31) mod 2 ^ 32 = n + 2 ^ 31" using assms by (simp add: MaxInt32_def)
    then show ?thesis using True by (simp add: s)
  next
    case False
    have "(n + 2 ^ 31) mod 2 ^ 32 = (n + 2 ^ 31) - 2 ^ 32 * ((n + 2 ^ 31) div 2 ^ 32)"
      by (simp add: minus_mult_div_eq_mod)
    moreover have "1 \<le> (n + 2 ^ 31) div 2 ^ 32" using False by (simp add: MaxInt32_def)
    ultimately show ?thesis using False by (simp add: s)
  qed
qed

lemma sint_Bits_Len_le: "sint (w :: 32 word) \<le> MaxInt32"
  using sint_lt [of w] by (simp add: MaxInt32_def)

text \<open>A mask is sent as the value it is exactly when its length fits.\<close>

lemma varbit_recv_encode: "mask_valid m \<Longrightarrow> varbit_recv_ok (EncodeSegmentMask m) \<longleftrightarrow> bitLength m \<le> MaxInt32"
  using sint_int32 [of "bitLength m"]
  by (auto simp: varbit_recv_ok_def EncodeSegmentMask_def mask_valid_iff split: if_splits)

lemma sint_Len_encode: "0 \<le> bitLength m \<Longrightarrow> bitLength m \<le> MaxInt32 \<Longrightarrow> sint (Bits_Len (EncodeSegmentMask m)) = bitLength m"
  using sint_int32 [of "bitLength m"] by (simp add: EncodeSegmentMask_def)

lemma length_varbit_encode:
  "mask_valid m \<Longrightarrow> varbit_recv_ok (EncodeSegmentMask m) \<Longrightarrow> length (varbit_of (EncodeSegmentMask m)) = nat (bitLength m)"
  by (simp add: varbit_of_def varbit_recv_encode sint_Len_encode mask_valid_iff)

lemma occupied_encode:
  assumes "mask_valid m" "varbit_recv_ok (EncodeSegmentMask m)"
  shows "occupied (varbit_of (EncodeSegmentMask m)) = segments m"
proof -
  have "sint (Bits_Len (EncodeSegmentMask m)) = bitLength m" "Bytes (EncodeSegmentMask m) = mask_bits m"
    using assms varbit_recv_encode [of m] sint_Len_encode [of m] by (simp_all add: mask_valid_iff, simp add: EncodeSegmentMask_def)
  then show ?thesis
    by (auto simp: occupied_def varbit_of_def segments_def mask_bit_iff bits_at_def)
qed

lemma Decode_Encode:
  assumes "mask_valid m"
  shows "DecodeSegmentMask (EncodeSegmentMask m) = (if bitLength m \<le> MaxInt32 then Inr m else Inl ErrInvalidSegmentBits)"
proof (cases "bitLength m \<le> MaxInt32")
  case True
  then have "sint (Bits_Len (EncodeSegmentMask m)) = bitLength m" "bitLength m \<le> MaxInt64"
    using assms by (simp_all add: sint_Len_encode mask_valid_iff MaxInt32_def MaxInt64_def)
  then show ?thesis using True assms
    by (auto simp: DecodeSegmentMask_def SegmentMaskFromBytes_iff mask_valid_iff) (auto simp: EncodeSegmentMask_def)
next
  case False
  then have "sint (Bits_Len (EncodeSegmentMask m)) + 8 \<le> bitLength m"
    using sint_int32 [of "bitLength m"] assms by (simp add: EncodeSegmentMask_def mask_valid_iff)
  then show ?thesis using False assms
    by (auto simp: DecodeSegmentMask_def mask_valid_iff) (auto simp: EncodeSegmentMask_def)
qed

lemma Encode_Decode: "DecodeSegmentMask b = Inr m \<Longrightarrow> EncodeSegmentMask m = b \<and> mask_valid m \<and> bitLength m \<le> MaxInt32"
  using sint_Bits_Len_le
  by (cases b)
     (auto simp: DecodeSegmentMask_def EncodeSegmentMask_def SegmentMaskFromBytes_iff
       split: if_splits sum.splits)

end
