(* ===== verification/Money.thy ===== *)
theory Money
  imports Rail_Prelude
begin

text \<open>
  \<^verbatim>\<open>src/internal/booking/domain/money.go\<close>: amounts in minor units with a currency, and checked
  64-bit arithmetic on them. The addition and the multiplication of the code are the wrapping
  ones; the theorems show that the guards in front of them never let a wrapped value out.
\<close>

record Money =
  amountMinor :: int64
  currency :: string

datatype MoneyError = ErrInvalidMoney | ErrCurrencyMismatch | ErrMoneyOverflow

definition validCurrency :: "string \<Rightarrow> bool" where
  "validCurrency value \<longleftrightarrow>
     length value = 3 \<and>
     list_all (\<lambda>c. \<not> (of_char c < (of_char CHR ''A'' :: nat) \<or> of_char CHR ''Z'' < (of_char c :: nat))) value"

definition NewMoney :: "int64 \<Rightarrow> string \<Rightarrow> MoneyError + Money" where
  "NewMoney amount cur =
     (if amount < 0 \<or> \<not> validCurrency cur then Inl ErrInvalidMoney
      else Inr \<lparr>amountMinor = amount, currency = cur\<rparr>)"

definition Money_Add :: "Money \<Rightarrow> Money \<Rightarrow> MoneyError + Money" where
  "Money_Add m other =
     (if currency m \<noteq> currency other then Inl ErrCurrencyMismatch
      else if 0 < amountMinor other \<and> wrap64 (MaxInt64 - amountMinor other) < amountMinor m
      then Inl ErrMoneyOverflow
      else Inr \<lparr>amountMinor = wrap64 (amountMinor m + amountMinor other), currency = currency m\<rparr>)"

definition Money_Multiply :: "Money \<Rightarrow> int64 \<Rightarrow> MoneyError + Money" where
  "Money_Multiply m multiplier =
     (if multiplier < 0 then Inl ErrInvalidMoney
      else if multiplier \<noteq> 0 \<and> quot MaxInt64 multiplier < amountMinor m then Inl ErrMoneyOverflow
      else Inr \<lparr>amountMinor = wrap64 (amountMinor m * multiplier), currency = currency m\<rparr>)"

text \<open>What \<^verbatim>\<open>NewMoney\<close> establishes and every operation keeps.\<close>

definition money_ok :: "Money \<Rightarrow> bool" where
  "money_ok m \<longleftrightarrow> 0 \<le> amountMinor m \<and> amountMinor m \<le> MaxInt64 \<and> validCurrency (currency m)"

lemma NewMoney_ok: "in_int64 a \<Longrightarrow> NewMoney a c = Inr m \<Longrightarrow> money_ok m"
  by (auto simp: NewMoney_def money_ok_def in_int64_def)

lemma le_div_iff_mult_le:
  fixes a k n :: int
  assumes "0 < k"
  shows "a \<le> n div k \<longleftrightarrow> a * k \<le> n"
proof
  assume "a \<le> n div k"
  then have "a * k \<le> n div k * k" using assms by (simp add: mult_right_mono)
  also have "\<dots> \<le> n" using pos_mod_sign [OF assms, of n] div_mult_mod_eq [of n k] by linarith
  finally show "a * k \<le> n" .
next
  assume "a * k \<le> n"
  then have "a * k div k \<le> n div k" using assms by (rule zdiv_mono1)
  then show "a \<le> n div k" using assms by simp
qed

lemma Money_Add_exact:
  assumes "money_ok m" "money_ok n" "currency m = currency n"
  shows "Money_Add m n =
    (if amountMinor m + amountMinor n \<le> MaxInt64
     then Inr \<lparr>amountMinor = amountMinor m + amountMinor n, currency = currency m\<rparr>
     else Inl ErrMoneyOverflow)"
  using assms by (auto simp: Money_Add_def money_ok_def go_num)

lemma Money_Multiply_exact:
  assumes "money_ok m" "0 \<le> k"
  shows "Money_Multiply m k =
    (if amountMinor m * k \<le> MaxInt64
     then Inr \<lparr>amountMinor = amountMinor m * k, currency = currency m\<rparr>
     else Inl ErrMoneyOverflow)"
proof (cases "k = 0")
  case True
  then show ?thesis by (simp add: Money_Multiply_def go_num)
next
  case False
  with assms(2) have k: "0 < k" by simp
  have guard: "quot MaxInt64 k < amountMinor m \<longleftrightarrow> MaxInt64 < amountMinor m * k"
    using le_div_iff_mult_le [OF k, of "amountMinor m" MaxInt64] k
    by (simp add: MaxInt64_def not_le [symmetric])
  have "in_int64 (amountMinor m * k)" if "amountMinor m * k \<le> MaxInt64"
  proof -
    have "0 \<le> amountMinor m * k" using assms by (simp add: money_ok_def)
    with that show ?thesis by (simp add: go_num)
  qed
  with guard k show ?thesis by (auto simp: Money_Multiply_def)
qed

lemma Money_Add_currency: "Money_Add m n = Inr r \<Longrightarrow> currency m = currency n"
  by (auto simp: Money_Add_def split: if_splits)

lemma Money_Multiply_nonneg: "Money_Multiply m k = Inr r \<Longrightarrow> 0 \<le> k"
  by (auto simp: Money_Multiply_def split: if_splits)

lemma Money_Add_ok:
  assumes "money_ok m" "money_ok n" "Money_Add m n = Inr r"
  shows "money_ok r \<and> amountMinor r = amountMinor m + amountMinor n \<and> currency r = currency m"
  using assms(3) Money_Add_exact [OF assms(1,2) Money_Add_currency [OF assms(3)]] assms(1,2)
  by (auto simp: money_ok_def split: if_splits)

lemma Money_Multiply_ok:
  assumes "money_ok m" "Money_Multiply m k = Inr r"
  shows "money_ok r \<and> amountMinor r = amountMinor m * k \<and> currency r = currency m"
  using assms(2) Money_Multiply_exact [OF assms(1) Money_Multiply_nonneg [OF assms(2)]] assms(1)
    Money_Multiply_nonneg [OF assms(2)]
  by (auto simp: money_ok_def split: if_splits)

text \<open>Adding an amount to zero \<open>k\<close> times.\<close>

fun add_times :: "nat \<Rightarrow> Money \<Rightarrow> MoneyError + Money" where
  "add_times 0 m = Inr \<lparr>amountMinor = 0, currency = currency m\<rparr>"
| "add_times (Suc k) m = (case add_times k m of Inl e \<Rightarrow> Inl e | Inr s \<Rightarrow> Money_Add s m)"

lemma add_times_exact:
  assumes "money_ok m"
  shows "add_times k m = (if amountMinor m * int k \<le> MaxInt64
    then Inr \<lparr>amountMinor = amountMinor m * int k, currency = currency m\<rparr> else Inl ErrMoneyOverflow)"
proof (induction k)
  case 0
  then show ?case by (simp add: MaxInt64_def)
next
  case (Suc k)
  have nn: "0 \<le> amountMinor m * int k" "0 \<le> amountMinor m" using assms by (simp_all add: money_ok_def)
  show ?case
  proof (cases "amountMinor m * int k \<le> MaxInt64")
    case True
    then have "money_ok \<lparr>amountMinor = amountMinor m * int k, currency = currency m\<rparr>"
      using assms nn by (simp add: money_ok_def)
    from Money_Add_exact [OF this assms] True Suc.IH show ?thesis
      by (simp add: algebra_simps)
  next
    case False
    then show ?thesis using Suc.IH nn by (simp add: algebra_simps)
  qed
qed

end
