(* ===== verification/Go_Strings.thy ===== *)
theory Go_Strings
  imports Rail_Prelude
begin

text \<open>
  The functions of Go's \<^verbatim>\<open>strings\<close> package that the platform uses to normalise input. On ASCII strings
  they are written out; a string with other bytes goes through the Unicode tables of the Go
  library, which are a parameter. A Go string is its list of bytes.
\<close>

record Unicode =
  uni_lower :: "string \<Rightarrow> string"
  uni_upper :: "string \<Rightarrow> string"
  uni_trim :: "string \<Rightarrow> string"

definition byte_of :: "char \<Rightarrow> nat" where
  "byte_of c = of_char c"

definition ascii_string :: "string \<Rightarrow> bool" where
  "ascii_string s \<longleftrightarrow> list_all (\<lambda>c. byte_of c < 128) s"

definition ascii_lower :: "char \<Rightarrow> char" where
  "ascii_lower c = (if 65 \<le> byte_of c \<and> byte_of c \<le> 90 then char_of (byte_of c + 32) else c)"

definition ascii_upper :: "char \<Rightarrow> char" where
  "ascii_upper c = (if 97 \<le> byte_of c \<and> byte_of c \<le> 122 then char_of (byte_of c - 32) else c)"

definition ascii_space :: "char \<Rightarrow> bool" where
  "ascii_space c \<longleftrightarrow> byte_of c \<in> {9, 10, 11, 12, 13, 32}"

definition ToLower :: "Unicode \<Rightarrow> string \<Rightarrow> string" where
  "ToLower u s = (if ascii_string s then map ascii_lower s else uni_lower u s)"

definition ToUpper :: "Unicode \<Rightarrow> string \<Rightarrow> string" where
  "ToUpper u s = (if ascii_string s then map ascii_upper s else uni_upper u s)"

definition TrimSpace :: "Unicode \<Rightarrow> string \<Rightarrow> string" where
  "TrimSpace u s =
     (if ascii_string s then rev (dropWhile ascii_space (rev (dropWhile ascii_space s)))
      else uni_trim u s)"

lemma byte_of_char_of [simp]: "n < 256 \<Longrightarrow> byte_of (char_of n) = n"
  by (simp add: byte_of_def)

lemma byte_of_lt [simp]: "byte_of c < 256"
  by (simp add: byte_of_def nat_of_char_less_256)

lemma ascii_lower_idem [simp]: "ascii_lower (ascii_lower c) = ascii_lower c"
  by (auto simp: ascii_lower_def)

lemma ascii_upper_idem [simp]: "ascii_upper (ascii_upper c) = ascii_upper c"
proof (cases "97 \<le> byte_of c \<and> byte_of c \<le> 122")
  case True
  then have "byte_of (char_of (byte_of c - 32)) = byte_of c - 32"
    by (intro byte_of_char_of) linarith
  with True show ?thesis by (auto simp: ascii_upper_def)
next
  case False
  then have "ascii_upper c = c" by (auto simp: ascii_upper_def)
  then show ?thesis by simp
qed

lemma ascii_string_lower [simp]: "ascii_string (map ascii_lower s) \<longleftrightarrow> ascii_string s"
  by (auto simp: ascii_string_def ascii_lower_def list_all_iff)

lemma ascii_string_upper [simp]: "ascii_string (map ascii_upper s) \<longleftrightarrow> ascii_string s"
  by (auto simp: ascii_string_def ascii_upper_def list_all_iff)

text \<open>A string without white space at either end, such as one made of letters and digits.\<close>

definition trimmed :: "string \<Rightarrow> bool" where
  "trimmed s \<longleftrightarrow> s = [] \<or> \<not> ascii_space (hd s) \<and> \<not> ascii_space (last s)"

lemma TrimSpace_trimmed: "ascii_string s \<Longrightarrow> trimmed s \<Longrightarrow> TrimSpace u s = s"
proof (cases s)
  case (Cons c cs)
  assume a: "ascii_string s" and t: "trimmed s"
  then have front: "dropWhile ascii_space s = s" by (simp add: trimmed_def Cons)
  have "rev s = last s # rev (butlast s)" using Cons
    by (metis append_butlast_last_id list.distinct(1) rev.simps(2) rev_rev_ident rev_swap)
  then have "dropWhile ascii_space (rev s) = rev s" using t by (simp add: trimmed_def Cons)
  with front a show ?thesis by (simp add: TrimSpace_def)
qed (simp add: TrimSpace_def ascii_string_def)

text \<open>The bytes of a string, and \<^verbatim>\<open>encoding/hex\<close>.\<close>

definition string_bytes :: "string \<Rightarrow> byte list" where
  "string_bytes s = map (\<lambda>c. word_of_nat (byte_of c)) s"

definition hex_char :: "nat \<Rightarrow> char" where
  "hex_char d = (if d < 10 then char_of (48 + d) else char_of (87 + d))"

definition EncodeToString :: "byte list \<Rightarrow> string" where
  "EncodeToString bs = concat (map (\<lambda>b. [hex_char (unat b div 16), hex_char (unat b mod 16)]) bs)"

definition hex_digit :: "char \<Rightarrow> bool" where
  "hex_digit c \<longleftrightarrow> 48 \<le> byte_of c \<and> byte_of c \<le> 57 \<or> 97 \<le> byte_of c \<and> byte_of c \<le> 102 \<or>
     65 \<le> byte_of c \<and> byte_of c \<le> 70"

definition hex_value :: "char \<Rightarrow> nat" where
  "hex_value c = (let b = byte_of c in if b \<le> 57 then b - 48 else if b \<le> 70 then b - 55 else b - 87)"

fun DecodeString :: "string \<Rightarrow> byte list option" where
  "DecodeString [] = Some []"
| "DecodeString [c] = None"
| "DecodeString (c # d # rest) =
     (if hex_digit c \<and> hex_digit d
      then map_option (\<lambda>bs. word_of_nat (hex_value c * 16 + hex_value d) # bs) (DecodeString rest)
      else None)"

end
