(* ===== verification/Offering_Domain.thy ===== *)
theory Offering_Domain
  imports Go_Strings
begin

text \<open>
  \<^verbatim>\<open>src/internal/offering/domain\<close>: seat classes, station codes, routes and train runs. The value
  objects validate their input; a train run moves along a fixed status machine; a route's segment
  count is what the inventory masks of its runs are sized by.
\<close>

subsection \<open>Seat classes\<close>

type_synonym SeatClass = string

definition SeatClass_IsValid :: "SeatClass \<Rightarrow> bool" where
  "SeatClass_IsValid c \<longleftrightarrow> c = ''standard'' \<or> c = ''business'' \<or> c = ''first''"

datatype OfferingError =
    ErrInvalidSeatClass
  | ErrInvalidStationCode
  | ErrInvalidRoute
  | ErrInvalidRouteStop
  | ErrRouteNeedsTwoStops
  | ErrNonContiguousStopIndices
  | ErrDuplicateRouteStation
  | ErrNondecreasingStopOffsets
  | ErrInvalidTrainRunStatus
  | ErrInvalidSegmentCount
  | ErrSegmentCountMismatch
  | ErrTrainRunNotBookable
  | ErrInvalidTrainRunTransition

definition ParseSeatClass :: "Unicode \<Rightarrow> string \<Rightarrow> OfferingError + SeatClass" where
  "ParseSeatClass u input =
     (let seatClass = ToLower u (TrimSpace u input) in
      if SeatClass_IsValid seatClass then Inr seatClass else Inl ErrInvalidSeatClass)"

subsection \<open>Station codes\<close>

type_synonym StationCode = string

definition station_char :: "char \<Rightarrow> bool" where
  "station_char c \<longleftrightarrow>
     \<not> ((byte_of c < byte_of CHR ''A'' \<or> byte_of CHR ''Z'' < byte_of c) \<and>
        (byte_of c < byte_of CHR ''0'' \<or> byte_of CHR ''9'' < byte_of c))"

definition NewStationCode :: "Unicode \<Rightarrow> string \<Rightarrow> OfferingError + StationCode" where
  "NewStationCode u input =
     (let normalized = ToUpper u (TrimSpace u input) in
      if length normalized < 2 \<or> 12 < length normalized then Inl ErrInvalidStationCode
      else if \<not> list_all station_char normalized then Inl ErrInvalidStationCode
      else Inr normalized)"

definition StationCode_IsValid :: "Unicode \<Rightarrow> StationCode \<Rightarrow> bool" where
  "StationCode_IsValid u c \<longleftrightarrow>
     (case NewStationCode u c of Inl _ \<Rightarrow> False | Inr _ \<Rightarrow> c = ToUpper u (TrimSpace u c))"

text \<open>The normal form: two to twelve upper-case letters and digits.\<close>

definition station_code_form :: "string \<Rightarrow> bool" where
  "station_code_form s \<longleftrightarrow> 2 \<le> length s \<and> length s \<le> 12 \<and> list_all station_char s"

lemma station_char_ascii: "station_char c \<Longrightarrow> byte_of c < 128 \<and> \<not> ascii_space c \<and> ascii_upper c = c"
  by (auto simp: station_char_def ascii_space_def ascii_upper_def byte_of_def)

lemma station_form_fixed:
  assumes "station_code_form s"
  shows "ToUpper u (TrimSpace u s) = s"
proof -
  have chars: "list_all station_char s" and "s \<noteq> []" using assms by (auto simp: station_code_form_def)
  then have "ascii_string s" using station_char_ascii by (auto simp: ascii_string_def list_all_iff)
  moreover have "trimmed s"
    using chars \<open>s \<noteq> []\<close> station_char_ascii by (auto simp: trimmed_def list_all_iff)
  moreover have "map ascii_upper s = s"
    using chars station_char_ascii by (simp add: map_idI list_all_iff)
  ultimately show ?thesis by (simp add: TrimSpace_trimmed ToUpper_def)
qed

lemma NewStationCode_form: "NewStationCode u s = Inr c \<Longrightarrow> station_code_form c"
  by (auto simp: NewStationCode_def station_code_form_def Let_def split: if_splits)

lemma StationCode_IsValid_iff: "StationCode_IsValid u c \<longleftrightarrow> station_code_form c"
proof
  assume "StationCode_IsValid u c"
  then obtain d where "NewStationCode u c = Inr d" "c = ToUpper u (TrimSpace u c)"
    by (auto simp: StationCode_IsValid_def split: sum.splits)
  then have "d = c" by (auto simp: NewStationCode_def Let_def split: if_splits)
  then show "station_code_form c" using \<open>NewStationCode u c = Inr d\<close> NewStationCode_form by auto
next
  assume f: "station_code_form c"
  then have "NewStationCode u c = Inr c"
    using station_form_fixed [OF f, of u] by (simp add: NewStationCode_def station_code_form_def Let_def)
  with f show "StationCode_IsValid u c" by (simp add: StationCode_IsValid_def station_form_fixed)
qed

subsection \<open>Routes\<close>

record RouteStop =
  stationCode :: StationCode
  stopIndex :: int
  arrivalOffsetMinutes :: int
  departureOffsetMinutes :: int

definition NewRouteStop :: "Unicode \<Rightarrow> StationCode \<Rightarrow> int \<Rightarrow> int \<Rightarrow> int \<Rightarrow> OfferingError + RouteStop" where
  "NewRouteStop u code index arrival departure =
     (if \<not> StationCode_IsValid u code \<or> index < 0 then Inl ErrInvalidRouteStop
      else if arrival < 0 \<or> departure < arrival then Inl ErrNondecreasingStopOffsets
      else Inr \<lparr>stationCode = code, stopIndex = index, arrivalOffsetMinutes = arrival,
                departureOffsetMinutes = departure\<rparr>)"

record Route =
  route_code :: string
  route_name :: string
  route_stops :: "RouteStop list"

text \<open>
  The loop of \<^verbatim>\<open>NewRoute\<close>: the index, the stations seen so far and the previous stop are its state.
\<close>

fun check_stops :: "Unicode \<Rightarrow> int \<Rightarrow> StationCode list \<Rightarrow> RouteStop option \<Rightarrow> RouteStop list \<Rightarrow> OfferingError option" where
  "check_stops u index seen prev [] = None"
| "check_stops u index seen prev (stop # rest) =
     (if \<not> StationCode_IsValid u (stationCode stop) \<or> arrivalOffsetMinutes stop < 0 \<or>
         departureOffsetMinutes stop < arrivalOffsetMinutes stop
      then Some ErrInvalidRouteStop
      else if stopIndex stop \<noteq> index then Some ErrNonContiguousStopIndices
      else if stationCode stop \<in> set seen then Some ErrDuplicateRouteStation
      else if (case prev of None \<Rightarrow> False
               | Some p \<Rightarrow> arrivalOffsetMinutes stop < departureOffsetMinutes p)
      then Some ErrNondecreasingStopOffsets
      else check_stops u (index + 1) (stationCode stop # seen) (Some stop) rest)"

definition NewRoute :: "Unicode \<Rightarrow> string \<Rightarrow> string \<Rightarrow> RouteStop list \<Rightarrow> OfferingError + Route" where
  "NewRoute u code name stops =
     (let normalizedCode = ToUpper u (TrimSpace u code); normalizedName = TrimSpace u name in
      if normalizedCode = [] \<or> normalizedName = [] then Inl ErrInvalidRoute
      else if length stops < 2 then Inl ErrRouteNeedsTwoStops
      else case check_stops u 0 [] None stops of
             Some e \<Rightarrow> Inl e
           | None \<Rightarrow> Inr \<lparr>route_code = normalizedCode, route_name = normalizedName, route_stops = stops\<rparr>)"

definition Route_SegmentCount :: "Route \<Rightarrow> int" where
  "Route_SegmentCount r = (if length (route_stops r) < 2 then 0 else int (length (route_stops r)) - 1)"

text \<open>
  What a route promises to the booking side: the stops are numbered 0, 1, \<open>\<dots>\<close>, visit different
  stations with valid codes, and time never runs backwards along them.
\<close>

definition stops_ok :: "Unicode \<Rightarrow> RouteStop list \<Rightarrow> bool" where
  "stops_ok u stops \<longleftrightarrow>
     (\<forall>i < length stops. stopIndex (stops ! i) = int i \<and> StationCode_IsValid u (stationCode (stops ! i)) \<and>
        0 \<le> arrivalOffsetMinutes (stops ! i) \<and>
        arrivalOffsetMinutes (stops ! i) \<le> departureOffsetMinutes (stops ! i)) \<and>
     (\<forall>i. Suc i < length stops \<longrightarrow>
        departureOffsetMinutes (stops ! i) \<le> arrivalOffsetMinutes (stops ! Suc i)) \<and>
     distinct (map stationCode stops)"

definition stop_ok_at :: "Unicode \<Rightarrow> int \<Rightarrow> RouteStop \<Rightarrow> bool" where
  "stop_ok_at u k s \<longleftrightarrow> stopIndex s = k \<and> StationCode_IsValid u (stationCode s) \<and>
     0 \<le> arrivalOffsetMinutes s \<and> arrivalOffsetMinutes s \<le> departureOffsetMinutes s"

fun prev_ok :: "RouteStop option \<Rightarrow> RouteStop list \<Rightarrow> bool" where
  "prev_ok (Some p) (s # _) \<longleftrightarrow> departureOffsetMinutes p \<le> arrivalOffsetMinutes s"
| "prev_ok _ _ \<longleftrightarrow> True"

lemma all_less_Suc_iff: "(\<forall>i < Suc n. P i) \<longleftrightarrow> P 0 \<and> (\<forall>i < n. P (Suc i))"
  using less_Suc_eq_0_disj by auto

lemma check_stops_None:
  "check_stops u k seen prev stops = None \<longleftrightarrow>
     (\<forall>i < length stops. stop_ok_at u (k + int i) (stops ! i)) \<and>
     (\<forall>i. Suc i < length stops \<longrightarrow>
        departureOffsetMinutes (stops ! i) \<le> arrivalOffsetMinutes (stops ! Suc i)) \<and>
     distinct (map stationCode stops) \<and> set (map stationCode stops) \<inter> set seen = {} \<and>
     prev_ok prev stops"
proof (induction stops arbitrary: k seen prev)
  case (Cons s rest)
  have next_dep: "(\<forall>i. Suc i < length (s # rest) \<longrightarrow>
        departureOffsetMinutes ((s # rest) ! i) \<le> arrivalOffsetMinutes ((s # rest) ! Suc i)) \<longleftrightarrow>
      prev_ok (Some s) rest \<and>
      (\<forall>i. Suc i < length rest \<longrightarrow> departureOffsetMinutes (rest ! i) \<le> arrivalOffsetMinutes (rest ! Suc i))"
    by (cases rest) (auto simp: nth_Cons split: nat.splits)
  have all: "(\<forall>i < length (s # rest). stop_ok_at u (k + int i) ((s # rest) ! i)) \<longleftrightarrow>
      stop_ok_at u k s \<and> (\<forall>i < length rest. stop_ok_at u (k + 1 + int i) (rest ! i))"
    by (simp add: all_less_Suc_iff ac_simps)
  have dup: "distinct (map stationCode (s # rest)) \<and> set (map stationCode (s # rest)) \<inter> set seen = {} \<longleftrightarrow>
      stationCode s \<notin> set seen \<and> distinct (map stationCode rest) \<and>
      set (map stationCode rest) \<inter> set (stationCode s # seen) = {}"
    by auto
  have step: "check_stops u k seen prev (s # rest) = None \<longleftrightarrow>
      stop_ok_at u k s \<and> stationCode s \<notin> set seen \<and> prev_ok prev (s # rest) \<and>
      check_stops u (k + 1) (stationCode s # seen) (Some s) rest = None"
    by (cases prev) (auto simp: stop_ok_at_def)
  show ?case unfolding step all next_dep Cons.IH using dup by blast
qed (cases prev; simp)

lemma check_stops_ok: "check_stops u 0 [] None stops = None \<longleftrightarrow> stops_ok u stops"
  unfolding check_stops_None stops_ok_def stop_ok_at_def by auto

subsection \<open>Train runs\<close>

datatype TrainRunStatus =
    TrainRunStatusScheduled
  | TrainRunStatusBoarding
  | TrainRunStatusDeparted
  | TrainRunStatusCancelled
  | TrainRunStatusCompleted
  | TrainRunStatusOther string

text \<open>\<^verbatim>\<open>TrainRunStatus\<close> is a string type; \<open>TrainRunStatusOther\<close> is any string that is no constant of it.\<close>

definition train_run_status_of :: "string \<Rightarrow> TrainRunStatus" where
  "train_run_status_of s =
     (if s = ''scheduled'' then TrainRunStatusScheduled
      else if s = ''boarding'' then TrainRunStatusBoarding
      else if s = ''departed'' then TrainRunStatusDeparted
      else if s = ''cancelled'' then TrainRunStatusCancelled
      else if s = ''completed'' then TrainRunStatusCompleted
      else TrainRunStatusOther s)"

fun TrainRunStatus_IsValid :: "TrainRunStatus \<Rightarrow> bool" where
  "TrainRunStatus_IsValid (TrainRunStatusOther _) = False"
| "TrainRunStatus_IsValid _ = True"

definition ParseTrainRunStatus :: "Unicode \<Rightarrow> string \<Rightarrow> OfferingError + TrainRunStatus" where
  "ParseTrainRunStatus u input =
     (let status = train_run_status_of (ToLower u (TrimSpace u input)) in
      if \<not> TrainRunStatus_IsValid status then Inl ErrInvalidTrainRunStatus else Inr status)"

definition ValidateTrainRunTransition :: "TrainRunStatus \<Rightarrow> TrainRunStatus \<Rightarrow> OfferingError + unit" where
  "ValidateTrainRunTransition current next =
     (if \<not> TrainRunStatus_IsValid current \<or> \<not> TrainRunStatus_IsValid next then Inl ErrInvalidTrainRunStatus
      else if current = next then Inr ()
      else case current of
             TrainRunStatusScheduled \<Rightarrow>
               if next = TrainRunStatusBoarding \<or> next = TrainRunStatusCancelled then Inr ()
               else Inl ErrInvalidTrainRunTransition
           | TrainRunStatusBoarding \<Rightarrow>
               if next = TrainRunStatusDeparted \<or> next = TrainRunStatusCancelled then Inr ()
               else Inl ErrInvalidTrainRunTransition
           | TrainRunStatusDeparted \<Rightarrow>
               if next = TrainRunStatusCompleted then Inr () else Inl ErrInvalidTrainRunTransition
           | _ \<Rightarrow> Inl ErrInvalidTrainRunTransition)"

record TrainRun =
  run_status :: TrainRunStatus
  run_segmentCount :: int

definition NewTrainRun :: "TrainRunStatus \<Rightarrow> int \<Rightarrow> OfferingError + TrainRun" where
  "NewTrainRun status segmentCount =
     (if \<not> TrainRunStatus_IsValid status then Inl ErrInvalidTrainRunStatus
      else if segmentCount \<le> 0 then Inl ErrInvalidSegmentCount
      else Inr \<lparr>run_status = status, run_segmentCount = segmentCount\<rparr>)"

definition IsBookable :: "TrainRun \<Rightarrow> bool" where
  "IsBookable r \<longleftrightarrow> run_status r = TrainRunStatusScheduled"

definition EnsureBookable :: "TrainRun \<Rightarrow> OfferingError + unit" where
  "EnsureBookable r = (if \<not> IsBookable r then Inl ErrTrainRunNotBookable else Inr ())"

definition ValidateRoute :: "TrainRun \<Rightarrow> Route \<Rightarrow> OfferingError + unit" where
  "ValidateRoute r route =
     (if Route_SegmentCount route \<le> 0 then Inl ErrInvalidRoute
      else if run_segmentCount r \<noteq> Route_SegmentCount route then Inl ErrSegmentCountMismatch
      else Inr ())"

text \<open>The rank of a status: every accepted change goes strictly up, so a run never comes back.\<close>

fun run_rank :: "TrainRunStatus \<Rightarrow> nat" where
  "run_rank TrainRunStatusScheduled = 0"
| "run_rank TrainRunStatusBoarding = 1"
| "run_rank TrainRunStatusDeparted = 2"
| "run_rank TrainRunStatusCompleted = 3"
| "run_rank TrainRunStatusCancelled = 3"
| "run_rank (TrainRunStatusOther _) = 0"

definition run_change :: "TrainRunStatus \<Rightarrow> TrainRunStatus \<Rightarrow> bool" where
  "run_change s t \<longleftrightarrow> ValidateTrainRunTransition s t = Inr () \<and> s \<noteq> t"

lemma run_change_rank: "run_change s t \<Longrightarrow> run_rank s < run_rank t"
  by (cases s; cases t) (auto simp: run_change_def ValidateTrainRunTransition_def)

lemma run_changes_rank: "run_change\<^sup>+\<^sup>+ s t \<Longrightarrow> run_rank s < run_rank t"
  by (induction rule: tranclp_induct) (auto dest: run_change_rank intro: less_trans)

end
