(* ===== verification/Shard_Route.thy ===== *)
theory Shard_Route
  imports Rail_Prelude
begin

text \<open>
  \<^verbatim>\<open>src/internal/sharding/types.go\<close> and \<^verbatim>\<open>router.go\<close>: the fixed logical topology, the fencing
  generation and the route value that the booking store, the route cache and the routers share.
  A \<^verbatim>\<open>ShardID\<close> is a Go string type, so any string can be written in it; \<open>ParseShardID\<close> is the
  allowlist.
\<close>

type_synonym ShardID = string
type_synonym AssignmentGeneration = int64

datatype ShardTypeError = ErrInvalidShardID | ErrInvalidAssignmentGeneration | ErrInvalidShardRoute

datatype RouteErrorCode =
    RouteErrorAssignmentStale
  | RouteErrorWriteFenced
  | RouteErrorShardUnavailable
  | RouteErrorTrainRunMigrating
  | RouteErrorLocatorNotFound

definition ShardLegacy :: ShardID where "ShardLegacy = ''legacy''"
definition ShardZero :: ShardID where "ShardZero = ''shard-0''"
definition ShardOne :: ShardID where "ShardOne = ''shard-1''"
definition ShardPhysicalZero :: ShardID where "ShardPhysicalZero = ''physical-shard-0''"
definition ShardPhysicalOne :: ShardID where "ShardPhysicalOne = ''physical-shard-1''"

lemmas shard_id_defs = ShardLegacy_def ShardZero_def ShardOne_def ShardPhysicalZero_def
  ShardPhysicalOne_def

definition SupportedFencingProtocolVersion :: int where
  "SupportedFencingProtocolVersion = 1"

definition ParseShardID :: "string \<Rightarrow> ShardTypeError + ShardID" where
  "ParseShardID raw =
     (if raw = ShardLegacy \<or> raw = ShardZero \<or> raw = ShardOne \<or>
         raw = ShardPhysicalZero \<or> raw = ShardPhysicalOne
      then Inr raw else Inl ErrInvalidShardID)"

text \<open>The loop of \<open>ParseShardIDs\<close>: \<open>seen\<close> and the result so far, in order.\<close>

fun parse_shard_ids :: "string list \<Rightarrow> ShardID list \<Rightarrow> ShardTypeError + ShardID list" where
  "parse_shard_ids [] result = Inr result"
| "parse_shard_ids (value # rest) result =
     (case ParseShardID value of
        Inl e \<Rightarrow> Inl e
      | Inr sid \<Rightarrow> if sid \<in> set result then Inl ErrInvalidShardID
                  else parse_shard_ids rest (result @ [sid]))"

definition ParseShardIDs :: "string list \<Rightarrow> ShardTypeError + ShardID list" where
  "ParseShardIDs raw =
     (if raw = [] \<or> 5 < length raw then Inl ErrInvalidShardID else parse_shard_ids raw [])"

definition NewAssignmentGeneration :: "int64 \<Rightarrow> ShardTypeError + AssignmentGeneration" where
  "NewAssignmentGeneration value = (if value \<le> 0 then Inl ErrInvalidAssignmentGeneration else Inr value)"

record ShardRoute =
  route_trainRunID :: uuid
  route_shardID :: ShardID
  route_generation :: AssignmentGeneration

definition NewShardRoute :: "uuid \<Rightarrow> ShardID \<Rightarrow> AssignmentGeneration \<Rightarrow> ShardTypeError + ShardRoute" where
  "NewShardRoute trainRunID shardID generation =
     (if trainRunID = uuid_Nil \<or> generation \<le> 0 then Inl ErrInvalidShardRoute
      else case ParseShardID shardID of
             Inl e \<Rightarrow> Inl ErrInvalidShardRoute
           | Inr s \<Rightarrow> Inr \<lparr>route_trainRunID = trainRunID, route_shardID = shardID,
                          route_generation = generation\<rparr>)"

definition route_ok :: "ShardRoute \<Rightarrow> bool" where
  "route_ok r \<longleftrightarrow> route_trainRunID r \<noteq> uuid_Nil \<and> 0 < route_generation r \<and>
     route_shardID r \<in> set [ShardLegacy, ShardZero, ShardOne, ShardPhysicalZero, ShardPhysicalOne]"

lemma NewShardRoute_ok: "NewShardRoute t s g = Inr r \<Longrightarrow> route_ok r"
  by (auto simp: NewShardRoute_def ParseShardID_def route_ok_def split: if_splits sum.splits)

lemma parse_shard_ids_spec:
  "distinct acc \<Longrightarrow> parse_shard_ids raw acc = Inr ids \<Longrightarrow>
     ids = acc @ raw \<and> distinct (acc @ raw) \<and>
     set raw \<subseteq> {ShardLegacy, ShardZero, ShardOne, ShardPhysicalZero, ShardPhysicalOne}"
proof (induction raw arbitrary: acc)
  case (Cons v raw)
  then have id: "ParseShardID v = Inr v" and v: "v \<notin> set acc"
    and rest: "parse_shard_ids raw (acc @ [v]) = Inr ids"
    by (auto simp: ParseShardID_def split: if_splits)
  show ?case using Cons.IH [OF _ rest] Cons.prems(1) v id
    by (auto simp: ParseShardID_def split: if_splits)
qed simp

text \<open>
  The string a parsed list comes from is the list itself, in order, without repetition and inside
  the allowlist: an operator's order of shards is the order in which workers walk them.
\<close>

lemma ParseShardIDs_spec:
  "ParseShardIDs raw = Inr ids \<Longrightarrow>
     ids = raw \<and> distinct ids \<and> 0 < length ids \<and> length ids \<le> 5 \<and>
     set ids \<subseteq> {ShardLegacy, ShardZero, ShardOne, ShardPhysicalZero, ShardPhysicalOne}"
  using parse_shard_ids_spec [of "[]" raw ids]
  by (auto simp: ParseShardIDs_def not_less split: if_splits)

end
