(* ===== verification/Tx_Monad.thy ===== *)
theory Tx_Monad
  imports Rail_Prelude
begin

text \<open>
  Database transactions. A transaction body is a state transformer that may fail: every Go function
  that receives an open transaction returns either an error or a value and the changed tables.
  \<open>run_tx\<close> is the pair of a deferred \<^verbatim>\<open>Rollback\<close> and a final \<^verbatim>\<open>Commit\<close>: a failing body leaves the
  tables as they were.

  The second half holds the two relations in which the component proofs are phrased: \<open>tx_frame v m\<close>
  (a successful run of \<open>m\<close> does not change the view \<open>v\<close>) and \<open>tx_keeps P m\<close> (a successful run
  of \<open>m\<close> keeps the invariant \<open>P\<close>), with one rule per combinator.
\<close>

type_synonym ('s, 'e, 'a) tx = "'s \<Rightarrow> 'e + ('a \<times> 's)"

definition tx_return :: "'a \<Rightarrow> ('s, 'e, 'a) tx" where
  "tx_return x = (\<lambda>s. Inr (x, s))"

definition tx_fail :: "'e \<Rightarrow> ('s, 'e, 'a) tx" where
  "tx_fail e = (\<lambda>s. Inl e)"

definition tx_bind :: "('s, 'e, 'a) tx \<Rightarrow> ('a \<Rightarrow> ('s, 'e, 'b) tx) \<Rightarrow> ('s, 'e, 'b) tx" where
  "tx_bind m f = (\<lambda>s. case m s of Inl e \<Rightarrow> Inl e | Inr (x, s') \<Rightarrow> f x s')"

definition tx_get :: "('s \<Rightarrow> 'a) \<Rightarrow> ('s, 'e, 'a) tx" where
  "tx_get f = (\<lambda>s. Inr (f s, s))"

definition tx_modify :: "('s \<Rightarrow> 's) \<Rightarrow> ('s, 'e, unit) tx" where
  "tx_modify f = (\<lambda>s. Inr ((), f s))"

text \<open>Go's \<^verbatim>\<open>if bad { return err }\<close> and \<^verbatim>\<open>if row == nil { return err }\<close>.\<close>

definition tx_reject :: "bool \<Rightarrow> 'e \<Rightarrow> ('s, 'e, unit) tx" where
  "tx_reject bad e = (if bad then tx_fail e else tx_return ())"

definition tx_some :: "'a option \<Rightarrow> 'e \<Rightarrow> ('s, 'e, 'a) tx" where
  "tx_some x e = (case x of None \<Rightarrow> tx_fail e | Some y \<Rightarrow> tx_return y)"

definition tx_result :: "('x \<Rightarrow> 'e) \<Rightarrow> 'x + 'a \<Rightarrow> ('s, 'e, 'a) tx" where
  "tx_result wrap r = (case r of Inl x \<Rightarrow> tx_fail (wrap x) | Inr y \<Rightarrow> tx_return y)"

fun tx_each :: "('a \<Rightarrow> ('s, 'e, unit) tx) \<Rightarrow> 'a list \<Rightarrow> ('s, 'e, unit) tx" where
  "tx_each f [] = tx_return ()"
| "tx_each f (x # xs) = tx_bind (f x) (\<lambda>_. tx_each f xs)"

definition run_tx :: "('s, 'e, 'a) tx \<Rightarrow> 's \<Rightarrow> ('e + 'a) \<times> 's" where
  "run_tx m s = (case m s of Inl e \<Rightarrow> (Inl e, s) | Inr (x, s') \<Rightarrow> (Inr x, s'))"

lemmas tx_defs = tx_return_def tx_fail_def tx_bind_def tx_get_def tx_modify_def tx_reject_def
  tx_some_def tx_result_def

lemma tx_bind_eq_Inr [simp]:
  "tx_bind m f s = Inr r \<longleftrightarrow> (\<exists>x s'. m s = Inr (x, s') \<and> f x s' = Inr r)"
  by (auto simp: tx_bind_def split: sum.splits)

lemma tx_return_eq_Inr [simp]: "tx_return x s = Inr r \<longleftrightarrow> r = (x, s)"
  by (auto simp: tx_return_def)

lemma tx_fail_eq_Inr [simp]: "tx_fail e s \<noteq> Inr r"
  by (simp add: tx_fail_def)

lemma tx_get_eq_Inr [simp]: "tx_get f s = Inr r \<longleftrightarrow> r = (f s, s)"
  by (auto simp: tx_get_def)

lemma tx_modify_eq_Inr [simp]: "tx_modify f s = Inr r \<longleftrightarrow> r = ((), f s)"
  by (auto simp: tx_modify_def)

lemma tx_reject_eq_Inr [simp]: "tx_reject b e s = Inr r \<longleftrightarrow> \<not> b \<and> r = ((), s)"
  by (auto simp: tx_reject_def)

lemma tx_some_eq_Inr [simp]: "tx_some x e s = Inr r \<longleftrightarrow> (\<exists>y. x = Some y \<and> r = (y, s))"
  by (auto simp: tx_some_def split: option.splits)

lemma tx_result_eq_Inr [simp]: "tx_result w x s = Inr r \<longleftrightarrow> (\<exists>y. x = Inr y \<and> r = (y, s))"
  by (auto simp: tx_result_def split: sum.splits)

lemma run_tx_eq [simp]:
  "m s = Inl e \<Longrightarrow> run_tx m s = (Inl e, s)"
  "m s = Inr (x, s') \<Longrightarrow> run_tx m s = (Inr x, s')"
  by (simp_all add: run_tx_def)

lemma run_tx_Inr: "run_tx m s = (Inr x, s') \<longleftrightarrow> m s = Inr (x, s')"
  by (auto simp: run_tx_def split: sum.splits)

lemma run_tx_Inl: "run_tx m s = (Inl e, s') \<longleftrightarrow> m s = Inl e \<and> s' = s"
  by (auto simp: run_tx_def split: sum.splits)

subsection \<open>Frames and invariants\<close>

named_theorems tx_frame_rules \<open>which views a transaction step leaves alone\<close>

definition tx_frame :: "('s \<Rightarrow> 'v) \<Rightarrow> ('s, 'e, 'a) tx \<Rightarrow> bool" where
  "tx_frame v m \<longleftrightarrow> (\<forall>s x s'. m s = Inr (x, s') \<longrightarrow> v s' = v s)"

lemma tx_frameD: "tx_frame v m \<Longrightarrow> m s = Inr (x, s') \<Longrightarrow> v s' = v s"
  by (auto simp: tx_frame_def)

lemma tx_frame_bind [tx_frame_rules]:
  "tx_frame v m \<Longrightarrow> (\<And>x. tx_frame v (f x)) \<Longrightarrow> tx_frame v (tx_bind m f)"
  unfolding tx_frame_def tx_bind_eq_Inr by (metis)

lemma tx_frame_basic [tx_frame_rules]:
  "tx_frame v (tx_return x)" "tx_frame v (tx_fail e)" "tx_frame v (tx_get g)"
  "tx_frame v (tx_reject b e)" "tx_frame v (tx_some y e)" "tx_frame v (tx_result w r)"
  by (simp_all add: tx_frame_def)

lemma tx_frame_modify [tx_frame_rules]: "(\<And>s. v (g s) = v s) \<Longrightarrow> tx_frame v (tx_modify g)"
  by (simp add: tx_frame_def)

lemma tx_frame_if [tx_frame_rules]:
  "(b \<Longrightarrow> tx_frame v m) \<Longrightarrow> (\<not> b \<Longrightarrow> tx_frame v n) \<Longrightarrow> tx_frame v (if b then m else n)"
  by simp

lemma tx_frame_option [tx_frame_rules]:
  "(x = None \<Longrightarrow> tx_frame v m) \<Longrightarrow> (\<And>y. x = Some y \<Longrightarrow> tx_frame v (f y)) \<Longrightarrow>
     tx_frame v (case x of None \<Rightarrow> m | Some y \<Rightarrow> f y)"
  by (cases x) simp_all

lemma tx_frame_each: "(\<And>x. tx_frame v (f x)) \<Longrightarrow> tx_frame v (tx_each f xs)"
  by (induction xs) (simp_all add: tx_frame_rules)

definition tx_keeps :: "('s \<Rightarrow> bool) \<Rightarrow> ('s, 'e, 'a) tx \<Rightarrow> bool" where
  "tx_keeps P m \<longleftrightarrow> (\<forall>s x s'. P s \<longrightarrow> m s = Inr (x, s') \<longrightarrow> P s')"

lemma tx_keepsD: "tx_keeps P m \<Longrightarrow> m s = Inr (x, s') \<Longrightarrow> P s \<Longrightarrow> P s'"
  by (auto simp: tx_keeps_def)

named_theorems tx_keeps_rules \<open>which transaction steps keep an invariant\<close>

lemma tx_keeps_bind [tx_keeps_rules]:
  "tx_keeps P m \<Longrightarrow> (\<And>x. tx_keeps P (f x)) \<Longrightarrow> tx_keeps P (tx_bind m f)"
  unfolding tx_keeps_def tx_bind_eq_Inr by metis

lemma tx_keeps_if [tx_keeps_rules]:
  "(b \<Longrightarrow> tx_keeps P m) \<Longrightarrow> (\<not> b \<Longrightarrow> tx_keeps P n) \<Longrightarrow> tx_keeps P (if b then m else n)"
  by simp

lemma tx_keeps_frame: "tx_frame v m \<Longrightarrow> tx_keeps (\<lambda>s. P (v s)) m"
  by (auto simp: tx_frame_def tx_keeps_def)

text \<open>A transaction that fails rolls back; so an invariant a body keeps holds whatever the outcome.\<close>

lemma run_tx_keeps: "tx_keeps P m \<Longrightarrow> P s \<Longrightarrow> P (snd (run_tx m s))"
  by (auto simp: tx_keeps_def run_tx_def split: sum.splits)

lemma tx_keeps_run: "(\<And>s. P s \<Longrightarrow> P (snd (run_tx m s))) \<Longrightarrow> tx_keeps P m"
  by (force simp: tx_keeps_def)

end
