(* ===== verification/Booking_Db.thy ===== *)
theory Booking_Db
  imports Varbit Money Offering_Domain Shard_Route Tx_Monad "HOL-Library.List_Lexorder" "HOL-Library.Product_Lexorder"
begin

text \<open>
  The tables behind \<^verbatim>\<open>src/internal/booking/postgres\<close>, the errors of that package and what a
  transaction takes from outside the tables.

  A table is the list of its rows; a row has the columns that the modelled queries read or write.
  The tables of one booking schema (\<^verbatim>\<open>public\<close>, \<^verbatim>\<open>booking_shard_0\<close>, \<^verbatim>\<open>booking_shard_1\<close>) are
  \<open>LocalTables\<close>; all others are shared and live in \<^verbatim>\<open>public\<close>. Inserts check the table's primary key
  and unique constraints; a violation, like every other error of a statement, is \<open>ErrDatabase\<close> with
  the statement and its SQLSTATE.

  \<open>TxEnv\<close> collects what the database, the clock and the random source decide: the readings of
  \<^verbatim>\<open>clock_timestamp()\<close>, the identifiers drawn by \<^verbatim>\<open>uuid.New\<close> and \<^verbatim>\<open>gen_random_uuid\<close>, the rows that
  other transactions have locked (which \<^verbatim>\<open>SKIP LOCKED\<close> skips), the collation of text columns, the
  JSON encoder, the Unicode table behind \<^verbatim>\<open>strings.ToLower\<close> and the statements that fail.
\<close>

subsection \<open>Errors\<close>

datatype BookingError =
    ErrInvalidArgument
  | ErrInsufficientInventory
  | ErrNotFound
  | ErrNotBookable
  | ErrReservationExpired
  | ErrPassengerConflict
  | ErrReservationQuotaExceeded
  | ErrAdmissionRequired
  | ErrAdmissionPolicyChanged
  | ErrInvalidState
  | ErrPersistenceInvariant
  | ErrIdempotencyConflict
  | ErrIdempotencyInProgress
  | ErrMoney MoneyError
  | ErrShard RouteErrorCode
  | ErrDatabase string string
  | ErrEncodePayload
  | ErrSegmentBits SegmentBitsError
  | ErrContext

definition isRetryableTransactionError :: "BookingError \<Rightarrow> bool" where
  "isRetryableTransactionError err =
     (case err of ErrDatabase _ code \<Rightarrow> code = ''40001'' \<or> code = ''40P01'' | _ \<Rightarrow> False)"

subsection \<open>Shared tables\<close>

record TrainRunRow =
  tr_id :: uuid
  tr_train :: uuid
  tr_route :: uuid
  tr_segment_count :: int
  tr_status :: string

record CoachRow =
  coach_id :: uuid
  coach_train :: uuid
  coach_number :: string
  coach_class :: string

record SeatRow =
  seat_id :: uuid
  seat_coach :: uuid
  seat_number :: string
  seat_active :: bool

record PassengerRow =
  passenger_id :: uuid
  passenger_user :: uuid

record FareRow =
  fare_active :: bool
  fare_from :: int
  fare_to :: int
  fare_class :: string
  fare_train_run :: "uuid option"
  fare_route :: "uuid option"
  fare_amount :: int64
  fare_currency :: string

record PolicyRow =
  policy_id :: uuid
  policy_version :: int64
  policy_train_run :: uuid
  policy_class :: string
  policy_enabled :: bool

record AssignmentRow =
  as_train_run :: uuid
  as_shard :: string
  as_generation :: int64
  as_state :: string
  as_migration :: "uuid option"

record ShardRow =
  sh_id :: string
  sh_enabled :: bool
  sh_write_enabled :: bool
  sh_state :: string
  sh_min_protocol :: int

record GenerationWriteRow =
  gw_train_run :: uuid
  gw_generation :: int64
  gw_shard :: string
  gw_migration :: uuid
  gw_count :: int64

record QuotaClaimRow =
  qc_reservation :: uuid
  qc_user :: uuid
  qc_train_run :: uuid
  qc_passengers :: int
  qc_active :: bool

record KeyClaimRow =
  kc_id :: uuid
  kc_user :: uuid
  kc_operation :: string
  kc_key :: "byte list"
  kc_fingerprint :: "byte list"
  kc_train_run :: "uuid option"
  kc_expires :: gotime

record ReservationLocator =
  rl_reservation :: uuid
  rl_train_run :: uuid
  rl_shard :: string
  rl_generation :: int64
  rl_owner :: uuid

record TicketOrderLocator =
  ol_order :: uuid
  ol_reservation :: uuid
  ol_train_run :: uuid
  ol_shard :: string
  ol_generation :: int64
  ol_owner :: uuid
  ol_status :: string
  ol_total :: int64
  ol_currency :: string
  ol_created :: gotime

record TicketLocator =
  tl_ticket :: uuid
  tl_order :: uuid
  tl_reservation :: uuid
  tl_train_run :: uuid
  tl_shard :: string
  tl_generation :: int64
  tl_owner :: uuid

record OutboxRow =
  ob_aggregate_type :: string
  ob_aggregate :: uuid
  ob_event_type :: string
  ob_event_version :: int
  ob_payload :: string
  ob_train_run :: "uuid option"
  ob_shard :: string
  ob_generation :: "int64 option"

subsection \<open>The tables of one booking schema\<close>

record InventoryRow =
  si_train_run :: uuid
  si_segment_count :: int
  si_seat :: uuid
  si_class :: string
  si_occupied :: varbit
  si_version :: int64

record ReservationRow =
  rr_id :: uuid
  rr_user :: uuid
  rr_train_run :: uuid
  rr_segment_count :: int
  rr_from :: int
  rr_to :: int
  rr_class :: string
  rr_status :: string
  rr_expires :: gotime
  rr_total :: int64
  rr_currency :: string

record ReservationSeatRow =
  rs_id :: uuid
  rs_reservation :: uuid
  rs_train_run :: uuid
  rs_segment_count :: int
  rs_seat :: uuid
  rs_passenger :: uuid
  rs_mask :: varbit
  rs_fare :: int64
  rs_currency :: string

record TicketOrderRow =
  to_id :: uuid
  to_reservation :: uuid
  to_user :: uuid
  to_status :: string
  to_total :: int64
  to_currency :: string

record TicketRow =
  tk_id :: uuid
  tk_order :: uuid
  tk_seat :: uuid
  tk_code :: string
  tk_status :: string

record IdempotencyRow =
  ir_id :: uuid
  ir_user :: uuid
  ir_operation :: string
  ir_key :: "byte list"
  ir_fingerprint :: "byte list"
  ir_status :: string
  ir_resource :: "uuid option"
  ir_expires :: gotime
  ir_train_run :: "uuid option"

record FenceRow =
  fence_train_run :: uuid
  fence_generation :: int64
  fence_write_enabled :: bool

record LocalTables =
  seat_inventory :: "InventoryRow list"
  reservations :: "ReservationRow list"
  reservation_seats :: "ReservationSeatRow list"
  ticket_orders :: "TicketOrderRow list"
  tickets :: "TicketRow list"
  idempotency_records :: "IdempotencyRow list"
  train_run_write_fences :: "FenceRow list"

datatype schema = Public | Booking_shard_0 | Booking_shard_1

record BookingDb =
  train_runs :: "TrainRunRow list"
  coaches :: "CoachRow list"
  seats :: "SeatRow list"
  passengers :: "PassengerRow list"
  fares :: "FareRow list"
  hot_train_policies :: "PolicyRow list"
  train_run_shard_assignments :: "AssignmentRow list"
  booking_shards :: "ShardRow list"
  train_run_generation_writes :: "GenerationWriteRow list"
  reservation_quota_claims :: "QuotaClaimRow list"
  booking_idempotency_key_claims :: "KeyClaimRow list"
  reservation_shard_locators :: "ReservationLocator list"
  ticket_order_shard_locators :: "TicketOrderLocator list"
  ticket_shard_locators :: "TicketLocator list"
  outbox_events :: "OutboxRow list"
  locals :: "schema \<Rightarrow> LocalTables"

subsection \<open>The environment of a transaction\<close>

datatype json = JUuid uuid | JString string | JTime gotime | JInt int

type_synonym payload = "(string \<times> json) list"

record TxEnv =
  env_fault :: "string \<Rightarrow> string option"
  env_acquiredAt :: gotime
  env_clock :: gotime
  env_update_clock :: gotime
  env_recordID :: uuid
  env_claimID :: uuid
  env_reservationID :: uuid
  env_orderID :: uuid
  env_orderCreatedAt :: gotime
  env_seatRowID :: "nat \<Rightarrow> uuid"
  env_ticketID :: "nat \<Rightarrow> uuid"
  env_ticketCode :: "nat \<Rightarrow> string"
  env_locked_seat :: "uuid \<Rightarrow> bool"
  env_locked_reservation :: "uuid \<Rightarrow> bool"
  env_locked_claim :: "uuid \<Rightarrow> bool"
  env_locked_assignment :: "uuid \<Rightarrow> bool"
  env_collate :: "string \<Rightarrow> nat list"
  env_unicode :: Unicode
  env_json :: "payload \<Rightarrow> string option"

type_synonym 'a btx = "(BookingDb, BookingError, 'a) tx"

text \<open>Running one statement: the driver reports success or an error with its SQLSTATE.\<close>

definition exec_sql :: "TxEnv \<Rightarrow> string \<Rightarrow> unit btx" where
  "exec_sql env label =
     (case env_fault env label of None \<Rightarrow> tx_return () | Some code \<Rightarrow> tx_fail (ErrDatabase label code))"

text \<open>A statement whose errors the caller replaces by one of its own.\<close>

definition exec_sql_as :: "TxEnv \<Rightarrow> string \<Rightarrow> BookingError \<Rightarrow> unit btx" where
  "exec_sql_as env label err = tx_reject (env_fault env label \<noteq> None) err"

definition unique_violation :: "bool \<Rightarrow> string \<Rightarrow> unit btx" where
  "unique_violation violated label = tx_reject violated (ErrDatabase label ''23505'')"

text \<open>
  \<^verbatim>\<open>fixedSearchPath\<close> of the routed transaction: which schema's tables the unqualified names of a
  query denote. A transaction without a route runs on the pool's default path, \<^verbatim>\<open>public\<close>.
\<close>

definition fixedSearchPath :: "ShardID \<Rightarrow> schema option" where
  "fixedSearchPath shardID =
     (if shardID = ShardLegacy then Some Public
      else if shardID = ShardZero then Some Booking_shard_0
      else if shardID = ShardOne then Some Booking_shard_1
      else None)"

definition search_schema :: "ShardRoute option \<Rightarrow> schema" where
  "search_schema route =
     (case route of None \<Rightarrow> Public
      | Some r \<Rightarrow> (case fixedSearchPath (route_shardID r) of None \<Rightarrow> Public | Some sc \<Rightarrow> sc))"

definition local_get :: "schema \<Rightarrow> (LocalTables \<Rightarrow> 'a) \<Rightarrow> 'a btx" where
  "local_get sc f = tx_get (\<lambda>db. f (locals db sc))"

definition local_modify :: "schema \<Rightarrow> (LocalTables \<Rightarrow> LocalTables) \<Rightarrow> unit btx" where
  "local_modify sc f = tx_modify (\<lambda>db. db\<lparr>locals := (locals db)(sc := f (locals db sc))\<rparr>)"

lemma exec_sql_eq_Inr [simp]: "exec_sql env l s = Inr r \<longleftrightarrow> env_fault env l = None \<and> r = ((), s)"
  by (auto simp: exec_sql_def split: option.splits)

lemma exec_sql_as_eq_Inr [simp]: "exec_sql_as env l e s = Inr r \<longleftrightarrow> env_fault env l = None \<and> r = ((), s)"
  by (auto simp: exec_sql_as_def)

lemma unique_violation_eq_Inr [simp]: "unique_violation b l s = Inr r \<longleftrightarrow> \<not> b \<and> r = ((), s)"
  by (auto simp: unique_violation_def)

lemma local_get_eq_Inr [simp]: "local_get sc f s = Inr r \<longleftrightarrow> r = (f (locals s sc), s)"
  by (auto simp: local_get_def)

lemma local_modify_eq_Inr [simp]:
  "local_modify sc f s = Inr r \<longleftrightarrow> r = ((), s\<lparr>locals := (locals s)(sc := f (locals s sc))\<rparr>)"
  by (auto simp: local_modify_def)

lemma tx_frame_sql [tx_frame_rules]:
  "tx_frame v (exec_sql env l)" "tx_frame v (exec_sql_as env l e)" "tx_frame v (unique_violation b l)"
  "tx_frame v (local_get sc f)"
  by (simp_all add: tx_frame_def)

lemma tx_frame_local [tx_frame_rules]:
  "(\<And>s. v (s\<lparr>locals := (locals s)(sc := g (locals s sc))\<rparr>) = v s) \<Longrightarrow> tx_frame v (local_modify sc g)"
  by (simp add: tx_frame_def)

text \<open>\<^verbatim>\<open>timestamptz\<close> has microseconds; a nanosecond instant is cut when it is stored.\<close>

definition pg_timestamptz :: "gotime \<Rightarrow> gotime" where
  "pg_timestamptz t = t div 1000 * 1000"

lemma pg_timestamptz_le: "pg_timestamptz t \<le> t"
  by (simp add: pg_timestamptz_def minus_mod_eq_div_mult [symmetric])

definition validSeatClass :: "Unicode \<Rightarrow> string \<Rightarrow> bool" where
  "validSeatClass u value \<longleftrightarrow>
     ToLower u value = ''standard'' \<or> ToLower u value = ''business'' \<or> ToLower u value = ''first''"

end
