(* ===== verification/Booking_Idempotency.thy ===== *)
theory Booking_Idempotency
  imports Booking_Db
begin

text \<open>
  \<^verbatim>\<open>src/internal/booking/postgres/idempotency.go\<close>, \<^verbatim>\<open>idempotency_claims.go\<close> and the retirement of
  expired claims in \<^verbatim>\<open>expiration_sharding.go\<close>: one record per user, operation and key, taken over only
  after it has expired, completed in the transaction of the booking change; and the global claim
  that keeps the key unique across schemas. A \<open>ShardRoute option\<close> says whether the transaction is
  routed.
\<close>

type_synonym Operation = string

definition OperationReservationCreate :: Operation where
  "OperationReservationCreate = ''reservation.create''"
definition OperationReservationConfirm :: Operation where
  "OperationReservationConfirm = ''reservation.confirm''"
definition OperationReservationCancel :: Operation where
  "OperationReservationCancel = ''reservation.cancel''"

definition validOperation :: "Operation \<Rightarrow> bool" where
  "validOperation operation \<longleftrightarrow>
     operation = OperationReservationCreate \<or> operation = OperationReservationConfirm \<or>
     operation = OperationReservationCancel"

record IdempotencyInput =
  ii_UserID :: uuid
  ii_Operation :: Operation
  ii_KeyHash :: "byte list"
  ii_RequestFingerprint :: "byte list"
  ii_ExpiresAt :: gotime

record IdempotencyAcquisition =
  ia_RecordID :: uuid
  ia_Owned :: bool
  ia_Replayed :: bool
  ia_ResourceID :: uuid

text \<open>\<^verbatim>\<open>interval '24 hours'\<close> and \<^verbatim>\<open>24*time.Hour\<close>, in nanoseconds.\<close>

definition idempotency_ttl :: gotime where
  "idempotency_ttl = 24 * 3600 * 1000000000"

definition ir_has_key :: "uuid \<Rightarrow> Operation \<Rightarrow> byte list \<Rightarrow> IdempotencyRow \<Rightarrow> bool" where
  "ir_has_key user op key row \<longleftrightarrow> ir_user row = user \<and> ir_operation row = op \<and> ir_key row = key"

definition kc_has_key :: "uuid \<Rightarrow> Operation \<Rightarrow> byte list \<Rightarrow> KeyClaimRow \<Rightarrow> bool" where
  "kc_has_key user op key row \<longleftrightarrow> kc_user row = user \<and> kc_operation row = op \<and> kc_key row = key"

subsection \<open>Retiring expired claims\<close>

text \<open>The join of the delete queries: the record is the claim's exact copy.\<close>

definition exact_copy :: "KeyClaimRow \<Rightarrow> IdempotencyRow \<Rightarrow> bool" where
  "exact_copy claim record \<longleftrightarrow>
     ir_has_key (kc_user claim) (kc_operation claim) (kc_key claim) record \<and>
     ir_fingerprint record = kc_fingerprint claim \<and> ir_train_run record = kc_train_run claim \<and>
     ir_expires record = kc_expires claim"

definition expiredIdempotencyRecordDelete :: "schema \<Rightarrow> uuid list \<Rightarrow> BookingDb \<Rightarrow> BookingDb" where
  "expiredIdempotencyRecordDelete sc claimIDs db =
     db\<lparr>locals := (locals db)(sc := (locals db sc)\<lparr>idempotency_records :=
       filter (\<lambda>record. \<not> list_ex (\<lambda>claim. kc_id claim \<in> set claimIDs \<and> exact_copy claim record)
                             (booking_idempotency_key_claims db))
              (idempotency_records (locals db sc))\<rparr>)\<rparr>"

definition expiredIdempotencyRecordVerification :: "uuid list \<Rightarrow> BookingDb \<Rightarrow> bool" where
  "expiredIdempotencyRecordVerification claimIDs db =
     list_ex (\<lambda>sc. list_ex (\<lambda>claim. kc_id claim \<in> set claimIDs \<and>
           list_ex (ir_has_key (kc_user claim) (kc_operation claim) (kc_key claim))
             (idempotency_records (locals db sc)))
         (booking_idempotency_key_claims db))
       [Public, Booking_shard_0, Booking_shard_1]"

definition retireExpiredIdempotencyClaims :: "TxEnv \<Rightarrow> uuid list \<Rightarrow> unit btx" where
  "retireExpiredIdempotencyClaims env claimIDs =
     (if claimIDs = [] then tx_return ()
      else
      tx_bind (tx_each (\<lambda>sc.
          tx_bind (exec_sql_as env ''delete expired idempotency records'' (ErrShard RouteErrorShardUnavailable)) (\<lambda>_.
            tx_modify (expiredIdempotencyRecordDelete sc claimIDs)))
        [Public, Booking_shard_0, Booking_shard_1]) (\<lambda>_.
      tx_bind (exec_sql_as env ''verify expired idempotency records'' (ErrShard RouteErrorShardUnavailable)) (\<lambda>_.
      tx_bind (tx_get (expiredIdempotencyRecordVerification claimIDs)) (\<lambda>localRecordRemains.
      tx_bind (tx_reject localRecordRemains ErrPersistenceInvariant) (\<lambda>_.
      tx_bind (exec_sql_as env ''delete booking idempotency key claims'' (ErrShard RouteErrorShardUnavailable)) (\<lambda>_.
      tx_bind (tx_get (\<lambda>db. filter (\<lambda>claim. kc_id claim \<in> set claimIDs) (booking_idempotency_key_claims db))) (\<lambda>deleted.
      tx_bind (tx_modify (\<lambda>db. db\<lparr>booking_idempotency_key_claims :=
          filter (\<lambda>claim. kc_id claim \<notin> set claimIDs) (booking_idempotency_key_claims db)\<rparr>)) (\<lambda>_.
      tx_reject (length deleted \<noteq> length claimIDs) ErrPersistenceInvariant))))))))"

subsection \<open>The global claim\<close>

definition acquireGlobalIdempotencyClaim ::
  "TxEnv \<Rightarrow> ShardRoute \<Rightarrow> IdempotencyInput \<Rightarrow> (gotime \<times> gotime) btx" where
  "acquireGlobalIdempotencyClaim env route input =
     tx_bind (tx_reject (route_trainRunID route = uuid_Nil) ErrInvalidArgument) (\<lambda>_.
     tx_bind (exec_sql env ''derive idempotency acquisition time'') (\<lambda>_.
     let acquiredAt = env_acquiredAt env;
         key = kc_has_key (ii_UserID input) (ii_Operation input) (ii_KeyHash input)
     in
     tx_bind (exec_sql env ''lock booking idempotency key claim'') (\<lambda>_.
     tx_bind (tx_get (\<lambda>db. find key (booking_idempotency_key_claims db))) (\<lambda>found.
     let claim_new =
       tx_bind (exec_sql env ''acquire booking idempotency key claim'') (\<lambda>_.
       tx_bind (tx_get (\<lambda>db. find key (booking_idempotency_key_claims db))) (\<lambda>conflict.
       tx_bind (if conflict \<noteq> None then tx_return ()
                else tx_bind (tx_get booking_idempotency_key_claims) (\<lambda>claims.
                     tx_bind (unique_violation (env_claimID env \<in> kc_id ` set claims)
                                ''acquire booking idempotency key claim'') (\<lambda>_.
                     tx_modify (\<lambda>db. db\<lparr>booking_idempotency_key_claims := booking_idempotency_key_claims db @
                       [\<lparr>kc_id = env_claimID env, kc_user = ii_UserID input, kc_operation = ii_Operation input,
                         kc_key = ii_KeyHash input, kc_fingerprint = ii_RequestFingerprint input,
                         kc_train_run = Some (route_trainRunID route),
                         kc_expires = acquiredAt + idempotency_ttl\<rparr>]\<rparr>)))) (\<lambda>_.
       tx_bind (exec_sql env ''lock inserted booking idempotency key claim'') (\<lambda>_.
       tx_bind (tx_get (\<lambda>db. find key (booking_idempotency_key_claims db))) (\<lambda>row.
       tx_bind (tx_some row (ErrDatabase ''lock inserted booking idempotency key claim'' ''no rows'')) (\<lambda>claim.
       tx_bind (tx_some (kc_train_run claim)
                  (ErrDatabase ''lock inserted booking idempotency key claim'' ''scan'')) (\<lambda>trainRunID.
       tx_bind (tx_reject (kc_fingerprint claim \<noteq> ii_RequestFingerprint input) ErrIdempotencyConflict) (\<lambda>_.
       tx_bind (tx_reject (trainRunID \<noteq> route_trainRunID route) ErrIdempotencyConflict) (\<lambda>_.
       tx_bind (tx_reject (\<not> acquiredAt < kc_expires claim) (ErrShard RouteErrorShardUnavailable)) (\<lambda>_.
       tx_return (kc_expires claim, acquiredAt)))))))))))
     in
     case found of
       None \<Rightarrow> claim_new
     | Some claim \<Rightarrow>
         if acquiredAt < kc_expires claim then
           tx_bind (tx_reject (kc_fingerprint claim \<noteq> ii_RequestFingerprint input \<or>
                               kc_train_run claim \<noteq> Some (route_trainRunID route)) ErrIdempotencyConflict) (\<lambda>_.
           tx_return (kc_expires claim, acquiredAt))
         else
           tx_bind (tx_reject (kc_train_run claim \<noteq> Some (route_trainRunID route))
                      (ErrShard RouteErrorShardUnavailable)) (\<lambda>_.
           tx_bind (retireExpiredIdempotencyClaims env [kc_id claim]) (\<lambda>_.
           claim_new))))))"

subsection \<open>Acquiring and completing a record\<close>

text \<open>
  The \<^verbatim>\<open>INSERT ... ON CONFLICT DO UPDATE ... WHERE expires_at <= acquiredAt RETURNING id\<close>: a new row,
  the expired row taken over under a new identifier, or no row.
\<close>

definition upsert_idempotency_record ::
  "TxEnv \<Rightarrow> ShardRoute option \<Rightarrow> IdempotencyInput \<Rightarrow> gotime \<Rightarrow> gotime \<Rightarrow> uuid option btx" where
  "upsert_idempotency_record env route input expiresAt acquiredAt =
     (let sc = search_schema route;
          key = ir_has_key (ii_UserID input) (ii_Operation input) (ii_KeyHash input);
          run = map_option route_trainRunID route
      in
      tx_bind (exec_sql env ''insert idempotency record'') (\<lambda>_.
      tx_bind (local_get sc idempotency_records) (\<lambda>records.
      case find key records of
        None \<Rightarrow>
          tx_bind (unique_violation (env_recordID env \<in> ir_id ` set records) ''insert idempotency record'') (\<lambda>_.
          tx_bind (local_modify sc (\<lambda>t. t\<lparr>idempotency_records := idempotency_records t @
            [\<lparr>ir_id = env_recordID env, ir_user = ii_UserID input, ir_operation = ii_Operation input,
              ir_key = ii_KeyHash input, ir_fingerprint = ii_RequestFingerprint input,
              ir_status = ''in_progress'', ir_resource = None, ir_expires = expiresAt,
              ir_train_run = run\<rparr>]\<rparr>)) (\<lambda>_.
          tx_return (Some (env_recordID env))))
      | Some row \<Rightarrow>
          if ir_expires row \<le> acquiredAt then
            tx_bind (unique_violation (env_recordID env \<in> ir_id ` set (filter (\<lambda>x. \<not> key x) records)) ''insert idempotency record'') (\<lambda>_.
            tx_bind (local_modify sc (\<lambda>t. t\<lparr>idempotency_records :=
              map (\<lambda>x. if key x
                       then x\<lparr>ir_id := env_recordID env, ir_fingerprint := ii_RequestFingerprint input,
                              ir_status := ''in_progress'', ir_resource := None, ir_expires := expiresAt,
                              ir_train_run := (if route = None then ir_train_run x else run)\<rparr>
                       else x) (idempotency_records t)\<rparr>)) (\<lambda>_.
            tx_return (Some (env_recordID env))))
          else tx_return None)))"

definition AcquireIdempotency ::
  "TxEnv \<Rightarrow> ShardRoute option \<Rightarrow> IdempotencyInput \<Rightarrow> IdempotencyAcquisition btx" where
  "AcquireIdempotency env route input =
     tx_bind (tx_reject (ii_UserID input = uuid_Nil \<or> \<not> validOperation (ii_Operation input) \<or>
        length (ii_KeyHash input) \<noteq> 32 \<or> length (ii_RequestFingerprint input) \<noteq> 32 \<or>
        IsZero_time (ii_ExpiresAt input)) ErrInvalidArgument) (\<lambda>_.
     tx_bind (case route of
         Some r \<Rightarrow> acquireGlobalIdempotencyClaim env r input
       | None \<Rightarrow> tx_bind (exec_sql env ''derive idempotency expiry'') (\<lambda>_.
                 tx_return (env_acquiredAt env + idempotency_ttl, env_acquiredAt env))) (\<lambda>times.
     let expiresAt = fst times; acquiredAt = snd times in
     tx_bind (upsert_idempotency_record env route input expiresAt acquiredAt) (\<lambda>insertedID.
     tx_bind (exec_sql env ''lock idempotency record'') (\<lambda>_.
     tx_bind (local_get (search_schema route) (\<lambda>t.
        find (ir_has_key (ii_UserID input) (ii_Operation input) (ii_KeyHash input)) (idempotency_records t))) (\<lambda>row.
     tx_bind (tx_some row (ErrDatabase ''lock idempotency record'' ''no rows'')) (\<lambda>record.
     tx_bind (tx_reject (ir_fingerprint record \<noteq> ii_RequestFingerprint input) ErrIdempotencyConflict) (\<lambda>_.
     tx_bind (tx_reject (case route of None \<Rightarrow> False
                | Some r \<Rightarrow> ir_train_run record \<noteq> Some (route_trainRunID r) \<or> ir_expires record \<noteq> expiresAt)
              ErrPersistenceInvariant) (\<lambda>_.
     if ir_status record = ''in_progress'' then
       tx_bind (tx_reject (insertedID \<noteq> Some (ir_id record)) ErrIdempotencyInProgress) (\<lambda>_.
       tx_return \<lparr>ia_RecordID = ir_id record, ia_Owned = True, ia_Replayed = False, ia_ResourceID = uuid_Nil\<rparr>)
     else if ir_status record = ''completed'' then
       tx_bind (tx_some (ir_resource record) ErrPersistenceInvariant) (\<lambda>resourceID.
       tx_bind (tx_reject (resourceID = uuid_Nil) ErrPersistenceInvariant) (\<lambda>_.
       tx_return \<lparr>ia_RecordID = ir_id record, ia_Owned = False, ia_Replayed = True, ia_ResourceID = resourceID\<rparr>))
     else tx_fail ErrPersistenceInvariant))))))))"

definition CompleteIdempotency :: "TxEnv \<Rightarrow> ShardRoute option \<Rightarrow> uuid \<Rightarrow> uuid \<Rightarrow> unit btx" where
  "CompleteIdempotency env route recordID reservationID =
     (let sc = search_schema route;
          hit = (\<lambda>x. ir_id x = recordID \<and> ir_status x = ''in_progress'')
      in
      tx_bind (tx_reject (recordID = uuid_Nil \<or> reservationID = uuid_Nil) ErrInvalidArgument) (\<lambda>_.
      tx_bind (exec_sql env ''complete idempotency record'') (\<lambda>_.
      tx_bind (local_get sc (\<lambda>t. length (filter hit (idempotency_records t)))) (\<lambda>affected.
      tx_bind (local_modify sc (\<lambda>t. t\<lparr>idempotency_records :=
         map (\<lambda>x. if hit x then x\<lparr>ir_status := ''completed'', ir_resource := Some reservationID\<rparr> else x)
             (idempotency_records t)\<rparr>)) (\<lambda>_.
      tx_reject (affected \<noteq> 1) ErrPersistenceInvariant)))))"

subsection \<open>The replay probe\<close>

record CreateHoldResult =
  ch_ReservationID :: uuid
  ch_SeatCount :: int
  ch_TotalAmountMinor :: int64
  ch_Currency :: string
  ch_Replayed :: bool

record CompletedCreateHoldLookupParams =
  lk_UserID :: uuid
  lk_TrainRunID :: uuid
  lk_IdempotencyKeyHash :: "byte list"
  lk_RequestFingerprint :: "byte list"

definition seat_count :: "LocalTables \<Rightarrow> uuid \<Rightarrow> int" where
  "seat_count t reservationID =
     int (length (filter (\<lambda>rs. rs_reservation rs = reservationID) (reservation_seats t)))"

text \<open>
  The row of the probe's query: the live record of the key, in a sharded store only when the global
  claim agrees with it.
\<close>

definition completed_create_hold_row ::
  "TxEnv \<Rightarrow> ShardRoute option \<Rightarrow> CompletedCreateHoldLookupParams \<Rightarrow> BookingDb \<Rightarrow> IdempotencyRow option" where
  "completed_create_hold_row env route params db =
     find (\<lambda>ir. ir_has_key (lk_UserID params) ''reservation.create'' (lk_IdempotencyKeyHash params) ir \<and>
               env_clock env < ir_expires ir \<and>
               (route = None \<or>
                list_ex (\<lambda>claim. kc_has_key (ir_user ir) (ir_operation ir) (ir_key ir) claim \<and>
                    kc_fingerprint claim = ir_fingerprint ir \<and>
                    kc_train_run claim = Some (lk_TrainRunID params) \<and>
                    ir_train_run ir = Some (lk_TrainRunID params) \<and>
                    kc_expires claim = ir_expires ir) (booking_idempotency_key_claims db)))
       (idempotency_records (locals db (search_schema route)))"

definition LookupCompletedCreateHold ::
  "TxEnv \<Rightarrow> ShardRoute option \<Rightarrow> CompletedCreateHoldLookupParams \<Rightarrow> CreateHoldResult option btx" where
  "LookupCompletedCreateHold env route params =
     tx_bind (tx_reject (lk_UserID params = uuid_Nil \<or> length (lk_IdempotencyKeyHash params) \<noteq> 32 \<or>
        length (lk_RequestFingerprint params) \<noteq> 32) ErrInvalidArgument) (\<lambda>_.
     tx_bind (tx_reject (route \<noteq> None \<and> lk_TrainRunID params = uuid_Nil) ErrInvalidArgument) (\<lambda>_.
     tx_bind (exec_sql env ''lookup completed create hold'') (\<lambda>_.
     tx_bind (tx_get (completed_create_hold_row env route params)) (\<lambda>found.
     case found of
       None \<Rightarrow> tx_return None
     | Some ir \<Rightarrow>
         if ir_status ir \<noteq> ''completed'' then tx_return None
         else
         tx_bind (tx_reject (ir_fingerprint ir \<noteq> lk_RequestFingerprint params) ErrIdempotencyConflict) (\<lambda>_.
         tx_bind (tx_some (ir_resource ir) ErrPersistenceInvariant) (\<lambda>resourceID.
         tx_bind (local_get (search_schema route) (\<lambda>t.
            find (\<lambda>r. rr_id r = resourceID \<and> rr_user r = ir_user ir) (reservations t))) (\<lambda>joined.
         tx_bind (tx_some joined ErrPersistenceInvariant) (\<lambda>r.
         tx_bind (tx_reject (resourceID = uuid_Nil \<or> rr_id r \<noteq> resourceID) ErrPersistenceInvariant) (\<lambda>_.
         tx_bind (local_get (search_schema route) (\<lambda>t. seat_count t (rr_id r))) (\<lambda>seatCount.
         tx_bind (if route = None then tx_return () else exec_sql_as env ''commit'' (ErrShard RouteErrorShardUnavailable)) (\<lambda>_.
         tx_return (Some \<lparr>ch_ReservationID = rr_id r, ch_SeatCount = seatCount,
            ch_TotalAmountMinor = rr_total r, ch_Currency = rr_currency r, ch_Replayed = True\<rparr>)))))))))))) "

end
