(* ===== verification/Booking_Inventory.thy ===== *)
theory Booking_Inventory
  imports Booking_Db
begin

text \<open>
  The seat inventory of \<^verbatim>\<open>src/internal/booking/postgres/store.go\<close> and \<^verbatim>\<open>releaseReservationSeats\<close> of
  \<^verbatim>\<open>reservation_store.go\<close>: commissioning a run with zero masks, the all-or-nothing allocation that
  joins a journey's mask into the first free seats, and the release that takes it out again.
\<close>

subsection \<open>Commissioning\<close>

definition active_seats :: "TxEnv \<Rightarrow> uuid \<Rightarrow> BookingDb \<Rightarrow> (CoachRow \<times> SeatRow) list" where
  "active_seats env trainID db =
     sort_key (\<lambda>(c, s). (env_collate env (coach_number c), env_collate env (seat_number s), seat_id s))
       [(c, s). c \<leftarrow> coaches db, coach_train c = trainID,
                s \<leftarrow> seats db, seat_coach s = coach_id c \<and> seat_active s]"

text \<open>\<^verbatim>\<open>INSERT ... ON CONFLICT (train_run_id, seat_id) DO NOTHING\<close>, row by row.\<close>

definition insert_inventory :: "InventoryRow \<Rightarrow> InventoryRow list \<Rightarrow> InventoryRow list" where
  "insert_inventory row rows =
     (if list_ex (\<lambda>x. si_train_run x = si_train_run row \<and> si_seat x = si_seat row) rows
      then rows else rows @ [row])"

definition zero_inventory :: "uuid \<Rightarrow> int \<Rightarrow> CoachRow \<times> SeatRow \<Rightarrow> InventoryRow" where
  "zero_inventory trainRunID segmentCount cs =
     \<lparr>si_train_run = trainRunID, si_segment_count = segmentCount, si_seat = seat_id (snd cs),
      si_class = coach_class (fst cs), si_occupied = zero_varbit (nat segmentCount), si_version = 0\<rparr>"

definition InitializeInventory :: "TxEnv \<Rightarrow> ShardRoute option \<Rightarrow> uuid \<Rightarrow> int btx" where
  "InitializeInventory env route trainRunID =
     (let sc = search_schema route in
      tx_bind (tx_reject (trainRunID = uuid_Nil) ErrInvalidArgument) (\<lambda>_.
      tx_bind (exec_sql env ''lock train run for inventory initialization'') (\<lambda>_.
      tx_bind (tx_get (\<lambda>db. find (\<lambda>r. tr_id r = trainRunID) (train_runs db))) (\<lambda>found.
      tx_bind (tx_some found ErrNotFound) (\<lambda>run.
      tx_bind (exec_sql env ''initialize seat inventory'') (\<lambda>_.
      tx_bind (tx_get (active_seats env (tr_train run))) (\<lambda>rows.
      tx_bind (local_get sc (\<lambda>t. int (length (seat_inventory t)))) (\<lambda>rowsBefore.
      tx_bind (local_modify sc (\<lambda>t. t\<lparr>seat_inventory :=
         fold (\<lambda>cs. insert_inventory (zero_inventory trainRunID (tr_segment_count run) cs)) rows
           (seat_inventory t)\<rparr>)) (\<lambda>_.
      tx_bind (local_get sc (\<lambda>t. int (length (seat_inventory t)))) (\<lambda>rowsAfter.
      tx_return (rowsAfter - rowsBefore)))))))))))"

subsection \<open>Allocation\<close>

record AllocatedSeat =
  al_SeatID :: uuid
  al_CoachNumber :: string
  al_SeatNumber :: string

definition inventory_join :: "BookingDb \<Rightarrow> InventoryRow \<Rightarrow> (InventoryRow \<times> SeatRow \<times> CoachRow) option" where
  "inventory_join db si =
     (case find (\<lambda>s. seat_id s = si_seat si) (seats db) of
        None \<Rightarrow> None
      | Some s \<Rightarrow> (case find (\<lambda>c. coach_id c = seat_coach s) (coaches db) of
                    None \<Rightarrow> None | Some c \<Rightarrow> Some (si, s, c)))"

definition free_for :: "varbit \<Rightarrow> InventoryRow \<Rightarrow> bool" where
  "free_for req si =
     (if bit_length_sql (si_occupied si) = bit_length_sql req
      then 0 < bit_count_sql req \<and>
           bit_and_sql (si_occupied si) req = zero_varbit (bit_length_sql (si_occupied si))
      else False)"

definition candidates ::
  "TxEnv \<Rightarrow> schema \<Rightarrow> uuid \<Rightarrow> string \<Rightarrow> varbit \<Rightarrow> nat \<Rightarrow> BookingDb \<Rightarrow> (InventoryRow \<times> SeatRow \<times> CoachRow) list" where
  "candidates env sc trainRunID class req limit db =
     take limit
       (filter (\<lambda>(si, s, c). \<not> env_locked_seat env (si_seat si))
         (sort_key (\<lambda>(si, s, c). (env_collate env (coach_number c), env_collate env (seat_number s), si_seat si))
           (filter (\<lambda>(si, s, c). si_train_run si = trainRunID \<and> si_class si = class \<and> seat_active s \<and>
                                 free_for req si)
             (List.map_filter (inventory_join db) (seat_inventory (locals db sc))))))"

definition reserve_rows :: "uuid \<Rightarrow> uuid list \<Rightarrow> varbit \<Rightarrow> InventoryRow list \<Rightarrow> InventoryRow list" where
  "reserve_rows trainRunID chosen req =
     map (\<lambda>si. if si_train_run si = trainRunID \<and> si_seat si \<in> set chosen
               then si\<lparr>si_occupied := bit_or_sql (si_occupied si) req, si_version := si_version si + 1\<rparr>
               else si)"

definition AllocateSeats ::
  "TxEnv \<Rightarrow> ShardRoute option \<Rightarrow> uuid \<Rightarrow> string \<Rightarrow> SegmentMask \<Rightarrow> int \<Rightarrow> AllocatedSeat list btx" where
  "AllocateSeats env route trainRunID seatClass requested count =
     (let sc = search_schema route; req = varbit_of (EncodeSegmentMask requested) in
      tx_bind (tx_reject (trainRunID = uuid_Nil \<or> count \<le> 0 \<or> bitLength requested \<le> 0 \<or>
         \<not> validSeatClass (env_unicode env) seatClass \<or> IsZero_mask requested) ErrInvalidArgument) (\<lambda>_.
      tx_bind (exec_sql env ''allocate seat inventory'') (\<lambda>_.
      tx_bind (tx_reject (\<not> varbit_recv_ok (EncodeSegmentMask requested)) (ErrDatabase ''allocate seat inventory'' ''22P03'')) (\<lambda>_.
      tx_bind (tx_get (candidates env sc trainRunID (ToLower (env_unicode env) seatClass) req (nat count))) (\<lambda>found.
      if int (length found) = count then
        tx_bind (local_modify sc (\<lambda>t. t\<lparr>seat_inventory :=
          reserve_rows trainRunID (map (\<lambda>(si, s, c). si_seat si) found) req (seat_inventory t)\<rparr>)) (\<lambda>_.
        tx_return (map (\<lambda>(si, s, c). \<lparr>al_SeatID = si_seat si, al_CoachNumber = coach_number c,
                                        al_SeatNumber = seat_number s\<rparr>) found))
      else tx_fail ErrInsufficientInventory)))))"

definition AllocateSeat ::
  "TxEnv \<Rightarrow> ShardRoute option \<Rightarrow> uuid \<Rightarrow> string \<Rightarrow> SegmentMask \<Rightarrow> AllocatedSeat btx" where
  "AllocateSeat env route trainRunID seatClass requested =
     tx_bind (AllocateSeats env route trainRunID seatClass requested 1) (\<lambda>allocated.
     tx_return (allocated ! 0))"

subsection \<open>Release\<close>

definition release_match :: "uuid \<Rightarrow> LocalTables \<Rightarrow> ReservationSeatRow \<Rightarrow> (InventoryRow \<times> ReservationSeatRow) option" where
  "release_match reservationID t rs =
     (case find (\<lambda>r. rr_id r = rs_reservation rs) (reservations t) of
        None \<Rightarrow> None
      | Some r \<Rightarrow>
          (case find (\<lambda>si. si_train_run si = rr_train_run r \<and> si_seat si = rs_seat rs) (seat_inventory t) of
             None \<Rightarrow> None
           | Some si \<Rightarrow>
               if rs_reservation rs = reservationID \<and>
                  (if bit_length_sql (si_occupied si) = bit_length_sql (rs_mask rs)
                   then bit_and_sql (si_occupied si) (rs_mask rs) = rs_mask rs else False)
               then Some (si, rs) else None))"

definition release_locked :: "uuid \<Rightarrow> LocalTables \<Rightarrow> (InventoryRow \<times> ReservationSeatRow) list" where
  "release_locked reservationID t =
     List.map_filter (release_match reservationID t) (reservation_seats t)"

definition same_seat :: "InventoryRow \<Rightarrow> InventoryRow \<times> ReservationSeatRow \<Rightarrow> bool" where
  "same_seat si p \<longleftrightarrow> si_train_run (fst p) = si_train_run si \<and> si_seat (fst p) = si_seat si"

definition release_row :: "(InventoryRow \<times> ReservationSeatRow) list \<Rightarrow> InventoryRow \<Rightarrow> InventoryRow" where
  "release_row locked si =
     (case find (same_seat si) locked of
        None \<Rightarrow> si
      | Some (_, rs) \<Rightarrow> si\<lparr>si_occupied := bit_and_sql (si_occupied si) (bit_not_sql (rs_mask rs)),
                           si_version := si_version si + 1\<rparr>)"

text \<open>
  The statement of \<^verbatim>\<open>releaseReservationSeats\<close>: the seats the reservation has, the inventory rows
  updated, and the tables afterwards. Nothing is updated unless every seat matched.
\<close>

definition release_update :: "uuid \<Rightarrow> LocalTables \<Rightarrow> nat \<times> nat \<times> LocalTables" where
  "release_update reservationID t =
     (let locked = release_locked reservationID t;
          expected = length (filter (\<lambda>rs. rs_reservation rs = reservationID) (reservation_seats t))
      in if length locked = expected \<and> 0 < expected
         then (expected, length (filter (\<lambda>si. list_ex (same_seat si) locked) (seat_inventory t)),
               t\<lparr>seat_inventory := map (release_row locked) (seat_inventory t)\<rparr>)
         else (expected, 0, t))"

definition releaseReservationSeats :: "TxEnv \<Rightarrow> ShardRoute option \<Rightarrow> uuid \<Rightarrow> int btx" where
  "releaseReservationSeats env route reservationID =
     (let sc = search_schema route in
      tx_bind (exec_sql env ''release reservation seats'') (\<lambda>_.
      tx_bind (local_get sc (release_update reservationID)) (\<lambda>update.
      let expected = fst update; released = fst (snd update) in
      tx_bind (local_modify sc (\<lambda>_. snd (snd update))) (\<lambda>_.
      tx_bind (tx_reject (expected \<le> 0 \<or> released \<noteq> expected) ErrPersistenceInvariant) (\<lambda>_.
      tx_return (int released))))))"

end
