(* ===== verification/Booking_Ledger.thy ===== *)
theory Booking_Ledger
  imports Booking_Db
begin

text \<open>
  What every booking change writes or checks beside the inventory: the admission recheck
  (\<^verbatim>\<open>admission_policy.go\<close>, \<^verbatim>\<open>policylock\<close>), the reservation quota and its global claims (\<^verbatim>\<open>quota.go\<close>,
  \<^verbatim>\<open>quota_claims.go\<close>), the global locators (\<^verbatim>\<open>locators.go\<close>), the outbox (\<^verbatim>\<open>outbox.go\<close>) and the
  evidence of writes in a migration's rollback window (\<^verbatim>\<open>generation_writes.go\<close>), all under
  \<^verbatim>\<open>src/internal/booking/postgres\<close>. Without a route the global tables are not touched.
\<close>

subsection \<open>Admission\<close>

record AdmissionPolicyDecision =
  PolicyID :: uuid
  Version :: int64

datatype PolicyLockError = ErrInvalidScope | ErrPolicyLock BookingError

text \<open>\<^verbatim>\<open>policylock.acquire\<close>: the scope is checked before the advisory lock is taken.\<close>

definition policylock_acquire :: "TxEnv \<Rightarrow> uuid \<Rightarrow> string \<Rightarrow> PolicyLockError option" where
  "policylock_acquire env trainRunID rawSeatClass =
     (case ParseSeatClass (env_unicode env) (TrimSpace (env_unicode env) rawSeatClass) of
        Inl _ \<Rightarrow> Some ErrInvalidScope
      | Inr _ \<Rightarrow> if trainRunID = uuid_Nil then Some ErrInvalidScope
                 else (case env_fault env ''lock hot-train policy scope'' of
                         None \<Rightarrow> None
                       | Some code \<Rightarrow> Some (ErrPolicyLock (ErrDatabase ''lock hot-train policy scope'' code))))"

definition recheckAdmissionPolicy ::
  "TxEnv \<Rightarrow> uuid \<Rightarrow> string \<Rightarrow> AdmissionPolicyDecision option \<Rightarrow> unit btx" where
  "recheckAdmissionPolicy env trainRunID seatClass decision =
     tx_bind (case policylock_acquire env trainRunID seatClass of
         None \<Rightarrow> tx_return ()
       | Some ErrInvalidScope \<Rightarrow> tx_fail ErrInvalidArgument
       | Some (ErrPolicyLock e) \<Rightarrow> tx_fail e) (\<lambda>_.
     tx_bind (exec_sql env ''recheck admission policy'') (\<lambda>_.
     tx_bind (tx_get (\<lambda>db. find (\<lambda>p. policy_train_run p = trainRunID \<and> policy_class p = seatClass \<and> policy_enabled p)
                (hot_train_policies db))) (\<lambda>current.
     case current of
       None \<Rightarrow> (case decision of None \<Rightarrow> tx_return () | Some _ \<Rightarrow> tx_fail ErrAdmissionPolicyChanged)
     | Some p \<Rightarrow>
         (case decision of
            None \<Rightarrow> tx_fail ErrAdmissionRequired
          | Some d \<Rightarrow> tx_reject (policy_id p \<noteq> PolicyID d \<or> policy_version p \<noteq> Version d) ErrAdmissionPolicyChanged))))"

subsection \<open>Quota\<close>

record ReservationQuotaLimits =
  MaxActiveHoldsPerUser :: int
  MaxActiveHoldsPerUserPerTrainRun :: int
  MaxActivePassengersPerUser :: int

definition DefaultReservationQuotaLimits :: ReservationQuotaLimits where
  "DefaultReservationQuotaLimits =
     \<lparr>MaxActiveHoldsPerUser = 10, MaxActiveHoldsPerUserPerTrainRun = 3, MaxActivePassengersPerUser = 24\<rparr>"

definition limits_valid :: "ReservationQuotaLimits \<Rightarrow> bool" where
  "limits_valid l \<longleftrightarrow>
     0 < MaxActiveHoldsPerUser l \<and> 0 < MaxActiveHoldsPerUserPerTrainRun l \<and>
     MaxActiveHoldsPerUserPerTrainRun l \<le> MaxActiveHoldsPerUser l \<and> 0 < MaxActivePassengersPerUser l"

definition atOrAboveLimit :: "int64 \<Rightarrow> int \<Rightarrow> int \<Rightarrow> bool" where
  "atOrAboveLimit current additional limit =
     (if current < 0 \<or> additional < 0 \<or> limit \<le> 0 \<or> limit \<le> current then True
      else wrap64 (limit - current) < additional)"

text \<open>The counts of the two queries: held rows of the schema, or active claims of all schemas.\<close>

definition held_of :: "uuid \<Rightarrow> LocalTables \<Rightarrow> ReservationRow list" where
  "held_of userID t = filter (\<lambda>r. rr_user r = userID \<and> rr_status r = ''held'') (reservations t)"

definition local_quota_counts :: "uuid \<Rightarrow> uuid \<Rightarrow> LocalTables \<Rightarrow> int \<times> int \<times> int" where
  "local_quota_counts userID trainRunID t =
     (int (length (held_of userID t)),
      int (length (filter (\<lambda>r. rr_train_run r = trainRunID) (held_of userID t))),
      int (length [rs. rs \<leftarrow> reservation_seats t, r \<leftarrow> held_of userID t, rr_id r = rs_reservation rs]))"

definition active_claims :: "uuid \<Rightarrow> BookingDb \<Rightarrow> QuotaClaimRow list" where
  "active_claims userID db = filter (\<lambda>q. qc_user q = userID \<and> qc_active q) (reservation_quota_claims db)"

definition global_quota_counts :: "uuid \<Rightarrow> uuid \<Rightarrow> BookingDb \<Rightarrow> int \<times> int \<times> int" where
  "global_quota_counts userID trainRunID db =
     (int (length (active_claims userID db)),
      int (length (filter (\<lambda>q. qc_train_run q = trainRunID) (active_claims userID db))),
      sum_list (map qc_passengers (active_claims userID db)))"

definition enforceReservationQuota ::
  "TxEnv \<Rightarrow> ShardRoute option \<Rightarrow> uuid \<Rightarrow> uuid \<Rightarrow> int \<Rightarrow> ReservationQuotaLimits \<Rightarrow> unit btx" where
  "enforceReservationQuota env route userID trainRunID passengersToAdd limits =
     tx_bind (tx_reject (userID = uuid_Nil \<or> trainRunID = uuid_Nil \<or> passengersToAdd \<le> 0 \<or> \<not> limits_valid limits)
                ErrInvalidArgument) (\<lambda>_.
     tx_bind (exec_sql env ''acquire reservation quota lock'') (\<lambda>_.
     tx_bind (exec_sql env ''count active reservation quota'') (\<lambda>_.
     tx_bind (if route = None then local_get (search_schema route) (local_quota_counts userID trainRunID)
              else tx_get (global_quota_counts userID trainRunID)) (\<lambda>counts.
     tx_reject (atOrAboveLimit (fst counts) 1 (MaxActiveHoldsPerUser limits) \<or>
                atOrAboveLimit (fst (snd counts)) 1 (MaxActiveHoldsPerUserPerTrainRun limits) \<or>
                atOrAboveLimit (snd (snd counts)) passengersToAdd (MaxActivePassengersPerUser limits))
       ErrReservationQuotaExceeded))))"

definition insertReservationQuotaClaim ::
  "TxEnv \<Rightarrow> ShardRoute option \<Rightarrow> uuid \<Rightarrow> uuid \<Rightarrow> uuid \<Rightarrow> int \<Rightarrow> unit btx" where
  "insertReservationQuotaClaim env route reservationID userID trainRunID passengerCount =
     tx_bind (tx_reject (reservationID = uuid_Nil \<or> userID = uuid_Nil \<or> trainRunID = uuid_Nil \<or> passengerCount \<le> 0)
                ErrInvalidArgument) (\<lambda>_.
     if route = None then tx_return ()
     else
     tx_bind (exec_sql env ''insert reservation quota claim'') (\<lambda>_.
     tx_bind (tx_get (\<lambda>db. find (\<lambda>q. qc_reservation q = reservationID) (reservation_quota_claims db))) (\<lambda>existing.
     case existing of
       None \<Rightarrow> tx_modify (\<lambda>db. db\<lparr>reservation_quota_claims := reservation_quota_claims db @
          [\<lparr>qc_reservation = reservationID, qc_user = userID, qc_train_run = trainRunID,
            qc_passengers = passengerCount, qc_active = True\<rparr>]\<rparr>)
     | Some q \<Rightarrow>
         tx_bind (exec_sql env ''lock existing reservation quota claim'') (\<lambda>_.
         tx_reject (qc_user q \<noteq> userID \<or> qc_train_run q \<noteq> trainRunID \<or> qc_passengers q \<noteq> passengerCount \<or>
                    \<not> qc_active q) ErrPersistenceInvariant))))"

definition closeReservationQuotaClaim :: "TxEnv \<Rightarrow> ShardRoute option \<Rightarrow> uuid \<Rightarrow> unit btx" where
  "closeReservationQuotaClaim env route reservationID =
     tx_bind (tx_reject (reservationID = uuid_Nil) ErrInvalidArgument) (\<lambda>_.
     if route = None then tx_return ()
     else
     tx_bind (exec_sql env ''close reservation quota claim'') (\<lambda>_.
     tx_modify (\<lambda>db. db\<lparr>reservation_quota_claims :=
        map (\<lambda>q. if qc_reservation q = reservationID \<and> qc_active q then q\<lparr>qc_active := False\<rparr> else q)
            (reservation_quota_claims db)\<rparr>)))"

subsection \<open>Locators\<close>

definition insertReservationLocator :: "TxEnv \<Rightarrow> ShardRoute option \<Rightarrow> uuid \<Rightarrow> uuid \<Rightarrow> unit btx" where
  "insertReservationLocator env route reservationID ownerID =
     tx_bind (tx_reject (reservationID = uuid_Nil \<or> ownerID = uuid_Nil) ErrInvalidArgument) (\<lambda>_.
     case route of
       None \<Rightarrow> tx_return ()
     | Some r \<Rightarrow>
         tx_bind (exec_sql env ''insert reservation locator'') (\<lambda>_.
         tx_bind (tx_get (\<lambda>db. find (\<lambda>l. rl_reservation l = reservationID) (reservation_shard_locators db))) (\<lambda>existing.
         case existing of
           None \<Rightarrow> tx_modify (\<lambda>db. db\<lparr>reservation_shard_locators := reservation_shard_locators db @
              [\<lparr>rl_reservation = reservationID, rl_train_run = route_trainRunID r, rl_shard = route_shardID r,
                rl_generation = route_generation r, rl_owner = ownerID\<rparr>]\<rparr>)
         | Some l \<Rightarrow>
             tx_bind (exec_sql env ''lock existing reservation locator'') (\<lambda>_.
             tx_reject (rl_train_run l \<noteq> route_trainRunID r \<or> rl_shard l \<noteq> route_shardID r \<or>
                        rl_generation l \<noteq> route_generation r \<or> rl_owner l \<noteq> ownerID) ErrPersistenceInvariant))))"

definition insertTicketOrderLocator ::
  "TxEnv \<Rightarrow> ShardRoute option \<Rightarrow> uuid \<Rightarrow> uuid \<Rightarrow> uuid \<Rightarrow> string \<Rightarrow> int64 \<Rightarrow> string \<Rightarrow> gotime \<Rightarrow> unit btx" where
  "insertTicketOrderLocator env route orderID reservationID ownerID status totalAmountMinor cur createdAt =
     tx_bind (tx_reject (orderID = uuid_Nil \<or> reservationID = uuid_Nil \<or> ownerID = uuid_Nil \<or> status = [] \<or>
        totalAmountMinor < 0 \<or> cur = [] \<or> IsZero_time createdAt) ErrInvalidArgument) (\<lambda>_.
     case route of
       None \<Rightarrow> tx_return ()
     | Some r \<Rightarrow>
         tx_bind (exec_sql env ''insert ticket-order locator'') (\<lambda>_.
         tx_bind (tx_get ticket_order_shard_locators) (\<lambda>rows.
         case find (\<lambda>l. ol_order l = orderID) rows of
           None \<Rightarrow>
             tx_bind (unique_violation (reservationID \<in> ol_reservation ` set rows) ''insert ticket-order locator'') (\<lambda>_.
             tx_modify (\<lambda>db. db\<lparr>ticket_order_shard_locators := ticket_order_shard_locators db @
               [\<lparr>ol_order = orderID, ol_reservation = reservationID, ol_train_run = route_trainRunID r,
                 ol_shard = route_shardID r, ol_generation = route_generation r, ol_owner = ownerID,
                 ol_status = status, ol_total = totalAmountMinor, ol_currency = cur, ol_created = createdAt\<rparr>]\<rparr>))
         | Some l \<Rightarrow>
             tx_bind (exec_sql env ''lock existing ticket-order locator'') (\<lambda>_.
             tx_reject (ol_reservation l \<noteq> reservationID \<or> ol_train_run l \<noteq> route_trainRunID r \<or>
                ol_shard l \<noteq> route_shardID r \<or> ol_generation l \<noteq> route_generation r \<or> ol_owner l \<noteq> ownerID \<or>
                ol_status l \<noteq> status \<or> ol_total l \<noteq> totalAmountMinor \<or> ol_currency l \<noteq> cur \<or>
                ol_created l \<noteq> createdAt) ErrPersistenceInvariant))))"

definition insertTicketLocator :: "TxEnv \<Rightarrow> ShardRoute option \<Rightarrow> uuid \<Rightarrow> uuid \<Rightarrow> uuid \<Rightarrow> uuid \<Rightarrow> unit btx" where
  "insertTicketLocator env route ticketID orderID reservationID ownerID =
     tx_bind (tx_reject (ticketID = uuid_Nil \<or> orderID = uuid_Nil \<or> reservationID = uuid_Nil \<or> ownerID = uuid_Nil)
                ErrInvalidArgument) (\<lambda>_.
     case route of
       None \<Rightarrow> tx_return ()
     | Some r \<Rightarrow>
         tx_bind (exec_sql env ''insert ticket locator'') (\<lambda>_.
         tx_bind (tx_get (\<lambda>db. find (\<lambda>l. tl_ticket l = ticketID) (ticket_shard_locators db))) (\<lambda>existing.
         case existing of
           None \<Rightarrow> tx_modify (\<lambda>db. db\<lparr>ticket_shard_locators := ticket_shard_locators db @
              [\<lparr>tl_ticket = ticketID, tl_order = orderID, tl_reservation = reservationID,
                tl_train_run = route_trainRunID r, tl_shard = route_shardID r,
                tl_generation = route_generation r, tl_owner = ownerID\<rparr>]\<rparr>)
         | Some l \<Rightarrow>
             tx_bind (exec_sql env ''lock existing ticket locator'') (\<lambda>_.
             tx_reject (tl_order l \<noteq> orderID \<or> tl_reservation l \<noteq> reservationID \<or>
                tl_train_run l \<noteq> route_trainRunID r \<or> tl_shard l \<noteq> route_shardID r \<or>
                tl_generation l \<noteq> route_generation r \<or> tl_owner l \<noteq> ownerID) ErrPersistenceInvariant))))"

definition updateTicketOrderLocatorStatus :: "TxEnv \<Rightarrow> ShardRoute option \<Rightarrow> uuid \<Rightarrow> string \<Rightarrow> unit btx" where
  "updateTicketOrderLocatorStatus env route reservationID status =
     tx_bind (tx_reject (reservationID = uuid_Nil \<or> status = []) ErrInvalidArgument) (\<lambda>_.
     if route = None then tx_return ()
     else
     tx_bind (exec_sql env ''update ticket-order locator'') (\<lambda>_.
     tx_modify (\<lambda>db. db\<lparr>ticket_order_shard_locators :=
        map (\<lambda>l. if ol_reservation l = reservationID then l\<lparr>ol_status := status\<rparr> else l)
            (ticket_order_shard_locators db)\<rparr>)))"

subsection \<open>Outbox\<close>

definition maxOutboxPayloadBytes :: nat where
  "maxOutboxPayloadBytes = 64 * 1024"

definition validReservationEvent :: "string \<Rightarrow> bool" where
  "validReservationEvent value \<longleftrightarrow>
     value = ''reservation.held'' \<or> value = ''reservation.confirmed'' \<or>
     value = ''reservation.expired'' \<or> value = ''reservation.cancelled''"

definition outbox_row :: "ShardRoute option \<Rightarrow> string \<Rightarrow> uuid \<Rightarrow> string \<Rightarrow> string \<Rightarrow> OutboxRow" where
  "outbox_row route kind aggregate event encoded =
     \<lparr>ob_aggregate_type = kind, ob_aggregate = aggregate, ob_event_type = event, ob_event_version = 1,
      ob_payload = encoded, ob_train_run = map_option route_trainRunID route,
      ob_shard = (case route of None \<Rightarrow> ''global'' | Some r \<Rightarrow> route_shardID r),
      ob_generation = map_option route_generation route\<rparr>"

definition appendReservationEvent ::
  "TxEnv \<Rightarrow> ShardRoute option \<Rightarrow> uuid \<Rightarrow> string \<Rightarrow> payload \<Rightarrow> unit btx" where
  "appendReservationEvent env route reservationID eventType payload =
     tx_bind (tx_reject (reservationID = uuid_Nil \<or> \<not> validReservationEvent eventType) ErrInvalidArgument) (\<lambda>_.
     tx_bind (tx_some (env_json env payload) ErrEncodePayload) (\<lambda>encoded.
     tx_bind (tx_reject (maxOutboxPayloadBytes < length encoded) ErrInvalidArgument) (\<lambda>_.
     tx_bind (exec_sql env ''append outbox event'') (\<lambda>_.
     tx_modify (\<lambda>db. db\<lparr>outbox_events := outbox_events db @
        [outbox_row route ''reservation'' reservationID eventType encoded]\<rparr>)))))"

definition appendTicketEvent :: "TxEnv \<Rightarrow> ShardRoute option \<Rightarrow> uuid \<Rightarrow> payload \<Rightarrow> unit btx" where
  "appendTicketEvent env route ticketID payload =
     tx_bind (tx_reject (ticketID = uuid_Nil) ErrInvalidArgument) (\<lambda>_.
     tx_bind (tx_some (env_json env payload) ErrEncodePayload) (\<lambda>encoded.
     tx_bind (tx_reject (maxOutboxPayloadBytes < length encoded) ErrInvalidArgument) (\<lambda>_.
     tx_bind (exec_sql env ''append ticket outbox event'') (\<lambda>_.
     tx_modify (\<lambda>db. db\<lparr>outbox_events := outbox_events db @
        [outbox_row route ''ticket'' ticketID ''ticket.created'' encoded]\<rparr>)))))"

subsection \<open>Writes in a rollback window\<close>

definition upsert_generation_write ::
  "ShardRoute \<Rightarrow> uuid \<Rightarrow> GenerationWriteRow list \<Rightarrow> GenerationWriteRow list option" where
  "upsert_generation_write r migration rows =
     (let key = (\<lambda>g. gw_train_run g = route_trainRunID r \<and> gw_generation g = route_generation r) in
      case find key rows of
        None \<Rightarrow> Some (rows @ [\<lparr>gw_train_run = route_trainRunID r, gw_generation = route_generation r,
                     gw_shard = route_shardID r, gw_migration = migration, gw_count = 1\<rparr>])
      | Some g \<Rightarrow>
          if gw_shard g = route_shardID r \<and> gw_migration g = migration
          then Some (map (\<lambda>x. if key x then x\<lparr>gw_count := gw_count x + 1\<rparr> else x) rows)
          else None)"

definition recordSuccessfulGenerationWrite :: "TxEnv \<Rightarrow> ShardRoute option \<Rightarrow> unit btx" where
  "recordSuccessfulGenerationWrite env route =
     (case route of
        None \<Rightarrow> tx_return ()
      | Some r \<Rightarrow>
          tx_bind (tx_reject (route_trainRunID r = uuid_Nil \<or> route_generation r \<le> 0) ErrPersistenceInvariant) (\<lambda>_.
          tx_bind (exec_sql_as env ''load active migration'' ErrPersistenceInvariant) (\<lambda>_.
          tx_bind (tx_get (\<lambda>db. find (\<lambda>a. as_train_run a = route_trainRunID r \<and> as_shard a = route_shardID r \<and>
              as_generation a = route_generation r) (train_run_shard_assignments db))) (\<lambda>found.
          tx_bind (tx_some found (ErrShard RouteErrorAssignmentStale)) (\<lambda>a.
          case as_migration a of
            None \<Rightarrow> tx_reject (as_state a = ''rollback_window'') ErrPersistenceInvariant
          | Some migration \<Rightarrow>
              tx_bind (exec_sql_as env ''record generation write'' ErrPersistenceInvariant) (\<lambda>_.
              tx_bind (tx_get (\<lambda>db. upsert_generation_write r migration (train_run_generation_writes db))) (\<lambda>rows.
              tx_bind (tx_some rows ErrPersistenceInvariant) (\<lambda>updated.
              tx_modify (\<lambda>db. db\<lparr>train_run_generation_writes := updated\<rparr>)))))))))"

end
