(* ===== verification/Route_Cache.thy ===== *)
theory Route_Cache
  imports Shard_Route
begin

text \<open>
  \<^verbatim>\<open>src/internal/sharding/routecache/cache.go\<close>: the process-local LRU cache of routes. The code keeps
  a doubly linked list of entries and a map from train runs to list elements; the model keeps both,
  with a number for the identity of a list element. \<open>cache_inv\<close> ties them together, and the
  abstract cache is the list of entries alone. Every operation runs under the mutex, so operations
  are atomic steps.
\<close>

record CacheEntry =
  ce_trainRunID :: uuid
  ce_route :: ShardRoute
  ce_expiresAt :: gotime

record Cache =
  rc_enabled :: bool
  rc_ttl :: int
  rc_max :: int
  rc_entries :: "uuid \<rightharpoonup> nat"
  rc_lru :: "(nat \<times> CacheEntry) list"
  rc_next :: nat

datatype CacheError = ErrNonPositiveTTL | ErrNonPositiveMaxEntries | ErrInvalidRoute_cache

definition New_cache :: "bool \<Rightarrow> int \<Rightarrow> int \<Rightarrow> CacheError + Cache" where
  "New_cache enabled ttl maxEntries =
     (if enabled \<and> ttl \<le> 0 then Inl ErrNonPositiveTTL
      else if enabled \<and> maxEntries \<le> 0 then Inl ErrNonPositiveMaxEntries
      else Inr \<lparr>rc_enabled = enabled, rc_ttl = ttl, rc_max = maxEntries, rc_entries = Map.empty,
                rc_lru = [], rc_next = 0\<rparr>)"

text \<open>\<^verbatim>\<open>list.MoveToFront\<close> and \<^verbatim>\<open>list.Remove\<close> of \<^verbatim>\<open>container/list\<close>, on the element \<open>h\<close>.\<close>

definition MoveToFront :: "nat \<Rightarrow> (nat \<times> 'a) list \<Rightarrow> (nat \<times> 'a) list" where
  "MoveToFront h xs = filter (\<lambda>p. fst p = h) xs @ filter (\<lambda>p. fst p \<noteq> h) xs"

definition Cache_remove :: "nat option \<Rightarrow> Cache \<Rightarrow> Cache" where
  "Cache_remove element c =
     (case element of
        None \<Rightarrow> c
      | Some h \<Rightarrow>
          (case map_of (rc_lru c) h of
             None \<Rightarrow> c
           | Some stored \<Rightarrow> c\<lparr>rc_entries := (rc_entries c)(ce_trainRunID stored := None),
                             rc_lru := filter (\<lambda>p. fst p \<noteq> h) (rc_lru c)\<rparr>))"

definition Cache_Get :: "gotime \<Rightarrow> uuid \<Rightarrow> Cache \<Rightarrow> ShardRoute option \<times> Cache" where
  "Cache_Get now trainRunID c =
     (if \<not> rc_enabled c then (None, c)
      else case rc_entries c trainRunID of
             None \<Rightarrow> (None, c)
           | Some h \<Rightarrow>
               (case map_of (rc_lru c) h of
                  None \<Rightarrow> (None, c)
                | Some stored \<Rightarrow>
                    if \<not> now < ce_expiresAt stored then (None, Cache_remove (Some h) c)
                    else (Some (ce_route stored), c\<lparr>rc_lru := MoveToFront h (rc_lru c)\<rparr>)))"

definition Cache_Put :: "gotime \<Rightarrow> ShardRoute \<Rightarrow> Cache \<Rightarrow> CacheError option \<times> Cache" where
  "Cache_Put now route c =
     (let trainRunID = route_trainRunID route;
          val = \<lparr>ce_trainRunID = trainRunID, ce_route = route, ce_expiresAt = now + rc_ttl c\<rparr>
      in
      if \<not> rc_enabled c then (None, c)
      else if trainRunID = uuid_Nil \<or> route_generation route \<le> 0 then (Some ErrInvalidRoute_cache, c)
      else case ParseShardID (route_shardID route) of
             Inl _ \<Rightarrow> (Some ErrInvalidRoute_cache, c)
           | Inr _ \<Rightarrow>
               (case rc_entries c trainRunID of
                  Some h \<Rightarrow>
                    (None, c\<lparr>rc_lru := MoveToFront h (map (\<lambda>p. if fst p = h then (h, val) else p) (rc_lru c))\<rparr>)
                | None \<Rightarrow>
                    (let c' = (if int (length (rc_lru c)) = rc_max c
                               then Cache_remove (if rc_lru c = [] then None else Some (fst (last (rc_lru c)))) c
                               else c)
                     in (None, c'\<lparr>rc_entries := (rc_entries c')(trainRunID \<mapsto> rc_next c'),
                                  rc_lru := (rc_next c', val) # rc_lru c', rc_next := rc_next c' + 1\<rparr>))))"

definition Cache_Invalidate :: "uuid \<Rightarrow> Cache \<Rightarrow> Cache" where
  "Cache_Invalidate trainRunID c =
     (if \<not> rc_enabled c then c
      else case rc_entries c trainRunID of None \<Rightarrow> c | Some h \<Rightarrow> Cache_remove (Some h) c)"

subsection \<open>The invariant and the abstract cache\<close>

definition cache_list :: "Cache \<Rightarrow> CacheEntry list" where
  "cache_list c = map snd (rc_lru c)"

definition cache_inv :: "Cache \<Rightarrow> bool" where
  "cache_inv c \<longleftrightarrow>
     distinct (map fst (rc_lru c)) \<and> distinct (map ce_trainRunID (cache_list c)) \<and>
     (\<forall>k h. rc_entries c k = Some h \<longleftrightarrow> (\<exists>e. (h, e) \<in> set (rc_lru c) \<and> ce_trainRunID e = k)) \<and>
     (\<forall>p \<in> set (rc_lru c). fst p < rc_next c) \<and>
     (\<forall>e \<in> set (cache_list c). route_trainRunID (ce_route e) = ce_trainRunID e \<and> route_ok (ce_route e)) \<and>
     (if rc_enabled c then 0 < rc_max c \<and> int (length (rc_lru c)) \<le> rc_max c else rc_lru c = [])"

text \<open>The LRU cache as a list of entries with different keys, most recently used first.\<close>

definition lru_find :: "uuid \<Rightarrow> CacheEntry list \<Rightarrow> CacheEntry option" where
  "lru_find k es = find (\<lambda>e. ce_trainRunID e = k) es"

definition lru_without :: "uuid \<Rightarrow> CacheEntry list \<Rightarrow> CacheEntry list" where
  "lru_without k es = filter (\<lambda>e. ce_trainRunID e \<noteq> k) es"

definition lru_get :: "gotime \<Rightarrow> uuid \<Rightarrow> CacheEntry list \<Rightarrow> ShardRoute option \<times> CacheEntry list" where
  "lru_get now k es =
     (case lru_find k es of
        None \<Rightarrow> (None, es)
      | Some e \<Rightarrow> if now < ce_expiresAt e then (Some (ce_route e), e # lru_without k es)
                 else (None, lru_without k es))"

definition lru_put :: "nat \<Rightarrow> CacheEntry \<Rightarrow> CacheEntry list \<Rightarrow> CacheEntry list" where
  "lru_put limit v es =
     (if lru_find (ce_trainRunID v) es \<noteq> None then v # lru_without (ce_trainRunID v) es
      else v # (if length es = limit then butlast es else es))"

lemma filter_fst_snd:
  assumes "distinct (map fst xs)" "distinct (map (f \<circ> snd) xs)" "(h, e) \<in> set xs"
  shows "map snd (filter (\<lambda>p. fst p \<noteq> h) xs) = filter (\<lambda>x. f x \<noteq> f e) (map snd xs)"
    and "filter (\<lambda>p. fst p = h) xs = [(h, e)]"
proof -
  have key: "fst p = h \<longleftrightarrow> f (snd p) = f e" if "p \<in> set xs" for p
    using assms that inj_on_eq_iff [of fst "set xs" p "(h, e)"]
      inj_on_eq_iff [of "f \<circ> snd" "set xs" p "(h, e)"] by (simp add: distinct_map)
  then show "map snd (filter (\<lambda>p. fst p \<noteq> h) xs) = filter (\<lambda>x. f x \<noteq> f e) (map snd xs)"
    by (simp add: filter_map o_def cong: filter_cong)
  show "filter (\<lambda>p. fst p = h) xs = [(h, e)]"
    using assms(1,3) by (induction xs) (auto simp: filter_empty_conv image_iff)
qed

lemma cache_inv_lookup:
  assumes "cache_inv c"
  shows "rc_entries c k = None \<longleftrightarrow> lru_find k (cache_list c) = None"
    and "rc_entries c k = Some h \<Longrightarrow>
      \<exists>e. map_of (rc_lru c) h = Some e \<and> (h, e) \<in> set (rc_lru c) \<and> ce_trainRunID e = k \<and>
          lru_find k (cache_list c) = Some e"
proof -
  have key: "rc_entries c k = Some h \<longleftrightarrow> (\<exists>e. (h, e) \<in> set (rc_lru c) \<and> ce_trainRunID e = k)" for k h
    using assms by (simp add: cache_inv_def)
  have "rc_entries c k = None \<longleftrightarrow> (\<forall>h. rc_entries c k \<noteq> Some h)" by auto
  then show "rc_entries c k = None \<longleftrightarrow> lru_find k (cache_list c) = None"
    unfolding key by (force simp: lru_find_def cache_list_def find_None_iff)
  assume "rc_entries c k = Some h"
  then obtain e where e: "(h, e) \<in> set (rc_lru c)" "ce_trainRunID e = k" unfolding key by blast
  have "find (\<lambda>x. ce_trainRunID x = k) es = Some e"
    if "distinct (map ce_trainRunID es)" "e \<in> set es" for es
    using that e(2) by (induction es) (auto simp: image_iff)
  moreover have "distinct (map ce_trainRunID (cache_list c))" using assms by (simp add: cache_inv_def)
  moreover have "e \<in> set (cache_list c)" using e(1) by (force simp: cache_list_def)
  ultimately have "lru_find k (cache_list c) = Some e" by (simp add: lru_find_def)
  moreover have "map_of (rc_lru c) h = Some e" using assms e by (simp add: cache_inv_def)
  ultimately show "\<exists>e. map_of (rc_lru c) h = Some e \<and> (h, e) \<in> set (rc_lru c) \<and> ce_trainRunID e = k \<and>
      lru_find k (cache_list c) = Some e" using e by blast
qed

lemma distinct_without_last:
  "distinct (map ce_trainRunID es) \<Longrightarrow> es = xs @ [e] \<Longrightarrow> lru_without (ce_trainRunID e) es = xs"
  by (auto simp: lru_without_def filter_id_conv image_iff)

text \<open>Removing an element of the list and its key is removing the key from the abstract cache.\<close>

lemma Cache_remove_spec:
  assumes inv: "cache_inv c" and e: "(h, e) \<in> set (rc_lru c)"
  shows "cache_list (Cache_remove (Some h) c) = lru_without (ce_trainRunID e) (cache_list c)"
    and "cache_inv (Cache_remove (Some h) c)"
proof -
  have d: "distinct (map fst (rc_lru c))" "distinct (map (ce_trainRunID \<circ> snd) (rc_lru c))"
    using inv by (simp_all add: cache_inv_def cache_list_def)
  then have get: "map_of (rc_lru c) h = Some e" using e by simp
  show "cache_list (Cache_remove (Some h) c) = lru_without (ce_trainRunID e) (cache_list c)"
    using filter_fst_snd(1) [OF d e] get by (simp add: Cache_remove_def cache_list_def lru_without_def)
  have other: "(\<exists>x. (h', x) \<in> set (rc_lru c) \<and> h' \<noteq> h \<and> ce_trainRunID x = k) \<longleftrightarrow>
      k \<noteq> ce_trainRunID e \<and> rc_entries c k = Some h'" for k h'
  proof -
    have key: "rc_entries c k = Some h' \<longleftrightarrow> (\<exists>x. (h', x) \<in> set (rc_lru c) \<and> ce_trainRunID x = k)"
      using inv by (simp add: cache_inv_def)
    have "h' = h \<longleftrightarrow> ce_trainRunID x = ce_trainRunID e" if "(h', x) \<in> set (rc_lru c)" for x
      using d e that inj_on_eq_iff [of fst "set (rc_lru c)" "(h', x)" "(h, e)"]
        inj_on_eq_iff [of "ce_trainRunID \<circ> snd" "set (rc_lru c)" "(h', x)" "(h, e)"]
      by (simp add: distinct_map)
    then show ?thesis unfolding key by blast
  qed
  have len: "int (length (filter (\<lambda>p. fst p \<noteq> h) (rc_lru c))) \<le> rc_max c"
    if "int (length (rc_lru c)) \<le> rc_max c"
    by (rule order_trans [OF _ that]) simp
  show "cache_inv (Cache_remove (Some h) c)"
    using inv get other len
    by (auto simp: cache_inv_def Cache_remove_def cache_list_def distinct_map_filter filter_map o_def)
qed

text \<open>Reordering the list and replacing values under their keys keeps the invariant.\<close>

lemma cache_inv_cong:
  assumes inv: "cache_inv c"
    and perm: "distinct (map fst xs)" "distinct (map (ce_trainRunID \<circ> snd) xs)"
      "(\<lambda>p. (fst p, ce_trainRunID (snd p))) ` set xs = (\<lambda>p. (fst p, ce_trainRunID (snd p))) ` set (rc_lru c)"
      "length xs = length (rc_lru c)"
    and vals: "\<And>p. p \<in> set xs \<Longrightarrow> route_trainRunID (ce_route (snd p)) = ce_trainRunID (snd p) \<and> route_ok (ce_route (snd p))"
  shows "cache_inv (c\<lparr>rc_lru := xs\<rparr>)"
proof -
  have keys: "(\<exists>e. (h, e) \<in> set xs \<and> ce_trainRunID e = k) \<longleftrightarrow>
      (\<exists>e. (h, e) \<in> set (rc_lru c) \<and> ce_trainRunID e = k)" for h k
  proof -
    have image: "(\<exists>e. (h, e) \<in> set zs \<and> ce_trainRunID e = k) \<longleftrightarrow>
        (h, k) \<in> (\<lambda>p. (fst p, ce_trainRunID (snd p))) ` set zs" for zs by force
    show ?thesis unfolding image perm(3) ..
  qed
  have "fst ` set xs = fst ` set (rc_lru c)"
    using arg_cong [OF perm(3), of "(`) fst"] by (simp add: image_image)
  moreover have "\<forall>h \<in> fst ` set (rc_lru c). h < rc_next c" using inv by (simp add: cache_inv_def)
  ultimately have "\<forall>h \<in> fst ` set xs. h < rc_next c" by simp
  then have bound: "\<forall>p \<in> set xs. fst p < rc_next c" by simp
  have empty: "xs = [] \<longleftrightarrow> rc_lru c = []" using perm(4) by auto
  show ?thesis using inv perm keys bound vals empty
    by (simp add: cache_inv_def cache_list_def)
qed

lemma filter_replace:
  "filter (\<lambda>p. fst p \<noteq> h) (map (\<lambda>p. if fst p = h then (h, v) else p) xs) = filter (\<lambda>p. fst p \<noteq> h) xs"
  by (induction xs) auto

lemma MoveToFront_spec:
  assumes inv: "cache_inv c" and e: "(h, e) \<in> set (rc_lru c)"
    and ok: "ce_trainRunID v = ce_trainRunID e" "route_trainRunID (ce_route v) = ce_trainRunID v" "route_ok (ce_route v)"
  defines "xs \<equiv> MoveToFront h (map (\<lambda>p. if fst p = h then (h, v) else p) (rc_lru c))"
  shows "map snd xs = v # lru_without (ce_trainRunID e) (cache_list c)"
    and "cache_inv (c\<lparr>rc_lru := xs\<rparr>)"
proof -
  have d: "distinct (map fst (rc_lru c))" "distinct (map (ce_trainRunID \<circ> snd) (rc_lru c))"
    using inv by (simp_all add: cache_inv_def cache_list_def)
  let ?rest = "filter (\<lambda>p. fst p \<noteq> h) (rc_lru c)"
  have "filter (\<lambda>p. fst p = h) (map (\<lambda>p. if fst p = h then (h, v) else p) (rc_lru c)) = [(h, v)]"
    using filter_fst_snd(2) [OF d e] by (simp add: filter_map o_def if_distrib cong: if_cong filter_cong)
  moreover have "filter (\<lambda>p. fst p \<noteq> h) (map (\<lambda>p. if fst p = h then (h, v) else p) (rc_lru c)) = ?rest"
    by (simp add: filter_replace)
  ultimately have xs: "xs = (h, v) # ?rest" by (simp add: xs_def MoveToFront_def)
  then show "map snd xs = v # lru_without (ce_trainRunID e) (cache_list c)"
    using filter_fst_snd(1) [OF d e] by (simp add: cache_list_def lru_without_def)
  have mem: "p \<in> set (rc_lru c) \<longleftrightarrow> p = (h, e) \<or> p \<in> set ?rest" for p
  proof -
    have "p \<in> set (filter (\<lambda>p. fst p = h) (rc_lru c)) \<longleftrightarrow> p = (h, e)"
      using filter_fst_snd(2) [OF d e] by simp
    then show ?thesis by auto
  qed
  have rest: "map snd ?rest = filter (\<lambda>x. ce_trainRunID x \<noteq> ce_trainRunID e) (cache_list c)"
    using filter_fst_snd(1) [OF d e] by (simp add: cache_list_def)
  show "cache_inv (c\<lparr>rc_lru := xs\<rparr>)"
  proof (rule cache_inv_cong [OF inv])
    show "distinct (map fst xs)" using d(1) by (auto simp: xs distinct_map_filter)
    have "ce_trainRunID e \<notin> ce_trainRunID ` set (map snd ?rest)" unfolding rest by auto
    then show "distinct (map (ce_trainRunID \<circ> snd) xs)"
      using d(2) by (simp add: xs distinct_map_filter ok(1) image_image)
    have "set (rc_lru c) = insert (h, e) (set ?rest)" using mem by blast
    then have "f ` set (rc_lru c) = insert (f (h, e)) (f ` set ?rest)" for f :: "_ \<Rightarrow> nat \<times> uuid"
      by (metis image_insert)
    then show "(\<lambda>p. (fst p, ce_trainRunID (snd p))) ` set xs =
        (\<lambda>p. (fst p, ce_trainRunID (snd p))) ` set (rc_lru c)" by (simp add: xs ok(1))
    show "length xs = length (rc_lru c)"
      using sum_length_filter_compl [of "\<lambda>p. fst p = h" "rc_lru c"] filter_fst_snd(2) [OF d e]
      by (simp add: xs)
    show "route_trainRunID (ce_route (snd p)) = ce_trainRunID (snd p) \<and> route_ok (ce_route (snd p))"
      if "p \<in> set xs" for p
    proof -
      have "p = (h, v) \<or> p \<in> set (rc_lru c)" using that by (auto simp: xs)
      then show ?thesis using inv ok by (auto simp: cache_inv_def cache_list_def)
    qed
  qed
qed

lemma MoveToFront_same:
  assumes "cache_inv c" "(h, e) \<in> set (rc_lru c)"
  shows "map snd (MoveToFront h (rc_lru c)) = e # lru_without (ce_trainRunID e) (cache_list c)"
    and "cache_inv (c\<lparr>rc_lru := MoveToFront h (rc_lru c)\<rparr>)"
proof -
  have "(if fst p = h then (h, e) else p) = p" if "p \<in> set (rc_lru c)" for p
    using assms that inj_on_eq_iff [of fst "set (rc_lru c)" p "(h, e)"]
    by (auto simp: cache_inv_def distinct_map)
  then have same: "map (\<lambda>p. if fst p = h then (h, e) else p) (rc_lru c) = rc_lru c"
    by (simp add: map_idI)
  have ok: "route_trainRunID (ce_route e) = ce_trainRunID e" "route_ok (ce_route e)"
    using assms by (force simp: cache_inv_def cache_list_def)+
  show "map snd (MoveToFront h (rc_lru c)) = e # lru_without (ce_trainRunID e) (cache_list c)"
    and "cache_inv (c\<lparr>rc_lru := MoveToFront h (rc_lru c)\<rparr>)"
    using MoveToFront_spec [OF assms refl ok] same by simp_all
qed

subsection \<open>The operations implement the abstract cache\<close>

lemma Cache_Get_refines:
  assumes inv: "cache_inv c" and on: "rc_enabled c"
  shows "(fst (Cache_Get now k c), cache_list (snd (Cache_Get now k c))) = lru_get now k (cache_list c)"
    and "cache_inv (snd (Cache_Get now k c))"
proof -
  have "(fst (Cache_Get now k c), cache_list (snd (Cache_Get now k c))) = lru_get now k (cache_list c) \<and>
      cache_inv (snd (Cache_Get now k c))"
  proof (cases "rc_entries c k")
    case None
    with inv on cache_inv_lookup(1) [OF inv, of k] show ?thesis by (simp add: Cache_Get_def lru_get_def)
  next
    case (Some h)
    then obtain e where e: "map_of (rc_lru c) h = Some e" "(h, e) \<in> set (rc_lru c)" "ce_trainRunID e = k"
        "lru_find k (cache_list c) = Some e"
      using cache_inv_lookup(2) [OF inv] by blast
    show ?thesis
      using Some e on Cache_remove_spec [OF inv e(2)] MoveToFront_same [OF inv e(2)]
      by (simp add: Cache_Get_def lru_get_def cache_list_def)
  qed
  then show "(fst (Cache_Get now k c), cache_list (snd (Cache_Get now k c))) = lru_get now k (cache_list c)"
    and "cache_inv (snd (Cache_Get now k c))" by simp_all
qed

lemma Cache_Invalidate_refines:
  assumes inv: "cache_inv c"
  shows "cache_list (Cache_Invalidate k c) = lru_without k (cache_list c)"
    and "cache_inv (Cache_Invalidate k c)"
proof -
  have off: "cache_list c = []" if "\<not> rc_enabled c" using inv that by (simp add: cache_inv_def cache_list_def)
  have "cache_list (Cache_Invalidate k c) = lru_without k (cache_list c) \<and> cache_inv (Cache_Invalidate k c)"
  proof (cases "rc_entries c k")
    case None
    then have "lru_find k (cache_list c) = None" using cache_inv_lookup(1) [OF inv] by simp
    then have "lru_without k (cache_list c) = cache_list c"
      by (auto simp: lru_find_def lru_without_def find_None_iff intro: filter_True)
    with None inv show ?thesis by (simp add: Cache_Invalidate_def)
  next
    case (Some h)
    then obtain e where "(h, e) \<in> set (rc_lru c)" "ce_trainRunID e = k"
      using cache_inv_lookup(2) [OF inv] by blast
    with Some inv off Cache_remove_spec [OF inv] show ?thesis
      by (auto simp: Cache_Invalidate_def lru_without_def)
  qed
  then show "cache_list (Cache_Invalidate k c) = lru_without k (cache_list c)"
    and "cache_inv (Cache_Invalidate k c)" by simp_all
qed

lemma cache_inv_push:
  assumes inv: "cache_inv c" and new: "rc_entries c k = None" and on: "rc_enabled c"
    and room: "int (length (rc_lru c)) < rc_max c"
    and v: "ce_trainRunID v = k" "route_trainRunID (ce_route v) = k" "route_ok (ce_route v)"
  shows "cache_inv (c\<lparr>rc_entries := (rc_entries c)(k \<mapsto> rc_next c), rc_lru := (rc_next c, v) # rc_lru c,
    rc_next := rc_next c + 1\<rparr>)"
proof -
  have fresh: "rc_next c \<notin> fst ` set (rc_lru c)" using inv by (force simp: cache_inv_def)
  have key: "k \<notin> ce_trainRunID ` set (cache_list c)"
    using new cache_inv_lookup(1) [OF inv, of k] by (auto simp: lru_find_def find_None_iff)
  have map: "(if k' = k then Some (rc_next c) else rc_entries c k') = Some h \<longleftrightarrow>
      (\<exists>e. (h, e) \<in> set ((rc_next c, v) # rc_lru c) \<and> ce_trainRunID e = k')" for k' h
  proof -
    have old: "rc_entries c k' = Some h \<longleftrightarrow> (\<exists>e. (h, e) \<in> set (rc_lru c) \<and> ce_trainRunID e = k')"
      using inv by (simp add: cache_inv_def)
    have "\<not> (\<exists>e. (h, e) \<in> set (rc_lru c) \<and> ce_trainRunID e = k)"
      using key by (force simp: cache_list_def)
    with old show ?thesis using v(1) by auto
  qed
  have "\<forall>p \<in> set ((rc_next c, v) # rc_lru c). fst p < rc_next c + 1"
    using inv by (auto simp: cache_inv_def less_Suc_eq)
  with map fresh key room v inv on show ?thesis
    by (simp add: cache_inv_def cache_list_def fun_upd_def image_image)
qed

lemma Cache_Put_refines:
  assumes inv: "cache_inv c" and on: "rc_enabled c" and r: "route_ok r"
  shows "fst (Cache_Put now r c) = None"
    and "cache_list (snd (Cache_Put now r c)) =
      lru_put (nat (rc_max c)) \<lparr>ce_trainRunID = route_trainRunID r, ce_route = r, ce_expiresAt = now + rc_ttl c\<rparr>
        (cache_list c)"
    and "cache_inv (snd (Cache_Put now r c))"
proof -
  let ?k = "route_trainRunID r"
  let ?v = "\<lparr>ce_trainRunID = ?k, ce_route = r, ce_expiresAt = now + rc_ttl c\<rparr>"
  have parse: "ParseShardID (route_shardID r) = Inr (route_shardID r)"
    using r by (auto simp: route_ok_def ParseShardID_def)
  have guards: "\<not> (?k = 0 \<or> route_generation r \<le> 0)" using r by (auto simp: route_ok_def)
  have size: "0 < rc_max c" "int (length (rc_lru c)) \<le> rc_max c" using inv on by (auto simp: cache_inv_def)
  have "fst (Cache_Put now r c) = None \<and>
      cache_list (snd (Cache_Put now r c)) = lru_put (nat (rc_max c)) ?v (cache_list c) \<and>
      cache_inv (snd (Cache_Put now r c))"
  proof (cases "rc_entries c ?k")
    case (Some h)
    then obtain e where e: "(h, e) \<in> set (rc_lru c)" "ce_trainRunID e = ?k" "lru_find ?k (cache_list c) = Some e"
      using cache_inv_lookup(2) [OF inv] by blast
    show ?thesis
      using MoveToFront_spec [OF inv e(1), of ?v] e r Some on parse guards
      by (simp add: Cache_Put_def Let_def lru_put_def cache_list_def)
  next
    case None
    then have nf: "lru_find ?k (cache_list c) = None" using cache_inv_lookup(1) [OF inv] by simp
    define c' where "c' = (if int (length (rc_lru c)) = rc_max c
        then Cache_remove (if rc_lru c = [] then None else Some (fst (last (rc_lru c)))) c else c)"
    have "cache_inv c' \<and> rc_entries c' ?k = None \<and> rc_enabled c' \<and> int (length (rc_lru c')) < rc_max c' \<and>
        cache_list c' = (if length (cache_list c) = nat (rc_max c) then butlast (cache_list c) else cache_list c)"
    proof (cases "int (length (rc_lru c)) = rc_max c")
      case False
      with inv None on size show ?thesis by (auto simp: c'_def cache_list_def)
    next
      case True
      then have ne: "rc_lru c \<noteq> []" using size by auto
      obtain h e where last: "last (rc_lru c) = (h, e)" by (cases "last (rc_lru c)")
      with ne have mem: "(h, e) \<in> set (rc_lru c)" by (metis last_in_set)
      have c': "c' = Cache_remove (Some h) c" using True ne last by (simp add: c'_def)
      have "distinct (map ce_trainRunID (cache_list c))" using inv by (simp add: cache_inv_def)
      moreover have "cache_list c = butlast (cache_list c) @ [e]"
        using ne last by (metis append_butlast_last_id cache_list_def last_map list.map_disc_iff snd_conv)
      ultimately have "lru_without (ce_trainRunID e) (cache_list c) = butlast (cache_list c)"
        by (metis (mono_tags, lifting) distinct_without_last)
      then have list: "cache_list c' = butlast (cache_list c)"
        using Cache_remove_spec(1) [OF inv mem] c' by simp
      moreover have inv': "cache_inv c'" using Cache_remove_spec(2) [OF inv mem] c' by simp
      moreover have "lru_find ?k (cache_list c') = None"
        using nf in_set_butlastD by (fastforce simp: list lru_find_def find_None_iff)
      then have "rc_entries c' ?k = None" using cache_inv_lookup(1) [OF inv'] by simp
      moreover have "rc_enabled c' = rc_enabled c" "rc_max c' = rc_max c"
        by (auto simp: c' Cache_remove_def split: option.splits)
      moreover have "length (rc_lru c') = length (rc_lru c) - 1"
        using arg_cong [OF list, of length] by (simp add: cache_list_def)
      ultimately show ?thesis using True on size ne by (auto simp: cache_list_def)
    qed
    moreover have "Cache_Put now r c = (None, c'\<lparr>rc_entries := (rc_entries c')(?k \<mapsto> rc_next c'),
        rc_lru := (rc_next c', ?v) # rc_lru c', rc_next := rc_next c' + 1\<rparr>)"
      using None on parse guards by (simp add: Cache_Put_def Let_def c'_def)
    ultimately show ?thesis
      using cache_inv_push [of c' ?k ?v] nf r by (simp add: lru_put_def cache_list_def)
  qed
  then show "fst (Cache_Put now r c) = None"
    and "cache_list (snd (Cache_Put now r c)) = lru_put (nat (rc_max c)) ?v (cache_list c)"
    and "cache_inv (snd (Cache_Put now r c))" by simp_all
qed

subsection \<open>The contract the router relies on\<close>

text \<open>
  The router treats the cache as a hint. It needs that a hit was put there for the same train run,
  that a put replaces what was cached for the run before, and that an invalidated run misses.
\<close>

locale advisory_cache =
  fixes inv :: "'c \<Rightarrow> bool"
    and get :: "gotime \<Rightarrow> uuid \<Rightarrow> 'c \<Rightarrow> ShardRoute option \<times> 'c"
    and put :: "gotime \<Rightarrow> ShardRoute \<Rightarrow> 'c \<Rightarrow> 'c"
    and forget :: "uuid \<Rightarrow> 'c \<Rightarrow> 'c"
    and routes :: "'c \<Rightarrow> ShardRoute set"
  assumes inv_get: "inv c \<Longrightarrow> inv (snd (get t k c))"
    and inv_put: "inv c \<Longrightarrow> route_ok r \<Longrightarrow> inv (put t r c)"
    and inv_forget: "inv c \<Longrightarrow> inv (forget k c)"
    and get_sound: "inv c \<Longrightarrow> fst (get t k c) = Some r \<Longrightarrow> r \<in> routes c \<and> route_trainRunID r = k \<and> route_ok r"
    and routes_get: "inv c \<Longrightarrow> routes (snd (get t k c)) \<subseteq> routes c"
    and routes_put: "inv c \<Longrightarrow> route_ok r \<Longrightarrow>
      routes (put t r c) \<subseteq> insert r {x \<in> routes c. route_trainRunID x \<noteq> route_trainRunID r}"
    and routes_forget: "inv c \<Longrightarrow> routes (forget k c) \<subseteq> {x \<in> routes c. route_trainRunID x \<noteq> k}"
begin

lemma get_after_put:
  assumes "inv c" "route_ok r"
  shows "fst (get t (route_trainRunID r) (put t' r c)) \<in> {None, Some r}"
proof (cases "fst (get t (route_trainRunID r) (put t' r c))")
  case (Some x)
  with get_sound [OF inv_put [OF assms]] routes_put [OF assms] show ?thesis by fastforce
qed simp

lemma get_after_forget:
  assumes "inv c"
  shows "fst (get t k (forget k c)) = None"
proof (cases "fst (get t k (forget k c))")
  case (Some r)
  with get_sound [OF inv_forget [OF assms] Some] routes_forget [OF assms, of k] show ?thesis by blast
qed

lemma get_twice:
  assumes "inv c" "fst (get t k (snd (get t' k' c))) = Some r"
  shows "r \<in> routes c \<and> route_trainRunID r = k"
  using get_sound [OF inv_get [OF assms(1)] assms(2)] routes_get [OF assms(1)] by blast

end

lemma cache_off: "cache_inv c \<Longrightarrow> \<not> rc_enabled c \<Longrightarrow> cache_list c = []"
  by (simp add: cache_inv_def cache_list_def)

lemma Cache_Put_off: "\<not> rc_enabled c \<Longrightarrow> Cache_Put t r c = (None, c)"
  by (simp add: Cache_Put_def Let_def)

lemma cache_list_ok:
  "cache_inv c \<Longrightarrow> e \<in> set (cache_list c) \<Longrightarrow> route_trainRunID (ce_route e) = ce_trainRunID e \<and> route_ok (ce_route e)"
  by (simp add: cache_inv_def)

lemma lru_findD: "lru_find k es = Some e \<Longrightarrow> e \<in> set es \<and> ce_trainRunID e = k"
  by (auto simp: lru_find_def find_Some_iff)

lemma Cache_Get_inv: "cache_inv c \<Longrightarrow> cache_inv (snd (Cache_Get t k c))"
  using Cache_Get_refines(2) by (cases "rc_enabled c") (simp_all add: Cache_Get_def)

lemma Cache_Get_hit:
  assumes "cache_inv c" "fst (Cache_Get t k c) = Some r"
  shows "\<exists>e \<in> set (cache_list c). ce_route e = r \<and> ce_trainRunID e = k \<and> t < ce_expiresAt e"
proof -
  have "rc_enabled c" using assms(2) by (auto simp: Cache_Get_def split: if_splits)
  then have "fst (lru_get t k (cache_list c)) = Some r"
    using Cache_Get_refines(1) [OF assms(1), of t k] assms(2) by (metis fst_conv)
  then show ?thesis by (auto simp: lru_get_def dest!: lru_findD split: option.splits if_splits)
qed

lemma Cache_Get_list: "cache_inv c \<Longrightarrow> set (cache_list (snd (Cache_Get t k c))) \<subseteq> set (cache_list c)"
proof (cases "rc_enabled c")
  case True
  assume "cache_inv c"
  then have "cache_list (snd (Cache_Get t k c)) = snd (lru_get t k (cache_list c))"
    using Cache_Get_refines(1) [OF _ True, of t k] by (metis snd_conv)
  then show ?thesis by (auto simp: lru_get_def lru_without_def dest: lru_findD split: option.splits if_splits)
qed (simp add: Cache_Get_def)

lemma lru_put_set:
  "x \<in> set (lru_put n v es) \<Longrightarrow> x = v \<or> x \<in> set es \<and> ce_trainRunID x \<noteq> ce_trainRunID v"
  by (auto simp: lru_put_def lru_without_def lru_find_def find_None_iff dest: in_set_butlastD split: if_splits)

interpretation rcache: advisory_cache cache_inv Cache_Get "\<lambda>t r c. snd (Cache_Put t r c)" Cache_Invalidate
  "\<lambda>c. if rc_enabled c then ce_route ` set (cache_list c) else {}"
proof unfold_locales
  fix c t k r
  assume inv: "cache_inv c"
  have put_on: "rc_enabled (snd (Cache_Put t r c)) = rc_enabled c"
    by (auto simp: Cache_Put_def Cache_remove_def Let_def split: sum.splits option.splits)
  have get_on: "rc_enabled (snd (Cache_Get t k c)) = rc_enabled c"
    by (auto simp: Cache_Get_def Cache_remove_def split: option.splits)
  have forget_on: "rc_enabled (Cache_Invalidate k c) = rc_enabled c"
    by (auto simp: Cache_Invalidate_def Cache_remove_def split: option.splits)
  show "cache_inv (snd (Cache_Get t k c))" using inv by (rule Cache_Get_inv)
  show "cache_inv (Cache_Invalidate k c)" using inv by (rule Cache_Invalidate_refines)
  show "r \<in> (if rc_enabled c then ce_route ` set (cache_list c) else {}) \<and> route_trainRunID r = k \<and> route_ok r"
    if hit: "fst (Cache_Get t k c) = Some r"
    using Cache_Get_hit [OF inv hit] cache_list_ok [OF inv] hit
    by (auto simp: Cache_Get_def split: if_splits)
  show "(if rc_enabled (snd (Cache_Get t k c)) then ce_route ` set (cache_list (snd (Cache_Get t k c))) else {})
      \<subseteq> (if rc_enabled c then ce_route ` set (cache_list c) else {})"
    using Cache_Get_list [OF inv, of t k] by (auto simp: get_on)
  show "(if rc_enabled (Cache_Invalidate k c) then ce_route ` set (cache_list (Cache_Invalidate k c)) else {})
      \<subseteq> {x \<in> (if rc_enabled c then ce_route ` set (cache_list c) else {}). route_trainRunID x \<noteq> k}"
    using Cache_Invalidate_refines(1) [OF inv, of k] cache_list_ok [OF inv]
    by (auto simp: forget_on lru_without_def)
  show "cache_inv (snd (Cache_Put t r c))" if "route_ok r"
    using Cache_Put_refines(3) [OF inv _ that] inv by (cases "rc_enabled c") (simp_all add: Cache_Put_off)
  show "(if rc_enabled (snd (Cache_Put t r c)) then ce_route ` set (cache_list (snd (Cache_Put t r c))) else {})
      \<subseteq> insert r {x \<in> (if rc_enabled c then ce_route ` set (cache_list c) else {}).
          route_trainRunID x \<noteq> route_trainRunID r}" if ok: "route_ok r"
    using Cache_Put_refines(2) [OF inv _ ok, of t] cache_list_ok [OF inv]
    by (auto simp: put_on dest!: lru_put_set)
qed

end
