(* ===== verification/Shard_Router.thy ===== *)
theory Shard_Router
  imports Booking_Db Route_Cache
begin

text \<open>
  \<^verbatim>\<open>src/internal/sharding/postgres/router.go\<close> and \<^verbatim>\<open>routed_tx.go\<close>: from an identifier to a route, and
  from a route to a transaction that holds the assignment and the write fence of its train run. The
  catalog lookups return their route or error category; the cache of the process is threaded
  through the operations that use it. Metrics and query timeouts are left out: a statement that
  fails, for whatever reason, is a fault of the environment.
\<close>

record Router =
  router_cache :: "Cache option"
  router_allowed :: "ShardID list"

subsection \<open>Construction\<close>

text \<open>\<^verbatim>\<open>WithAllowedShards\<close>: \<open>None\<close> when the option marks the router's options as invalid.\<close>

fun allowed_shards :: "ShardID list \<Rightarrow> ShardID list \<Rightarrow> ShardID list option" where
  "allowed_shards [] allowed = Some allowed"
| "allowed_shards (candidate # rest) allowed =
     (case ParseShardID candidate of
        Inl _ \<Rightarrow> None
      | Inr parsed \<Rightarrow> if parsed \<noteq> candidate \<or> candidate \<in> set allowed then None
                      else allowed_shards rest (allowed @ [candidate]))"

definition WithAllowedShards :: "ShardID list \<Rightarrow> ShardID list option" where
  "WithAllowedShards configured =
     (if configured = [] \<or> 3 < length configured then None else allowed_shards configured [])"

definition NewRouter :: "Cache option \<Rightarrow> ShardID list option \<Rightarrow> RouteErrorCode + Router" where
  "NewRouter cache opt =
     (case opt of
        None \<Rightarrow> Inr \<lparr>router_cache = cache, router_allowed = [ShardLegacy, ShardZero, ShardOne]\<rparr>
      | Some configured \<Rightarrow>
          (case WithAllowedShards configured of
             None \<Rightarrow> Inl RouteErrorShardUnavailable
           | Some allowed \<Rightarrow>
               if allowed = [] then Inl RouteErrorShardUnavailable
               else Inr \<lparr>router_cache = cache, router_allowed = allowed\<rparr>))"

definition shardAllowed :: "Router \<Rightarrow> ShardID \<Rightarrow> bool" where
  "shardAllowed router shardID \<longleftrightarrow> shardID \<in> set (router_allowed router)"

definition validRoute :: "ShardRoute \<Rightarrow> bool" where
  "validRoute route =
     (if route_trainRunID route = uuid_Nil \<or> route_generation route \<le> 0 then False
      else case ParseShardID (route_shardID route) of Inl _ \<Rightarrow> False | Inr _ \<Rightarrow> True)"

definition catalogStateAllowsRoute :: "string \<Rightarrow> bool" where
  "catalogStateAllowsRoute state \<longleftrightarrow> state = ''active'' \<or> state = ''draining''"

subsection \<open>Locators\<close>

type_synonym locator = "uuid \<times> string \<times> int64"

definition resolveLocator :: "TxEnv \<Rightarrow> Router \<Rightarrow> locator option \<Rightarrow> RouteErrorCode + ShardRoute" where
  "resolveLocator env router row =
     (if env_fault env ''resolve locator'' \<noteq> None then Inl RouteErrorShardUnavailable
      else case row of
        None \<Rightarrow> Inl RouteErrorLocatorNotFound
      | Some (trainRunID, rawShardID, rawGeneration) \<Rightarrow>
          (case ParseShardID rawShardID of
             Inl _ \<Rightarrow> Inl RouteErrorShardUnavailable
           | Inr shardID \<Rightarrow>
               if \<not> shardAllowed router shardID then Inl RouteErrorShardUnavailable
               else (case NewAssignmentGeneration rawGeneration of
                       Inl _ \<Rightarrow> Inl RouteErrorShardUnavailable
                     | Inr generation \<Rightarrow>
                         (case NewShardRoute trainRunID shardID generation of
                            Inl _ \<Rightarrow> Inl RouteErrorShardUnavailable
                          | Inr route \<Rightarrow> Inr route))))"

definition reservation_locator :: "(ReservationLocator \<Rightarrow> bool) \<Rightarrow> BookingDb \<Rightarrow> locator option" where
  "reservation_locator p db =
     map_option (\<lambda>l. (rl_train_run l, rl_shard l, rl_generation l)) (find p (reservation_shard_locators db))"

definition order_locator :: "(TicketOrderLocator \<Rightarrow> bool) \<Rightarrow> BookingDb \<Rightarrow> locator option" where
  "order_locator p db =
     map_option (\<lambda>l. (ol_train_run l, ol_shard l, ol_generation l)) (find p (ticket_order_shard_locators db))"

definition ResolveReservation :: "TxEnv \<Rightarrow> Router \<Rightarrow> uuid \<Rightarrow> BookingDb \<Rightarrow> RouteErrorCode + ShardRoute" where
  "ResolveReservation env router reservationID db =
     (if reservationID = uuid_Nil then Inl RouteErrorLocatorNotFound
      else resolveLocator env router (reservation_locator (\<lambda>l. rl_reservation l = reservationID) db))"

definition ResolveReservationForOwner ::
  "TxEnv \<Rightarrow> Router \<Rightarrow> uuid \<Rightarrow> uuid \<Rightarrow> BookingDb \<Rightarrow> RouteErrorCode + ShardRoute" where
  "ResolveReservationForOwner env router reservationID ownerUserID db =
     (if reservationID = uuid_Nil \<or> ownerUserID = uuid_Nil then Inl RouteErrorLocatorNotFound
      else resolveLocator env router
             (reservation_locator (\<lambda>l. rl_reservation l = reservationID \<and> rl_owner l = ownerUserID) db))"

definition ResolveTicketOrder :: "TxEnv \<Rightarrow> Router \<Rightarrow> uuid \<Rightarrow> BookingDb \<Rightarrow> RouteErrorCode + ShardRoute" where
  "ResolveTicketOrder env router ticketOrderID db =
     (if ticketOrderID = uuid_Nil then Inl RouteErrorLocatorNotFound
      else resolveLocator env router (order_locator (\<lambda>l. ol_order l = ticketOrderID) db))"

definition ResolveTicketOrderForOwner ::
  "TxEnv \<Rightarrow> Router \<Rightarrow> uuid \<Rightarrow> uuid \<Rightarrow> BookingDb \<Rightarrow> RouteErrorCode + ShardRoute" where
  "ResolveTicketOrderForOwner env router ticketOrderID ownerUserID db =
     (if ticketOrderID = uuid_Nil \<or> ownerUserID = uuid_Nil then Inl RouteErrorLocatorNotFound
      else resolveLocator env router (order_locator (\<lambda>l. ol_order l = ticketOrderID \<and> ol_owner l = ownerUserID) db))"

definition ResolveTicket :: "TxEnv \<Rightarrow> Router \<Rightarrow> uuid \<Rightarrow> BookingDb \<Rightarrow> RouteErrorCode + ShardRoute" where
  "ResolveTicket env router ticketID db =
     (if ticketID = uuid_Nil then Inl RouteErrorLocatorNotFound
      else resolveLocator env router
        (map_option (\<lambda>l. (tl_train_run l, tl_shard l, tl_generation l))
           (find (\<lambda>l. tl_ticket l = ticketID) (ticket_shard_locators db))))"

subsection \<open>Assignments\<close>

text \<open>The row of the assignment joined with its shard's catalog row.\<close>

definition assignment_row :: "uuid \<Rightarrow> BookingDb \<Rightarrow> (AssignmentRow \<times> ShardRow) option" where
  "assignment_row trainRunID db =
     (case find (\<lambda>a. as_train_run a = trainRunID) (train_run_shard_assignments db) of
        None \<Rightarrow> None
      | Some a \<Rightarrow> (case find (\<lambda>s. sh_id s = as_shard a) (booking_shards db) of
                    None \<Rightarrow> None | Some s \<Rightarrow> Some (a, s)))"

definition catalog_serves :: "ShardRow \<Rightarrow> bool" where
  "catalog_serves s \<longleftrightarrow>
     sh_enabled s \<and> catalogStateAllowsRoute (sh_state s) \<and>
     0 < sh_min_protocol s \<and> sh_min_protocol s \<le> SupportedFencingProtocolVersion"

definition cache_put_route :: "gotime \<Rightarrow> ShardRoute \<Rightarrow> Router \<Rightarrow> Router" where
  "cache_put_route now route router =
     router\<lparr>router_cache := map_option (\<lambda>c. snd (Cache_Put now route c)) (router_cache router)\<rparr>"

definition cache_invalidate_route :: "uuid \<Rightarrow> Router \<Rightarrow> Router" where
  "cache_invalidate_route trainRunID router =
     router\<lparr>router_cache := map_option (Cache_Invalidate trainRunID) (router_cache router)\<rparr>"

definition loadTrainRun ::
  "TxEnv \<Rightarrow> uuid \<Rightarrow> BookingDb \<Rightarrow> Router \<Rightarrow> (RouteErrorCode + ShardRoute) \<times> Router" where
  "loadTrainRun env trainRunID db router =
     (if env_fault env ''load assignment'' \<noteq> None then (Inl RouteErrorShardUnavailable, router)
      else case assignment_row trainRunID db of
        None \<Rightarrow> (Inl RouteErrorShardUnavailable, router)
      | Some (a, s) \<Rightarrow>
          if \<not> catalog_serves s then (Inl RouteErrorShardUnavailable, router)
          else (case ParseShardID (as_shard a) of
             Inl _ \<Rightarrow> (Inl RouteErrorShardUnavailable, router)
           | Inr shardID \<Rightarrow>
               if \<not> shardAllowed router shardID then (Inl RouteErrorShardUnavailable, router)
               else (case NewAssignmentGeneration (as_generation a) of
                  Inl _ \<Rightarrow> (Inl RouteErrorShardUnavailable, router)
                | Inr generation \<Rightarrow>
                    (case NewShardRoute trainRunID shardID generation of
                       Inl _ \<Rightarrow> (Inl RouteErrorShardUnavailable, router)
                     | Inr route \<Rightarrow> (Inr route, cache_put_route (env_clock env) route router)))))"

definition ResolveTrainRun ::
  "TxEnv \<Rightarrow> uuid \<Rightarrow> BookingDb \<Rightarrow> Router \<Rightarrow> (RouteErrorCode + ShardRoute) \<times> Router" where
  "ResolveTrainRun env trainRunID db router =
     (if trainRunID = uuid_Nil then (Inl RouteErrorShardUnavailable, router)
      else case router_cache router of
        None \<Rightarrow> loadTrainRun env trainRunID db router
      | Some c \<Rightarrow>
          (let (hit, c') = Cache_Get (env_clock env) trainRunID c;
               router' = router\<lparr>router_cache := Some c'\<rparr>
           in case hit of
                None \<Rightarrow> loadTrainRun env trainRunID db router'
              | Some route \<Rightarrow>
                  if validRoute route \<and> route_trainRunID route = trainRunID \<and> shardAllowed router (route_shardID route)
                  then (Inr route, router')
                  else loadTrainRun env trainRunID db (cache_invalidate_route trainRunID router')))"

definition RefreshTrainRun ::
  "TxEnv \<Rightarrow> uuid \<Rightarrow> BookingDb \<Rightarrow> Router \<Rightarrow> (RouteErrorCode + ShardRoute) \<times> Router" where
  "RefreshTrainRun env trainRunID db router =
     (if trainRunID = uuid_Nil then (Inl RouteErrorShardUnavailable, router)
      else loadTrainRun env trainRunID db (cache_invalidate_route trainRunID router))"

subsection \<open>The workset of enabled shards\<close>

definition shard_order :: "string \<Rightarrow> nat" where
  "shard_order s = (if s = ''legacy'' then 0 else if s = ''shard-0'' then 1 else if s = ''shard-1'' then 2 else 3)"

fun list_shards :: "Router \<Rightarrow> ShardRow list \<Rightarrow> ShardID list \<Rightarrow> ShardID list \<Rightarrow> RouteErrorCode + ShardID list" where
  "list_shards router [] seen result = (if result = [] then Inl RouteErrorShardUnavailable else Inr result)"
| "list_shards router (row # rows) seen result =
     (case ParseShardID (sh_id row) of
        Inl _ \<Rightarrow> Inl RouteErrorShardUnavailable
      | Inr shardID \<Rightarrow>
          if length seen = 3 \<or> shardID \<in> set seen then Inl RouteErrorShardUnavailable
          else if \<not> shardAllowed router shardID then list_shards router rows (shardID # seen) result
          else if sh_min_protocol row \<le> 0 \<or> SupportedFencingProtocolVersion < sh_min_protocol row
          then Inl RouteErrorShardUnavailable
          else list_shards router rows (shardID # seen) (result @ [shardID]))"

definition ListEnabledShards :: "TxEnv \<Rightarrow> Router \<Rightarrow> BookingDb \<Rightarrow> RouteErrorCode + ShardID list" where
  "ListEnabledShards env router db =
     (if env_fault env ''list enabled shards'' \<noteq> None then Inl RouteErrorShardUnavailable
      else list_shards router
        (sort_key (\<lambda>s. shard_order (sh_id s))
          (filter (\<lambda>s. sh_enabled s \<and> sh_state s \<noteq> ''disabled'') (booking_shards db))) [] [])"

subsection \<open>Routed transactions\<close>

definition route_matches :: "ShardRoute \<Rightarrow> AssignmentRow \<Rightarrow> RouteErrorCode + unit" where
  "route_matches expected a =
     (case ParseShardID (as_shard a) of
        Inl _ \<Rightarrow> Inl RouteErrorShardUnavailable
      | Inr observed \<Rightarrow>
          if as_generation a \<le> 0 then Inl RouteErrorShardUnavailable
          else if observed \<noteq> route_shardID expected \<or> as_generation a \<noteq> route_generation expected
          then Inl RouteErrorAssignmentStale else Inr ())"

definition assignment_state_allows_write :: "AssignmentRow \<Rightarrow> RouteErrorCode option" where
  "assignment_state_allows_write a =
     (if as_state a = ''stable'' then
        (if as_migration a \<noteq> None then Some RouteErrorTrainRunMigrating else None)
      else if as_state a = ''rollback_window'' then None
      else if as_state a = ''migrating'' then
        (if as_migration a = None then Some RouteErrorShardUnavailable else None)
      else if as_state a = ''draining'' then Some RouteErrorTrainRunMigrating
      else Some RouteErrorShardUnavailable)"

definition BeginTrainRunWrite ::
  "TxEnv \<Rightarrow> Router \<Rightarrow> ShardRoute \<Rightarrow> BookingDb \<Rightarrow> RouteErrorCode + ShardRoute" where
  "BeginTrainRunWrite env router expected db =
     (if \<not> validRoute expected \<or> \<not> shardAllowed router (route_shardID expected)
      then Inl RouteErrorShardUnavailable
      else case fixedSearchPath (route_shardID expected) of
        None \<Rightarrow> Inl RouteErrorShardUnavailable
      | Some searchPath \<Rightarrow>
          if env_fault env ''begin routed write'' \<noteq> None \<or> env_fault env ''lock assignment'' \<noteq> None
          then Inl RouteErrorShardUnavailable
          else (case assignment_row (route_trainRunID expected) db of
             None \<Rightarrow> Inl RouteErrorShardUnavailable
           | Some (a, s) \<Rightarrow>
               (case route_matches expected a of
                  Inl e \<Rightarrow> Inl e
                | Inr _ \<Rightarrow>
                    if \<not> catalog_serves s then Inl RouteErrorShardUnavailable
                    else (case assignment_state_allows_write a of
                       Some e \<Rightarrow> Inl e
                     | None \<Rightarrow>
                         if \<not> sh_write_enabled s then Inl RouteErrorWriteFenced
                         else if env_fault env ''lock write fence'' \<noteq> None then Inl RouteErrorWriteFenced
                         else (case find (\<lambda>f. fence_train_run f = route_trainRunID expected)
                                      (train_run_write_fences (locals db searchPath)) of
                            None \<Rightarrow> Inl RouteErrorWriteFenced
                          | Some f \<Rightarrow>
                              if fence_generation f \<noteq> route_generation expected \<or> \<not> fence_write_enabled f
                              then Inl RouteErrorWriteFenced
                              else Inr expected)))))"

definition BeginTrainRunWriteWithRefresh ::
  "TxEnv \<Rightarrow> ShardRoute \<Rightarrow> BookingDb \<Rightarrow> Router \<Rightarrow> (RouteErrorCode + ShardRoute) \<times> Router" where
  "BeginTrainRunWriteWithRefresh env expected db router =
     (if BeginTrainRunWrite env router expected db \<noteq> Inl RouteErrorAssignmentStale
      then (BeginTrainRunWrite env router expected db, router)
      else case RefreshTrainRun env (route_trainRunID expected) db router of
             (Inl e, router') \<Rightarrow> (Inl e, router')
           | (Inr fresh, router') \<Rightarrow> (BeginTrainRunWrite env router' fresh db, router'))"

definition BeginTrainRunRead ::
  "TxEnv \<Rightarrow> Router \<Rightarrow> ShardRoute \<Rightarrow> BookingDb \<Rightarrow> RouteErrorCode + ShardRoute" where
  "BeginTrainRunRead env router expected db =
     (if \<not> validRoute expected \<or> \<not> shardAllowed router (route_shardID expected)
      then Inl RouteErrorShardUnavailable
      else case fixedSearchPath (route_shardID expected) of
        None \<Rightarrow> Inl RouteErrorShardUnavailable
      | Some searchPath \<Rightarrow>
          if env_fault env ''begin routed read'' \<noteq> None \<or> env_fault env ''load assignment'' \<noteq> None
          then Inl RouteErrorShardUnavailable
          else (case assignment_row (route_trainRunID expected) db of
             None \<Rightarrow> Inl RouteErrorShardUnavailable
           | Some (a, s) \<Rightarrow>
               (case route_matches expected a of
                  Inl e \<Rightarrow> Inl e
                | Inr _ \<Rightarrow> if \<not> catalog_serves s then Inl RouteErrorShardUnavailable else Inr expected)))"

subsection \<open>Fencing\<close>

text \<open>Everything that holds in the tables when a routed write begins.\<close>

lemma BeginTrainRunWrite_success:
  assumes "BeginTrainRunWrite env router expected db = Inr r"
  obtains a s f sc where "r = expected" "validRoute expected" "shardAllowed router (route_shardID expected)"
    "assignment_row (route_trainRunID expected) db = Some (a, s)"
    "as_shard a = route_shardID expected" "as_generation a = route_generation expected"
    "assignment_state_allows_write a = None" "catalog_serves s" "sh_write_enabled s"
    "fixedSearchPath (route_shardID expected) = Some sc"
    "find (\<lambda>f. fence_train_run f = route_trainRunID expected) (train_run_write_fences (locals db sc)) = Some f"
    "fence_generation f = route_generation expected" "fence_write_enabled f"
  using assms
  by (auto simp: BeginTrainRunWrite_def route_matches_def ParseShardID_def
      split: if_splits option.splits sum.splits prod.splits)

lemma loadTrainRun_success:
  assumes "loadTrainRun env k db router = (Inr r, router')"
  obtains a s where "assignment_row k db = Some (a, s)" "catalog_serves s"
    "r = \<lparr>route_trainRunID = k, route_shardID = as_shard a, route_generation = as_generation a\<rparr>"
    "route_ok r" "shardAllowed router (as_shard a)" "router' = cache_put_route (env_clock env) r router"
proof -
  obtain a s where a: "assignment_row k db = Some (a, s)" "catalog_serves s" "ParseShardID (as_shard a) = Inr (as_shard a)"
      "shardAllowed router (as_shard a)" "NewAssignmentGeneration (as_generation a) = Inr (as_generation a)"
      "NewShardRoute k (as_shard a) (as_generation a) = Inr r" "router' = cache_put_route (env_clock env) r router"
    using assms by (auto simp: loadTrainRun_def ParseShardID_def NewAssignmentGeneration_def
        split: if_splits option.splits sum.splits prod.splits)
  show thesis
    by (rule that [OF a(1,2) _ NewShardRoute_ok [OF a(6)] a(4,7)])
       (use a(6) in \<open>auto simp: NewShardRoute_def split: if_splits sum.splits\<close>)
qed

end
