(* ===== verification/Booking_Store.thy ===== *)
theory Booking_Store
  imports Booking_Idempotency Booking_Inventory Booking_Ledger Shard_Router
begin

text \<open>
  The commands of \<^verbatim>\<open>src/internal/booking/postgres/reservation_store.go\<close> and the transactions they open
  (\<^verbatim>\<open>sharding.go\<close>, \<^verbatim>\<open>store.go\<close>). A store command opens a transaction, routed when the store has a
  router, runs its body in it and commits; an error of the body rolls everything back. The reads
  that resolve a route before the transaction see the same committed tables; what other processes
  do between two commands, or between two attempts of one command, is an argument.
\<close>

record Store =
  store_limits :: ReservationQuotaLimits
  store_shards :: "Router option"

record CreateHoldParams =
  cp_UserID :: uuid
  cp_TrainRunID :: uuid
  cp_FromStopIndex :: int
  cp_ToStopIndex :: int
  cp_SeatClass :: string
  cp_PassengerIDs :: "uuid list"
  cp_HoldExpiresAt :: gotime
  cp_IdempotencyKeyHash :: "byte list"
  cp_RequestFingerprint :: "byte list"
  cp_IdempotencyExpiresAt :: gotime
  cp_AdmissionPolicy :: "AdmissionPolicyDecision option"

record ReservationCommandParams =
  rp_UserID :: uuid
  rp_ReservationID :: uuid
  rp_Now :: gotime
  rp_IdempotencyKeyHash :: "byte list"
  rp_RequestFingerprint :: "byte list"
  rp_IdempotencyExpiresAt :: gotime

record ConfirmReservationResult =
  cr_ReservationID :: uuid
  cr_TicketOrderID :: uuid
  cr_TicketCount :: int
  cr_Replayed :: bool

record CancelReservationResult =
  cn_ReservationID :: uuid
  cn_ReleasedSeatCount :: int
  cn_Replayed :: bool

subsection \<open>Opening and closing transactions\<close>

definition Begin :: "TxEnv \<Rightarrow> BookingError + ShardRoute option" where
  "Begin env = (case env_fault env ''begin booking transaction'' of
     None \<Rightarrow> Inr None | Some code \<Rightarrow> Inl (ErrDatabase ''begin booking transaction'' code))"

definition Commit :: "TxEnv \<Rightarrow> ShardRoute option \<Rightarrow> unit btx" where
  "Commit env route =
     (if route = None then exec_sql env ''commit booking transaction''
      else exec_sql_as env ''commit booking transaction'' (ErrShard RouteErrorShardUnavailable))"

definition newBookingTx :: "ShardRoute \<Rightarrow> BookingError + ShardRoute option" where
  "newBookingTx route =
     (if route_trainRunID route = uuid_Nil then Inl (ErrShard RouteErrorShardUnavailable) else Inr (Some route))"

definition beginResolvedWrite ::
  "TxEnv \<Rightarrow> ShardRoute \<Rightarrow> BookingDb \<Rightarrow> Router \<Rightarrow> (BookingError + ShardRoute option) \<times> Router" where
  "beginResolvedWrite env route db router =
     (case BeginTrainRunWrite env router route db of
        Inr r \<Rightarrow> (newBookingTx r, router)
      | Inl e \<Rightarrow>
          if e \<noteq> RouteErrorAssignmentStale then (Inl (ErrShard e), router)
          else (case RefreshTrainRun env (route_trainRunID route) db router of
             (Inl e', router') \<Rightarrow> (Inl (ErrShard e'), router')
           | (Inr fresh, router') \<Rightarrow>
               (case BeginTrainRunWrite env router' fresh db of
                  Inl e' \<Rightarrow> (Inl (ErrShard e'), router')
                | Inr r \<Rightarrow> (newBookingTx r, router'))))"

definition beginResolvedRead ::
  "TxEnv \<Rightarrow> ShardRoute \<Rightarrow> BookingDb \<Rightarrow> Router \<Rightarrow> (BookingError + ShardRoute option) \<times> Router" where
  "beginResolvedRead env route db router =
     (case BeginTrainRunRead env router route db of
        Inr r \<Rightarrow> (newBookingTx r, router)
      | Inl e \<Rightarrow>
          if e \<noteq> RouteErrorAssignmentStale then (Inl (ErrShard e), router)
          else (case RefreshTrainRun env (route_trainRunID route) db router of
             (Inl e', router') \<Rightarrow> (Inl (ErrShard e'), router')
           | (Inr fresh, router') \<Rightarrow>
               (case BeginTrainRunRead env router' fresh db of
                  Inl e' \<Rightarrow> (Inl (ErrShard e'), router')
                | Inr r \<Rightarrow> (newBookingTx r, router'))))"

definition beginTrainRunWrite ::
  "TxEnv \<Rightarrow> uuid \<Rightarrow> BookingDb \<Rightarrow> Router \<Rightarrow> (BookingError + ShardRoute option) \<times> Router" where
  "beginTrainRunWrite env trainRunID db router =
     (if trainRunID = uuid_Nil then (Inl ErrInvalidArgument, router)
      else case ResolveTrainRun env trainRunID db router of
             (Inl e, router') \<Rightarrow> (Inl (ErrShard e), router')
           | (Inr route, router') \<Rightarrow> beginResolvedWrite env route db router')"

definition beginReservationWrite ::
  "TxEnv \<Rightarrow> uuid \<Rightarrow> uuid \<Rightarrow> BookingDb \<Rightarrow> Router \<Rightarrow> (BookingError + ShardRoute option) \<times> Router" where
  "beginReservationWrite env reservationID ownerUserID db router =
     (if reservationID = uuid_Nil \<or> ownerUserID = uuid_Nil then (Inl ErrInvalidArgument, router)
      else case ResolveReservationForOwner env router reservationID ownerUserID db of
             Inl e \<Rightarrow> (Inl (ErrShard e), router)
           | Inr route \<Rightarrow> beginResolvedWrite env route db router)"

definition beginReservationMaintenanceWrite ::
  "TxEnv \<Rightarrow> uuid \<Rightarrow> BookingDb \<Rightarrow> Router \<Rightarrow> (BookingError + ShardRoute option) \<times> Router" where
  "beginReservationMaintenanceWrite env reservationID db router =
     (if reservationID = uuid_Nil then (Inl ErrInvalidArgument, router)
      else case ResolveReservation env router reservationID db of
             Inl e \<Rightarrow> (Inl (ErrShard e), router)
           | Inr route \<Rightarrow> beginResolvedWrite env route db router)"

text \<open>The router of the store after the lookups, with the store around it.\<close>

definition on_router ::
  "(Router \<Rightarrow> (BookingError + ShardRoute option) \<times> Router) \<Rightarrow> TxEnv \<Rightarrow> Store \<Rightarrow>
     (BookingError + ShardRoute option) \<times> Store" where
  "on_router op env store =
     (case store_shards store of
        None \<Rightarrow> (Begin env, store)
      | Some router \<Rightarrow> (let (r, router') = op router in (r, store\<lparr>store_shards := Some router'\<rparr>)))"

definition beginCreateHoldTransaction ::
  "TxEnv \<Rightarrow> uuid \<Rightarrow> BookingDb \<Rightarrow> Store \<Rightarrow> (BookingError + ShardRoute option) \<times> Store" where
  "beginCreateHoldTransaction env trainRunID db store =
     on_router (beginTrainRunWrite env trainRunID db) env store"

definition beginReservationCommandTransaction ::
  "TxEnv \<Rightarrow> uuid \<Rightarrow> uuid \<Rightarrow> BookingDb \<Rightarrow> Store \<Rightarrow> (BookingError + ShardRoute option) \<times> Store" where
  "beginReservationCommandTransaction env reservationID ownerUserID db store =
     on_router (beginReservationWrite env reservationID ownerUserID db) env store"

text \<open>A command: the transaction is opened, the body runs in it, its error rolls it back.\<close>

type_synonym 'a command = "(BookingError + 'a) \<times> BookingDb \<times> Store"

definition in_tx ::
  "(BookingError + ShardRoute option) \<times> Store \<Rightarrow> (ShardRoute option \<Rightarrow> 'a btx) \<Rightarrow> BookingDb \<Rightarrow> 'a command" where
  "in_tx begun body db =
     (case begun of
        (Inl e, store) \<Rightarrow> (Inl e, db, store)
      | (Inr route, store) \<Rightarrow> (let (r, db') = run_tx (body route) db in (r, db', store)))"

subsection \<open>Commissioning\<close>

definition Store_InitializeInventory :: "TxEnv \<Rightarrow> uuid \<Rightarrow> BookingDb \<Rightarrow> Store \<Rightarrow> int command" where
  "Store_InitializeInventory env trainRunID db store =
     in_tx (on_router (beginTrainRunWrite env trainRunID db) env store) (\<lambda>route.
       tx_bind (InitializeInventory env route trainRunID) (\<lambda>inserted.
       tx_bind (if 0 < inserted then recordSuccessfulGenerationWrite env route else tx_return ()) (\<lambda>_.
       tx_bind (Commit env route) (\<lambda>_.
       tx_return inserted)))) db"

subsection \<open>Queries\<close>

definition ownedPassengerIDs :: "TxEnv \<Rightarrow> uuid \<Rightarrow> uuid list \<Rightarrow> uuid list btx" where
  "ownedPassengerIDs env userID requested =
     tx_bind (exec_sql env ''load owned passengers'') (\<lambda>_.
     tx_get (\<lambda>db. sort (map passenger_id
       (filter (\<lambda>p. passenger_user p = userID \<and> passenger_id p \<in> set requested) (passengers db)))))"

text \<open>The rows of the join of seats and reservations that the conflict check counts.\<close>

definition passenger_conflicts :: "uuid \<Rightarrow> uuid list \<Rightarrow> LocalTables \<Rightarrow> (ReservationSeatRow \<times> ReservationRow) list" where
  "passenger_conflicts trainRunID ids t =
     [(rs, r). rs \<leftarrow> reservation_seats t, r \<leftarrow> reservations t,
        rr_id r = rs_reservation rs \<and> rr_train_run r = trainRunID \<and>
        (rr_status r = ''held'' \<or> rr_status r = ''confirmed'') \<and> rs_passenger rs \<in> set ids]"

definition ensurePassengersAvailable :: "TxEnv \<Rightarrow> ShardRoute option \<Rightarrow> uuid \<Rightarrow> uuid list \<Rightarrow> unit btx" where
  "ensurePassengersAvailable env route trainRunID passengerIDs =
     tx_bind (exec_sql env ''check active passenger reservations'') (\<lambda>_.
     tx_bind (local_get (search_schema route) (\<lambda>t. length (passenger_conflicts trainRunID passengerIDs t))) (\<lambda>conflicts.
     tx_reject (conflicts \<noteq> 0) ErrPassengerConflict))"

definition reservationSeatIDs :: "TxEnv \<Rightarrow> ShardRoute option \<Rightarrow> uuid \<Rightarrow> uuid list btx" where
  "reservationSeatIDs env route reservationID =
     tx_bind (exec_sql env ''load reservation seats'') (\<lambda>_.
     local_get (search_schema route) (\<lambda>t. map rs_id (sort_key rs_seat
       (filter (\<lambda>rs. rs_reservation rs = reservationID) (reservation_seats t)))))"

definition lockOwnedReservation :: "TxEnv \<Rightarrow> ShardRoute option \<Rightarrow> uuid \<Rightarrow> uuid \<Rightarrow> ReservationRow btx" where
  "lockOwnedReservation env route userID reservationID =
     tx_bind (exec_sql env ''lock owned reservation'') (\<lambda>_.
     tx_bind (local_get (search_schema route) (\<lambda>t.
        find (\<lambda>r. rr_id r = reservationID \<and> rr_user r = userID) (reservations t))) (\<lambda>row.
     tx_some row ErrNotFound))"

definition loadCreateHoldResult :: "TxEnv \<Rightarrow> ShardRoute option \<Rightarrow> uuid \<Rightarrow> uuid \<Rightarrow> CreateHoldResult btx" where
  "loadCreateHoldResult env route userID reservationID =
     tx_bind (exec_sql env ''load replayed hold'') (\<lambda>_.
     tx_bind (local_get (search_schema route) (\<lambda>t.
        find (\<lambda>r. rr_id r = reservationID \<and> rr_user r = userID) (reservations t))) (\<lambda>row.
     tx_bind (tx_some row ErrPersistenceInvariant) (\<lambda>r.
     tx_bind (local_get (search_schema route) (\<lambda>t. seat_count t (rr_id r))) (\<lambda>count.
     tx_return \<lparr>ch_ReservationID = rr_id r, ch_SeatCount = count, ch_TotalAmountMinor = rr_total r,
                ch_Currency = rr_currency r, ch_Replayed = False\<rparr>))))"

definition loadConfirmationResult :: "TxEnv \<Rightarrow> ShardRoute option \<Rightarrow> uuid \<Rightarrow> uuid \<Rightarrow> ConfirmReservationResult btx" where
  "loadConfirmationResult env route userID reservationID =
     tx_bind (exec_sql env ''load confirmation result'') (\<lambda>_.
     tx_bind (local_get (search_schema route) (\<lambda>t.
        find (\<lambda>r. rr_id r = reservationID \<and> rr_user r = userID) (reservations t))) (\<lambda>row.
     tx_bind (tx_some row ErrPersistenceInvariant) (\<lambda>r.
     tx_bind (local_get (search_schema route) (\<lambda>t. find (\<lambda>o'. to_reservation o' = rr_id r) (ticket_orders t))) (\<lambda>joined.
     tx_bind (tx_some joined ErrPersistenceInvariant) (\<lambda>order.
     tx_bind (local_get (search_schema route) (\<lambda>t. length (filter (\<lambda>k. tk_order k = to_id order) (tickets t)))) (\<lambda>count.
     tx_return \<lparr>cr_ReservationID = rr_id r, cr_TicketOrderID = to_id order, cr_TicketCount = int count,
                cr_Replayed = False\<rparr>))))))"

definition loadCancellationResult :: "TxEnv \<Rightarrow> ShardRoute option \<Rightarrow> uuid \<Rightarrow> uuid \<Rightarrow> CancelReservationResult btx" where
  "loadCancellationResult env route userID reservationID =
     tx_bind (exec_sql env ''load cancellation result'') (\<lambda>_.
     tx_bind (local_get (search_schema route) (\<lambda>t.
        find (\<lambda>r. rr_id r = reservationID \<and> rr_user r = userID \<and> rr_status r = ''cancelled'') (reservations t))) (\<lambda>row.
     tx_bind (tx_some row ErrPersistenceInvariant) (\<lambda>r.
     tx_bind (local_get (search_schema route) (\<lambda>t. seat_count t (rr_id r))) (\<lambda>count.
     tx_return \<lparr>cn_ReservationID = rr_id r, cn_ReleasedSeatCount = count, cn_Replayed = False\<rparr>))))"

subsection \<open>Validation\<close>

definition validateCreateHoldParams :: "TxEnv \<Rightarrow> CreateHoldParams \<Rightarrow> bool" where
  "validateCreateHoldParams env p \<longleftrightarrow>
     \<not> (cp_UserID p = uuid_Nil \<or> cp_TrainRunID p = uuid_Nil \<or> cp_FromStopIndex p < 0 \<or>
        cp_ToStopIndex p \<le> cp_FromStopIndex p \<or> \<not> validSeatClass (env_unicode env) (cp_SeatClass p) \<or>
        length (cp_PassengerIDs p) = 0 \<or> IsZero_time (cp_HoldExpiresAt p) \<or> IsZero_time (cp_IdempotencyExpiresAt p) \<or>
        length (cp_IdempotencyKeyHash p) \<noteq> 32 \<or> length (cp_RequestFingerprint p) \<noteq> 32) \<and>
     list_all (\<lambda>i. i \<noteq> uuid_Nil) (cp_PassengerIDs p) \<and>
     (case cp_AdmissionPolicy p of None \<Rightarrow> True | Some d \<Rightarrow> \<not> (PolicyID d = uuid_Nil \<or> Version d < 1))"

definition validateReservationCommandParams :: "ReservationCommandParams \<Rightarrow> bool" where
  "validateReservationCommandParams p \<longleftrightarrow>
     \<not> (rp_UserID p = uuid_Nil \<or> rp_ReservationID p = uuid_Nil \<or> IsZero_time (rp_Now p) \<or>
        IsZero_time (rp_IdempotencyExpiresAt p) \<or> length (rp_IdempotencyKeyHash p) \<noteq> 32 \<or>
        length (rp_RequestFingerprint p) \<noteq> 32)"

subsection \<open>Creating a hold\<close>

text \<open>The fare query: \<^verbatim>\<open>ORDER BY (train_run_id IS NOT NULL) DESC LIMIT 1\<close> prefers the run's own fare.\<close>

definition select_fare :: "uuid \<Rightarrow> uuid \<Rightarrow> int \<Rightarrow> int \<Rightarrow> string \<Rightarrow> FareRow list \<Rightarrow> FareRow option" where
  "select_fare trainRunID routeID from to class rows =
     (let hits = filter (\<lambda>f. fare_active f \<and> fare_from f = from \<and> fare_to f = to \<and> fare_class f = class \<and>
            (fare_train_run f = Some trainRunID \<or> (fare_train_run f = None \<and> fare_route f = Some routeID))) rows
      in case find (\<lambda>f. fare_train_run f \<noteq> None) hits of
           Some f \<Rightarrow> Some f
         | None \<Rightarrow> (case hits of [] \<Rightarrow> None | f # _ \<Rightarrow> Some f))"

definition insert_reservation :: "TxEnv \<Rightarrow> ShardRoute option \<Rightarrow> ReservationRow \<Rightarrow> unit btx" where
  "insert_reservation env route row =
     tx_bind (exec_sql env ''insert reservation'') (\<lambda>_.
     tx_bind (local_get (search_schema route) reservations) (\<lambda>rows.
     tx_bind (unique_violation (rr_id row \<in> rr_id ` set rows) ''insert reservation'') (\<lambda>_.
     local_modify (search_schema route) (\<lambda>t. t\<lparr>reservations := reservations t @ [row]\<rparr>))))"

definition insert_reservation_seat :: "TxEnv \<Rightarrow> ShardRoute option \<Rightarrow> ReservationSeatRow \<Rightarrow> unit btx" where
  "insert_reservation_seat env route row =
     tx_bind (exec_sql env ''insert reservation seat'') (\<lambda>_.
     tx_bind (local_get (search_schema route) reservation_seats) (\<lambda>rows.
     tx_bind (unique_violation (list_ex (\<lambda>x. rs_id x = rs_id row \<or>
          rs_reservation x = rs_reservation row \<and> (rs_seat x = rs_seat row \<or> rs_passenger x = rs_passenger row)) rows)
        ''insert reservation seat'') (\<lambda>_.
     local_modify (search_schema route) (\<lambda>t. t\<lparr>reservation_seats := reservation_seats t @ [row]\<rparr>))))"

definition reservation_seat_row ::
  "TxEnv \<Rightarrow> uuid \<Rightarrow> uuid \<Rightarrow> int \<Rightarrow> varbit \<Rightarrow> Money \<Rightarrow> nat \<times> AllocatedSeat \<times> uuid \<Rightarrow> ReservationSeatRow" where
  "reservation_seat_row env reservationID trainRunID segmentCount encoded fare item =
     \<lparr>rs_id = env_seatRowID env (fst item), rs_reservation = reservationID, rs_train_run = trainRunID,
      rs_segment_count = segmentCount, rs_seat = al_SeatID (fst (snd item)), rs_passenger = snd (snd item),
      rs_mask = encoded, rs_fare = amountMinor fare, rs_currency = currency fare\<rparr>"

text \<open>What \<^verbatim>\<open>createHoldOnce\<close> does after the checks, with the fare known: allocate, then write.\<close>

definition write_hold ::
  "TxEnv \<Rightarrow> ShardRoute option \<Rightarrow> CreateHoldParams \<Rightarrow> string \<Rightarrow> int \<Rightarrow> uuid list \<Rightarrow> TrainRunRow \<Rightarrow> SegmentMask \<Rightarrow>
     Money \<Rightarrow> Money \<Rightarrow> uuid \<Rightarrow> CreateHoldResult btx" where
  "write_hold env route params seatClass count owned run requested fare tot recordID =
     (let reservationID = env_reservationID env; encodedMask = varbit_of (EncodeSegmentMask requested) in
      tx_bind (AllocateSeats env route (cp_TrainRunID params) seatClass requested count) (\<lambda>allocated.
      tx_bind (insert_reservation env route
         \<lparr>rr_id = reservationID, rr_user = cp_UserID params, rr_train_run = cp_TrainRunID params,
          rr_segment_count = tr_segment_count run, rr_from = cp_FromStopIndex params, rr_to = cp_ToStopIndex params,
          rr_class = seatClass, rr_status = ''held'', rr_expires = pg_timestamptz (cp_HoldExpiresAt params),
          rr_total = amountMinor tot, rr_currency = currency tot\<rparr>) (\<lambda>_.
      tx_bind (tx_each (insert_reservation_seat env route)
         (map (reservation_seat_row env reservationID (cp_TrainRunID params) (tr_segment_count run) encodedMask fare)
            (enumerate 0 (zip allocated owned)))) (\<lambda>_.
      tx_bind (insertReservationQuotaClaim env route reservationID (cp_UserID params) (cp_TrainRunID params)
         (int (length owned))) (\<lambda>_.
      tx_bind (insertReservationLocator env route reservationID (cp_UserID params)) (\<lambda>_.
      tx_bind (CompleteIdempotency env route recordID reservationID) (\<lambda>_.
      tx_bind (appendReservationEvent env route reservationID ''reservation.held''
         [(''reservationId'', JUuid reservationID), (''trainRunId'', JUuid (cp_TrainRunID params)),
          (''status'', JString ''held''), (''expiresAt'', JTime (cp_HoldExpiresAt params)),
          (''seatCount'', JInt (int (length allocated)))]) (\<lambda>_.
      tx_bind (recordSuccessfulGenerationWrite env route) (\<lambda>_.
      tx_bind (Commit env route) (\<lambda>_.
      tx_return \<lparr>ch_ReservationID = reservationID, ch_SeatCount = int (length allocated),
                 ch_TotalAmountMinor = amountMinor tot, ch_Currency = currency tot, ch_Replayed = False\<rparr>))))))))))"

definition new_hold ::
  "TxEnv \<Rightarrow> ReservationQuotaLimits \<Rightarrow> ShardRoute option \<Rightarrow> CreateHoldParams \<Rightarrow> string \<Rightarrow> uuid list \<Rightarrow> uuid \<Rightarrow>
     CreateHoldResult btx" where
  "new_hold env limits route params seatClass passengerIDs recordID =
     tx_bind (recheckAdmissionPolicy env (cp_TrainRunID params) seatClass (cp_AdmissionPolicy params)) (\<lambda>_.
     tx_bind (enforceReservationQuota env route (cp_UserID params) (cp_TrainRunID params)
        (int (length passengerIDs)) limits) (\<lambda>_.
     tx_bind (exec_sql env ''lock train run'') (\<lambda>_.
     tx_bind (tx_get (\<lambda>db. find (\<lambda>r. tr_id r = cp_TrainRunID params) (train_runs db))) (\<lambda>found.
     tx_bind (tx_some found ErrNotFound) (\<lambda>run.
     tx_bind (tx_reject (tr_status run \<noteq> ''scheduled'') ErrNotBookable) (\<lambda>_.
     tx_bind (tx_reject (\<not> env_clock env < cp_HoldExpiresAt params) ErrInvalidArgument) (\<lambda>_.
     tx_bind (tx_result (\<lambda>_. ErrInvalidArgument)
        (NewSegmentMask (tr_segment_count run) (cp_FromStopIndex params) (cp_ToStopIndex params))) (\<lambda>requested.
     tx_bind (ownedPassengerIDs env (cp_UserID params) passengerIDs) (\<lambda>ownedPassengers.
     tx_bind (tx_reject (length ownedPassengers \<noteq> length passengerIDs) ErrNotFound) (\<lambda>_.
     tx_bind (ensurePassengersAvailable env route (cp_TrainRunID params) ownedPassengers) (\<lambda>_.
     tx_bind (exec_sql env ''load fare'') (\<lambda>_.
     tx_bind (tx_get (\<lambda>db. select_fare (cp_TrainRunID params) (tr_route run) (cp_FromStopIndex params)
        (cp_ToStopIndex params) seatClass (fares db))) (\<lambda>fareRow.
     tx_bind (tx_some fareRow ErrNotFound) (\<lambda>f.
     tx_bind (tx_result (\<lambda>_. ErrPersistenceInvariant) (NewMoney (fare_amount f) (fare_currency f))) (\<lambda>fare.
     tx_bind (tx_result ErrMoney (Money_Multiply fare (int (length passengerIDs)))) (\<lambda>tot.
     write_hold env route params seatClass (int (length passengerIDs)) ownedPassengers run requested fare tot recordID))))))))))))))))"

definition adjacent_duplicate :: "uuid list \<Rightarrow> bool" where
  "adjacent_duplicate ids \<longleftrightarrow> list_ex (\<lambda>(a, b). a = b) (zip (tl ids) ids)"

definition create_hold_tx ::
  "TxEnv \<Rightarrow> ReservationQuotaLimits \<Rightarrow> CreateHoldParams \<Rightarrow> ShardRoute option \<Rightarrow> CreateHoldResult btx" where
  "create_hold_tx env limits params route =
     tx_bind (AcquireIdempotency env route
        \<lparr>ii_UserID = cp_UserID params, ii_Operation = OperationReservationCreate,
         ii_KeyHash = cp_IdempotencyKeyHash params, ii_RequestFingerprint = cp_RequestFingerprint params,
         ii_ExpiresAt = cp_IdempotencyExpiresAt params\<rparr>) (\<lambda>acquisition.
     if ia_Replayed acquisition then
       tx_bind (loadCreateHoldResult env route (cp_UserID params) (ia_ResourceID acquisition)) (\<lambda>result.
       tx_bind (Commit env route) (\<lambda>_.
       tx_return (result\<lparr>ch_Replayed := True\<rparr>)))
     else new_hold env limits route params (ToLower (env_unicode env) (cp_SeatClass params))
            (sort (cp_PassengerIDs params)) (ia_RecordID acquisition))"

definition createHoldOnce :: "TxEnv \<Rightarrow> CreateHoldParams \<Rightarrow> BookingDb \<Rightarrow> Store \<Rightarrow> CreateHoldResult command" where
  "createHoldOnce env params db store =
     (if \<not> validateCreateHoldParams env params then (Inl ErrInvalidArgument, db, store)
      else if adjacent_duplicate (sort (cp_PassengerIDs params)) then (Inl ErrInvalidArgument, db, store)
      else in_tx (beginCreateHoldTransaction env (cp_TrainRunID params) db store)
             (create_hold_tx env (store_limits store) params) db)"

text \<open>
  The retry loop: \<open>envs n\<close> is the environment of attempt \<open>n\<close>, \<open>cancelled n\<close> whether the context ends
  in the wait after it, and \<open>others n\<close> what other transactions commit in that wait.
\<close>

fun create_hold_loop ::
  "nat \<Rightarrow> nat \<Rightarrow> (nat \<Rightarrow> TxEnv) \<Rightarrow> (nat \<Rightarrow> bool) \<Rightarrow> (nat \<Rightarrow> BookingDb \<Rightarrow> BookingDb) \<Rightarrow> CreateHoldParams \<Rightarrow>
     BookingDb \<Rightarrow> Store \<Rightarrow> CreateHoldResult command" where
  "create_hold_loop 0 attempt envs cancelled others params db store = (Inl ErrPersistenceInvariant, db, store)"
| "create_hold_loop (Suc n) attempt envs cancelled others params db store =
     (case createHoldOnce (envs attempt) params db store of
        (Inr result, db', store') \<Rightarrow> (Inr result, db', store')
      | (Inl err, db', store') \<Rightarrow>
          if \<not> isRetryableTransactionError err \<or> n = 0 then (Inl err, db', store')
          else if cancelled attempt then (Inl ErrContext, db', store')
          else create_hold_loop n (Suc attempt) envs cancelled others params (others attempt db') store')"

definition CreateHold ::
  "(nat \<Rightarrow> TxEnv) \<Rightarrow> (nat \<Rightarrow> bool) \<Rightarrow> (nat \<Rightarrow> BookingDb \<Rightarrow> BookingDb) \<Rightarrow> CreateHoldParams \<Rightarrow>
     BookingDb \<Rightarrow> Store \<Rightarrow> CreateHoldResult command" where
  "CreateHold envs cancelled others params db store = create_hold_loop 3 0 envs cancelled others params db store"

subsection \<open>Confirming\<close>

definition restatus :: "(ReservationRow \<Rightarrow> bool) \<Rightarrow> string \<Rightarrow> ReservationRow \<Rightarrow> ReservationRow" where
  "restatus hit status r = (if hit r then r\<lparr>rr_status := status\<rparr> else r)"

definition set_status :: "(ReservationRow \<Rightarrow> bool) \<Rightarrow> string \<Rightarrow> LocalTables \<Rightarrow> LocalTables" where
  "set_status hit status t = t\<lparr>reservations := map (restatus hit status) (reservations t)\<rparr>"

text \<open>\<^verbatim>\<open>UPDATE reservations SET status ... WHERE ...\<close>, returning the number of rows affected.\<close>

definition update_status :: "TxEnv \<Rightarrow> string \<Rightarrow> ShardRoute option \<Rightarrow> (ReservationRow \<Rightarrow> bool) \<Rightarrow> string \<Rightarrow> nat btx" where
  "update_status env label route hit status =
     tx_bind (exec_sql env label) (\<lambda>_.
     tx_bind (local_get (search_schema route) (\<lambda>t. length (filter hit (reservations t)))) (\<lambda>affected.
     tx_bind (local_modify (search_schema route) (set_status hit status)) (\<lambda>_.
     tx_return affected)))"

definition insert_ticket_order :: "TxEnv \<Rightarrow> ShardRoute option \<Rightarrow> TicketOrderRow \<Rightarrow> unit btx" where
  "insert_ticket_order env route row =
     tx_bind (exec_sql env ''insert ticket order'') (\<lambda>_.
     tx_bind (local_get (search_schema route) ticket_orders) (\<lambda>rows.
     tx_bind (unique_violation (list_ex (\<lambda>x. to_id x = to_id row \<or> to_reservation x = to_reservation row) rows)
        ''insert ticket order'') (\<lambda>_.
     local_modify (search_schema route) (\<lambda>t. t\<lparr>ticket_orders := ticket_orders t @ [row]\<rparr>))))"

definition insert_ticket :: "TxEnv \<Rightarrow> ShardRoute option \<Rightarrow> TicketRow \<Rightarrow> unit btx" where
  "insert_ticket env route row =
     tx_bind (exec_sql env ''insert ticket'') (\<lambda>_.
     tx_bind (local_get (search_schema route) tickets) (\<lambda>rows.
     tx_bind (unique_violation (list_ex (\<lambda>x. tk_id x = tk_id row \<or> tk_seat x = tk_seat row \<or> tk_code x = tk_code row) rows)
        ''insert ticket'') (\<lambda>_.
     local_modify (search_schema route) (\<lambda>t. t\<lparr>tickets := tickets t @ [row]\<rparr>))))"

definition issue_ticket :: "TxEnv \<Rightarrow> ShardRoute option \<Rightarrow> ReservationCommandParams \<Rightarrow> nat \<times> uuid \<Rightarrow> unit btx" where
  "issue_ticket env route params item =
     (let ticketID = env_ticketID env (fst item); orderID = env_orderID env in
      tx_bind (insert_ticket env route
         \<lparr>tk_id = ticketID, tk_order = orderID, tk_seat = snd item,
          tk_code = ''TKT'' @ env_ticketCode env (fst item), tk_status = ''active''\<rparr>) (\<lambda>_.
      tx_bind (insertTicketLocator env route ticketID orderID (rp_ReservationID params) (rp_UserID params)) (\<lambda>_.
      appendTicketEvent env route ticketID
         [(''ticketId'', JUuid ticketID), (''orderId'', JUuid orderID), (''reservationId'', JUuid (rp_ReservationID params))])))"

definition write_confirmation ::
  "TxEnv \<Rightarrow> ShardRoute option \<Rightarrow> ReservationCommandParams \<Rightarrow> ReservationRow \<Rightarrow> uuid \<Rightarrow> ConfirmReservationResult btx" where
  "write_confirmation env route params row recordID =
     (let orderID = env_orderID env; reservationID = rp_ReservationID params in
      tx_bind (update_status env ''confirm reservation'' route
         (\<lambda>r. rr_id r = reservationID \<and> rr_status r = ''held'' \<and> env_clock env < rr_expires r) ''confirmed'') (\<lambda>affected.
      tx_bind (tx_reject (affected \<noteq> 1) ErrReservationExpired) (\<lambda>_.
      tx_bind (closeReservationQuotaClaim env route reservationID) (\<lambda>_.
      tx_bind (insert_ticket_order env route
         \<lparr>to_id = orderID, to_reservation = reservationID, to_user = rp_UserID params, to_status = ''confirmed'',
          to_total = rr_total row, to_currency = rr_currency row\<rparr>) (\<lambda>_.
      tx_bind (insertTicketOrderLocator env route orderID reservationID (rp_UserID params) ''confirmed''
         (rr_total row) (rr_currency row) (env_orderCreatedAt env)) (\<lambda>_.
      tx_bind (reservationSeatIDs env route reservationID) (\<lambda>seatIDs.
      tx_bind (tx_reject (length seatIDs = 0) ErrPersistenceInvariant) (\<lambda>_.
      tx_bind (tx_each (issue_ticket env route params) (enumerate 0 seatIDs)) (\<lambda>_.
      tx_bind (CompleteIdempotency env route recordID reservationID) (\<lambda>_.
      tx_bind (appendReservationEvent env route reservationID ''reservation.confirmed''
         [(''reservationId'', JUuid reservationID), (''ticketOrderId'', JUuid orderID),
          (''status'', JString ''confirmed'')]) (\<lambda>_.
      tx_bind (recordSuccessfulGenerationWrite env route) (\<lambda>_.
      tx_bind (Commit env route) (\<lambda>_.
      tx_return \<lparr>cr_ReservationID = reservationID, cr_TicketOrderID = orderID,
                 cr_TicketCount = int (length seatIDs), cr_Replayed = False\<rparr>)))))))))))))"

definition confirm_tx :: "TxEnv \<Rightarrow> ReservationCommandParams \<Rightarrow> ShardRoute option \<Rightarrow> ConfirmReservationResult btx" where
  "confirm_tx env params route =
     tx_bind (AcquireIdempotency env route
        \<lparr>ii_UserID = rp_UserID params, ii_Operation = OperationReservationConfirm,
         ii_KeyHash = rp_IdempotencyKeyHash params, ii_RequestFingerprint = rp_RequestFingerprint params,
         ii_ExpiresAt = rp_IdempotencyExpiresAt params\<rparr>) (\<lambda>acquisition.
     if ia_Replayed acquisition then
       tx_bind (loadConfirmationResult env route (rp_UserID params) (ia_ResourceID acquisition)) (\<lambda>result.
       tx_bind (Commit env route) (\<lambda>_.
       tx_return (result\<lparr>cr_Replayed := True\<rparr>)))
     else
     tx_bind (lockOwnedReservation env route (rp_UserID params) (rp_ReservationID params)) (\<lambda>row.
     if rr_status row = ''confirmed'' then
       tx_bind (CompleteIdempotency env route (ia_RecordID acquisition) (rp_ReservationID params)) (\<lambda>_.
       tx_bind (loadConfirmationResult env route (rp_UserID params) (rp_ReservationID params)) (\<lambda>result.
       tx_bind (recordSuccessfulGenerationWrite env route) (\<lambda>_.
       tx_bind (Commit env route) (\<lambda>_.
       tx_return result))))
     else if rr_status row \<noteq> ''held'' then tx_fail ErrInvalidState
     else write_confirmation env route params row (ia_RecordID acquisition)))"

definition ConfirmReservation ::
  "TxEnv \<Rightarrow> ReservationCommandParams \<Rightarrow> BookingDb \<Rightarrow> Store \<Rightarrow> ConfirmReservationResult command" where
  "ConfirmReservation env params db store =
     (if \<not> validateReservationCommandParams params then (Inl ErrInvalidArgument, db, store)
      else in_tx (beginReservationCommandTransaction env (rp_ReservationID params) (rp_UserID params) db store)
             (confirm_tx env params) db)"

subsection \<open>Cancelling\<close>

definition cancel_tickets :: "TxEnv \<Rightarrow> ShardRoute option \<Rightarrow> uuid \<Rightarrow> unit btx" where
  "cancel_tickets env route reservationID =
     (let sc = search_schema route in
      tx_bind (exec_sql env ''cancel ticket order'') (\<lambda>_.
      tx_bind (local_modify sc (\<lambda>t. t\<lparr>ticket_orders :=
         map (\<lambda>x. if to_reservation x = reservationID then x\<lparr>to_status := ''cancelled''\<rparr> else x) (ticket_orders t)\<rparr>)) (\<lambda>_.
      tx_bind (exec_sql env ''cancel tickets'') (\<lambda>_.
      tx_bind (local_modify sc (\<lambda>t. t\<lparr>tickets :=
         map (\<lambda>k. if (case find (\<lambda>x. to_reservation x = reservationID) (ticket_orders t) of
                        None \<Rightarrow> False | Some x \<Rightarrow> tk_order k = to_id x)
                  then k\<lparr>tk_status := ''cancelled''\<rparr> else k) (tickets t)\<rparr>)) (\<lambda>_.
      updateTicketOrderLocatorStatus env route reservationID ''cancelled'')))))"

definition write_cancellation ::
  "TxEnv \<Rightarrow> ShardRoute option \<Rightarrow> uuid \<Rightarrow> string \<Rightarrow> uuid \<Rightarrow> CancelReservationResult btx" where
  "write_cancellation env route reservationID status recordID =
     tx_bind (update_status env ''cancel reservation'' route
        (\<lambda>r. rr_id r = reservationID \<and> rr_status r = status) ''cancelled'') (\<lambda>affected.
     tx_bind (tx_reject (affected \<noteq> 1) ErrPersistenceInvariant) (\<lambda>_.
     tx_bind (releaseReservationSeats env route reservationID) (\<lambda>released.
     tx_bind (if status = ''confirmed'' then cancel_tickets env route reservationID else tx_return ()) (\<lambda>_.
     tx_bind (closeReservationQuotaClaim env route reservationID) (\<lambda>_.
     tx_bind (CompleteIdempotency env route recordID reservationID) (\<lambda>_.
     tx_bind (appendReservationEvent env route reservationID ''reservation.cancelled''
        [(''reservationId'', JUuid reservationID), (''status'', JString ''cancelled''),
         (''releasedSeatCount'', JInt released)]) (\<lambda>_.
     tx_bind (recordSuccessfulGenerationWrite env route) (\<lambda>_.
     tx_bind (Commit env route) (\<lambda>_.
     tx_return \<lparr>cn_ReservationID = reservationID, cn_ReleasedSeatCount = released, cn_Replayed = False\<rparr>)))))))))"

definition cancel_tx :: "TxEnv \<Rightarrow> ReservationCommandParams \<Rightarrow> ShardRoute option \<Rightarrow> CancelReservationResult btx" where
  "cancel_tx env params route =
     tx_bind (AcquireIdempotency env route
        \<lparr>ii_UserID = rp_UserID params, ii_Operation = OperationReservationCancel,
         ii_KeyHash = rp_IdempotencyKeyHash params, ii_RequestFingerprint = rp_RequestFingerprint params,
         ii_ExpiresAt = rp_IdempotencyExpiresAt params\<rparr>) (\<lambda>acquisition.
     if ia_Replayed acquisition then
       tx_bind (loadCancellationResult env route (rp_UserID params) (ia_ResourceID acquisition)) (\<lambda>result.
       tx_bind (Commit env route) (\<lambda>_.
       tx_return (result\<lparr>cn_Replayed := True\<rparr>)))
     else
     tx_bind (lockOwnedReservation env route (rp_UserID params) (rp_ReservationID params)) (\<lambda>row.
     if rr_status row = ''cancelled'' then
       tx_bind (CompleteIdempotency env route (ia_RecordID acquisition) (rp_ReservationID params)) (\<lambda>_.
       tx_bind (recordSuccessfulGenerationWrite env route) (\<lambda>_.
       tx_bind (Commit env route) (\<lambda>_.
       tx_return \<lparr>cn_ReservationID = rp_ReservationID params, cn_ReleasedSeatCount = 0, cn_Replayed = False\<rparr>)))
     else if rr_status row \<noteq> ''held'' \<and> rr_status row \<noteq> ''confirmed'' then tx_fail ErrInvalidState
     else write_cancellation env route (rp_ReservationID params) (rr_status row) (ia_RecordID acquisition)))"

definition CancelReservation ::
  "TxEnv \<Rightarrow> ReservationCommandParams \<Rightarrow> BookingDb \<Rightarrow> Store \<Rightarrow> CancelReservationResult command" where
  "CancelReservation env params db store =
     (if \<not> validateReservationCommandParams params then (Inl ErrInvalidArgument, db, store)
      else in_tx (beginReservationCommandTransaction env (rp_ReservationID params) (rp_UserID params) db store)
             (cancel_tx env params) db)"

end
