(* ===== verification/Booking_Expiry.thy ===== *)
theory Booking_Expiry
  imports Booking_Store
begin

text \<open>
  Expiration: \<^verbatim>\<open>ExpireDue\<close>, \<^verbatim>\<open>expireOneDue\<close> and \<^verbatim>\<open>cleanupExpiredIdempotency\<close> of \<^verbatim>\<open>reservation_store.go\<close>, and
  their sharded counterparts in \<^verbatim>\<open>expiration_sharding.go\<close>. Every reservation is expired in a
  transaction of its own; \<open>others n\<close> is what other processes commit before pass \<open>n\<close>.
\<close>

subsection \<open>One schema\<close>

definition due_reservations :: "TxEnv \<Rightarrow> uuid list \<Rightarrow> LocalTables \<Rightarrow> ReservationRow list" where
  "due_reservations env excluded t =
     filter (\<lambda>r. \<not> env_locked_reservation env (rr_id r))
       (sort_key (\<lambda>r. (rr_expires r, rr_id r))
         (filter (\<lambda>r. rr_status r = ''held'' \<and> rr_expires r \<le> env_clock env \<and> rr_id r \<notin> set excluded)
           (reservations t)))"

definition expire_status :: "TxEnv \<Rightarrow> string \<Rightarrow> ShardRoute option \<Rightarrow> uuid \<Rightarrow> nat btx" where
  "expire_status env label route reservationID =
     update_status env label route
       (\<lambda>r. rr_id r = reservationID \<and> rr_status r = ''held'' \<and> rr_expires r \<le> env_update_clock env) ''expired''"

definition expired_payload :: "uuid \<Rightarrow> int \<Rightarrow> payload" where
  "expired_payload reservationID released =
     [(''reservationId'', JUuid reservationID), (''status'', JString ''expired''), (''releasedSeatCount'', JInt released)]"

definition expire_claimed_tx :: "TxEnv \<Rightarrow> uuid \<Rightarrow> unit btx" where
  "expire_claimed_tx env reservationID =
     tx_bind (expire_status env ''transition to expired'' None reservationID) (\<lambda>affected.
     tx_bind (tx_reject (affected \<noteq> 1) ErrPersistenceInvariant) (\<lambda>_.
     tx_bind (releaseReservationSeats env None reservationID) (\<lambda>released.
     tx_bind (appendReservationEvent env None reservationID ''reservation.expired''
        (expired_payload reservationID released)) (\<lambda>_.
     tx_bind (closeReservationQuotaClaim env None reservationID) (\<lambda>_.
     Commit env None)))))"

text \<open>The Go triple (id, found, err), and the tables afterwards.\<close>

definition expireOneDue :: "TxEnv \<Rightarrow> uuid list \<Rightarrow> BookingDb \<Rightarrow> (uuid \<times> bool \<times> BookingError option) \<times> BookingDb" where
  "expireOneDue env excluded db =
     (case Begin env of
        Inl e \<Rightarrow> ((uuid_Nil, False, Some e), db)
      | Inr _ \<Rightarrow>
          (case env_fault env ''claim due reservation'' of
             Some code \<Rightarrow> ((uuid_Nil, False, Some (ErrDatabase ''claim due reservation'' code)), db)
           | None \<Rightarrow>
               (case due_reservations env excluded (locals db Public) of
                  [] \<Rightarrow> ((uuid_Nil, False, None), db)
                | r # _ \<Rightarrow>
                    (case run_tx (expire_claimed_tx env (rr_id r)) db of
                       (Inl e, db') \<Rightarrow> ((rr_id r, True, Some e), db')
                     | (Inr _, db') \<Rightarrow> ((rr_id r, True, None), db')))))"

definition cleanupExpiredIdempotency :: "TxEnv \<Rightarrow> int \<Rightarrow> BookingDb \<Rightarrow> BookingError option \<times> BookingDb" where
  "cleanupExpiredIdempotency env limit db =
     (if limit \<le> 0 then (Some ErrInvalidArgument, db)
      else case env_fault env ''clean expired idempotency records'' of
        Some code \<Rightarrow> (Some (ErrDatabase ''clean expired idempotency records'' code), db)
      | None \<Rightarrow>
          (let t = locals db Public;
               expired = take (nat limit) (filter (\<lambda>x. \<not> env_locked_claim env (ir_id x))
                 (sort_key (\<lambda>x. (ir_expires x, ir_id x))
                   (filter (\<lambda>x. ir_expires x \<le> env_clock env) (idempotency_records t))))
           in (None, db\<lparr>locals := (locals db)(Public := t\<lparr>idempotency_records :=
                 filter (\<lambda>x. ir_id x \<notin> ir_id ` set expired) (idempotency_records t)\<rparr>)\<rparr>)))"

text \<open>
  The loop of \<^verbatim>\<open>ExpireDue\<close>: the first argument is \<^verbatim>\<open>limit\<close> minus the reservations handled so far, so it
  goes down in every pass. The last component of the result says whether the loop ended by the
  return inside it, which skips the clean-up.
\<close>

fun expire_due_loop ::
  "nat \<Rightarrow> nat \<Rightarrow> (nat \<Rightarrow> TxEnv) \<Rightarrow> (nat \<Rightarrow> BookingDb \<Rightarrow> BookingDb) \<Rightarrow> uuid list \<Rightarrow> uuid list \<Rightarrow> BookingError list \<Rightarrow>
     BookingDb \<Rightarrow> (uuid list \<times> BookingError list \<times> bool) \<times> BookingDb" where
  "expire_due_loop 0 pass envs others expired failed failures db = ((expired, failures, False), db)"
| "expire_due_loop (Suc n) pass envs others expired failed failures db =
     (case expireOneDue (envs pass) failed (others pass db) of
        ((i, found, err), db') \<Rightarrow>
          if \<not> found \<and> err = None then ((expired, failures, False), db')
          else (case err of
             Some e \<Rightarrow>
               if i = uuid_Nil then ((expired, failures @ [e], True), db')
               else expire_due_loop n (Suc pass) envs others expired (failed @ [i]) (failures @ [e]) db'
           | None \<Rightarrow> expire_due_loop n (Suc pass) envs others (expired @ [i]) failed failures db'))"

subsection \<open>Across shards\<close>

definition shard_schema :: "ShardID \<Rightarrow> schema option" where
  "shard_schema shardID = fixedSearchPath shardID"

text \<open>\<^verbatim>\<open>dueReservationQuery\<close>: held and due, located on this shard under the current assignment, on a shard that takes writes.\<close>

definition dueReservationQuery :: "TxEnv \<Rightarrow> ShardID \<Rightarrow> uuid list \<Rightarrow> BookingDb \<Rightarrow> ReservationRow list option" where
  "dueReservationQuery env shardID excluded db =
     (case shard_schema shardID of
        None \<Rightarrow> None
      | Some sc \<Rightarrow> Some (sort_key (\<lambda>r. (rr_expires r, rr_id r))
          (filter (\<lambda>r. rr_status r = ''held'' \<and> rr_expires r \<le> env_clock env \<and> rr_id r \<notin> set excluded \<and>
             list_ex (\<lambda>l. rl_reservation l = rr_id r \<and> rl_train_run l = rr_train_run r \<and> rl_shard l = shardID \<and>
               list_ex (\<lambda>a. as_train_run a = rl_train_run l \<and> as_shard a = rl_shard l \<and>
                   as_generation a = rl_generation l \<and> as_state a \<in> {''stable'', ''migrating'', ''rollback_window''})
                 (train_run_shard_assignments db) \<and>
               list_ex (\<lambda>s. sh_id s = rl_shard l \<and> sh_enabled s \<and> sh_write_enabled s \<and>
                   sh_state s \<in> {''active'', ''draining''} \<and> sh_min_protocol s \<le> SupportedFencingProtocolVersion)
                 (booking_shards db)) (reservation_shard_locators db))
           (reservations (locals db sc)))))"

definition findDueReservationOnShard ::
  "TxEnv \<Rightarrow> ShardID \<Rightarrow> uuid list \<Rightarrow> BookingDb \<Rightarrow> BookingError + uuid option" where
  "findDueReservationOnShard env shardID excluded db =
     (case dueReservationQuery env shardID excluded db of
        None \<Rightarrow> Inl (ErrShard RouteErrorShardUnavailable)
      | Some rows \<Rightarrow>
          if env_fault env ''find due reservation'' \<noteq> None then Inl (ErrShard RouteErrorShardUnavailable)
          else (case rows of [] \<Rightarrow> Inr None | r # _ \<Rightarrow> Inr (Some (rr_id r))))"

definition expire_located_tx :: "TxEnv \<Rightarrow> uuid \<Rightarrow> ShardRoute option \<Rightarrow> bool btx" where
  "expire_located_tx env reservationID route =
     tx_bind (exec_sql env ''lock routed due reservation'') (\<lambda>_.
     tx_bind (local_get (search_schema route) (\<lambda>t.
        find (\<lambda>r. rr_id r = reservationID \<and> rr_status r = ''held'' \<and> rr_expires r \<le> env_clock env) (reservations t))) (\<lambda>row.
     if row = None then tx_return False
     else
     tx_bind (expire_status env ''expire routed reservation'' route reservationID) (\<lambda>affected.
     tx_bind (tx_reject (affected \<noteq> 1) ErrPersistenceInvariant) (\<lambda>_.
     tx_bind (releaseReservationSeats env route reservationID) (\<lambda>released.
     tx_bind (closeReservationQuotaClaim env route reservationID) (\<lambda>_.
     tx_bind (appendReservationEvent env route reservationID ''reservation.expired''
        (expired_payload reservationID released)) (\<lambda>_.
     tx_bind (recordSuccessfulGenerationWrite env route) (\<lambda>_.
     tx_bind (Commit env route) (\<lambda>_.
     tx_return True)))))))))"

definition expireLocatedReservation :: "TxEnv \<Rightarrow> uuid \<Rightarrow> BookingDb \<Rightarrow> Store \<Rightarrow> bool command" where
  "expireLocatedReservation env reservationID db store =
     in_tx (case store_shards store of
              None \<Rightarrow> (Inl ErrInvalidArgument, store)
            | Some router \<Rightarrow> on_router (beginReservationMaintenanceWrite env reservationID db) env store)
       (expire_located_tx env reservationID) db"

text \<open>
  \<^verbatim>\<open>cleanupExpiredIdempotencyAcrossShards\<close>: claims of stable runs first, then claims without a run,
  together at most \<open>limit\<close>.
\<close>

definition expired_claims :: "TxEnv \<Rightarrow> (KeyClaimRow \<Rightarrow> bool) \<Rightarrow> BookingDb \<Rightarrow> uuid list" where
  "expired_claims env p db =
     map kc_id (filter (\<lambda>k. \<not> env_locked_claim env (kc_id k))
       (sort_key (\<lambda>k. (kc_expires k, kc_id k))
         (filter (\<lambda>k. p k \<and> kc_expires k \<le> env_clock env) (booking_idempotency_key_claims db))))"

definition expired_routes :: "TxEnv \<Rightarrow> BookingDb \<Rightarrow> uuid list" where
  "expired_routes env db =
     sort (map as_train_run (filter (\<lambda>a. as_state a = ''stable'' \<and> as_migration a = None \<and>
         \<not> env_locked_assignment env (as_train_run a) \<and>
         list_ex (\<lambda>k. kc_train_run k = Some (as_train_run a) \<and> kc_expires k \<le> env_clock env)
           (booking_idempotency_key_claims db)) (train_run_shard_assignments db)))"

definition cleanup_across_shards_tx :: "TxEnv \<Rightarrow> int \<Rightarrow> unit btx" where
  "cleanup_across_shards_tx env limit =
     (let unavailable = ErrShard RouteErrorShardUnavailable in
      tx_bind (exec_sql_as env ''select expired routes'' unavailable) (\<lambda>_.
      tx_bind (tx_get (\<lambda>db. take (nat limit) (expired_routes env db))) (\<lambda>trainRunIDs.
      tx_bind (if trainRunIDs = [] then tx_return []
               else tx_bind (exec_sql_as env ''select routed claims'' unavailable) (\<lambda>_.
                    tx_get (\<lambda>db. take (nat limit) (expired_claims env
                      (\<lambda>k. \<exists>r \<in> set trainRunIDs. kc_train_run k = Some r) db)))) (\<lambda>routed.
      let remaining = limit - int (length routed) in
      tx_bind (if 0 < remaining
               then tx_bind (exec_sql_as env ''select legacy claims'' unavailable) (\<lambda>_.
                    tx_get (\<lambda>db. take (nat remaining) (expired_claims env (\<lambda>k. kc_train_run k = None) db)))
               else tx_return []) (\<lambda>legacy.
      let claimIDs = routed @ legacy in
      if claimIDs = [] then exec_sql env ''commit''
      else tx_bind (retireExpiredIdempotencyClaims env claimIDs) (\<lambda>_.
           exec_sql_as env ''commit'' unavailable))))))"

definition cleanupExpiredIdempotencyAcrossShards :: "TxEnv \<Rightarrow> int \<Rightarrow> BookingDb \<Rightarrow> BookingError option \<times> BookingDb" where
  "cleanupExpiredIdempotencyAcrossShards env limit db =
     (if limit \<le> 0 then (Some ErrInvalidArgument, db)
      else if env_fault env ''begin cleanup'' \<noteq> None then (Some (ErrShard RouteErrorShardUnavailable), db)
      else case run_tx (cleanup_across_shards_tx env limit) db of
             (Inl e, db') \<Rightarrow> (Some e, db')
           | (Inr _, db') \<Rightarrow> (None, db'))"

text \<open>The variables of the loop over shards; \<open>xs_pass\<close> counts the shards visited, to pick environments.\<close>

record ShardSweep =
  xs_expired :: "uuid list"
  xs_excluded :: "ShardID \<Rightarrow> uuid list"
  xs_failedShards :: "ShardID list"
  xs_failures :: "BookingError list"
  xs_madeProgress :: bool
  xs_attempts :: nat
  xs_pass :: nat
  xs_db :: BookingDb
  xs_store :: Store

definition sweep_shard ::
  "(nat \<Rightarrow> TxEnv) \<Rightarrow> (nat \<Rightarrow> BookingDb \<Rightarrow> BookingDb) \<Rightarrow> nat \<Rightarrow> ShardID \<Rightarrow> ShardSweep \<Rightarrow> ShardSweep" where
  "sweep_shard envs others limit shardID x =
     (let env = envs (xs_pass x); db = others (xs_pass x) (xs_db x); x = x\<lparr>xs_pass := xs_pass x + 1, xs_db := db\<rparr> in
      if limit \<le> length (xs_expired x) \<or> shardID \<in> set (xs_failedShards x) then x
      else case findDueReservationOnShard env shardID (xs_excluded x shardID) db of
        Inl e \<Rightarrow> x\<lparr>xs_failedShards := shardID # xs_failedShards x, xs_failures := xs_failures x @ [e]\<rparr>
      | Inr None \<Rightarrow> x
      | Inr (Some reservationID) \<Rightarrow>
          (let x = x\<lparr>xs_excluded := (xs_excluded x)(shardID := xs_excluded x shardID @ [reservationID]),
                     xs_attempts := xs_attempts x + 1, xs_madeProgress := True\<rparr>
           in case expireLocatedReservation env reservationID db (xs_store x) of
                (Inl e, db', store') \<Rightarrow> x\<lparr>xs_failures := xs_failures x @ [e], xs_db := db', xs_store := store'\<rparr>
              | (Inr True, db', store') \<Rightarrow>
                  x\<lparr>xs_expired := xs_expired x @ [reservationID], xs_db := db', xs_store := store'\<rparr>
              | (Inr False, db', store') \<Rightarrow> x\<lparr>xs_db := db', xs_store := store'\<rparr>))"

fun sweep_rounds ::
  "nat \<Rightarrow> (nat \<Rightarrow> TxEnv) \<Rightarrow> (nat \<Rightarrow> BookingDb \<Rightarrow> BookingDb) \<Rightarrow> nat \<Rightarrow> ShardID list \<Rightarrow> ShardSweep \<Rightarrow> ShardSweep" where
  "sweep_rounds 0 envs others limit shards x = x"
| "sweep_rounds (Suc fuel) envs others limit shards x =
     (if length (xs_expired x) < limit \<and> xs_attempts x < limit \<and> xs_madeProgress x
      then sweep_rounds fuel envs others limit shards
             (fold (sweep_shard envs others limit) shards (x\<lparr>xs_madeProgress := False\<rparr>))
      else x)"

text \<open>
  \<^verbatim>\<open>expireDueAcrossShards\<close>. A round that is followed by another one made progress, so it raised
  \<^verbatim>\<open>attempts\<close>; \<open>limit + 1\<close> rounds of fuel are therefore enough (\<open>sweep_rounds_enough\<close>).
\<close>

definition expireDueAcrossShards ::
  "(nat \<Rightarrow> TxEnv) \<Rightarrow> TxEnv \<Rightarrow> (nat \<Rightarrow> BookingDb \<Rightarrow> BookingDb) \<Rightarrow> Router \<Rightarrow> nat \<Rightarrow> BookingDb \<Rightarrow> Store \<Rightarrow>
     (uuid list \<times> BookingError list) \<times> BookingDb \<times> Store" where
  "expireDueAcrossShards envs env others router limit db store =
     (case ListEnabledShards env router db of
        Inl e \<Rightarrow> (([], [ErrShard e]), db, store)
      | Inr shards \<Rightarrow>
          (let x = sweep_rounds (limit + 1) envs others limit shards
                 \<lparr>xs_expired = [], xs_excluded = (\<lambda>_. []), xs_failedShards = [], xs_failures = [],
                  xs_madeProgress = True, xs_attempts = 0, xs_pass = 0, xs_db = db, xs_store = store\<rparr>;
               (cleanupErr, db') = cleanupExpiredIdempotencyAcrossShards env 1000 (xs_db x)
           in ((xs_expired x, xs_failures x @ (case cleanupErr of None \<Rightarrow> [] | Some e \<Rightarrow> [e])), db', xs_store x)))"

definition ExpireDue ::
  "(nat \<Rightarrow> TxEnv) \<Rightarrow> TxEnv \<Rightarrow> (nat \<Rightarrow> BookingDb \<Rightarrow> BookingDb) \<Rightarrow> gotime \<Rightarrow> int \<Rightarrow> BookingDb \<Rightarrow> Store \<Rightarrow>
     (uuid list \<times> BookingError list) \<times> BookingDb \<times> Store" where
  "ExpireDue envs env others now limit db store =
     (if IsZero_time now \<or> limit \<le> 0 \<or> 1000 < limit then (([], [ErrInvalidArgument]), db, store)
      else case store_shards store of
        Some router \<Rightarrow> expireDueAcrossShards envs env others router (nat limit) db store
      | None \<Rightarrow>
          (case expire_due_loop (nat limit) 0 envs others [] [] [] db of
             ((expired, failures, returned), db') \<Rightarrow>
               if returned then ((expired, failures), db', store)
               else (case cleanupExpiredIdempotency env 1000 db' of
                       (cleanupErr, db'') \<Rightarrow>
                         ((expired, failures @ (case cleanupErr of None \<Rightarrow> [] | Some e \<Rightarrow> [e])), db'', store))))"

subsection \<open>The loops end as the code's loops do\<close>

lemma sweep_shard_attempts:
  "xs_attempts x \<le> xs_attempts (sweep_shard envs others limit s x) \<and>
   (xs_madeProgress (sweep_shard envs others limit s x) \<longrightarrow>
      xs_madeProgress x \<or> xs_attempts x < xs_attempts (sweep_shard envs others limit s x))"
  by (simp add: sweep_shard_def Let_def split: sum.splits option.splits bool.splits prod.splits)

lemma sweep_round_attempts:
  "xs_attempts x \<le> xs_attempts (fold (sweep_shard envs others limit) shards x) \<and>
   (xs_madeProgress (fold (sweep_shard envs others limit) shards x) \<longrightarrow>
      xs_madeProgress x \<or> xs_attempts x < xs_attempts (fold (sweep_shard envs others limit) shards x))"
proof (induction shards arbitrary: x)
  case (Cons s shards)
  show ?case
    using Cons.IH [of "sweep_shard envs others limit s x"] sweep_shard_attempts [of x envs others limit s]
    by fastforce
qed simp

text \<open>With fuel above \<open>limit\<close> minus the attempts made, the loop stops because its condition is false.\<close>

lemma sweep_rounds_enough:
  fixes envs others shards
  assumes "limit < fuel + xs_attempts x"
  defines "y \<equiv> sweep_rounds fuel envs others limit shards x"
  shows "\<not> (length (xs_expired y) < limit \<and> xs_attempts y < limit \<and> xs_madeProgress y)"
  using assms(1) unfolding y_def
proof (induction fuel arbitrary: x)
  case (Suc fuel)
  let ?x = "fold (sweep_shard envs others limit) shards (x\<lparr>xs_madeProgress := False\<rparr>)"
  have step: "xs_attempts x \<le> xs_attempts ?x" "xs_madeProgress ?x \<Longrightarrow> xs_attempts x < xs_attempts ?x"
    using sweep_round_attempts [of "x\<lparr>xs_madeProgress := False\<rparr>" envs others limit shards] by simp_all
  show ?case
  proof (cases "xs_madeProgress ?x")
    case True
    with step Suc.prems have "limit < fuel + xs_attempts ?x" by simp
    then show ?thesis using Suc.IH by simp
  next
    case False
    then have "sweep_rounds fuel envs others limit shards ?x = ?x" by (cases fuel) simp_all
    with False show ?thesis by simp
  qed
qed simp

end
