(* ===== verification/Booking_Frame.thy ===== *)
theory Booking_Frame
  imports Booking_Expiry
begin

text \<open>
  Which tables a booking operation leaves alone. \<open>core db sc\<close> is the part of schema \<open>sc\<close> on which the
  safety of the inventory depends: inventory, reservations and their seats. Every operation on
  idempotency records, claims, locators, tickets and the outbox keeps it, and the checks and
  queries keep everything.
\<close>

definition core :: "BookingDb \<Rightarrow> schema \<Rightarrow> InventoryRow list \<times> ReservationRow list \<times> ReservationSeatRow list" where
  "core db sc = (seat_inventory (locals db sc), reservations (locals db sc), reservation_seats (locals db sc))"

lemma core_locals_upd [simp]:
  assumes "seat_inventory (f (locals s sc)) = seat_inventory (locals s sc)"
    "reservations (f (locals s sc)) = reservations (locals s sc)"
    "reservation_seats (f (locals s sc)) = reservation_seats (locals s sc)"
  shows "core (s\<lparr>locals := (locals s)(sc := f (locals s sc))\<rparr>) = core s"
  using assms by (auto simp: core_def fun_eq_iff)

lemma frame_delete: "core (expiredIdempotencyRecordDelete sc ids s) = core s"
  by (auto simp: core_def fun_eq_iff expiredIdempotencyRecordDelete_def)

lemma core_simps [simp]:
  "core (s\<lparr>booking_idempotency_key_claims := a\<rparr>) = core s"
  "core (s\<lparr>reservation_quota_claims := b\<rparr>) = core s"
  "core (s\<lparr>reservation_shard_locators := c\<rparr>) = core s"
  "core (s\<lparr>ticket_order_shard_locators := d\<rparr>) = core s"
  "core (s\<lparr>ticket_shard_locators := e\<rparr>) = core s"
  "core (s\<lparr>outbox_events := g\<rparr>) = core s"
  "core (s\<lparr>train_run_generation_writes := h\<rparr>) = core s"
  by (simp_all add: core_def fun_eq_iff)

lemma frame_retire [tx_frame_rules]: "tx_frame core (retireExpiredIdempotencyClaims env ids)"
  unfolding retireExpiredIdempotencyClaims_def Let_def
  by (intro tx_frame_rules tx_frame_each) (simp_all add: frame_delete)

lemma frame_claim [tx_frame_rules]: "tx_frame core (acquireGlobalIdempotencyClaim env r input)"
  unfolding acquireGlobalIdempotencyClaim_def Let_def
  by (intro tx_frame_rules) simp_all

lemma frame_upsert [tx_frame_rules]: "tx_frame core (upsert_idempotency_record env route input x a)"
  unfolding upsert_idempotency_record_def Let_def
  by (intro tx_frame_rules) simp_all

lemma frame_acquire [tx_frame_rules]: "tx_frame core (AcquireIdempotency env route input)"
  unfolding AcquireIdempotency_def Let_def
  by (intro tx_frame_rules)

lemma frame_complete [tx_frame_rules]: "tx_frame core (CompleteIdempotency env route a b)"
  unfolding CompleteIdempotency_def Let_def
  by (intro tx_frame_rules) simp_all

lemma frame_ledger [tx_frame_rules]:
  "tx_frame core (insertReservationQuotaClaim env route a b c n)"
  "tx_frame core (closeReservationQuotaClaim env route a)"
  "tx_frame core (insertReservationLocator env route a b)"
  "tx_frame core (insertTicketOrderLocator env route a b c st m cu t)"
  "tx_frame core (insertTicketLocator env route a b c d)"
  "tx_frame core (updateTicketOrderLocatorStatus env route a st)"
  "tx_frame core (appendReservationEvent env route a ty p)"
  "tx_frame core (appendTicketEvent env route a p)"
  "tx_frame core (recordSuccessfulGenerationWrite env route)"
  "tx_frame core (Commit env route)"
  unfolding insertReservationQuotaClaim_def closeReservationQuotaClaim_def insertReservationLocator_def
    insertTicketOrderLocator_def insertTicketLocator_def updateTicketOrderLocatorStatus_def
    appendReservationEvent_def appendTicketEvent_def recordSuccessfulGenerationWrite_def Commit_def
  by (intro tx_frame_rules; simp)+

lemma frame_tickets [tx_frame_rules]:
  "tx_frame core (insert_ticket_order env route row)"
  "tx_frame core (insert_ticket env route row')"
  "tx_frame core (cancel_tickets env route rid)"
  unfolding insert_ticket_order_def insert_ticket_def cancel_tickets_def Let_def
  by (intro tx_frame_rules; simp)+

lemma frame_issue [tx_frame_rules]: "tx_frame core (issue_ticket env route params item)"
  unfolding issue_ticket_def Let_def by (intro tx_frame_rules)

text \<open>Checks and queries change nothing at all.\<close>

lemma read_only [tx_frame_rules]:
  "tx_frame v (recheckAdmissionPolicy env a cls d)"
  "tx_frame v (enforceReservationQuota env route a b n l)"
  "tx_frame v (ownedPassengerIDs env u ids)"
  "tx_frame v (ensurePassengersAvailable env route a ids)"
  "tx_frame v (reservationSeatIDs env route a)"
  "tx_frame v (lockOwnedReservation env route u a)"
  "tx_frame v (loadCreateHoldResult env route u a)"
  "tx_frame v (loadConfirmationResult env route u a)"
  "tx_frame v (loadCancellationResult env route u a)"
proof -
  show "tx_frame v (recheckAdmissionPolicy env a cls d)"
    unfolding recheckAdmissionPolicy_def
    by (intro tx_frame_rules) (auto simp: tx_frame_def split: option.splits PolicyLockError.splits)
qed (unfold enforceReservationQuota_def ownedPassengerIDs_def ensurePassengersAvailable_def
    reservationSeatIDs_def lockOwnedReservation_def loadCreateHoldResult_def
    loadConfirmationResult_def loadCancellationResult_def; intro tx_frame_rules)+

lemmas read_onlyD = read_only [of "\<lambda>s. s", THEN tx_frameD]

end
