(* ===== verification/Booking_Invariant.thy ===== *)
theory Booking_Invariant
  imports Booking_Frame
begin

text \<open>
  The invariant of the seat inventory, on the three tables that carry it. \<open>seat_claims\<close> are the seats
  of live (held or confirmed) reservations. \<open>cover_ok\<close> says that the occupied bits of every
  inventory row are exactly covered, without overlap, by the journeys of the live claims on it;
  \<open>passengers_ok\<close> that no passenger has two live claims on one run; \<open>keys_ok\<close> and \<open>refs_ok\<close> are the
  keys and references of the tables. One lemma per kind of change shows that the change keeps it:
  commissioning, a new hold, a change between live statuses, and the end of a reservation.
\<close>

definition live :: "string \<Rightarrow> bool" where
  "live status \<longleftrightarrow> status = ''held'' \<or> status = ''confirmed''"

definition claims_of ::
  "ReservationRow list \<Rightarrow> ReservationSeatRow list \<Rightarrow> uuid \<Rightarrow> ReservationSeatRow set" where
  "claims_of rows claims run =
     {c \<in> set claims. \<exists>r \<in> set rows. rr_id r = rs_reservation c \<and> rr_train_run r = run \<and> live (rr_status r)}"

definition seat_claims ::
  "ReservationRow list \<Rightarrow> ReservationSeatRow list \<Rightarrow> uuid \<Rightarrow> uuid \<Rightarrow> ReservationSeatRow set" where
  "seat_claims rows claims run seat = {c \<in> claims_of rows claims run. rs_seat c = seat}"

type_synonym core_tables = "InventoryRow list \<times> ReservationRow list \<times> ReservationSeatRow list"

definition keys_ok :: "core_tables \<Rightarrow> bool" where
  "keys_ok = (\<lambda>(si_tab, rows, claims).
     distinct (map (\<lambda>si. (si_train_run si, si_seat si)) si_tab) \<and> distinct (map rr_id rows) \<and>
     distinct (map rs_id claims) \<and> distinct (map (\<lambda>c. (rs_reservation c, rs_seat c)) claims) \<and>
     distinct (map (\<lambda>c. (rs_reservation c, rs_passenger c)) claims))"

definition refs_ok :: "core_tables \<Rightarrow> bool" where
  "refs_ok = (\<lambda>(si_tab, rows, claims). \<forall>c \<in> set claims. \<exists>r \<in> set rows.
     rr_id r = rs_reservation c \<and> occupied (rs_mask c) = {nat (rr_from r)..<nat (rr_to r)} \<and>
     0 \<le> rr_from r \<and> rr_from r < rr_to r \<and>
     (\<exists>si \<in> set si_tab. si_train_run si = rr_train_run r \<and> si_seat si = rs_seat c))"

definition cover_ok :: "core_tables \<Rightarrow> bool" where
  "cover_ok = (\<lambda>(si_tab, rows, claims). \<forall>si \<in> set si_tab.
     exact_cover occupied (si_occupied si) rs_mask (seat_claims rows claims (si_train_run si) (si_seat si)))"

definition passengers_ok :: "core_tables \<Rightarrow> bool" where
  "passengers_ok = (\<lambda>(si_tab, rows, claims). \<forall>run. inj_on rs_passenger (claims_of rows claims run))"

definition booking_ok :: "core_tables \<Rightarrow> bool" where
  "booking_ok t \<longleftrightarrow> keys_ok t \<and> refs_ok t \<and> cover_ok t \<and> passengers_ok t"

lemma reserve_keys [simp]:
  "map (\<lambda>si. (si_train_run si, si_seat si)) (reserve_rows run chosen req si_tab) =
   map (\<lambda>si. (si_train_run si, si_seat si)) si_tab"
  by (simp add: reserve_rows_def)

lemma keyed_rows_transfer:
  fixes si_tab si_tab' :: "InventoryRow list"
  assumes "map (\<lambda>si. (si_train_run si, si_seat si)) si_tab' = map (\<lambda>si. (si_train_run si, si_seat si)) si_tab"
  shows "(\<exists>si \<in> set si_tab'. si_train_run si = a \<and> si_seat si = b) \<longleftrightarrow>
         (\<exists>si \<in> set si_tab. si_train_run si = a \<and> si_seat si = b)"
proof -
  have image: "(\<exists>si \<in> set i. si_train_run si = a \<and> si_seat si = b) \<longleftrightarrow>
      (a, b) \<in> set (map (\<lambda>si. (si_train_run si, si_seat si)) i)" for i :: "InventoryRow list"
    by force
  show ?thesis by (simp only: image assms)
qed

lemma claims_of_insert:
  assumes refs: "refs_ok (si_tab, rows, claims)" and fresh: "rr_id r \<notin> rr_id ` set rows"
    and live: "live (rr_status r)" and new: "\<forall>c \<in> set new. rs_reservation c = rr_id r"
  shows "claims_of (rows @ [r]) (claims @ new) run =
    claims_of rows claims run \<union> (if run = rr_train_run r then set new else {})"
proof -
  have old: "\<forall>r' \<in> set rows. rr_id r' \<noteq> rr_id r" using fresh by (metis imageI)
  have apart: "\<forall>c \<in> set claims. rs_reservation c \<noteq> rr_id r"
  proof
    fix c assume "c \<in> set claims"
    then obtain r' where "r' \<in> set rows" "rr_id r' = rs_reservation c"
      using refs by (auto simp: refs_ok_def)
    with old show "rs_reservation c \<noteq> rr_id r" by auto
  qed
  have "x \<in> claims_of (rows @ [r]) (claims @ new) run \<longleftrightarrow>
      x \<in> claims_of rows claims run \<or> x \<in> set new \<and> run = rr_train_run r" for x
  proof (cases "x \<in> set claims")
    case True
    then show ?thesis using apart new by (auto simp: claims_of_def)
  next
    case False
    then show ?thesis using old new live by (auto simp: claims_of_def)
  qed
  then show ?thesis by auto
qed

lemma booking_ok_create:
  assumes ok: "booking_ok (si_tab, rows, claims)"
    and fresh: "rr_id r \<notin> rr_id ` set rows" and live: "live (rr_status r)"
    and new: "\<forall>c \<in> set new. rs_reservation c = rr_id r \<and> rs_mask c = req"
    and journey: "occupied req = {nat (rr_from r)..<nat (rr_to r)}" "0 \<le> rr_from r" "rr_from r < rr_to r"
    and keys: "distinct (map rs_id (claims @ new))"
      "distinct (map (\<lambda>c. (rs_reservation c, rs_seat c)) (claims @ new))"
      "distinct (map (\<lambda>c. (rs_reservation c, rs_passenger c)) (claims @ new))"
    and chosen: "rs_seat ` set new = set chosen"
    and free: "\<forall>seat \<in> set chosen. \<exists>si \<in> set si_tab.
      si_train_run si = rr_train_run r \<and> si_seat si = seat \<and> free_for req si"
    and passengers: "\<forall>c \<in> set new. rs_passenger c \<notin> rs_passenger ` claims_of rows claims (rr_train_run r)"
  shows "booking_ok (reserve_rows (rr_train_run r) chosen req si_tab, rows @ [r], claims @ new)"
    (is "booking_ok (?si_tab, ?rows, ?claims)")
proof -
  have k: "keys_ok (si_tab, rows, claims)" and f: "refs_ok (si_tab, rows, claims)"
    and c: "cover_ok (si_tab, rows, claims)" and p: "passengers_ok (si_tab, rows, claims)"
    using ok by (simp_all add: booking_ok_def)
  have claims: "claims_of ?rows ?claims run =
      claims_of rows claims run \<union> (if run = rr_train_run r then set new else {})" for run
    using claims_of_insert [OF f fresh live] new by blast
  have "keys_ok (?si_tab, ?rows, ?claims)" using k keys fresh by (simp add: keys_ok_def)
  moreover have "refs_ok (?si_tab, ?rows, ?claims)"
    unfolding refs_ok_def prod.case
  proof
    fix x assume "x \<in> set ?claims"
    then consider "x \<in> set claims" | "x \<in> set new" by auto
    then show "\<exists>r' \<in> set ?rows. rr_id r' = rs_reservation x \<and>
        occupied (rs_mask x) = {nat (rr_from r')..<nat (rr_to r')} \<and> 0 \<le> rr_from r' \<and> rr_from r' < rr_to r' \<and>
        (\<exists>si \<in> set ?si_tab. si_train_run si = rr_train_run r' \<and> si_seat si = rs_seat x)"
    proof cases
      case 1
      with f show ?thesis unfolding keyed_rows_transfer [OF reserve_keys] by (auto simp: refs_ok_def)
    next
      case 2
      then have "rs_seat x \<in> set chosen" using chosen by auto
      then have "\<exists>si \<in> set si_tab. si_train_run si = rr_train_run r \<and> si_seat si = rs_seat x" using free by blast
      with 2 new journey show ?thesis unfolding keyed_rows_transfer [OF reserve_keys]
        by (intro bexI [of _ r]) simp_all
    qed
  qed
  moreover have "passengers_ok (?si_tab, ?rows, ?claims)"
  proof -
    have "inj_on rs_passenger (set new)"
      using keys(3) new by (auto simp: distinct_map inj_on_def)
    then show ?thesis using p passengers
      by (auto simp: passengers_ok_def claims inj_on_Un image_iff) metis
  qed
  moreover have "cover_ok (?si_tab, ?rows, ?claims)"
    unfolding cover_ok_def prod.case
  proof
    fix x assume "x \<in> set ?si_tab"
    then obtain si where si: "si \<in> set si_tab" and x: "x = (if si_train_run si = rr_train_run r \<and> si_seat si \<in> set chosen
        then si\<lparr>si_occupied := bit_or_sql (si_occupied si) req, si_version := si_version si + 1\<rparr> else si)"
      by (auto simp: reserve_rows_def)
    have keyed: "si_train_run x = si_train_run si" "si_seat x = si_seat si" by (simp_all add: x)
    have old: "exact_cover occupied (si_occupied si) rs_mask (seat_claims rows claims (si_train_run si) (si_seat si))"
      using c si by (auto simp: cover_ok_def)
    show "exact_cover occupied (si_occupied x) rs_mask (seat_claims ?rows ?claims (si_train_run x) (si_seat x))"
    proof (cases "si_train_run si = rr_train_run r \<and> si_seat si \<in> set chosen")
      case False
      moreover have "\<forall>m \<in> set new. rs_seat m \<in> set chosen" using chosen by blast
      ultimately have "seat_claims ?rows ?claims (si_train_run si) (si_seat si) =
          seat_claims rows claims (si_train_run si) (si_seat si)"
        by (auto simp: seat_claims_def claims)
      moreover have "x = si" using False by (auto simp: x)
      ultimately show ?thesis using old by simp
    next
      case True
      then obtain n where n: "n \<in> set new" "rs_seat n = si_seat si" using chosen by (metis imageE)
      have "free_for req si"
      proof -
        obtain si' where "si' \<in> set si_tab" "si_train_run si' = si_train_run si" "si_seat si' = si_seat si"
            "free_for req si'" using free True by metis
        moreover have "distinct (map (\<lambda>si. (si_train_run si, si_seat si)) si_tab)" using k by (simp add: keys_ok_def)
        ultimately have "si' = si" using si by (auto simp: distinct_map dest: inj_onD)
        with \<open>free_for req si'\<close> show ?thesis by simp
      qed
      then have len: "length (si_occupied si) = length req"
        and none: "\<not> bit_and_sql (si_occupied si) req \<noteq> zero_varbit (length (si_occupied si))"
        by (auto simp: free_for_def bit_length_sql_def split: if_splits)
      have new_one: "{m \<in> set new. rs_seat m = si_seat si} = {n}"
        using keys(2) new n by (auto simp: distinct_map inj_on_def)
      have n_new: "n \<notin> seat_claims rows claims (si_train_run si) (si_seat si)"
        using keys(1) n(1) by (auto simp: seat_claims_def claims_of_def)
      have "seat_claims ?rows ?claims (si_train_run si) (si_seat si) =
          insert n (seat_claims rows claims (si_train_run si) (si_seat si))"
        using True new_one by (auto simp: seat_claims_def claims)
      moreover have "rs_mask n = req" using new n by simp
      ultimately show ?thesis
        using vb.exact_cover_reserve [OF old n_new] len none True unfolding keyed by (simp add: x)
    qed
  qed
  ultimately show ?thesis by (simp add: booking_ok_def)
qed

definition tables :: "LocalTables \<Rightarrow> core_tables" where
  "tables t = (seat_inventory t, reservations t, reservation_seats t)"

lemma core_tables_eq: "core db sc = tables (locals db sc)"
  by (simp add: core_def tables_def)

text \<open>Changing the status of reservations.\<close>

lemma set_status_rows:
  "reservations (set_status hit st t) = map (restatus hit st) (reservations t)"
  "seat_inventory (set_status hit st t) = seat_inventory t"
  "reservation_seats (set_status hit st t) = reservation_seats t"
  by (simp_all add: set_status_def)

lemma restatus_simps [simp]:
  "rr_id (restatus hit st r) = rr_id r" "rr_user (restatus hit st r) = rr_user r"
  "rr_train_run (restatus hit st r) = rr_train_run r"
  "rr_from (restatus hit st r) = rr_from r" "rr_to (restatus hit st r) = rr_to r"
  "rr_status (restatus hit st r) = (if hit r then st else rr_status r)"
  by (simp_all add: restatus_def)

lemma claims_of_set_status:
  assumes "\<And>r. r \<in> set rows \<Longrightarrow> hit r \<Longrightarrow> live (rr_status r)"
    and "distinct (map rr_id rows)"
  shows "claims_of (map (restatus hit st) rows) claims run =
    {c \<in> claims_of rows claims run. live st \<or> (\<forall>r \<in> set rows. hit r \<longrightarrow> rr_id r \<noteq> rs_reservation c)}"
    (is "?l = ?r")
proof (rule set_eqI)
  fix c
  have uniq: "r = r'" if "r \<in> set rows" "r' \<in> set rows" "rr_id r = rr_id r'" for r r'
    using assms(2) that by (auto simp: distinct_map dest: inj_onD)
  have "c \<in> ?l \<longleftrightarrow> c \<in> set claims \<and> (\<exists>r \<in> set rows. rr_id r = rs_reservation c \<and> rr_train_run r = run \<and>
      live (if hit r then st else rr_status r))"
    by (simp add: claims_of_def)
  also have "\<dots> \<longleftrightarrow> c \<in> ?r"
    using assms(1) uniq unfolding claims_of_def mem_Collect_eq by (smt (verit))
  finally show "c \<in> ?l \<longleftrightarrow> c \<in> ?r" .
qed

lemma keys_refs_set_status:
  assumes "keys_ok (tables t)" "refs_ok (tables t)"
  shows "keys_ok (tables (set_status hit st t))" "refs_ok (tables (set_status hit st t))"
proof -
  have "map (rr_id \<circ> restatus hit st) (reservations t) = map rr_id (reservations t)" by simp
  with assms(1) show "keys_ok (tables (set_status hit st t))"
    by (simp add: keys_ok_def tables_def set_status_rows o_def)
  show "refs_ok (tables (set_status hit st t))"
    using assms(2) by (simp add: refs_ok_def tables_def set_status_rows)
qed

lemma booking_ok_relabel:
  assumes ok: "booking_ok (tables t)" and st: "live st"
    and hit: "\<And>r. r \<in> set (reservations t) \<Longrightarrow> hit r \<Longrightarrow> live (rr_status r)"
  shows "booking_ok (tables (set_status hit st t))"
proof -
  have d: "distinct (map rr_id (reservations t))" using ok by (simp add: booking_ok_def keys_ok_def tables_def)
  have "claims_of (reservations (set_status hit st t)) (reservation_seats t) run =
      claims_of (reservations t) (reservation_seats t) run" for run
    using claims_of_set_status [OF hit d] st by (simp add: set_status_rows)
  then show ?thesis
    using ok keys_refs_set_status [of t hit st]
    by (simp add: booking_ok_def cover_ok_def passengers_ok_def tables_def seat_claims_def set_status_rows)
qed

lemma map_filter_Cons:
  "List.map_filter f (x # xs) = (case f x of None \<Rightarrow> List.map_filter f xs | Some y \<Rightarrow> y # List.map_filter f xs)"
  by (simp add: List.map_filter_def split: option.splits)

lemma map_filter_complete:
  assumes P: "\<And>x. f x \<noteq> None \<Longrightarrow> P x"
  shows "length (List.map_filter f xs) \<le> length (filter P xs)"
    and "length (List.map_filter f xs) = length (filter P xs) \<Longrightarrow> x \<in> set xs \<Longrightarrow> P x \<Longrightarrow> f x \<noteq> None"
proof (induction xs)
  case (Cons y ys)
  show "length (List.map_filter f (y # ys)) \<le> length (filter P (y # ys))"
    using Cons.IH(1) P [of y] by (cases "f y") (simp_all add: map_filter_Cons)
  assume len: "length (List.map_filter f (y # ys)) = length (filter P (y # ys))" and x: "x \<in> set (y # ys)" "P x"
  have "length (List.map_filter f ys) = length (filter P ys) \<and> (P y \<longrightarrow> f y \<noteq> None)"
    using len Cons.IH(1) P [of y] by (cases "f y"; cases "P y") (simp_all add: map_filter_Cons)
  with x Cons.IH(2) show "f x \<noteq> None" by auto
qed (simp_all add: List.map_filter_def)

text \<open>
  Ending a reservation: its status leaves the live ones, and the release takes its masks out of
  every seat it holds.
\<close>

lemma find_unique:
  "distinct (map k xs) \<Longrightarrow> x \<in> set xs \<Longrightarrow> find (\<lambda>y. k y = k x) xs = Some x"
  by (induction xs) (auto simp: image_iff)

lemma release_match_Some:
  assumes "release_match rid t c = Some p"
  shows "\<exists>r si. find (\<lambda>r. rr_id r = rs_reservation c) (reservations t) = Some r \<and>
    si \<in> set (seat_inventory t) \<and> si_train_run si = rr_train_run r \<and> si_seat si = rs_seat c \<and>
    p = (si, c) \<and> rs_reservation c = rid \<and> length (si_occupied si) = length (rs_mask c) \<and>
    occupied (rs_mask c) \<subseteq> occupied (si_occupied si)"
  using assms and_absorb_iff
  by (auto simp: release_match_def bit_length_sql_def find_Some_iff split: option.splits if_splits)

lemma release_row_key [simp]:
  "si_train_run (release_row locked si) = si_train_run si" "si_seat (release_row locked si) = si_seat si"
  by (simp_all add: release_row_def split: option.splits)

lemma keyed_uniq:
  assumes "distinct (map k xs)" "x \<in> set xs" "y \<in> set xs" "k x = k y"
  shows "x = y"
  using assms by (auto simp: distinct_map dest: inj_onD)

lemma find_SomeD: "find P xs = Some x \<Longrightarrow> x \<in> set xs \<and> P x"
  by (induction xs) (auto split: if_splits)

lemma release_locked_spec:
  assumes ok: "booking_ok (tables t)" and r0: "r0 \<in> set (reservations t)" "rr_id r0 = rid"
    and p: "(si, c) \<in> set (release_locked rid (set_status hit st t))"
  shows "si \<in> set (seat_inventory t) \<and> c \<in> set (reservation_seats t) \<and> rs_reservation c = rid \<and>
    si_train_run si = rr_train_run r0 \<and> si_seat si = rs_seat c \<and> length (si_occupied si) = length (rs_mask c) \<and>
    occupied (rs_mask c) \<subseteq> occupied (si_occupied si)"
proof -
  let ?t = "set_status hit st t"
  obtain c' where c': "c' \<in> set (reservation_seats t)" "release_match rid ?t c' = Some (si, c)"
    using p by (auto simp: release_locked_def List.map_filter_def set_status_rows)
  obtain r where r: "find (\<lambda>r. rr_id r = rs_reservation c') (reservations ?t) = Some r"
      "si \<in> set (seat_inventory ?t)" "si_train_run si = rr_train_run r" "si_seat si = rs_seat c'"
      "c = c'" "rs_reservation c' = rid" "length (si_occupied si) = length (rs_mask c')"
      "occupied (rs_mask c') \<subseteq> occupied (si_occupied si)"
    using release_match_Some [OF c'(2)] by auto
  obtain r' where "r' \<in> set (reservations t)" "r = restatus hit st r'" "rr_id r = rid"
    using find_SomeD [OF r(1)] r(6) by (auto simp: set_status_rows)
  moreover have "distinct (map rr_id (reservations t))" using ok by (simp add: booking_ok_def keys_ok_def tables_def)
  ultimately have "r' = r0" using r0 keyed_uniq [of rr_id "reservations t" r' r0] by simp
  then show ?thesis using r c' \<open>r = restatus hit st r'\<close> by (simp add: set_status_rows)
qed

lemma release_locked_all:
  fixes rid :: uuid
  defines "locked t \<equiv> release_locked rid t"
  assumes len: "length (locked t) = length (filter (\<lambda>c. rs_reservation c = rid) (reservation_seats t))"
    and d: "d \<in> set (reservation_seats t)" "rs_reservation d = rid"
  shows "\<exists>si. (si, d) \<in> set (locked t)"
proof -
  have sound: "release_match rid t x \<noteq> None \<Longrightarrow> rs_reservation x = rid" for x
    using release_match_Some [of rid t x] by auto
  have "release_match rid t d \<noteq> None"
    using map_filter_complete(2) [where f = "release_match rid t" and xs = "reservation_seats t"
      and P = "\<lambda>c. rs_reservation c = rid" and x = d, OF sound _ d] len
    by (simp add: locked_def release_locked_def)
  then obtain q where q: "release_match rid t d = Some q" by auto
  then obtain si where si: "release_match rid t d = Some (si, d)" using release_match_Some [OF q] by auto
  have "(si, d) \<in> (the \<circ> release_match rid t) ` {x \<in> set (reservation_seats t). release_match rid t x \<noteq> None}"
    using d(1) si by (intro image_eqI [of _ _ d]) simp_all
  then show ?thesis by (auto simp: locked_def release_locked_def List.map_filter_def)
qed

text \<open>What a release does to one inventory row: the seats of the reservation lose its segments, no other row changes.\<close>

lemma release_row_exact:
  fixes t :: LocalTables and hit :: "ReservationRow \<Rightarrow> bool" and st :: string
  assumes ok: "booking_ok (tables t)" and r0: "r0 \<in> set (reservations t)" "rr_id r0 = rid"
  defines "t1 \<equiv> set_status hit st t"
  defines "locked \<equiv> release_locked rid t1"
  assumes len: "length locked = length (filter (\<lambda>c. rs_reservation c = rid) (reservation_seats t))"
    and si: "si \<in> set (seat_inventory t)"
  shows "if si_train_run si = rr_train_run r0 \<and> (\<exists>c \<in> set (reservation_seats t). rs_reservation c = rid \<and> rs_seat c = si_seat si)
    then (\<exists>v. release_row locked si = si\<lparr>si_occupied := v, si_version := si_version si + 1\<rparr> \<and> length v = length (si_occupied si) \<and>
      {nat (rr_from r0)..<nat (rr_to r0)} \<subseteq> occupied (si_occupied si) \<and>
      occupied v = occupied (si_occupied si) - {nat (rr_from r0)..<nat (rr_to r0)})
    else release_row locked si = si"
proof -
  note locked_D = release_locked_spec [OF ok r0, where hit = hit and st = st, folded t1_def, folded locked_def]
  have ds: "distinct (map (\<lambda>si. (si_train_run si, si_seat si)) (seat_inventory t))" "distinct (map rr_id (reservations t))"
    using ok by (simp_all add: booking_ok_def keys_ok_def tables_def)
  show ?thesis
  proof (cases "find (same_seat si) locked")
    case None
    have "\<not> (si_train_run si = rr_train_run r0 \<and> rs_reservation c = rid \<and> rs_seat c = si_seat si)"
      if c: "c \<in> set (reservation_seats t)" for c
    proof
      assume k: "si_train_run si = rr_train_run r0 \<and> rs_reservation c = rid \<and> rs_seat c = si_seat si"
      then obtain si' where p: "(si', c) \<in> set locked"
        using release_locked_all [where rid = rid and t = t1 and d = c] len c by (auto simp: locked_def t1_def set_status_rows)
      with locked_D [OF p] k have "same_seat si (si', c)" by (simp add: same_seat_def)
      with None p show False by (auto simp: find_None_iff)
    qed
    then have "\<not> (si_train_run si = rr_train_run r0 \<and> (\<exists>c \<in> set (reservation_seats t). rs_reservation c = rid \<and> rs_seat c = si_seat si))"
      by blast
    then show ?thesis using None by (simp only: if_False release_row_def option.case)
  next
    case (Some q)
    obtain s c where q: "q = (s, c)" by (cases q)
    have p: "(s, c) \<in> set locked" and same: "si_train_run s = si_train_run si" "si_seat s = si_seat si"
      using find_SomeD [OF Some] by (simp_all add: q same_seat_def)
    note d = locked_D [OF p]
    have "s = si" using keyed_uniq [OF ds(1), of s si] d same si by simp
    then have d: "si_train_run si = rr_train_run r0" "c \<in> set (reservation_seats t)" "rs_reservation c = rid"
      "rs_seat c = si_seat si" "length (si_occupied si) = length (rs_mask c)" "occupied (rs_mask c) \<subseteq> occupied (si_occupied si)"
      using d by simp_all
    have "refs_ok (tables t)" using ok by (simp add: booking_ok_def)
    then obtain r where "r \<in> set (reservations t)" "rr_id r = rid" "occupied (rs_mask c) = {nat (rr_from r)..<nat (rr_to r)}"
      using d(2,3) by (auto simp: refs_ok_def tables_def)
    then have m: "occupied (rs_mask c) = {nat (rr_from r0)..<nat (rr_to r0)}"
      using keyed_uniq [OF ds(2) _ r0(1)] r0(2) by metis
    have "release_row locked si = si\<lparr>si_occupied := bit_and_sql (si_occupied si) (bit_not_sql (rs_mask c)), si_version := si_version si + 1\<rparr>"
      using Some by (simp add: release_row_def q)
    then show ?thesis using d m occupied_and_not [OF d(5)] by auto
  qed
qed

lemma booking_ok_release:
  fixes t :: LocalTables
  assumes ok: "booking_ok (tables t)"
    and r0: "r0 \<in> set (reservations t)" "hit r0" "rr_id r0 = rid" "live (rr_status r0)"
    and hit: "\<And>r. hit r \<Longrightarrow> rr_id r = rid" and st: "\<not> live st"
  defines "t1 \<equiv> set_status hit st t"
  defines "locked \<equiv> release_locked rid t1"
  assumes len: "length locked = length (filter (\<lambda>c. rs_reservation c = rid) (reservation_seats t))"
  shows "booking_ok (tables (t1\<lparr>seat_inventory := map (release_row locked) (seat_inventory t1)\<rparr>))"
proof -
  let ?rows = "reservations t" and ?claims = "reservation_seats t" and ?inven = "seat_inventory t"
  have k: "keys_ok (tables t)" and f: "refs_ok (tables t)"
    and c: "cover_ok (tables t)" and p: "passengers_ok (tables t)"
    using ok by (simp_all add: booking_ok_def)
  have dr: "distinct (map rr_id ?rows)" and ds: "distinct (map (\<lambda>si. (si_train_run si, si_seat si)) ?inven)"
    and dc: "distinct (map (\<lambda>c. (rs_reservation c, rs_seat c)) ?claims)"
    using k by (simp_all add: keys_ok_def tables_def)
  have hit_live: "live (rr_status r)" if "r \<in> set ?rows" "hit r" for r
    using keyed_uniq [OF dr that(1) r0(1)] hit [OF that(2)] r0 by simp
  have claims: "claims_of (reservations t1) ?claims run = {d \<in> claims_of ?rows ?claims run. rs_reservation d \<noteq> rid}" for run
  proof -
    have "(\<forall>r \<in> set ?rows. hit r \<longrightarrow> rr_id r \<noteq> rs_reservation d) \<longleftrightarrow> rs_reservation d \<noteq> rid" for d :: ReservationSeatRow
      using r0 hit by metis
    with claims_of_set_status [where hit = hit and st = st, OF hit_live dr] st show ?thesis by (simp add: t1_def set_status_rows)
  qed
  have all_locked: "\<exists>si. (si, d) \<in> set locked" if "d \<in> set ?claims" "rs_reservation d = rid" for d
    using release_locked_all [where rid = rid and t = t1 and d = d] len that by (simp add: locked_def t1_def set_status_rows)
  note locked_D = release_locked_spec [OF ok r0(1,3), where hit = hit and st = st, folded t1_def, folded locked_def]
  have same_keys: "map (\<lambda>si. (si_train_run si, si_seat si)) (map (release_row locked) ?inven) =
      map (\<lambda>si. (si_train_run si, si_seat si)) ?inven" by simp
  have "keys_ok (tables (t1\<lparr>seat_inventory := map (release_row locked) (seat_inventory t1)\<rparr>))"
    using keys_refs_set_status(1) [OF k f, of hit st] same_keys
    by (simp add: keys_ok_def tables_def t1_def set_status_rows o_def)
  moreover have "refs_ok (tables (t1\<lparr>seat_inventory := map (release_row locked) (seat_inventory t1)\<rparr>))"
    using keys_refs_set_status(2) [OF k f, of hit st]
    by (simp add: refs_ok_def tables_def t1_def set_status_rows)
  moreover have "passengers_ok (tables (t1\<lparr>seat_inventory := map (release_row locked) (seat_inventory t1)\<rparr>))"
  proof -
    have "inj_on rs_passenger (claims_of ?rows ?claims run)" for run using p by (simp add: passengers_ok_def tables_def)
    then have "inj_on rs_passenger (claims_of (reservations t1) ?claims run)" for run
      unfolding claims by (rule inj_on_subset) blast
    moreover have "reservation_seats t1 = ?claims" by (simp add: t1_def set_status_rows)
    ultimately show ?thesis by (simp add: passengers_ok_def tables_def)
  qed
  moreover have "cover_ok (tables (t1\<lparr>seat_inventory := map (release_row locked) (seat_inventory t1)\<rparr>))"
    unfolding cover_ok_def tables_def prod.case
  proof
    fix x assume "x \<in> set (seat_inventory (t1\<lparr>seat_inventory := map (release_row locked) (seat_inventory t1)\<rparr>))"
    then obtain si where si: "si \<in> set ?inven" and x: "x = release_row locked si"
      by (auto simp: t1_def set_status_rows)
    let ?old = "seat_claims ?rows ?claims (si_train_run si) (si_seat si)"
    have old: "exact_cover occupied (si_occupied si) rs_mask ?old" using c si by (simp add: cover_ok_def tables_def)
    have new: "seat_claims (reservations t1) ?claims (si_train_run si) (si_seat si) = {d \<in> ?old. rs_reservation d \<noteq> rid}"
      by (auto simp: seat_claims_def claims)
    have run0: "si_train_run si = rr_train_run r0" if d: "d \<in> ?old" "rs_reservation d = rid" for d
    proof -
      obtain r where "r \<in> set ?rows" "rr_id r = rid" "rr_train_run r = si_train_run si"
        using d by (auto simp: seat_claims_def claims_of_def)
      then show ?thesis using keyed_uniq [OF dr _ r0(1)] r0(3) by metis
    qed
    have "exact_cover occupied (si_occupied x) rs_mask {d \<in> ?old. rs_reservation d \<noteq> rid}"
    proof (cases "find (same_seat si) locked")
      case None
      have "rs_reservation d \<noteq> rid" if d: "d \<in> ?old" for d
      proof
        assume rid: "rs_reservation d = rid"
        obtain si' where "(si', d) \<in> set locked"
          using all_locked [OF _ rid] d by (auto simp: seat_claims_def claims_of_def)
        with locked_D [OF this] run0 [OF d rid] d None show False
          by (auto simp: find_None_iff same_seat_def seat_claims_def)
      qed
      then have "{d \<in> ?old. rs_reservation d \<noteq> rid} = ?old" by blast
      with None old show ?thesis by (simp add: x release_row_def)
    next
      case (Some q)
      obtain si' d where q: "q = (si', d)" by (cases q)
      then have lk: "(si', d) \<in> set locked" and ss: "same_seat si (si', d)"
        using find_SomeD [OF Some] by auto
      then have "si' = si" using locked_D [OF lk] keyed_uniq [OF ds _ si] by (auto simp: same_seat_def)
      with locked_D [OF lk] have d: "d \<in> set ?claims" "rs_reservation d = rid" "si_train_run si = rr_train_run r0"
          "si_seat si = rs_seat d" "length (si_occupied si) = length (rs_mask d)" by auto
      have mem: "d \<in> ?old" using d r0 by (auto simp: seat_claims_def claims_of_def)
      have "e = d" if "e \<in> ?old" "rs_reservation e = rid" for e
        using that d keyed_uniq [OF dc _ d(1), of e] by (auto simp: seat_claims_def claims_of_def)
      with d mem have "{e \<in> ?old. rs_reservation e \<noteq> rid} = ?old - {d}" by auto
      with vb.exact_cover_release [OF old mem] d(5) Some q show ?thesis by (simp add: x release_row_def)
    qed
    then show "exact_cover occupied (si_occupied x) rs_mask
        (seat_claims (reservations (t1\<lparr>seat_inventory := map (release_row locked) (seat_inventory t1)\<rparr>))
          (reservation_seats (t1\<lparr>seat_inventory := map (release_row locked) (seat_inventory t1)\<rparr>))
          (si_train_run x) (si_seat x))"
      using new by (simp add: x t1_def set_status_rows)
  qed
  ultimately show ?thesis by (simp add: booking_ok_def)
qed

subsection \<open>Commissioning\<close>

lemma booking_ok_insert_inventory:
  assumes ok: "booking_ok (inven, rows, claims)" and zero: "occupied (si_occupied row) = {}"
  shows "booking_ok (insert_inventory row inven, rows, claims)"
proof (cases "list_ex (\<lambda>x. si_train_run x = si_train_run row \<and> si_seat x = si_seat row) inven")
  case True
  with ok show ?thesis by (simp add: insert_inventory_def)
next
  case False
  then have new: "\<forall>x \<in> set inven. \<not> (si_train_run x = si_train_run row \<and> si_seat x = si_seat row)"
    by (auto simp: list_ex_iff)
  have ins: "insert_inventory row inven = inven @ [row]" using False by (simp add: insert_inventory_def)
  have k: "keys_ok (inven, rows, claims)" and f: "refs_ok (inven, rows, claims)" using ok by (simp_all add: booking_ok_def)
  have "seat_claims rows claims (si_train_run row) (si_seat row) = {}"
  proof -
    have "c \<notin> seat_claims rows claims (si_train_run row) (si_seat row)" for c
    proof
      assume "c \<in> seat_claims rows claims (si_train_run row) (si_seat row)"
      then obtain r where c: "c \<in> set claims" "rs_seat c = si_seat row"
          and r: "r \<in> set rows" "rr_id r = rs_reservation c" "rr_train_run r = si_train_run row"
        by (auto simp: seat_claims_def claims_of_def)
      obtain r' si where "r' \<in> set rows" "rr_id r' = rs_reservation c" "si \<in> set inven"
          "si_train_run si = rr_train_run r'" "si_seat si = rs_seat c"
        using f c(1) by (auto simp: refs_ok_def)
      moreover from this have "r' = r" using k r keyed_uniq [of rr_id rows r' r] by (simp add: keys_ok_def)
      ultimately show False using new c r by auto
    qed
    then show ?thesis by blast
  qed
  moreover have "refs_ok (inven @ [row], rows, claims)"
    unfolding refs_ok_def prod.case
  proof
    fix c assume "c \<in> set claims"
    then obtain r where "r \<in> set rows" "rr_id r = rs_reservation c"
        "occupied (rs_mask c) = {nat (rr_from r)..<nat (rr_to r)}" "0 \<le> rr_from r" "rr_from r < rr_to r"
        "\<exists>si \<in> set inven. si_train_run si = rr_train_run r \<and> si_seat si = rs_seat c"
      using f unfolding refs_ok_def prod.case by blast
    then show "\<exists>r \<in> set rows. rr_id r = rs_reservation c \<and>
        occupied (rs_mask c) = {nat (rr_from r)..<nat (rr_to r)} \<and> 0 \<le> rr_from r \<and> rr_from r < rr_to r \<and>
        (\<exists>si \<in> set (inven @ [row]). si_train_run si = rr_train_run r \<and> si_seat si = rs_seat c)"
      by (intro bexI [of _ r]) auto
  qed
  ultimately show ?thesis using ok zero new unfolding ins
    by (auto simp: booking_ok_def keys_ok_def cover_ok_def passengers_ok_def exact_cover_def)
qed

lemma booking_ok_commission:
  "booking_ok (inven, rows, claims) \<Longrightarrow>
     booking_ok (fold (\<lambda>cs. insert_inventory (zero_inventory run n cs)) css inven, rows, claims)"
proof (induction css arbitrary: inven)
  case (Cons cs css)
  have "booking_ok (insert_inventory (zero_inventory run n cs) inven, rows, claims)"
    using Cons.prems by (intro booking_ok_insert_inventory) (simp_all add: zero_inventory_def)
  with Cons.IH show ?case by simp
qed simp

end
