(* ===== verification/Booking_Safety.thy ===== *)
theory Booking_Safety
  imports Booking_Invariant
begin

text \<open>
  The booking commands keep the inventory invariant, and with it the promises of the store: no seat
  is sold twice for overlapping journeys and no passenger holds two seats of one run.
\<close>

subsection \<open>Allocation\<close>

lemma inventory_join_fst: "inventory_join db si = Some p \<Longrightarrow> fst p = si"
  by (auto simp: inventory_join_def split: option.splits)

lemma map_filter_fst:
  assumes "\<And>x p. f x = Some p \<Longrightarrow> fst p = x"
  shows "map fst (List.map_filter f xs) = filter (\<lambda>x. f x \<noteq> None) xs"
  using assms by (induction xs) (auto simp: map_filter_Cons List.map_filter_def split: option.splits)

lemma candidates_spec:
  assumes "p \<in> set (candidates env sc run cls req n db)"
  shows "fst p \<in> set (seat_inventory (locals db sc)) \<and> si_train_run (fst p) = run \<and> si_class (fst p) = cls \<and>
    free_for req (fst p) \<and> seat_active (fst (snd p)) \<and> \<not> env_locked_seat env (si_seat (fst p))"
proof -
  have "p \<in> set (List.map_filter (inventory_join db) (seat_inventory (locals db sc)))"
    using assms by (auto simp: candidates_def dest: in_set_takeD)
  then have "fst p \<in> set (map fst (List.map_filter (inventory_join db) (seat_inventory (locals db sc))))" by simp
  then have "fst p \<in> set (seat_inventory (locals db sc))"
    by (simp only: map_filter_fst [OF inventory_join_fst]) simp
  then show ?thesis using assms by (auto simp: candidates_def dest!: in_set_takeD)
qed

lemma candidates_distinct:
  assumes "distinct (map (\<lambda>si. (si_train_run si, si_seat si)) (seat_inventory (locals db sc)))"
  shows "distinct (map (\<lambda>p. si_seat (fst p)) (candidates env sc run cls req n db))"
proof -
  let ?L = "List.map_filter (inventory_join db) (seat_inventory (locals db sc))"
  have "distinct (seat_inventory (locals db sc))" using assms by (simp add: distinct_map)
  then have dL: "distinct (map fst ?L)" by (simp add: map_filter_fst [OF inventory_join_fst])
  then have "distinct (candidates env sc run cls req n db)"
    by (simp add: candidates_def distinct_map distinct_sort)
  moreover have "inj_on (\<lambda>p. si_seat (fst p)) (set (candidates env sc run cls req n db))"
  proof (rule inj_onI)
    fix p q
    assume p: "p \<in> set (candidates env sc run cls req n db)" and q: "q \<in> set (candidates env sc run cls req n db)"
      and eq: "si_seat (fst p) = si_seat (fst q)"
    have "fst p = fst q"
      using candidates_spec [OF p] candidates_spec [OF q] eq keyed_uniq [OF assms, of "fst p" "fst q"] by auto
    moreover have "p \<in> set ?L" "q \<in> set ?L" using p q by (auto simp: candidates_def dest: in_set_takeD)
    ultimately show "p = q" using dL by (auto simp: distinct_map dest: inj_onD)
  qed
  ultimately show ?thesis by (simp add: distinct_map)
qed

lemma AllocateSeats_spec:
  assumes run: "AllocateSeats env route run cls requested count s = Inr (al, s')"
    and keys: "distinct (map (\<lambda>si. (si_train_run si, si_seat si)) (seat_inventory (locals s (search_schema route))))"
  defines "sc \<equiv> search_schema route" and "req \<equiv> varbit_of (EncodeSegmentMask requested)"
  shows "s' = s\<lparr>locals := (locals s)(sc := (locals s sc)\<lparr>seat_inventory :=
      reserve_rows run (map al_SeatID al) req (seat_inventory (locals s sc))\<rparr>)\<rparr>"
    and "int (length al) = count" and "distinct (map al_SeatID al)"
    and "\<forall>seat \<in> set (map al_SeatID al). \<exists>si \<in> set (seat_inventory (locals s sc)).
      si_train_run si = run \<and> si_seat si = seat \<and> free_for req si \<and>
      si_class si = ToLower (env_unicode env) cls \<and> \<not> env_locked_seat env seat"
    and "varbit_recv_ok (EncodeSegmentMask requested)"
proof -
  let ?found = "candidates env sc run (ToLower (env_unicode env) cls) req (nat count) s"
  have al: "al = map (\<lambda>(si, s, c). \<lparr>al_SeatID = si_seat si, al_CoachNumber = coach_number c, al_SeatNumber = seat_number s\<rparr>) ?found"
    and len: "int (length ?found) = count" and sent: "varbit_recv_ok (EncodeSegmentMask requested)"
    and s': "s' = s\<lparr>locals := (locals s)(sc := (locals s sc)\<lparr>seat_inventory :=
      reserve_rows run (map (\<lambda>(si, s, c). si_seat si) ?found) req (seat_inventory (locals s sc))\<rparr>)\<rparr>"
    using run by (auto simp: AllocateSeats_def Let_def sc_def req_def split: if_splits)
  have ids: "map al_SeatID al = map (\<lambda>p. si_seat (fst p)) ?found"
    "map (\<lambda>(si, s, c). si_seat si) ?found = map (\<lambda>p. si_seat (fst p)) ?found"
    by (simp_all add: al case_prod_beta)
  show "s' = s\<lparr>locals := (locals s)(sc := (locals s sc)\<lparr>seat_inventory :=
      reserve_rows run (map al_SeatID al) req (seat_inventory (locals s sc))\<rparr>)\<rparr>"
    using s' unfolding ids by simp
  show "varbit_recv_ok (EncodeSegmentMask requested)" by (fact sent)
  show "int (length al) = count" using len al by simp
  show "distinct (map al_SeatID al)" unfolding ids using candidates_distinct keys by (simp add: sc_def)
  show "\<forall>seat \<in> set (map al_SeatID al). \<exists>si \<in> set (seat_inventory (locals s sc)).
      si_train_run si = run \<and> si_seat si = seat \<and> free_for req si \<and>
      si_class si = ToLower (env_unicode env) cls \<and> \<not> env_locked_seat env seat"
    unfolding ids using candidates_spec by fastforce
qed

subsection \<open>The rows of a hold\<close>

definition db_ok :: "BookingDb \<Rightarrow> bool" where
  "db_ok db \<longleftrightarrow> (\<forall>sc. booking_ok (core db sc))"

lemma db_ok_frame: "tx_frame core m \<Longrightarrow> tx_keeps db_ok m"
  unfolding db_ok_def by (rule tx_keeps_frame [where P = "\<lambda>c. \<forall>sc. booking_ok (c sc)"])

lemma insert_seats_spec:
  assumes "tx_each (insert_reservation_seat env route) xs s = Inr ((), s')"
  defines "sc \<equiv> search_schema route"
  defines "cl \<equiv> reservation_seats (locals s sc)"
  shows "s' = s\<lparr>locals := (locals s)(sc := (locals s sc)\<lparr>reservation_seats := cl @ xs\<rparr>)\<rparr>"
    and "distinct (map rs_id cl) \<Longrightarrow> distinct (map rs_id (cl @ xs))"
    and "distinct (map (\<lambda>c. (rs_reservation c, rs_seat c)) cl) \<Longrightarrow>
      distinct (map (\<lambda>c. (rs_reservation c, rs_seat c)) (cl @ xs))"
    and "distinct (map (\<lambda>c. (rs_reservation c, rs_passenger c)) cl) \<Longrightarrow>
      distinct (map (\<lambda>c. (rs_reservation c, rs_passenger c)) (cl @ xs))"
proof -
  have "s' = s\<lparr>locals := (locals s)(sc := (locals s sc)\<lparr>reservation_seats := cl @ xs\<rparr>)\<rparr> \<and>
      (distinct (map rs_id cl) \<longrightarrow> distinct (map rs_id (cl @ xs))) \<and>
      (distinct (map (\<lambda>c. (rs_reservation c, rs_seat c)) cl) \<longrightarrow>
        distinct (map (\<lambda>c. (rs_reservation c, rs_seat c)) (cl @ xs))) \<and>
      (distinct (map (\<lambda>c. (rs_reservation c, rs_passenger c)) cl) \<longrightarrow>
        distinct (map (\<lambda>c. (rs_reservation c, rs_passenger c)) (cl @ xs)))"
    using assms(1) unfolding cl_def
  proof (induction xs arbitrary: s)
    case (Cons x xs)
    let ?s = "s\<lparr>locals := (locals s)(sc := (locals s sc)\<lparr>reservation_seats := reservation_seats (locals s sc) @ [x]\<rparr>)\<rparr>"
    obtain s1 where ins: "insert_reservation_seat env route x s = Inr ((), s1)"
        and rest: "tx_each (insert_reservation_seat env route) xs s1 = Inr ((), s')"
      using Cons.prems by auto
    have fresh: "\<forall>y \<in> set (reservation_seats (locals s sc)). rs_id y \<noteq> rs_id x \<and>
        (rs_reservation y = rs_reservation x \<longrightarrow> rs_seat y \<noteq> rs_seat x \<and> rs_passenger y \<noteq> rs_passenger x)"
      and s1: "s1 = ?s"
      using ins by (auto simp: insert_reservation_seat_def sc_def list_ex_iff)
    let ?old = "reservation_seats (locals s sc)"
    have l: "reservation_seats (locals s1 sc) = ?old @ [x]" by (simp add: s1)
    have ext: "distinct (map f (?old @ [x]))" if "distinct (map f ?old)" "\<forall>y \<in> set ?old. f y \<noteq> f x"
      for f :: "ReservationSeatRow \<Rightarrow> 'k"
      using that by auto
    have "\<forall>y \<in> set ?old. rs_id y \<noteq> rs_id x"
      "\<forall>y \<in> set ?old. (rs_reservation y, rs_seat y) \<noteq> (rs_reservation x, rs_seat x)"
      "\<forall>y \<in> set ?old. (rs_reservation y, rs_passenger y) \<noteq> (rs_reservation x, rs_passenger x)"
      using fresh by blast+
    note step = this
    have out: "locals s1 = (locals s)(sc := (locals s sc)\<lparr>reservation_seats := ?old @ [x]\<rparr>)" by (simp add: s1)
    note IH = Cons.IH [OF rest, unfolded l]
    show ?case
    proof (intro conjI impI)
      show "s' = s\<lparr>locals := (locals s)(sc := (locals s sc)\<lparr>reservation_seats := ?old @ (x # xs)\<rparr>)\<rparr>"
      proof -
        have "s' = s1\<lparr>locals := (locals s)(sc := (locals s sc)\<lparr>reservation_seats := ?old @ (x # xs)\<rparr>)\<rparr>"
          using conjunct1 [OF IH] unfolding out fun_upd_upd fun_upd_same by (simp add: fun_upd_def)
        then show ?thesis by (simp add: s1)
      qed
    qed (use IH in \<open>simp_all only: append_assoc append_Cons append_Nil ext [OF _ step(1)] ext [OF _ step(2)] ext [OF _ step(3)]\<close>)
  qed simp
  then show "s' = s\<lparr>locals := (locals s)(sc := (locals s sc)\<lparr>reservation_seats := cl @ xs\<rparr>)\<rparr>"
    and "distinct (map rs_id cl) \<Longrightarrow> distinct (map rs_id (cl @ xs))"
    and "distinct (map (\<lambda>c. (rs_reservation c, rs_seat c)) cl) \<Longrightarrow>
      distinct (map (\<lambda>c. (rs_reservation c, rs_seat c)) (cl @ xs))"
    and "distinct (map (\<lambda>c. (rs_reservation c, rs_passenger c)) cl) \<Longrightarrow>
      distinct (map (\<lambda>c. (rs_reservation c, rs_passenger c)) (cl @ xs))" by blast+
qed

text \<open>The rows a successful hold writes.\<close>

definition hold_row :: "TxEnv \<Rightarrow> CreateHoldParams \<Rightarrow> string \<Rightarrow> TrainRunRow \<Rightarrow> Money \<Rightarrow> ReservationRow" where
  "hold_row env params seatClass run tot =
     \<lparr>rr_id = env_reservationID env, rr_user = cp_UserID params, rr_train_run = cp_TrainRunID params,
      rr_segment_count = tr_segment_count run, rr_from = cp_FromStopIndex params, rr_to = cp_ToStopIndex params,
      rr_class = seatClass, rr_status = ''held'', rr_expires = pg_timestamptz (cp_HoldExpiresAt params),
      rr_total = amountMinor tot, rr_currency = currency tot\<rparr>"

definition hold_seats ::
  "TxEnv \<Rightarrow> CreateHoldParams \<Rightarrow> TrainRunRow \<Rightarrow> SegmentMask \<Rightarrow> Money \<Rightarrow> AllocatedSeat list \<Rightarrow> uuid list \<Rightarrow>
     ReservationSeatRow list" where
  "hold_seats env params run requested fare allocated owned =
     map (reservation_seat_row env (env_reservationID env) (cp_TrainRunID params) (tr_segment_count run)
            (varbit_of (EncodeSegmentMask requested)) fare)
       (enumerate 0 (zip allocated owned))"

lemma hold_seats_props:
  assumes "length allocated = length owned"
  shows "map rs_seat (hold_seats env params run requested fare allocated owned) = map al_SeatID allocated"
    and "map rs_passenger (hold_seats env params run requested fare allocated owned) = owned"
    and "\<forall>c \<in> set (hold_seats env params run requested fare allocated owned).
      rs_reservation c = env_reservationID env \<and> rs_mask c = varbit_of (EncodeSegmentMask requested) \<and>
      rs_fare c = amountMinor fare \<and> rs_currency c = currency fare \<and> rs_train_run c = cp_TrainRunID params"
    and "length (hold_seats env params run requested fare allocated owned) = length owned"
proof -
  have s: "map rs_seat (hold_seats env params run requested fare allocated owned) =
      map (al_SeatID \<circ> fst) (map snd (enumerate 0 (zip allocated owned)))"
    and p: "map rs_passenger (hold_seats env params run requested fare allocated owned) =
      map snd (map snd (enumerate 0 (zip allocated owned)))"
    unfolding hold_seats_def map_map by (auto simp: reservation_seat_row_def intro!: map_cong)
  show "map rs_seat (hold_seats env params run requested fare allocated owned) = map al_SeatID allocated"
    unfolding s map_snd_enumerate by (simp only: map_map [symmetric] map_fst_zip [OF assms])
  show "map rs_passenger (hold_seats env params run requested fare allocated owned) = owned"
    unfolding p map_snd_enumerate by (simp add: assms)
  show "\<forall>c \<in> set (hold_seats env params run requested fare allocated owned).
      rs_reservation c = env_reservationID env \<and> rs_mask c = varbit_of (EncodeSegmentMask requested) \<and>
      rs_fare c = amountMinor fare \<and> rs_currency c = currency fare \<and> rs_train_run c = cp_TrainRunID params"
    by (auto simp: hold_seats_def reservation_seat_row_def)
  show "length (hold_seats env params run requested fare allocated owned) = length owned"
    by (simp add: hold_seats_def assms)
qed

text \<open>The statements of a successful write, one state after each.\<close>

lemma write_hold_steps:
  assumes "write_hold env route params cls count owned run requested fare tot recordID s = Inr (res, s')"
  obtains al s1 s2 s3 s4 s5 s6 s7 s8 payload where
    "AllocateSeats env route (cp_TrainRunID params) cls requested count s = Inr (al, s1)"
    "insert_reservation env route (hold_row env params cls run tot) s1 = Inr ((), s2)"
    "tx_each (insert_reservation_seat env route) (hold_seats env params run requested fare al owned) s2 = Inr ((), s3)"
    "insertReservationQuotaClaim env route (env_reservationID env) (cp_UserID params) (cp_TrainRunID params)
        (int (length owned)) s3 = Inr ((), s4)"
    "insertReservationLocator env route (env_reservationID env) (cp_UserID params) s4 = Inr ((), s5)"
    "CompleteIdempotency env route recordID (env_reservationID env) s5 = Inr ((), s6)"
    "appendReservationEvent env route (env_reservationID env) ''reservation.held'' payload s6 = Inr ((), s7)"
    "recordSuccessfulGenerationWrite env route s7 = Inr ((), s8)" "Commit env route s8 = Inr ((), s')"
    "res = \<lparr>ch_ReservationID = env_reservationID env, ch_SeatCount = int (length al),
        ch_TotalAmountMinor = amountMinor tot, ch_Currency = currency tot, ch_Replayed = False\<rparr>"
  using assms by (auto simp: write_hold_def Let_def hold_row_def [symmetric] hold_seats_def [symmetric])

lemma write_hold_core:
  assumes run: "write_hold env route params cls count owned run requested fare tot recordID s = Inr (res, s')"
    and keys: "distinct (map (\<lambda>si. (si_train_run si, si_seat si)) (seat_inventory (locals s (search_schema route))))"
  defines "sc \<equiv> search_schema route" and "req \<equiv> varbit_of (EncodeSegmentMask requested)"
  assumes claim_keys: "distinct (map rs_id (reservation_seats (locals s sc)))"
    "distinct (map (\<lambda>c. (rs_reservation c, rs_seat c)) (reservation_seats (locals s sc)))"
    "distinct (map (\<lambda>c. (rs_reservation c, rs_passenger c)) (reservation_seats (locals s sc)))"
  obtains al new where
    "core s' = (core s)(sc := (reserve_rows (cp_TrainRunID params) (map al_SeatID al) req (seat_inventory (locals s sc)),
        reservations (locals s sc) @ [hold_row env params cls run tot], reservation_seats (locals s sc) @ new))"
    "new = hold_seats env params run requested fare al owned"
    "int (length al) = count" "distinct (map al_SeatID al)"
    "\<forall>seat \<in> set (map al_SeatID al). \<exists>si \<in> set (seat_inventory (locals s sc)).
      si_train_run si = cp_TrainRunID params \<and> si_seat si = seat \<and> free_for req si"
    "env_reservationID env \<notin> rr_id ` set (reservations (locals s sc))"
    "distinct (map rs_id (reservation_seats (locals s sc) @ new))"
    "distinct (map (\<lambda>c. (rs_reservation c, rs_seat c)) (reservation_seats (locals s sc) @ new))"
    "distinct (map (\<lambda>c. (rs_reservation c, rs_passenger c)) (reservation_seats (locals s sc) @ new))"
    "ch_ReservationID res = env_reservationID env" "ch_SeatCount res = int (length al)" "\<not> ch_Replayed res"
    "ch_TotalAmountMinor res = amountMinor tot" "ch_Currency res = currency tot"
    "varbit_recv_ok (EncodeSegmentMask requested)"
proof -
  obtain al s1 s2 s3 s4 s5 s6 s7 s8 payload where
      a: "AllocateSeats env route (cp_TrainRunID params) cls requested count s = Inr (al, s1)"
    and b: "insert_reservation env route (hold_row env params cls run tot) s1 = Inr ((), s2)"
    and c: "tx_each (insert_reservation_seat env route) (hold_seats env params run requested fare al owned) s2 = Inr ((), s3)"
    and d: "insertReservationQuotaClaim env route (env_reservationID env) (cp_UserID params) (cp_TrainRunID params)
        (int (length owned)) s3 = Inr ((), s4)"
      "insertReservationLocator env route (env_reservationID env) (cp_UserID params) s4 = Inr ((), s5)"
      "CompleteIdempotency env route recordID (env_reservationID env) s5 = Inr ((), s6)"
    and e: "appendReservationEvent env route (env_reservationID env) ''reservation.held'' payload s6 = Inr ((), s7)"
      "recordSuccessfulGenerationWrite env route s7 = Inr ((), s8)" "Commit env route s8 = Inr ((), s')"
    and res: "res = \<lparr>ch_ReservationID = env_reservationID env, ch_SeatCount = int (length al),
        ch_TotalAmountMinor = amountMinor tot, ch_Currency = currency tot, ch_Replayed = False\<rparr>"
    using run by (rule write_hold_steps)
  have tail: "core s' = core s3"
    using d e tx_frameD [OF frame_ledger(1)] tx_frameD [OF frame_ledger(3)] tx_frameD [OF frame_complete]
      tx_frameD [OF frame_ledger(7)] tx_frameD [OF frame_ledger(9)] tx_frameD [OF frame_ledger(10)]
    by metis
  note A = AllocateSeats_spec [OF a keys, folded sc_def req_def]
  have s2: "s2 = s1\<lparr>locals := (locals s1)(sc := (locals s1 sc)\<lparr>reservations := reservations (locals s1 sc) @
      [hold_row env params cls run tot]\<rparr>)\<rparr>"
    and fresh: "env_reservationID env \<notin> rr_id ` set (reservations (locals s1 sc))"
    using b by (auto simp: insert_reservation_def sc_def hold_row_def)
  have l1: "locals s1 sc = (locals s sc)\<lparr>seat_inventory :=
      reserve_rows (cp_TrainRunID params) (map al_SeatID al) req (seat_inventory (locals s sc))\<rparr>"
    using A(1) by simp
  have l2: "locals s2 sc = (locals s1 sc)\<lparr>reservations := reservations (locals s1 sc) @ [hold_row env params cls run tot]\<rparr>"
    using s2 by simp
  note C = insert_seats_spec [OF c, folded sc_def]
  have core: "core s' = (core s)(sc := (reserve_rows (cp_TrainRunID params) (map al_SeatID al) req (seat_inventory (locals s sc)),
      reservations (locals s sc) @ [hold_row env params cls run tot],
      reservation_seats (locals s sc) @ hold_seats env params run requested fare al owned))"
    unfolding tail using A(1) s2 C(1) by (auto simp: fun_eq_iff core_def)
  have seats2: "reservation_seats (locals s2 sc) = reservation_seats (locals s sc)" by (simp add: l1 l2)
  show ?thesis
  proof (rule that [OF core refl A(2,3)])
    show "env_reservationID env \<notin> rr_id ` set (reservations (locals s sc))" using fresh by (simp add: l1)
    show "\<forall>seat \<in> set (map al_SeatID al). \<exists>si \<in> set (seat_inventory (locals s sc)).
      si_train_run si = cp_TrainRunID params \<and> si_seat si = seat \<and> free_for req si" using A(4) by blast
    show "varbit_recv_ok (EncodeSegmentMask requested)" by (fact A(5))
  qed (simp_all only: res C(2) [unfolded seats2, OF claim_keys(1)] C(3) [unfolded seats2, OF claim_keys(2)]
      C(4) [unfolded seats2, OF claim_keys(3)] CreateHoldResult.select_convs simp_thms not_False_eq_True)
qed

lemma new_hold_cases:
  assumes "new_hold env limits route params cls ids recordID s = Inr (res, s')"
  obtains run requested owned f fare tot where
    "find (\<lambda>r. tr_id r = cp_TrainRunID params) (train_runs s) = Some run"
    "tr_status run = ''scheduled''" "env_clock env < cp_HoldExpiresAt params"
    "NewSegmentMask (tr_segment_count run) (cp_FromStopIndex params) (cp_ToStopIndex params) = Inr requested"
    "owned = sort (map passenger_id (filter (\<lambda>p. passenger_user p = cp_UserID params \<and> passenger_id p \<in> set ids) (passengers s)))"
    "length owned = length ids"
    "passenger_conflicts (cp_TrainRunID params) owned (locals s (search_schema route)) = []"
    "select_fare (cp_TrainRunID params) (tr_route run) (cp_FromStopIndex params) (cp_ToStopIndex params) cls (fares s) = Some f"
    "NewMoney (fare_amount f) (fare_currency f) = Inr fare"
    "Money_Multiply fare (int (length ids)) = Inr tot"
    "recheckAdmissionPolicy env (cp_TrainRunID params) cls (cp_AdmissionPolicy params) s = Inr ((), s)"
    "enforceReservationQuota env route (cp_UserID params) (cp_TrainRunID params) (int (length ids)) limits s = Inr ((), s)"
    "write_hold env route params cls (int (length ids)) owned run requested fare tot recordID s = Inr (res, s')"
proof -
  from assms obtain s1 s2 where
    adm: "recheckAdmissionPolicy env (cp_TrainRunID params) cls (cp_AdmissionPolicy params) s = Inr ((), s1)"
    and quota: "enforceReservationQuota env route (cp_UserID params) (cp_TrainRunID params) (int (length ids)) limits s1 = Inr ((), s2)"
    by (auto simp: new_hold_def)
  have [simp]: "s1 = s" "s2 = s" using read_onlyD(1) [OF adm] read_onlyD(2) [OF quota] by simp_all
  from assms adm quota show ?thesis
    by (auto simp: new_hold_def ownedPassengerIDs_def ensurePassengersAvailable_def intro: that)
qed

lemma new_hold_ok:
  assumes ok: "db_ok s" and run: "new_hold env limits route params cls ids recordID s = Inr (res, s')"
  shows "db_ok s'"
proof -
  from run show ?thesis
  proof (rule new_hold_cases)
  fix run requested owned f fare tot
  assume mask: "NewSegmentMask (tr_segment_count run) (cp_FromStopIndex params) (cp_ToStopIndex params) = Inr requested"
    and len: "length owned = length ids"
    and conf: "passenger_conflicts (cp_TrainRunID params) owned (locals s (search_schema route)) = []"
    and w: "write_hold env route params cls (int (length ids)) owned run requested fare tot recordID s = Inr (res, s')"
  define sc where "sc = search_schema route"
  define req where "req = varbit_of (EncodeSegmentMask requested)"
  define t where "t = locals s sc"
  have okt: "booking_ok (tables t)" using ok by (simp add: db_ok_def core_tables_eq t_def)
  have d: "distinct (map (\<lambda>si. (si_train_run si, si_seat si)) (seat_inventory t))" "distinct (map rs_id (reservation_seats t))"
    "distinct (map (\<lambda>c. (rs_reservation c, rs_seat c)) (reservation_seats t))"
    "distinct (map (\<lambda>c. (rs_reservation c, rs_passenger c)) (reservation_seats t))"
    using okt by (simp_all add: booking_ok_def keys_ok_def tables_def)
  show ?thesis
  proof (rule write_hold_core [OF w d(1) [unfolded t_def sc_def] d(2-) [unfolded t_def sc_def], folded sc_def, folded t_def req_def])
  fix al new
  assume core: "core s' = (core s)(sc := (reserve_rows (cp_TrainRunID params) (map al_SeatID al) req
        (seat_inventory t), reservations t @ [hold_row env params cls run tot], reservation_seats t @ new))"
    and new: "new = hold_seats env params run requested fare al owned"
    and al: "int (length al) = int (length ids)" "distinct (map al_SeatID al)"
      "\<forall>seat \<in> set (map al_SeatID al). \<exists>si \<in> set (seat_inventory t).
        si_train_run si = cp_TrainRunID params \<and> si_seat si = seat \<and> free_for req si"
    and fresh: "env_reservationID env \<notin> rr_id ` set (reservations t)"
    and keys: "distinct (map rs_id (reservation_seats t @ new))"
      "distinct (map (\<lambda>c. (rs_reservation c, rs_seat c)) (reservation_seats t @ new))"
      "distinct (map (\<lambda>c. (rs_reservation c, rs_passenger c)) (reservation_seats t @ new))"
    and sent: "varbit_recv_ok (EncodeSegmentMask requested)"
  have lens: "length al = length owned" using al(1) len by simp
  note props = hold_seats_props [OF lens, of env params run requested fare, folded new]
  have journey: "0 < tr_segment_count run" "0 \<le> cp_FromStopIndex params"
      "cp_FromStopIndex params < cp_ToStopIndex params" "cp_ToStopIndex params \<le> tr_segment_count run"
    using mask by (auto simp: NewSegmentMask_def split: if_splits)
  have seg: "occupied req = {nat (cp_FromStopIndex params)..<nat (cp_ToStopIndex params)}"
    using NewSegmentMask_spec [OF journey] mask sent by (auto simp: req_def occupied_encode)
  have "booking_ok (reserve_rows (rr_train_run (hold_row env params cls run tot)) (map al_SeatID al) req (seat_inventory t),
      reservations t @ [hold_row env params cls run tot], reservation_seats t @ new)"
  proof (rule booking_ok_create)
    show "booking_ok (seat_inventory t, reservations t, reservation_seats t)" using okt by (simp add: tables_def)
    show "\<forall>c \<in> set new. rs_reservation c = rr_id (hold_row env params cls run tot) \<and> rs_mask c = req"
      using props(3) by (simp add: hold_row_def req_def)
    show "rs_seat ` set new = set (map al_SeatID al)"
      using arg_cong [OF props(1), of set] by simp
    show "\<forall>c \<in> set new. rs_passenger c \<notin>
        rs_passenger ` claims_of (reservations t) (reservation_seats t) (rr_train_run (hold_row env params cls run tot))"
    proof
      fix c assume "c \<in> set new"
      then have "rs_passenger c \<in> set (map rs_passenger new)" by simp
      then have "rs_passenger c \<in> set owned" unfolding props(2) .
      then show "rs_passenger c \<notin>
          rs_passenger ` claims_of (reservations t) (reservation_seats t) (rr_train_run (hold_row env params cls run tot))"
        using conf by (fastforce simp: passenger_conflicts_def claims_of_def live_def hold_row_def t_def sc_def)
    qed
  qed (use fresh seg journey keys al in \<open>simp_all add: hold_row_def live_def\<close>)
  then show ?thesis using ok core by (simp add: db_ok_def hold_row_def)
  qed
  qed
qed

lemma create_hold_keeps: "tx_keeps db_ok (create_hold_tx env limits params route)"
  unfolding tx_keeps_def
proof (intro allI impI)
  fix s res s' assume ok: "db_ok s" and run: "create_hold_tx env limits params route s = Inr (res, s')"
  obtain acq s1 where acq: "AcquireIdempotency env route
        \<lparr>ii_UserID = cp_UserID params, ii_Operation = OperationReservationCreate,
         ii_KeyHash = cp_IdempotencyKeyHash params, ii_RequestFingerprint = cp_RequestFingerprint params,
         ii_ExpiresAt = cp_IdempotencyExpiresAt params\<rparr> s = Inr (acq, s1)"
    and rest: "if ia_Replayed acq then \<exists>r s2. loadCreateHoldResult env route (cp_UserID params) (ia_ResourceID acq) s1 = Inr (r, s2) \<and>
          Commit env route s2 = Inr ((), s')
        else new_hold env limits route params (ToLower (env_unicode env) (cp_SeatClass params))
            (sort (cp_PassengerIDs params)) (ia_RecordID acq) s1 = Inr (res, s')"
    using run by (auto simp: create_hold_tx_def split: if_splits)
  have ok1: "db_ok s1" using tx_keepsD [OF db_ok_frame [OF frame_acquire] acq ok] .
  show "db_ok s'"
  proof (cases "ia_Replayed acq")
    case True
    with rest obtain r s2 where l: "loadCreateHoldResult env route (cp_UserID params) (ia_ResourceID acq) s1 = Inr (r, s2)"
      and c: "Commit env route s2 = Inr ((), s')" by auto
    show ?thesis using read_onlyD(7) [OF l] tx_keepsD [OF db_ok_frame [OF frame_ledger(10)] c] ok1 by simp
  next
    case False
    with rest new_hold_ok [OF ok1] show ?thesis by auto
  qed
qed

subsection \<open>Confirming and ending a reservation\<close>

lemma update_status_spec:
  "update_status env label route hit st s = Inr (n, s') \<longleftrightarrow>
     env_fault env label = None \<and> n = length (filter hit (reservations (locals s (search_schema route)))) \<and>
     s' = s\<lparr>locals := (locals s)(search_schema route := set_status hit st (locals s (search_schema route)))\<rparr>"
  by (auto simp: update_status_def)

lemma db_ok_upd:
  "db_ok s \<Longrightarrow> booking_ok (tables t) \<Longrightarrow> db_ok (s\<lparr>locals := (locals s)(sc := t)\<rparr>)"
  by (simp add: db_ok_def core_tables_eq)

lemma db_okD: "db_ok s \<Longrightarrow> booking_ok (tables (locals s sc))"
  by (simp add: db_ok_def core_tables_eq)

lemma confirm_status_keeps:
  "tx_keeps db_ok (update_status env label route
     (\<lambda>r. rr_id r = rid \<and> rr_status r = ''held'' \<and> env_clock env < rr_expires r) ''confirmed'')"
  unfolding tx_keeps_def update_status_spec
  by (auto intro!: db_ok_upd booking_ok_relabel db_okD simp: live_def)

lemma write_confirmation_keeps: "tx_keeps db_ok (write_confirmation env route params row recordID)"
  unfolding write_confirmation_def Let_def
  by (rule tx_keeps_bind [OF confirm_status_keeps], rule db_ok_frame)
     (intro tx_frame_rules tx_frame_each)

lemma confirm_keeps: "tx_keeps db_ok (confirm_tx env params route)"
  unfolding confirm_tx_def
  by (intro tx_keeps_rules write_confirmation_keeps; rule db_ok_frame; intro tx_frame_rules)

lemma releaseReservationSeats_spec:
  assumes run: "releaseReservationSeats env route rid s = Inr (n, s')"
  defines "t \<equiv> locals s (search_schema route)"
  defines "locked \<equiv> release_locked rid t"
  defines "expected \<equiv> length (filter (\<lambda>rs. rs_reservation rs = rid) (reservation_seats t))"
  shows "s' = s\<lparr>locals := (locals s)(search_schema route := t\<lparr>seat_inventory := map (release_row locked) (seat_inventory t)\<rparr>)\<rparr>"
    and "length locked = expected" and "n = int expected" and "0 < expected"
proof -
  obtain e n' t' where u: "release_update rid t = (e, n', t')" by (cases "release_update rid t")
  have r: "e > 0" "n' = e" "n = int n'" and s': "s' = s\<lparr>locals := (locals s)(search_schema route := t')\<rparr>"
    using run u by (auto simp: releaseReservationSeats_def Let_def t_def)
  show c: "length locked = expected" "n = int expected" "0 < expected"
    using u r by (auto simp: release_update_def Let_def locked_def expected_def split: if_splits)
  have "t' = t\<lparr>seat_inventory := map (release_row locked) (seat_inventory t)\<rparr>"
    using u c by (auto simp: release_update_def Let_def locked_def expected_def split: if_splits)
  with s' show "s' = s\<lparr>locals := (locals s)(search_schema route := t\<lparr>seat_inventory := map (release_row locked) (seat_inventory t)\<rparr>)\<rparr>"
    by simp
qed

text \<open>Ending a reservation: the status change and the release belong together.\<close>

lemma end_reservation_keeps:
  assumes hit: "\<And>r. hit r \<Longrightarrow> rr_id r = rid \<and> live (rr_status r)" and st: "\<not> live st"
    and rest: "\<And>n. tx_frame core (rest n)"
  shows "tx_keeps db_ok (tx_bind (update_status env label route hit st) (\<lambda>affected.
    tx_bind (tx_reject (affected \<noteq> 1) e) (\<lambda>_. tx_bind (releaseReservationSeats env route rid) rest)))"
  unfolding tx_keeps_def
proof (intro allI impI)
  fix s x s'
  assume ok: "db_ok s" and run: "tx_bind (update_status env label route hit st) (\<lambda>affected.
    tx_bind (tx_reject (affected \<noteq> 1) e) (\<lambda>_. tx_bind (releaseReservationSeats env route rid) rest)) s = Inr (x, s')"
  define t where "t = locals s (search_schema route)"
  define t1 where "t1 = set_status hit st t"
  define s1 where "s1 = s\<lparr>locals := (locals s)(search_schema route := t1)\<rparr>"
  obtain m s2 where one: "length (filter hit (reservations t)) = 1"
    and rel: "releaseReservationSeats env route rid s1 = Inr (m, s2)" and tail: "rest m s2 = Inr (x, s')"
    using run by (auto simp: update_status_spec t_def t1_def s1_def)
  obtain r0 where r0: "r0 \<in> set (reservations t)" "hit r0"
    using one by (metis filter_empty_conv length_0_conv one_neq_zero)
  have t1: "locals s1 (search_schema route) = t1" by (simp add: s1_def)
  note R = releaseReservationSeats_spec [OF rel, unfolded t1]
  have seats: "reservation_seats t1 = reservation_seats t" by (simp add: t1_def set_status_rows)
  have "booking_ok (tables (t1\<lparr>seat_inventory := map (release_row (release_locked rid t1)) (seat_inventory t1)\<rparr>))"
    unfolding t1_def
    by (rule booking_ok_release [where hit = hit and rid = rid, OF db_okD [OF ok, of "search_schema route", folded t_def] r0])
       (use hit [OF r0(2)] hit st R(2) seats in \<open>simp_all add: t1_def\<close>)
  then have "db_ok (s\<lparr>locals := (locals s)(search_schema route :=
      t1\<lparr>seat_inventory := map (release_row (release_locked rid t1)) (seat_inventory t1)\<rparr>)\<rparr>)"
    by (rule db_ok_upd [OF ok])
  then have "db_ok s2" unfolding R(1) by (simp add: s1_def db_ok_def core_tables_eq)
  then show "db_ok s'" using tx_keepsD [OF db_ok_frame [OF rest] tail] by simp
qed

lemma write_cancellation_keeps:
  assumes "live status"
  shows "tx_keeps db_ok (write_cancellation env route rid status recordID)"
  unfolding write_cancellation_def
  by (rule end_reservation_keeps) (use assms in \<open>auto simp: live_def intro!: tx_frame_rules\<close>)

lemma cancel_keeps: "tx_keeps db_ok (cancel_tx env params route)"
  unfolding cancel_tx_def
  by (intro tx_keeps_rules write_cancellation_keeps; (rule db_ok_frame; intro tx_frame_rules)?)
     (auto simp: live_def)

lemma initialize_keeps: "tx_keeps db_ok (InitializeInventory env route run)"
proof -
  have "db_ok (s\<lparr>locals := (locals s)(sc := (locals s sc)\<lparr>seat_inventory :=
      fold (\<lambda>cs. insert_inventory (zero_inventory run n cs)) css (seat_inventory (locals s sc))\<rparr>)\<rparr>)"
    if "db_ok s" for s sc n css
    using booking_ok_commission db_okD [OF that, of sc]
    by (intro db_ok_upd that) (simp add: tables_def)
  then show ?thesis by (auto simp: tx_keeps_def InitializeInventory_def Let_def)
qed

subsection \<open>Whole commands\<close>

lemma expire_claimed_keeps: "tx_keeps db_ok (expire_claimed_tx env rid)"
  unfolding expire_claimed_tx_def expire_status_def
  by (rule end_reservation_keeps) (auto simp: live_def intro!: tx_frame_rules)

lemma expire_located_keeps: "tx_keeps db_ok (expire_located_tx env rid route)"
  unfolding expire_located_tx_def expire_status_def
  by (intro tx_keeps_rules end_reservation_keeps; (rule db_ok_frame; intro tx_frame_rules)?)
     (auto simp: live_def intro!: tx_frame_rules)

lemma in_tx_keeps:
  assumes "\<And>route. tx_keeps P (body route)" "P db" "in_tx begun body db = (r, db', store')"
  shows "P db'"
proof (cases begun)
  case (Pair b st)
  show ?thesis
  proof (cases b)
    case (Inl e)
    with assms Pair show ?thesis by (simp add: in_tx_def)
  next
    case (Inr route)
    have "db' = snd (run_tx (body route) db)"
      using assms(3) by (auto simp: in_tx_def Pair Inr split: prod.splits)
    then show ?thesis using run_tx_keeps [OF assms(1,2)] by simp
  qed
qed

lemma createHoldOnce_keeps:
  "createHoldOnce env params db store = (r, db', store') \<Longrightarrow> db_ok db \<Longrightarrow> db_ok db'"
  unfolding createHoldOnce_def
  by (auto split: if_splits intro: in_tx_keeps [OF create_hold_keeps])

lemma ConfirmReservation_keeps:
  "ConfirmReservation env params db store = (r, db', store') \<Longrightarrow> db_ok db \<Longrightarrow> db_ok db'"
  unfolding ConfirmReservation_def by (auto split: if_splits intro: in_tx_keeps [OF confirm_keeps])

lemma CancelReservation_keeps:
  "CancelReservation env params db store = (r, db', store') \<Longrightarrow> db_ok db \<Longrightarrow> db_ok db'"
  unfolding CancelReservation_def by (auto split: if_splits intro: in_tx_keeps [OF cancel_keeps])

lemma expireLocatedReservation_keeps:
  "expireLocatedReservation env rid db store = (r, db', store') \<Longrightarrow> db_ok db \<Longrightarrow> db_ok db'"
  unfolding expireLocatedReservation_def by (rule in_tx_keeps [OF expire_located_keeps])

lemma Store_InitializeInventory_keeps:
  assumes "Store_InitializeInventory env run db store = (r, db', store')" "db_ok db"
  shows "db_ok db'"
  using assms(1) unfolding Store_InitializeInventory_def
proof (rule in_tx_keeps [rotated 2])
  show "tx_keeps db_ok (tx_bind (InitializeInventory env route run) (\<lambda>inserted.
      tx_bind (if 0 < inserted then recordSuccessfulGenerationWrite env route else tx_return ()) (\<lambda>_.
      tx_bind (Commit env route) (\<lambda>_. tx_return inserted))))" for route
    by (intro tx_keeps_bind initialize_keeps; rule db_ok_frame; intro tx_frame_rules)
qed (rule assms(2))

lemma expireOneDue_cases:
  assumes "expireOneDue env excluded db = (res, db')"
  shows "db' = db \<or> (\<exists>r rest. due_reservations env excluded (locals db Public) = r # rest \<and>
    db' = snd (run_tx (expire_claimed_tx env (rr_id r)) db))"
proof (cases "due_reservations env excluded (locals db Public)")
  case Nil
  with assms show ?thesis by (auto simp: expireOneDue_def split: sum.splits option.splits)
next
  case (Cons r rest)
  then show ?thesis
    using assms by (auto simp: expireOneDue_def split: sum.splits option.splits prod.splits)
qed

lemma expireOneDue_keeps:
  assumes "expireOneDue env excluded db = (r, db')" "db_ok db"
  shows "db_ok db'"
  using expireOneDue_cases [OF assms(1)] run_tx_keeps [OF expire_claimed_keeps assms(2)] assms(2) by blast

lemma cleanup_core: "cleanupExpiredIdempotency env limit db = (r, db') \<Longrightarrow> core db' = core db"
  by (auto simp: cleanupExpiredIdempotency_def Let_def core_def fun_eq_iff split: if_splits option.splits)

lemma cleanup_shards_core:
  assumes "cleanupExpiredIdempotencyAcrossShards env limit db = (r, db')"
  shows "core db' = core db"
proof -
  have "tx_frame core (cleanup_across_shards_tx env limit)"
    unfolding cleanup_across_shards_tx_def Let_def by (intro tx_frame_rules)
  then show ?thesis using assms
    by (auto simp: cleanupExpiredIdempotencyAcrossShards_def run_tx_Inr run_tx_Inl split: if_splits prod.splits sum.splits
        dest: tx_frameD)
qed

text \<open>
  One step of the system as the tables see it: a command of the store by any process, with any
  parameters and in any environment, whatever it returns; or a change elsewhere that leaves inventory,
  reservations and their seats alone.
\<close>

inductive booking_step :: "BookingDb \<Rightarrow> BookingDb \<Rightarrow> bool" where
  hold: "createHoldOnce env params db store = (r, db', store') \<Longrightarrow> booking_step db db'"
| confirm: "ConfirmReservation env command db store = (c, db', store') \<Longrightarrow> booking_step db db'"
| cancel: "CancelReservation env command db store = (n, db', store') \<Longrightarrow> booking_step db db'"
| expire_one: "expireOneDue env excluded db = (e, db') \<Longrightarrow> booking_step db db'"
| expire_located: "expireLocatedReservation env reservation db store = (l, db', store') \<Longrightarrow> booking_step db db'"
| commission: "Store_InitializeInventory env trainRun db store = (i, db', store') \<Longrightarrow> booking_step db db'"
| elsewhere: "core db' = core db \<Longrightarrow> booking_step db db'"

lemma booking_step_ok: "booking_step db db' \<Longrightarrow> db_ok db \<Longrightarrow> db_ok db'"
proof (induction rule: booking_step.induct)
  case (elsewhere db' db)
  then show ?case by (simp add: db_ok_def)
qed (blast intro: createHoldOnce_keeps ConfirmReservation_keeps CancelReservation_keeps expireOneDue_keeps
    expireLocatedReservation_keeps Store_InitializeInventory_keeps)+

lemma booking_steps_ok: "booking_step\<^sup>*\<^sup>* db db' \<Longrightarrow> db_ok db \<Longrightarrow> db_ok db'"
  by (induction rule: rtranclp_induct) (auto dest: booking_step_ok)

lemma db_ok_empty: "(\<And>sc. core db sc = ([], [], [])) \<Longrightarrow> db_ok db"
  by (simp add: db_ok_def booking_ok_def keys_ok_def refs_ok_def cover_ok_def passengers_ok_def claims_of_def)

text \<open>What the invariant says in terms of journeys.\<close>

lemma ivl_disjoint_iff:
  "{a..<b} \<inter> {c..<d} = {} \<longleftrightarrow> b \<le> a \<or> d \<le> c \<or> b \<le> c \<or> d \<le> (a :: nat)"
  by (auto simp: Int_atLeastLessThan)

lemma booking_ok_claim:
  assumes ok: "booking_ok (inven, rows, claims)"
    and c: "c \<in> set claims" "r \<in> set rows" "rr_id r = rs_reservation c"
  shows "occupied (rs_mask c) = {nat (rr_from r)..<nat (rr_to r)}" "0 \<le> rr_from r" "rr_from r < rr_to r"
    "\<exists>si \<in> set inven. si_train_run si = rr_train_run r \<and> si_seat si = rs_seat c"
proof -
  have "refs_ok (inven, rows, claims)" using ok by (simp add: booking_ok_def)
  then obtain z where z: "z \<in> set rows" "rr_id z = rs_reservation c"
      "occupied (rs_mask c) = {nat (rr_from z)..<nat (rr_to z)}" "0 \<le> rr_from z" "rr_from z < rr_to z"
      "\<exists>si \<in> set inven. si_train_run si = rr_train_run z \<and> si_seat si = rs_seat c"
    using c(1) unfolding refs_ok_def prod.case by blast
  have "distinct (map rr_id rows)" using ok by (simp add: booking_ok_def keys_ok_def)
  then have "z = r" using keyed_uniq [of rr_id rows z r] z c by simp
  with z show "occupied (rs_mask c) = {nat (rr_from r)..<nat (rr_to r)}" "0 \<le> rr_from r" "rr_from r < rr_to r"
    "\<exists>si \<in> set inven. si_train_run si = rr_train_run r \<and> si_seat si = rs_seat c" by simp_all
qed

lemma booking_ok_journeys:
  assumes ok: "booking_ok (inven, rows, claims)"
    and c: "c \<in> set claims" "r \<in> set rows" "rr_id r = rs_reservation c" "live (rr_status r)"
    and d: "d \<in> set claims" "q \<in> set rows" "rr_id q = rs_reservation d" "live (rr_status q)"
    and same: "c \<noteq> d" "rs_seat c = rs_seat d" "rr_train_run r = rr_train_run q"
  shows "rr_to r \<le> rr_from q \<or> rr_to q \<le> rr_from r"
proof -
  note rc = booking_ok_claim [OF ok c(1-3)] and rd = booking_ok_claim [OF ok d(1-3)]
  obtain si where si: "si \<in> set inven" "si_train_run si = rr_train_run r" "si_seat si = rs_seat c"
    using rc(4) by blast
  have mem: "c \<in> seat_claims rows claims (si_train_run si) (si_seat si)"
    "d \<in> seat_claims rows claims (si_train_run si) (si_seat si)"
    unfolding seat_claims_def claims_of_def mem_Collect_eq using c d same si by metis+
  have "exact_cover occupied (si_occupied si) rs_mask (seat_claims rows claims (si_train_run si) (si_seat si))"
    using ok si(1) by (simp add: booking_ok_def cover_ok_def)
  then have "occupied (rs_mask c) \<inter> occupied (rs_mask d) = {}"
    using mem same(1) by (rule exact_cover_disjoint)
  then have "{nat (rr_from r)..<nat (rr_to r)} \<inter> {nat (rr_from q)..<nat (rr_to q)} = {}"
    using rc(1) rd(1) by simp
  moreover have "nat (rr_from r) < nat (rr_to r)" "nat (rr_from q) < nat (rr_to q)"
    using rc(2,3) rd(2,3) by auto
  ultimately have "nat (rr_to r) \<le> nat (rr_from q) \<or> nat (rr_to q) \<le> nat (rr_from r)"
    unfolding ivl_disjoint_iff by linarith
  then show ?thesis using rc(2,3) rd(2,3) by auto
qed

lemma booking_ok_occupied:
  assumes ok: "booking_ok (inven, rows, claims)" and si: "si \<in> set inven"
  shows "x \<in> occupied (si_occupied si) \<longleftrightarrow>
    (\<exists>c \<in> set claims. \<exists>r \<in> set rows. rs_seat c = si_seat si \<and> rr_id r = rs_reservation c \<and>
       rr_train_run r = si_train_run si \<and> live (rr_status r) \<and> nat (rr_from r) \<le> x \<and> x < nat (rr_to r))"
proof -
  have "exact_cover occupied (si_occupied si) rs_mask (seat_claims rows claims (si_train_run si) (si_seat si))"
    using ok si by (simp add: booking_ok_def cover_ok_def)
  then have "x \<in> occupied (si_occupied si) \<longleftrightarrow>
      (\<exists>c \<in> seat_claims rows claims (si_train_run si) (si_seat si). x \<in> occupied (rs_mask c))"
    by (auto simp: exact_cover_def)
  also have "\<dots> \<longleftrightarrow> (\<exists>c \<in> set claims. \<exists>r \<in> set rows. rs_seat c = si_seat si \<and> rr_id r = rs_reservation c \<and>
      rr_train_run r = si_train_run si \<and> live (rr_status r) \<and> x \<in> occupied (rs_mask c))"
    unfolding seat_claims_def claims_of_def by blast
  also have "\<dots> \<longleftrightarrow> (\<exists>c \<in> set claims. \<exists>r \<in> set rows. rs_seat c = si_seat si \<and> rr_id r = rs_reservation c \<and>
      rr_train_run r = si_train_run si \<and> live (rr_status r) \<and> nat (rr_from r) \<le> x \<and> x < nat (rr_to r))"
    using booking_ok_claim(1) [OF ok] by (metis atLeastLessThan_iff)
  finally show ?thesis .
qed

end
