(* ===== verification/Booking_Holds.thy ===== *)
theory Booking_Holds
  imports Booking_Safety
begin

text \<open>
  What a successful \<^verbatim>\<open>createHoldOnce\<close> did, table by table: the reservation and its seats, the quota
  counts afterwards, the idempotency record and claim of its key; and how a second request with that
  key is answered.
\<close>

lemma in_tx_Inr:
  "in_tx begun body db = (Inr x, db', store') \<longleftrightarrow>
     (\<exists>route. begun = (Inr route, store') \<and> body route db = Inr (x, db'))"
  by (auto simp: in_tx_def run_tx_Inr split: prod.splits sum.splits)

lemma in_tx_Inl: "in_tx begun body db = (Inl e, db', store') \<Longrightarrow> db' = db"
  by (auto simp: in_tx_def run_tx_Inl split: prod.splits sum.splits)

lemma createHoldOnce_success:
  assumes "createHoldOnce env params db store = (Inr res, db', store')"
  obtains route where "validateCreateHoldParams env params" "\<not> adjacent_duplicate (sort (cp_PassengerIDs params))"
    "beginCreateHoldTransaction env (cp_TrainRunID params) db store = (Inr route, store')"
    "create_hold_tx env (store_limits store) params route db = Inr (res, db')"
  using assms by (auto simp: createHoldOnce_def in_tx_Inr split: if_splits)

definition create_input :: "CreateHoldParams \<Rightarrow> IdempotencyInput" where
  "create_input params = \<lparr>ii_UserID = cp_UserID params, ii_Operation = OperationReservationCreate,
     ii_KeyHash = cp_IdempotencyKeyHash params, ii_RequestFingerprint = cp_RequestFingerprint params,
     ii_ExpiresAt = cp_IdempotencyExpiresAt params\<rparr>"

lemma write_hold_not_replayed:
  "write_hold env route params cls n owned run requested fare tot recordID s = Inr (res, s') \<Longrightarrow> \<not> ch_Replayed res"
  by (auto simp: write_hold_def Let_def)

lemma create_hold_tx_success:
  assumes "create_hold_tx env limits params route s = Inr (res, s')" "\<not> ch_Replayed res"
  obtains acq s1 where "AcquireIdempotency env route (create_input params) s = Inr (acq, s1)" "\<not> ia_Replayed acq"
    "new_hold env limits route params (ToLower (env_unicode env) (cp_SeatClass params))
       (sort (cp_PassengerIDs params)) (ia_RecordID acq) s1 = Inr (res, s')"
  using assms by (auto simp: create_hold_tx_def create_input_def split: if_splits)

text \<open>Tables the idempotency bookkeeping does not touch.\<close>

definition catalog :: "BookingDb \<Rightarrow> TrainRunRow list \<times> FareRow list \<times> PassengerRow list" where
  "catalog db = (train_runs db, fares db, passengers db)"

lemma catalog_simps [simp]:
  "catalog (s\<lparr>locals := l\<rparr>) = catalog s" "catalog (s\<lparr>booking_idempotency_key_claims := c\<rparr>) = catalog s"
  by (simp_all add: catalog_def)

lemma catalog_acquire: "tx_frame catalog (AcquireIdempotency env route input)"
proof -
  have "tx_frame catalog (retireExpiredIdempotencyClaims env ids)" for ids
    unfolding retireExpiredIdempotencyClaims_def
    by (intro tx_frame_rules tx_frame_each) (simp_all add: expiredIdempotencyRecordDelete_def)
  then have "tx_frame catalog (acquireGlobalIdempotencyClaim env r input)" for r
    unfolding acquireGlobalIdempotencyClaim_def Let_def by (intro tx_frame_rules) simp_all
  moreover have "tx_frame catalog (upsert_idempotency_record env route input x a)" for x a
    unfolding upsert_idempotency_record_def Let_def by (intro tx_frame_rules) simp_all
  ultimately show ?thesis
    unfolding AcquireIdempotency_def Let_def by (intro tx_frame_rules)
qed

text \<open>Everything a successful new hold did to the core tables.\<close>

lemma new_hold_core:
  assumes ok: "db_ok s" and hold: "new_hold env limits route params cls ids recordID s = Inr (res, s')"
  defines "sc \<equiv> search_schema route"
  obtains run requested f fare tot al owned where
    "find (\<lambda>r. tr_id r = cp_TrainRunID params) (train_runs s) = Some run" "tr_status run = ''scheduled''"
    "env_clock env < cp_HoldExpiresAt params"
    "NewSegmentMask (tr_segment_count run) (cp_FromStopIndex params) (cp_ToStopIndex params) = Inr requested"
    "select_fare (cp_TrainRunID params) (tr_route run) (cp_FromStopIndex params) (cp_ToStopIndex params) cls (fares s) = Some f"
    "NewMoney (fare_amount f) (fare_currency f) = Inr fare" "Money_Multiply fare (int (length ids)) = Inr tot"
    "set owned \<subseteq> set ids" "length owned = length ids" "length al = length ids" "distinct (map al_SeatID al)" "distinct owned"
    "core s' = (core s)(sc := (reserve_rows (cp_TrainRunID params) (map al_SeatID al) (varbit_of (EncodeSegmentMask requested))
        (seat_inventory (locals s sc)), reservations (locals s sc) @ [hold_row env params cls run tot],
        reservation_seats (locals s sc) @ hold_seats env params run requested fare al owned))"
    "env_reservationID env \<notin> rr_id ` set (reservations (locals s sc))"
    "res = \<lparr>ch_ReservationID = env_reservationID env, ch_SeatCount = int (length ids),
        ch_TotalAmountMinor = amountMinor tot, ch_Currency = currency tot, ch_Replayed = False\<rparr>"
    "varbit_recv_ok (EncodeSegmentMask requested)"
  using hold
proof (rule new_hold_cases)
  fix run requested owned f fare tot
  assume facts: "find (\<lambda>r. tr_id r = cp_TrainRunID params) (train_runs s) = Some run" "tr_status run = ''scheduled''"
    "env_clock env < cp_HoldExpiresAt params"
    "NewSegmentMask (tr_segment_count run) (cp_FromStopIndex params) (cp_ToStopIndex params) = Inr requested"
    "select_fare (cp_TrainRunID params) (tr_route run) (cp_FromStopIndex params) (cp_ToStopIndex params) cls (fares s) = Some f"
    "NewMoney (fare_amount f) (fare_currency f) = Inr fare" "Money_Multiply fare (int (length ids)) = Inr tot"
    and owned: "owned = sort (map passenger_id (filter (\<lambda>p. passenger_user p = cp_UserID params \<and> passenger_id p \<in> set ids) (passengers s)))"
    and len: "length owned = length ids"
    and w: "write_hold env route params cls (int (length ids)) owned run requested fare tot recordID s = Inr (res, s')"
  have k: "distinct (map (\<lambda>si. (si_train_run si, si_seat si)) (seat_inventory (locals s sc)))"
    "distinct (map rs_id (reservation_seats (locals s sc)))"
    "distinct (map (\<lambda>c. (rs_reservation c, rs_seat c)) (reservation_seats (locals s sc)))"
    "distinct (map (\<lambda>c. (rs_reservation c, rs_passenger c)) (reservation_seats (locals s sc)))"
    using ok by (simp_all add: db_ok_def booking_ok_def keys_ok_def core_def)
  show thesis
  proof (rule write_hold_core [OF w k [unfolded sc_def], folded sc_def])
    fix al new
    assume c: "core s' = (core s)(sc := (reserve_rows (cp_TrainRunID params) (map al_SeatID al) (varbit_of (EncodeSegmentMask requested))
          (seat_inventory (locals s sc)), reservations (locals s sc) @ [hold_row env params cls run tot],
          reservation_seats (locals s sc) @ new))"
      and new: "new = hold_seats env params run requested fare al owned"
      and al: "int (length al) = int (length ids)" "distinct (map al_SeatID al)"
      and fresh: "env_reservationID env \<notin> rr_id ` set (reservations (locals s sc))"
      and keys: "distinct (map (\<lambda>c. (rs_reservation c, rs_passenger c)) (reservation_seats (locals s sc) @ new))"
      and res: "ch_ReservationID res = env_reservationID env" "ch_SeatCount res = int (length al)" "\<not> ch_Replayed res"
        "ch_TotalAmountMinor res = amountMinor tot" "ch_Currency res = currency tot"
      and sent: "varbit_recv_ok (EncodeSegmentMask requested)"
    have lens: "length al = length owned" using al(1) len by simp
    have "distinct (map rs_passenger new)"
      using keys hold_seats_props(3) [OF lens, of env params run requested fare, folded new]
      by (auto simp: distinct_map inj_on_def)
    then have "distinct owned" using hold_seats_props(2) [OF lens, of env params run requested fare, folded new] by simp
    moreover have "set owned \<subseteq> set ids" by (auto simp: owned)
    ultimately show thesis
      using that [OF facts _ len _ al(2) _ c [unfolded new] fresh] res al(1) sent by (cases res) simp
  qed
qed

lemma occupied_request:
  assumes "NewSegmentMask n a b = Inr requested" "varbit_recv_ok (EncodeSegmentMask requested)"
  shows "occupied (varbit_of (EncodeSegmentMask requested)) = {nat a..<nat b}"
proof -
  have "0 < n" "0 \<le> a" "a < b" "b \<le> n"
    using assms(1) by (auto simp: NewSegmentMask_def split: if_splits)
  then show ?thesis using NewSegmentMask_spec [of n a b] assms by (auto simp: occupied_encode)
qed

lemma select_fare_mem:
  assumes "select_fare runID routeID a b cls rows = Some f"
  shows "f \<in> set rows"
proof -
  define hits where "hits = filter (\<lambda>f. fare_active f \<and> fare_from f = a \<and> fare_to f = b \<and> fare_class f = cls \<and>
            (fare_train_run f = Some runID \<or> (fare_train_run f = None \<and> fare_route f = Some routeID))) rows"
  have "f \<in> set hits"
  proof (cases "find (\<lambda>f. fare_train_run f \<noteq> None) hits")
    case None
    then show ?thesis using assms by (simp add: select_fare_def hits_def [symmetric] split: list.splits)
  next
    case (Some g)
    then have "g \<in> set hits" by (blast dest: find_SomeD)
    then show ?thesis using assms Some by (simp add: select_fare_def hits_def [symmetric])
  qed
  then show ?thesis by (simp add: hits_def)
qed

lemma distinct_subset_full:
  "distinct xs \<Longrightarrow> set xs \<subseteq> set ys \<Longrightarrow> length xs = length ys \<Longrightarrow> set xs = set ys"
  by (metis card_length card_seteq distinct_card finite_set)

subsection \<open>Quota\<close>

lemma begin_route:
  assumes "beginCreateHoldTransaction env run db store = (Inr route, store')"
  shows "route = None \<longleftrightarrow> store_shards store = None"
  using assms
  by (auto simp: beginCreateHoldTransaction_def on_router_def Begin_def beginTrainRunWrite_def beginResolvedWrite_def
      newBookingTx_def Let_def split: option.splits prod.splits sum.splits if_splits)

lemma frame_quota_claims:
  "tx_frame reservation_quota_claims (AcquireIdempotency env route input)"
  "tx_frame reservation_quota_claims (AllocateSeats env route run cls requested n)"
  "tx_frame reservation_quota_claims (insert_reservation env route row)"
  "tx_frame reservation_quota_claims (insert_reservation_seat env route seat)"
  "tx_frame reservation_quota_claims (insertReservationLocator env route rid owner)"
  "tx_frame reservation_quota_claims (CompleteIdempotency env route recordID rid)"
  "tx_frame reservation_quota_claims (appendReservationEvent env route rid ty payload)"
  "tx_frame reservation_quota_claims (recordSuccessfulGenerationWrite env route)"
  "tx_frame reservation_quota_claims (Commit env route)"
proof -
  have "tx_frame reservation_quota_claims (retireExpiredIdempotencyClaims env ids)" for ids
    unfolding retireExpiredIdempotencyClaims_def
    by (intro tx_frame_rules tx_frame_each) (simp_all add: expiredIdempotencyRecordDelete_def)
  then have "tx_frame reservation_quota_claims (acquireGlobalIdempotencyClaim env r input)" for r
    unfolding acquireGlobalIdempotencyClaim_def Let_def by (intro tx_frame_rules) simp_all
  moreover have "tx_frame reservation_quota_claims (upsert_idempotency_record env route input x a)" for x a
    unfolding upsert_idempotency_record_def Let_def by (intro tx_frame_rules) simp_all
  ultimately show "tx_frame reservation_quota_claims (AcquireIdempotency env route input)"
    unfolding AcquireIdempotency_def Let_def by (intro tx_frame_rules)
qed (unfold AllocateSeats_def insert_reservation_def insert_reservation_seat_def insertReservationLocator_def
  CompleteIdempotency_def appendReservationEvent_def recordSuccessfulGenerationWrite_def Commit_def Let_def;
  intro tx_frame_rules; simp)+

lemma write_hold_claims:
  assumes "write_hold env route params cls n owned run requested fare tot recordID s = Inr (res, s')"
  obtains s3 s4 where "insertReservationQuotaClaim env route (env_reservationID env) (cp_UserID params) (cp_TrainRunID params)
      (int (length owned)) s3 = Inr ((), s4)"
    "reservation_quota_claims s3 = reservation_quota_claims s" "reservation_quota_claims s' = reservation_quota_claims s4"
  using assms
proof (rule write_hold_steps)
  fix al s1 s2 s3 s4 s5 s6 s7 s8 payload
  assume a: "AllocateSeats env route (cp_TrainRunID params) cls requested n s = Inr (al, s1)"
    "insert_reservation env route (hold_row env params cls run tot) s1 = Inr ((), s2)"
    "tx_each (insert_reservation_seat env route) (hold_seats env params run requested fare al owned) s2 = Inr ((), s3)"
    and q: "insertReservationQuotaClaim env route (env_reservationID env) (cp_UserID params) (cp_TrainRunID params)
        (int (length owned)) s3 = Inr ((), s4)"
    and b: "insertReservationLocator env route (env_reservationID env) (cp_UserID params) s4 = Inr ((), s5)"
    "CompleteIdempotency env route recordID (env_reservationID env) s5 = Inr ((), s6)"
    "appendReservationEvent env route (env_reservationID env) ''reservation.held'' payload s6 = Inr ((), s7)"
    "recordSuccessfulGenerationWrite env route s7 = Inr ((), s8)" "Commit env route s8 = Inr ((), s')"
  have "reservation_quota_claims s3 = reservation_quota_claims s"
    using frame_quota_claims(2) [THEN tx_frameD, OF a(1)] frame_quota_claims(3) [THEN tx_frameD, OF a(2)]
      tx_frame_each [OF frame_quota_claims(4), THEN tx_frameD, OF a(3)] by simp
  moreover have "reservation_quota_claims s' = reservation_quota_claims s4"
    using frame_quota_claims(5) [THEN tx_frameD, OF b(1)] frame_quota_claims(6) [THEN tx_frameD, OF b(2)]
      frame_quota_claims(7) [THEN tx_frameD, OF b(3)] frame_quota_claims(8) [THEN tx_frameD, OF b(4)]
      frame_quota_claims(9) [THEN tx_frameD, OF b(5)] by simp
  ultimately show thesis by (rule that [OF q])
qed

lemma below_limit:
  assumes "\<not> atOrAboveLimit current additional limit" "in_int64 limit"
  shows "current + additional \<le> limit"
proof -
  have "0 \<le> current" "current < limit" "additional \<le> wrap64 (limit - current)"
    using assms(1) by (auto simp: atOrAboveLimit_def split: if_splits)
  moreover from this have "wrap64 (limit - current) = limit - current"
    using assms(2) by (intro wrap64_id) (auto simp: in_int64_def go_num)
  ultimately show ?thesis by simp
qed

definition joined :: "ReservationRow list \<Rightarrow> ReservationSeatRow list \<Rightarrow> nat" where
  "joined held claims = length [rs. rs \<leftarrow> claims, r \<leftarrow> held, rr_id r = rs_reservation rs]"

lemma joined_simps [simp]:
  "joined held [] = 0"
  "joined held (c # claims) = length (filter (\<lambda>r. rr_id r = rs_reservation c) held) + joined held claims"
proof -
  have "length (concat (map (\<lambda>r. if rr_id r = rs_reservation c then [c] else []) held)) =
      length (filter (\<lambda>r. rr_id r = rs_reservation c) held)" for held :: "ReservationRow list"
    by (induction held) auto
  then show "joined held (c # claims) = length (filter (\<lambda>r. rr_id r = rs_reservation c) held) + joined held claims"
    by (simp add: joined_def)
qed (simp add: joined_def)

lemma joined_append: "joined held (a @ b) = joined held a + joined held b"
  by (induction a) simp_all

lemma joined_other:
  "\<forall>c \<in> set claims. rs_reservation c \<noteq> rr_id r \<Longrightarrow> joined (held @ [r]) claims = joined held claims"
  by (induction claims) auto

lemma joined_own:
  "rr_id r \<notin> rr_id ` set held \<Longrightarrow> \<forall>c \<in> set claims. rs_reservation c = rr_id r \<Longrightarrow>
     joined (held @ [r]) claims = length claims"
proof (induction claims)
  case (Cons c claims)
  have "filter (\<lambda>x. rr_id x = rs_reservation c) held = []"
    using Cons.prems by (auto simp: filter_empty_conv) (metis imageI)
  then show ?case using Cons by simp
qed simp

lemma local_quota_counts_hold:
  assumes ok: "booking_ok (tables t)" and fresh: "rr_id r \<notin> rr_id ` set (reservations t)"
    and r: "rr_user r = u" "rr_status r = ''held''" "rr_train_run r = run"
    and rows: "\<forall>c \<in> set rows. rs_reservation c = rr_id r"
    and t': "reservations t' = reservations t @ [r]" "reservation_seats t' = reservation_seats t @ rows"
  shows "local_quota_counts u run t' =
    (fst (local_quota_counts u run t) + 1, fst (snd (local_quota_counts u run t)) + 1,
     snd (snd (local_quota_counts u run t)) + int (length rows))"
proof -
  have held: "held_of u t' = held_of u t @ [r]" using r t' by (simp add: held_of_def)
  have old: "\<forall>c \<in> set (reservation_seats t). rs_reservation c \<noteq> rr_id r"
  proof
    fix c assume "c \<in> set (reservation_seats t)"
    then obtain q where "q \<in> set (reservations t)" "rr_id q = rs_reservation c"
      using ok by (auto simp: booking_ok_def refs_ok_def tables_def)
    with fresh show "rs_reservation c \<noteq> rr_id r" by (metis imageI)
  qed
  have f: "rr_id r \<notin> rr_id ` set (held_of u t)" using fresh by (auto simp: held_of_def)
  have counts: "local_quota_counts u run x = (int (length (held_of u x)),
      int (length (filter (\<lambda>r. rr_train_run r = run) (held_of u x))), int (joined (held_of u x) (reservation_seats x)))" for x
    by (simp add: local_quota_counts_def joined_def)
  show ?thesis
    by (simp add: counts t'(2) held r joined_append joined_other [OF old] joined_own [OF f rows])
qed

lemma global_quota_counts_claim:
  assumes "insertReservationQuotaClaim env (Some route) rid u run n s = Inr ((), s')"
  shows "fst (global_quota_counts u run s') \<le> fst (global_quota_counts u run s) + 1"
    "fst (snd (global_quota_counts u run s')) \<le> fst (snd (global_quota_counts u run s)) + 1"
    "snd (snd (global_quota_counts u run s')) \<le> snd (snd (global_quota_counts u run s)) + n"
  using assms by (auto simp: insertReservationQuotaClaim_def global_quota_counts_def active_claims_def split: option.splits)

lemma quota_checked:
  assumes "enforceReservationQuota env route u run n limits s = Inr ((), s')"
    and "in_int64 (MaxActiveHoldsPerUser limits)" "in_int64 (MaxActiveHoldsPerUserPerTrainRun limits)"
      "in_int64 (MaxActivePassengersPerUser limits)"
  defines "counts \<equiv> (if route = None then local_quota_counts u run (locals s Public) else global_quota_counts u run s)"
  shows "fst counts + 1 \<le> MaxActiveHoldsPerUser limits" "fst (snd counts) + 1 \<le> MaxActiveHoldsPerUserPerTrainRun limits"
    "snd (snd counts) + n \<le> MaxActivePassengersPerUser limits"
proof -
  have "\<not> atOrAboveLimit (fst counts) 1 (MaxActiveHoldsPerUser limits)"
    "\<not> atOrAboveLimit (fst (snd counts)) 1 (MaxActiveHoldsPerUserPerTrainRun limits)"
    "\<not> atOrAboveLimit (snd (snd counts)) n (MaxActivePassengersPerUser limits)"
    using assms(1) by (cases "route = None"; auto simp: enforceReservationQuota_def counts_def search_schema_def)+
  then show "fst counts + 1 \<le> MaxActiveHoldsPerUser limits" "fst (snd counts) + 1 \<le> MaxActiveHoldsPerUserPerTrainRun limits"
    "snd (snd counts) + n \<le> MaxActivePassengersPerUser limits"
    using below_limit assms(2-4) by blast+
qed

lemma new_hold_quota:
  assumes ok: "db_ok s" and hold: "new_hold env limits route params cls ids recordID s = Inr (res, s')"
    and lim: "in_int64 (MaxActiveHoldsPerUser limits)" "in_int64 (MaxActiveHoldsPerUserPerTrainRun limits)"
      "in_int64 (MaxActivePassengersPerUser limits)"
  defines "counts \<equiv> (if route = None then local_quota_counts (cp_UserID params) (cp_TrainRunID params) (locals s' Public)
      else global_quota_counts (cp_UserID params) (cp_TrainRunID params) s')"
  shows "fst counts \<le> MaxActiveHoldsPerUser limits \<and> fst (snd counts) \<le> MaxActiveHoldsPerUserPerTrainRun limits \<and>
    snd (snd counts) \<le> MaxActivePassengersPerUser limits"
proof -
  let ?u = "cp_UserID params" and ?run = "cp_TrainRunID params"
  from hold show ?thesis
  proof (rule new_hold_cases)
    fix run requested owned f fare tot
    assume len: "length owned = length ids"
      and q: "enforceReservationQuota env route ?u ?run (int (length ids)) limits s = Inr ((), s)"
      and w: "write_hold env route params cls (int (length ids)) owned run requested fare tot recordID s = Inr (res, s')"
    note Q = quota_checked [OF q lim]
    show ?thesis
    proof (cases route)
      case (Some r)
      from w show ?thesis
      proof (rule write_hold_claims)
        fix s3 s4 assume i: "insertReservationQuotaClaim env route (env_reservationID env) ?u ?run (int (length owned)) s3 = Inr ((), s4)"
          and eq: "reservation_quota_claims s3 = reservation_quota_claims s" "reservation_quota_claims s' = reservation_quota_claims s4"
        have "global_quota_counts ?u ?run s3 = global_quota_counts ?u ?run s"
          "global_quota_counts ?u ?run s' = global_quota_counts ?u ?run s4"
          using eq by (simp_all add: global_quota_counts_def active_claims_def)
        then show ?thesis using Q global_quota_counts_claim [OF i [unfolded Some]] len by (simp add: counts_def Some)
      qed
    next
      case None
      from ok hold show ?thesis
      proof (rule new_hold_core)
        fix run requested f fare tot al owned
        assume len: "length owned = length ids" "length al = length ids"
          and c: "core s' = (core s)(search_schema route := (reserve_rows ?run (map al_SeatID al) (varbit_of (EncodeSegmentMask requested))
            (seat_inventory (locals s (search_schema route))), reservations (locals s (search_schema route)) @ [hold_row env params cls run tot],
            reservation_seats (locals s (search_schema route)) @ hold_seats env params run requested fare al owned))"
          and fresh: "env_reservationID env \<notin> rr_id ` set (reservations (locals s (search_schema route)))"
        have pub: "search_schema route = Public" by (simp add: None search_schema_def)
        have new: "reservations (locals s' Public) = reservations (locals s Public) @ [hold_row env params cls run tot]"
          "reservation_seats (locals s' Public) = reservation_seats (locals s Public) @ hold_seats env params run requested fare al owned"
          using fun_cong [OF c, of Public] by (simp_all add: pub core_def)
        have lens: "length al = length owned" using len by simp
        have "local_quota_counts ?u ?run (locals s' Public) =
          (fst (local_quota_counts ?u ?run (locals s Public)) + 1, fst (snd (local_quota_counts ?u ?run (locals s Public))) + 1,
           snd (snd (local_quota_counts ?u ?run (locals s Public))) + int (length ids))"
          using local_quota_counts_hold [OF db_okD [OF ok] _ _ _ _ _ new, of ?u ?run] fresh len
            hold_seats_props(3,4) [OF lens, of env params run requested fare]
          by (simp add: hold_row_def pub)
        then show ?thesis using Q by (simp add: counts_def None)
      qed
    qed
  qed
qed

lemma find_append: "find P (xs @ ys) = (case find P xs of None \<Rightarrow> find P ys | Some x \<Rightarrow> Some x)"
  by (induction xs) auto

lemma find_map_key: "(\<And>x. P (f x) = P x) \<Longrightarrow> find P (map f xs) = map_option f (find P xs)"
  by (induction xs) auto

lemma upsert_spec:
  assumes "upsert_idempotency_record env route input x a s = Inr (Some i, s1)"
  obtains rec where
    "find (ir_has_key (ii_UserID input) (ii_Operation input) (ii_KeyHash input))
       (idempotency_records (locals s1 (search_schema route))) = Some rec"
    "ir_expires rec = x" "booking_idempotency_key_claims s1 = booking_idempotency_key_claims s"
proof -
  let ?key = "ir_has_key (ii_UserID input) (ii_Operation input) (ii_KeyHash input)"
  let ?recs = "idempotency_records (locals s (search_schema route))"
  show thesis
  proof (cases "find ?key ?recs")
    case None
    with assms show thesis
      by (auto simp: upsert_idempotency_record_def Let_def find_append ir_has_key_def intro!: that)
  next
    case (Some row)
    moreover have "?key row" using find_SomeD [OF Some] by simp
    ultimately show thesis using assms
      by (auto simp: upsert_idempotency_record_def Let_def ir_has_key_def find_map_key split: if_splits intro!: that)
  qed
qed

lemma claim_spec:
  assumes "acquireGlobalIdempotencyClaim env r input s = Inr ((x, a), s1)"
  shows "\<exists>kc. find (kc_has_key (ii_UserID input) (ii_Operation input) (ii_KeyHash input)) (booking_idempotency_key_claims s1) = Some kc \<and>
    kc_fingerprint kc = ii_RequestFingerprint input \<and> kc_train_run kc = Some (route_trainRunID r) \<and> kc_expires kc = x \<and>
    a = env_acquiredAt env \<and> a < x"
  using assms by (auto simp: acquireGlobalIdempotencyClaim_def Let_def split: option.splits if_splits)

lemma acquire_owned:
  assumes "AcquireIdempotency env route input s = Inr (acq, s1)" "\<not> ia_Replayed acq"
  obtains rec where
    "find (ir_has_key (ii_UserID input) (ii_Operation input) (ii_KeyHash input))
       (idempotency_records (locals s1 (search_schema route))) = Some rec"
    "ir_id rec = ia_RecordID acq" "ir_status rec = ''in_progress''" "ir_fingerprint rec = ii_RequestFingerprint input"
    "\<And>r. route = Some r \<Longrightarrow> ir_train_run rec = Some (route_trainRunID r) \<and>
      (\<exists>kc. find (kc_has_key (ii_UserID input) (ii_Operation input) (ii_KeyHash input)) (booking_idempotency_key_claims s1) = Some kc \<and>
        kc_fingerprint kc = ii_RequestFingerprint input \<and> kc_train_run kc = Some (route_trainRunID r) \<and> kc_expires kc = ir_expires rec)"
proof -
  let ?key = "ir_has_key (ii_UserID input) (ii_Operation input) (ii_KeyHash input)"
  obtain x a s0 i rec where
      times: "(case route of
         Some r \<Rightarrow> acquireGlobalIdempotencyClaim env r input
       | None \<Rightarrow> tx_bind (exec_sql env ''derive idempotency expiry'') (\<lambda>_.
                 tx_return (env_acquiredAt env + idempotency_ttl, env_acquiredAt env))) s = Inr ((x, a), s0)"
    and up: "upsert_idempotency_record env route input x a s0 = Inr (i, s1)"
    and rec: "find ?key (idempotency_records (locals s1 (search_schema route))) = Some rec"
      "ir_id rec = ia_RecordID acq" "ir_status rec = ''in_progress''" "ir_fingerprint rec = ii_RequestFingerprint input"
      "i = Some (ir_id rec)"
    and rt: "case route of None \<Rightarrow> True | Some r \<Rightarrow> ir_train_run rec = Some (route_trainRunID r) \<and> ir_expires rec = x"
    using assms by (auto simp: AcquireIdempotency_def Let_def split: if_splits option.splits)
  have same: "booking_idempotency_key_claims s1 = booking_idempotency_key_claims s0"
    using up [unfolded rec(5)] by (rule upsert_spec)
  show thesis
  proof (rule that [OF rec(1-4)])
    fix r assume "route = Some r"
    with times rt claim_spec [of env r input s x a s0] same
    show "ir_train_run rec = Some (route_trainRunID r) \<and>
      (\<exists>kc. find (kc_has_key (ii_UserID input) (ii_Operation input) (ii_KeyHash input)) (booking_idempotency_key_claims s1) = Some kc \<and>
        kc_fingerprint kc = ii_RequestFingerprint input \<and> kc_train_run kc = Some (route_trainRunID r) \<and> kc_expires kc = ir_expires rec)"
      by auto
  qed
qed

text \<open>The bookkeeping of keys: which operations leave it alone, and what completion does to it.\<close>

definition key_books :: "BookingDb \<Rightarrow> KeyClaimRow list \<times> (schema \<Rightarrow> IdempotencyRow list)" where
  "key_books db = (booking_idempotency_key_claims db, \<lambda>sc. idempotency_records (locals db sc))"

lemma key_books_simps [simp]:
  "key_books (s\<lparr>reservation_quota_claims := b\<rparr>) = key_books s"
  "key_books (s\<lparr>reservation_shard_locators := c\<rparr>) = key_books s"
  "key_books (s\<lparr>outbox_events := g\<rparr>) = key_books s"
  "key_books (s\<lparr>train_run_generation_writes := h\<rparr>) = key_books s"
  "idempotency_records (f (locals s sc)) = idempotency_records (locals s sc) \<Longrightarrow>
     key_books (s\<lparr>locals := (locals s)(sc := f (locals s sc))\<rparr>) = key_books s"
  by (auto simp: key_books_def fun_eq_iff)

lemma frame_key_books:
  "tx_frame key_books (AllocateSeats env route run cls requested n)"
  "tx_frame key_books (insert_reservation env route row)"
  "tx_frame key_books (insert_reservation_seat env route seat)"
  "tx_frame key_books (insertReservationQuotaClaim env route rid u run k)"
  "tx_frame key_books (insertReservationLocator env route rid owner)"
  "tx_frame key_books (appendReservationEvent env route rid ty payload)"
  "tx_frame key_books (recordSuccessfulGenerationWrite env route)"
  "tx_frame key_books (Commit env route)"
  unfolding AllocateSeats_def insert_reservation_def insert_reservation_seat_def insertReservationQuotaClaim_def
    insertReservationLocator_def appendReservationEvent_def recordSuccessfulGenerationWrite_def Commit_def Let_def
  by (intro tx_frame_rules; simp)+

definition complete_row :: "uuid \<Rightarrow> uuid \<Rightarrow> IdempotencyRow \<Rightarrow> IdempotencyRow" where
  "complete_row recordID rid x = (if ir_id x = recordID \<and> ir_status x = ''in_progress''
     then x\<lparr>ir_status := ''completed'', ir_resource := Some rid\<rparr> else x)"

lemma complete_spec:
  assumes "CompleteIdempotency env route recordID rid s = Inr ((), s')"
  shows "key_books s' = (fst (key_books s), (snd (key_books s))(search_schema route :=
      map (complete_row recordID rid) (idempotency_records (locals s (search_schema route)))))" "rid \<noteq> 0"
  using assms by (auto simp: CompleteIdempotency_def Let_def key_books_def fun_eq_iff complete_row_def)

lemma write_hold_keys:
  assumes "write_hold env route params cls n owned run requested fare tot recordID s = Inr (res, s')"
  shows "key_books s' = (fst (key_books s), (snd (key_books s))(search_schema route :=
      map (complete_row recordID (env_reservationID env)) (idempotency_records (locals s (search_schema route)))))"
    and "env_reservationID env \<noteq> 0"
proof -
  have "key_books s' = (fst (key_books s), (snd (key_books s))(search_schema route :=
      map (complete_row recordID (env_reservationID env)) (snd (key_books s) (search_schema route)))) \<and>
      env_reservationID env \<noteq> 0"
    using assms
  proof (rule write_hold_steps)
    fix al s1 s2 s3 s4 s5 s6 s7 s8 payload
    assume a: "AllocateSeats env route (cp_TrainRunID params) cls requested n s = Inr (al, s1)"
      "insert_reservation env route (hold_row env params cls run tot) s1 = Inr ((), s2)"
      "tx_each (insert_reservation_seat env route) (hold_seats env params run requested fare al owned) s2 = Inr ((), s3)"
      "insertReservationQuotaClaim env route (env_reservationID env) (cp_UserID params) (cp_TrainRunID params)
          (int (length owned)) s3 = Inr ((), s4)"
      "insertReservationLocator env route (env_reservationID env) (cp_UserID params) s4 = Inr ((), s5)"
      and c: "CompleteIdempotency env route recordID (env_reservationID env) s5 = Inr ((), s6)"
      and b: "appendReservationEvent env route (env_reservationID env) ''reservation.held'' payload s6 = Inr ((), s7)"
      "recordSuccessfulGenerationWrite env route s7 = Inr ((), s8)" "Commit env route s8 = Inr ((), s')"
    have s5: "key_books s5 = key_books s"
      using frame_key_books(1) [THEN tx_frameD, OF a(1)] frame_key_books(2) [THEN tx_frameD, OF a(2)]
        tx_frame_each [OF frame_key_books(3), THEN tx_frameD, OF a(3)] frame_key_books(4) [THEN tx_frameD, OF a(4)]
        frame_key_books(5) [THEN tx_frameD, OF a(5)] by simp
    have "key_books s' = key_books s6"
      using frame_key_books(6) [THEN tx_frameD, OF b(1)] frame_key_books(7) [THEN tx_frameD, OF b(2)]
        frame_key_books(8) [THEN tx_frameD, OF b(3)] by simp
    with complete_spec [OF c] s5 show ?thesis by (simp add: key_books_def fun_eq_iff)
  qed
  then show "key_books s' = (fst (key_books s), (snd (key_books s))(search_schema route :=
      map (complete_row recordID (env_reservationID env)) (idempotency_records (locals s (search_schema route)))))"
    and "env_reservationID env \<noteq> 0" by (simp_all add: key_books_def)
qed

text \<open>What a successful hold leaves behind for its key.\<close>

definition completed_key :: "ShardRoute option \<Rightarrow> IdempotencyInput \<Rightarrow> uuid \<Rightarrow> IdempotencyRow \<Rightarrow> BookingDb \<Rightarrow> bool" where
  "completed_key route input rid rec s \<longleftrightarrow>
     find (ir_has_key (ii_UserID input) (ii_Operation input) (ii_KeyHash input))
       (idempotency_records (locals s (search_schema route))) = Some rec \<and>
     ir_status rec = ''completed'' \<and> ir_resource rec = Some rid \<and> rid \<noteq> 0 \<and>
     ir_fingerprint rec = ii_RequestFingerprint input \<and>
     (\<forall>r. route = Some r \<longrightarrow> ir_train_run rec = Some (route_trainRunID r) \<and>
       (\<exists>kc. find (kc_has_key (ii_UserID input) (ii_Operation input) (ii_KeyHash input)) (booking_idempotency_key_claims s) = Some kc \<and>
         kc_fingerprint kc = ii_RequestFingerprint input \<and> kc_train_run kc = Some (route_trainRunID r) \<and> kc_expires kc = ir_expires rec))"

lemma create_hold_completes:
  assumes acq: "AcquireIdempotency env route input s = Inr (acq, s1)" "\<not> ia_Replayed acq"
    and hold: "new_hold env limits route params cls ids (ia_RecordID acq) s1 = Inr (res, s')"
  obtains rec where "completed_key route input (ch_ReservationID res) rec s'"
proof -
  obtain rec where rec: "find (ir_has_key (ii_UserID input) (ii_Operation input) (ii_KeyHash input))
       (idempotency_records (locals s1 (search_schema route))) = Some rec"
    "ir_id rec = ia_RecordID acq" "ir_status rec = ''in_progress''" "ir_fingerprint rec = ii_RequestFingerprint input"
    "\<And>r. route = Some r \<Longrightarrow> ir_train_run rec = Some (route_trainRunID r) \<and>
      (\<exists>kc. find (kc_has_key (ii_UserID input) (ii_Operation input) (ii_KeyHash input)) (booking_idempotency_key_claims s1) = Some kc \<and>
        kc_fingerprint kc = ii_RequestFingerprint input \<and> kc_train_run kc = Some (route_trainRunID r) \<and> kc_expires kc = ir_expires rec)"
    using acq by (rule acquire_owned) blast
  from hold show thesis
  proof (rule new_hold_cases)
    fix run requested owned f fare tot
    assume w: "write_hold env route params cls (int (length ids)) owned run requested fare tot (ia_RecordID acq) s1 = Inr (res, s')"
    have rid: "ch_ReservationID res = env_reservationID env" using w by (rule write_hold_steps) simp
    note K = write_hold_keys [OF w]
    have claims: "booking_idempotency_key_claims s' = booking_idempotency_key_claims s1"
      and recs: "idempotency_records (locals s' (search_schema route)) =
        map (complete_row (ia_RecordID acq) (env_reservationID env)) (idempotency_records (locals s1 (search_schema route)))"
      using K(1) by (auto simp: key_books_def fun_eq_iff)
    have "find (ir_has_key (ii_UserID input) (ii_Operation input) (ii_KeyHash input))
       (idempotency_records (locals s' (search_schema route))) =
       Some (complete_row (ia_RecordID acq) (env_reservationID env) rec)"
      unfolding recs by (subst find_map_key) (simp_all add: rec(1) complete_row_def ir_has_key_def)
    then show thesis
      by (intro that [of "complete_row (ia_RecordID acq) (env_reservationID env) rec"])
         (use rec K(2) rid claims in \<open>auto simp: completed_key_def complete_row_def\<close>)
  qed
qed

text \<open>A second acquisition of a completed key replays it and changes nothing.\<close>

lemma acquire_replay:
  assumes key: "completed_key route input rid rec s"
    and nofault: "\<And>l. env_fault env l = None"
    and valid: "ii_UserID input \<noteq> 0" "validOperation (ii_Operation input)" "length (ii_KeyHash input) = 32"
      "length (ii_RequestFingerprint input) = 32" "ii_ExpiresAt input \<noteq> 0"
      "\<And>r. route = Some r \<Longrightarrow> route_trainRunID r \<noteq> 0"
    and time: "env_acquiredAt env < ir_expires rec"
  shows "AcquireIdempotency env route input s =
    Inr (\<lparr>ia_RecordID = ir_id rec, ia_Owned = False, ia_Replayed = True, ia_ResourceID = rid\<rparr>, s)"
proof -
  have "\<exists>kx. (case route of
         Some r \<Rightarrow> acquireGlobalIdempotencyClaim env r input
       | None \<Rightarrow> tx_bind (exec_sql env ''derive idempotency expiry'') (\<lambda>_.
                 tx_return (env_acquiredAt env + idempotency_ttl, env_acquiredAt env))) s =
      Inr ((kx, env_acquiredAt env), s) \<and> (route \<noteq> None \<longrightarrow> kx = ir_expires rec)"
    using key valid time nofault
    by (cases route) (auto simp: completed_key_def acquireGlobalIdempotencyClaim_def Let_def)
  then obtain kx where times: "(case route of
         Some r \<Rightarrow> acquireGlobalIdempotencyClaim env r input
       | None \<Rightarrow> tx_bind (exec_sql env ''derive idempotency expiry'') (\<lambda>_.
                 tx_return (env_acquiredAt env + idempotency_ttl, env_acquiredAt env))) s =
      Inr ((kx, env_acquiredAt env), s)" "route \<noteq> None \<Longrightarrow> kx = ir_expires rec" by blast
  have up: "upsert_idempotency_record env route input kx (env_acquiredAt env) s = Inr (None, s)"
    using key time nofault by (auto simp: upsert_idempotency_record_def Let_def completed_key_def)
  show ?thesis
    unfolding AcquireIdempotency_def Let_def tx_bind_eq_Inr
    using times up key valid nofault
    by (auto simp: completed_key_def split: option.splits)
qed

lemma load_new_hold:
  assumes ok: "db_ok s" and hold: "new_hold env limits route params cls ids recordID s = Inr (res, s')"
    and nofault: "\<And>l. env_fault env2 l = None"
  shows "loadCreateHoldResult env2 route (cp_UserID params) (ch_ReservationID res) s' = Inr (res, s')"
  using ok hold
proof (rule new_hold_core)
  fix run requested f fare tot al owned
  assume len: "length owned = length ids" "length al = length ids"
    and c: "core s' = (core s)(search_schema route := (reserve_rows (cp_TrainRunID params) (map al_SeatID al) (varbit_of (EncodeSegmentMask requested))
      (seat_inventory (locals s (search_schema route))), reservations (locals s (search_schema route)) @ [hold_row env params cls run tot],
      reservation_seats (locals s (search_schema route)) @ hold_seats env params run requested fare al owned))"
    and fresh: "env_reservationID env \<notin> rr_id ` set (reservations (locals s (search_schema route)))"
    and res: "res = \<lparr>ch_ReservationID = env_reservationID env, ch_SeatCount = int (length ids),
        ch_TotalAmountMinor = amountMinor tot, ch_Currency = currency tot, ch_Replayed = False\<rparr>"
  let ?t = "locals s (search_schema route)" and ?t' = "locals s' (search_schema route)"
  have new: "reservations ?t' = reservations ?t @ [hold_row env params cls run tot]"
    "reservation_seats ?t' = reservation_seats ?t @ hold_seats env params run requested fare al owned"
    using fun_cong [OF c, of "search_schema route"] by (simp_all add: core_def)
  have "find (\<lambda>r. rr_id r = env_reservationID env \<and> rr_user r = cp_UserID params) (reservations ?t) = None"
    using fresh by (auto simp: find_None_iff) (metis imageI)
  then have row: "find (\<lambda>r. rr_id r = env_reservationID env \<and> rr_user r = cp_UserID params) (reservations ?t') =
      Some (hold_row env params cls run tot)"
    by (simp add: new find_append hold_row_def)
  have "filter (\<lambda>rs. rs_reservation rs = env_reservationID env) (reservation_seats ?t) = []"
  proof -
    have "rs_reservation c \<noteq> env_reservationID env" if "c \<in> set (reservation_seats ?t)" for c
    proof -
      obtain q where "q \<in> set (reservations ?t)" "rr_id q = rs_reservation c"
        using db_okD [OF ok, of "search_schema route"] \<open>c \<in> set (reservation_seats ?t)\<close>
        by (auto simp: booking_ok_def refs_ok_def tables_def)
      with fresh show ?thesis by (metis imageI)
    qed
    then show ?thesis by (simp add: filter_empty_conv)
  qed
  moreover have "filter (\<lambda>rs. rs_reservation rs = env_reservationID env) (hold_seats env params run requested fare al owned) =
      hold_seats env params run requested fare al owned"
    using hold_seats_props(3) [of al owned env params run requested fare] len by (simp add: filter_id_conv)
  ultimately have "seat_count ?t' (env_reservationID env) = int (length ids)"
    using hold_seats_props(4) [of al owned env params run requested fare] len by (simp add: seat_count_def new)
  with row show ?thesis using nofault
    by (simp add: loadCreateHoldResult_def res) (auto simp: hold_row_def)
qed

lemma acquire_conflict:
  assumes key: "completed_key route input rid rec s"
    and other: "ii_UserID input2 = ii_UserID input" "ii_Operation input2 = ii_Operation input" "ii_KeyHash input2 = ii_KeyHash input"
      "ii_RequestFingerprint input2 \<noteq> ii_RequestFingerprint input"
    and nofault: "\<And>l. env_fault env l = None"
    and valid: "ii_UserID input2 \<noteq> 0" "validOperation (ii_Operation input2)" "length (ii_KeyHash input2) = 32"
      "length (ii_RequestFingerprint input2) = 32" "ii_ExpiresAt input2 \<noteq> 0"
      "\<And>r. route = Some r \<Longrightarrow> route_trainRunID r \<noteq> 0"
    and time: "env_acquiredAt env < ir_expires rec"
  shows "AcquireIdempotency env route input2 s = Inl ErrIdempotencyConflict"
proof (cases route)
  case None
  have up: "upsert_idempotency_record env route input2 kx (env_acquiredAt env) s = Inr (None, s)" for kx
    using key time nofault other by (auto simp: upsert_idempotency_record_def Let_def completed_key_def)
  have sql: "exec_sql env l s = Inr ((), s)" for l using nofault by simp
  have "find (ir_has_key (ii_UserID input2) (ii_Operation input2) (ii_KeyHash input2))
      (idempotency_records (locals s Public)) = Some rec" "ir_fingerprint rec \<noteq> ii_RequestFingerprint input2"
    using key other by (auto simp: completed_key_def None search_schema_def)
  then show ?thesis using valid
    by (simp add: AcquireIdempotency_def tx_bind_def tx_reject_def tx_return_def tx_fail_def Let_def None sql
        up [unfolded None] local_get_def tx_get_def tx_some_def search_schema_def)
next
  case (Some r)
  have sql: "exec_sql env l s = Inr ((), s)" for l using nofault by simp
  obtain kc where kc: "find (kc_has_key (ii_UserID input2) (ii_Operation input2) (ii_KeyHash input2))
      (booking_idempotency_key_claims s) = Some kc"
    "kc_fingerprint kc \<noteq> ii_RequestFingerprint input2" "kc_expires kc = ir_expires rec"
    using key other by (auto simp: completed_key_def Some)
  then have "acquireGlobalIdempotencyClaim env r input2 s = Inl ErrIdempotencyConflict"
    using valid(6) [OF Some] time
    by (simp add: acquireGlobalIdempotencyClaim_def tx_bind_def tx_reject_def tx_return_def tx_fail_def Let_def sql tx_get_def)
  then show ?thesis using valid
    by (simp add: AcquireIdempotency_def tx_bind_def tx_reject_def tx_return_def tx_fail_def Some)
qed

lemma create_hold_loop_attempt:
  assumes "create_hold_loop n k envs cancelled others params db store = (r, db', store')" "0 < n"
  shows "\<exists>i < n. \<exists>st. let at = fold others [k..<k + i] db in
    (case r of Inr res \<Rightarrow> createHoldOnce (envs (k + i)) params at st = (Inr res, db', store')
     | Inl e \<Rightarrow> db' = at \<and> (e = ErrContext \<or> createHoldOnce (envs (k + i)) params at st = (Inl e, at, store')))"
  using assms
proof (induction n arbitrary: k db store)
  case (Suc n)
  obtain o' d s where once: "createHoldOnce (envs k) params db store = (o', d, s)" by (cases "createHoldOnce (envs k) params db store")
  have inl: "d = db" if "o' = Inl e" for e
    using once that by (auto simp: createHoldOnce_def split: if_splits dest: in_tx_Inl)
  show ?case
  proof (cases "\<exists>err. o' = Inl err \<and> isRetryableTransactionError err \<and> n \<noteq> 0 \<and> \<not> cancelled k")
    case False
    then show ?thesis
      using Suc.prems(1) once inl
      by (intro exI [of _ 0]) (auto simp: Let_def split: sum.splits if_splits intro!: exI [of _ store])
  next
    case True
    then obtain err where o': "o' = Inl err" "isRetryableTransactionError err" "n \<noteq> 0" "\<not> cancelled k" by blast
    have rest: "create_hold_loop n (Suc k) envs cancelled others params (others k db) s = (r, db', store')"
      using Suc.prems(1) once o' inl by auto
    obtain i st where i: "i < n" "let at = fold others [Suc k..<Suc k + i] (others k db) in
      (case r of Inr res \<Rightarrow> createHoldOnce (envs (Suc k + i)) params at st = (Inr res, db', store')
       | Inl e \<Rightarrow> db' = at \<and> (e = ErrContext \<or> createHoldOnce (envs (Suc k + i)) params at st = (Inl e, at, store')))"
      using Suc.IH [OF rest] o'(3) by auto
    have eq: "fold others [Suc k..<Suc k + i] (others k db) = fold others [k..<k + Suc i] db" "Suc k + i = k + Suc i"
      by (simp_all add: upt_conv_Cons del: upt_Suc)
    show ?thesis
      by (intro exI [of _ "Suc i"] conjI exI [of _ st] i(2) [unfolded eq(1), unfolded eq(2)]) (simp add: i(1))
  qed
qed simp

end
