(* ===== verification/Booking_Endings.thy ===== *)
theory Booking_Endings
  imports Booking_Holds
begin

text \<open>
  What a successful confirmation, cancellation or expiration did: tickets and orders issued, statuses
  changed, seats released; and the bounds of the expiration sweep.
\<close>

definition ticket_view :: "BookingDb \<Rightarrow> schema \<Rightarrow> TicketOrderRow list \<times> TicketRow list" where
  "ticket_view db sc = (ticket_orders (locals db sc), tickets (locals db sc))"

lemma ticket_view_simps [simp]:
  "ticket_view (s\<lparr>booking_idempotency_key_claims := a\<rparr>) = ticket_view s"
  "ticket_view (s\<lparr>reservation_quota_claims := b\<rparr>) = ticket_view s"
  "ticket_view (s\<lparr>ticket_order_shard_locators := d\<rparr>) = ticket_view s"
  "ticket_view (s\<lparr>ticket_shard_locators := e\<rparr>) = ticket_view s"
  "ticket_view (s\<lparr>outbox_events := g\<rparr>) = ticket_view s"
  "ticket_view (s\<lparr>train_run_generation_writes := h\<rparr>) = ticket_view s"
  "ticket_orders (f (locals s sc)) = ticket_orders (locals s sc) \<Longrightarrow> tickets (f (locals s sc)) = tickets (locals s sc) \<Longrightarrow>
     ticket_view (s\<lparr>locals := (locals s)(sc := f (locals s sc))\<rparr>) = ticket_view s"
  by (auto simp: ticket_view_def fun_eq_iff)

lemma frame_ticket_view:
  "tx_frame ticket_view (AcquireIdempotency env route input)"
  "tx_frame ticket_view (CompleteIdempotency env route recordID rid)"
  "tx_frame ticket_view (closeReservationQuotaClaim env route rid)"
  "tx_frame ticket_view (insertTicketOrderLocator env route a b c st m cu t)"
  "tx_frame ticket_view (insertTicketLocator env route a b c d)"
  "tx_frame ticket_view (appendReservationEvent env route rid ty payload)"
  "tx_frame ticket_view (appendTicketEvent env route rid payload)"
  "tx_frame ticket_view (recordSuccessfulGenerationWrite env route)"
  "tx_frame ticket_view (Commit env route)"
  "tx_frame ticket_view (update_status env label route hit st)"
proof -
  have "tx_frame ticket_view (retireExpiredIdempotencyClaims env ids)" for ids
    unfolding retireExpiredIdempotencyClaims_def
    by (intro tx_frame_rules tx_frame_each) (auto simp: expiredIdempotencyRecordDelete_def)
  then have "tx_frame ticket_view (acquireGlobalIdempotencyClaim env r input)" for r
    unfolding acquireGlobalIdempotencyClaim_def Let_def by (intro tx_frame_rules) simp_all
  moreover have "tx_frame ticket_view (upsert_idempotency_record env route input x a)" for x a
    unfolding upsert_idempotency_record_def Let_def by (intro tx_frame_rules) simp_all
  ultimately show "tx_frame ticket_view (AcquireIdempotency env route input)"
    unfolding AcquireIdempotency_def Let_def by (intro tx_frame_rules)
qed (unfold CompleteIdempotency_def closeReservationQuotaClaim_def insertTicketOrderLocator_def insertTicketLocator_def
    appendReservationEvent_def appendTicketEvent_def recordSuccessfulGenerationWrite_def Commit_def update_status_def
    set_status_def Let_def; intro tx_frame_rules; simp)+

definition ticket_row :: "TxEnv \<Rightarrow> nat \<times> uuid \<Rightarrow> TicketRow" where
  "ticket_row env item = \<lparr>tk_id = env_ticketID env (fst item), tk_order = env_orderID env, tk_seat = snd item,
     tk_code = ''TKT'' @ env_ticketCode env (fst item), tk_status = ''active''\<rparr>"

lemma issue_ticket_spec:
  assumes "issue_ticket env route params item s = Inr ((), s')"
  shows "ticket_view s' = (ticket_view s)(search_schema route :=
      (ticket_orders (locals s (search_schema route)), tickets (locals s (search_schema route)) @ [ticket_row env item]))"
proof -
  obtain s1 s2 payload where
      "insert_ticket env route (ticket_row env item) s = Inr ((), s1)"
    and l: "insertTicketLocator env route (env_ticketID env (fst item)) (env_orderID env) (rp_ReservationID params)
        (rp_UserID params) s1 = Inr ((), s2)"
    and e: "appendTicketEvent env route (env_ticketID env (fst item)) payload s2 = Inr ((), s')"
    using assms by (auto simp: issue_ticket_def ticket_row_def Let_def)
  then have "ticket_view s1 = (ticket_view s)(search_schema route :=
      (ticket_orders (locals s (search_schema route)), tickets (locals s (search_schema route)) @ [ticket_row env item]))"
    by (auto simp: insert_ticket_def ticket_view_def fun_eq_iff)
  then show ?thesis
    using frame_ticket_view(5) [THEN tx_frameD, OF l] frame_ticket_view(7) [THEN tx_frameD, OF e] by simp
qed

lemma issue_tickets_spec:
  "tx_each (issue_ticket env route params) items s = Inr ((), s') \<Longrightarrow>
   ticket_view s' = (ticket_view s)(search_schema route :=
      (ticket_orders (locals s (search_schema route)), tickets (locals s (search_schema route)) @ map (ticket_row env) items))"
proof (induction items arbitrary: s)
  case Nil
  then show ?case by (simp add: ticket_view_def fun_eq_iff)
next
  case (Cons item items)
  then obtain s1 where i: "issue_ticket env route params item s = Inr ((), s1)"
    and rest: "tx_each (issue_ticket env route params) items s1 = Inr ((), s')" by auto
  have t1: "ticket_orders (locals s1 (search_schema route)) = ticket_orders (locals s (search_schema route))"
    "tickets (locals s1 (search_schema route)) = tickets (locals s (search_schema route)) @ [ticket_row env item]"
    using fun_cong [OF issue_ticket_spec [OF i], of "search_schema route"] by (simp_all add: ticket_view_def)
  show ?case unfolding Cons.IH [OF rest] t1 issue_ticket_spec [OF i] by simp
qed

text \<open>The writing branch of a confirmation: its statements, then what they did.\<close>

definition confirmable :: "TxEnv \<Rightarrow> ReservationCommandParams \<Rightarrow> ReservationRow \<Rightarrow> bool" where
  "confirmable env params r \<longleftrightarrow>
     rr_id r = rp_ReservationID params \<and> rr_status r = ''held'' \<and> env_clock env < rr_expires r"

definition confirmed_order :: "TxEnv \<Rightarrow> ReservationCommandParams \<Rightarrow> ReservationRow \<Rightarrow> TicketOrderRow" where
  "confirmed_order env params row =
     \<lparr>to_id = env_orderID env, to_reservation = rp_ReservationID params, to_user = rp_UserID params,
      to_status = ''confirmed'', to_total = rr_total row, to_currency = rr_currency row\<rparr>"

definition seat_ids :: "uuid \<Rightarrow> ReservationSeatRow list \<Rightarrow> uuid list" where
  "seat_ids rid claims = map rs_id (sort_key rs_seat (filter (\<lambda>rs. rs_reservation rs = rid) claims))"

lemma write_confirmation_steps:
  assumes "write_confirmation env route params row recordID s = Inr (res, s')"
  obtains s1 s2 s3 s4 ids s5 s6 payload s7 s8 where
    "update_status env ''confirm reservation'' route (confirmable env params) ''confirmed'' s = Inr (1, s1)"
    "closeReservationQuotaClaim env route (rp_ReservationID params) s1 = Inr ((), s2)"
    "insert_ticket_order env route (confirmed_order env params row) s2 = Inr ((), s3)"
    "insertTicketOrderLocator env route (env_orderID env) (rp_ReservationID params) (rp_UserID params) ''confirmed''
         (rr_total row) (rr_currency row) (env_orderCreatedAt env) s3 = Inr ((), s4)"
    "ids = seat_ids (rp_ReservationID params) (reservation_seats (locals s4 (search_schema route)))" "ids \<noteq> []"
    "tx_each (issue_ticket env route params) (enumerate 0 ids) s4 = Inr ((), s5)"
    "CompleteIdempotency env route recordID (rp_ReservationID params) s5 = Inr ((), s6)"
    "appendReservationEvent env route (rp_ReservationID params) ''reservation.confirmed'' payload s6 = Inr ((), s7)"
    "recordSuccessfulGenerationWrite env route s7 = Inr ((), s8)" "Commit env route s8 = Inr ((), s')"
    "res = \<lparr>cr_ReservationID = rp_ReservationID params, cr_TicketOrderID = env_orderID env,
        cr_TicketCount = int (length ids), cr_Replayed = False\<rparr>"
  using assms
  by (auto simp: write_confirmation_def Let_def confirmable_def [abs_def] confirmed_order_def seat_ids_def reservationSeatIDs_def)

lemma write_confirmation_spec:
  assumes "write_confirmation env route params row recordID s = Inr (res, s')"
  defines "t \<equiv> locals s (search_schema route)" and "t' \<equiv> locals s' (search_schema route)"
  defines "ids \<equiv> seat_ids (rp_ReservationID params) (reservation_seats t)"
  shows "length (filter (confirmable env params) (reservations t)) = 1 \<and>
    core s' = (core s)(search_schema route :=
      (seat_inventory t, map (restatus (confirmable env params) ''confirmed'') (reservations t), reservation_seats t)) \<and>
    ticket_orders t' = ticket_orders t @ [confirmed_order env params row] \<and>
    tickets t' = tickets t @ map (ticket_row env) (enumerate 0 ids) \<and> ids \<noteq> [] \<and>
    res = \<lparr>cr_ReservationID = rp_ReservationID params, cr_TicketOrderID = env_orderID env,
      cr_TicketCount = int (length ids), cr_Replayed = False\<rparr>"
  using assms(1)
proof (rule write_confirmation_steps)
  fix s1 s2 s3 s4 idl s5 s6 payload s7 s8
  let ?rid = "rp_ReservationID params" and ?sc = "search_schema route"
  assume u: "update_status env ''confirm reservation'' route (confirmable env params) ''confirmed'' s = Inr (1, s1)"
    and q: "closeReservationQuotaClaim env route ?rid s1 = Inr ((), s2)"
    and o: "insert_ticket_order env route (confirmed_order env params row) s2 = Inr ((), s3)"
    and l: "insertTicketOrderLocator env route (env_orderID env) ?rid (rp_UserID params) ''confirmed''
         (rr_total row) (rr_currency row) (env_orderCreatedAt env) s3 = Inr ((), s4)"
    and idl: "idl = seat_ids ?rid (reservation_seats (locals s4 ?sc))" "idl \<noteq> []"
    and i: "tx_each (issue_ticket env route params) (enumerate 0 idl) s4 = Inr ((), s5)"
    and c: "CompleteIdempotency env route recordID ?rid s5 = Inr ((), s6)"
    and e: "appendReservationEvent env route ?rid ''reservation.confirmed'' payload s6 = Inr ((), s7)"
      "recordSuccessfulGenerationWrite env route s7 = Inr ((), s8)" "Commit env route s8 = Inr ((), s')"
    and res: "res = \<lparr>cr_ReservationID = ?rid, cr_TicketOrderID = env_orderID env,
        cr_TicketCount = int (length idl), cr_Replayed = False\<rparr>"
  have one: "length (filter (confirmable env params) (reservations t)) = 1"
    and c1: "core s1 = (core s)(?sc := (seat_inventory t, map (restatus (confirmable env params) ''confirmed'') (reservations t),
      reservation_seats t))"
    using u by (auto simp: update_status_spec t_def core_def set_status_def fun_eq_iff)
  have c4: "core s4 = core s1"
    using frame_ledger(2) [THEN tx_frameD, OF q] frame_tickets(1) [THEN tx_frameD, OF o] frame_ledger(4) [THEN tx_frameD, OF l] by simp
  have c': "core s' = core s4"
    using tx_frame_each [OF frame_issue, THEN tx_frameD, OF i] frame_complete [THEN tx_frameD, OF c]
      frame_ledger(7) [THEN tx_frameD, OF e(1)] frame_ledger(9) [THEN tx_frameD, OF e(2)] frame_ledger(10) [THEN tx_frameD, OF e(3)]
    by simp
  have ids: "idl = ids"
    using fun_cong [OF c4, of ?sc] by (simp add: c1 core_def idl(1) ids_def)
  have "ticket_view s2 = ticket_view s"
    using frame_ticket_view(10) [THEN tx_frameD, OF u] frame_ticket_view(3) [THEN tx_frameD, OF q] by simp
  moreover have "ticket_view s3 ?sc = (ticket_orders (locals s2 ?sc) @ [confirmed_order env params row], tickets (locals s2 ?sc))"
    using o by (auto simp: insert_ticket_order_def ticket_view_def)
  ultimately have v4: "ticket_view s4 ?sc = (ticket_orders t @ [confirmed_order env params row], tickets t)"
    using frame_ticket_view(4) [THEN tx_frameD, OF l] by (simp add: ticket_view_def fun_eq_iff t_def)
  have "ticket_view s' = ticket_view s5"
    using frame_ticket_view(2) [THEN tx_frameD, OF c] frame_ticket_view(6) [THEN tx_frameD, OF e(1)]
      frame_ticket_view(8) [THEN tx_frameD, OF e(2)] frame_ticket_view(9) [THEN tx_frameD, OF e(3)] by simp
  with v4 issue_tickets_spec [OF i]
  have "ticket_view s' ?sc = (ticket_orders t @ [confirmed_order env params row], tickets t @ map (ticket_row env) (enumerate 0 ids))"
    by (simp add: ids ticket_view_def [of s4])
  then show ?thesis using one c1 c4 c' idl(2) res ids by (simp add: ticket_view_def t'_def)
qed

text \<open>Ending a reservation: what the status change and the release do to the core tables.\<close>

lemma release_core:
  assumes u: "update_status env label route hit st s = Inr (1, s1)" and rel: "releaseReservationSeats env route rid s1 = Inr (n, s2)"
  defines "t \<equiv> locals s (search_schema route)"
  shows "core s2 = (core s)(search_schema route :=
      (map (release_row (release_locked rid (set_status hit st t))) (seat_inventory t), map (restatus hit st) (reservations t),
       reservation_seats t))"
    and "n = int (length (filter (\<lambda>rs. rs_reservation rs = rid) (reservation_seats t)))"
    and "length (filter hit (reservations t)) = 1"
    and "length (release_locked rid (set_status hit st t)) = length (filter (\<lambda>rs. rs_reservation rs = rid) (reservation_seats t))"
proof -
  let ?sc = "search_schema route"
  have s1: "s1 = s\<lparr>locals := (locals s)(?sc := set_status hit st t)\<rparr>" and one: "length (filter hit (reservations t)) = 1"
    using u by (auto simp: update_status_spec t_def)
  show "length (filter hit (reservations t)) = 1" by (rule one)
  note R = releaseReservationSeats_spec [OF rel]
  have t1: "locals s1 ?sc = set_status hit st t" by (simp add: s1)
  show "core s2 = (core s)(?sc :=
      (map (release_row (release_locked rid (set_status hit st t))) (seat_inventory t), map (restatus hit st) (reservations t),
       reservation_seats t))"
    unfolding R(1) t1 by (auto simp: s1 core_def fun_eq_iff set_status_def)
  show "n = int (length (filter (\<lambda>rs. rs_reservation rs = rid) (reservation_seats t)))"
    using R(3) by (simp add: t1 set_status_def)
  show "length (release_locked rid (set_status hit st t)) = length (filter (\<lambda>rs. rs_reservation rs = rid) (reservation_seats t))"
    using R(2) by (simp add: t1) (simp add: set_status_def)
qed

lemma write_cancellation_core:
  assumes "write_cancellation env route rid status recordID s = Inr (res, s')"
  defines "t \<equiv> locals s (search_schema route)" and "hit \<equiv> (\<lambda>r. rr_id r = rid \<and> rr_status r = status)"
  shows "core s' = (core s)(search_schema route :=
      (map (release_row (release_locked rid (set_status hit ''cancelled'' t))) (seat_inventory t),
       map (restatus hit ''cancelled'') (reservations t), reservation_seats t))"
    and "cn_ReleasedSeatCount res = int (length (filter (\<lambda>rs. rs_reservation rs = rid) (reservation_seats t)))"
    and "cn_ReservationID res = rid"
    and "length (release_locked rid (set_status hit ''cancelled'' t)) = length (filter (\<lambda>rs. rs_reservation rs = rid) (reservation_seats t))"
proof -
  define tail where "tail n =
     tx_bind (if status = ''confirmed'' then cancel_tickets env route rid else tx_return ()) (\<lambda>_.
     tx_bind (closeReservationQuotaClaim env route rid) (\<lambda>_.
     tx_bind (CompleteIdempotency env route recordID rid) (\<lambda>_.
     tx_bind (appendReservationEvent env route rid ''reservation.cancelled''
        [(''reservationId'', JUuid rid), (''status'', JString ''cancelled''), (''releasedSeatCount'', JInt n)]) (\<lambda>_.
     tx_bind (recordSuccessfulGenerationWrite env route) (\<lambda>_.
     tx_bind (Commit env route) (\<lambda>_.
     tx_return \<lparr>cn_ReservationID = rid, cn_ReleasedSeatCount = n, cn_Replayed = False\<rparr>))))))" for n
  have frame: "tx_frame core (tail n)" for n unfolding tail_def by (intro tx_frame_rules)
  have "write_cancellation env route rid status recordID =
    tx_bind (update_status env ''cancel reservation'' route hit ''cancelled'') (\<lambda>affected.
    tx_bind (tx_reject (affected \<noteq> 1) ErrPersistenceInvariant) (\<lambda>_.
    tx_bind (releaseReservationSeats env route rid) tail))"
    by (simp add: write_cancellation_def tail_def [abs_def] hit_def)
  then obtain s1 n s2 where u: "update_status env ''cancel reservation'' route hit ''cancelled'' s = Inr (1, s1)"
    and rel: "releaseReservationSeats env route rid s1 = Inr (n, s2)" and t: "tail n s2 = Inr (res, s')"
    using assms(1) by auto
  have res: "res = \<lparr>cn_ReservationID = rid, cn_ReleasedSeatCount = n, cn_Replayed = False\<rparr>"
    using t by (auto simp: tail_def split: if_splits)
  show "core s' = (core s)(search_schema route :=
      (map (release_row (release_locked rid (set_status hit ''cancelled'' t))) (seat_inventory t),
       map (restatus hit ''cancelled'') (reservations t), reservation_seats t))"
    "cn_ReleasedSeatCount res = int (length (filter (\<lambda>rs. rs_reservation rs = rid) (reservation_seats t)))"
    "cn_ReservationID res = rid"
    "length (release_locked rid (set_status hit ''cancelled'' t)) = length (filter (\<lambda>rs. rs_reservation rs = rid) (reservation_seats t))"
    using release_core [OF u rel] tx_frameD [OF frame t] res by (simp_all add: t_def)
qed

lemma cancel_tx_cases:
  assumes "cancel_tx env params route s = Inr (res, s')" "\<not> cn_Replayed res"
  obtains acq :: IdempotencyAcquisition and s1 row where "core s1 = core s"
    "find (\<lambda>r. rr_id r = rp_ReservationID params \<and> rr_user r = rp_UserID params)
      (reservations (locals s (search_schema route))) = Some row"
    "rr_status row = ''cancelled'' \<and> core s' = core s \<and> cn_ReleasedSeatCount res = 0 \<or>
     live (rr_status row) \<and>
       write_cancellation env route (rp_ReservationID params) (rr_status row) (ia_RecordID acq) s1 = Inr (res, s')"
proof -
  define replay where "replay acq =
     tx_bind (loadCancellationResult env route (rp_UserID params) (ia_ResourceID acq)) (\<lambda>result.
     tx_bind (Commit env route) (\<lambda>_. tx_return (result\<lparr>cn_Replayed := True\<rparr>)))" for acq :: IdempotencyAcquisition
  define body where "body acq =
     tx_bind (lockOwnedReservation env route (rp_UserID params) (rp_ReservationID params)) (\<lambda>row.
     if rr_status row = ''cancelled'' then
       tx_bind (CompleteIdempotency env route (ia_RecordID acq) (rp_ReservationID params)) (\<lambda>_.
       tx_bind (recordSuccessfulGenerationWrite env route) (\<lambda>_.
       tx_bind (Commit env route) (\<lambda>_.
       tx_return \<lparr>cn_ReservationID = rp_ReservationID params, cn_ReleasedSeatCount = 0, cn_Replayed = False\<rparr>)))
     else if rr_status row \<noteq> ''held'' \<and> rr_status row \<noteq> ''confirmed'' then tx_fail ErrInvalidState
     else write_cancellation env route (rp_ReservationID params) (rr_status row) (ia_RecordID acq))" for acq :: IdempotencyAcquisition
  obtain input acq s1 where a: "AcquireIdempotency env route input s = Inr (acq, s1)"
    and alt: "(if ia_Replayed acq then replay acq else body acq) s1 = Inr (res, s')"
    using assms(1) unfolding cancel_tx_def replay_def [symmetric] body_def [symmetric] tx_bind_eq_Inr by blast
  have "\<not> ia_Replayed acq" using alt assms(2) by (cases "ia_Replayed acq") (auto simp: replay_def)
  with alt have "body acq s1 = Inr (res, s')" by simp
  then obtain row s2 where
      lock: "lockOwnedReservation env route (rp_UserID params) (rp_ReservationID params) s1 = Inr (row, s2)"
    and rest: "if rr_status row = ''cancelled'' then cn_ReleasedSeatCount res = 0 \<and>
        (\<exists>s3 s4. CompleteIdempotency env route (ia_RecordID acq) (rp_ReservationID params) s2 = Inr ((), s3) \<and>
          recordSuccessfulGenerationWrite env route s3 = Inr ((), s4) \<and> Commit env route s4 = Inr ((), s'))
       else live (rr_status row) \<and>
         write_cancellation env route (rp_ReservationID params) (rr_status row) (ia_RecordID acq) s2 = Inr (res, s')"
    by (auto simp: body_def live_def split: if_splits)
  have s2: "s2 = s1" using read_onlyD(6) [OF lock] .
  have same: "core s1 = core s" using frame_acquire [THEN tx_frameD, OF a] .
  have row: "find (\<lambda>r. rr_id r = rp_ReservationID params \<and> rr_user r = rp_UserID params)
      (reservations (locals s (search_schema route))) = Some row"
    using lock fun_cong [OF same, of "search_schema route"] by (auto simp: lockOwnedReservation_def core_def)
  show thesis
  proof (rule that [OF same row])
    show "rr_status row = ''cancelled'' \<and> core s' = core s \<and> cn_ReleasedSeatCount res = 0 \<or>
     live (rr_status row) \<and>
       write_cancellation env route (rp_ReservationID params) (rr_status row) (ia_RecordID acq) s1 = Inr (res, s')"
    proof (cases "rr_status row = ''cancelled''")
      case True
      with rest obtain s3 s4 where c: "CompleteIdempotency env route (ia_RecordID acq) (rp_ReservationID params) s2 = Inr ((), s3)"
        "recordSuccessfulGenerationWrite env route s3 = Inr ((), s4)" "Commit env route s4 = Inr ((), s')" by auto
      have "core s' = core s"
        using frame_complete [THEN tx_frameD, OF c(1)] frame_ledger(9) [THEN tx_frameD, OF c(2)]
          frame_ledger(10) [THEN tx_frameD, OF c(3)] same s2 by simp
      with True rest show ?thesis by simp
    next
      case False
      with rest s2 show ?thesis by simp
    qed
  qed
qed

lemma ended_occupied:
  assumes ok: "booking_ok (inven, map (restatus hit st) rows, claims)" and keys: "distinct (map rr_id rows)"
    and row: "row \<in> set rows" "hit row" and hit: "\<And>r. hit r \<Longrightarrow> rr_id r = rid" and st: "\<not> live st"
    and si: "si \<in> set inven" and x: "x \<in> occupied (si_occupied si)"
  shows "\<exists>c \<in> set claims. \<exists>r \<in> set rows. rs_seat c = si_seat si \<and> rr_id r = rs_reservation c \<and> rr_id r \<noteq> rid \<and>
    rr_train_run r = si_train_run si \<and> live (rr_status r) \<and> nat (rr_from r) \<le> x \<and> x < nat (rr_to r)"
proof -
  have other: "r \<in> set rows \<and> rr_id r \<noteq> rid" if r: "r \<in> set (map (restatus hit st) rows)" "live (rr_status r)" for r
  proof -
    from r(1) obtain q where q: "q \<in> set rows" "r = restatus hit st q" by auto
    have "\<not> hit q" using q(2) r(2) st by (auto simp: restatus_def)
    moreover from this have "rr_id q \<noteq> rid" using keyed_uniq [OF keys q(1) row(1)] row(2) hit by metis
    ultimately show ?thesis using q by (simp add: restatus_def)
  qed
  from booking_ok_occupied [OF ok si] x obtain c r where
      "c \<in> set claims" "r \<in> set (map (restatus hit st) rows)" "rs_seat c = si_seat si" "rr_id r = rs_reservation c"
      "rr_train_run r = si_train_run si" "live (rr_status r)" "nat (rr_from r) \<le> x" "x < nat (rr_to r)" by metis
  with other [of r] show ?thesis by blast
qed

subsection \<open>Expiration\<close>

lemma due_reservations_mem:
  assumes "due_reservations env excluded t = r # rest"
  shows "r \<in> set (reservations t)" "rr_status r = ''held''" "rr_expires r \<le> env_clock env" "rr_id r \<notin> set excluded"
    "\<not> env_locked_reservation env (rr_id r)"
proof -
  have "r \<in> set (due_reservations env excluded t)" by (simp add: assms)
  then show "r \<in> set (reservations t)" "rr_status r = ''held''" "rr_expires r \<le> env_clock env" "rr_id r \<notin> set excluded"
    "\<not> env_locked_reservation env (rr_id r)" by (auto simp: due_reservations_def)
qed

lemma expire_claimed_core:
  assumes "expire_claimed_tx env rid s = Inr ((), s')"
  defines "t \<equiv> locals s Public"
  defines "hit \<equiv> (\<lambda>r. rr_id r = rid \<and> rr_status r = ''held'' \<and> rr_expires r \<le> env_update_clock env)"
  shows "core s' = (core s)(Public := (map (release_row (release_locked rid (set_status hit ''expired'' t))) (seat_inventory t),
      map (restatus hit ''expired'') (reservations t), reservation_seats t))" "length (filter hit (reservations t)) = 1"
proof -
  obtain s1 n s2 payload s3 s4 where
      u: "update_status env ''transition to expired'' None hit ''expired'' s = Inr (1, s1)"
    and rel: "releaseReservationSeats env None rid s1 = Inr (n, s2)"
    and e: "appendReservationEvent env None rid ''reservation.expired'' payload s2 = Inr ((), s3)"
      "closeReservationQuotaClaim env None rid s3 = Inr ((), s4)" "Commit env None s4 = Inr ((), s')"
    using assms(1) by (auto simp: expire_claimed_tx_def expire_status_def hit_def)
  have "core s' = core s2"
    using frame_ledger(7) [THEN tx_frameD, OF e(1)] frame_ledger(2) [THEN tx_frameD, OF e(2)] frame_ledger(10) [THEN tx_frameD, OF e(3)]
    by simp
  then show "core s' = (core s)(Public := (map (release_row (release_locked rid (set_status hit ''expired'' t))) (seat_inventory t),
      map (restatus hit ''expired'') (reservations t), reservation_seats t))" "length (filter hit (reservations t)) = 1"
    using release_core [OF u rel] by (simp_all add: t_def search_schema_def)
qed

lemma expire_due_loop_ok:
  assumes "\<And>n d. db_ok d \<Longrightarrow> db_ok (others n d)" "db_ok db"
    and "expire_due_loop n pass envs others expired failed failures db = ((ids, errs, returned), db')"
  shows "db_ok db' \<and> length ids \<le> length expired + n"
  using assms(2,3)
proof (induction n arbitrary: pass expired failed failures db)
  case (Suc n)
  obtain i found err d where e: "expireOneDue (envs pass) failed (others pass db) = ((i, found, err), d)"
    by (metis prod.collapse)
  have d: "db_ok d" using expireOneDue_keeps [OF e] assms(1) Suc.prems(1) by blast
  show ?case
    using Suc.prems(2) e d Suc.IH [OF d] by (fastforce split: if_splits option.splits)
qed simp

lemma sweep_shard_ok:
  assumes "\<And>n d. db_ok d \<Longrightarrow> db_ok (others n d)" "db_ok (xs_db x)" "length (xs_expired x) \<le> limit"
  shows "db_ok (xs_db (sweep_shard envs others limit s x)) \<and> length (xs_expired (sweep_shard envs others limit s x)) \<le> limit"
  using assms
  by (auto simp: sweep_shard_def Let_def split: sum.splits option.splits bool.splits prod.splits
      dest: expireLocatedReservation_keeps)

lemma sweep_rounds_ok:
  assumes "\<And>n d. db_ok d \<Longrightarrow> db_ok (others n d)" "db_ok (xs_db x)" "length (xs_expired x) \<le> limit"
  shows "db_ok (xs_db (sweep_rounds fuel envs others limit shards x)) \<and>
    length (xs_expired (sweep_rounds fuel envs others limit shards x)) \<le> limit"
  using assms(2,3)
proof (induction fuel arbitrary: x)
  case (Suc fuel)
  have round: "db_ok (xs_db (fold (sweep_shard envs others limit) ss y)) \<and> length (xs_expired (fold (sweep_shard envs others limit) ss y)) \<le> limit"
    if "db_ok (xs_db y)" "length (xs_expired y) \<le> limit" for ss y
    using that by (induction ss arbitrary: y) (simp_all add: sweep_shard_ok [OF assms(1)])
  show ?case using Suc.IH round Suc.prems by simp
qed simp

lemma cleanup_keeps:
  "cleanupExpiredIdempotency env limit db = (r, db') \<Longrightarrow> db_ok db \<Longrightarrow> db_ok db'"
  "cleanupExpiredIdempotencyAcrossShards env limit db = (r, db') \<Longrightarrow> db_ok db \<Longrightarrow> db_ok db'"
  by (simp_all add: db_ok_def cleanup_core cleanup_shards_core)

lemma expireDueAcrossShards_ok:
  assumes "\<And>n d. db_ok d \<Longrightarrow> db_ok (others n d)" "db_ok db"
    and "expireDueAcrossShards envs env others router limit db store = ((ids, errs), db', store')"
  shows "db_ok db' \<and> length ids \<le> limit"
proof (cases "ListEnabledShards env router db")
  case (Inl e)
  with assms show ?thesis by (auto simp: expireDueAcrossShards_def)
next
  case (Inr shards)
  define x where "x = sweep_rounds (limit + 1) envs others limit shards
                 \<lparr>xs_expired = [], xs_excluded = (\<lambda>_. []), xs_failedShards = [], xs_failures = [],
                  xs_madeProgress = True, xs_attempts = 0, xs_pass = 0, xs_db = db, xs_store = store\<rparr>"
  have "db_ok (xs_db x) \<and> length (xs_expired x) \<le> limit"
    unfolding x_def by (rule sweep_rounds_ok [OF assms(1)]) (simp_all add: assms(2))
  then show ?thesis
    using assms(3) unfolding expireDueAcrossShards_def Inr sum.case x_def [symmetric]
    by (auto simp: Let_def split: prod.splits intro: cleanup_keeps)
qed

end
