(* ===== verification/Booking_Example.thy ===== *)
theory Booking_Example
  imports Booking_Safety
begin

text \<open>
  Small concrete tables and environments on which the booking properties are exercised: one run of
  three segments with one seat (\<open>ex_free\<close>), the seat held for one journey (\<open>ex_held\<close>) and for two that meet
  at stop 2 (\<open>ex_full\<close>), and the commands that lead from one to the next, evaluated.
\<close>

subsection \<open>Tables\<close>

definition ex_empty :: LocalTables where
  "ex_empty = \<lparr>seat_inventory = [], reservations = [], reservation_seats = [], ticket_orders = [], tickets = [],
     idempotency_records = [], train_run_write_fences = []\<rparr>"

definition ex_seat :: "varbit \<Rightarrow> int64 \<Rightarrow> InventoryRow" where
  "ex_seat bits v = \<lparr>si_train_run = 100, si_segment_count = 3, si_seat = 9, si_class = ''standard'',
     si_occupied = bits, si_version = v\<rparr>"

definition ex_reservation :: "uuid \<Rightarrow> uuid \<Rightarrow> int \<Rightarrow> int \<Rightarrow> int64 \<Rightarrow> ReservationRow" where
  "ex_reservation i user from to amount = \<lparr>rr_id = i, rr_user = user, rr_train_run = 100, rr_segment_count = 3,
     rr_from = from, rr_to = to, rr_class = ''standard'', rr_status = ''held'', rr_expires = 900000,
     rr_total = amount, rr_currency = ''CHF''\<rparr>"

definition ex_claim :: "uuid \<Rightarrow> uuid \<Rightarrow> uuid \<Rightarrow> varbit \<Rightarrow> int64 \<Rightarrow> ReservationSeatRow" where
  "ex_claim i reservation passenger bits amount = \<lparr>rs_id = i, rs_reservation = reservation, rs_train_run = 100,
     rs_segment_count = 3, rs_seat = 9, rs_passenger = passenger, rs_mask = bits, rs_fare = amount, rs_currency = ''CHF''\<rparr>"

definition ex_with :: "LocalTables \<Rightarrow> BookingDb" where
  "ex_with t = \<lparr>train_runs = [\<lparr>tr_id = 100, tr_train = 7, tr_route = 50, tr_segment_count = 3, tr_status = ''scheduled''\<rparr>],
     coaches = [\<lparr>coach_id = 8, coach_train = 7, coach_number = ''C1'', coach_class = ''standard''\<rparr>],
     seats = [\<lparr>seat_id = 9, seat_coach = 8, seat_number = ''1A'', seat_active = True\<rparr>],
     passengers = [\<lparr>passenger_id = 21, passenger_user = 20\<rparr>, \<lparr>passenger_id = 31, passenger_user = 30\<rparr>],
     fares = [\<lparr>fare_active = True, fare_from = 0, fare_to = 2, fare_class = ''standard'', fare_train_run = None,
               fare_route = Some 50, fare_amount = 1500, fare_currency = ''CHF''\<rparr>,
              \<lparr>fare_active = True, fare_from = 2, fare_to = 3, fare_class = ''standard'', fare_train_run = None,
               fare_route = Some 50, fare_amount = 900, fare_currency = ''CHF''\<rparr>],
     hot_train_policies = [], train_run_shard_assignments = [], booking_shards = [],
     train_run_generation_writes = [], reservation_quota_claims = [], booking_idempotency_key_claims = [],
     reservation_shard_locators = [], ticket_order_shard_locators = [], ticket_shard_locators = [],
     outbox_events = [], locals = (\<lambda>sc. if sc = Public then t else ex_empty)\<rparr>"

definition ex_free :: BookingDb where
  "ex_free = ex_with (ex_empty\<lparr>seat_inventory := [ex_seat [False, False, False] 0]\<rparr>)"

lemmas ex_rows = ex_seat_def ex_reservation_def ex_claim_def ex_with_def ex_empty_def ex_free_def

subsection \<open>Environments and parameters\<close>

definition ex_env :: "nat \<Rightarrow> gotime \<Rightarrow> TxEnv" where
  "ex_env k now = \<lparr>env_fault = (\<lambda>_. None), env_acquiredAt = now, env_clock = now, env_update_clock = now,
     env_recordID = 1000 + k, env_claimID = 2000 + k, env_reservationID = 3000 + k, env_orderID = 4000 + k,
     env_orderCreatedAt = now, env_seatRowID = (\<lambda>i. 5000 + 10 * k + i), env_ticketID = (\<lambda>i. 6000 + 10 * k + i),
     env_ticketCode = (\<lambda>i. replicate (k + i) CHR ''0''), env_locked_seat = (\<lambda>_. False), env_locked_reservation = (\<lambda>_. False),
     env_locked_claim = (\<lambda>_. False), env_locked_assignment = (\<lambda>_. False), env_collate = map (\<lambda>c. of_char c),
     env_unicode = \<lparr>uni_lower = (\<lambda>s. s), uni_upper = (\<lambda>s. s), uni_trim = (\<lambda>s. s)\<rparr>,
     env_json = (\<lambda>_. Some ''{}'')\<rparr>"

definition ex_params :: "byte \<Rightarrow> uuid \<Rightarrow> uuid \<Rightarrow> int \<Rightarrow> int \<Rightarrow> CreateHoldParams" where
  "ex_params k user passenger from to = \<lparr>cp_UserID = user, cp_TrainRunID = 100, cp_FromStopIndex = from, cp_ToStopIndex = to,
     cp_SeatClass = ''Standard'', cp_PassengerIDs = [passenger], cp_HoldExpiresAt = 900000, cp_IdempotencyKeyHash = replicate 32 k,
     cp_RequestFingerprint = replicate 32 7, cp_IdempotencyExpiresAt = 900000, cp_AdmissionPolicy = None\<rparr>"

definition ex_store :: Store where
  "ex_store = \<lparr>store_limits = DefaultReservationQuotaLimits, store_shards = None\<rparr>"

lemma ex_env_simps [simp]:
  "env_fault (ex_env k now) l = None" "env_acquiredAt (ex_env k now) = now" "env_clock (ex_env k now) = now"
  "env_update_clock (ex_env k now) = now"
  "env_recordID (ex_env k now) = 1000 + k" "env_reservationID (ex_env k now) = 3000 + k" "env_orderID (ex_env k now) = 4000 + k"
  "env_orderCreatedAt (ex_env k now) = now" "env_ticketID (ex_env k now) i = 6000 + 10 * k + i"
  "env_ticketCode (ex_env k now) i = replicate (k + i) CHR ''0''"
  "env_seatRowID (ex_env k now) i = 5000 + 10 * k + i" "env_locked_seat (ex_env k now) x = False"
  "env_locked_reservation (ex_env k now) x = False"
  "env_json (ex_env k now) p = Some ''{}''"
  by (simp_all add: ex_env_def)

lemma char_ex: "char_of (115::nat) = CHR ''s''"
  by code_simp

lemma lower_ex: "ToLower (env_unicode (ex_env k now)) ''Standard'' = ''standard''"
 "ToLower (env_unicode (ex_env k now)) ''standard'' = ''standard''"
  by (simp_all add: ToLower_def ascii_string_def ascii_lower_def byte_of_def char_ex)

lemma class_ex: "validSeatClass (env_unicode (ex_env k now)) ''Standard''" "validSeatClass (env_unicode (ex_env k now)) ''standard''"
  by (simp_all add: validSeatClass_def lower_ex)

lemma parse_ex: "ParseSeatClass (env_unicode (ex_env k now)) (TrimSpace (env_unicode (ex_env k now)) ''standard'') = Inr ''standard''"
  by (simp add: ParseSeatClass_def TrimSpace_def ascii_string_def byte_of_def ascii_space_def Let_def lower_ex SeatClass_IsValid_def)

lemma mask_ex:
  "NewSegmentMask 3 0 2 = Inr \<lparr>mask_bits = [192], bitLength = 3\<rparr>"
  "NewSegmentMask 3 2 3 = Inr \<lparr>mask_bits = [32], bitLength = 3\<rparr>"
  by code_simp+

lemma bits_ex:
  "varbit_of (EncodeSegmentMask \<lparr>mask_bits = [192], bitLength = 3\<rparr>) = [True, True, False]"
  "varbit_of (EncodeSegmentMask \<lparr>mask_bits = [32], bitLength = 3\<rparr>) = [False, False, True]"
  "varbit_recv_ok (EncodeSegmentMask \<lparr>mask_bits = [192], bitLength = 3\<rparr>)"
  "varbit_recv_ok (EncodeSegmentMask \<lparr>mask_bits = [32], bitLength = 3\<rparr>)"
  by code_simp+

lemma zero_ex:
  "\<not> IsZero_mask \<lparr>mask_bits = [192], bitLength = 3\<rparr>"
  "\<not> IsZero_mask \<lparr>mask_bits = [32], bitLength = 3\<rparr>"
  by code_simp+

subsection \<open>The commands on these tables\<close>

lemmas ex_command = in_tx_def run_tx_def tx_defs exec_sql_def Begin_def Commit_def on_router_def ex_store_def
  local_get_def local_modify_def unique_violation_def search_schema_def Let_def
  AcquireIdempotency_def upsert_idempotency_record_def validOperation_def ir_has_key_def
  OperationReservationCreate_def OperationReservationConfirm_def OperationReservationCancel_def
  CompleteIdempotency_def appendReservationEvent_def validReservationEvent_def outbox_row_def recordSuccessfulGenerationWrite_def
  maxOutboxPayloadBytes_def idempotency_ttl_def

lemmas ex_hold_defs = createHoldOnce_def ex_params_def validateCreateHoldParams_def class_ex adjacent_duplicate_def
    beginCreateHoldTransaction_def create_hold_tx_def
    new_hold_def lower_ex recheckAdmissionPolicy_def policylock_acquire_def parse_ex enforceReservationQuota_def
    limits_valid_def DefaultReservationQuotaLimits_def local_quota_counts_def held_of_def atOrAboveLimit_def mask_ex
    ownedPassengerIDs_def ensurePassengersAvailable_def passenger_conflicts_def select_fare_def NewMoney_def validCurrency_def
    Money_Multiply_def MaxInt64_def quot_def wrap64_def


lemmas ex_write_defs = write_hold_def AllocateSeats_def zero_ex bits_ex candidates_def List.map_filter_def inventory_join_def
    free_for_def reserve_rows_def insert_reservation_def insert_reservation_seat_def reservation_seat_row_def
    insertReservationQuotaClaim_def insertReservationLocator_def bit_length_sql_def bit_count_sql_def bit_and_sql_def
    bit_or_sql_def zero_varbit_def pg_timestamptz_def

definition ex_record :: "uuid \<Rightarrow> uuid \<Rightarrow> uuid \<Rightarrow> string \<Rightarrow> byte \<Rightarrow> IdempotencyRow" where
  "ex_record i user resource operation k = \<lparr>ir_id = i, ir_user = user, ir_operation = operation, ir_key = replicate 32 k,
     ir_fingerprint = replicate 32 7, ir_status = ''completed'', ir_resource = Some resource,
     ir_expires = 86400000001000, ir_train_run = None\<rparr>"

definition ex_event :: "string \<Rightarrow> uuid \<Rightarrow> string \<Rightarrow> OutboxRow" where
  "ex_event kind aggregate event = \<lparr>ob_aggregate_type = kind, ob_aggregate = aggregate, ob_event_type = event,
     ob_event_version = 1, ob_payload = ''{}'', ob_train_run = None, ob_shard = ''global'', ob_generation = None\<rparr>"

definition ex_held_tables :: LocalTables where
  "ex_held_tables = ex_empty\<lparr>seat_inventory := [ex_seat [True, True, False] 1],
     reservations := [ex_reservation 3001 20 0 2 1500],
     reservation_seats := [ex_claim 5010 3001 21 [True, True, False] 1500],
     idempotency_records := [ex_record 1001 20 3001 ''reservation.create'' 1]\<rparr>"

definition ex_held :: BookingDb where
  "ex_held = (ex_with ex_held_tables)\<lparr>outbox_events := [ex_event ''reservation'' 3001 ''reservation.held'']\<rparr>"

lemma ex_commission:
  "Store_InitializeInventory (ex_env 0 1000) 100 (ex_with ex_empty) ex_store = (Inr 1, ex_free, ex_store)"
  by (simp add: ex_command Store_InitializeInventory_def InitializeInventory_def ex_rows active_seats_def
        insert_inventory_def zero_inventory_def,
      simp add: ex_command zero_varbit_def fun_upd_def fun_eq_iff numeral_3_eq_3)

lemma ex_hold:
  "createHoldOnce (ex_env 1 1000) (ex_params 1 20 21 0 2) ex_free ex_store =
     (Inr \<lparr>ch_ReservationID = 3001, ch_SeatCount = 1, ch_TotalAmountMinor = 1500, ch_Currency = ''CHF'', ch_Replayed = False\<rparr>,
      ex_held, ex_store)"
  by (simp add: ex_command ex_hold_defs ex_rows,
      simp add: ex_command ex_write_defs class_ex lower_ex,
      simp add: ex_held_def ex_held_tables_def ex_rows ex_record_def ex_event_def fun_upd_def fun_eq_iff)

lemmas ex_held_rows = ex_held_def ex_held_tables_def ex_rows ex_record_def ex_event_def

definition ex_full :: BookingDb where
  "ex_full = (ex_with (ex_empty\<lparr>seat_inventory := [ex_seat [True, True, True] 2],
     reservations := [ex_reservation 3001 20 0 2 1500, ex_reservation 3002 30 2 3 900],
     reservation_seats := [ex_claim 5010 3001 21 [True, True, False] 1500, ex_claim 5020 3002 31 [False, False, True] 900],
     idempotency_records := [ex_record 1001 20 3001 ''reservation.create'' 1, ex_record 1002 30 3002 ''reservation.create'' 1]\<rparr>))
   \<lparr>outbox_events := [ex_event ''reservation'' 3001 ''reservation.held'', ex_event ''reservation'' 3002 ''reservation.held'']\<rparr>"

lemma ex_second_hold:
  "createHoldOnce (ex_env 2 1000) (ex_params 1 30 31 2 3) ex_held ex_store =
     (Inr \<lparr>ch_ReservationID = 3002, ch_SeatCount = 1, ch_TotalAmountMinor = 900, ch_Currency = ''CHF'', ch_Replayed = False\<rparr>,
      ex_full, ex_store)"
  by (simp add: ex_command ex_hold_defs ex_held_rows,
      simp add: ex_command ex_write_defs class_ex lower_ex,
      simp add: ex_full_def ex_held_rows fun_upd_def fun_eq_iff)

text \<open>The run from empty tables: commission, then sell the seat twice, once for each journey.\<close>

lemma ex_start_ok: "db_ok (ex_with ex_empty)"
  by (rule db_ok_empty) (simp add: core_def ex_rows)

lemma ex_trace:
  "booking_step\<^sup>*\<^sup>* (ex_with ex_empty) ex_free" "booking_step\<^sup>*\<^sup>* (ex_with ex_empty) ex_held"
  "booking_step\<^sup>*\<^sup>* (ex_with ex_empty) ex_full"
proof -
  have s: "booking_step (ex_with ex_empty) ex_free" "booking_step ex_free ex_held" "booking_step ex_held ex_full"
    using booking_step.commission [OF ex_commission] booking_step.hold [OF ex_hold] booking_step.hold [OF ex_second_hold]
    by simp_all
  show a: "booking_step\<^sup>*\<^sup>* (ex_with ex_empty) ex_free" using s(1) by (rule r_into_rtranclp)
  show b: "booking_step\<^sup>*\<^sup>* (ex_with ex_empty) ex_held" using a s(2) by (rule rtranclp.rtrancl_into_rtrancl)
  show "booking_step\<^sup>*\<^sup>* (ex_with ex_empty) ex_full" using b s(3) by (rule rtranclp.rtrancl_into_rtrancl)
qed

lemmas ex_ok = ex_trace [THEN booking_steps_ok, OF ex_start_ok]

definition ex_order_params :: "byte \<Rightarrow> gotime \<Rightarrow> ReservationCommandParams" where
  "ex_order_params k now = \<lparr>rp_UserID = 20, rp_ReservationID = 3001, rp_Now = now, rp_IdempotencyKeyHash = replicate 32 k,
     rp_RequestFingerprint = replicate 32 7, rp_IdempotencyExpiresAt = 900000\<rparr>"


definition ex_confirmed :: BookingDb where
  "ex_confirmed = (ex_with (ex_held_tables\<lparr>
      reservations := [(ex_reservation 3001 20 0 2 1500)\<lparr>rr_status := ''confirmed''\<rparr>],
      ticket_orders := [\<lparr>to_id = 4002, to_reservation = 3001, to_user = 20, to_status = ''confirmed'', to_total = 1500, to_currency = ''CHF''\<rparr>],
      tickets := [\<lparr>tk_id = 6020, tk_order = 4002, tk_seat = 5010, tk_code = ''TKT00'', tk_status = ''active''\<rparr>],
      idempotency_records := [ex_record 1001 20 3001 ''reservation.create'' 1, ex_record 1002 20 3001 ''reservation.confirm'' 2]\<rparr>))
    \<lparr>outbox_events := [ex_event ''reservation'' 3001 ''reservation.held'', ex_event ''ticket'' 6020 ''ticket.created'',
       ex_event ''reservation'' 3001 ''reservation.confirmed'']\<rparr>"

lemmas ex_confirm_defs = beginReservationCommandTransaction_def validateReservationCommandParams_def ex_order_params_def
    lockOwnedReservation_def closeReservationQuotaClaim_def

lemma ex_confirm:
  "ConfirmReservation (ex_env 2 1000) (ex_order_params 2 1000) ex_held ex_store =
     (Inr \<lparr>cr_ReservationID = 3001, cr_TicketOrderID = 4002, cr_TicketCount = 1, cr_Replayed = False\<rparr>, ex_confirmed, ex_store)"
  by (simp add: ex_command ex_confirm_defs ConfirmReservation_def confirm_tx_def ex_held_rows,
      simp add: ex_command write_confirmation_def update_status_def set_status_def restatus_def closeReservationQuotaClaim_def
     insert_ticket_order_def insertTicketOrderLocator_def reservationSeatIDs_def issue_ticket_def insert_ticket_def
     insertTicketLocator_def appendTicketEvent_def ex_order_params_def,
      simp add: ex_confirmed_def ex_held_rows fun_upd_def fun_eq_iff numeral_2_eq_2)

definition ex_released :: "string \<Rightarrow> IdempotencyRow list \<Rightarrow> BookingDb" where
  "ex_released status records = (ex_with (ex_held_tables\<lparr>
      seat_inventory := [ex_seat [False, False, False] 2],
      reservations := [(ex_reservation 3001 20 0 2 1500)\<lparr>rr_status := status\<rparr>],
      idempotency_records := [ex_record 1001 20 3001 ''reservation.create'' 1] @ records\<rparr>))
    \<lparr>outbox_events := [ex_event ''reservation'' 3001 ''reservation.held'', ex_event ''reservation'' 3001 (''reservation.'' @ status)]\<rparr>"

lemmas ex_release_defs = update_status_def set_status_def restatus_def closeReservationQuotaClaim_def
     releaseReservationSeats_def release_update_def release_locked_def release_match_def release_row_def same_seat_def
     List.map_filter_def bit_length_sql_def bit_and_sql_def bit_not_sql_def

lemma ex_cancel:
  "CancelReservation (ex_env 2 1000) (ex_order_params 2 1000) ex_held ex_store =
     (Inr \<lparr>cn_ReservationID = 3001, cn_ReleasedSeatCount = 1, cn_Replayed = False\<rparr>,
      ex_released ''cancelled'' [ex_record 1002 20 3001 ''reservation.cancel'' 2], ex_store)"
  by (simp add: ex_command ex_confirm_defs CancelReservation_def cancel_tx_def ex_held_rows,
      simp add: ex_command write_cancellation_def ex_release_defs,
      simp add: ex_released_def ex_held_rows fun_upd_def fun_eq_iff)

lemma ex_expire:
  "expireOneDue (ex_env 2 900000) [] ex_held = ((3001, True, None), ex_released ''expired'' [])"
  by (simp add: ex_command expireOneDue_def due_reservations_def ex_held_rows,
      simp add: ex_command expire_claimed_tx_def expire_status_def ex_release_defs,
      simp add: ex_released_def ex_held_rows fun_upd_def fun_eq_iff)
end
