(* ===== verification/Booking_Properties.thy ===== *)
theory Booking_Properties
  imports Booking_Endings Booking_Example
begin

text \<open>
  The properties of the booking store, each applied to the concrete run of \<open>Booking_Example\<close>.
\<close>

text \<open>
  C1. Whatever commands run, in whatever order and environment, and whatever they return, from tables
  that satisfy the invariant (empty tables do): two live claims on the same seat of the same run
  belong to journeys of which one ends where or before the other begins.
\<close>

theorem no_double_booking:
  assumes "db_ok db0" "booking_step\<^sup>*\<^sup>* db0 db"
    and "c \<in> set (reservation_seats (locals db sc))" "r \<in> set (reservations (locals db sc))"
      "rr_id r = rs_reservation c" "live (rr_status r)"
    and "d \<in> set (reservation_seats (locals db sc))" "q \<in> set (reservations (locals db sc))"
      "rr_id q = rs_reservation d" "live (rr_status q)"
    and "c \<noteq> d" "rs_seat c = rs_seat d" "rr_train_run r = rr_train_run q"
  shows "rr_to r \<le> rr_from q \<or> rr_to q \<le> rr_from r"
proof -
  have "booking_ok (core db sc)" using booking_steps_ok [OF assms(2,1)] by (simp add: db_ok_def)
  then show ?thesis unfolding core_def by (rule booking_ok_journeys) (rule assms)+
qed

theorem no_double_booking_witness:
  "rr_to (ex_reservation 3001 20 0 2 1500) \<le> rr_from (ex_reservation 3002 30 2 3 900) \<or>
   rr_to (ex_reservation 3002 30 2 3 900) \<le> rr_from (ex_reservation 3001 20 0 2 1500)"
  by (rule no_double_booking [where db = ex_full and sc = Public and
        c = "ex_claim 5010 3001 21 [True, True, False] 1500" and d = "ex_claim 5020 3002 31 [False, False, True] 900",
        OF ex_start_ok ex_trace(3)])
     (simp_all add: ex_full_def ex_rows live_def)

text \<open>
  C2. In every reachable state a segment of a seat is marked occupied exactly when a live journey on
  that seat of that run covers it: no sold segment is free and no free segment is blocked.
\<close>

theorem inventory_exact:
  assumes "db_ok db0" "booking_step\<^sup>*\<^sup>* db0 db" "si \<in> set (seat_inventory (locals db sc))"
  shows "x \<in> occupied (si_occupied si) \<longleftrightarrow>
    (\<exists>c \<in> set (reservation_seats (locals db sc)). \<exists>r \<in> set (reservations (locals db sc)).
       rs_seat c = si_seat si \<and> rr_id r = rs_reservation c \<and> rr_train_run r = si_train_run si \<and>
       live (rr_status r) \<and> nat (rr_from r) \<le> x \<and> x < nat (rr_to r))"
proof -
  have "booking_ok (core db sc)" using booking_steps_ok [OF assms(2,1)] by (simp add: db_ok_def)
  then show ?thesis unfolding core_def by (rule booking_ok_occupied) (rule assms(3))
qed

theorem inventory_exact_witness: "\<forall>x. x \<in> occupied [True, True, False] \<longleftrightarrow> x < 2"
  using inventory_exact [OF ex_start_ok ex_trace(2), of "ex_seat [True, True, False] 1" Public]
  by (simp add: ex_held_rows live_def)

text \<open>C19. In every reachable state two live claims on a run are for different passengers.\<close>

theorem no_passenger_twice:
  assumes "db_ok db0" "booking_step\<^sup>*\<^sup>* db0 db"
    and "c \<in> set (reservation_seats (locals db sc))" "r \<in> set (reservations (locals db sc))"
      "rr_id r = rs_reservation c" "live (rr_status r)"
    and "d \<in> set (reservation_seats (locals db sc))" "q \<in> set (reservations (locals db sc))"
      "rr_id q = rs_reservation d" "live (rr_status q)"
    and "c \<noteq> d" "rr_train_run r = rr_train_run q"
  shows "rs_passenger c \<noteq> rs_passenger d"
proof -
  have "inj_on rs_passenger (claims_of (reservations (locals db sc)) (reservation_seats (locals db sc)) (rr_train_run r))"
    using booking_steps_ok [OF assms(2,1)] by (simp add: db_ok_def booking_ok_def passengers_ok_def core_def)
  moreover have "c \<in> claims_of (reservations (locals db sc)) (reservation_seats (locals db sc)) (rr_train_run r)"
    "d \<in> claims_of (reservations (locals db sc)) (reservation_seats (locals db sc)) (rr_train_run r)"
    unfolding claims_of_def mem_Collect_eq using assms(3-) by metis+
  ultimately show ?thesis using assms(11) by (auto dest: inj_onD)
qed

theorem no_passenger_twice_witness:
  "rs_passenger (ex_claim 5010 3001 21 [True, True, False] 1500) \<noteq> rs_passenger (ex_claim 5020 3002 31 [False, False, True] 900)"
  by (rule no_passenger_twice [where db = ex_full and sc = Public and
        r = "ex_reservation 3001 20 0 2 1500" and q = "ex_reservation 3002 30 2 3 900", OF ex_start_ok ex_trace(3)])
     (simp_all add: ex_full_def ex_rows live_def)

text \<open>
  C3. A hold that succeeds and is not a replay adds one reservation in state held and one seat per
  requested passenger, for distinct seats and exactly the requested passengers, each with the fare of the
  journey and the segments of the journey; the total is exactly the fare times the number of seats; no
  other schema changes.
\<close>

theorem hold_writes_rows:
  assumes ok: "db_ok db" and amounts: "\<forall>f \<in> set (fares db). in_int64 (fare_amount f)"
    and hold: "createHoldOnce env params db store = (Inr res, db', store')" and new: "\<not> ch_Replayed res"
  shows "\<exists>sc run f rows. 
    find (\<lambda>r. tr_id r = cp_TrainRunID params) (train_runs db) = Some run \<and> tr_status run = ''scheduled'' \<and>
    select_fare (cp_TrainRunID params) (tr_route run) (cp_FromStopIndex params) (cp_ToStopIndex params)
      (ToLower (env_unicode env) (cp_SeatClass params)) (fares db) = Some f \<and>
    reservations (locals db' sc) = reservations (locals db sc) @
      [\<lparr>rr_id = ch_ReservationID res, rr_user = cp_UserID params, rr_train_run = cp_TrainRunID params,
        rr_segment_count = tr_segment_count run, rr_from = cp_FromStopIndex params, rr_to = cp_ToStopIndex params,
        rr_class = ToLower (env_unicode env) (cp_SeatClass params), rr_status = ''held'',
        rr_expires = pg_timestamptz (cp_HoldExpiresAt params),
        rr_total = fare_amount f * int (length (cp_PassengerIDs params)), rr_currency = fare_currency f\<rparr>] \<and>
    reservation_seats (locals db' sc) = reservation_seats (locals db sc) @ rows \<and>
    length rows = length (cp_PassengerIDs params) \<and> rs_passenger ` set rows = set (cp_PassengerIDs params) \<and>
    distinct (map rs_seat rows) \<and>
    (\<forall>c \<in> set rows. rs_reservation c = ch_ReservationID res \<and> rs_fare c = fare_amount f \<and>
       occupied (rs_mask c) = {nat (cp_FromStopIndex params)..<nat (cp_ToStopIndex params)}) \<and>
    ch_SeatCount res = int (length rows) \<and> ch_TotalAmountMinor res = fare_amount f * int (length rows) \<and>
    (\<forall>sc'. sc' \<noteq> sc \<longrightarrow> core db' sc' = core db sc')"
proof (rule createHoldOnce_success [OF hold])
  fix route assume tx: "create_hold_tx env (store_limits store) params route db = Inr (res, db')"
  let ?cls = "ToLower (env_unicode env) (cp_SeatClass params)" and ?ids = "sort (cp_PassengerIDs params)"
  show ?thesis
  proof (rule create_hold_tx_success [OF tx new])
    fix acq s1 assume a: "AcquireIdempotency env route (create_input params) db = Inr (acq, s1)"
      and nh: "new_hold env (store_limits store) route params ?cls ?ids (ia_RecordID acq) s1 = Inr (res, db')"
    have c1: "core s1 = core db" and cat: "catalog s1 = catalog db"
      using tx_frameD [OF frame_acquire a] tx_frameD [OF catalog_acquire a] by simp_all
    then have tabs: "train_runs s1 = train_runs db" "fares s1 = fares db"
      and loc: "\<And>sc. reservations (locals s1 sc) = reservations (locals db sc)"
        "\<And>sc. reservation_seats (locals s1 sc) = reservation_seats (locals db sc)"
      by (auto simp: catalog_def core_def fun_eq_iff)
    have "db_ok s1" using ok c1 by (simp add: db_ok_def)
    from this nh show ?thesis
    proof (rule new_hold_core)
      fix run requested f fare tot al owned
      assume run: "find (\<lambda>r. tr_id r = cp_TrainRunID params) (train_runs s1) = Some run" "tr_status run = ''scheduled''"
        and mask: "NewSegmentMask (tr_segment_count run) (cp_FromStopIndex params) (cp_ToStopIndex params) = Inr requested"
        and f: "select_fare (cp_TrainRunID params) (tr_route run) (cp_FromStopIndex params) (cp_ToStopIndex params) ?cls (fares s1) = Some f"
        and fare: "NewMoney (fare_amount f) (fare_currency f) = Inr fare" "Money_Multiply fare (int (length ?ids)) = Inr tot"
        and owned: "set owned \<subseteq> set ?ids" "length owned = length ?ids" and al: "length al = length ?ids"
        and d: "distinct (map al_SeatID al)" "distinct owned"
        and c: "core db' = (core s1)(search_schema route := (reserve_rows (cp_TrainRunID params) (map al_SeatID al)
          (varbit_of (EncodeSegmentMask requested)) (seat_inventory (locals s1 (search_schema route))),
          reservations (locals s1 (search_schema route)) @ [hold_row env params ?cls run tot],
          reservation_seats (locals s1 (search_schema route)) @ hold_seats env params run requested fare al owned))"
        and res: "res = \<lparr>ch_ReservationID = env_reservationID env, ch_SeatCount = int (length ?ids),
          ch_TotalAmountMinor = amountMinor tot, ch_Currency = currency tot, ch_Replayed = False\<rparr>"
        and sent: "varbit_recv_ok (EncodeSegmentMask requested)"
      have "f \<in> set (fares db)"
        using select_fare_mem [OF f] by (simp add: tabs)
      with amounts fare(1) have fm: "money_ok fare" "amountMinor fare = fare_amount f" "currency fare = fare_currency f"
        using NewMoney_ok by (auto simp: NewMoney_def split: if_splits)
      then have total: "amountMinor tot = fare_amount f * int (length (cp_PassengerIDs params))" "currency tot = fare_currency f"
        using Money_Multiply_ok [OF fm(1) fare(2)] by simp_all
      define rows where "rows = hold_seats env params run requested fare al owned"
      note rowp = hold_seats_props [of al owned env params run requested fare, folded rows_def]
      have pass: "rs_passenger ` set rows = set (cp_PassengerIDs params)"
        using arg_cong [OF rowp(2), of set] distinct_subset_full [OF d(2) owned] owned al by simp
      show ?thesis
        by (rule exI [of _ "search_schema route"], rule exI [of _ run], rule exI [of _ f], rule exI [of _ rows])
           (use run f c res total pass rowp owned al d occupied_request [OF mask sent] fm in
             \<open>auto simp: tabs loc rows_def [symmetric] hold_row_def core_def fun_eq_iff c1 split: if_splits\<close>)
    qed
  qed
qed

theorem hold_writes_rows_witness:
  "\<exists>sc rows. reservation_seats (locals ex_held sc) = reservation_seats (locals ex_free sc) @ rows \<and>
     rs_passenger ` set rows = {21} \<and> (\<forall>c \<in> set rows. rs_reservation c = 3001 \<and> occupied (rs_mask c) = {0..<2})"
proof -
  have "\<forall>f \<in> set (fares ex_free). in_int64 (fare_amount f)"
    by (simp add: ex_free_def ex_with_def go_num)
  from hold_writes_rows [OF ex_ok(1) this ex_hold] show ?thesis
    by (simp add: ex_params_def) blast
qed

text \<open>
  C18. After a successful new hold the user is within all three limits of the store: active holds, active
  holds on this run, and active passengers. Without shards the held rows of the schema are counted, with
  shards the active claims across all shards.
\<close>

theorem quota_respected:
  assumes "db_ok db" and "createHoldOnce env params db store = (Inr res, db', store')" and "\<not> ch_Replayed res"
    and "in_int64 (MaxActiveHoldsPerUser (store_limits store))"
      "in_int64 (MaxActiveHoldsPerUserPerTrainRun (store_limits store))"
      "in_int64 (MaxActivePassengersPerUser (store_limits store))"
  shows "(case (if store_shards store = None
      then local_quota_counts (cp_UserID params) (cp_TrainRunID params) (locals db' Public)
      else global_quota_counts (cp_UserID params) (cp_TrainRunID params) db') of (holds, runHolds, seatCount) \<Rightarrow>
    holds \<le> MaxActiveHoldsPerUser (store_limits store) \<and>
    runHolds \<le> MaxActiveHoldsPerUserPerTrainRun (store_limits store) \<and>
    seatCount \<le> MaxActivePassengersPerUser (store_limits store))"
proof (rule createHoldOnce_success [OF assms(2)])
  fix route assume b: "beginCreateHoldTransaction env (cp_TrainRunID params) db store = (Inr route, store')"
    and tx: "create_hold_tx env (store_limits store) params route db = Inr (res, db')"
  show ?thesis
  proof (rule create_hold_tx_success [OF tx assms(3)])
    fix acq s1 assume a: "AcquireIdempotency env route (create_input params) db = Inr (acq, s1)"
      and nh: "new_hold env (store_limits store) route params (ToLower (env_unicode env) (cp_SeatClass params))
        (sort (cp_PassengerIDs params)) (ia_RecordID acq) s1 = Inr (res, db')"
    have "db_ok s1" using assms(1) tx_frameD [OF frame_acquire a] by (simp add: db_ok_def)
    from new_hold_quota [OF this nh assms(4-6)] show ?thesis
      using begin_route [OF b] by (simp add: case_prod_beta)
  qed
qed

theorem quota_respected_witness: "fst (local_quota_counts 20 100 (locals ex_held Public)) \<le> 10"
  using quota_respected [OF ex_ok(1) ex_hold] by (simp add: ex_params_def ex_store_def DefaultReservationQuotaLimits_def go_num case_prod_beta)

text \<open>
  C14. A retry that directly follows a successful hold, with the same parameters (user, key and fingerprint among
  them), on the same route, with no failing statement and before the record of the key has expired, returns the same
  reservation, marked as a replay, and writes nothing: no second reservation is created.
\<close>

theorem hold_replay:
  assumes ok: "db_ok db"
    and hold: "createHoldOnce env params db store = (Inr res, db1, store1)" "\<not> ch_Replayed res"
    and same_route: "beginCreateHoldTransaction env (cp_TrainRunID params) db store = (Inr route, store1)"
      "beginCreateHoldTransaction env2 (cp_TrainRunID params) db1 store2 = (Inr route, store3)"
      "\<And>r. route = Some r \<Longrightarrow> route_trainRunID r \<noteq> uuid_Nil"
    and nofault: "\<And>l. env_fault env2 l = None"
    and valid: "validateCreateHoldParams env2 params"
    and time: "\<And>x. x \<in> set (idempotency_records (locals db1 (search_schema route))) \<Longrightarrow>
        ir_has_key (cp_UserID params) OperationReservationCreate (cp_IdempotencyKeyHash params) x \<Longrightarrow>
        env_acquiredAt env2 < ir_expires x"
  shows "createHoldOnce env2 params db1 store2 = (Inr (res\<lparr>ch_Replayed := True\<rparr>), db1, store3)"
proof (rule createHoldOnce_success [OF hold(1)])
  fix route' assume nodup: "\<not> adjacent_duplicate (sort (cp_PassengerIDs params))"
    and "beginCreateHoldTransaction env (cp_TrainRunID params) db store = (Inr route', store1)"
    and tx: "create_hold_tx env (store_limits store) params route' db = Inr (res, db1)"
  then have [simp]: "route' = route" using same_route(1) by simp
  let ?cls = "ToLower (env_unicode env) (cp_SeatClass params)" and ?ids = "sort (cp_PassengerIDs params)"
  show ?thesis
  proof (rule create_hold_tx_success [OF tx hold(2)])
    fix acq s1 assume a: "AcquireIdempotency env route' (create_input params) db = Inr (acq, s1)" "\<not> ia_Replayed acq"
      and nh: "new_hold env (store_limits store) route' params ?cls ?ids (ia_RecordID acq) s1 = Inr (res, db1)"
    have ok1: "db_ok s1" using ok tx_frameD [OF frame_acquire a(1)] by (simp add: db_ok_def)
    obtain rec where key: "completed_key route (create_input params) (ch_ReservationID res) rec db1"
      using create_hold_completes [OF a nh] by auto
    have rec: "rec \<in> set (idempotency_records (locals db1 (search_schema route)))"
      "ir_has_key (cp_UserID params) OperationReservationCreate (cp_IdempotencyKeyHash params) rec"
      using key find_SomeD by (fastforce simp: completed_key_def create_input_def)+
    have "AcquireIdempotency env2 route (create_input params) db1 =
        Inr (\<lparr>ia_RecordID = ir_id rec, ia_Owned = False, ia_Replayed = True, ia_ResourceID = ch_ReservationID res\<rparr>, db1)"
      by (rule acquire_replay [OF key nofault])
         (use valid same_route(3) time [OF rec] in
           \<open>auto simp: create_input_def validateCreateHoldParams_def validOperation_def\<close>)
    moreover have "loadCreateHoldResult env2 route (cp_UserID params) (ch_ReservationID res) db1 = Inr (res, db1)"
      using load_new_hold [OF ok1 nh nofault] by simp
    ultimately have "create_hold_tx env2 (store_limits store2) params route db1 = Inr (res\<lparr>ch_Replayed := True\<rparr>, db1)"
      using nofault by (simp add: create_hold_tx_def create_input_def Commit_def)
    then show ?thesis using valid nodup same_route(2) by (simp add: createHoldOnce_def in_tx_def)
  qed
qed

theorem hold_replay_witness:
  "createHoldOnce (ex_env 7 2000) (ex_params 1 20 21 0 2) ex_held ex_store =
     (Inr \<lparr>ch_ReservationID = 3001, ch_SeatCount = 1, ch_TotalAmountMinor = 1500, ch_Currency = ''CHF'', ch_Replayed = True\<rparr>,
      ex_held, ex_store)"
proof -
  have b: "beginCreateHoldTransaction env run db ex_store = (Inr None, ex_store)" if "\<And>l. env_fault env l = None" for env run db
    using that by (simp add: beginCreateHoldTransaction_def on_router_def ex_store_def Begin_def)
  show ?thesis
    using hold_replay [OF ex_ok(1) ex_hold _ b b, of "ex_env 7 2000"]
    by (simp add: validateCreateHoldParams_def ex_params_def class_ex search_schema_def ex_held_rows)
qed

text \<open>
  The key of a successful hold, used again by the same user with a different request fingerprint
  before its record has expired, is refused with the idempotency conflict, and nothing is written.
\<close>

lemma key_reuse_conflict:
  assumes ok: "db_ok db"
    and hold: "createHoldOnce env params db store = (Inr res, db1, store1)" "\<not> ch_Replayed res"
    and same_route: "beginCreateHoldTransaction env (cp_TrainRunID params) db store = (Inr route, store1)"
      "beginCreateHoldTransaction env2 (cp_TrainRunID params2) db1 store2 = (Inr route, store3)"
      "\<And>r. route = Some r \<Longrightarrow> route_trainRunID r \<noteq> uuid_Nil"
    and reuse: "cp_UserID params2 = cp_UserID params" "cp_IdempotencyKeyHash params2 = cp_IdempotencyKeyHash params"
      "cp_RequestFingerprint params2 \<noteq> cp_RequestFingerprint params"
    and nofault: "\<And>l. env_fault env2 l = None"
    and valid: "validateCreateHoldParams env2 params2" "\<not> adjacent_duplicate (sort (cp_PassengerIDs params2))"
    and time: "\<And>x. x \<in> set (idempotency_records (locals db1 (search_schema route))) \<Longrightarrow>
        ir_has_key (cp_UserID params) OperationReservationCreate (cp_IdempotencyKeyHash params) x \<Longrightarrow>
        env_acquiredAt env2 < ir_expires x"
  shows "createHoldOnce env2 params2 db1 store2 = (Inl ErrIdempotencyConflict, db1, store3)"
proof (rule createHoldOnce_success [OF hold(1)])
  fix route' assume "beginCreateHoldTransaction env (cp_TrainRunID params) db store = (Inr route', store1)"
    and tx: "create_hold_tx env (store_limits store) params route' db = Inr (res, db1)"
  then have [simp]: "route' = route" using same_route(1) by simp
  show ?thesis
  proof (rule create_hold_tx_success [OF tx hold(2)])
    fix acq s1 assume a: "AcquireIdempotency env route' (create_input params) db = Inr (acq, s1)" "\<not> ia_Replayed acq"
      and nh: "new_hold env (store_limits store) route' params (ToLower (env_unicode env) (cp_SeatClass params))
        (sort (cp_PassengerIDs params)) (ia_RecordID acq) s1 = Inr (res, db1)"
    obtain rec where key: "completed_key route (create_input params) (ch_ReservationID res) rec db1"
      using create_hold_completes [OF a nh] by auto
    have rec: "rec \<in> set (idempotency_records (locals db1 (search_schema route)))"
      "ir_has_key (cp_UserID params) OperationReservationCreate (cp_IdempotencyKeyHash params) rec"
      using key find_SomeD by (fastforce simp: completed_key_def create_input_def)+
    have "AcquireIdempotency env2 route (create_input params2) db1 = Inl ErrIdempotencyConflict"
      by (rule acquire_conflict [OF key])
         (use valid reuse nofault same_route(3) time [OF rec] in
           \<open>auto simp: create_input_def validateCreateHoldParams_def validOperation_def\<close>)
    then show ?thesis using valid same_route(2)
      by (simp add: createHoldOnce_def in_tx_def create_hold_tx_def create_input_def tx_bind_def run_tx_def)
  qed
qed

text \<open>
  The retry loop of a hold makes at most three attempts, and its outcome is that of one attempt on the
  tables it found: a success is one successful attempt; a failure leaves the tables exactly as the other
  transactions that committed in the waits left them.
\<close>

lemma create_hold_retries:
  assumes "CreateHold envs cancelled others params db store = (r, db', store')"
  shows "\<exists>i < 3. \<exists>st. let at = fold others [0..<i] db in
    (case r of Inr res \<Rightarrow> createHoldOnce (envs i) params at st = (Inr res, db', store')
     | Inl e \<Rightarrow> db' = at \<and> (e = ErrContext \<or> createHoldOnce (envs i) params at st = (Inl e, at, store')))"
  using create_hold_loop_attempt [of 3 0 envs cancelled others params db store r db' store', unfolded add_0]
    assms [unfolded CreateHold_def] by simp

text \<open>
  C15. A confirmation that succeeds and is not a replay either finds the reservation already confirmed
  and issues nothing, or finds it held and not expired; then it marks exactly that reservation
  confirmed, adds one order with the reservation's total, and one active ticket per seat of the
  reservation, in seat order.
\<close>

theorem confirm_issues_tickets:
  assumes "ConfirmReservation env params db store = (Inr res, db', store')" "\<not> cr_Replayed res"
  shows "\<exists>sc row. find (\<lambda>r. rr_id r = rp_ReservationID params \<and> rr_user r = rp_UserID params)
      (reservations (locals db sc)) = Some row \<and>
    (rr_status row = ''confirmed'' \<and> core db' = core db \<and>
       tickets (locals db' sc) = tickets (locals db sc) \<and> ticket_orders (locals db' sc) = ticket_orders (locals db sc) \<or>
     rr_status row = ''held'' \<and>
       length (filter (confirmable env params) (reservations (locals db sc))) = 1 \<and>
       reservations (locals db' sc) = map (restatus (confirmable env params) ''confirmed'') (reservations (locals db sc)) \<and>
       ticket_orders (locals db' sc) = ticket_orders (locals db sc) @ [confirmed_order env params row] \<and>
       tickets (locals db' sc) = tickets (locals db sc) @ map (ticket_row env)
         (enumerate 0 (seat_ids (rp_ReservationID params) (reservation_seats (locals db sc)))) \<and>
       0 < cr_TicketCount res \<and>
       cr_TicketCount res = int (length (seat_ids (rp_ReservationID params) (reservation_seats (locals db sc)))))"
proof -
  obtain route where "confirm_tx env params route db = Inr (res, db')"
    using assms(1) by (auto simp: ConfirmReservation_def in_tx_Inr split: if_splits)
  then obtain input acq s1 row s2 where
      a: "AcquireIdempotency env route input db = Inr (acq, s1)" and "\<not> ia_Replayed acq"
    and lock: "lockOwnedReservation env route (rp_UserID params) (rp_ReservationID params) s1 = Inr (row, s2)"
    and rest: "if rr_status row = ''confirmed'' then
        \<exists>s3 s4 s5. CompleteIdempotency env route (ia_RecordID acq) (rp_ReservationID params) s2 = Inr ((), s3) \<and>
          loadConfirmationResult env route (rp_UserID params) (rp_ReservationID params) s3 = Inr (res, s4) \<and>
          recordSuccessfulGenerationWrite env route s4 = Inr ((), s5) \<and> Commit env route s5 = Inr ((), db')
       else rr_status row = ''held'' \<and> write_confirmation env route params row (ia_RecordID acq) s2 = Inr (res, db')"
    using assms(2) by (auto simp: confirm_tx_def split: if_splits)
  let ?sc = "search_schema route"
  have s2: "s2 = s1" using read_onlyD(6) [OF lock] .
  have same: "core s1 = core db" "ticket_view s1 = ticket_view db"
    using frame_acquire [THEN tx_frameD, OF a] frame_ticket_view(1) [THEN tx_frameD, OF a] by simp_all
  then have tabs: "reservations (locals s1 ?sc) = reservations (locals db ?sc)"
    "reservation_seats (locals s1 ?sc) = reservation_seats (locals db ?sc)"
    "tickets (locals s1 ?sc) = tickets (locals db ?sc)" "ticket_orders (locals s1 ?sc) = ticket_orders (locals db ?sc)"
    by (auto simp: core_def ticket_view_def fun_eq_iff)
  have row: "find (\<lambda>r. rr_id r = rp_ReservationID params \<and> rr_user r = rp_UserID params)
      (reservations (locals db ?sc)) = Some row"
    using lock tabs by (auto simp: lockOwnedReservation_def)
  show ?thesis
  proof (cases "rr_status row = ''confirmed''")
    case True
    with rest obtain s3 s4 s5 where
        c: "CompleteIdempotency env route (ia_RecordID acq) (rp_ReservationID params) s2 = Inr ((), s3)"
      and l: "loadConfirmationResult env route (rp_UserID params) (rp_ReservationID params) s3 = Inr (res, s4)"
      and g: "recordSuccessfulGenerationWrite env route s4 = Inr ((), s5)" and m: "Commit env route s5 = Inr ((), db')" by auto
    have "core db' = core db" "ticket_view db' = ticket_view db"
      using frame_complete [THEN tx_frameD, OF c] frame_ticket_view(2) [THEN tx_frameD, OF c] read_onlyD(8) [OF l]
        frame_ledger(9) [THEN tx_frameD, OF g] frame_ledger(10) [THEN tx_frameD, OF m]
        frame_ticket_view(8) [THEN tx_frameD, OF g] frame_ticket_view(9) [THEN tx_frameD, OF m] same s2 by simp_all
    with row True show ?thesis by (intro exI [of _ ?sc] exI [of _ row]) (auto simp: ticket_view_def fun_eq_iff)
  next
    case False
    with rest have w: "rr_status row = ''held''" "write_confirmation env route params row (ia_RecordID acq) s1 = Inr (res, db')"
      by (simp_all add: s2)
    note W = write_confirmation_spec [OF w(2), unfolded tabs]
    have "reservations (locals db' ?sc) = map (restatus (confirmable env params) ''confirmed'') (reservations (locals db ?sc))"
      using fun_cong [OF conjunct1 [OF conjunct2 [OF W]], of ?sc] by (simp add: core_def)
    with row w(1) W show ?thesis by (intro exI [of _ ?sc] exI [of _ row]) simp
  qed
qed

theorem confirm_issues_tickets_witness:
  "ticket_orders (locals ex_confirmed Public) =
     [confirmed_order (ex_env 2 1000) (ex_order_params 2 1000) (ex_reservation 3001 20 0 2 1500)]"
proof -
  obtain sc row where f: "find (\<lambda>r. rr_id r = 3001 \<and> rr_user r = 20) (reservations (locals ex_held sc)) = Some row"
    and alt: "rr_status row = ''confirmed'' \<or> ticket_orders (locals ex_confirmed sc) = ticket_orders (locals ex_held sc) @
      [confirmed_order (ex_env 2 1000) (ex_order_params 2 1000) row]"
    using confirm_issues_tickets [OF ex_confirm] by (fastforce simp: ex_order_params_def)
  have sc: "sc = Public" using f by (cases "sc = Public") (simp_all add: ex_held_def ex_with_def ex_empty_def)
  then have "row = ex_reservation 3001 20 0 2 1500" using f by (simp add: ex_held_rows)
  then show ?thesis using alt by (simp add: sc ex_held_rows)
qed

text \<open>
  C16. A cancellation that succeeds and is not a replay either finds the reservation already cancelled and
  changes no inventory, reservation or seat, or finds it held or confirmed. Then exactly the reservation's
  rows in that status become cancelled, the number of released seats is the number of seats of the
  reservation, and the inventory loses exactly its segments on exactly its seats: a row of the run for a seat
  of the reservation had all segments of the journey occupied, keeps the other occupied segments and its
  length, and counts one version up; every other row, and every other schema, is as it was.
\<close>

theorem cancel_releases:
  assumes ok: "db_ok db" and cancel: "CancelReservation env params db store = (Inr res, db', store')" "\<not> cn_Replayed res"
  shows "\<exists>sc row. find (\<lambda>r. rr_id r = rp_ReservationID params \<and> rr_user r = rp_UserID params)
      (reservations (locals db sc)) = Some row \<and>
    (rr_status row = ''cancelled'' \<and> core db' = core db \<and> cn_ReleasedSeatCount res = 0 \<or>
     live (rr_status row) \<and>
       reservations (locals db' sc) =
         map (restatus (\<lambda>r. rr_id r = rp_ReservationID params \<and> rr_status r = rr_status row) ''cancelled'') (reservations (locals db sc)) \<and>
       reservation_seats (locals db' sc) = reservation_seats (locals db sc) \<and>
       cn_ReleasedSeatCount res =
         int (length (filter (\<lambda>c. rs_reservation c = rp_ReservationID params) (reservation_seats (locals db sc)))) \<and>
       list_all2 (\<lambda>si si'.
           if si_train_run si = rr_train_run row \<and>
              (\<exists>c \<in> set (reservation_seats (locals db sc)). rs_reservation c = rp_ReservationID params \<and> rs_seat c = si_seat si)
           then \<exists>v. si' = si\<lparr>si_occupied := v, si_version := si_version si + 1\<rparr> \<and> length v = length (si_occupied si) \<and>
             {nat (rr_from row)..<nat (rr_to row)} \<subseteq> occupied (si_occupied si) \<and>
             occupied v = occupied (si_occupied si) - {nat (rr_from row)..<nat (rr_to row)}
           else si' = si)
         (seat_inventory (locals db sc)) (seat_inventory (locals db' sc)) \<and>
       (\<forall>sc'. sc' \<noteq> sc \<longrightarrow> core db' sc' = core db sc'))"
proof -
  obtain route where tx: "cancel_tx env params route db = Inr (res, db')"
    using cancel(1) by (auto simp: CancelReservation_def in_tx_Inr split: if_splits)
  let ?rid = "rp_ReservationID params" and ?sc = "search_schema route"
  from tx cancel(2) show ?thesis
  proof (rule cancel_tx_cases)
    fix acq s1 row assume same: "core s1 = core db"
      and row: "find (\<lambda>r. rr_id r = ?rid \<and> rr_user r = rp_UserID params) (reservations (locals db ?sc)) = Some row"
      and alt: "rr_status row = ''cancelled'' \<and> core db' = core db \<and> cn_ReleasedSeatCount res = 0 \<or>
        live (rr_status row) \<and> write_cancellation env route ?rid (rr_status row) (ia_RecordID acq) s1 = Inr (res, db')"
    show ?thesis
    proof (cases "rr_status row = ''cancelled'' \<and> core db' = core db \<and> cn_ReleasedSeatCount res = 0")
      case True
      with row show ?thesis by blast
    next
      case False
      with alt have l: "live (rr_status row)"
        and w: "write_cancellation env route ?rid (rr_status row) (ia_RecordID acq) s1 = Inr (res, db')" by auto
      define locked where "locked = release_locked ?rid
        (set_status (\<lambda>r. rr_id r = ?rid \<and> rr_status r = rr_status row) ''cancelled'' (locals s1 ?sc))"
      have tabs: "reservations (locals s1 ?sc) = reservations (locals db ?sc)"
        "reservation_seats (locals s1 ?sc) = reservation_seats (locals db ?sc)"
        "seat_inventory (locals s1 ?sc) = seat_inventory (locals db ?sc)" "tables (locals s1 ?sc) = tables (locals db ?sc)"
        using fun_cong [OF same, of ?sc] by (simp_all add: core_def tables_def)
      note W = write_cancellation_core [OF w, folded locked_def, unfolded tabs same]
      have r0: "row \<in> set (reservations (locals s1 ?sc))" "rr_id row = ?rid" using find_SomeD [OF row] tabs by simp_all
      have "booking_ok (tables (locals s1 ?sc))" using db_okD [OF ok, of ?sc] tabs by simp
      note exact = release_row_exact [OF this r0, where hit = "\<lambda>r. rr_id r = ?rid \<and> rr_status r = rr_status row" and st = "''cancelled''",
        folded locked_def, unfolded tabs, OF W(4)]
      have rows: "reservations (locals db' ?sc) = map (restatus (\<lambda>r. rr_id r = ?rid \<and> rr_status r = rr_status row) ''cancelled'')
          (reservations (locals db ?sc))"
        and seats: "reservation_seats (locals db' ?sc) = reservation_seats (locals db ?sc)"
        and inventory: "seat_inventory (locals db' ?sc) = map (release_row locked) (seat_inventory (locals db ?sc))"
        using fun_cong [OF W(1), of ?sc] by (simp_all add: core_def)
      have others: "\<forall>sc'. sc' \<noteq> ?sc \<longrightarrow> core db' sc' = core db sc'" using W(1) by simp
      show ?thesis
        by (rule exI [of _ ?sc], rule exI [of _ row], intro conjI disjI2 row l W(2) others rows seats,
            simp only: inventory list.rel_map, rule list.rel_refl_strong, rule exact)
    qed
  qed
qed

theorem cancel_releases_witness:
  "reservations (locals (ex_released ''cancelled'' [ex_record 1002 20 3001 ''reservation.cancel'' 2]) Public) =
     map (restatus (\<lambda>r. rr_id r = 3001 \<and> rr_status r = ''held'') ''cancelled'') (reservations (locals ex_held Public)) \<and>
   (\<exists>v. occupied v = occupied [True, True, False] - {0..<2} \<and>
     seat_inventory (locals (ex_released ''cancelled'' [ex_record 1002 20 3001 ''reservation.cancel'' 2]) Public) = [ex_seat v 2])"
proof -
  let ?after = "ex_released ''cancelled'' [ex_record 1002 20 3001 ''reservation.cancel'' 2]"
  obtain sc row where f: "find (\<lambda>r. rr_id r = 3001 \<and> rr_user r = 20) (reservations (locals ex_held sc)) = Some row"
    and alt: "rr_status row = ''cancelled'' \<or>
      reservations (locals ?after sc) = map (restatus (\<lambda>r. rr_id r = 3001 \<and> rr_status r = rr_status row) ''cancelled'') (reservations (locals ex_held sc)) \<and>
      list_all2 (\<lambda>si si'. if si_train_run si = rr_train_run row \<and>
           (\<exists>c \<in> set (reservation_seats (locals ex_held sc)). rs_reservation c = 3001 \<and> rs_seat c = si_seat si)
         then \<exists>v. si' = si\<lparr>si_occupied := v, si_version := si_version si + 1\<rparr> \<and> length v = length (si_occupied si) \<and>
           {nat (rr_from row)..<nat (rr_to row)} \<subseteq> occupied (si_occupied si) \<and>
           occupied v = occupied (si_occupied si) - {nat (rr_from row)..<nat (rr_to row)}
         else si' = si) (seat_inventory (locals ex_held sc)) (seat_inventory (locals ?after sc))"
    using cancel_releases [OF ex_ok(2) ex_cancel] by (simp only: ex_order_params_def ReservationCommandParams.select_convs CancelReservationResult.select_convs not_False_eq_True simp_thms) blast
  have sc: "sc = Public" using f by (cases "sc = Public") (simp_all add: ex_held_def ex_with_def ex_empty_def)
  then have row: "row = ex_reservation 3001 20 0 2 1500" using f by (simp add: ex_held_rows)
  have held: "seat_inventory (locals ex_held Public) = [ex_seat [True, True, False] 1]"
    "\<exists>c \<in> set (reservation_seats (locals ex_held Public)). rs_reservation c = 3001 \<and> rs_seat c = 9"
    by (simp_all add: ex_held_rows)
  then obtain v where "occupied v = occupied [True, True, False] - {0..<2}" "seat_inventory (locals ?after Public) = [ex_seat v 2]"
    using alt by (auto simp: sc row ex_reservation_def ex_seat_def list_all2_Cons1 numeral_2_eq_2)
  then show ?thesis using alt by (auto simp: sc row ex_reservation_def)
qed

text \<open>
  C17. An expiration that succeeds ends one reservation that was held, past its deadline, not excluded and
  not locked by another transaction; every other reservation keeps its status, and a segment stays
  occupied only if another live journey covers it. When it fails, nothing is written.
\<close>

theorem expire_one_due:
  assumes ok: "db_ok db" and run: "expireOneDue env excluded db = ((i, found, err), db')"
  shows "if found \<and> err = None then
      \<exists>r. r \<in> set (reservations (locals db Public)) \<and> rr_id r = i \<and> rr_status r = ''held'' \<and>
        rr_expires r \<le> env_clock env \<and> i \<notin> set excluded \<and> \<not> env_locked_reservation env i \<and>
        reservations (locals db' Public) = map (\<lambda>q. if q = r then q\<lparr>rr_status := ''expired''\<rparr> else q) (reservations (locals db Public)) \<and>
        (\<forall>si \<in> set (seat_inventory (locals db' Public)). \<forall>x \<in> occupied (si_occupied si).
          \<exists>c \<in> set (reservation_seats (locals db Public)). \<exists>q \<in> set (reservations (locals db Public)).
            rs_seat c = si_seat si \<and> rr_id q = rs_reservation c \<and> rr_id q \<noteq> i \<and>
            rr_train_run q = si_train_run si \<and> live (rr_status q) \<and> nat (rr_from q) \<le> x \<and> x < nat (rr_to q))
     else db' = db"
proof (cases "found \<and> err = None")
  case False
  with run show ?thesis
    by (auto simp: expireOneDue_def run_tx_Inl split: sum.splits option.splits list.splits prod.splits)
next
  case True
  with run obtain r rest where due: "due_reservations env excluded (locals db Public) = r # rest" "rr_id r = i"
    and tx: "expire_claimed_tx env i db = Inr ((), db')"
    by (auto simp: expireOneDue_def run_tx_Inr split: sum.splits option.splits list.splits prod.splits)
  let ?rows = "reservations (locals db Public)"
  let ?hit = "\<lambda>r. rr_id r = i \<and> rr_status r = ''held'' \<and> rr_expires r \<le> env_update_clock env"
  note D = due_reservations_mem [OF due(1)] and C = expire_claimed_core [OF tx]
  have keys: "distinct (map rr_id ?rows)" using ok by (simp add: db_ok_def booking_ok_def keys_ok_def core_def)
  have "filter ?hit ?rows \<noteq> []" using C(2) by force
  then obtain q where q: "q \<in> set ?rows" "?hit q" unfolding filter_empty_conv by blast
  have "r = q" by (rule keyed_uniq [OF keys D(1) q(1)]) (simp add: q(2) due(2))
  then have hit: "?hit r" using q(2) by simp
  have only: "?hit q \<longleftrightarrow> q = r" if "q \<in> set ?rows" for q
  proof
    assume h: "?hit q"
    show "q = r" by (rule keyed_uniq [OF keys that D(1)]) (simp add: h due(2))
  qed (simp add: hit)
  have rows: "reservations (locals db' Public) = map (restatus ?hit ''expired'') ?rows"
    and seats: "reservation_seats (locals db' Public) = reservation_seats (locals db Public)"
    using fun_cong [OF C(1), of Public] by (simp_all add: core_def)
  have "booking_ok (core db' Public)" using tx_keepsD [OF expire_claimed_keeps tx ok] by (simp add: db_ok_def)
  then have b: "booking_ok (seat_inventory (locals db' Public), map (restatus ?hit ''expired'') ?rows, reservation_seats (locals db Public))"
    by (simp add: core_def rows [symmetric] seats [symmetric])
  have "map (restatus ?hit ''expired'') ?rows = map (\<lambda>q. if q = r then q\<lparr>rr_status := ''expired''\<rparr> else q) ?rows"
    using only by (auto simp: restatus_def)
  with rows have "reservations (locals db' Public) = map (\<lambda>q. if q = r then q\<lparr>rr_status := ''expired''\<rparr> else q) ?rows" by simp
  moreover have "\<forall>si \<in> set (seat_inventory (locals db' Public)). \<forall>x \<in> occupied (si_occupied si).
      \<exists>c \<in> set (reservation_seats (locals db Public)). \<exists>q \<in> set ?rows.
        rs_seat c = si_seat si \<and> rr_id q = rs_reservation c \<and> rr_id q \<noteq> i \<and>
        rr_train_run q = si_train_run si \<and> live (rr_status q) \<and> nat (rr_from q) \<le> x \<and> x < nat (rr_to q)"
    using ended_occupied [OF b keys D(1) hit] by (simp add: live_def)
  ultimately show ?thesis unfolding if_P [OF True] using D due(2) by blast
qed

theorem expire_one_due_witness:
  "reservations (locals (ex_released ''expired'' []) Public) =
     map (\<lambda>q. if q = ex_reservation 3001 20 0 2 1500 then q\<lparr>rr_status := ''expired''\<rparr> else q) (reservations (locals ex_held Public))"
  using expire_one_due [OF ex_ok(2) ex_expire] by (auto simp: ex_held_rows)

text \<open>
  A pass of the expiration sweep, with or without shards, keeps the invariant whatever keeps it in
  between, and reports at most as many reservations as its limit.
\<close>

lemma expire_due_bounded:
  assumes others: "\<And>n d. db_ok d \<Longrightarrow> db_ok (others n d)" and ok: "db_ok db"
    and run: "ExpireDue envs env others now limit db store = ((ids, errs), db', store')"
  shows "db_ok db' \<and> length ids \<le> nat limit"
proof (cases "IsZero_time now \<or> limit \<le> 0 \<or> 1000 < limit")
  case True
  then show ?thesis using run ok by (auto simp: ExpireDue_def split: if_splits)
next
  case False
  show ?thesis
  proof (cases "store_shards store")
    case (Some router)
    then show ?thesis using False run expireDueAcrossShards_ok [OF others ok] by (simp add: ExpireDue_def)
  next
    case None
    obtain expired failures returned d where
        loop: "expire_due_loop (nat limit) 0 envs others [] [] [] db = ((expired, failures, returned), d)"
      by (metis prod.collapse)
    have "db_ok d \<and> length expired \<le> nat limit" using expire_due_loop_ok [OF others ok loop] by simp
    then show ?thesis
      using False None run loop by (auto simp: ExpireDue_def split: if_splits prod.splits intro: cleanup_keeps)
  qed
qed

text \<open>
  C39. The loop over shards ends because its own condition fails, not because of the fuel of the model:
  the rounds that \<open>expireDueAcrossShards\<close> grants are enough for every limit, environment and table.
\<close>

theorem expire_sweep_terminates:
  fixes envs others limit shards db store
  defines "y \<equiv> sweep_rounds (limit + 1) envs others limit shards
     \<lparr>xs_expired = [], xs_excluded = (\<lambda>_. []), xs_failedShards = [], xs_failures = [],
      xs_madeProgress = True, xs_attempts = 0, xs_pass = 0, xs_db = db, xs_store = store\<rparr>"
  shows "\<not> (length (xs_expired y) < limit \<and> xs_attempts y < limit \<and> xs_madeProgress y)"
  unfolding y_def by (rule sweep_rounds_enough) simp

subsection \<open>Allocation\<close>

lemma find_key_iff:
  assumes "distinct (map k xs)"
  shows "find (\<lambda>y. k y = v) xs = Some x \<longleftrightarrow> x \<in> set xs \<and> k x = v"
  using find_SomeD [of "\<lambda>y. k y = v" xs x] find_unique [OF assms, of x] by auto

lemma set_map_filter_iff: "y \<in> set (List.map_filter f xs) \<longleftrightarrow> (\<exists>x \<in> set xs. f x = Some y)"
  by (force simp: List.map_filter_def)

lemma inventory_join_iff:
  assumes "distinct (map seat_id (seats db))" "distinct (map coach_id (coaches db))"
  shows "inventory_join db si = Some p \<longleftrightarrow>
    fst p = si \<and> fst (snd p) \<in> set (seats db) \<and> seat_id (fst (snd p)) = si_seat si \<and>
    snd (snd p) \<in> set (coaches db) \<and> coach_id (snd (snd p)) = seat_coach (fst (snd p))"
proof -
  have "inventory_join db si = Some p \<longleftrightarrow>
      (\<exists>x c. find (\<lambda>s. seat_id s = si_seat si) (seats db) = Some x \<and>
        find (\<lambda>c. coach_id c = seat_coach x) (coaches db) = Some c \<and> p = (si, x, c))"
    by (auto simp: inventory_join_def split: option.splits)
  then show ?thesis unfolding find_key_iff [OF assms(1)] find_key_iff [OF assms(2)] by (cases p) auto
qed

lemma free_for_iff:
  assumes "mask_valid m" "bitLength m \<le> MaxInt32" "\<not> IsZero_mask m"
  shows "free_for (varbit_of (EncodeSegmentMask m)) si \<longleftrightarrow>
    int (length (si_occupied si)) = bitLength m \<and> occupied (si_occupied si) \<inter> segments m = {}"
proof -
  have sent: "varbit_recv_ok (EncodeSegmentMask m)" using assms by (simp add: varbit_recv_encode)
  have "0 < bit_count_sql (varbit_of (EncodeSegmentMask m))"
    using assms sent by (simp add: bit_count_pos_iff occupied_encode IsZero_mask_iff)
  then show ?thesis
    using assms sent and_zero_iff [of "si_occupied si" "varbit_of (EncodeSegmentMask m)"]
    by (auto simp: free_for_def bit_length_sql_def length_varbit_encode occupied_encode mask_valid_iff)
qed

lemma reserve_rows_exact:
  assumes m: "mask_valid m" "varbit_recv_ok (EncodeSegmentMask m)"
    and len: "\<And>si. si \<in> set inven \<Longrightarrow> si_train_run si = run \<Longrightarrow> si_seat si \<in> al_SeatID ` set al \<Longrightarrow>
      int (length (si_occupied si)) = bitLength m"
  shows "list_all2 (\<lambda>si si'. if si_train_run si = run \<and> si_seat si \<in> al_SeatID ` set al
      then \<exists>v. si' = si\<lparr>si_occupied := v, si_version := si_version si + 1\<rparr> \<and> length v = length (si_occupied si) \<and>
        occupied v = occupied (si_occupied si) \<union> segments m
      else si' = si) inven (reserve_rows run (map al_SeatID al) (varbit_of (EncodeSegmentMask m)) inven)"
  unfolding reserve_rows_def list.rel_map
proof (rule list.rel_refl_strong)
  fix si assume si: "si \<in> set inven"
  let ?req = "varbit_of (EncodeSegmentMask m)"
  have "length (si_occupied si) = length ?req" if "si_train_run si = run \<and> si_seat si \<in> al_SeatID ` set al"
    using len [OF si] that length_varbit_encode [OF m] by auto
  then show "if si_train_run si = run \<and> si_seat si \<in> al_SeatID ` set al
      then \<exists>v. (if si_train_run si = run \<and> si_seat si \<in> set (map al_SeatID al)
          then si\<lparr>si_occupied := bit_or_sql (si_occupied si) ?req, si_version := si_version si + 1\<rparr> else si) =
          si\<lparr>si_occupied := v, si_version := si_version si + 1\<rparr> \<and> length v = length (si_occupied si) \<and>
        occupied v = occupied (si_occupied si) \<union> segments m
      else (if si_train_run si = run \<and> si_seat si \<in> set (map al_SeatID al)
          then si\<lparr>si_occupied := bit_or_sql (si_occupied si) ?req, si_version := si_version si + 1\<rparr> else si) = si"
    using occupied_or [of "si_occupied si" ?req] occupied_encode [OF m] by auto
qed

lemma sorted_take_le:
  assumes "sorted (map k xs)" "p \<in> set (take n xs)" "q \<in> set xs" "q \<notin> set (take n xs)"
  shows "k p \<le> k q"
proof -
  have "q \<in> set (drop n xs)" using assms(3,4) by (metis Un_iff append_take_drop_id set_append)
  moreover have "sorted (map k (take n xs) @ map k (drop n xs))" using assms(1) by (simp flip: map_append)
  ultimately show ?thesis using assms(2) by (simp add: sorted_append)
qed

text \<open>The rows the statement of \<open>AllocateSeats\<close> chooses from, in its order.\<close>

definition seat_key :: "TxEnv \<Rightarrow> InventoryRow \<times> SeatRow \<times> CoachRow \<Rightarrow> nat list \<times> nat list \<times> uuid" where
  "seat_key env = (\<lambda>(si, x, c). (env_collate env (coach_number c), env_collate env (seat_number x), si_seat si))"

lemma candidates_from:
  fixes env :: TxEnv and db :: BookingDb
  assumes keys: "distinct (map (\<lambda>si. (si_train_run si, si_seat si)) (seat_inventory (locals db sc)))"
    "distinct (map seat_id (seats db))" "distinct (map coach_id (coaches db))"
  obtains avail where "\<And>n. candidates env sc run cls req n db = take n avail"
    "distinct (map (\<lambda>p. si_seat (fst p)) avail)" "sorted (map (seat_key env) avail)"
    "\<And>p. p \<in> set avail \<longleftrightarrow> fst p \<in> set (seat_inventory (locals db sc)) \<and> si_train_run (fst p) = run \<and> si_class (fst p) = cls \<and>
      free_for req (fst p) \<and> \<not> env_locked_seat env (si_seat (fst p)) \<and> inventory_join db (fst p) = Some p \<and> seat_active (fst (snd p))"
proof -
  define avail where "avail = filter (\<lambda>(si, s, c). \<not> env_locked_seat env (si_seat si))
     (sort_key (seat_key env)
       (filter (\<lambda>(si, s, c). si_train_run si = run \<and> si_class si = cls \<and> seat_active s \<and> free_for req si)
         (List.map_filter (inventory_join db) (seat_inventory (locals db sc)))))"
  have cand: "candidates env sc run cls req n db = take n avail" for n
    by (simp add: candidates_def avail_def seat_key_def)
  moreover have "distinct (map (\<lambda>p. si_seat (fst p)) avail)"
    using candidates_distinct [OF keys(1), of env run cls req "length avail"] by (simp add: cand)
  moreover have "sorted (map (seat_key env) avail)" unfolding avail_def by (rule sorted_filter) simp
  moreover have "p \<in> set (List.map_filter (inventory_join db) xs) \<longleftrightarrow> fst p \<in> set xs \<and> inventory_join db (fst p) = Some p" for p xs
    unfolding set_map_filter_iff using inventory_join_fst by metis
  then have "p \<in> set avail \<longleftrightarrow> fst p \<in> set (seat_inventory (locals db sc)) \<and> si_train_run (fst p) = run \<and> si_class (fst p) = cls \<and>
      free_for req (fst p) \<and> \<not> env_locked_seat env (si_seat (fst p)) \<and> inventory_join db (fst p) = Some p \<and> seat_active (fst (snd p))" for p
    by (auto simp: avail_def)
  ultimately show thesis by (rule that)
qed

text \<open>
  C20. Allocation is all or nothing. Call a seat of the run free when its inventory row has the class and the
  length of the request, occupies none of the requested segments, and belongs to an active seat of a known
  coach that no other transaction has locked. With valid arguments, sound keys and no failing statement, fewer
  than \<open>count\<close> free seats make the allocation fail and change nothing. Otherwise it returns \<open>count\<close> distinct
  free seats, none of them behind a free seat that it passed over in the order of coach, seat number and
  identifier, and exactly their rows gain exactly the requested segments; nothing else changes.
\<close>

theorem allocate_all_or_nothing:
  fixes env :: TxEnv and route :: "ShardRoute option" and run :: uuid and cls :: string and requested :: SegmentMask
    and count :: int and s :: BookingDb
  defines "sc \<equiv> search_schema route"
  defines "free \<equiv> {si \<in> set (seat_inventory (locals s sc)).
      si_train_run si = run \<and> si_class si = ToLower (env_unicode env) cls \<and>
      int (length (si_occupied si)) = bitLength requested \<and> occupied (si_occupied si) \<inter> segments requested = {} \<and>
      (\<exists>x \<in> set (seats s). seat_id x = si_seat si \<and> seat_active x \<and> (\<exists>c \<in> set (coaches s). coach_id c = seat_coach x)) \<and>
      \<not> env_locked_seat env (si_seat si)}"
  assumes ok: "db_ok s" "distinct (map seat_id (seats s))" "distinct (map coach_id (coaches s))"
    and valid: "run \<noteq> uuid_Nil" "0 < count" "mask_valid requested" "bitLength requested \<le> 2 ^ 31 - 1"
      "\<not> IsZero_mask requested" "validSeatClass (env_unicode env) cls"
    and nofault: "env_fault env ''allocate seat inventory'' = None"
  shows "if int (card free) < count
    then run_tx (AllocateSeats env route run cls requested count) s = (Inl ErrInsufficientInventory, s)
    else \<exists>al rows. run_tx (AllocateSeats env route run cls requested count) s =
        (Inr al, s\<lparr>locals := (locals s)(sc := (locals s sc)\<lparr>seat_inventory := rows\<rparr>)\<rparr>) \<and>
      int (length al) = count \<and> distinct (map al_SeatID al) \<and> al_SeatID ` set al \<subseteq> si_seat ` free \<and>
      (\<forall>a \<in> set al. \<forall>si \<in> free. si_seat si \<notin> al_SeatID ` set al \<longrightarrow>
         (\<exists>x \<in> set (seats s). \<exists>c \<in> set (coaches s). seat_id x = si_seat si \<and> coach_id c = seat_coach x \<and>
           (env_collate env (al_CoachNumber a), env_collate env (al_SeatNumber a), al_SeatID a) \<le>
           (env_collate env (coach_number c), env_collate env (seat_number x), si_seat si))) \<and>
      list_all2 (\<lambda>si si'.
          if si_train_run si = run \<and> si_seat si \<in> al_SeatID ` set al
          then \<exists>v. si' = si\<lparr>si_occupied := v, si_version := si_version si + 1\<rparr> \<and> length v = length (si_occupied si) \<and>
            occupied v = occupied (si_occupied si) \<union> segments requested
          else si' = si)
        (seat_inventory (locals s sc)) rows"
proof -
  let ?cls = "ToLower (env_unicode env) cls" and ?req = "varbit_of (EncodeSegmentMask requested)"
  let ?inven = "seat_inventory (locals s sc)"
  have len: "bitLength requested \<le> MaxInt32" using valid(4) by (simp add: MaxInt32_def)
  have sent: "varbit_recv_ok (EncodeSegmentMask requested)" using valid(3) len by (simp add: varbit_recv_encode)
  have keys: "distinct (map (\<lambda>si. (si_train_run si, si_seat si)) ?inven)"
    using ok(1) by (simp add: db_ok_def booking_ok_def keys_ok_def core_def)
  obtain avail where cand: "\<And>n. candidates env sc run ?cls ?req n s = take n avail"
    and dist: "distinct (map (\<lambda>p. si_seat (fst p)) avail)" and sorted: "sorted (map (seat_key env) avail)"
    and mem: "\<And>p. p \<in> set avail \<longleftrightarrow> fst p \<in> set ?inven \<and> si_train_run (fst p) = run \<and> si_class (fst p) = ?cls \<and>
      free_for ?req (fst p) \<and> \<not> env_locked_seat env (si_seat (fst p)) \<and> inventory_join s (fst p) = Some p \<and> seat_active (fst (snd p))"
    by (rule candidates_from [OF keys ok(2,3), of env run ?cls ?req]) blast
  note mem' = mem [unfolded free_for_iff [OF valid(3) len valid(5)] inventory_join_iff [OF ok(2,3)]]
  have free: "free = fst ` set avail"
    unfolding free_def image_def by (auto simp: mem' Bex_def) 
  have card: "card free = length avail"
  proof -
    have "inj_on fst (set avail)" using dist by (auto simp: distinct_map inj_on_def)
    then show ?thesis using dist by (simp add: free card_image distinct_card distinct_map)
  qed
  define al where "al = map (\<lambda>(si, x, c). \<lparr>al_SeatID = si_seat si, al_CoachNumber = coach_number c, al_SeatNumber = seat_number x\<rparr>)
    (take (nat count) avail)"
  have ids: "map al_SeatID al = map (\<lambda>p. si_seat (fst p)) (take (nat count) avail)"
    "map (\<lambda>(si, x, c). si_seat si) (take (nat count) avail) = map (\<lambda>p. si_seat (fst p)) (take (nat count) avail)"
    by (simp_all add: al_def case_prod_beta)
  have enough: "int (length (take (nat count) avail)) = count \<longleftrightarrow> \<not> int (card free) < count" using valid(2) by (auto simp: card)
  have run: "run_tx (AllocateSeats env route run cls requested count) s =
    (if int (card free) < count then (Inl ErrInsufficientInventory, s)
     else (Inr al, s\<lparr>locals := (locals s)(sc := (locals s sc)\<lparr>seat_inventory := reserve_rows run (map al_SeatID al) ?req ?inven\<rparr>)\<rparr>))"
    using valid nofault sent enough
    by (simp add: run_tx_def AllocateSeats_def Let_def tx_defs exec_sql_def local_modify_def sc_def [symmetric] cand ids mask_valid_iff)
       (simp add: al_def)
  show ?thesis
  proof (cases "int (card free) < count")
    case True
    then show ?thesis by (simp add: run)
  next
    case False
    have in_free: "al_SeatID ` set al \<subseteq> si_seat ` free"
      using arg_cong [OF ids(1), of set] set_take_subset [of "nat count" avail] by (force simp: free)
    have rows: "list_all2 (\<lambda>si si'. if si_train_run si = run \<and> si_seat si \<in> al_SeatID ` set al
          then \<exists>v. si' = si\<lparr>si_occupied := v, si_version := si_version si + 1\<rparr> \<and> length v = length (si_occupied si) \<and>
            occupied v = occupied (si_occupied si) \<union> segments requested
          else si' = si) ?inven (reserve_rows run (map al_SeatID al) ?req ?inven)"
    proof (rule reserve_rows_exact [OF valid(3) sent])
      fix si assume si: "si \<in> set ?inven" and k: "si_train_run si = run" "si_seat si \<in> al_SeatID ` set al"
      obtain q where q: "q \<in> free" "si_seat q = si_seat si" using k in_free by (auto simp: image_iff)
      then have "q = si" using keyed_uniq [OF keys, of q si] si k by (simp add: free_def)
      then show "int (length (si_occupied si)) = bitLength requested" using q by (simp add: free_def)
    qed
    have first: "\<forall>a \<in> set al. \<forall>si \<in> free. si_seat si \<notin> al_SeatID ` set al \<longrightarrow>
         (\<exists>x \<in> set (seats s). \<exists>c \<in> set (coaches s). seat_id x = si_seat si \<and> coach_id c = seat_coach x \<and>
           (env_collate env (al_CoachNumber a), env_collate env (al_SeatNumber a), al_SeatID a) \<le>
           (env_collate env (coach_number c), env_collate env (seat_number x), si_seat si))"
    proof (intro ballI impI)
      fix a si assume a: "a \<in> set al" and si: "si \<in> free" "si_seat si \<notin> al_SeatID ` set al"
      obtain p where p: "p \<in> set (take (nat count) avail)" "(env_collate env (al_CoachNumber a), env_collate env (al_SeatNumber a), al_SeatID a) = seat_key env p"
        using a by (auto simp: al_def seat_key_def)
      obtain q where q: "q \<in> set avail" "fst q = si" using si(1) free by auto
      have "q \<notin> set (take (nat count) avail)" using si(2) q(2) arg_cong [OF ids(1), of set] by auto
      with sorted p(1) q(1) have "seat_key env p \<le> seat_key env q" by (rule sorted_take_le)
      then show "\<exists>x \<in> set (seats s). \<exists>c \<in> set (coaches s). seat_id x = si_seat si \<and> coach_id c = seat_coach x \<and>
           (env_collate env (al_CoachNumber a), env_collate env (al_SeatNumber a), al_SeatID a) \<le>
           (env_collate env (coach_number c), env_collate env (seat_number x), si_seat si)"
        using q mem' [of q] p(2)
        by (intro bexI [of _ "fst (snd q)"] bexI [of _ "snd (snd q)"]) (auto simp: seat_key_def case_prod_beta)
    qed
    have "int (length al) = count" using False enough by (simp add: al_def)
    moreover have "distinct (map al_SeatID al)" unfolding ids using dist by (simp add: distinct_take take_map [symmetric])
    moreover have "run_tx (AllocateSeats env route run cls requested count) s =
        (Inr al, s\<lparr>locals := (locals s)(sc := (locals s sc)\<lparr>seat_inventory := reserve_rows run (map al_SeatID al) ?req ?inven\<rparr>)\<rparr>)"
      unfolding run using False by (rule if_not_P)
    ultimately show ?thesis unfolding if_not_P [OF False] using in_free rows first by blast
  qed
qed
theorem allocate_all_or_nothing_witness:
  "run_tx (AllocateSeats (ex_env 1 1000) None 100 ''standard'' \<lparr>mask_bits = [192], bitLength = 3\<rparr> 2) ex_free =
     (Inl ErrInsufficientInventory, ex_free) \<and>
   (\<exists>al db. run_tx (AllocateSeats (ex_env 1 1000) None 100 ''standard'' \<lparr>mask_bits = [192], bitLength = 3\<rparr> 1) ex_free = (Inr al, db) \<and>
     map al_SeatID al = [9])"
proof -
  let ?m = "\<lparr>mask_bits = [192], bitLength = 3\<rparr>"
  have valid: "mask_valid ?m" by code_simp
  have rows: "seat_inventory (locals ex_free Public) = [ex_seat [False, False, False] 0]"
    "distinct (map seat_id (seats ex_free))" "distinct (map coach_id (coaches ex_free))"
    by (simp_all add: ex_free_def ex_with_def ex_empty_def)
  have free: "{si \<in> set (seat_inventory (locals ex_free Public)).
      si_train_run si = 100 \<and> si_class si = ToLower (env_unicode (ex_env 1 1000)) ''standard'' \<and>
      int (length (si_occupied si)) = bitLength ?m \<and> occupied (si_occupied si) \<inter> segments ?m = {} \<and>
      (\<exists>x \<in> set (seats ex_free). seat_id x = si_seat si \<and> seat_active x \<and> (\<exists>c \<in> set (coaches ex_free). coach_id c = seat_coach x)) \<and>
      \<not> env_locked_seat (ex_env 1 1000) (si_seat si)} = {ex_seat [False, False, False] 0}"
  proof -
    have "occupied [False, False, False] = {}" by (auto simp: occupied_def nth_Cons')
    moreover have "ToLower (env_unicode (ex_env 1 1000)) ''standard'' = ''standard''" by (simp add: lower_ex)
    moreover have "\<exists>x \<in> set (seats ex_free). seat_id x = 9 \<and> seat_active x \<and> (\<exists>c \<in> set (coaches ex_free). coach_id c = seat_coach x)"
      "\<not> env_locked_seat (ex_env 1 1000) 9"
      by (simp_all add: ex_free_def ex_with_def ex_env_def)
    ultimately show ?thesis by (auto simp: rows(1) ex_seat_def)
  qed
  note app = allocate_all_or_nothing [of ex_free 100 _ ?m "ex_env 1 1000" "''standard''" None, unfolded search_schema_def option.case,
      OF ex_ok(1) rows(2,3) _ _ valid _ zero_ex(1) class_ex(2), unfolded free]
  have nofault: "env_fault (ex_env 1 1000) l = None" for l by (simp add: ex_env_def)
  show ?thesis using app [of 2] app [of 1] nofault by (auto simp: ex_seat_def length_Suc_conv)
qed

end
