(* ===== verification/Router_Properties.thy ===== *)
theory Router_Properties
  imports Booking_Example
begin

text \<open>
  The properties of the shard router: fencing of writes, and what a refresh of a stale route
  guarantees. \<open>ex_assigned\<close> adds an assignment, its shard and its open fence to some tables.
\<close>

definition ex_assigned :: "BookingDb \<Rightarrow> BookingDb" where
  "ex_assigned db = db\<lparr>
     train_run_shard_assignments := [\<lparr>as_train_run = 100, as_shard = ShardZero, as_generation = 4, as_state = ''stable'', as_migration = None\<rparr>],
     booking_shards := [\<lparr>sh_id = ShardZero, sh_enabled = True, sh_write_enabled = True, sh_state = ''active'', sh_min_protocol = 1\<rparr>],
     locals := (\<lambda>sc. \<lparr>seat_inventory = [], reservations = [], reservation_seats = [], ticket_orders = [], tickets = [],
       idempotency_records = [], train_run_write_fences = [\<lparr>fence_train_run = 100, fence_generation = 4, fence_write_enabled = True\<rparr>]\<rparr>)\<rparr>"

definition ex_router :: Router where
  "ex_router = \<lparr>router_cache = None, router_allowed = [ShardZero]\<rparr>"

definition ex_route :: ShardRoute where
  "ex_route = \<lparr>route_trainRunID = 100, route_shardID = ShardZero, route_generation = 4\<rparr>"

lemmas ex_route_defs = ex_assigned_def ex_router_def ex_route_def assignment_row_def catalog_serves_def
  catalogStateAllowsRoute_def shardAllowed_def ParseShardID_def NewAssignmentGeneration_def NewShardRoute_def
  SupportedFencingProtocolVersion_def

lemma ex_begin: "BeginTrainRunWrite (ex_env 0 1000) ex_router ex_route (ex_assigned ex_free) = Inr ex_route"
  by (simp add: BeginTrainRunWrite_def ex_route_defs validRoute_def fixedSearchPath_def route_matches_def
      assignment_state_allows_write_def shard_id_defs)

lemma ex_refresh: "RefreshTrainRun (ex_env 0 1000) 100 (ex_assigned ex_free) ex_router = (Inr ex_route, ex_router)"
  by (simp add: RefreshTrainRun_def loadTrainRun_def cache_invalidate_route_def cache_put_route_def ex_route_defs shard_id_defs)

text \<open>
  C4. Fencing: in one state of the tables, two routes of the same train run under which writes are
  accepted, by any processes with whatever caches and allowlists, are the same route: one shard, one
  generation. The write fence of that shard carries that generation and is open.
\<close>

theorem write_fencing:
  assumes "BeginTrainRunWrite env1 router1 route1 db = Inr r1" "BeginTrainRunWrite env2 router2 route2 db = Inr r2"
    and "route_trainRunID route1 = route_trainRunID route2"
  shows "r1 = r2 \<and> r1 = route1 \<and> (\<exists>sc f. fixedSearchPath (route_shardID r1) = Some sc \<and>
    find (\<lambda>f. fence_train_run f = route_trainRunID r1) (train_run_write_fences (locals db sc)) = Some f \<and>
    fence_generation f = route_generation r1 \<and> fence_write_enabled f)"
  using assms(1)
proof (rule BeginTrainRunWrite_success)
  fix a s f sc
  assume one: "r1 = route1" "assignment_row (route_trainRunID route1) db = Some (a, s)"
    "as_shard a = route_shardID route1" "as_generation a = route_generation route1"
    and fence: "fixedSearchPath (route_shardID route1) = Some sc"
    "find (\<lambda>f. fence_train_run f = route_trainRunID route1) (train_run_write_fences (locals db sc)) = Some f"
    "fence_generation f = route_generation route1" "fence_write_enabled f"
  have "r2 = route2 \<and> as_shard a = route_shardID route2 \<and> as_generation a = route_generation route2"
    using assms(2) by (rule BeginTrainRunWrite_success) (use one(2) assms(3) in simp)
  then have "r1 = r2" using one assms(3) by simp
  with one fence show ?thesis by auto
qed

theorem write_fencing_witness:
  "\<exists>sc f. fixedSearchPath (route_shardID ex_route) = Some sc \<and>
    find (\<lambda>f. fence_train_run f = route_trainRunID ex_route) (train_run_write_fences (locals (ex_assigned ex_free) sc)) = Some f \<and>
    fence_generation f = route_generation ex_route \<and> fence_write_enabled f"
  using write_fencing [OF ex_begin ex_begin] by simp

text \<open>
  A refresh returns the current assignment, and a write under the refreshed route on the same
  tables is never refused as stale, so one refresh is enough for the retry of \<open>beginResolvedWrite\<close>.
\<close>

lemma refresh_is_current:
  assumes "RefreshTrainRun env k db router = (Inr r, router')"
  shows "(\<exists>a s. assignment_row k db = Some (a, s) \<and> as_shard a = route_shardID r \<and> as_generation a = route_generation r \<and>
      route_trainRunID r = k \<and> route_ok r) \<and>
    BeginTrainRunWrite env2 router2 r db \<noteq> Inl RouteErrorAssignmentStale"
proof -
  have "loadTrainRun env k db (cache_invalidate_route k router) = (Inr r, router')"
    using assms by (auto simp: RefreshTrainRun_def split: if_splits)
  then show ?thesis
  proof (rule loadTrainRun_success)
    fix a s assume a: "assignment_row k db = Some (a, s)"
      "r = \<lparr>route_trainRunID = k, route_shardID = as_shard a, route_generation = as_generation a\<rparr>" "route_ok r"
    have "route_matches r a \<noteq> Inl RouteErrorAssignmentStale"
      using a(2) by (auto simp: route_matches_def ParseShardID_def)
    then have "BeginTrainRunWrite env2 router2 r db \<noteq> Inl RouteErrorAssignmentStale"
      using a by (auto simp: BeginTrainRunWrite_def assignment_state_allows_write_def split: if_splits option.splits sum.splits)
    then show ?thesis using a by auto
  qed
qed

text \<open>
  Whatever the cache held for the run, the next resolution after a refresh returns either the
  refreshed route or a route freshly read: never an older cached one.
\<close>

lemma resolve_after_refresh:
  assumes "RefreshTrainRun env k db router = (Inr r, router1)"
    and "\<And>c. router_cache router = Some c \<Longrightarrow> cache_inv c"
    and "ResolveTrainRun env2 k db2 router1 = (Inr r2, router2)"
  shows "r2 = r \<or> (\<exists>a s. assignment_row k db2 = Some (a, s) \<and> as_shard a = route_shardID r2 \<and> as_generation a = route_generation r2)"
proof -
  have "loadTrainRun env k db (cache_invalidate_route k router) = (Inr r, router1)"
    using assms(1) by (auto simp: RefreshTrainRun_def split: if_splits)
  then have r: "route_ok r" "route_trainRunID r = k"
    and r1: "router1 = cache_put_route (env_clock env) r (cache_invalidate_route k router)"
    by (auto elim!: loadTrainRun_success)
  have cached: "hit = r" if h: "router_cache router1 = Some c1" "fst (Cache_Get (env_clock env2) k c1) = Some hit" for c1 hit
  proof -
    obtain c where c: "router_cache router = Some c" "c1 = snd (Cache_Put (env_clock env) r (Cache_Invalidate k c))"
      using h(1) by (auto simp: r1 cache_put_route_def cache_invalidate_route_def)
    show ?thesis
      using rcache.get_after_put [OF rcache.inv_forget [OF assms(2) [OF c(1)], of k] r(1), of "env_clock env2" "env_clock env"]
        h(2) r(2) by (auto simp: c(2))
  qed
  show ?thesis
  proof (cases "\<exists>c1 hit. router_cache router1 = Some c1 \<and> fst (Cache_Get (env_clock env2) k c1) = Some hit \<and> r2 = hit")
    case True
    with cached show ?thesis by blast
  next
    case False
    then obtain rt where "loadTrainRun env2 k db2 rt = (Inr r2, router2)"
      using assms(3) by (auto simp: ResolveTrainRun_def Let_def split: if_splits option.splits prod.splits)
    then show ?thesis by (auto elim!: loadTrainRun_success)
  qed
qed

end
