(* ===== verification/Reservation.thy ===== *)
theory Reservation
  imports Rail_Prelude
begin

text \<open>
  \<^verbatim>\<open>src/internal/booking/domain/reservation.go\<close>: the life cycle of a reservation. Every method is a
  function from the receiver to the changed receiver, the flag that says whether anything changed,
  or an error; an error leaves the receiver as it was.
\<close>

datatype ReservationStatus =
    ReservationStatusHeld
  | ReservationStatusConfirmed
  | ReservationStatusExpired
  | ReservationStatusCancelled
  | ReservationStatusPaymentPending
  | ReservationStatusPaymentReview
  | ReservationStatusRefundPending

datatype ReservationError =
    ErrInvalidReservation
  | ErrReservationExpired_domain
  | ErrReservationNotExpired
  | ErrInvalidReservationTransition

record Reservation =
  res_status :: ReservationStatus
  res_expiresAt :: gotime

type_synonym reservation_step = "ReservationError + (Reservation \<times> bool)"

definition NewHeldReservation :: "gotime \<Rightarrow> ReservationError + Reservation" where
  "NewHeldReservation expiresAt =
     (if IsZero_time expiresAt then Inl ErrInvalidReservation
      else Inr \<lparr>res_status = ReservationStatusHeld, res_expiresAt = expiresAt\<rparr>)"

definition Reservation_Confirm :: "Reservation \<Rightarrow> gotime \<Rightarrow> reservation_step" where
  "Reservation_Confirm r now =
     (if res_status r = ReservationStatusConfirmed then Inr (r, False)
      else if res_status r \<noteq> ReservationStatusHeld then Inl ErrInvalidReservationTransition
      else if \<not> now < res_expiresAt r then Inl ErrReservationExpired_domain
      else Inr (r\<lparr>res_status := ReservationStatusConfirmed\<rparr>, True))"

definition Reservation_Expire :: "Reservation \<Rightarrow> gotime \<Rightarrow> reservation_step" where
  "Reservation_Expire r now =
     (if res_status r = ReservationStatusExpired then Inr (r, False)
      else if res_status r \<noteq> ReservationStatusHeld then Inl ErrInvalidReservationTransition
      else if now < res_expiresAt r then Inl ErrReservationNotExpired
      else Inr (r\<lparr>res_status := ReservationStatusExpired\<rparr>, True))"

definition Reservation_Cancel :: "Reservation \<Rightarrow> reservation_step" where
  "Reservation_Cancel r =
     (if res_status r = ReservationStatusCancelled then Inr (r, False)
      else if res_status r \<noteq> ReservationStatusHeld \<and> res_status r \<noteq> ReservationStatusConfirmed
      then Inl ErrInvalidReservationTransition
      else Inr (r\<lparr>res_status := ReservationStatusCancelled\<rparr>, True))"

definition BeginPayment :: "Reservation \<Rightarrow> gotime \<Rightarrow> reservation_step" where
  "BeginPayment r now =
     (if res_status r = ReservationStatusPaymentPending then Inr (r, False)
      else if res_status r \<noteq> ReservationStatusHeld then Inl ErrInvalidReservationTransition
      else if \<not> now < res_expiresAt r then Inl ErrReservationExpired_domain
      else Inr (r\<lparr>res_status := ReservationStatusPaymentPending\<rparr>, True))"

definition ReviewPayment :: "Reservation \<Rightarrow> reservation_step" where
  "ReviewPayment r =
     (if res_status r = ReservationStatusPaymentReview then Inr (r, False)
      else if res_status r \<noteq> ReservationStatusPaymentPending then Inl ErrInvalidReservationTransition
      else Inr (r\<lparr>res_status := ReservationStatusPaymentReview\<rparr>, True))"

definition ResumePayment :: "Reservation \<Rightarrow> reservation_step" where
  "ResumePayment r =
     (if res_status r = ReservationStatusPaymentPending then Inr (r, False)
      else if res_status r \<noteq> ReservationStatusPaymentReview then Inl ErrInvalidReservationTransition
      else Inr (r\<lparr>res_status := ReservationStatusPaymentPending\<rparr>, True))"

definition ConfirmPayment :: "Reservation \<Rightarrow> reservation_step" where
  "ConfirmPayment r =
     (if res_status r = ReservationStatusConfirmed then Inr (r, False)
      else if res_status r \<noteq> ReservationStatusPaymentPending \<and> res_status r \<noteq> ReservationStatusPaymentReview
      then Inl ErrInvalidReservationTransition
      else Inr (r\<lparr>res_status := ReservationStatusConfirmed\<rparr>, True))"

definition BeginRefund :: "Reservation \<Rightarrow> reservation_step" where
  "BeginRefund r =
     (if res_status r = ReservationStatusRefundPending then Inr (r, False)
      else if res_status r \<noteq> ReservationStatusConfirmed \<and> res_status r \<noteq> ReservationStatusPaymentReview
      then Inl ErrInvalidReservationTransition
      else Inr (r\<lparr>res_status := ReservationStatusRefundPending\<rparr>, True))"

definition CompleteCompensation :: "Reservation \<Rightarrow> reservation_step" where
  "CompleteCompensation r =
     (if res_status r = ReservationStatusCancelled then Inr (r, False)
      else if res_status r \<noteq> ReservationStatusRefundPending then Inl ErrInvalidReservationTransition
      else Inr (r\<lparr>res_status := ReservationStatusCancelled\<rparr>, True))"

lemmas reservation_defs = Reservation_Confirm_def Reservation_Expire_def Reservation_Cancel_def
  BeginPayment_def ReviewPayment_def ResumePayment_def ConfirmPayment_def BeginRefund_def
  CompleteCompensation_def

subsection \<open>Runs of the life cycle\<close>

datatype reservation_call =
    CallConfirm gotime | CallExpire gotime | CallCancel | CallBeginPayment gotime
  | CallReviewPayment | CallResumePayment | CallConfirmPayment | CallBeginRefund
  | CallCompleteCompensation

fun reservation_call_step :: "Reservation \<Rightarrow> reservation_call \<Rightarrow> reservation_step" where
  "reservation_call_step r (CallConfirm now) = Reservation_Confirm r now"
| "reservation_call_step r (CallExpire now) = Reservation_Expire r now"
| "reservation_call_step r CallCancel = Reservation_Cancel r"
| "reservation_call_step r (CallBeginPayment now) = BeginPayment r now"
| "reservation_call_step r CallReviewPayment = ReviewPayment r"
| "reservation_call_step r CallResumePayment = ResumePayment r"
| "reservation_call_step r CallConfirmPayment = ConfirmPayment r"
| "reservation_call_step r CallBeginRefund = BeginRefund r"
| "reservation_call_step r CallCompleteCompensation = CompleteCompensation r"

text \<open>
  \<open>reservation_run r cs\<close>: the reservation after its methods were called when the calls \<open>cs\<close> are made in
  order; a failing call leaves it where it is.
\<close>

fun reservation_run :: "Reservation \<Rightarrow> reservation_call list \<Rightarrow> Reservation" where
  "reservation_run r [] = r"
| "reservation_run r (c # cs) =
     reservation_run (case reservation_call_step r c of Inl _ \<Rightarrow> r | Inr (r', _) \<Rightarrow> r') cs"

inductive lifecycle :: "ReservationStatus \<Rightarrow> ReservationStatus \<Rightarrow> bool" where
  held_confirmed: "lifecycle ReservationStatusHeld ReservationStatusConfirmed"
| held_expired: "lifecycle ReservationStatusHeld ReservationStatusExpired"
| held_cancelled: "lifecycle ReservationStatusHeld ReservationStatusCancelled"
| held_pending: "lifecycle ReservationStatusHeld ReservationStatusPaymentPending"
| confirmed_cancelled: "lifecycle ReservationStatusConfirmed ReservationStatusCancelled"
| confirmed_refund: "lifecycle ReservationStatusConfirmed ReservationStatusRefundPending"
| pending_review: "lifecycle ReservationStatusPaymentPending ReservationStatusPaymentReview"
| pending_confirmed: "lifecycle ReservationStatusPaymentPending ReservationStatusConfirmed"
| review_pending: "lifecycle ReservationStatusPaymentReview ReservationStatusPaymentPending"
| review_confirmed: "lifecycle ReservationStatusPaymentReview ReservationStatusConfirmed"
| review_refund: "lifecycle ReservationStatusPaymentReview ReservationStatusRefundPending"
| refund_cancelled: "lifecycle ReservationStatusRefundPending ReservationStatusCancelled"

inductive_simps lifecycle_from [simp]:
  "lifecycle ReservationStatusHeld s" "lifecycle ReservationStatusConfirmed s"
  "lifecycle ReservationStatusExpired s" "lifecycle ReservationStatusCancelled s"
  "lifecycle ReservationStatusPaymentPending s" "lifecycle ReservationStatusPaymentReview s"
  "lifecycle ReservationStatusRefundPending s"

text \<open>One call is one edge of the life cycle, or no change.\<close>

lemma call_step_lifecycle:
  assumes "reservation_call_step r c = Inr (r', changed)"
  shows "res_expiresAt r' = res_expiresAt r \<and>
    (if changed then lifecycle (res_status r) (res_status r') else r' = r)"
  using assms by (cases c; cases "res_status r") (auto simp: reservation_defs split: if_splits)

lemma lifecycle_call:
  assumes "lifecycle s t" "res_status r = s" "now < res_expiresAt r"
  shows "\<exists>c r'. reservation_call_step r c = Inr (r', True) \<and> res_status r' = t"
  using assms
proof (cases rule: lifecycle.cases)
  case held_confirmed
  with assms show ?thesis by (intro exI [of _ "CallConfirm now"]) (simp add: reservation_defs)
next
  case held_expired
  with assms show ?thesis
    by (intro exI [of _ "CallExpire (res_expiresAt r)"]) (simp add: reservation_defs)
next
  case held_pending
  with assms show ?thesis by (intro exI [of _ "CallBeginPayment now"]) (simp add: reservation_defs)
next
  case held_cancelled
  with assms show ?thesis by (intro exI [of _ CallCancel]) (simp add: reservation_defs)
next
  case confirmed_cancelled
  with assms show ?thesis by (intro exI [of _ CallCancel]) (simp add: reservation_defs)
next
  case confirmed_refund
  with assms show ?thesis by (intro exI [of _ CallBeginRefund]) (simp add: reservation_defs)
next
  case review_refund
  with assms show ?thesis by (intro exI [of _ CallBeginRefund]) (simp add: reservation_defs)
next
  case pending_review
  with assms show ?thesis by (intro exI [of _ CallReviewPayment]) (simp add: reservation_defs)
next
  case review_pending
  with assms show ?thesis by (intro exI [of _ CallResumePayment]) (simp add: reservation_defs)
next
  case pending_confirmed
  with assms show ?thesis by (intro exI [of _ CallConfirmPayment]) (simp add: reservation_defs)
next
  case review_confirmed
  with assms show ?thesis by (intro exI [of _ CallConfirmPayment]) (simp add: reservation_defs)
next
  case refund_cancelled
  with assms show ?thesis by (intro exI [of _ CallCompleteCompensation]) (simp add: reservation_defs)
qed

definition terminal_status :: "ReservationStatus \<Rightarrow> bool" where
  "terminal_status s \<longleftrightarrow> s = ReservationStatusExpired \<or> s = ReservationStatusCancelled"

lemma terminal_no_step: "terminal_status s \<Longrightarrow> \<not> lifecycle s t"
  by (auto simp: terminal_status_def)

lemma terminal_run: "terminal_status (res_status r) \<Longrightarrow> reservation_run r cs = r"
proof (induction cs)
  case (Cons c cs)
  have "(case reservation_call_step r c of Inl _ \<Rightarrow> r | Inr (r', _) \<Rightarrow> r') = r"
  proof (cases "reservation_call_step r c")
    case (Inr p)
    obtain r' ch where p: "p = (r', ch)" by (cases p)
    with call_step_lifecycle [of r c r' ch] Inr terminal_no_step [OF Cons.prems]
    show ?thesis by (auto split: if_splits)
  qed simp
  with Cons show ?case by simp
qed simp

lemma run_lifecycle: "rtranclp lifecycle (res_status r) (res_status (reservation_run r cs))"
proof (induction cs arbitrary: r)
  case (Cons c cs)
  define r1 where "r1 = (case reservation_call_step r c of Inl _ \<Rightarrow> r | Inr (r', _) \<Rightarrow> r')"
  have "rtranclp lifecycle (res_status r) (res_status r1)"
    unfolding r1_def using call_step_lifecycle
    by (fastforce split: sum.splits if_splits prod.splits)
  then show ?case using Cons.IH [of r1] by (simp add: r1_def)
qed simp

end
