(* ===== verification/Domain_Properties.thy ===== *)
theory Domain_Properties
  imports Varbit Money Reservation Offering_Domain Route_Cache
begin

text \<open>
  The properties of the value objects and of the route cache: segment masks and their stored form,
  money, the life cycle of a reservation, routes, train runs, station codes, shard lists.
\<close>

text \<open>
  Two journeys on a run of \<open>n\<close> segments have masks, and the masks overlap exactly when each journey
  starts before the other ends.
\<close>

lemma journeys_overlap:
  assumes "0 \<le> a" "a < b" "b \<le> n" "0 \<le> c" "c < d" "d \<le> n"
  shows "\<exists>p q. NewSegmentMask n a b = Inr p \<and> NewSegmentMask n c d = Inr q \<and> Overlaps p q = Inr (a < d \<and> c < b)"
proof -
  have n: "0 < n" using assms by simp
  obtain p where p: "NewSegmentMask n a b = Inr p" "mask_valid p" "bitLength p = n" "segments p = {nat a..<nat b}"
    using NewSegmentMask_spec [OF n assms(1-3)] by blast
  obtain q where q: "NewSegmentMask n c d = Inr q" "mask_valid q" "bitLength q = n" "segments q = {nat c..<nat d}"
    using NewSegmentMask_spec [OF n assms(4-6)] by blast
  have "segments p \<inter> segments q \<noteq> {} \<longleftrightarrow> a < d \<and> c < b"
    using assms by (auto simp: p q Int_atLeastLessThan)
  then show ?thesis using p q Overlaps_spec [OF p(2) q(2)] by simp
qed

text \<open>
  Joining a mask into a seat's mask that it does not overlap, and taking it out again, gives back the
  seat's mask, byte for byte; while it is in, every mask that meets it overlaps the seat's mask.
\<close>

lemma reserve_release:
  assumes "mask_valid m" "mask_valid n" "bitLength m = bitLength n" "Overlaps m n = Inr False"
  shows "\<exists>u. Union_mask m n = Inr u \<and> Subtract u n = Inr m \<and>
    (\<forall>k. mask_valid k \<and> bitLength k = bitLength n \<and> Overlaps n k = Inr True \<longrightarrow> Overlaps u k = Inr True)"
proof -
  have len: "nat (bitLength m) = nat (bitLength n)" using assms(3) by simp
  obtain u where u: "Union_mask m n = Inr u" "mask_valid u" "bitLength u = bitLength m" "segments u = segments m \<union> segments n"
    using Union_mask_spec [OF assms(1-3)] by blast
  obtain r where r: "Subtract u n = Inr r" using Subtract_spec [OF u(2) assms(2)] u(3) assms(3) by auto
  have "projr (Subtract (projr (Union_mask m n)) n) = m"
    by (rule sm.release_reserve [OF assms(1,2) len]) (simp add: assms(4))
  then have "r = m" by (simp add: u r)
  moreover have "Overlaps u k = Inr True" if k: "mask_valid k \<and> bitLength k = bitLength n \<and> Overlaps n k = Inr True" for k
    using k u assms Overlaps_spec [of n k] Overlaps_spec [of u k] by auto
  ultimately show ?thesis using u(1) r by blast
qed

text \<open>
  C21. Storing a valid mask and reading it back gives the mask, as long as its length is a 32-bit number. The
  encoder cuts a longer length to its low 32 bits; the value it makes is then refused by the decoder, so no
  mask is ever read as another, and the server refuses it as a parameter. Every stored value that reads back
  as a mask is the encoding of that mask, which is valid and short enough: decoding accepts exactly the
  encodings of such masks.
\<close>

theorem segment_bits_roundtrip:
  "(\<forall>m. mask_valid m \<longrightarrow>
      DecodeSegmentMask (EncodeSegmentMask m) = (if bitLength m \<le> 2 ^ 31 - 1 then Inr m else Inl ErrInvalidSegmentBits) \<and>
      (varbit_recv_ok (EncodeSegmentMask m) \<longleftrightarrow> bitLength m \<le> 2 ^ 31 - 1)) \<and>
   (\<forall>b m. DecodeSegmentMask b = Inr m \<longrightarrow> EncodeSegmentMask m = b \<and> mask_valid m \<and> bitLength m \<le> 2 ^ 31 - 1)"
  using Decode_Encode Encode_Decode varbit_recv_encode by (simp add: MaxInt32_def)

theorem segment_bits_roundtrip_witness:
  "DecodeSegmentMask (EncodeSegmentMask \<lparr>mask_bits = [192], bitLength = 3\<rparr>) = Inr \<lparr>mask_bits = [192], bitLength = 3\<rparr>"
proof -
  have "mask_valid \<lparr>mask_bits = [192], bitLength = 3\<rparr>" by code_simp
  then show ?thesis using segment_bits_roundtrip by simp
qed

text \<open>
  Multiplying a valid amount is repeated addition, overflow included: the guard of \<^verbatim>\<open>Multiply\<close> refuses
  exactly the products that do not fit, and neither operation wraps.
\<close>

lemma multiply_is_repeated_addition:
  assumes "money_ok m"
  shows "Money_Multiply m (int k) = add_times k m \<and>
    (\<forall>r. Money_Multiply m (int k) = Inr r \<longrightarrow> money_ok r \<and> amountMinor r = amountMinor m * int k)"
proof
  show "Money_Multiply m (int k) = add_times k m"
    using Money_Multiply_exact [OF assms, of "int k"] add_times_exact [OF assms, of k] by simp
qed (use Money_Multiply_ok [OF assms] in blast)

text \<open>
  The methods of a reservation change its status exactly along the edges of the life cycle: a call
  changes the status from \<open>s\<close> to \<open>t\<close> for some reservation and some time exactly when \<open>lifecycle s t\<close>.
\<close>

lemma reservation_lifecycle_exact:
  "lifecycle s t \<longleftrightarrow> (\<exists>r c r'. res_status r = s \<and> reservation_call_step r c = Inr (r', True) \<and> res_status r' = t)"
proof
  assume "lifecycle s t"
  then show "\<exists>r c r'. res_status r = s \<and> reservation_call_step r c = Inr (r', True) \<and> res_status r' = t"
    using lifecycle_call [of s t "\<lparr>res_status = s, res_expiresAt = 1\<rparr>" 0]
    by (intro exI [of _ "\<lparr>res_status = s, res_expiresAt = 1\<rparr>"]) simp
next
  assume "\<exists>r c r'. res_status r = s \<and> reservation_call_step r c = Inr (r', True) \<and> res_status r' = t"
  then show "lifecycle s t" using call_step_lifecycle by fastforce
qed

text \<open>
  Once a reservation has expired or been cancelled, no further sequence of calls changes it.
\<close>

lemma reservation_terminal_forever:
  assumes "terminal_status (res_status (reservation_run r cs))"
  shows "reservation_run r (cs @ ds) = reservation_run r cs"
proof -
  have "reservation_run r (xs @ ds) = reservation_run (reservation_run r xs) ds" for r xs
    by (induction xs arbitrary: r) simp_all
  then show ?thesis using terminal_run [OF assms] by simp
qed

text \<open>
  At any instant a held reservation can be confirmed or expired, never both and never neither; payment
  can begin exactly when it can be confirmed.
\<close>

lemma confirm_xor_expire:
  assumes "res_status r = ReservationStatusHeld"
  shows "((\<exists>r'. Reservation_Confirm r now = Inr (r', True)) \<noteq> (\<exists>r'. Reservation_Expire r now = Inr (r', True))) \<and>
    ((\<exists>r'. BeginPayment r now = Inr (r', True)) = (\<exists>r'. Reservation_Confirm r now = Inr (r', True)))"
  using assms by (auto simp: reservation_defs)

text \<open>
  A route is accepted exactly when its name and code are not blank, it has at least two stops, and the
  stops are numbered from 0, visit different stations with valid codes and never go back in time; its
  segment count, by which the masks of its runs are sized, is then the number of stops minus one.
\<close>

lemma route_accepted_iff:
  "((\<exists>r. NewRoute u code name stops = Inr r) \<longleftrightarrow>
     ToUpper u (TrimSpace u code) \<noteq> [] \<and> TrimSpace u name \<noteq> [] \<and> 2 \<le> length stops \<and> stops_ok u stops) \<and>
   (\<forall>r. NewRoute u code name stops = Inr r \<longrightarrow>
     route_stops r = stops \<and> Route_SegmentCount r = int (length stops) - 1 \<and> 1 \<le> Route_SegmentCount r)"
  by (auto simp: NewRoute_def Let_def check_stops_ok [symmetric] Route_SegmentCount_def split: if_splits option.splits)

text \<open>
  The status of a train run never returns to one it has left: no non-empty sequence of accepted
  changes is a cycle, and completed and cancelled runs do not change.
\<close>

lemma train_run_never_returns:
  "\<not> run_change\<^sup>+\<^sup>+ s s \<and> \<not> run_change TrainRunStatusCompleted t \<and> \<not> run_change TrainRunStatusCancelled t"
  using run_changes_rank [of s s] by (cases t) (auto simp: run_change_def ValidateTrainRunTransition_def)

text \<open>
  A station code that is accepted is two to twelve upper-case letters and digits whatever the Unicode
  tables, and accepting it again gives the same code; \<^verbatim>\<open>IsValid\<close> recognises exactly these codes.
\<close>

lemma station_code_normal_form:
  "(\<forall>c. NewStationCode u s = Inr c \<longrightarrow> station_code_form c \<and> NewStationCode u c = Inr c) \<and>
   (StationCode_IsValid u s \<longleftrightarrow> station_code_form s)"
proof -
  have "NewStationCode u c = Inr c" if "station_code_form c" for c
    using station_form_fixed [OF that, of u] that by (simp add: NewStationCode_def station_code_form_def Let_def)
  then show ?thesis using NewStationCode_form StationCode_IsValid_iff by blast
qed

text \<open>
  A list of shard names is accepted exactly when it has one to five names, all in the allowlist and no
  two equal, and then it is returned as it is.
\<close>

lemma shard_list_accepted_iff:
  "ParseShardIDs raw = Inr ids \<longleftrightarrow> ids = raw \<and> distinct raw \<and> 0 < length raw \<and> length raw \<le> 5 \<and>
     set raw \<subseteq> {ShardLegacy, ShardZero, ShardOne, ShardPhysicalZero, ShardPhysicalOne}"
proof
  assume "ids = raw \<and> distinct raw \<and> 0 < length raw \<and> length raw \<le> 5 \<and>
     set raw \<subseteq> {ShardLegacy, ShardZero, ShardOne, ShardPhysicalZero, ShardPhysicalOne}"
  moreover have "parse_shard_ids xs acc = Inr (acc @ xs)"
    if "distinct (acc @ xs)" "set xs \<subseteq> {ShardLegacy, ShardZero, ShardOne, ShardPhysicalZero, ShardPhysicalOne}" for xs acc
    using that by (induction xs arbitrary: acc) (auto simp: ParseShardID_def)
  ultimately show "ParseShardIDs raw = Inr ids" by (simp add: ParseShardIDs_def)
qed (use ParseShardIDs_spec in blast)

text \<open>
  C22. The cache with its map, list and handles behaves as an ordered list of entries: a lookup, a store and
  an invalidation return what the list operations return and keep the invariant, so map and list
  never disagree and the number of entries stays within the limit.
\<close>

theorem route_cache_refines_lru:
  assumes "cache_inv c" "rc_enabled c" "route_ok r"
  shows "(fst (Cache_Get now k c), cache_list (snd (Cache_Get now k c))) = lru_get now k (cache_list c) \<and>
    cache_list (snd (Cache_Put now r c)) = lru_put (nat (rc_max c))
      \<lparr>ce_trainRunID = route_trainRunID r, ce_route = r, ce_expiresAt = now + rc_ttl c\<rparr> (cache_list c) \<and>
    cache_list (Cache_Invalidate k c) = lru_without k (cache_list c) \<and>
    cache_inv (snd (Cache_Get now k c)) \<and> cache_inv (snd (Cache_Put now r c)) \<and> cache_inv (Cache_Invalidate k c)"
  using Cache_Get_refines [OF assms(1,2)] Cache_Put_refines [OF assms] Cache_Invalidate_refines [OF assms(1)] by blast

theorem route_cache_refines_lru_witness:
  "cache_list (snd (Cache_Put 5 \<lparr>route_trainRunID = 100, route_shardID = ShardZero, route_generation = 4\<rparr>
      \<lparr>rc_enabled = True, rc_ttl = 30, rc_max = 2, rc_entries = Map.empty, rc_lru = [], rc_next = 0\<rparr>)) =
   [\<lparr>ce_trainRunID = 100, ce_route = \<lparr>route_trainRunID = 100, route_shardID = ShardZero, route_generation = 4\<rparr>, ce_expiresAt = 35\<rparr>]"
proof -
  let ?c = "\<lparr>rc_enabled = True, rc_ttl = 30, rc_max = 2, rc_entries = Map.empty, rc_lru = [], rc_next = 0\<rparr>"
  let ?r = "\<lparr>route_trainRunID = 100, route_shardID = ShardZero, route_generation = 4\<rparr>"
  have "cache_inv ?c" "rc_enabled ?c" "route_ok ?r" by (simp_all add: cache_inv_def cache_list_def route_ok_def)
  from route_cache_refines_lru [OF this, of 5] show ?thesis by (simp add: cache_list_def lru_put_def lru_find_def)
qed

text \<open>
  A route taken from the cache was stored for that run and has not expired; a store replaces what was
  cached for its run, and after an invalidation the run misses.
\<close>

lemma route_cache_sound:
  assumes "cache_inv c" "route_ok r"
  shows "(\<forall>x. fst (Cache_Get now k c) = Some x \<longrightarrow>
      (\<exists>e \<in> set (cache_list c). ce_route e = x \<and> ce_trainRunID e = k \<and> now < ce_expiresAt e)) \<and>
    fst (Cache_Get now (route_trainRunID r) (snd (Cache_Put t r c))) \<in> {None, Some r} \<and>
    fst (Cache_Get now k (Cache_Invalidate k c)) = None"
  using Cache_Get_hit [OF assms(1)] rcache.get_after_put [OF assms] rcache.get_after_forget [OF assms(1)] by blast

end
