(* ===== verification/State_Machine.thy ===== *)
theory State_Machine
  imports Rail_Prelude
begin

text \<open>
  The contract that the transition methods of the payment aggregates share: asking for the current state
  changes nothing, asking for a state along an edge of the table moves there, and every other request
  is refused. \<open>machine_run\<close> makes requests one after the other; a refused request leaves the aggregate
  where it is.
\<close>

fun machine_run :: "('s \<Rightarrow> 'm \<Rightarrow> 'e + ('m \<times> bool)) \<Rightarrow> 'm \<Rightarrow> 's list \<Rightarrow> 'm" where
  "machine_run tr m [] = m"
| "machine_run tr m (s # ss) = machine_run tr (case tr s m of Inl _ \<Rightarrow> m | Inr (m', _) \<Rightarrow> m') ss"

lemma machine_run_append: "machine_run tr m (xs @ ys) = machine_run tr (machine_run tr m xs) ys"
  by (induction xs arbitrary: m) simp_all

locale transition_table =
  fixes tr :: "'s \<Rightarrow> 'm \<Rightarrow> 'e + ('m \<times> bool)"
    and state :: "'m \<Rightarrow> 's"
    and edge :: "'s \<Rightarrow> 's \<Rightarrow> bool"
  assumes tr_same: "tr (state m) m = Inr (m, False)"
    and tr_edge: "s \<noteq> state m \<Longrightarrow> edge (state m) s \<Longrightarrow> \<exists>m'. tr s m = Inr (m', True) \<and> state m' = s"
    and tr_refuse: "s \<noteq> state m \<Longrightarrow> \<not> edge (state m) s \<Longrightarrow> \<exists>e. tr s m = Inl e"
begin

lemma tr_cases:
  "tr s m = Inr (m', changed) \<longleftrightarrow>
     (if s = state m then m' = m \<and> \<not> changed
      else edge (state m) s \<and> changed \<and> tr s m = Inr (m', True) \<and> state m' = s)"
  using tr_same [of m] tr_edge [of s m] tr_refuse [of s m] by (cases "s = state m"; cases "edge (state m) s") auto

lemma step_follows: "edge\<^sup>*\<^sup>* (state m) (state (case tr s m of Inl _ \<Rightarrow> m | Inr (m', _) \<Rightarrow> m'))"
proof (cases "tr s m")
  case (Inr p)
  obtain m' ch where p: "p = (m', ch)" by (cases p)
  then have "if s = state m then m' = m \<and> \<not> ch else edge (state m) s \<and> ch \<and> tr s m = Inr (m', True) \<and> state m' = s"
    using Inr tr_cases [of s m m' ch] by simp
  then show ?thesis using Inr p by (auto split: if_splits)
qed simp

text \<open>Whatever is requested, the state moves along the edges of the table.\<close>

lemma run_follows: "edge\<^sup>*\<^sup>* (state m) (state (machine_run tr m ss))"
proof (induction ss arbitrary: m)
  case (Cons s ss)
  from step_follows [of m s] Cons.IH show ?case by (simp add: rtranclp_trans)
qed simp

text \<open>A state without outgoing edges is never left, and nothing of the aggregate changes in it.\<close>

lemma run_terminal:
  assumes "\<And>s. \<not> edge (state m) s"
  shows "machine_run tr m ss = m"
  using assms
proof (induction ss)
  case (Cons s ss)
  have "(case tr s m of Inl _ \<Rightarrow> m | Inr (m', _) \<Rightarrow> m') = m"
  proof (cases "s = state m")
    case True
    then show ?thesis using tr_same [of m] by simp
  next
    case False
    then obtain e where "tr s m = Inl e" using tr_refuse Cons.prems by blast
    then show ?thesis by simp
  qed
  then show ?case using Cons by simp
qed simp

text \<open>Every state the edges lead to can be reached by requests.\<close>

lemma run_reaches:
  assumes "edge\<^sup>*\<^sup>* (state m) t"
  shows "\<exists>ss. state (machine_run tr m ss) = t"
  using assms
proof (induction rule: rtranclp_induct)
  case base
  show ?case by (rule exI [of _ "[]"]) simp
next
  case (step u t)
  then obtain ss where ss: "state (machine_run tr m ss) = u" by blast
  have "\<exists>n. tr t (machine_run tr m ss) = Inr (n, t \<noteq> u) \<and> state n = t"
    using ss step.hyps(2) tr_same [of "machine_run tr m ss"] tr_edge [of t "machine_run tr m ss"] by (cases "t = u") auto
  then show ?case by (intro exI [of _ "ss @ [t]"]) (auto simp: machine_run_append)
qed

end

end
