(* ===== verification/Payment_Domain.thy ===== *)
theory Payment_Domain
  imports Money State_Machine
begin

text \<open>
  \<^verbatim>\<open>src/internal/payment/domain\<close>: the payment intent with the money it has captured and refunded, the
  provider operation and the saga. Their states are Go string types; \<open>IntentOther\<close> and its like are the
  strings that are no constant of the type. The three transition tables are interpretations of
  \<open>transition_table\<close>. The methods are called on aggregates that exist; a nil receiver is refused before
  anything else.
\<close>

subsection \<open>Intents\<close>

datatype IntentState =
    IntentCreated | IntentReservationSecuring | IntentCheckoutPending | IntentAwaitingCustomer
  | IntentAuthorizationPending | IntentAuthorized | IntentCapturePending | IntentCaptured
  | IntentTicketIssuePending | IntentCompleted | IntentVoidPending | IntentVoided
  | IntentRefundPending | IntentRefunded | IntentCancelled | IntentFailed | IntentManualReview
  | IntentExpired | IntentOther string

datatype PaymentError =
    ErrInvalidIntent
  | ErrInvalidIntentTransition
  | ErrFinancialMismatch
  | ErrFinancialState
  | ErrInvalidOperation
  | ErrInvalidOperationTransition
  | ErrInvalidSagaTransition

record Intent =
  intent_money :: Money
  intent_state :: IntentState
  capturedAmount :: int64
  refundedAmount :: int64
  captureRecorded :: bool
  refundRecorded :: bool

definition NewIntent :: "Money \<Rightarrow> PaymentError + Intent" where
  "NewIntent money =
     (if currency money = [] then Inl ErrInvalidIntent
      else Inr \<lparr>intent_money = money, intent_state = IntentCreated, capturedAmount = 0, refundedAmount = 0,
                captureRecorded = False, refundRecorded = False\<rparr>)"

fun intentTransitions :: "IntentState \<Rightarrow> IntentState list" where
  "intentTransitions IntentCreated = [IntentReservationSecuring, IntentCancelled, IntentFailed]"
| "intentTransitions IntentReservationSecuring = [IntentCheckoutPending, IntentCancelled, IntentFailed, IntentManualReview]"
| "intentTransitions IntentCheckoutPending = [IntentAwaitingCustomer, IntentCancelled, IntentFailed, IntentManualReview]"
| "intentTransitions IntentAwaitingCustomer =
     [IntentAuthorizationPending, IntentVoidPending, IntentCancelled, IntentExpired, IntentManualReview]"
| "intentTransitions IntentAuthorizationPending = [IntentAuthorized, IntentCancelled, IntentFailed, IntentManualReview]"
| "intentTransitions IntentAuthorized = [IntentCapturePending, IntentVoidPending, IntentManualReview]"
| "intentTransitions IntentCapturePending = [IntentCaptured, IntentFailed, IntentManualReview]"
| "intentTransitions IntentCaptured = [IntentTicketIssuePending, IntentRefundPending, IntentManualReview]"
| "intentTransitions IntentTicketIssuePending = [IntentCompleted, IntentRefundPending, IntentFailed, IntentManualReview]"
| "intentTransitions IntentCompleted = [IntentRefundPending, IntentManualReview]"
| "intentTransitions IntentVoidPending = [IntentVoided, IntentManualReview]"
| "intentTransitions IntentVoided = [IntentCancelled]"
| "intentTransitions IntentRefundPending = [IntentRefunded, IntentManualReview]"
| "intentTransitions IntentRefunded = [IntentCancelled]"
| "intentTransitions IntentManualReview =
     [IntentAuthorizationPending, IntentAuthorized, IntentCapturePending, IntentCaptured, IntentTicketIssuePending,
      IntentVoidPending, IntentRefundPending, IntentCancelled, IntentFailed]"
| "intentTransitions _ = []"

definition Intent_Transition :: "IntentState \<Rightarrow> Intent \<Rightarrow> PaymentError + (Intent \<times> bool)" where
  "Intent_Transition next intent =
     (if next = intent_state intent then Inr (intent, False)
      else if next \<notin> set (intentTransitions (intent_state intent)) then Inl ErrInvalidIntentTransition
      else Inr (intent\<lparr>intent_state := next\<rparr>, True))"

definition RecordCapture :: "Money \<Rightarrow> Intent \<Rightarrow> PaymentError + (Intent \<times> bool)" where
  "RecordCapture money intent =
     (if intent_state intent \<noteq> IntentCapturePending \<and> intent_state intent \<noteq> IntentCaptured
      then Inl ErrFinancialState
      else if amountMinor money \<noteq> amountMinor (intent_money intent) \<or> currency money \<noteq> currency (intent_money intent)
      then Inl ErrFinancialMismatch
      else if captureRecorded intent then Inr (intent, False)
      else Inr (intent\<lparr>capturedAmount := amountMinor money, captureRecorded := True\<rparr>, True))"

definition RecordRefund :: "Money \<Rightarrow> Intent \<Rightarrow> PaymentError + (Intent \<times> bool)" where
  "RecordRefund money intent =
     (if intent_state intent \<noteq> IntentRefundPending \<and> intent_state intent \<noteq> IntentRefunded
      then Inl ErrFinancialState
      else if \<not> captureRecorded intent \<or> amountMinor money \<noteq> capturedAmount intent \<or>
              currency money \<noteq> currency (intent_money intent)
      then Inl ErrFinancialMismatch
      else if refundRecorded intent then Inr (intent, False)
      else Inr (intent\<lparr>refundedAmount := amountMinor money, refundRecorded := True\<rparr>, True))"

definition NetPaidAmountMinor :: "Intent \<Rightarrow> int64" where
  "NetPaidAmountMinor intent = wrap64 (capturedAmount intent - refundedAmount intent)"

subsection \<open>Operations\<close>

datatype OperationType =
    OperationCreateCheckout | OperationQueryStatus | OperationAuthorize | OperationCapture | OperationVoid
  | OperationRefund | OperationTypeOther string

datatype OperationState =
    OperationPending | OperationClaimed | OperationInFlight | OperationSucceeded | OperationFailedRetryable
  | OperationFailedPermanent | OperationUncertain | OperationCancelled | OperationOther string

record PaymentOperation =
  operation_kind :: OperationType
  operation_state :: OperationState

fun validOperationTypes :: "OperationType \<Rightarrow> bool" where
  "validOperationTypes (OperationTypeOther _) = False"
| "validOperationTypes _ = True"

definition NewOperation :: "OperationType \<Rightarrow> PaymentError + PaymentOperation" where
  "NewOperation kind =
     (if \<not> validOperationTypes kind then Inl ErrInvalidOperation
      else Inr \<lparr>operation_kind = kind, operation_state = OperationPending\<rparr>)"

fun operationTransitions :: "OperationState \<Rightarrow> OperationState list" where
  "operationTransitions OperationPending = [OperationClaimed, OperationCancelled]"
| "operationTransitions OperationClaimed = [OperationInFlight, OperationPending, OperationCancelled]"
| "operationTransitions OperationInFlight =
     [OperationSucceeded, OperationFailedRetryable, OperationFailedPermanent, OperationUncertain]"
| "operationTransitions OperationFailedRetryable = [OperationPending, OperationCancelled]"
| "operationTransitions OperationUncertain = [OperationSucceeded, OperationFailedRetryable, OperationFailedPermanent]"
| "operationTransitions _ = []"

definition Operation_Transition :: "OperationState \<Rightarrow> PaymentOperation \<Rightarrow> PaymentError + (PaymentOperation \<times> bool)" where
  "Operation_Transition next operation =
     (if next = operation_state operation then Inr (operation, False)
      else if next \<notin> set (operationTransitions (operation_state operation)) then Inl ErrInvalidOperationTransition
      else Inr (operation\<lparr>operation_state := next\<rparr>, True))"

subsection \<open>Sagas\<close>

datatype SagaState =
    SagaCreated | SagaReservationSecured | SagaCheckoutCreated | SagaAwaitingProvider | SagaAuthorized
  | SagaCapturing | SagaCaptured | SagaIssuingTickets | SagaCompleted | SagaCompensating | SagaRefunding
  | SagaCompensated | SagaFailed | SagaManualReview | SagaOther string

record Saga =
  saga_state :: SagaState

definition NewSaga :: Saga where
  "NewSaga = \<lparr>saga_state = SagaCreated\<rparr>"

fun sagaTransitions :: "SagaState \<Rightarrow> SagaState list" where
  "sagaTransitions SagaCreated = [SagaReservationSecured, SagaFailed, SagaManualReview]"
| "sagaTransitions SagaReservationSecured = [SagaCheckoutCreated, SagaFailed, SagaManualReview]"
| "sagaTransitions SagaCheckoutCreated = [SagaAwaitingProvider, SagaFailed, SagaManualReview]"
| "sagaTransitions SagaAwaitingProvider = [SagaAuthorized, SagaCompensating, SagaFailed, SagaManualReview]"
| "sagaTransitions SagaAuthorized = [SagaCapturing, SagaCompensating, SagaManualReview]"
| "sagaTransitions SagaCapturing = [SagaCaptured, SagaFailed, SagaManualReview]"
| "sagaTransitions SagaCaptured = [SagaIssuingTickets, SagaCompensating, SagaManualReview]"
| "sagaTransitions SagaIssuingTickets = [SagaCompleted, SagaCompensating, SagaFailed, SagaManualReview]"
| "sagaTransitions SagaCompensating = [SagaRefunding, SagaCompensated, SagaFailed, SagaManualReview]"
| "sagaTransitions SagaRefunding = [SagaCompensated, SagaFailed, SagaManualReview]"
| "sagaTransitions SagaManualReview =
     [SagaAwaitingProvider, SagaAuthorized, SagaCapturing, SagaCaptured, SagaIssuingTickets, SagaCompensating,
      SagaRefunding, SagaCompleted, SagaCompensated, SagaFailed]"
| "sagaTransitions _ = []"

definition Saga_Transition :: "SagaState \<Rightarrow> Saga \<Rightarrow> PaymentError + (Saga \<times> bool)" where
  "Saga_Transition next saga =
     (if next = saga_state saga then Inr (saga, False)
      else if next \<notin> set (sagaTransitions (saga_state saga)) then Inl ErrInvalidSagaTransition
      else Inr (saga\<lparr>saga_state := next\<rparr>, True))"

subsection \<open>The tables behind the transition methods\<close>

interpretation intent_table: transition_table Intent_Transition intent_state "\<lambda>s t. t \<in> set (intentTransitions s)"
  by unfold_locales (auto simp: Intent_Transition_def)

interpretation operation_table: transition_table Operation_Transition operation_state "\<lambda>s t. t \<in> set (operationTransitions s)"
  by unfold_locales (auto simp: Operation_Transition_def)

interpretation saga_table: transition_table Saga_Transition saga_state "\<lambda>s t. t \<in> set (sagaTransitions s)"
  by unfold_locales (auto simp: Saga_Transition_def)

subsection \<open>Money\<close>

datatype intent_call = CallTransition IntentState | CallCapture Money | CallRefund Money

fun intent_step :: "Intent \<Rightarrow> intent_call \<Rightarrow> PaymentError + (Intent \<times> bool)" where
  "intent_step i (CallTransition s) = Intent_Transition s i"
| "intent_step i (CallCapture m) = RecordCapture m i"
| "intent_step i (CallRefund m) = RecordRefund m i"

text \<open>The intent after a sequence of calls; a refused call leaves it as it is.\<close>

fun intent_run :: "Intent \<Rightarrow> intent_call list \<Rightarrow> Intent" where
  "intent_run i [] = i"
| "intent_run i (c # cs) = intent_run (case intent_step i c of Inl _ \<Rightarrow> i | Inr (i', _) \<Rightarrow> i') cs"

definition intent_ok :: "Intent \<Rightarrow> bool" where
  "intent_ok i \<longleftrightarrow>
     capturedAmount i = (if captureRecorded i then amountMinor (intent_money i) else 0) \<and>
     refundedAmount i = (if refundRecorded i then amountMinor (intent_money i) else 0) \<and>
     (refundRecorded i \<longrightarrow> captureRecorded i)"

lemmas intent_defs = Intent_Transition_def RecordCapture_def RecordRefund_def

lemma NewIntent_ok: "NewIntent m = Inr i \<Longrightarrow> intent_ok i \<and> intent_money i = m"
  by (auto simp: NewIntent_def intent_ok_def split: if_splits)

lemma intent_step_ok:
  assumes "intent_ok i" "intent_step i c = Inr (i', ch)"
  shows "intent_ok i' \<and> intent_money i' = intent_money i \<and>
    (captureRecorded i \<longrightarrow> captureRecorded i') \<and> (refundRecorded i \<longrightarrow> refundRecorded i')"
  using assms by (cases c) (auto simp: intent_defs intent_ok_def split: if_splits)

lemma intent_run_ok:
  assumes "intent_ok i"
  shows "intent_ok (intent_run i cs) \<and> intent_money (intent_run i cs) = intent_money i \<and>
    (captureRecorded i \<longrightarrow> captureRecorded (intent_run i cs)) \<and> (refundRecorded i \<longrightarrow> refundRecorded (intent_run i cs))"
  using assms
proof (induction cs arbitrary: i)
  case (Cons c cs)
  show ?case
  proof (cases "intent_step i c")
    case (Inl e)
    then show ?thesis using Cons by simp
  next
    case (Inr p)
    obtain i' ch where p: "p = (i', ch)" by (cases p)
    have "intent_ok i' \<and> intent_money i' = intent_money i \<and>
      (captureRecorded i \<longrightarrow> captureRecorded i') \<and> (refundRecorded i \<longrightarrow> refundRecorded i')"
      using intent_step_ok Cons.prems Inr p by blast
    then show ?thesis using Cons.IH [of i'] Inr p by simp
  qed
qed simp

subsection \<open>Properties\<close>

text \<open>
  Whatever sequence of transitions, captures and refunds is tried on a new payment intent, it has
  captured nothing or exactly its amount, refunded nothing or exactly what it captured, and the net
  amount paid is its amount when a capture but no refund is recorded and zero otherwise.
\<close>

lemma payment_money_conserved:
  fixes cs
  assumes "NewIntent m = Inr i" "money_ok m"
  defines "j \<equiv> intent_run i cs"
  shows "capturedAmount j \<in> {0, amountMinor m} \<and> refundedAmount j \<in> {0, capturedAmount j} \<and>
    NetPaidAmountMinor j = (if captureRecorded j \<and> \<not> refundRecorded j then amountMinor m else 0)"
proof -
  have ok: "intent_ok j" "intent_money j = m"
    using NewIntent_ok [OF assms(1)] intent_run_ok [of i cs] by (simp_all add: j_def)
  have "in_int64 0" "in_int64 (amountMinor m)" using assms(2) by (auto simp: money_ok_def go_num)
  then have "NetPaidAmountMinor j = (if captureRecorded j \<and> \<not> refundRecorded j then amountMinor m else 0)"
    using ok by (auto simp: NetPaidAmountMinor_def intent_ok_def)
  then show ?thesis using ok by (auto simp: intent_ok_def)
qed

text \<open>
  A payment intent reaches exactly the states its transition table leads to, whatever is requested in
  whatever order.
\<close>

lemma payment_intent_reachable:
  "(\<lambda>s t. t \<in> set (intentTransitions s))\<^sup>*\<^sup>* (intent_state i) t \<longleftrightarrow>
     (\<exists>ss. intent_state (machine_run Intent_Transition i ss) = t)"
  using intent_table.run_reaches intent_table.run_follows by blast

text \<open>
  Finished is final: a cancelled, failed or expired intent, a succeeded, permanently failed or
  cancelled operation, and a completed, compensated or failed saga do not change, whatever is requested.
\<close>

lemma payment_terminal_states:
  "(intent_state i \<in> {IntentCancelled, IntentFailed, IntentExpired} \<longrightarrow> machine_run Intent_Transition i ss = i) \<and>
   (operation_state p \<in> {OperationSucceeded, OperationFailedPermanent, OperationCancelled} \<longrightarrow>
      machine_run Operation_Transition p ps = p) \<and>
   (saga_state g \<in> {SagaCompleted, SagaCompensated, SagaFailed} \<longrightarrow> machine_run Saga_Transition g gs = g)"
proof (intro conjI impI)
  assume "intent_state i \<in> {IntentCancelled, IntentFailed, IntentExpired}"
  then have "\<And>s. s \<notin> set (intentTransitions (intent_state i))" by auto
  then show "machine_run Intent_Transition i ss = i" by (rule intent_table.run_terminal)
next
  assume "operation_state p \<in> {OperationSucceeded, OperationFailedPermanent, OperationCancelled}"
  then have "\<And>s. s \<notin> set (operationTransitions (operation_state p))" by auto
  then show "machine_run Operation_Transition p ps = p" by (rule operation_table.run_terminal)
next
  assume "saga_state g \<in> {SagaCompleted, SagaCompensated, SagaFailed}"
  then have "\<And>s. s \<notin> set (sagaTransitions (saga_state g))" by auto
  then show "machine_run Saga_Transition g gs = g" by (rule saga_table.run_terminal)
qed

text \<open>
  An operation that is with the provider, or whose outcome is uncertain, cannot be cancelled or
  handed out again before an outcome is recorded: without passing through the retryable failure it only
  reaches success or permanent failure.
\<close>

lemma operation_needs_outcome:
  assumes "(\<lambda>s t. t \<in> set (operationTransitions s) \<and> t \<noteq> OperationFailedRetryable)\<^sup>*\<^sup>* s t"
    and "s \<in> {OperationInFlight, OperationUncertain}"
  shows "t \<in> {OperationInFlight, OperationUncertain, OperationSucceeded, OperationFailedPermanent}"
  using assms by (induction rule: rtranclp_induct) auto

end
