(* ===== verification/Retry_Backoff.thy ===== *)
theory Retry_Backoff
  imports Rail_Prelude
begin

text \<open>
  The delay before a payment worker tries again (\<^verbatim>\<open>internal/payment/worker/backoff.go\<close>): the base delay
  doubled for every attempt, capped, with a jitter taken from the identifier and the attempt.
\<close>

unbundle bit_operations_syntax

text \<open>
  The loop, from \<open>count\<close> to \<open>attempt\<close>. Doubling happens only below half of the maximum, so it is
  written with the wrap-around of \<^verbatim>\<open>time.Duration\<close> and shown never to wrap.
\<close>

function backoff_loop :: "int64 \<Rightarrow> int \<Rightarrow> int \<Rightarrow> int64 \<Rightarrow> int64" where
  "backoff_loop maximum attempt count delay =
     (if count < attempt \<and> delay < maximum then
        if quot maximum 2 < delay then maximum
        else backoff_loop maximum attempt (count + 1) (wrap64 (delay * 2))
      else delay)"
  by pat_completeness auto
termination by (relation "measure (\<lambda>(mx, attempt, count, d). nat (attempt - count))") auto

declare backoff_loop.simps [simp del]

text \<open>\<^verbatim>\<open>binary.BigEndian.Uint64(id[:8])\<close>: the high half of the identifier.\<close>

definition uuid_high64 :: "uuid \<Rightarrow> 64 word" where
  "uuid_high64 i = word_of_nat (i div 2 ^ 64)"

definition jitter_seed :: "uuid \<Rightarrow> int \<Rightarrow> 64 word" where
  "jitter_seed i attempt = uuid_high64 i XOR word_of_int attempt"

definition retryDelay :: "uuid \<Rightarrow> int \<Rightarrow> int64 \<Rightarrow> int64 \<Rightarrow> int64" where
  "retryDelay i attempt0 base maximum =
     (let attempt = (if attempt0 < 1 then 1 else attempt0);
          delay = backoff_loop maximum attempt 1 base
      in
      if maximum \<le> delay then maximum
      else let window = quot delay 4 in
        if window \<le> 0 then delay
        else let jitter = uint (jitter_seed i attempt mod word_of_int (window + 1)) in
          if wrap64 (maximum - jitter) < delay then maximum
          else wrap64 (delay + jitter))"

text \<open>What the loop computes: the base doubled once per attempt after the first, up to the maximum.\<close>

lemma backoff_loop_spec:
  assumes "0 < delay" "0 < maximum" "in_int64 maximum" "in_int64 delay"
  shows "min maximum (backoff_loop maximum attempt count delay) = min maximum (delay * 2 ^ nat (attempt - count)) \<and>
    delay \<le> backoff_loop maximum attempt count delay"
  using assms
proof (induction maximum attempt count delay rule: backoff_loop.induct)
  case (1 maximum attempt count delay)
  note pos = "1.prems"
  show ?case
  proof (cases "count < attempt \<and> delay < maximum")
    case False
    have "maximum \<le> delay * 2 ^ k" if "maximum \<le> delay" for k
      using that pos(1) mult_left_mono [of 1 "2 ^ k" delay] one_le_power [of "2 :: int" k] by linarith
    with False show ?thesis by (subst (1 2) backoff_loop.simps) auto
  next
    case go: True
    define k where "k = nat (attempt - (count + 1))"
    have k: "nat (attempt - count) = Suc k" using go unfolding k_def by linarith
    show ?thesis
    proof (cases "quot maximum 2 < delay")
      case True
      then have "maximum \<le> delay * 2" using pos by simp
      also have "\<dots> \<le> delay * 2 ^ Suc k" using pos by simp
      finally show ?thesis using True go pos k by (subst (1 2) backoff_loop.simps) auto
    next
      case False
      then have "delay * 2 \<le> maximum" using pos by simp
      then have w: "in_int64 (delay * 2)" using pos by (simp add: in_int64_def MinInt64_def)
      have unfold: "backoff_loop maximum attempt count delay = backoff_loop maximum attempt (count + 1) (delay * 2)"
        using go False w by (subst backoff_loop.simps) simp
      show ?thesis
        using "1.IH" [OF go False] pos w unfolding unfold by (auto simp: k k_def [symmetric] mult_ac)
    qed
  qed
qed

text \<open>The delay before jitter, and the jitter within a quarter of it.\<close>

definition backoff_base :: "int \<Rightarrow> int64 \<Rightarrow> int64 \<Rightarrow> int64" where
  "backoff_base attempt base maximum = min maximum (base * 2 ^ nat (attempt - 1))"

lemma jitter_le:
  assumes "0 < window" "in_int64 window"
  shows "0 \<le> uint (s mod word_of_int (window + 1) :: 64 word)" "uint (s mod word_of_int (window + 1) :: 64 word) \<le> window"
proof -
  have "uint (word_of_int (window + 1) :: 64 word) = window + 1"
    using assms by (simp add: uint_word_of_int in_int64_def MaxInt64_def MinInt64_def del: of_int_add)
  then show "uint (s mod word_of_int (window + 1) :: 64 word) \<le> window"
    using pos_mod_bound [of "window + 1" "uint s"] assms by (simp add: uint_mod_distrib)
qed simp

text \<open>
  Between attempts a worker waits at least the base delay doubled once per attempt after the first and
  capped at the maximum, at most a quarter more, and never more than the maximum; no intermediate
  computation wraps.
\<close>

lemma retry_delay_bounds:
  assumes "0 < base" "0 < maximum" "in_int64 base" "in_int64 maximum"
  shows "let d = backoff_base attempt base maximum; r = retryDelay i attempt base maximum in
    d \<le> r \<and> r \<le> min maximum (d + d div 4) \<and> (d = maximum \<longrightarrow> r = maximum)"
proof -
  define a where "a = (if attempt < 1 then 1 else attempt)"
  define x where "x = backoff_loop maximum a 1 base"
  define d where "d = backoff_base attempt base maximum"
  have "min maximum x = d" "base \<le> x"
    using backoff_loop_spec [OF assms(1,2,4,3), of a 1] by (auto simp: x_def d_def backoff_base_def a_def)
  show ?thesis
  proof (cases "maximum \<le> x")
    case True
    then have "retryDelay i attempt base maximum = maximum" "d = maximum"
      using \<open>min maximum x = d\<close> unfolding retryDelay_def a_def [symmetric] Let_def x_def [symmetric] by simp_all
    then show ?thesis using assms by (simp add: d_def [symmetric] Let_def)
  next
    case False
    then have d: "d = x" "0 < d" "d < maximum" using \<open>min maximum x = d\<close> \<open>base \<le> x\<close> assms by auto
    define j where "j = (uint (jitter_seed i a mod word_of_int (d div 4 + 1)) :: int)"
    have j: "0 \<le> j \<and> j \<le> d div 4" if "0 < d div 4"
      using jitter_le [of "d div 4" "jitter_seed i a"] that d assms by (auto simp: j_def in_int64_def MinInt64_def)
    have "retryDelay i attempt base maximum =
        (if d div 4 \<le> 0 then d else if wrap64 (maximum - j) < d then maximum else wrap64 (d + j))"
      using False d unfolding retryDelay_def a_def [symmetric] Let_def x_def [symmetric] j_def by simp
    moreover have "wrap64 (maximum - j) = maximum - j" if "0 < d div 4"
      using j [OF that] d assms by (intro wrap64_id) (auto simp: in_int64_def MinInt64_def)
    moreover have "wrap64 (d + j) = d + j" if "0 < d div 4" "d \<le> maximum - j"
      using j [OF that(1)] that d assms by (intro wrap64_id) (auto simp: in_int64_def MinInt64_def)
    ultimately show ?thesis using d j by (auto simp: d_def [symmetric] Let_def not_le)
  qed
qed

end
