(* ===== verification/Migration_Machine.thy ===== *)
theory Migration_Machine
  imports Rail_Prelude
begin

text \<open>
  The life cycle of a shard migration (\<^verbatim>\<open>internal/sharding/migration\<close>): \<open>Machine\<close> for a move between
  schemas of one database, \<open>PhysicalMachine\<close> for a move between databases. Both remember whether the target
  has accepted a write under the migration's generation. The locale \<open>evidence_machine\<close> states what the two
  machines share and derives from it that evidence bars the way back; it is interpreted on both.
\<close>

datatype MigrationError =
    ErrInvalidGeneration
  | ErrInvalidTransition
  | ErrTargetWriteGeneration
  | ErrTargetWriteState
  | ErrInvalidPhysicalTransition
  | ErrInvalidPhysicalSnapshot
  | ErrPhysicalReverseMigrationRequired
  | ErrPhysicalReverseGenerationNotNewer

section \<open>Calls on a machine\<close>

text \<open>A run of calls; a call that is refused returns before it assigns anything.\<close>

fun migration_run :: "('c \<Rightarrow> 'm \<Rightarrow> 'e + 'm) \<Rightarrow> 'm \<Rightarrow> 'c list \<Rightarrow> 'm" where
  "migration_run step m [] = m"
| "migration_run step m (c # cs) = migration_run step (case step c m of Inl _ \<Rightarrow> m | Inr m' \<Rightarrow> m') cs"

lemma migration_run_append:
  "migration_run step m (xs @ ys) = migration_run step (migration_run step m xs) ys"
  by (induction xs arbitrary: m) simp_all

lemma migration_run_keeps:
  assumes "\<And>c m m'. keep m \<Longrightarrow> step c m = Inr m' \<Longrightarrow> keep m'" and "keep m"
  shows "keep (migration_run step m cs)"
  using assms(2) by (induction cs arbitrary: m) (auto split: sum.splits dest: assms(1))

text \<open>The number of calls along a run that change the state.\<close>

fun moves :: "('c \<Rightarrow> 'm \<Rightarrow> 'e + 'm) \<Rightarrow> ('m \<Rightarrow> 's) \<Rightarrow> 'm \<Rightarrow> 'c list \<Rightarrow> nat" where
  "moves step state m [] = 0"
| "moves step state m (c # cs) =
     (let n = (case step c m of Inl _ \<Rightarrow> m | Inr m' \<Rightarrow> m') in
      (if state n = state m then 0 else 1) + moves step state n cs)"

locale evidence_machine =
  fixes step :: "'c \<Rightarrow> 'm \<Rightarrow> 'e + 'm"
    and ok :: "'m \<Rightarrow> bool"
    and state :: "'m \<Rightarrow> 's"
    and generation :: "'m \<Rightarrow> int64"
    and evidence :: "'m \<Rightarrow> bool"
    and rolled_back :: 's
    and rank :: "'s \<Rightarrow> nat"
    and highest :: nat
  assumes step_ok: "ok m \<Longrightarrow> step c m = Inr m' \<Longrightarrow> ok m'"
    and step_generation: "step c m = Inr m' \<Longrightarrow> generation m' = generation m"
    and step_evidence: "step c m = Inr m' \<Longrightarrow> evidence m \<Longrightarrow> evidence m'"
    and step_rank: "step c m = Inr m' \<Longrightarrow> state m' = state m \<or> rank (state m) < rank (state m')"
    and ok_evidence: "ok m \<Longrightarrow> evidence m \<Longrightarrow> state m \<noteq> rolled_back"
    and rank_top: "rank s \<le> highest"
begin

lemma run_ok: "ok m \<Longrightarrow> ok (migration_run step m cs)"
  by (rule migration_run_keeps) (auto intro: step_ok)

lemma run_generation: "generation (migration_run step m cs) = generation m"
  by (rule migration_run_keeps [where keep = "\<lambda>n. generation n = generation m"]) (auto dest: step_generation)

text \<open>Once the target has written, no sequence of calls takes the migration back.\<close>

lemma run_barred:
  assumes "ok m" "evidence m"
  shows "evidence (migration_run step m cs) \<and> state (migration_run step m cs) \<noteq> rolled_back"
proof -
  have "evidence (migration_run step m cs)"
    by (rule migration_run_keeps [where keep = evidence]) (use assms step_evidence in blast)+
  then show ?thesis using run_ok [OF assms(1)] ok_evidence by blast
qed

text \<open>Every change of the state climbs, so a migration makes a bounded number of them.\<close>

lemma run_climbs: "rank (state m) + moves step state m cs \<le> rank (state (migration_run step m cs))"
proof (induction cs arbitrary: m)
  case (Cons c cs)
  show ?case
  proof (cases "step c m")
    case (Inr m')
    with Cons.IH [of m'] step_rank [OF Inr] show ?thesis by (auto simp: Let_def)
  qed (use Cons.IH [of m] in \<open>simp add: Let_def\<close>)
qed simp

lemma run_bounded: "moves step state m cs \<le> highest - rank (state m)"
  using run_climbs [of m cs] rank_top [of "state (migration_run step m cs)"] by simp

end

section \<open>Moves between schemas: machine.go\<close>

datatype State =
    StatePlanned | StateDraining | StateCopying | StateValidating | StateCutoverReady
  | StateCuttingOver | StateRollbackWindow | StateCompleted | StateFailed | StateRolledBack

record Machine =
  machine_state :: State
  machine_generation :: int64
  targetWriteEvidence :: bool

definition New_migration :: "int64 \<Rightarrow> MigrationError + Machine" where
  "New_migration generation =
     (if generation \<le> 0 then Inl ErrInvalidGeneration
      else Inr \<lparr>machine_state = StatePlanned, machine_generation = generation, targetWriteEvidence = False\<rparr>)"

definition RecordTargetWrite :: "int64 \<Rightarrow> Machine \<Rightarrow> MigrationError + Machine" where
  "RecordTargetWrite generation m =
     (if generation \<le> 0 then Inl ErrInvalidGeneration
      else if generation \<noteq> machine_generation m then Inl ErrTargetWriteGeneration
      else if machine_state m \<noteq> StateCuttingOver \<and> machine_state m \<noteq> StateRollbackWindow
      then Inl ErrTargetWriteState
      else Inr (m\<lparr>targetWriteEvidence := True\<rparr>))"

fun canTransition :: "State \<Rightarrow> State \<Rightarrow> bool" where
  "canTransition StatePlanned next = (next = StateDraining \<or> next = StateFailed \<or> next = StateRolledBack)"
| "canTransition StateDraining next = (next = StateCopying \<or> next = StateFailed \<or> next = StateRolledBack)"
| "canTransition StateCopying next = (next = StateValidating \<or> next = StateFailed \<or> next = StateRolledBack)"
| "canTransition StateValidating next = (next = StateCutoverReady \<or> next = StateFailed \<or> next = StateRolledBack)"
| "canTransition StateCutoverReady next = (next = StateCuttingOver \<or> next = StateFailed \<or> next = StateRolledBack)"
| "canTransition StateCuttingOver next = (next = StateRollbackWindow \<or> next = StateFailed)"
| "canTransition StateRollbackWindow next = (next = StateCompleted \<or> next = StateFailed \<or> next = StateRolledBack)"
| "canTransition _ _ = False"

definition Machine_Transition :: "State \<Rightarrow> Machine \<Rightarrow> MigrationError + Machine" where
  "Machine_Transition next m =
     (if machine_state m = StateRollbackWindow \<and> next = StateRolledBack \<and> targetWriteEvidence m
      then Inl ErrInvalidTransition
      else if \<not> canTransition (machine_state m) next then Inl ErrInvalidTransition
      else Inr (m\<lparr>machine_state := next\<rparr>))"

text \<open>The calls that change a machine.\<close>

datatype machine_call = Call_Transition State | Call_RecordTargetWrite int64

fun machine_step :: "machine_call \<Rightarrow> Machine \<Rightarrow> MigrationError + Machine" where
  "machine_step (Call_Transition next) m = Machine_Transition next m"
| "machine_step (Call_RecordTargetWrite generation) m = RecordTargetWrite generation m"

text \<open>Evidence is recorded only once the cut-over has begun, and no way leads back from there.\<close>

definition machine_ok :: "Machine \<Rightarrow> bool" where
  "machine_ok m \<longleftrightarrow> 0 < machine_generation m \<and>
     (targetWriteEvidence m \<longrightarrow>
        machine_state m \<in> {StateCuttingOver, StateRollbackWindow, StateCompleted, StateFailed})"

fun state_rank :: "State \<Rightarrow> nat" where
  "state_rank StatePlanned = 0"
| "state_rank StateDraining = 1"
| "state_rank StateCopying = 2"
| "state_rank StateValidating = 3"
| "state_rank StateCutoverReady = 4"
| "state_rank StateCuttingOver = 5"
| "state_rank StateRollbackWindow = 6"
| "state_rank _ = 7"

lemma canTransition_rank: "canTransition s t \<Longrightarrow> state_rank s < state_rank t"
  by (cases s) auto

lemma machine_step_ok:
  assumes "machine_ok m" "machine_step c m = Inr m'"
  shows "machine_ok m'"
proof (cases c)
  case (Call_Transition s)
  with assms show ?thesis
    by (cases "machine_state m") (auto simp: machine_ok_def Machine_Transition_def split: if_splits)
qed (use assms in \<open>auto simp: machine_ok_def RecordTargetWrite_def split: if_splits\<close>)

lemma machine_step_keeps:
  assumes "machine_step c m = Inr m'"
  shows "machine_generation m' = machine_generation m \<and> (targetWriteEvidence m \<longrightarrow> targetWriteEvidence m') \<and>
    (machine_state m' = machine_state m \<or> state_rank (machine_state m) < state_rank (machine_state m'))"
  using assms canTransition_rank
  by (cases c) (auto simp: Machine_Transition_def RecordTargetWrite_def split: if_splits)

interpretation schema_move: evidence_machine machine_step machine_ok
  machine_state machine_generation targetWriteEvidence StateRolledBack state_rank 7
proof unfold_locales
  show "machine_ok m'" if "machine_ok m" "machine_step c m = Inr m'" for m c m'
    by (rule machine_step_ok) (fact that)+
  show "state_rank s \<le> 7" for s by (cases s) simp_all
qed (auto simp: machine_ok_def dest: machine_step_keeps)

section \<open>Moves between databases: physical\_machine.go\<close>

text \<open>The state is a string in the code; \<open>PhysicalStateOther\<close> stands for the strings that name no state.\<close>

datatype PhysicalState =
    PhysicalStatePlanned | PhysicalStatePreparingTarget | PhysicalStateCaptureEnabled
  | PhysicalStateBaseCopying | PhysicalStateCatchingUp | PhysicalStateValidatingOnline
  | PhysicalStateDraining | PhysicalStateSourceFenced | PhysicalStateFinalCatchup
  | PhysicalStateFinalValidating | PhysicalStateTargetEnabled | PhysicalStateSwitchingAssignment
  | PhysicalStateRollbackWindow | PhysicalStateCompleted | PhysicalStateReverseMigrationRequired
  | PhysicalStateFailed | PhysicalStateRolledBack | PhysicalStateOther string

record PhysicalSnapshot =
  ps_State :: PhysicalState
  ps_Generation :: int64
  ps_TargetWriteEvidence :: bool

record PhysicalMachine =
  pm_snapshot :: PhysicalSnapshot

definition NewPhysical :: "int64 \<Rightarrow> MigrationError + PhysicalMachine" where
  "NewPhysical generation =
     (if generation \<le> 0 then Inl ErrInvalidGeneration
      else Inr \<lparr>pm_snapshot = \<lparr>ps_State = PhysicalStatePlanned, ps_Generation = generation,
                               ps_TargetWriteEvidence = False\<rparr>\<rparr>)"

fun isPhysicalState :: "PhysicalState \<Rightarrow> bool" where
  "isPhysicalState (PhysicalStateOther _) = False"
| "isPhysicalState _ = True"

fun canContainTargetWriteEvidence :: "PhysicalState \<Rightarrow> bool" where
  "canContainTargetWriteEvidence PhysicalStateSwitchingAssignment = True"
| "canContainTargetWriteEvidence PhysicalStateRollbackWindow = True"
| "canContainTargetWriteEvidence PhysicalStateCompleted = True"
| "canContainTargetWriteEvidence PhysicalStateReverseMigrationRequired = True"
| "canContainTargetWriteEvidence PhysicalStateFailed = True"
| "canContainTargetWriteEvidence _ = False"

definition RestorePhysical :: "PhysicalSnapshot \<Rightarrow> MigrationError + PhysicalMachine" where
  "RestorePhysical snapshot =
     (if ps_Generation snapshot \<le> 0 then Inl ErrInvalidGeneration
      else if \<not> isPhysicalState (ps_State snapshot) then Inl ErrInvalidPhysicalSnapshot
      else if ps_TargetWriteEvidence snapshot \<and> \<not> canContainTargetWriteEvidence (ps_State snapshot)
      then Inl ErrInvalidPhysicalSnapshot
      else Inr \<lparr>pm_snapshot = snapshot\<rparr>)"

definition Physical_RecordTargetWrite :: "int64 \<Rightarrow> PhysicalMachine \<Rightarrow> MigrationError + PhysicalMachine" where
  "Physical_RecordTargetWrite generation m =
     (if generation \<le> 0 then Inl ErrInvalidGeneration
      else if generation \<noteq> ps_Generation (pm_snapshot m) then Inl ErrTargetWriteGeneration
      else if ps_State (pm_snapshot m) \<noteq> PhysicalStateSwitchingAssignment \<and>
              ps_State (pm_snapshot m) \<noteq> PhysicalStateRollbackWindow \<and>
              ps_State (pm_snapshot m) \<noteq> PhysicalStateCompleted \<and>
              ps_State (pm_snapshot m) \<noteq> PhysicalStateReverseMigrationRequired
      then Inl ErrTargetWriteState
      else Inr (m\<lparr>pm_snapshot := (pm_snapshot m)\<lparr>ps_TargetWriteEvidence := True\<rparr>\<rparr>))"

text \<open>The pair: the reverse machine, and the machine the method was called on.\<close>

definition StartReverseMigration ::
  "int64 \<Rightarrow> PhysicalMachine \<Rightarrow> MigrationError + (PhysicalMachine \<times> PhysicalMachine)" where
  "StartReverseMigration generation m =
     (if generation \<le> ps_Generation (pm_snapshot m) then Inl ErrPhysicalReverseGenerationNotNewer
      else if \<not> ps_TargetWriteEvidence (pm_snapshot m) then Inl ErrInvalidPhysicalTransition
      else if ps_State (pm_snapshot m) \<noteq> PhysicalStateRollbackWindow \<and>
              ps_State (pm_snapshot m) \<noteq> PhysicalStateCompleted \<and>
              ps_State (pm_snapshot m) \<noteq> PhysicalStateReverseMigrationRequired
      then Inl ErrInvalidPhysicalTransition
      else case NewPhysical generation of
             Inl e \<Rightarrow> Inl e
           | Inr reverse \<Rightarrow>
               Inr (reverse, m\<lparr>pm_snapshot := (pm_snapshot m)\<lparr>ps_State := PhysicalStateReverseMigrationRequired\<rparr>\<rparr>))"

fun canFailPhysical :: "PhysicalState \<Rightarrow> bool" where
  "canFailPhysical PhysicalStateCompleted = False"
| "canFailPhysical PhysicalStateReverseMigrationRequired = False"
| "canFailPhysical PhysicalStateFailed = False"
| "canFailPhysical PhysicalStateRolledBack = False"
| "canFailPhysical (PhysicalStateOther _) = False"
| "canFailPhysical _ = True"

fun canDirectRollbackPhysical :: "PhysicalState \<Rightarrow> bool" where
  "canDirectRollbackPhysical PhysicalStateCompleted = False"
| "canDirectRollbackPhysical PhysicalStateReverseMigrationRequired = False"
| "canDirectRollbackPhysical PhysicalStateFailed = False"
| "canDirectRollbackPhysical PhysicalStateRolledBack = False"
| "canDirectRollbackPhysical (PhysicalStateOther _) = False"
| "canDirectRollbackPhysical _ = True"

fun canTransitionPhysical :: "PhysicalState \<Rightarrow> PhysicalState \<Rightarrow> bool" where
  "canTransitionPhysical PhysicalStatePlanned next = (next = PhysicalStatePreparingTarget)"
| "canTransitionPhysical PhysicalStatePreparingTarget next = (next = PhysicalStateCaptureEnabled)"
| "canTransitionPhysical PhysicalStateCaptureEnabled next = (next = PhysicalStateBaseCopying)"
| "canTransitionPhysical PhysicalStateBaseCopying next = (next = PhysicalStateCatchingUp)"
| "canTransitionPhysical PhysicalStateCatchingUp next = (next = PhysicalStateValidatingOnline)"
| "canTransitionPhysical PhysicalStateValidatingOnline next = (next = PhysicalStateDraining)"
| "canTransitionPhysical PhysicalStateDraining next = (next = PhysicalStateSourceFenced)"
| "canTransitionPhysical PhysicalStateSourceFenced next = (next = PhysicalStateFinalCatchup)"
| "canTransitionPhysical PhysicalStateFinalCatchup next = (next = PhysicalStateFinalValidating)"
| "canTransitionPhysical PhysicalStateFinalValidating next = (next = PhysicalStateTargetEnabled)"
| "canTransitionPhysical PhysicalStateTargetEnabled next = (next = PhysicalStateSwitchingAssignment)"
| "canTransitionPhysical PhysicalStateSwitchingAssignment next = (next = PhysicalStateRollbackWindow)"
| "canTransitionPhysical PhysicalStateRollbackWindow next =
     (next = PhysicalStateCompleted \<or> next = PhysicalStateRolledBack)"
| "canTransitionPhysical _ _ = False"

definition Physical_Transition :: "PhysicalState \<Rightarrow> PhysicalMachine \<Rightarrow> MigrationError + PhysicalMachine" where
  "Physical_Transition next m =
     (let moved = m\<lparr>pm_snapshot := (pm_snapshot m)\<lparr>ps_State := next\<rparr>\<rparr>; current = ps_State (pm_snapshot m) in
      if next = PhysicalStateRolledBack \<and> ps_TargetWriteEvidence (pm_snapshot m)
      then Inl ErrPhysicalReverseMigrationRequired
      else if next = PhysicalStateRolledBack \<and> canDirectRollbackPhysical current then Inr moved
      else if next = PhysicalStateFailed \<and> canFailPhysical current then Inr moved
      else if \<not> canTransitionPhysical current next then Inl ErrInvalidPhysicalTransition
      else Inr moved)"

text \<open>The calls that change a machine. The reverse machine that \<open>StartReverseMigration\<close> returns is another
  machine; the step keeps what the call leaves of this one.\<close>

datatype physical_call =
    Physical_Call_Transition PhysicalState
  | Physical_Call_RecordTargetWrite int64
  | Physical_Call_StartReverseMigration int64

fun physical_step :: "physical_call \<Rightarrow> PhysicalMachine \<Rightarrow> MigrationError + PhysicalMachine" where
  "physical_step (Physical_Call_Transition next) m = Physical_Transition next m"
| "physical_step (Physical_Call_RecordTargetWrite generation) m = Physical_RecordTargetWrite generation m"
| "physical_step (Physical_Call_StartReverseMigration generation) m = map_sum id snd (StartReverseMigration generation m)"

definition physical_ok :: "PhysicalMachine \<Rightarrow> bool" where
  "physical_ok m \<longleftrightarrow> 0 < ps_Generation (pm_snapshot m) \<and> isPhysicalState (ps_State (pm_snapshot m)) \<and>
     (ps_TargetWriteEvidence (pm_snapshot m) \<longrightarrow> canContainTargetWriteEvidence (ps_State (pm_snapshot m)))"

fun physical_rank :: "PhysicalState \<Rightarrow> nat" where
  "physical_rank PhysicalStatePlanned = 0"
| "physical_rank PhysicalStatePreparingTarget = 1"
| "physical_rank PhysicalStateCaptureEnabled = 2"
| "physical_rank PhysicalStateBaseCopying = 3"
| "physical_rank PhysicalStateCatchingUp = 4"
| "physical_rank PhysicalStateValidatingOnline = 5"
| "physical_rank PhysicalStateDraining = 6"
| "physical_rank PhysicalStateSourceFenced = 7"
| "physical_rank PhysicalStateFinalCatchup = 8"
| "physical_rank PhysicalStateFinalValidating = 9"
| "physical_rank PhysicalStateTargetEnabled = 10"
| "physical_rank PhysicalStateSwitchingAssignment = 11"
| "physical_rank PhysicalStateRollbackWindow = 12"
| "physical_rank PhysicalStateReverseMigrationRequired = 14"
| "physical_rank _ = 13"

text \<open>The checkpoints a transition may leave for, as the three tests of the method allow them.\<close>

definition physical_edge :: "PhysicalState \<Rightarrow> PhysicalState \<Rightarrow> bool" where
  "physical_edge s t \<longleftrightarrow> t = PhysicalStateRolledBack \<and> canDirectRollbackPhysical s \<or>
     t = PhysicalStateFailed \<and> canFailPhysical s \<or> canTransitionPhysical s t"

lemma Physical_Transition_eq:
  "Physical_Transition t m = Inr m' \<longleftrightarrow>
     physical_edge (ps_State (pm_snapshot m)) t \<and> \<not> (t = PhysicalStateRolledBack \<and> ps_TargetWriteEvidence (pm_snapshot m)) \<and>
     m' = m\<lparr>pm_snapshot := (pm_snapshot m)\<lparr>ps_State := t\<rparr>\<rparr>"
  by (auto simp: Physical_Transition_def physical_edge_def Let_def)

lemma physical_edge_rank: "physical_edge s t \<Longrightarrow> physical_rank s < physical_rank t"
  by (cases s) (auto simp: physical_edge_def)

lemma physical_edge_evidence:
  "physical_edge s t \<Longrightarrow> isPhysicalState t \<and> (canContainTargetWriteEvidence s \<longrightarrow> t \<noteq> PhysicalStateRolledBack \<longrightarrow> canContainTargetWriteEvidence t)"
  by (cases s) (auto simp: physical_edge_def)

definition physical_at :: "PhysicalState \<Rightarrow> int64 \<Rightarrow> bool \<Rightarrow> PhysicalMachine" where
  "physical_at s g e = \<lparr>pm_snapshot = \<lparr>ps_State = s, ps_Generation = g, ps_TargetWriteEvidence = e\<rparr>\<rparr>"

lemma StartReverse_eq:
  "StartReverseMigration g m = Inr (r, m') \<longleftrightarrow>
     ps_Generation (pm_snapshot m) < g \<and> 0 < g \<and> ps_TargetWriteEvidence (pm_snapshot m) \<and>
     ps_State (pm_snapshot m) \<in> {PhysicalStateRollbackWindow, PhysicalStateCompleted, PhysicalStateReverseMigrationRequired} \<and>
     r = physical_at PhysicalStatePlanned g False \<and>
     m' = m\<lparr>pm_snapshot := (pm_snapshot m)\<lparr>ps_State := PhysicalStateReverseMigrationRequired\<rparr>\<rparr>"
  by (auto simp: StartReverseMigration_def NewPhysical_def physical_at_def)

lemma physical_step_cases:
  assumes "physical_step c m = Inr m'"
  obtains (moved) t where "c = Physical_Call_Transition t" "physical_edge (ps_State (pm_snapshot m)) t"
      "\<not> (t = PhysicalStateRolledBack \<and> ps_TargetWriteEvidence (pm_snapshot m))"
      "m' = m\<lparr>pm_snapshot := (pm_snapshot m)\<lparr>ps_State := t\<rparr>\<rparr>"
    | (wrote) g where "c = Physical_Call_RecordTargetWrite g" "canContainTargetWriteEvidence (ps_State (pm_snapshot m))"
      "m' = m\<lparr>pm_snapshot := (pm_snapshot m)\<lparr>ps_TargetWriteEvidence := True\<rparr>\<rparr>"
    | (turned) g where "c = Physical_Call_StartReverseMigration g" "ps_TargetWriteEvidence (pm_snapshot m)"
      "ps_State (pm_snapshot m) \<in> {PhysicalStateRollbackWindow, PhysicalStateCompleted, PhysicalStateReverseMigrationRequired}"
      "m' = m\<lparr>pm_snapshot := (pm_snapshot m)\<lparr>ps_State := PhysicalStateReverseMigrationRequired\<rparr>\<rparr>"
proof (cases c)
  case (Physical_Call_Transition t)
  then show ?thesis using assms by (intro moved [of t]) (simp_all add: Physical_Transition_eq)
next
  case (Physical_Call_RecordTargetWrite g)
  then show ?thesis
    using assms by (intro wrote [of g]) (auto simp: Physical_RecordTargetWrite_def split: if_splits)
next
  case (Physical_Call_StartReverseMigration g)
  then obtain r where "StartReverseMigration g m = Inr (r, m')"
    using assms by (cases "StartReverseMigration g m") auto
  then show ?thesis using Physical_Call_StartReverseMigration by (intro turned [of g]) (auto simp: StartReverse_eq)
qed

lemma physical_step_ok:
  assumes "physical_ok m" "physical_step c m = Inr m'"
  shows "physical_ok m'"
  using assms(2)
proof (cases rule: physical_step_cases)
  case (moved t)
  then show ?thesis using assms(1) by (auto simp: physical_ok_def dest: physical_edge_evidence)
qed (use assms(1) in \<open>auto simp: physical_ok_def\<close>)

lemma physical_step_keeps:
  assumes "physical_step c m = Inr m'"
  shows "ps_Generation (pm_snapshot m') = ps_Generation (pm_snapshot m) \<and>
    (ps_TargetWriteEvidence (pm_snapshot m) \<longrightarrow> ps_TargetWriteEvidence (pm_snapshot m')) \<and>
    (ps_State (pm_snapshot m') = ps_State (pm_snapshot m) \<or>
     physical_rank (ps_State (pm_snapshot m)) < physical_rank (ps_State (pm_snapshot m')))"
  using assms by (cases rule: physical_step_cases) (auto dest: physical_edge_rank)

interpretation physical_move: evidence_machine physical_step physical_ok
  "ps_State \<circ> pm_snapshot" "ps_Generation \<circ> pm_snapshot" "ps_TargetWriteEvidence \<circ> pm_snapshot"
  PhysicalStateRolledBack physical_rank 14
proof unfold_locales
  show "physical_ok m'" if "physical_ok m" "physical_step c m = Inr m'" for m c m'
    by (rule physical_step_ok) (fact that)+
  show "physical_rank s \<le> 14" for s by (cases s) simp_all
qed (auto simp: physical_ok_def dest: physical_step_keeps)

section \<open>Reachable machines\<close>

inductive reachable_physical :: "PhysicalMachine \<Rightarrow> bool" where
  new: "in_int64 g \<Longrightarrow> NewPhysical g = Inr m \<Longrightarrow> reachable_physical m"
| transition: "reachable_physical m \<Longrightarrow> Physical_Transition s m = Inr m' \<Longrightarrow> reachable_physical m'"
| record_write: "reachable_physical m \<Longrightarrow> Physical_RecordTargetWrite g m = Inr m' \<Longrightarrow> reachable_physical m'"
| reverse: "reachable_physical m \<Longrightarrow> in_int64 g \<Longrightarrow> StartReverseMigration g m = Inr (r, m') \<Longrightarrow> reachable_physical m'"

definition physical_reach :: "PhysicalMachine \<Rightarrow> bool" where
  "physical_reach m \<longleftrightarrow> physical_ok m \<and> in_int64 (ps_Generation (pm_snapshot m)) \<and>
     (ps_State (pm_snapshot m) = PhysicalStateReverseMigrationRequired \<longrightarrow>
        ps_TargetWriteEvidence (pm_snapshot m) \<and> ps_Generation (pm_snapshot m) < MaxInt64)"

lemma reachable_sound: "reachable_physical m \<Longrightarrow> physical_reach m"
proof (induction rule: reachable_physical.induct)
  case (new g m)
  then show ?case by (auto simp: NewPhysical_def physical_reach_def physical_ok_def split: if_splits)
next
  case (transition m s m')
  then have "physical_ok m'"
    using physical_step_ok [of m "Physical_Call_Transition s" m'] by (simp add: physical_reach_def)
  moreover have "s \<noteq> PhysicalStateReverseMigrationRequired"
    using transition by (cases "ps_State (pm_snapshot m)") (auto simp: Physical_Transition_eq physical_edge_def)
  ultimately show ?case using transition by (auto simp: physical_reach_def Physical_Transition_eq)
next
  case (record_write m g m')
  then show ?case
    using physical_step_ok [of m "Physical_Call_RecordTargetWrite g" m']
    by (auto simp: physical_reach_def Physical_RecordTargetWrite_def split: if_splits)
next
  case (reverse m g r m')
  then show ?case by (auto simp: physical_reach_def physical_ok_def StartReverse_eq in_int64_def)
qed

lemma reach_edge:
  "reachable_physical (physical_at s g e) \<Longrightarrow> physical_edge s t \<Longrightarrow> \<not> (t = PhysicalStateRolledBack \<and> e) \<Longrightarrow>
   reachable_physical (physical_at t g e)"
  by (rule reachable_physical.transition [of _ t]) (auto simp: Physical_Transition_eq physical_at_def)

lemma reach_record:
  "reachable_physical (physical_at s g False) \<Longrightarrow> 0 < g \<Longrightarrow>
   s \<in> {PhysicalStateSwitchingAssignment, PhysicalStateRollbackWindow, PhysicalStateCompleted} \<Longrightarrow>
   reachable_physical (physical_at s g True)"
  by (rule reachable_physical.record_write [of _ g]) (auto simp: Physical_RecordTargetWrite_def physical_at_def)

text \<open>The forward path, checkpoint by checkpoint.\<close>

definition physical_path :: "PhysicalState list" where
  "physical_path =
     [PhysicalStatePlanned, PhysicalStatePreparingTarget, PhysicalStateCaptureEnabled, PhysicalStateBaseCopying,
      PhysicalStateCatchingUp, PhysicalStateValidatingOnline, PhysicalStateDraining, PhysicalStateSourceFenced,
      PhysicalStateFinalCatchup, PhysicalStateFinalValidating, PhysicalStateTargetEnabled,
      PhysicalStateSwitchingAssignment, PhysicalStateRollbackWindow, PhysicalStateCompleted]"

lemma physical_path_edge: "successively physical_edge physical_path"
  by (simp add: physical_path_def physical_edge_def)

lemma reach_along:
  "successively physical_edge (s # path) \<Longrightarrow> PhysicalStateRolledBack \<notin> set path \<Longrightarrow>
   reachable_physical (physical_at s g e) \<Longrightarrow> t \<in> set (s # path) \<Longrightarrow> reachable_physical (physical_at t g e)"
proof (induction path arbitrary: s)
  case (Cons u path)
  then have "reachable_physical (physical_at u g e)" by (auto intro: reach_edge)
  with Cons show ?case by auto
qed simp

lemma reach_forward:
  assumes "0 < g" "in_int64 g" "s \<in> set physical_path"
  shows "reachable_physical (physical_at s g False)"
proof (rule reach_along [of PhysicalStatePlanned "tl physical_path"])
  show "reachable_physical (physical_at PhysicalStatePlanned g False)"
    by (rule reachable_physical.new [of g]) (use assms in \<open>simp_all add: NewPhysical_def physical_at_def\<close>)
qed (use assms physical_path_edge in \<open>simp_all add: physical_path_def\<close>)

lemma reachable_complete:
  assumes "physical_reach (physical_at s g e)"
  shows "reachable_physical (physical_at s g e)"
proof -
  have g: "0 < g" "in_int64 g" and s: "isPhysicalState s" "e \<longrightarrow> canContainTargetWriteEvidence s"
      "s = PhysicalStateReverseMigrationRequired \<longrightarrow> e \<and> g < MaxInt64"
    using assms by (auto simp: physical_reach_def physical_ok_def physical_at_def)
  note fwd = reach_forward [OF g]
  have start: "reachable_physical (physical_at PhysicalStatePlanned g False)"
    by (rule fwd) (simp add: physical_path_def)
  have ended: "reachable_physical (physical_at t g False)" if "t = PhysicalStateFailed \<or> t = PhysicalStateRolledBack" for t
    by (rule reach_edge [OF start]) (use that in \<open>auto simp: physical_edge_def\<close>)
  have wrote: "reachable_physical (physical_at t g True)"
    if "t \<in> {PhysicalStateSwitchingAssignment, PhysicalStateRollbackWindow, PhysicalStateCompleted}" for t
    by (rule reach_record [OF fwd g(1) that]) (use that in \<open>auto simp: physical_path_def\<close>)
  have failed: "reachable_physical (physical_at PhysicalStateFailed g True)"
    by (rule reach_edge [OF wrote [of PhysicalStateSwitchingAssignment]]) (simp_all add: physical_edge_def)
  have turned: "reachable_physical (physical_at PhysicalStateReverseMigrationRequired g True)" if "g < MaxInt64"
    by (rule reachable_physical.reverse [OF wrote [of PhysicalStateCompleted], of "g + 1" "physical_at PhysicalStatePlanned (g + 1) False"])
       (use g that in \<open>simp_all add: StartReverse_eq physical_at_def in_int64_def\<close>)
  show ?thesis
  proof (cases e)
    case True
    with s have "canContainTargetWriteEvidence s" by simp
    then show ?thesis using True s wrote failed turned by (cases s) simp_all
  next
    case False
    then show ?thesis using s fwd ended by (cases s) (simp_all add: physical_path_def)
  qed
qed

lemma physical_at_eta: "physical_at (ps_State (pm_snapshot m)) (ps_Generation (pm_snapshot m)) (ps_TargetWriteEvidence (pm_snapshot m)) = m"
  by (simp add: physical_at_def)

lemma reachable_iff: "reachable_physical m \<longleftrightarrow> physical_reach m"
  using reachable_sound reachable_complete physical_at_eta by metis

section \<open>Properties\<close>

text \<open>
  C13. Evidence bars the way back. Once the target of a migration between schemas has accepted a write, no
  sequence of its two calls rolls it back. Between databases no sequence of the three calls does, from every
  reachable machine: \<open>StartReverseMigration\<close>, the call made for that case, leaves the evidence, and the
  machine it returns starts without evidence under a strictly newer generation. The generation under which a
  migration fences never changes.
\<close>

theorem target_write_bars_rollback:
  assumes "New_migration g = Inr m0" "m = migration_run machine_step m0 cs"
    and "reachable_physical p" "q = migration_run physical_step p es"
  shows "(targetWriteEvidence m \<longrightarrow> targetWriteEvidence (migration_run machine_step m ds) \<and>
      machine_state (migration_run machine_step m ds) \<noteq> StateRolledBack) \<and>
    (ps_TargetWriteEvidence (pm_snapshot p) \<longrightarrow> ps_TargetWriteEvidence (pm_snapshot q) \<and>
      ps_State (pm_snapshot q) \<noteq> PhysicalStateRolledBack) \<and>
    machine_generation m = g \<and> ps_Generation (pm_snapshot q) = ps_Generation (pm_snapshot p) \<and>
    (StartReverseMigration h q = Inr (r, q') \<longrightarrow>
      ps_TargetWriteEvidence (pm_snapshot q) \<and> ps_Generation (pm_snapshot p) < h \<and> NewPhysical h = Inr r)"
proof -
  have m0: "machine_ok m0" "machine_generation m0 = g"
    using assms(1) by (auto simp: New_migration_def machine_ok_def split: if_splits)
  then have "machine_ok m" "machine_generation m = g"
    using schema_move.run_ok schema_move.run_generation assms(2) by auto
  moreover have "physical_ok p" using assms(3) by (simp add: reachable_iff physical_reach_def)
  ultimately show ?thesis
    using schema_move.run_barred [of m ds] physical_move.run_barred [of p es] physical_move.run_generation [of p es] assms(4)
    by (auto simp: StartReverse_eq NewPhysical_def physical_at_def)
qed

theorem target_write_bars_rollback_witness:
  "\<exists>m p. targetWriteEvidence m \<and> machine_generation m = 4 \<and>
     machine_state (migration_run machine_step m [Call_Transition StateRolledBack]) \<noteq> StateRolledBack \<and>
     ps_TargetWriteEvidence (pm_snapshot p) \<and> physical_step (Physical_Call_StartReverseMigration 2) p \<noteq> Inr p \<and>
     ps_State (pm_snapshot (migration_run physical_step p
       [Physical_Call_StartReverseMigration 2, Physical_Call_Transition PhysicalStateRolledBack])) \<noteq> PhysicalStateRolledBack"
proof -
  define m0 :: Machine where "m0 = \<lparr>machine_state = StatePlanned, machine_generation = 4, targetWriteEvidence = False\<rparr>"
  define m where "m = migration_run machine_step m0
    [Call_Transition StateDraining, Call_Transition StateCopying, Call_Transition StateValidating,
     Call_Transition StateCutoverReady, Call_Transition StateCuttingOver, Call_RecordTargetWrite 4, Call_Transition StateRollbackWindow]"
  define p where "p = physical_at PhysicalStateCompleted 1 True"
  have "New_migration 4 = Inr m0" by (simp add: New_migration_def m0_def)
  moreover have "reachable_physical p"
    by (simp add: p_def reachable_iff physical_reach_def physical_ok_def physical_at_def in_int64_def MinInt64_def MaxInt64_def)
  moreover have "targetWriteEvidence m"
    by (simp add: m_def m0_def Machine_Transition_def RecordTargetWrite_def)
  moreover have "ps_TargetWriteEvidence (pm_snapshot p)" "physical_step (Physical_Call_StartReverseMigration 2) p \<noteq> Inr p"
    by (simp_all add: p_def physical_at_def StartReverseMigration_def NewPhysical_def)
  ultimately show ?thesis
    using target_write_bars_rollback [of 4 m0 m _ p _ "[Physical_Call_StartReverseMigration 2, Physical_Call_Transition PhysicalStateRolledBack]"
      "[Call_Transition StateRolledBack]", OF _ m_def _ refl] by blast
qed

text \<open>
  A crash loses no checkpoint and restoring invents almost none: a stored snapshot is accepted exactly
  when it belongs to a machine that the constructor and the methods can produce, or says that a reverse
  migration is required although no write is recorded or no newer generation is left; what is restored is
  that machine.
\<close>

lemma physical_restore_exact:
  assumes "in_int64 (ps_Generation s)"
  shows "RestorePhysical s = Inr m \<longleftrightarrow> pm_snapshot m = s \<and>
     (reachable_physical m \<or>
      0 < ps_Generation s \<and> ps_State s = PhysicalStateReverseMigrationRequired \<and>
      (ps_TargetWriteEvidence s \<longrightarrow> ps_Generation s = MaxInt64))"
proof -
  have "m = \<lparr>pm_snapshot = s\<rparr> \<longleftrightarrow> pm_snapshot m = s" by (cases m) auto
  then show ?thesis
    using assms by (auto simp: RestorePhysical_def reachable_iff physical_reach_def physical_ok_def in_int64_def)
qed

text \<open>
  A reverse migration needs evidence and a strictly newer generation, and starts from the first
  checkpoint; the machine it replaces keeps its generation and evidence and is never moved again.
\<close>

lemma reverse_migration_is_newer:
  assumes "StartReverseMigration g m = Inr (r, m')"
  shows "ps_TargetWriteEvidence (pm_snapshot m) \<and> ps_Generation (pm_snapshot m) < g \<and> NewPhysical g = Inr r \<and>
    (let n = migration_run physical_step m' cs in
     ps_State (pm_snapshot n) = PhysicalStateReverseMigrationRequired \<and> ps_TargetWriteEvidence (pm_snapshot n) \<and>
     ps_Generation (pm_snapshot n) = ps_Generation (pm_snapshot m))"
proof -
  let ?keep = "\<lambda>n. ps_State (pm_snapshot n) = PhysicalStateReverseMigrationRequired \<and> ps_TargetWriteEvidence (pm_snapshot n) \<and>
     ps_Generation (pm_snapshot n) = ps_Generation (pm_snapshot m)"
  have "?keep (migration_run physical_step m' cs)"
  proof (rule migration_run_keeps [where keep = ?keep])
    show "?keep n'" if "?keep n" "physical_step c n = Inr n'" for c n n'
      using that(2) by (cases rule: physical_step_cases) (use that(1) in \<open>auto simp: physical_edge_def\<close>)
  qed (use assms in \<open>auto simp: StartReverse_eq\<close>)
  then show ?thesis using assms by (auto simp: Let_def StartReverse_eq NewPhysical_def physical_at_def)
qed

text \<open>
  A migration ends: along any sequence of calls the state changes at most seven times between schemas, and at most fourteen
  times between databases.
\<close>

lemma migration_transitions_bounded:
  "moves machine_step machine_state m cs \<le> 7 \<and>
   moves physical_step (ps_State \<circ> pm_snapshot) p ds \<le> 14"
  using schema_move.run_bounded [of m cs] physical_move.run_bounded [of p ds] by linarith

end
