(* ===== verification/Provider_Boundary.thy ===== *)
theory Provider_Boundary
  imports Go_Strings
begin

text \<open>
  The provider boundary of payments (\<^verbatim>\<open>internal/payment/provider/provider.go\<close>): statuses, errors, requests
  and results that the payment worker and every provider share, and the check of metadata. Metadata
  is the list of its entries in the order in which the code's loop meets them.
\<close>

datatype Status =
    StatusCreated | StatusRequiresCustomerAction | StatusAuthorized | StatusCaptured | StatusVoided
  | StatusRefunded | StatusFailed | StatusCancelled | StatusUnknown | StatusOther string

datatype ErrorCategory =
    ErrorTransport | ErrorTimeoutUnknown | ErrorPermanentValidation | ErrorAuthentication
  | ErrorUnavailable | ErrorRateLimited | ErrorConflict | ErrorInconsistentResponse

record ProviderError =
  pe_Category :: ErrorCategory
  pe_Operation :: string
  pe_Retryable :: bool
  pe_Uncertain :: bool
  pe_Message :: string

type_synonym Metadata = "(string \<times> string) list"

record CreateCheckoutRequest =
  cc_PaymentIntentID :: string
  cc_MerchantReference :: string
  cc_AmountMinor :: int64
  cc_Currency :: string
  cc_IdempotencyKey :: string
  cc_Metadata :: Metadata

record Checkout =
  co_ProviderPaymentID :: string
  co_HostedReference :: string
  co_SyntheticToken :: string
  co_Status :: Status
  co_AmountMinor :: int64
  co_Currency :: string

record ProviderPayment =
  pp_ProviderPaymentID :: string
  pp_Status :: Status
  pp_AmountMinor :: int64
  pp_Currency :: string
  pp_CapturedMinor :: int64
  pp_RefundedMinor :: int64
  pp_ProviderUpdatedAt :: gotime

record OperationRequest =
  or_PaymentIntentID :: string
  or_ProviderPaymentID :: string
  or_AmountMinor :: int64
  or_Currency :: string
  or_IdempotencyKey :: string
  or_Metadata :: Metadata

record OperationResult =
  re_ProviderPaymentID :: string
  re_ProviderOperationID :: string
  re_Status :: Status
  re_AmountMinor :: int64
  re_Currency :: string

record WebhookHeaders =
  wh_KeyID :: string
  wh_Timestamp :: string
  wh_Signature :: string

datatype EventType =
    EventCheckoutCreated | EventAuthorized | EventCaptured | EventVoided | EventRefunded
  | EventUnknown | EventOther string

fun event_type_name :: "EventType \<Rightarrow> string" where
  "event_type_name EventCheckoutCreated = ''payment.checkout_created''"
| "event_type_name EventAuthorized = ''payment.authorized''"
| "event_type_name EventCaptured = ''payment.captured''"
| "event_type_name EventVoided = ''payment.voided''"
| "event_type_name EventRefunded = ''payment.refunded''"
| "event_type_name EventUnknown = ''unknown''"
| "event_type_name (EventOther s) = s"

record WebhookEvent =
  ev_ProviderEventID :: string
  ev_Type :: EventType
  ev_OriginalType :: string
  ev_ProviderPaymentID :: string
  ev_Status :: Status
  ev_AmountMinor :: int64
  ev_Currency :: string
  ev_OccurredAt :: gotime

definition provider_validationError :: "string \<Rightarrow> ProviderError" where
  "provider_validationError message =
     \<lparr>pe_Category = ErrorPermanentValidation, pe_Operation = '''', pe_Retryable = False,
      pe_Uncertain = False, pe_Message = message\<rparr>"

text \<open>\<^verbatim>\<open>strings.Contains\<close>.\<close>

fun contains_string :: "string \<Rightarrow> string \<Rightarrow> bool" where
  "contains_string [] pat = (pat = [])"
| "contains_string (c # cs) pat = (take (length pat) (c # cs) = pat \<or> contains_string cs pat)"

definition forbidden_metadata :: "string list" where
  "forbidden_metadata =
     [''card'', ''pan'', ''cvv'', ''cvc'', ''pin'', ''track'', ''magnetic'', ''credential'', ''secret'',
      ''apikey'', ''dsn'', ''jwt'', ''shard'']"

fun check_metadata :: "Unicode \<Rightarrow> Metadata \<Rightarrow> ProviderError option" where
  "check_metadata u [] = None"
| "check_metadata u ((key, val) # rest) =
     (if key = [] \<or> 48 < length key \<or> 128 < length val
      then Some (provider_validationError ''metadata exceeds provider boundary'')
      else let normalized = filter (\<lambda>c. c \<notin> {CHR ''-'', CHR ''_'', CHR ''.''}) (ToLower u key) in
        if list_ex (contains_string normalized) forbidden_metadata
        then Some (provider_validationError ''sensitive metadata is not accepted'')
        else check_metadata u rest)"

definition ValidateMetadata :: "Unicode \<Rightarrow> Metadata \<Rightarrow> ProviderError option" where
  "ValidateMetadata u metadata =
     (if 8 < length metadata then Some (provider_validationError ''metadata exceeds provider boundary'')
      else check_metadata u metadata)"

end
