(* ===== verification/Sandbox_Provider.thy ===== *)
theory Sandbox_Provider
  imports Provider_Boundary "HOL-Library.Finite_Map" "HOL-Library.List_Lexorder" "HOL-Library.Char_ord"
begin

text \<open>
  The payment provider of the sandbox (\<^verbatim>\<open>internal/payment/provider/sandbox\<close>): it creates
  checkouts, authorises, captures, voids and refunds payments under idempotency keys, queues signed
  webhooks, follows a script of faults, and saves a snapshot of its state after every change so that a
  restart continues from it.

  A Go map is a finite map; a map that is iterated in the code's unspecified order is the list of its
  entries in the order of that iteration. \<open>Codec\<close> holds the functions of Go's \<^verbatim>\<open>encoding/json\<close> and
  \<^verbatim>\<open>crypto\<close> packages; a stored snapshot is represented by the value whose JSON it is. \<open>CallEnv\<close> holds what
  one call takes from outside: a cancelled context, the readings of the clock and whether the store
  fails to save. The mutex of the service makes every method one step.
\<close>

section \<open>Faults: faults.go\<close>

datatype SandboxOperation =
    OperationCreateCheckout | OperationGetStatus | OperationAuthorize | OperationCapture
  | OperationVoid | OperationRefund

fun op_name :: "SandboxOperation \<Rightarrow> string" where
  "op_name OperationCreateCheckout = ''create_checkout''"
| "op_name OperationGetStatus = ''get_payment_status''"
| "op_name OperationAuthorize = ''authorize''"
| "op_name OperationCapture = ''capture''"
| "op_name OperationVoid = ''void''"
| "op_name OperationRefund = ''refund''"

datatype FaultKind =
    FaultEmpty | FaultNone | FaultTimeoutBeforeCommit | FaultTimeoutAfterCommit | FaultResponseLoss
  | FaultRateLimited | FaultProviderError | FaultOutage | FaultInvalidResponse | FaultOversizedResponse
  | FaultRefundTransient | FaultRefundPermanent | FaultDuplicateWebhook | FaultOutOfOrderWebhook
  | FaultDelayedWebhook | FaultOther string

record Fault =
  ft_Kind :: FaultKind
  ft_DelaySteps :: nat

definition no_fault :: Fault where
  "no_fault = \<lparr>ft_Kind = FaultEmpty, ft_DelaySteps = 0\<rparr>"

datatype SandboxError = PlainError ProviderError | FaultError FaultKind ProviderError

fun provider_error :: "SandboxError \<Rightarrow> ProviderError" where
  "provider_error (PlainError e) = e"
| "provider_error (FaultError k e) = e"

definition FaultKindOf :: "SandboxError \<Rightarrow> FaultKind option" where
  "FaultKindOf err = (case err of PlainError _ \<Rightarrow> None | FaultError kind _ \<Rightarrow> Some kind)"

definition maxFaultsPerOperation :: nat where
  "maxFaultsPerOperation = 1024"

type_synonym Script = "SandboxOperation \<Rightarrow> Fault list"

definition Script_Push :: "SandboxOperation \<Rightarrow> Fault list \<Rightarrow> Script \<Rightarrow> bool \<times> Script" where
  "Script_Push operation faults script =
     (if faults = [] \<or> maxFaultsPerOperation < length (script operation) + length faults then (False, script)
      else (True, script(operation := script operation @ faults)))"

definition Script_Next :: "SandboxOperation \<Rightarrow> Script \<Rightarrow> Fault \<times> Script" where
  "Script_Next operation script =
     (case script operation of
        [] \<Rightarrow> (no_fault, script)
      | fault # queued \<Rightarrow> (fault, script(operation := queued)))"

section \<open>State: state.go and service.go\<close>

record paymentRecord =
  pr_id :: string
  pr_intentID :: string
  pr_token :: string
  pr_status :: Status
  pr_amount :: int64
  pr_currency :: string
  pr_captured :: int64
  pr_refunded :: int64
  pr_updatedAt :: gotime

definition zero_checkout :: Checkout where
  "zero_checkout = \<lparr>co_ProviderPaymentID = '''', co_HostedReference = '''', co_SyntheticToken = '''',
     co_Status = StatusOther '''', co_AmountMinor = 0, co_Currency = ''''\<rparr>"

definition zero_operation :: OperationResult where
  "zero_operation = \<lparr>re_ProviderPaymentID = '''', re_ProviderOperationID = '''', re_Status = StatusOther '''',
     re_AmountMinor = 0, re_Currency = ''''\<rparr>"

record idempotentResult =
  id_fingerprint :: string
  id_checkout :: Checkout
  id_operation :: OperationResult

record QueuedWebhook =
  qw_Headers :: WebhookHeaders
  qw_Body :: "byte list"
  qw_Sequence :: nat
  qw_DeliverAfter :: nat
  qw_event :: WebhookEvent

record mutableState =
  ms_payments :: "(string, paymentRecord) fmap"
  ms_idempotency :: "(string, idempotentResult) fmap"
  ms_nextPayment :: nat
  ms_nextOperation :: nat
  ms_nextEvent :: nat
  ms_step :: nat
  ms_webhooks :: "QueuedWebhook list"

record durableIdempotent =
  du_KeyHash :: string
  du_Fingerprint :: string
  du_Checkout :: "Checkout option"
  du_Operation :: "OperationResult option"

record durableWebhook =
  dw_Event :: WebhookEvent
  dw_Sequence :: nat
  dw_DeliverAfter :: nat

record durableState =
  ds_Version :: int
  ds_Payments :: "paymentRecord list"
  ds_Idempotency :: "durableIdempotent list"
  ds_Webhooks :: "durableWebhook list"
  ds_NextPayment :: nat
  ds_NextOperation :: nat
  ds_NextEvent :: nat
  ds_Step :: nat

record Service =
  sv_state :: mutableState
  sv_faults :: "Script option"
  sv_keys :: "(string, byte list) fmap"
  sv_issueKeyID :: string
  sv_maxWebhookBody :: int
  sv_maxWebhooks :: int
  sv_replayTolerance :: int64
  sv_stateStore :: "durableState option"
  sv_stateFailed :: bool

type_synonym operation_payload = "SandboxOperation \<times> string \<times> string \<times> int64 \<times> string \<times> string \<times> Metadata"

record Codec =
  cd_unicode :: Unicode
  cd_identity :: "string \<Rightarrow> string"
  cd_fp_checkout :: "CreateCheckoutRequest \<Rightarrow> string"
  cd_fp_operation :: "operation_payload \<Rightarrow> string"
  cd_json_event :: "WebhookEvent \<Rightarrow> byte list"
  cd_decode_event :: "byte list \<Rightarrow> (WebhookEvent \<times> bool) option"
  cd_hmac :: "byte list \<Rightarrow> byte list \<Rightarrow> byte list"

record CallEnv =
  cx_cancelled :: bool
  cx_now :: gotime
  cx_sign_now :: gotime
  cx_save_fails :: bool

section \<open>Strings\<close>

text \<open>Decimal digits, \<^verbatim>\<open>%012d\<close> and \<^verbatim>\<open>strconv.FormatInt\<close>.\<close>

definition digit_char :: "nat \<Rightarrow> char" where
  "digit_char d = char_of (48 + d)"

fun dec_digits :: "nat \<Rightarrow> string" where
  "dec_digits n = (if n < 10 then [digit_char n] else dec_digits (n div 10) @ [digit_char (n mod 10)])"

declare dec_digits.simps [simp del]

definition pad12 :: "nat \<Rightarrow> string" where
  "pad12 n = replicate (12 - length (dec_digits n)) (CHR ''0'') @ dec_digits n"

definition FormatInt :: "int \<Rightarrow> string" where
  "FormatInt i = (if i < 0 then CHR ''-'' # dec_digits (nat (- i)) else dec_digits (nat i))"

definition inc64 :: "nat \<Rightarrow> nat" where
  "inc64 n = (n + 1) mod 2 ^ 64"

definition alnum :: "char \<Rightarrow> bool" where
  "alnum c \<longleftrightarrow> 97 \<le> byte_of c \<and> byte_of c \<le> 122 \<or> 65 \<le> byte_of c \<and> byte_of c \<le> 90 \<or>
     48 \<le> byte_of c \<and> byte_of c \<le> 57"

definition validIdentifier :: "string \<Rightarrow> bool" where
  "validIdentifier val \<longleftrightarrow> val \<noteq> [] \<and> length val \<le> 160 \<and>
     list_all (\<lambda>c. alnum c \<or> c \<in> {CHR ''-'', CHR ''_'', CHR '':'', CHR ''.''}) val"

definition validKeyID :: "string \<Rightarrow> bool" where
  "validKeyID val \<longleftrightarrow> val \<noteq> [] \<and> length val \<le> 64 \<and>
     list_all (\<lambda>c. alnum c \<or> c \<in> {CHR ''-'', CHR ''_'', CHR ''.''}) val"

definition normalizeCurrency :: "Unicode \<Rightarrow> string \<Rightarrow> string" where
  "normalizeCurrency u raw =
     (let currency = ToUpper u (TrimSpace u raw) in
      if length currency \<noteq> 3 then ''''
      else if list_all (\<lambda>c. 65 \<le> byte_of c \<and> byte_of c \<le> 90) currency then currency else '''')"

definition HasPrefix :: "string \<Rightarrow> string \<Rightarrow> bool" where
  "HasPrefix s prefix \<longleftrightarrow> take (length prefix) s = prefix"

definition validDigest :: "string \<Rightarrow> bool" where
  "validDigest val \<longleftrightarrow> length val = 64 \<and> list_all hex_digit val"

fun validStatus :: "Status \<Rightarrow> bool" where
  "validStatus (StatusOther _) = False"
| "validStatus _ = True"

fun knownEventType :: "EventType \<Rightarrow> bool" where
  "knownEventType EventUnknown = False"
| "knownEventType (EventOther _) = False"
| "knownEventType _ = True"

section \<open>Errors: service.go\<close>

definition validationError :: "SandboxOperation \<Rightarrow> string \<Rightarrow> SandboxError" where
  "validationError operation message =
     PlainError \<lparr>pe_Category = ErrorPermanentValidation, pe_Operation = op_name operation, pe_Retryable = False,
       pe_Uncertain = False, pe_Message = message\<rparr>"

definition conflictError :: "SandboxOperation \<Rightarrow> SandboxError" where
  "conflictError operation =
     PlainError \<lparr>pe_Category = ErrorConflict, pe_Operation = op_name operation, pe_Retryable = False,
       pe_Uncertain = False, pe_Message = ''payment provider idempotency or state conflict''\<rparr>"

definition transportError :: "SandboxOperation \<Rightarrow> bool \<Rightarrow> SandboxError" where
  "transportError operation uncertain =
     PlainError \<lparr>pe_Category = ErrorTransport, pe_Operation = op_name operation, pe_Retryable = (\<not> uncertain),
       pe_Uncertain = uncertain, pe_Message = ''payment provider transport failure''\<rparr>"

definition stateUnavailableError :: "SandboxOperation \<Rightarrow> SandboxError" where
  "stateUnavailableError operation =
     PlainError \<lparr>pe_Category = ErrorUnavailable, pe_Operation = op_name operation, pe_Retryable = True,
       pe_Uncertain = False, pe_Message = ''payment provider state unavailable''\<rparr>"

definition withOperation :: "ProviderError \<Rightarrow> SandboxOperation \<Rightarrow> SandboxError" where
  "withOperation err operation = PlainError (err\<lparr>pe_Operation := op_name operation\<rparr>)"

definition faultProviderError ::
  "FaultKind \<Rightarrow> ErrorCategory \<Rightarrow> SandboxOperation \<Rightarrow> bool \<Rightarrow> bool \<Rightarrow> string \<Rightarrow> SandboxError" where
  "faultProviderError kind category operation retryable uncertain message =
     FaultError kind \<lparr>pe_Category = category, pe_Operation = op_name operation, pe_Retryable = retryable,
       pe_Uncertain = uncertain, pe_Message = message\<rparr>"

definition beforeFault :: "SandboxOperation \<Rightarrow> Fault \<Rightarrow> SandboxError option" where
  "beforeFault operation fault =
     (let kind = ft_Kind fault in
      if kind \<in> {FaultEmpty, FaultNone, FaultTimeoutAfterCommit, FaultResponseLoss, FaultDuplicateWebhook,
                 FaultOutOfOrderWebhook, FaultDelayedWebhook} then None
      else if kind = FaultTimeoutBeforeCommit then
        Some (faultProviderError kind ErrorTransport operation True False ''payment provider timed out before commit'')
      else if kind = FaultRateLimited then
        Some (faultProviderError kind ErrorRateLimited operation True False ''payment provider rate limited request'')
      else if kind = FaultProviderError \<or> kind = FaultRefundTransient then
        Some (faultProviderError kind ErrorTransport operation True False ''payment provider transient failure'')
      else if kind = FaultOutage then
        Some (faultProviderError kind ErrorUnavailable operation True False ''payment provider unavailable'')
      else if kind = FaultInvalidResponse \<or> kind = FaultOversizedResponse then
        Some (faultProviderError kind ErrorInconsistentResponse operation False False ''payment provider response was invalid'')
      else if kind = FaultRefundPermanent then
        Some (faultProviderError kind ErrorPermanentValidation operation False False ''payment provider rejected refund'')
      else Some (PlainError \<lparr>pe_Category = ErrorInconsistentResponse, pe_Operation = op_name operation,
        pe_Retryable = False, pe_Uncertain = False, pe_Message = ''payment provider fault was invalid''\<rparr>))"

definition afterFault :: "SandboxOperation \<Rightarrow> Fault \<Rightarrow> SandboxError option" where
  "afterFault operation fault =
     (if ft_Kind fault = FaultTimeoutAfterCommit then
        Some (faultProviderError (ft_Kind fault) ErrorTimeoutUnknown operation False True
          ''payment provider timed out with unknown outcome'')
      else if ft_Kind fault = FaultResponseLoss then
        Some (faultProviderError (ft_Kind fault) ErrorTransport operation False True
          ''payment provider response was lost after commit'')
      else None)"

section \<open>Webhooks: service.go\<close>

text \<open>\<^verbatim>\<open>Time.Unix\<close>: whole seconds since 1970, from nanoseconds since the year 1.\<close>

definition unix_epoch_seconds :: int where
  "unix_epoch_seconds = 62135596800"

definition Unix :: "gotime \<Rightarrow> int64" where
  "Unix t = t div 1000000000 - unix_epoch_seconds"

definition signatureBytes :: "Codec \<Rightarrow> byte list \<Rightarrow> string \<Rightarrow> byte list \<Rightarrow> byte list" where
  "signatureBytes cd key timestamp body = cd_hmac cd key (string_bytes timestamp @ string_bytes ''.'' @ body)"

definition signatureFor :: "Codec \<Rightarrow> byte list \<Rightarrow> string \<Rightarrow> byte list \<Rightarrow> string" where
  "signatureFor cd key timestamp body = EncodeToString (signatureBytes cd key timestamp body)"

text \<open>\<^verbatim>\<open>sign\<close>: the headers and the body, or the error when the body is too long.\<close>

definition sign :: "Codec \<Rightarrow> Service \<Rightarrow> byte list \<Rightarrow> gotime \<Rightarrow> (WebhookHeaders \<times> byte list) option" where
  "sign cd s body timestamp =
     (if sv_maxWebhookBody s < int (length body) then None
      else let unix = FormatInt (Unix timestamp);
               key = (case fmlookup (sv_keys s) (sv_issueKeyID s) of None \<Rightarrow> [] | Some k \<Rightarrow> k)
           in Some (\<lparr>wh_KeyID = sv_issueKeyID s, wh_Timestamp = unix,
                     wh_Signature = signatureFor cd key unix body\<rparr>, body))"

definition zero_headers :: WebhookHeaders where
  "zero_headers = \<lparr>wh_KeyID = '''', wh_Timestamp = '''', wh_Signature = ''''\<rparr>"

definition queued_webhook :: "Codec \<Rightarrow> CallEnv \<Rightarrow> Service \<Rightarrow> WebhookEvent \<Rightarrow> nat \<Rightarrow> nat \<Rightarrow> QueuedWebhook" where
  "queued_webhook cd cx s event sequence deliverAfter =
     (case sign cd s (cd_json_event cd event) (cx_sign_now cx) of
        None \<Rightarrow> \<lparr>qw_Headers = zero_headers, qw_Body = [], qw_Sequence = sequence,
                  qw_DeliverAfter = deliverAfter, qw_event = event\<rparr>
      | Some (headers, body) \<Rightarrow> \<lparr>qw_Headers = headers, qw_Body = body, qw_Sequence = sequence,
                  qw_DeliverAfter = deliverAfter, qw_event = event\<rparr>)"

definition webhook_event :: "paymentRecord \<Rightarrow> EventType \<Rightarrow> nat \<Rightarrow> WebhookEvent" where
  "webhook_event payment eventType n =
     \<lparr>ev_ProviderEventID = ''evt_sandbox_'' @ pad12 n, ev_Type = eventType, ev_OriginalType = '''',
      ev_ProviderPaymentID = pr_id payment, ev_Status = pr_status payment, ev_AmountMinor = pr_amount payment,
      ev_Currency = pr_currency payment, ev_OccurredAt = pr_updatedAt payment\<rparr>"

definition enqueueWebhook ::
  "Codec \<Rightarrow> CallEnv \<Rightarrow> Service \<Rightarrow> paymentRecord \<Rightarrow> EventType \<Rightarrow> Fault \<Rightarrow> mutableState \<Rightarrow> mutableState" where
  "enqueueWebhook cd cx s payment eventType fault st =
     (let requiredSlots = (if ft_Kind fault = FaultDuplicateWebhook then 2 else 1) in
      if sv_maxWebhooks s < int (length (ms_webhooks st)) + requiredSlots then st
      else
        let nextEvent = inc64 (ms_nextEvent st); step = inc64 (ms_step st);
            deliverAfter = (if ft_Kind fault = FaultDelayedWebhook
                            then (step + max (ft_DelaySteps fault) 1) mod 2 ^ 64 else 0);
            queued = queued_webhook cd cx s (webhook_event payment eventType nextEvent) step deliverAfter;
            webhooks = (if ft_Kind fault = FaultOutOfOrderWebhook then queued # ms_webhooks st
                        else if ft_Kind fault = FaultDuplicateWebhook then ms_webhooks st @ [queued, queued]
                        else ms_webhooks st @ [queued])
        in st\<lparr>ms_nextEvent := nextEvent, ms_step := step, ms_webhooks := webhooks\<rparr>)"

section \<open>Snapshots: state.go\<close>

definition durableStateVersion :: int where
  "durableStateVersion = 1"

definition maxStateRecords :: int where
  "maxStateRecords = 100000"

definition durable_idempotent :: "string \<Rightarrow> idempotentResult \<Rightarrow> durableIdempotent" where
  "durable_idempotent keyHash result =
     \<lparr>du_KeyHash = keyHash, du_Fingerprint = id_fingerprint result,
      du_Checkout = (if co_ProviderPaymentID (id_checkout result) \<noteq> '''' then Some (id_checkout result) else None),
      du_Operation = (if re_ProviderOperationID (id_operation result) \<noteq> '''' then Some (id_operation result) else None)\<rparr>"

definition durable_webhook :: "QueuedWebhook \<Rightarrow> durableWebhook" where
  "durable_webhook q = \<lparr>dw_Event = qw_event q, dw_Sequence = qw_Sequence q, dw_DeliverAfter = qw_DeliverAfter q\<rparr>"

text \<open>The entries of a map in the order of the sort that follows the iteration.\<close>

definition sorted_entries :: "(string, 'v) fmap \<Rightarrow> (string \<times> 'v) list" where
  "sorted_entries m = map (\<lambda>k. (k, the (fmlookup m k))) (sorted_list_of_fset (fmdom m))"

definition durableStateLocked :: "mutableState \<Rightarrow> durableState" where
  "durableStateLocked st =
     \<lparr>ds_Version = durableStateVersion,
      ds_Payments = sort_key pr_id (map snd (sorted_entries (ms_payments st))),
      ds_Idempotency = map (\<lambda>(k, r). durable_idempotent k r) (sorted_entries (ms_idempotency st)),
      ds_Webhooks = map durable_webhook (ms_webhooks st),
      ds_NextPayment = ms_nextPayment st, ds_NextOperation = ms_nextOperation st,
      ds_NextEvent = ms_nextEvent st, ds_Step = ms_step st\<rparr>"

definition persistLocked :: "CallEnv \<Rightarrow> Service \<Rightarrow> Service option" where
  "persistLocked cx s =
     (if cx_save_fails cx then None else Some (s\<lparr>sv_stateStore := Some (durableStateLocked (sv_state s))\<rparr>))"

definition valid_payment :: "Codec \<Rightarrow> paymentRecord \<Rightarrow> bool" where
  "valid_payment cd item \<longleftrightarrow>
     validIdentifier (pr_id item) \<and> validIdentifier (pr_intentID item) \<and> HasPrefix (pr_token item) ''tok_sandbox_'' \<and>
     validStatus (pr_status item) \<and> 0 < pr_amount item \<and>
     normalizeCurrency (cd_unicode cd) (pr_currency item) = pr_currency item \<and> \<not> IsZero_time (pr_updatedAt item) \<and>
     0 \<le> pr_captured item \<and> pr_captured item \<le> pr_amount item \<and>
     0 \<le> pr_refunded item \<and> pr_refunded item \<le> pr_captured item"

fun load_payments ::
  "Codec \<Rightarrow> paymentRecord list \<Rightarrow> (string, paymentRecord) fmap \<Rightarrow> (string, paymentRecord) fmap option" where
  "load_payments cd [] payments = Some payments"
| "load_payments cd (item # items) payments =
     (if \<not> valid_payment cd item then None
      else if fmlookup payments (pr_id item) \<noteq> None then None
      else load_payments cd items (fmupd (pr_id item) item payments))"

definition load_result :: "durableIdempotent \<Rightarrow> idempotentResult" where
  "load_result item =
     \<lparr>id_fingerprint = du_Fingerprint item,
      id_checkout = (case du_Checkout item of Some c \<Rightarrow> c | None \<Rightarrow> zero_checkout),
      id_operation = (case du_Checkout item of Some _ \<Rightarrow> zero_operation
        | None \<Rightarrow> (case du_Operation item of Some r \<Rightarrow> r | None \<Rightarrow> zero_operation))\<rparr>"

definition result_payment :: "durableIdempotent \<Rightarrow> string" where
  "result_payment item =
     (case du_Checkout item of Some c \<Rightarrow> co_ProviderPaymentID c
      | None \<Rightarrow> (case du_Operation item of Some r \<Rightarrow> re_ProviderPaymentID r | None \<Rightarrow> ''''))"

fun load_idempotency ::
  "(string, paymentRecord) fmap \<Rightarrow> durableIdempotent list \<Rightarrow> (string, idempotentResult) fmap \<Rightarrow>
     (string, idempotentResult) fmap option" where
  "load_idempotency payments [] idempotency = Some idempotency"
| "load_idempotency payments (item # items) idempotency =
     (if \<not> validDigest (du_KeyHash item) \<or> \<not> validDigest (du_Fingerprint item) \<or>
         (du_Checkout item = None) = (du_Operation item = None) then None
      else if fmlookup idempotency (du_KeyHash item) \<noteq> None then None
      else if fmlookup payments (result_payment item) = None then None
      else load_idempotency payments items (fmupd (du_KeyHash item) (load_result item) idempotency))"

definition valid_webhook :: "(string, paymentRecord) fmap \<Rightarrow> nat \<Rightarrow> durableWebhook \<Rightarrow> bool" where
  "valid_webhook payments step item =
     (let event = dw_Event item in
      case fmlookup payments (ev_ProviderPaymentID event) of
        None \<Rightarrow> False
      | Some payment \<Rightarrow>
          validIdentifier (ev_ProviderEventID event) \<and> knownEventType (ev_Type event) \<and>
          validStatus (ev_Status event) \<and> ev_AmountMinor event = pr_amount payment \<and>
          ev_Currency event = pr_currency payment \<and> \<not> IsZero_time (ev_OccurredAt event) \<and>
          dw_Sequence item \<noteq> 0 \<and> dw_Sequence item \<le> step \<and>
          \<not> (step < dw_DeliverAfter item \<and> 10000 < dw_DeliverAfter item - step))"

fun load_webhooks ::
  "Codec \<Rightarrow> CallEnv \<Rightarrow> Service \<Rightarrow> (string, paymentRecord) fmap \<Rightarrow> nat \<Rightarrow> durableWebhook list \<Rightarrow>
     QueuedWebhook list option" where
  "load_webhooks cd cx s payments step [] = Some []"
| "load_webhooks cd cx s payments step (item # items) =
     (if \<not> valid_webhook payments step item then None
      else if sv_maxWebhookBody s < int (length (cd_json_event cd (dw_Event item))) then None
      else map_option (\<lambda>rest. queued_webhook cd cx s (dw_Event item) (dw_Sequence item) (dw_DeliverAfter item) # rest)
             (load_webhooks cd cx s payments step items))"

definition applyDurableState :: "Codec \<Rightarrow> CallEnv \<Rightarrow> durableState \<Rightarrow> Service \<Rightarrow> Service option" where
  "applyDurableState cd cx state s =
     (if ds_Version state \<noteq> durableStateVersion \<or> maxStateRecords < int (length (ds_Payments state)) \<or>
         maxStateRecords * 2 < int (length (ds_Idempotency state)) \<or>
         sv_maxWebhooks s < int (length (ds_Webhooks state)) \<or> maxStateRecords < int (length (ds_Webhooks state)) then None
      else case load_payments cd (ds_Payments state) fmempty of
        None \<Rightarrow> None
      | Some payments \<Rightarrow>
          (case load_idempotency payments (ds_Idempotency state) fmempty of
             None \<Rightarrow> None
           | Some idempotency \<Rightarrow>
               (case load_webhooks cd cx s payments (ds_Step state) (ds_Webhooks state) of
                  None \<Rightarrow> None
                | Some webhooks \<Rightarrow>
                    Some (s\<lparr>sv_state := \<lparr>ms_payments = payments, ms_idempotency = idempotency,
                       ms_nextPayment = ds_NextPayment state, ms_nextOperation = ds_NextOperation state,
                       ms_nextEvent = ds_NextEvent state, ms_step = ds_Step state, ms_webhooks = webhooks\<rparr>\<rparr>))))"

definition loadDurableState :: "Codec \<Rightarrow> CallEnv \<Rightarrow> Service \<Rightarrow> Service option" where
  "loadDurableState cd cx s =
     (case sv_stateStore s of None \<Rightarrow> Some s | Some state \<Rightarrow> applyDurableState cd cx state s)"

section \<open>The service: service.go\<close>

record Config =
  cf_Environment :: string
  cf_AllowSandboxInProduction :: bool
  cf_WebhookKeys :: "(string \<times> byte list) list"
  cf_IssueKeyID :: string
  cf_WebhookMaxBodyBytes :: int
  cf_WebhookReplayTolerance :: int64
  cf_MaxQueuedWebhooks :: int
  cf_Faults :: "Script option"
  cf_StateStore :: "durableState option"

definition empty_state :: mutableState where
  "empty_state = \<lparr>ms_payments = fmempty, ms_idempotency = fmempty, ms_nextPayment = 0, ms_nextOperation = 0,
     ms_nextEvent = 0, ms_step = 0, ms_webhooks = []\<rparr>"

definition service_of :: "Config \<Rightarrow> Service" where
  "service_of config =
     \<lparr>sv_state = empty_state, sv_faults = cf_Faults config, sv_keys = fmap_of_list (cf_WebhookKeys config),
      sv_issueKeyID = cf_IssueKeyID config,
      sv_maxWebhookBody = (if cf_WebhookMaxBodyBytes config = 0 then 65536 else cf_WebhookMaxBodyBytes config),
      sv_maxWebhooks = (if cf_MaxQueuedWebhooks config = 0 then 10000 else cf_MaxQueuedWebhooks config),
      sv_replayTolerance =
        (if cf_WebhookReplayTolerance config = 0 then 300000000000 else cf_WebhookReplayTolerance config),
      sv_stateStore = cf_StateStore config, sv_stateFailed = False\<rparr>"

definition config_error :: "Codec \<Rightarrow> Config \<Rightarrow> string option" where
  "config_error cd config =
     (let environment = ToLower (cd_unicode cd) (TrimSpace (cd_unicode cd) (cf_Environment config));
          s = service_of config
      in
      if environment = ''production'' \<and> \<not> cf_AllowSandboxInProduction config
      then Some ''payment sandbox is disabled in production''
      else if environment \<noteq> ''test'' \<and> environment \<noteq> ''development'' \<and> environment \<noteq> ''production''
      then Some ''payment sandbox environment is invalid''
      else if sv_maxWebhookBody s < 1024 \<or> 1048576 < sv_maxWebhookBody s
      then Some ''payment sandbox webhook body limit is invalid''
      else if sv_replayTolerance s < 1000000000 \<or> 3600000000000 < sv_replayTolerance s
      then Some ''payment sandbox replay tolerance is invalid''
      else if sv_maxWebhooks s < 1 \<or> 100000 < sv_maxWebhooks s
      then Some ''payment sandbox webhook queue limit is invalid''
      else if 8 < length (cf_WebhookKeys config) then Some ''payment sandbox webhook keyring is invalid''
      else if list_ex (\<lambda>(i, key). \<not> validKeyID i \<or> length key < 16 \<or> 128 < length key) (cf_WebhookKeys config)
      then Some ''payment sandbox webhook keyring is invalid''
      else if fmlookup (sv_keys s) (cf_IssueKeyID config) = None \<or> cf_IssueKeyID config = ''''
      then Some ''payment sandbox issue key is invalid''
      else None)"

definition New_sandbox :: "Codec \<Rightarrow> CallEnv \<Rightarrow> Config \<Rightarrow> string + Service" where
  "New_sandbox cd cx config =
     (case config_error cd config of
        Some e \<Rightarrow> Inl e
      | None \<Rightarrow>
          (case loadDurableState cd cx (service_of config) of
             None \<Rightarrow> Inl ''payment sandbox state is invalid''
           | Some s \<Rightarrow> Inr s))"

definition Ready :: "Service \<Rightarrow> bool" where
  "Ready s \<longleftrightarrow> \<not> sv_stateFailed s"

definition nextFault :: "SandboxOperation \<Rightarrow> Service \<Rightarrow> Fault \<times> Service" where
  "nextFault operation s =
     (case sv_faults s of
        None \<Rightarrow> (no_fault, s)
      | Some script \<Rightarrow>
          (let (fault, script') = Script_Next operation script in (fault, s\<lparr>sv_faults := Some script'\<rparr>)))"

definition validateCommon :: "Codec \<Rightarrow> CreateCheckoutRequest \<Rightarrow> SandboxError option" where
  "validateCommon cd request =
     (if \<not> validIdentifier (cc_PaymentIntentID request) \<or> \<not> validIdentifier (cc_MerchantReference request)
      then Some (validationError OperationCreateCheckout ''payment intent identity is invalid'')
      else if \<not> validIdentifier (cc_IdempotencyKey request) \<or> cc_AmountMinor request \<le> 0 \<or>
              normalizeCurrency (cd_unicode cd) (cc_Currency request) = ''''
      then Some (validationError OperationCreateCheckout ''checkout request is invalid'')
      else map_option (\<lambda>e. withOperation e OperationCreateCheckout)
             (ValidateMetadata (cd_unicode cd) (cc_Metadata request)))"

text \<open>
  The end of both mutating methods: save the new state; when that fails, put the previous state back and
  refuse further changes; then report the fault that strikes after the commit.
\<close>

definition finish ::
  "CallEnv \<Rightarrow> SandboxOperation \<Rightarrow> Fault \<Rightarrow> mutableState \<Rightarrow> 'a \<Rightarrow> Service \<Rightarrow> (SandboxError + 'a) \<times> Service" where
  "finish cx operation fault previous result s =
     (case persistLocked cx s of
        None \<Rightarrow> (Inl (stateUnavailableError operation), s\<lparr>sv_state := previous, sv_stateFailed := True\<rparr>)
      | Some saved \<Rightarrow>
          (case afterFault operation fault of
             Some e \<Rightarrow> (Inl e, saved)
           | None \<Rightarrow> (Inr result, saved)))"

definition new_checkout :: "Codec \<Rightarrow> CreateCheckoutRequest \<Rightarrow> nat \<Rightarrow> Checkout" where
  "new_checkout cd request n =
     (let pid = ''pay_sandbox_'' @ pad12 n in
      \<lparr>co_ProviderPaymentID = pid, co_HostedReference = ''sandbox-checkout:'' @ pid,
       co_SyntheticToken = ''tok_sandbox_'' @ pad12 n, co_Status = StatusCreated,
       co_AmountMinor = cc_AmountMinor request, co_Currency = normalizeCurrency (cd_unicode cd) (cc_Currency request)\<rparr>)"

definition new_payment :: "CallEnv \<Rightarrow> CreateCheckoutRequest \<Rightarrow> Checkout \<Rightarrow> paymentRecord" where
  "new_payment cx request checkout =
     \<lparr>pr_id = co_ProviderPaymentID checkout, pr_intentID = cc_PaymentIntentID request,
      pr_token = co_SyntheticToken checkout, pr_status = StatusCreated, pr_amount = cc_AmountMinor request,
      pr_currency = co_Currency checkout, pr_captured = 0, pr_refunded = 0, pr_updatedAt = cx_now cx\<rparr>"

definition commit_checkout ::
  "Codec \<Rightarrow> CallEnv \<Rightarrow> CreateCheckoutRequest \<Rightarrow> Fault \<Rightarrow> Service \<Rightarrow> (SandboxError + Checkout) \<times> Service" where
  "commit_checkout cd cx request fault s =
     (let previous = sv_state s;
          n = inc64 (ms_nextPayment previous);
          checkout = new_checkout cd request n;
          payment = new_payment cx request checkout;
          st = previous\<lparr>ms_nextPayment := n,
                 ms_payments := fmupd (pr_id payment) payment (ms_payments previous),
                 ms_idempotency := fmupd (cd_identity cd (cc_IdempotencyKey request))
                   \<lparr>id_fingerprint = cd_fp_checkout cd request, id_checkout = checkout, id_operation = zero_operation\<rparr>
                   (ms_idempotency previous)\<rparr>
      in finish cx OperationCreateCheckout fault previous checkout
           (s\<lparr>sv_state := enqueueWebhook cd cx s payment EventCheckoutCreated fault st\<rparr>))"

definition CreateCheckout ::
  "Codec \<Rightarrow> CallEnv \<Rightarrow> CreateCheckoutRequest \<Rightarrow> Service \<Rightarrow> (SandboxError + Checkout) \<times> Service" where
  "CreateCheckout cd cx request s =
     (if cx_cancelled cx then (Inl (transportError OperationCreateCheckout False), s)
      else case validateCommon cd request of
        Some e \<Rightarrow> (Inl e, s)
      | None \<Rightarrow>
          if sv_stateFailed s then (Inl (stateUnavailableError OperationCreateCheckout), s)
          else (case fmlookup (ms_idempotency (sv_state s)) (cd_identity cd (cc_IdempotencyKey request)) of
             Some replay \<Rightarrow>
               if id_fingerprint replay \<noteq> cd_fp_checkout cd request
               then (Inl (conflictError OperationCreateCheckout), s)
               else (Inr (id_checkout replay), s)
           | None \<Rightarrow>
               (case nextFault OperationCreateCheckout s of
                  (fault, s1) \<Rightarrow>
                    (case beforeFault OperationCreateCheckout fault of
                       Some e \<Rightarrow> (Inl e, s1)
                     | None \<Rightarrow> commit_checkout cd cx request fault s1))))"

definition paymentFrom :: "paymentRecord \<Rightarrow> ProviderPayment" where
  "paymentFrom payment =
     \<lparr>pp_ProviderPaymentID = pr_id payment, pp_Status = pr_status payment, pp_AmountMinor = pr_amount payment,
      pp_Currency = pr_currency payment, pp_CapturedMinor = pr_captured payment, pp_RefundedMinor = pr_refunded payment,
      pp_ProviderUpdatedAt = pr_updatedAt payment\<rparr>"

definition GetPaymentStatus :: "CallEnv \<Rightarrow> string \<Rightarrow> Service \<Rightarrow> (SandboxError + ProviderPayment) \<times> Service" where
  "GetPaymentStatus cx paymentID s =
     (if cx_cancelled cx then (Inl (transportError OperationGetStatus False), s)
      else if \<not> validIdentifier paymentID
      then (Inl (validationError OperationGetStatus ''provider payment ID is invalid''), s)
      else case nextFault OperationGetStatus s of
        (fault, s1) \<Rightarrow>
          (case beforeFault OperationGetStatus fault of
             Some e \<Rightarrow> (Inl e, s1)
           | None \<Rightarrow>
               (case fmlookup (ms_payments (sv_state s1)) paymentID of
                  None \<Rightarrow> (Inl (validationError OperationGetStatus ''provider payment was not found''), s1)
                | Some payment \<Rightarrow> (Inr (paymentFrom payment), s1))))"

definition validateTransition :: "paymentRecord \<Rightarrow> SandboxOperation \<Rightarrow> SandboxError + (Status \<times> EventType)" where
  "validateTransition payment operation =
     (case operation of
        OperationAuthorize \<Rightarrow>
          if pr_status payment \<noteq> StatusCreated \<and> pr_status payment \<noteq> StatusRequiresCustomerAction
          then Inl (conflictError operation) else Inr (StatusAuthorized, EventAuthorized)
      | OperationCapture \<Rightarrow>
          if pr_status payment \<noteq> StatusAuthorized
          then Inl (conflictError operation) else Inr (StatusCaptured, EventCaptured)
      | OperationVoid \<Rightarrow>
          if pr_status payment \<noteq> StatusCreated \<and> pr_status payment \<noteq> StatusAuthorized
          then Inl (conflictError operation) else Inr (StatusVoided, EventVoided)
      | OperationRefund \<Rightarrow>
          if pr_status payment \<noteq> StatusCaptured \<or> pr_captured payment \<le> 0 \<or> pr_refunded payment \<noteq> 0
          then Inl (conflictError operation) else Inr (StatusRefunded, EventRefunded)
      | _ \<Rightarrow> Inl (validationError operation ''provider operation is invalid''))"

definition commit_transition ::
  "Codec \<Rightarrow> CallEnv \<Rightarrow> SandboxOperation \<Rightarrow> OperationRequest \<Rightarrow> string \<Rightarrow> Fault \<Rightarrow> paymentRecord \<Rightarrow> Status \<Rightarrow> EventType \<Rightarrow>
     Service \<Rightarrow> (SandboxError + OperationResult) \<times> Service" where
  "commit_transition cd cx operation request fingerprint fault payment nextStatus eventType s =
     (let previous = sv_state s;
          n = inc64 (ms_nextOperation previous);
          resultAmount = (if operation = OperationVoid then pr_amount payment else or_AmountMinor request);
          result = \<lparr>re_ProviderPaymentID = pr_id payment, re_ProviderOperationID = ''op_sandbox_'' @ pad12 n,
                    re_Status = nextStatus, re_AmountMinor = resultAmount, re_Currency = pr_currency payment\<rparr>;
          payment' = payment\<lparr>pr_status := nextStatus, pr_updatedAt := cx_now cx,
                       pr_captured := (if operation = OperationCapture then or_AmountMinor request else pr_captured payment),
                       pr_refunded := (if operation = OperationRefund then or_AmountMinor request else pr_refunded payment)\<rparr>;
          st = previous\<lparr>ms_nextOperation := n,
                 ms_payments := fmupd (or_ProviderPaymentID request) payment' (ms_payments previous),
                 ms_idempotency := fmupd (cd_identity cd (or_IdempotencyKey request))
                   \<lparr>id_fingerprint = fingerprint, id_checkout = zero_checkout, id_operation = result\<rparr>
                   (ms_idempotency previous)\<rparr>
      in finish cx operation fault previous result
           (s\<lparr>sv_state := enqueueWebhook cd cx s payment' eventType fault st\<rparr>))"

definition operation_valid :: "Codec \<Rightarrow> SandboxOperation \<Rightarrow> OperationRequest \<Rightarrow> SandboxError option" where
  "operation_valid cd operation request =
     (if \<not> validIdentifier (or_PaymentIntentID request) \<or> \<not> validIdentifier (or_ProviderPaymentID request) \<or>
         \<not> validIdentifier (or_IdempotencyKey request)
      then Some (validationError operation ''provider operation identity is invalid'')
      else case ValidateMetadata (cd_unicode cd) (or_Metadata request) of
        Some e \<Rightarrow> Some (withOperation e operation)
      | None \<Rightarrow>
          if operation \<noteq> OperationVoid \<and>
             (or_AmountMinor request \<le> 0 \<or> normalizeCurrency (cd_unicode cd) (or_Currency request) = '''')
          then Some (validationError operation ''amount or currency is invalid'') else None)"

definition operation_fingerprint :: "Codec \<Rightarrow> SandboxOperation \<Rightarrow> OperationRequest \<Rightarrow> string \<Rightarrow> string" where
  "operation_fingerprint cd operation request token =
     cd_fp_operation cd (operation, or_PaymentIntentID request, or_ProviderPaymentID request, or_AmountMinor request,
       normalizeCurrency (cd_unicode cd) (or_Currency request), token, or_Metadata request)"

definition transition ::
  "Codec \<Rightarrow> CallEnv \<Rightarrow> SandboxOperation \<Rightarrow> OperationRequest \<Rightarrow> string \<Rightarrow> Service \<Rightarrow>
     (SandboxError + OperationResult) \<times> Service" where
  "transition cd cx operation request token s =
     (if cx_cancelled cx then (Inl (transportError operation False), s)
      else case operation_valid cd operation request of
        Some e \<Rightarrow> (Inl e, s)
      | None \<Rightarrow>
          if sv_stateFailed s then (Inl (stateUnavailableError operation), s)
          else (case fmlookup (ms_idempotency (sv_state s)) (cd_identity cd (or_IdempotencyKey request)) of
             Some replay \<Rightarrow>
               if id_fingerprint replay \<noteq> operation_fingerprint cd operation request token
               then (Inl (conflictError operation), s)
               else (Inr (id_operation replay), s)
           | None \<Rightarrow>
               (case nextFault operation s of
                  (fault, s1) \<Rightarrow>
                    (case beforeFault operation fault of
                       Some e \<Rightarrow> (Inl e, s1)
                     | None \<Rightarrow>
                         (case fmlookup (ms_payments (sv_state s1)) (or_ProviderPaymentID request) of
                            None \<Rightarrow> (Inl (validationError operation ''provider payment was not found''), s1)
                          | Some payment \<Rightarrow>
                              if operation = OperationAuthorize \<and> pr_token payment \<noteq> token
                              then (Inl (validationError operation ''synthetic payment token is invalid''), s1)
                              else if operation \<noteq> OperationVoid \<and>
                                (pr_amount payment \<noteq> or_AmountMinor request \<or>
                                 pr_currency payment \<noteq> normalizeCurrency (cd_unicode cd) (or_Currency request))
                              then (Inl (conflictError operation), s1)
                              else (case validateTransition payment operation of
                                 Inl e \<Rightarrow> (Inl e, s1)
                               | Inr (nextStatus, eventType) \<Rightarrow>
                                   commit_transition cd cx operation request
                                     (operation_fingerprint cd operation request token) fault payment nextStatus eventType s1))))))"

definition Authorize ::
  "Codec \<Rightarrow> CallEnv \<Rightarrow> OperationRequest \<Rightarrow> string \<Rightarrow> Service \<Rightarrow> (SandboxError + OperationResult) \<times> Service" where
  "Authorize cd cx request token s =
     (if token = '''' \<or> 128 < length token \<or> \<not> HasPrefix token ''tok_sandbox_''
      then (Inl (validationError OperationAuthorize ''synthetic payment token is invalid''), s)
      else transition cd cx OperationAuthorize request token s)"

definition Capture :: "Codec \<Rightarrow> CallEnv \<Rightarrow> OperationRequest \<Rightarrow> Service \<Rightarrow> (SandboxError + OperationResult) \<times> Service" where
  "Capture cd cx request s = transition cd cx OperationCapture request '''' s"

definition Void :: "Codec \<Rightarrow> CallEnv \<Rightarrow> OperationRequest \<Rightarrow> Service \<Rightarrow> (SandboxError + OperationResult) \<times> Service" where
  "Void cd cx request s =
     transition cd cx OperationVoid (request\<lparr>or_AmountMinor := 0, or_Currency := ''''\<rparr>) '''' s"

definition Refund :: "Codec \<Rightarrow> CallEnv \<Rightarrow> OperationRequest \<Rightarrow> Service \<Rightarrow> (SandboxError + OperationResult) \<times> Service" where
  "Refund cd cx request s = transition cd cx OperationRefund request '''' s"

definition CompleteHostedCheckout ::
  "Codec \<Rightarrow> CallEnv \<Rightarrow> string \<Rightarrow> Service \<Rightarrow> (SandboxError + OperationResult) \<times> Service" where
  "CompleteHostedCheckout cd cx hostedReference s =
     (if \<not> HasPrefix hostedReference ''sandbox-checkout:''
      then (Inl (validationError OperationAuthorize ''hosted checkout reference is invalid''), s)
      else let paymentID = drop (length ''sandbox-checkout:'') hostedReference in
        if \<not> validIdentifier paymentID
        then (Inl (validationError OperationAuthorize ''hosted checkout reference is invalid''), s)
        else case fmlookup (ms_payments (sv_state s)) paymentID of
          None \<Rightarrow> (Inl (validationError OperationAuthorize ''provider payment was not found''), s)
        | Some payment \<Rightarrow>
            Authorize cd cx
              \<lparr>or_PaymentIntentID = pr_intentID payment, or_ProviderPaymentID = pr_id payment,
               or_AmountMinor = pr_amount payment, or_Currency = pr_currency payment,
               or_IdempotencyKey = ''hosted-authorize:'' @ pr_id payment @ '':v1'', or_Metadata = []\<rparr>
              (pr_token payment) s)"

definition Advance :: "CallEnv \<Rightarrow> nat \<Rightarrow> Service \<Rightarrow> bool \<times> Service" where
  "Advance cx steps s =
     (let previous = sv_state s in
      if sv_stateFailed s \<or> steps = 0 \<or> 10000 < steps \<or> 2 ^ 64 - 1 - ms_step previous < steps then (False, s)
      else case persistLocked cx (s\<lparr>sv_state := previous\<lparr>ms_step := ms_step previous + steps\<rparr>\<rparr>) of
        None \<Rightarrow> (False, s\<lparr>sv_stateFailed := True\<rparr>)
      | Some saved \<Rightarrow> (True, saved))"

fun drain :: "nat \<Rightarrow> int \<Rightarrow> QueuedWebhook list \<Rightarrow> QueuedWebhook list \<Rightarrow> QueuedWebhook list \<times> QueuedWebhook list" where
  "drain step limit ready [] = (ready, [])"
| "drain step limit ready (webhook # rest) =
     (if step < qw_DeliverAfter webhook \<or> 0 < limit \<and> limit \<le> int (length ready)
      then (let (r, p) = drain step limit ready rest in (r, webhook # p))
      else drain step limit (ready @ [webhook]) rest)"

definition DrainWebhooksLimit :: "int \<Rightarrow> Service \<Rightarrow> QueuedWebhook list \<times> Service" where
  "DrainWebhooksLimit limit s =
     (let (ready, pending) = drain (ms_step (sv_state s)) limit [] (ms_webhooks (sv_state s)) in
      (ready, s\<lparr>sv_state := (sv_state s)\<lparr>ms_webhooks := pending\<rparr>\<rparr>))"

definition DrainWebhooks :: "Service \<Rightarrow> QueuedWebhook list \<times> Service" where
  "DrainWebhooks s = DrainWebhooksLimit 0 s"

definition SignWebhook :: "Codec \<Rightarrow> CallEnv \<Rightarrow> WebhookEvent \<Rightarrow> Service \<Rightarrow> (WebhookHeaders \<times> byte list) option" where
  "SignWebhook cd cx event s = sign cd s (cd_json_event cd event) (cx_sign_now cx)"

section \<open>Verification of webhooks: service.go\<close>

text \<open>\<^verbatim>\<open>strconv.ParseInt(s, 10, 64)\<close>.\<close>

definition is_digit :: "char \<Rightarrow> bool" where
  "is_digit c \<longleftrightarrow> 48 \<le> byte_of c \<and> byte_of c \<le> 57"

definition digits_value :: "string \<Rightarrow> nat" where
  "digits_value ds = foldl (\<lambda>acc c. acc * 10 + (byte_of c - 48)) 0 ds"

definition ParseInt :: "string \<Rightarrow> int64 option" where
  "ParseInt s =
     (let negative = (s \<noteq> [] \<and> hd s = CHR ''-'');
          ds = (if s \<noteq> [] \<and> hd s \<in> {CHR ''-'', CHR ''+''} then tl s else s);
          i = (if negative then - int (digits_value ds) else int (digits_value ds))
      in if ds = [] \<or> \<not> list_all is_digit ds \<or> \<not> in_int64 i then None else Some i)"

text \<open>
  \<^verbatim>\<open>time.Unix(sec, 0)\<close> stores the seconds since the year 1 in 64 bits, and \<^verbatim>\<open>Time.Sub\<close> saturates at the
  ends of \<^verbatim>\<open>time.Duration\<close>.
\<close>

definition time_of_unix :: "int64 \<Rightarrow> gotime" where
  "time_of_unix sec = wrap64 (sec + unix_epoch_seconds) * 1000000000"

definition Time_Sub :: "gotime \<Rightarrow> gotime \<Rightarrow> int64" where
  "Time_Sub t u = max MinInt64 (min MaxInt64 (t - u))"

definition within_tolerance :: "gotime \<Rightarrow> int64 \<Rightarrow> int64 \<Rightarrow> bool" where
  "within_tolerance now timestampUnix tolerance =
     (let delta = Time_Sub now (time_of_unix timestampUnix);
          magnitude = (if delta < 0 then wrap64 (- delta) else delta)
      in \<not> tolerance < magnitude)"

definition authenticationError :: ProviderError where
  "authenticationError = \<lparr>pe_Category = ErrorAuthentication, pe_Operation = ''verify_webhook'',
     pe_Retryable = False, pe_Uncertain = False, pe_Message = ''payment webhook authentication failed''\<rparr>"

definition verifyError :: "ErrorCategory \<Rightarrow> bool \<Rightarrow> string \<Rightarrow> ProviderError" where
  "verifyError category retryable message =
     \<lparr>pe_Category = category, pe_Operation = ''verify_webhook'', pe_Retryable = retryable,
      pe_Uncertain = False, pe_Message = message\<rparr>"

definition valid_event :: "Codec \<Rightarrow> WebhookEvent \<Rightarrow> bool" where
  "valid_event cd event \<longleftrightarrow>
     validIdentifier (ev_ProviderEventID event) \<and> validIdentifier (ev_ProviderPaymentID event) \<and>
     0 < ev_AmountMinor event \<and> normalizeCurrency (cd_unicode cd) (ev_Currency event) \<noteq> '''' \<and>
     \<not> IsZero_time (ev_OccurredAt event) \<and> validStatus (ev_Status event)"

definition VerifyWebhook ::
  "Codec \<Rightarrow> CallEnv \<Rightarrow> WebhookHeaders \<Rightarrow> byte list \<Rightarrow> Service \<Rightarrow> ProviderError + WebhookEvent" where
  "VerifyWebhook cd cx headers body s =
     (if cx_cancelled cx then Inl (verifyError ErrorTransport True ''payment provider transport failure'')
      else if body = [] \<or> sv_maxWebhookBody s < int (length body)
      then Inl (verifyError ErrorPermanentValidation False ''payment webhook body is invalid'')
      else case ParseInt (wh_Timestamp headers) of
        None \<Rightarrow> Inl authenticationError
      | Some timestampUnix \<Rightarrow>
          if \<not> within_tolerance (cx_now cx) timestampUnix (sv_replayTolerance s) then Inl authenticationError
          else (case fmlookup (sv_keys s) (wh_KeyID headers) of
             None \<Rightarrow> Inl authenticationError
           | Some key \<Rightarrow>
               if DecodeString (wh_Signature headers) \<noteq> Some (signatureBytes cd key (wh_Timestamp headers) body)
               then Inl authenticationError
               else (case cd_decode_event cd body of
                  None \<Rightarrow> Inl (verifyError ErrorInconsistentResponse False ''payment webhook payload is invalid'')
                | Some (event, at_end) \<Rightarrow>
                    if \<not> valid_event cd event \<or> \<not> at_end
                    then Inl (verifyError ErrorInconsistentResponse False ''payment webhook payload is invalid'')
                    else if knownEventType (ev_Type event) then Inr event
                    else Inr (event\<lparr>ev_OriginalType := event_type_name (ev_Type event), ev_Type := EventUnknown\<rparr>))))"

section \<open>Calls from outside\<close>

text \<open>The faults the emulator's control endpoint accepts (\<^verbatim>\<open>cmd/payment-sandbox/server.go\<close>).\<close>

definition validFault :: "SandboxOperation \<Rightarrow> FaultKind \<Rightarrow> nat \<Rightarrow> bool" where
  "validFault operation kind delay =
     (if kind \<in> {FaultTimeoutBeforeCommit, FaultRateLimited, FaultProviderError, FaultOutage, FaultInvalidResponse,
                 FaultOversizedResponse} then delay = 0
      else if kind \<in> {FaultTimeoutAfterCommit, FaultResponseLoss, FaultDuplicateWebhook, FaultOutOfOrderWebhook}
      then operation \<noteq> OperationGetStatus \<and> delay = 0
      else if kind \<in> {FaultRefundTransient, FaultRefundPermanent} then operation = OperationRefund \<and> delay = 0
      else if kind = FaultDelayedWebhook then operation \<noteq> OperationGetStatus \<and> 0 < delay \<and> delay \<le> 10000
      else False)"

definition push_fault :: "SandboxOperation \<Rightarrow> Fault \<Rightarrow> Service \<Rightarrow> Service" where
  "push_fault operation fault s =
     (case sv_faults s of
        None \<Rightarrow> s
      | Some script \<Rightarrow>
          if validFault operation (ft_Kind fault) (ft_DelaySteps fault)
          then s\<lparr>sv_faults := Some (snd (Script_Push operation [fault] script))\<rparr> else s)"

datatype sandbox_call =
    Call_Checkout CreateCheckoutRequest
  | Call_Authorize OperationRequest string
  | Call_Capture OperationRequest
  | Call_Void OperationRequest
  | Call_Refund OperationRequest
  | Call_Hosted string
  | Call_Status string
  | Call_Advance nat
  | Call_Drain int
  | Call_Fault SandboxOperation Fault

fun sandbox_step :: "Codec \<Rightarrow> CallEnv \<times> sandbox_call \<Rightarrow> Service \<Rightarrow> Service" where
  "sandbox_step cd (cx, Call_Checkout r) s = snd (CreateCheckout cd cx r s)"
| "sandbox_step cd (cx, Call_Authorize r t) s = snd (Authorize cd cx r t s)"
| "sandbox_step cd (cx, Call_Capture r) s = snd (Capture cd cx r s)"
| "sandbox_step cd (cx, Call_Void r) s = snd (Void cd cx r s)"
| "sandbox_step cd (cx, Call_Refund r) s = snd (Refund cd cx r s)"
| "sandbox_step cd (cx, Call_Hosted h) s = snd (CompleteHostedCheckout cd cx h s)"
| "sandbox_step cd (cx, Call_Status p) s = snd (GetPaymentStatus cx p s)"
| "sandbox_step cd (cx, Call_Advance n) s = snd (Advance cx n s)"
| "sandbox_step cd (cx, Call_Drain n) s = snd (DrainWebhooksLimit n s)"
| "sandbox_step cd (cx, Call_Fault op f) s = push_fault op f s"

definition sandbox_run :: "Codec \<Rightarrow> (CallEnv \<times> sandbox_call) list \<Rightarrow> Service \<Rightarrow> Service" where
  "sandbox_run cd calls s = fold (sandbox_step cd) calls s"

end
