(* ===== verification/Sandbox_Safety.thy ===== *)
theory Sandbox_Safety
  imports Sandbox_Provider "HOL-Library.Sublist" "HOL-Library.Multiset"
begin

text \<open>
  What the sandbox provider keeps true: the lemmas behind the properties of \<open>Sandbox_Properties\<close>. The state is
  the one of \<open>mutableState\<close>; \<open>state_ok\<close> says that every payment has exactly the money its status says, every
  stored result belongs to a payment, and every queued webhook describes a payment.
\<close>

section \<open>Decimal numbers\<close>

lemma is_digit_char: "d < 10 \<Longrightarrow> is_digit (digit_char d) \<and> byte_of (digit_char d) = 48 + d"
  by (simp add: is_digit_def digit_char_def)

lemma dec_digits_props: "dec_digits n \<noteq> [] \<and> list_all is_digit (dec_digits n)"
proof (induction n rule: dec_digits.induct)
  case (1 n)
  then show ?case by (subst (1 2) dec_digits.simps) (auto simp: is_digit_char)
qed

lemma digits_value_append: "digits_value (xs @ [c]) = digits_value xs * 10 + (byte_of c - 48)"
  by (simp add: digits_value_def)

lemma digits_value_dec: "digits_value (dec_digits n) = n"
proof (induction n rule: dec_digits.induct)
  case (1 n)
  show ?case
  proof (cases "n < 10")
    case True
    then show ?thesis by (subst dec_digits.simps) (simp add: digits_value_def is_digit_char)
  next
    case False
    then show ?thesis using 1 by (subst dec_digits.simps) (simp add: digits_value_append is_digit_char)
  qed
qed

lemma digits_value_zeros: "digits_value (replicate k (CHR ''0'') @ xs) = digits_value xs"
proof (induction k)
  case (Suc k)
  have "digits_value (CHR ''0'' # ys) = digits_value ys" for ys
    by (simp add: digits_value_def byte_of_def)
  then show ?case using Suc by simp
qed simp

lemma pad12_value: "digits_value (pad12 n) = n"
  by (simp add: pad12_def digits_value_zeros digits_value_dec)

lemma pad12_inj [simp]: "pad12 m = pad12 n \<longleftrightarrow> m = n"
  using pad12_value by metis

lemma dec_digits_length: "n < 10 ^ k \<Longrightarrow> 0 < k \<Longrightarrow> length (dec_digits n) \<le> k"
proof (induction n arbitrary: k rule: dec_digits.induct)
  case (1 n)
  show ?case
  proof (cases "n < 10")
    case False
    then obtain j where j: "k = Suc j" "0 < j" using 1 by (cases k) (auto split: nat.splits, cases "k - 1", auto)
    then have "length (dec_digits (n div 10)) \<le> j" using 1 False by (intro "1.IH") (auto simp: less_mult_imp_div_less)
    then show ?thesis using False j by (subst dec_digits.simps) simp
  qed (use 1 in \<open>subst dec_digits.simps, simp\<close>)
qed

section \<open>Identifiers and currencies\<close>

lemma dec_digits_20: "n < 2 ^ 64 \<Longrightarrow> length (dec_digits n) \<le> 20"
  by (rule dec_digits_length) simp_all

lemma validIdentifier_numbered:
  assumes "n < 2 ^ 64" "validIdentifier pre" "length pre \<le> 100"
  shows "validIdentifier (pre @ pad12 n)"
proof -
  have "length (pad12 n) \<le> 32" using dec_digits_20 [OF assms(1)] by (simp add: pad12_def)
  moreover have "list_all (\<lambda>c. alnum c \<or> c \<in> {CHR ''-'', CHR ''_'', CHR '':'', CHR ''.''}) (pad12 n)"
    using dec_digits_props [of n] by (auto simp: pad12_def alnum_def is_digit_def list_all_iff byte_of_def)
  ultimately show ?thesis using assms by (auto simp: validIdentifier_def)
qed

lemma prefixes_valid:
  "validIdentifier ''pay_sandbox_''" "validIdentifier ''evt_sandbox_''" "validIdentifier ''op_sandbox_''"
  by (simp_all add: validIdentifier_def alnum_def byte_of_def)

lemma upper_letters:
  assumes "list_all (\<lambda>c. 65 \<le> byte_of c \<and> byte_of c \<le> 90) s"
  shows "ascii_string s" "map ascii_upper s = s" "trimmed s"
proof -
  show "ascii_string s" using assms by (auto simp: ascii_string_def list_all_iff)
  show "map ascii_upper s = s" using assms by (intro map_idI) (auto simp: ascii_upper_def list_all_iff)
  have "\<not> ascii_space c" if "c \<in> set s" for c
    using assms that by (auto simp: ascii_space_def list_all_iff dest: bspec)
  then show "trimmed s" using hd_in_set last_in_set by (auto simp: trimmed_def)
qed

lemma normalizeCurrency_idem [simp]: "normalizeCurrency u (normalizeCurrency u c) = normalizeCurrency u c"
proof (cases "normalizeCurrency u c = ''''")
  case False
  define d where "d = normalizeCurrency u c"
  have d: "length d = 3" "list_all (\<lambda>c. 65 \<le> byte_of c \<and> byte_of c \<le> 90) d"
    using False by (auto simp: d_def normalizeCurrency_def Let_def split: if_splits)
  from upper_letters [OF d(2)] have "ToUpper u (TrimSpace u d) = d"
    by (simp add: TrimSpace_trimmed ToUpper_def)
  then have "normalizeCurrency u d = d" using d by (simp add: normalizeCurrency_def)
  then show ?thesis by (simp add: d_def)
qed (simp add: normalizeCurrency_def ToUpper_def TrimSpace_def ascii_string_def)

section \<open>The invariant\<close>

definition money_exact :: "paymentRecord \<Rightarrow> bool" where
  "money_exact p \<longleftrightarrow>
     pr_status p \<in> {StatusCreated, StatusAuthorized, StatusCaptured, StatusVoided, StatusRefunded} \<and>
     pr_captured p = (if pr_status p \<in> {StatusCaptured, StatusRefunded} then pr_amount p else 0) \<and>
     pr_refunded p = (if pr_status p = StatusRefunded then pr_amount p else 0)"

definition payment_name :: "nat \<Rightarrow> string" where
  "payment_name n = ''pay_sandbox_'' @ pad12 n"

definition payments_ok :: "Codec \<Rightarrow> nat \<Rightarrow> (string, paymentRecord) fmap \<Rightarrow> bool" where
  "payments_ok cd n m \<longleftrightarrow>
     (\<forall>k p. fmlookup m k = Some p \<longrightarrow>
        pr_id p = k \<and> valid_payment cd p \<and> money_exact p \<and> (\<exists>i. i \<le> n \<and> k = payment_name i))"

definition result_ok :: "(string, paymentRecord) fmap \<Rightarrow> idempotentResult \<Rightarrow> bool" where
  "result_ok payments r \<longleftrightarrow> validDigest (id_fingerprint r) \<and>
     (co_ProviderPaymentID (id_checkout r) \<noteq> '''' \<and> id_operation r = zero_operation \<and>
        fmlookup payments (co_ProviderPaymentID (id_checkout r)) \<noteq> None \<or>
      re_ProviderOperationID (id_operation r) \<noteq> '''' \<and> id_checkout r = zero_checkout \<and>
        fmlookup payments (re_ProviderPaymentID (id_operation r)) \<noteq> None)"

definition idempotency_ok :: "(string, paymentRecord) fmap \<Rightarrow> (string, idempotentResult) fmap \<Rightarrow> bool" where
  "idempotency_ok payments m \<longleftrightarrow> (\<forall>k r. fmlookup m k = Some r \<longrightarrow> validDigest k \<and> result_ok payments r)"

definition webhooks_ok :: "(string, paymentRecord) fmap \<Rightarrow> nat \<Rightarrow> QueuedWebhook list \<Rightarrow> bool" where
  "webhooks_ok payments step ws \<longleftrightarrow> (\<forall>q \<in> set ws. valid_webhook payments step (durable_webhook q))"

definition state_ok :: "Codec \<Rightarrow> int \<Rightarrow> mutableState \<Rightarrow> bool" where
  "state_ok cd mx st \<longleftrightarrow>
     payments_ok cd (ms_nextPayment st) (ms_payments st) \<and>
     idempotency_ok (ms_payments st) (ms_idempotency st) \<and>
     webhooks_ok (ms_payments st) (ms_step st) (ms_webhooks st) \<and>
     int (length (ms_webhooks st)) \<le> mx"

text \<open>A bound on the counters, which never get near the end of their 64 bits.\<close>

definition counters_le :: "nat \<Rightarrow> mutableState \<Rightarrow> bool" where
  "counters_le n st \<longleftrightarrow> ms_nextPayment st \<le> n \<and> ms_nextOperation st \<le> n \<and> ms_nextEvent st \<le> n \<and> ms_step st \<le> 10000 * n"

text \<open>A payment map that only grew or moved payments on, with amounts and currencies kept.\<close>

definition payments_grow :: "(string, paymentRecord) fmap \<Rightarrow> (string, paymentRecord) fmap \<Rightarrow> bool" where
  "payments_grow m m' \<longleftrightarrow>
     (\<forall>k p. fmlookup m k = Some p \<longrightarrow>
        (\<exists>p'. fmlookup m' k = Some p' \<and> pr_amount p' = pr_amount p \<and> pr_currency p' = pr_currency p))"

lemma payments_grow_new: "fmlookup m k = None \<Longrightarrow> payments_grow m (fmupd k p m)"
  by (auto simp: payments_grow_def)

lemma payments_grow_upd:
  "fmlookup m k = Some p \<Longrightarrow> pr_amount p' = pr_amount p \<Longrightarrow> pr_currency p' = pr_currency p \<Longrightarrow>
   payments_grow m (fmupd k p' m)"
  by (auto simp: payments_grow_def)

lemma result_ok_grow: "payments_grow m m' \<Longrightarrow> result_ok m r \<Longrightarrow> result_ok m' r"
  unfolding result_ok_def payments_grow_def by (metis not_None_eq)

lemma valid_webhook_grow:
  assumes "payments_grow m m'" "step \<le> step'" "valid_webhook m step w"
  shows "valid_webhook m' step' w"
proof -
  obtain p where p: "fmlookup m (ev_ProviderPaymentID (dw_Event w)) = Some p"
    using assms(3) by (auto simp: valid_webhook_def Let_def split: option.splits)
  then obtain p' where p': "fmlookup m' (ev_ProviderPaymentID (dw_Event w)) = Some p'"
      "pr_amount p' = pr_amount p" "pr_currency p' = pr_currency p"
    using assms(1) by (auto simp: payments_grow_def)
  show ?thesis using assms(2,3) p p' by (auto simp: valid_webhook_def Let_def)
qed

lemma webhooks_ok_grow:
  "payments_grow m m' \<Longrightarrow> step \<le> step' \<Longrightarrow> webhooks_ok m step ws \<Longrightarrow> webhooks_ok m' step' ws"
  by (auto simp: webhooks_ok_def intro: valid_webhook_grow)

section \<open>Queueing a webhook\<close>

text \<open>What the service needs of the codec: digests are SHA-256 digests in hexadecimal.\<close>

definition codec_ok :: "Codec \<Rightarrow> bool" where
  "codec_ok cd \<longleftrightarrow> (\<forall>k. validDigest (cd_identity cd k)) \<and> (\<forall>r. validDigest (cd_fp_checkout cd r)) \<and>
     (\<forall>r. validDigest (cd_fp_operation cd r))"

lemma qw_simps [simp]:
  "qw_event (queued_webhook cd cx s e n d) = e" "qw_Sequence (queued_webhook cd cx s e n d) = n"
  "qw_DeliverAfter (queued_webhook cd cx s e n d) = d"
  by (auto simp: queued_webhook_def split: option.splits)

lemma inc64_small: "n < 2 ^ 64 - 1 \<Longrightarrow> inc64 n = Suc n"
  by (simp add: inc64_def)

lemma enqueue_frame [simp]:
  "ms_payments (enqueueWebhook cd cx s p t f st) = ms_payments st"
  "ms_idempotency (enqueueWebhook cd cx s p t f st) = ms_idempotency st"
  "ms_nextPayment (enqueueWebhook cd cx s p t f st) = ms_nextPayment st"
  "ms_nextOperation (enqueueWebhook cd cx s p t f st) = ms_nextOperation st"
  by (simp_all add: enqueueWebhook_def Let_def)

lemma enqueue_queue:
  assumes "ms_step st < 2 ^ 64 - 1"
  shows "int (length (ms_webhooks st)) \<le> sv_maxWebhooks s \<Longrightarrow>
      int (length (ms_webhooks (enqueueWebhook cd cx s p t f st))) \<le> sv_maxWebhooks s"
    and "ms_step (enqueueWebhook cd cx s p t f st) \<in> {ms_step st, Suc (ms_step st)}"
    and "ms_nextEvent st < 2 ^ 64 - 1 \<Longrightarrow>
      ms_nextEvent (enqueueWebhook cd cx s p t f st) \<in> {ms_nextEvent st, Suc (ms_nextEvent st)}"
    and "set (ms_webhooks (enqueueWebhook cd cx s p t f st)) \<subseteq> insert
      (queued_webhook cd cx s (webhook_event p t (inc64 (ms_nextEvent st))) (ms_step (enqueueWebhook cd cx s p t f st))
        (if ft_Kind f = FaultDelayedWebhook then (ms_step (enqueueWebhook cd cx s p t f st) + max (ft_DelaySteps f) 1) mod 2 ^ 64 else 0))
      (set (ms_webhooks st))"
    and "set (ms_webhooks (enqueueWebhook cd cx s p t f st)) \<subseteq> set (ms_webhooks st) \<or>
      ms_step (enqueueWebhook cd cx s p t f st) = Suc (ms_step st)"
  using assms by (auto simp: enqueueWebhook_def Let_def inc64_small)

lemma new_webhook_ok:
  assumes "fmlookup payments (pr_id p) = Some p" "valid_payment cd p" "knownEventType t"
    and "0 < step" "d \<le> step + 10000" "n < 2 ^ 64"
  shows "valid_webhook payments step (durable_webhook (queued_webhook cd cx s (webhook_event p t n) step d))"
  using assms validIdentifier_numbered [OF assms(6) prefixes_valid(2)]
  by (auto simp: valid_webhook_def durable_webhook_def webhook_event_def Let_def valid_payment_def)

lemma inc64_lt: "inc64 n < 2 ^ 64"
  by (simp add: inc64_def)

lemma enqueue_ok:
  assumes "webhooks_ok (ms_payments st) (ms_step st) (ms_webhooks st)" "fmlookup (ms_payments st) (pr_id p) = Some p"
    and "valid_payment cd p" "knownEventType t" "ft_DelaySteps f \<le> 10000" "ms_step st < 2 ^ 64 - 20000"
  shows "webhooks_ok (ms_payments st) (ms_step (enqueueWebhook cd cx s p t f st)) (ms_webhooks (enqueueWebhook cd cx s p t f st))"
proof -
  let ?st = "enqueueWebhook cd cx s p t f st"
  let ?d = "if ft_Kind f = FaultDelayedWebhook then (ms_step ?st + max (ft_DelaySteps f) 1) mod 2 ^ 64 else 0"
  have small: "ms_step st < 2 ^ 64 - 1" using assms(6) by simp
  note q = enqueue_queue [OF small, where cd = cd and cx = cx and s = s and p = p and t = t and f = f]
  have old: "webhooks_ok (ms_payments st) (ms_step ?st) (ms_webhooks st)"
    using webhooks_ok_grow [OF _ _ assms(1), of "ms_payments st" "ms_step ?st"] q(2) by (auto simp: payments_grow_def)
  show ?thesis
  proof (cases "set (ms_webhooks ?st) \<subseteq> set (ms_webhooks st)")
    case True
    then show ?thesis using old by (auto simp: webhooks_ok_def)
  next
    case False
    then have "ms_step ?st = Suc (ms_step st)" using q(5) by blast
    then have "?d \<le> ms_step ?st + 10000" "0 < ms_step ?st" using assms(5,6) by auto
    from new_webhook_ok [OF assms(2-4) this(2,1) inc64_lt] show ?thesis
      using old q(4) by (auto simp: webhooks_ok_def)
  qed
qed

section \<open>Committed changes\<close>

definition script_ok :: "Script option \<Rightarrow> bool" where
  "script_ok script \<longleftrightarrow> (\<forall>sc. script = Some sc \<longrightarrow> (\<forall>op. \<forall>f \<in> set (sc op). ft_DelaySteps f \<le> 10000))"

definition results_kept :: "mutableState \<Rightarrow> mutableState \<Rightarrow> bool" where
  "results_kept st st' \<longleftrightarrow>
     (\<forall>k r. fmlookup (ms_idempotency st) k = Some r \<longrightarrow> fmlookup (ms_idempotency st') k = Some r)"

definition advances :: "Codec \<Rightarrow> int \<Rightarrow> nat \<Rightarrow> mutableState \<Rightarrow> mutableState \<Rightarrow> bool" where
  "advances cd mx n st st' \<longleftrightarrow> state_ok cd mx st' \<and> counters_le (Suc n) st' \<and> results_kept st st'"

text \<open>The snapshot in the store is the one of the current state, except that drained webhooks are still in it.\<close>

definition store_ok :: "Codec \<Rightarrow> int \<Rightarrow> durableState option \<Rightarrow> mutableState \<Rightarrow> bool" where
  "store_ok cd mx store st \<longleftrightarrow>
     (case store of
        None \<Rightarrow> st = empty_state
      | Some d \<Rightarrow> \<exists>ws. subseq (ms_webhooks st) ws \<and> state_ok cd mx (st\<lparr>ms_webhooks := ws\<rparr>) \<and>
                       d = durableStateLocked (st\<lparr>ms_webhooks := ws\<rparr>))"

definition service_ok :: "Codec \<Rightarrow> nat \<Rightarrow> Service \<Rightarrow> bool" where
  "service_ok cd n s \<longleftrightarrow> state_ok cd (sv_maxWebhooks s) (sv_state s) \<and> counters_le n (sv_state s) \<and>
     script_ok (sv_faults s) \<and> store_ok cd (sv_maxWebhooks s) (sv_stateStore s) (sv_state s)"

lemma counters_le_mono: "counters_le n st \<Longrightarrow> n \<le> m \<Longrightarrow> counters_le m st"
  by (auto simp: counters_le_def)

lemma service_ok_mono: "service_ok cd n s \<Longrightarrow> n \<le> m \<Longrightarrow> service_ok cd m s"
  by (auto simp: service_ok_def intro: counters_le_mono)

text \<open>What one call does to a service in good order: it stays in good order and forgets no result.\<close>

definition call_ok :: "Codec \<Rightarrow> nat \<Rightarrow> Service \<Rightarrow> Service \<Rightarrow> bool" where
  "call_ok cd n s s' \<longleftrightarrow> service_ok cd (Suc n) s' \<and> results_kept (sv_state s) (sv_state s') \<and>
     sv_maxWebhooks s' = sv_maxWebhooks s \<and> sv_maxWebhookBody s' = sv_maxWebhookBody s"

lemma call_ok_same: "service_ok cd n s \<Longrightarrow> call_ok cd n s s"
  by (auto simp: call_ok_def results_kept_def intro: service_ok_mono)

lemma nextFault_props:
  assumes "service_ok cd n s" "nextFault op s = (f, s1)"
  shows "ft_DelaySteps f \<le> 10000" "service_ok cd n s1" "sv_state s1 = sv_state s"
    "sv_maxWebhooks s1 = sv_maxWebhooks s" "sv_maxWebhookBody s1 = sv_maxWebhookBody s" "sv_stateFailed s1 = sv_stateFailed s"
proof -
  have "ft_DelaySteps f \<le> 10000 \<and> script_ok (sv_faults s1) \<and> s1 = s\<lparr>sv_faults := sv_faults s1\<rparr>"
  proof (cases "sv_faults s")
    case None
    then show ?thesis using assms by (auto simp: nextFault_def no_fault_def script_ok_def)
  next
    case (Some sc)
    then have sc: "\<And>x f. f \<in> set (sc x) \<Longrightarrow> ft_DelaySteps f \<le> 10000"
      using assms(1) by (auto simp: service_ok_def script_ok_def)
    show ?thesis
    proof (cases "sc op")
      case Nil
      then show ?thesis using assms(2) Some sc by (auto simp: nextFault_def Script_Next_def no_fault_def script_ok_def)
    next
      case (Cons g gs)
      have "ft_DelaySteps g \<le> 10000" "\<And>h. h \<in> set gs \<Longrightarrow> ft_DelaySteps h \<le> 10000"
        using sc [of _ op] Cons by auto
      then show ?thesis using assms(2) Some sc Cons by (auto simp: nextFault_def Script_Next_def script_ok_def split: if_splits)
    qed
  qed
  then have props: "ft_DelaySteps f \<le> 10000" "script_ok (sv_faults s1)" and s1: "s1 = s\<lparr>sv_faults := sv_faults s1\<rparr>" by auto
  have eqs: "sv_state s1 = sv_state s" "sv_maxWebhooks s1 = sv_maxWebhooks s" "sv_maxWebhookBody s1 = sv_maxWebhookBody s"
    "sv_stateFailed s1 = sv_stateFailed s" "sv_stateStore s1 = sv_stateStore s"
    by (subst s1, simp)+
  show "service_ok cd n s1" using assms(1) props eqs by (simp add: service_ok_def)
  show "ft_DelaySteps f \<le> 10000" by (fact props)
qed (use assms in \<open>auto simp: nextFault_def split: option.splits prod.splits\<close>)

lemma call_ok_fault:
  assumes "service_ok cd n s" "nextFault op s = (f, s1)" "call_ok cd n s1 s'"
  shows "call_ok cd n s s'"
  using assms(3) nextFault_props [OF assms(1,2)] by (simp add: call_ok_def)

lemma finish_ok:
  assumes "service_ok cd n s" "advances cd (sv_maxWebhooks s) n (sv_state s) st"
  shows "call_ok cd n s (snd (finish cx op f (sv_state s) res (s\<lparr>sv_state := st\<rparr>)))"
proof (cases "cx_save_fails cx")
  case True
  then have "snd (finish cx op f (sv_state s) res (s\<lparr>sv_state := st\<rparr>)) = s\<lparr>sv_stateFailed := True\<rparr>"
    by (simp add: finish_def persistLocked_def)
  then show ?thesis
    using service_ok_mono [OF assms(1), of "Suc n"] by (simp add: call_ok_def service_ok_def results_kept_def)
next
  case False
  then have "snd (finish cx op f (sv_state s) res (s\<lparr>sv_state := st\<rparr>)) =
      s\<lparr>sv_state := st, sv_stateStore := Some (durableStateLocked st)\<rparr>"
    by (simp add: finish_def persistLocked_def split: option.splits)
  moreover have "\<exists>ws. subseq (ms_webhooks st) ws \<and> state_ok cd (sv_maxWebhooks s) (st\<lparr>ms_webhooks := ws\<rparr>) \<and>
      durableStateLocked st = durableStateLocked (st\<lparr>ms_webhooks := ws\<rparr>)"
    by (rule exI [of _ "ms_webhooks st"]) (use assms(2) in \<open>simp add: advances_def\<close>)
  ultimately show ?thesis
    using assms by (simp add: call_ok_def service_ok_def advances_def store_ok_def)
qed

lemma results_kept_new:
  "fmlookup (ms_idempotency st) k = None \<Longrightarrow> ms_idempotency st' = fmupd k r (ms_idempotency st) \<Longrightarrow> results_kept st st'"
  by (auto simp: results_kept_def)

lemma idempotency_ok_new:
  assumes "idempotency_ok m i" "payments_grow m m'" "validDigest k" "result_ok m' r"
  shows "idempotency_ok m' (fmupd k r i)"
  using assms result_ok_grow [OF assms(2)] by (auto simp: idempotency_ok_def)

text \<open>The counters after a change, with room left.\<close>

definition room :: "nat \<Rightarrow> bool" where
  "room n \<longleftrightarrow> 10000 * n + 30000 < 2 ^ 64"

lemma room_counters:
  assumes "room n" "counters_le n st"
  shows "ms_step st < 2 ^ 64 - 20000" "ms_nextEvent st < 2 ^ 64 - 1" "ms_nextPayment st < 2 ^ 64 - 1"
    "ms_nextOperation st < 2 ^ 64 - 1" "ms_step st < 2 ^ 64 - 1"
  using assms by (auto simp: room_def counters_le_def)

lemma enqueue_advances:
  assumes pay: "payments_ok cd (ms_nextPayment st') (ms_payments st')"
    and idem: "idempotency_ok (ms_payments st') (ms_idempotency st')"
    and grow: "payments_grow (ms_payments st) (ms_payments st')"
    and kept: "results_kept st st'"
    and ok: "state_ok cd (sv_maxWebhooks s) st" "counters_le n st" "room n"
    and same: "ms_webhooks st' = ms_webhooks st" "ms_step st' = ms_step st" "ms_nextEvent st' = ms_nextEvent st"
    and cnt: "ms_nextPayment st' \<le> Suc n" "ms_nextOperation st' \<le> Suc n"
    and p: "fmlookup (ms_payments st') (pr_id p) = Some p" "knownEventType t" "ft_DelaySteps f \<le> 10000"
  shows "advances cd (sv_maxWebhooks s) n st (enqueueWebhook cd cx s p t f st')"
proof -
  let ?e = "enqueueWebhook cd cx s p t f st'"
  note rm = room_counters [OF ok(3,2)]
  have q: "int (length (ms_webhooks ?e)) \<le> sv_maxWebhooks s"
    "ms_step ?e \<in> {ms_step st, Suc (ms_step st)}" "ms_nextEvent ?e \<in> {ms_nextEvent st, Suc (ms_nextEvent st)}"
    using enqueue_queue [where st = st' and cd = cd and cx = cx and s = s and p = p and t = t and f = f] rm ok(1) same by (auto simp: state_ok_def)
  have "webhooks_ok (ms_payments st') (ms_step ?e) (ms_webhooks ?e)"
  proof (rule enqueue_ok)
    show "webhooks_ok (ms_payments st') (ms_step st') (ms_webhooks st')"
      using webhooks_ok_grow [OF grow order_refl, of "ms_step st"] ok(1) same by (simp add: state_ok_def)
    show "valid_payment cd p" using pay p by (simp add: payments_ok_def)
  qed (use p rm same in simp_all)
  then show ?thesis
    using pay idem q cnt ok(2) kept by (auto simp: advances_def state_ok_def counters_le_def results_kept_def)
qed

lemma payment_name_inj [simp]: "payment_name i = payment_name j \<longleftrightarrow> i = j"
  by (simp add: payment_name_def)

lemma payment_name_fresh:
  assumes "payments_ok cd n m" "n < i"
  shows "fmlookup m (payment_name i) = None"
proof (rule ccontr)
  assume "fmlookup m (payment_name i) \<noteq> None"
  then have "\<exists>j \<le> n. payment_name i = payment_name j" using assms(1) unfolding payments_ok_def by blast
  then show False using assms(2) by auto
qed

lemma payments_ok_mono: "payments_ok cd n m \<Longrightarrow> n \<le> k \<Longrightarrow> payments_ok cd k m"
  unfolding payments_ok_def by (meson order_trans)

lemma payments_ok_upd:
  "payments_ok cd n m \<Longrightarrow> i \<le> n \<Longrightarrow> pr_id p = payment_name i \<Longrightarrow> valid_payment cd p \<Longrightarrow> money_exact p \<Longrightarrow>
   payments_ok cd n (fmupd (payment_name i) p m)"
  unfolding payments_ok_def by auto

lemma validateCommon_None:
  "validateCommon cd r = None \<Longrightarrow> validIdentifier (cc_PaymentIntentID r) \<and> 0 < cc_AmountMinor r \<and>
     normalizeCurrency (cd_unicode cd) (cc_Currency r) \<noteq> ''''"
  by (auto simp: validateCommon_def split: if_splits)

lemma commit_checkout_ok:
  assumes ok: "service_ok cd n s" and room: "room n" and codec: "codec_ok cd" and now: "cx_now cx \<noteq> 0"
    and valid: "validateCommon cd r = None" and delay: "ft_DelaySteps f \<le> 10000"
    and new: "fmlookup (ms_idempotency (sv_state s)) (cd_identity cd (cc_IdempotencyKey r)) = None"
  shows "call_ok cd n s (snd (commit_checkout cd cx r f s))"
proof -
  let ?st = "sv_state s" and ?i = "inc64 (ms_nextPayment (sv_state s))"
  let ?co = "new_checkout cd r ?i"
  let ?p = "new_payment cx r ?co"
  define st' where "st' = ?st\<lparr>ms_nextPayment := ?i, ms_payments := fmupd (pr_id ?p) ?p (ms_payments ?st),
     ms_idempotency := fmupd (cd_identity cd (cc_IdempotencyKey r))
       \<lparr>id_fingerprint = cd_fp_checkout cd r, id_checkout = ?co, id_operation = zero_operation\<rparr> (ms_idempotency ?st)\<rparr>"
  have st: "state_ok cd (sv_maxWebhooks s) ?st" "counters_le n ?st" using ok by (simp_all add: service_ok_def)
  have i: "?i = Suc (ms_nextPayment ?st)" "?i < 2 ^ 64" "?i \<le> Suc n"
    using room_counters [OF room st(2)] st(2) by (auto simp: inc64_small counters_le_def)
  have fresh: "fmlookup (ms_payments ?st) (payment_name ?i) = None"
    using st(1) by (intro payment_name_fresh) (auto simp: state_ok_def i(1))
  have pid: "pr_id ?p = payment_name ?i" "co_ProviderPaymentID ?co = payment_name ?i"
    by (simp_all add: new_payment_def new_checkout_def payment_name_def Let_def)
  have p: "valid_payment cd ?p" "money_exact ?p"
    using validateCommon_None [OF valid] validIdentifier_numbered [OF i(2) prefixes_valid(1)] now
    by (auto simp: valid_payment_def money_exact_def new_payment_def new_checkout_def Let_def HasPrefix_def)
  have grow: "payments_grow (ms_payments ?st) (ms_payments st')"
    by (simp add: st'_def pid payments_grow_new fresh)
  have "advances cd (sv_maxWebhooks s) n ?st (enqueueWebhook cd cx s ?p EventCheckoutCreated f st')"
  proof (rule enqueue_advances)
    show "payments_ok cd (ms_nextPayment st') (ms_payments st')"
      using payments_ok_upd [OF payments_ok_mono, of cd "ms_nextPayment ?st" "ms_payments ?st" ?i ?i ?p] st(1) p pid i(1)
      by (simp add: st'_def state_ok_def)
    show "idempotency_ok (ms_payments st') (ms_idempotency st')"
      using st(1) grow codec pid by (auto simp: st'_def state_ok_def codec_ok_def result_ok_def payment_name_def intro!: idempotency_ok_new)
    show "results_kept ?st st'" by (rule results_kept_new [OF new]) (simp add: st'_def)
    show "ms_nextPayment st' \<le> Suc n" "ms_nextOperation st' \<le> Suc n"
      using i st(2) by (simp_all add: st'_def counters_le_def)
  qed (use st room grow delay in \<open>simp_all add: st'_def\<close>)
  from finish_ok [OF ok this, of cx OperationCreateCheckout f ?co] show ?thesis
    by (simp add: commit_checkout_def Let_def st'_def)
qed

lemma commit_transition_ok:
  assumes ok: "service_ok cd n s" and room: "room n" and codec: "codec_ok cd" and now: "cx_now cx \<noteq> 0"
    and delay: "ft_DelaySteps f \<le> 10000"
    and new: "fmlookup (ms_idempotency (sv_state s)) (cd_identity cd (or_IdempotencyKey r)) = None"
    and p: "fmlookup (ms_payments (sv_state s)) (or_ProviderPaymentID r) = Some p"
    and amount: "op \<noteq> OperationVoid \<Longrightarrow> pr_amount p = or_AmountMinor r"
    and v: "validateTransition p op = Inr (t, e)" and fp: "validDigest fp"
  shows "call_ok cd n s (snd (commit_transition cd cx op r fp f p t e s))"
proof -
  let ?st = "sv_state s" and ?i = "inc64 (ms_nextOperation (sv_state s))"
  define res where "res = \<lparr>re_ProviderPaymentID = pr_id p, re_ProviderOperationID = ''op_sandbox_'' @ pad12 ?i,
     re_Status = t, re_AmountMinor = (if op = OperationVoid then pr_amount p else or_AmountMinor r), re_Currency = pr_currency p\<rparr>"
  define p' where "p' = p\<lparr>pr_status := t, pr_updatedAt := cx_now cx,
     pr_captured := (if op = OperationCapture then or_AmountMinor r else pr_captured p),
     pr_refunded := (if op = OperationRefund then or_AmountMinor r else pr_refunded p)\<rparr>"
  define st' where "st' = ?st\<lparr>ms_nextOperation := ?i, ms_payments := fmupd (or_ProviderPaymentID r) p' (ms_payments ?st),
     ms_idempotency := fmupd (cd_identity cd (or_IdempotencyKey r))
       \<lparr>id_fingerprint = fp, id_checkout = zero_checkout, id_operation = res\<rparr> (ms_idempotency ?st)\<rparr>"
  have st: "state_ok cd (sv_maxWebhooks s) ?st" "counters_le n ?st" using ok by (simp_all add: service_ok_def)
  then have po: "pr_id p = or_ProviderPaymentID r" "valid_payment cd p" "money_exact p"
      "\<exists>i. i \<le> ms_nextPayment ?st \<and> or_ProviderPaymentID r = payment_name i"
    using p by (auto simp: state_ok_def payments_ok_def)
  have p'id: "pr_id p' = or_ProviderPaymentID r" "pr_amount p' = pr_amount p" "pr_currency p' = pr_currency p"
    by (simp_all add: p'_def po)
  have p': "valid_payment cd p'" "money_exact p'"
    using po v amount now by (cases op; auto simp: valid_payment_def money_exact_def p'_def validateTransition_def split: if_splits)+
  have grow: "payments_grow (ms_payments ?st) (ms_payments st')"
    using payments_grow_upd [OF p] p'id by (simp add: st'_def)
  have known: "knownEventType e" using v by (cases op) (auto simp: validateTransition_def split: if_splits)
  have "advances cd (sv_maxWebhooks s) n ?st (enqueueWebhook cd cx s p' e f st')"
  proof (rule enqueue_advances)
    show "payments_ok cd (ms_nextPayment st') (ms_payments st')"
      using st(1) p' p'id po(4) by (auto simp: st'_def payments_ok_def state_ok_def)
    show "idempotency_ok (ms_payments st') (ms_idempotency st')"
      using st(1) grow codec fp po by (auto simp: st'_def state_ok_def codec_ok_def result_ok_def res_def intro!: idempotency_ok_new)
    show "results_kept ?st st'" by (rule results_kept_new [OF new]) (simp add: st'_def)
    show "ms_nextPayment st' \<le> Suc n" "ms_nextOperation st' \<le> Suc n"
      using room_counters [OF room st(2)] st(2) by (auto simp: st'_def counters_le_def inc64_small)
  qed (use st room grow delay known p'id in \<open>simp_all add: st'_def\<close>)
  from finish_ok [OF ok this, of cx op f res] show ?thesis
    by (simp add: commit_transition_def Let_def st'_def p'_def res_def)
qed

section \<open>Every call\<close>

lemma CreateCheckout_ok:
  assumes ok: "service_ok cd n s" and room: "room n" and codec: "codec_ok cd" and now: "cx_now cx \<noteq> 0"
  shows "call_ok cd n s (snd (CreateCheckout cd cx r s))"
proof -
  note same = call_ok_same [OF ok]
  obtain f s1 where f: "nextFault OperationCreateCheckout s = (f, s1)" by fastforce
  note props = nextFault_props [OF ok f]
  have "call_ok cd n s (snd (commit_checkout cd cx r f s1))"
    if "validateCommon cd r = None" "fmlookup (ms_idempotency (sv_state s)) (cd_identity cd (cc_IdempotencyKey r)) = None"
    by (rule call_ok_fault [OF ok f commit_checkout_ok]) (use that props room codec now in simp_all)
  moreover have "call_ok cd n s s1" by (rule call_ok_fault [OF ok f call_ok_same]) (rule props)
  ultimately show ?thesis using same f by (auto simp: CreateCheckout_def split: option.splits)
qed

lemma transition_ok:
  assumes ok: "service_ok cd n s" and room: "room n" and codec: "codec_ok cd" and now: "cx_now cx \<noteq> 0"
  shows "call_ok cd n s (snd (transition cd cx op r token s))"
proof -
  note same = call_ok_same [OF ok]
  obtain f s1 where f: "nextFault op s = (f, s1)" by fastforce
  note props = nextFault_props [OF ok f]
  have fp: "validDigest (operation_fingerprint cd op r token)"
    using codec by (simp add: operation_fingerprint_def codec_ok_def)
  have "call_ok cd n s (snd (commit_transition cd cx op r (operation_fingerprint cd op r token) f p t e s1))"
    if "fmlookup (ms_idempotency (sv_state s)) (cd_identity cd (or_IdempotencyKey r)) = None"
      "fmlookup (ms_payments (sv_state s)) (or_ProviderPaymentID r) = Some p"
      "op \<noteq> OperationVoid \<Longrightarrow> pr_amount p = or_AmountMinor r" "validateTransition p op = Inr (t, e)" for p t e
    by (rule call_ok_fault [OF ok f commit_transition_ok]) (use that props room codec now fp in simp_all)
  moreover have "call_ok cd n s s1" by (rule call_ok_fault [OF ok f call_ok_same]) (rule props)
  ultimately show ?thesis using same f props(3)
    by (auto simp: transition_def split: option.splits sum.splits)
qed

lemma GetPaymentStatus_ok:
  assumes ok: "service_ok cd n s"
  shows "call_ok cd n s (snd (GetPaymentStatus cx p s))"
proof -
  obtain f s1 where f: "nextFault OperationGetStatus s = (f, s1)" by fastforce
  have "call_ok cd n s s1" by (rule call_ok_fault [OF ok f call_ok_same]) (rule nextFault_props [OF ok f])
  then show ?thesis using call_ok_same [OF ok] f by (auto simp: GetPaymentStatus_def split: option.splits)
qed

lemma Advance_ok:
  assumes ok: "service_ok cd n s"
  shows "call_ok cd n s (snd (Advance cx k s))"
proof -
  let ?st = "(sv_state s)\<lparr>ms_step := ms_step (sv_state s) + k\<rparr>"
  have st: "state_ok cd (sv_maxWebhooks s) (sv_state s)" "counters_le n (sv_state s)" using ok by (simp_all add: service_ok_def)
  have "webhooks_ok (ms_payments (sv_state s)) (ms_step (sv_state s) + k) (ms_webhooks (sv_state s))"
    using st(1) webhooks_ok_grow [of "ms_payments (sv_state s)" "ms_payments (sv_state s)" "ms_step (sv_state s)"]
    by (simp add: state_ok_def payments_grow_def)
  then have "state_ok cd (sv_maxWebhooks s) ?st" using st(1) by (simp add: state_ok_def)
  moreover have "counters_le (Suc n) ?st" if "k \<le> 10000" using st(2) that by (simp add: counters_le_def)
  ultimately have "call_ok cd n s (s\<lparr>sv_state := ?st, sv_stateStore := Some (durableStateLocked ?st)\<rparr>)" if "k \<le> 10000"
    using ok that by (auto simp: call_ok_def service_ok_def results_kept_def store_ok_def intro!: exI [of _ "ms_webhooks (sv_state s)"])
  moreover have "call_ok cd n s (s\<lparr>sv_stateFailed := True\<rparr>)"
    using call_ok_same [OF ok] by (simp add: call_ok_def service_ok_def)
  ultimately show ?thesis using call_ok_same [OF ok] by (auto simp: Advance_def persistLocked_def Let_def)
qed

lemma drain_pending: "subseq (snd (drain step limit ready ws)) ws"
  by (induction step limit ready ws rule: drain.induct) (auto split: prod.splits)

lemma state_ok_subseq:
  "state_ok cd mx st \<Longrightarrow> subseq ws (ms_webhooks st) \<Longrightarrow> state_ok cd mx (st\<lparr>ms_webhooks := ws\<rparr>)"
  using list_emb_length [of "(=)" ws "ms_webhooks st"]
  by (force simp: state_ok_def webhooks_ok_def dest: list_emb_set)

lemma Drain_ok:
  assumes ok: "service_ok cd n s"
  shows "call_ok cd n s (snd (DrainWebhooksLimit k s))"
proof -
  let ?st = "sv_state s"
  define ws where "ws = snd (drain (ms_step ?st) k [] (ms_webhooks ?st))"
  have sub: "subseq ws (ms_webhooks ?st)" unfolding ws_def by (rule drain_pending)
  have s': "snd (DrainWebhooksLimit k s) = s\<lparr>sv_state := ?st\<lparr>ms_webhooks := ws\<rparr>\<rparr>"
    by (simp add: DrainWebhooksLimit_def ws_def split: prod.splits)
  have "store_ok cd (sv_maxWebhooks s) (sv_stateStore s) (?st\<lparr>ms_webhooks := ws\<rparr>)"
  proof (cases "sv_stateStore s")
    case None
    then have "?st = empty_state" using ok by (simp add: service_ok_def store_ok_def)
    moreover then have "ws = []" using sub by (simp add: empty_state_def)
    ultimately show ?thesis using None by (simp add: store_ok_def empty_state_def)
  next
    case (Some d)
    then show ?thesis using ok sub subseq_order.order_trans by (fastforce simp: service_ok_def store_ok_def)
  qed
  then show ?thesis
    using ok state_ok_subseq [OF _ sub] by (simp add: s' call_ok_def service_ok_def counters_le_def results_kept_def)
qed

lemma push_fault_ok:
  assumes ok: "service_ok cd n s"
  shows "call_ok cd n s (push_fault op f s)"
proof -
  have "ft_DelaySteps f \<le> 10000" if "validFault op (ft_Kind f) (ft_DelaySteps f)"
    using that by (auto simp: validFault_def split: if_splits)
  then show ?thesis using call_ok_same [OF ok]
    by (auto simp: push_fault_def Script_Push_def call_ok_def service_ok_def script_ok_def split: option.splits)
qed

lemma sandbox_step_ok:
  assumes "service_ok cd n s" "room n" "codec_ok cd" "cx_now cx \<noteq> 0"
  shows "call_ok cd n s (sandbox_step cd (cx, c) s)"
proof -
  note t = transition_ok [OF assms] and same = call_ok_same [OF assms(1)]
  have a: "call_ok cd n s (snd (Authorize cd cx r tok s))" for r tok
    using t same by (simp add: Authorize_def)
  show ?thesis
  proof (cases c)
    case (Call_Hosted h)
    then show ?thesis using a same by (auto simp: CompleteHostedCheckout_def Let_def split: option.splits)
  qed (use assms t a in \<open>simp_all add: CreateCheckout_ok Capture_def Void_def Refund_def GetPaymentStatus_ok
        Advance_ok Drain_ok push_fault_ok\<close>)
qed

lemma results_kept_trans: "results_kept a b \<Longrightarrow> results_kept b c \<Longrightarrow> results_kept a c"
  by (simp add: results_kept_def)

lemma sandbox_run_ok:
  assumes "service_ok cd n s" "codec_ok cd" "room (n + length calls)" "\<forall>(cx, c) \<in> set calls. cx_now cx \<noteq> 0"
  shows "service_ok cd (n + length calls) (sandbox_run cd calls s) \<and>
    results_kept (sv_state s) (sv_state (sandbox_run cd calls s)) \<and>
    sv_maxWebhooks (sandbox_run cd calls s) = sv_maxWebhooks s \<and> sv_maxWebhookBody (sandbox_run cd calls s) = sv_maxWebhookBody s"
  using assms
proof (induction calls arbitrary: n s)
  case (Cons call calls)
  obtain cx c where call: "call = (cx, c)" by fastforce
  have "room n" "cx_now cx \<noteq> 0" using Cons.prems(3,4) by (auto simp: room_def call)
  from sandbox_step_ok [OF Cons.prems(1) this(1) Cons.prems(2) this(2), of c]
  have step: "service_ok cd (Suc n) (sandbox_step cd call s)" "results_kept (sv_state s) (sv_state (sandbox_step cd call s))"
    "sv_maxWebhooks (sandbox_step cd call s) = sv_maxWebhooks s" "sv_maxWebhookBody (sandbox_step cd call s) = sv_maxWebhookBody s"
    by (simp_all add: call_ok_def call)
  from Cons.IH [OF step(1) Cons.prems(2)] Cons.prems(3,4) step show ?case
    by (auto simp: sandbox_run_def intro: results_kept_trans)
qed (simp add: sandbox_run_def results_kept_def)

text \<open>A service just built, without a stored snapshot.\<close>

lemma empty_state_ok: "0 \<le> mx \<Longrightarrow> state_ok cd mx empty_state"
  by (simp add: state_ok_def empty_state_def payments_ok_def idempotency_ok_def webhooks_ok_def)

lemma config_error_None:
  assumes "config_error cd config = None"
  shows "1024 \<le> sv_maxWebhookBody (service_of config)" "1 \<le> sv_maxWebhooks (service_of config)"
    "sv_maxWebhooks (service_of config) \<le> 100000"
  using assms by (simp_all add: config_error_def Let_def split: if_split_asm)

lemma New_sandbox_fresh:
  assumes "New_sandbox cd cx config = Inr s" "cf_StateStore config = None" "script_ok (cf_Faults config)"
  shows "service_ok cd 0 s" "config_error cd config = None" "s = service_of config"
proof -
  show e: "config_error cd config = None" and s: "s = service_of config"
    using assms by (auto simp: New_sandbox_def loadDurableState_def service_of_def split: option.splits)
  show "service_ok cd 0 s"
    using config_error_None [OF e] assms(2,3) empty_state_ok [of "sv_maxWebhooks s" cd]
    by (auto simp: s service_ok_def store_ok_def counters_le_def service_of_def empty_state_def)
qed

section \<open>Restart\<close>

lemma fmupd_map_add: "k \<notin> dom M \<Longrightarrow> fmlookup (fmupd k v m) ++ M = fmlookup m ++ M(k \<mapsto> v)"
  by (auto simp: fun_eq_iff map_add_def split: option.splits)

lemma fmempty_map_add: "fmlookup m = fmlookup fmempty ++ fmlookup m' \<Longrightarrow> m = m'"
  by (rule fmap_ext) (simp add: map_add_def split: option.splits)

lemma load_payments_lookup:
  assumes "\<forall>p \<in> set ps. valid_payment cd p" "distinct (map pr_id ps)" "\<forall>p \<in> set ps. fmlookup m0 (pr_id p) = None"
  shows "\<exists>m. load_payments cd ps m0 = Some m \<and> fmlookup m = fmlookup m0 ++ map_of (map (\<lambda>p. (pr_id p, p)) ps)"
  using assms
proof (induction ps arbitrary: m0)
  case (Cons p ps)
  have fresh: "\<forall>q \<in> set ps. fmlookup (fmupd (pr_id p) p m0) (pr_id q) = None" using Cons.prems by auto
  have "pr_id p \<notin> dom (map_of (map (\<lambda>p. (pr_id p, p)) ps))"
    using Cons.prems(2) by (auto simp: dom_map_of_conv_image_fst)
  note add = fmupd_map_add [OF this, of p m0]
  have "\<exists>m. load_payments cd ps (fmupd (pr_id p) p m0) = Some m \<and>
      fmlookup m = fmlookup (fmupd (pr_id p) p m0) ++ map_of (map (\<lambda>p. (pr_id p, p)) ps)"
    by (rule Cons.IH) (use Cons.prems fresh in auto)
  moreover have "map_of (map (\<lambda>p. (pr_id p, p)) (p # ps)) = (map_of (map (\<lambda>p. (pr_id p, p)) ps))(pr_id p \<mapsto> p)"
    by (simp add: fun_upd_def)
  moreover have "load_payments cd (p # ps) m0 = load_payments cd ps (fmupd (pr_id p) p m0)" using Cons.prems by simp
  ultimately show ?case by (simp only: add)
qed simp

lemma load_idempotency_lookup:
  assumes "\<forall>i \<in> set is. validDigest (du_KeyHash i) \<and> validDigest (du_Fingerprint i) \<and> (du_Checkout i = None) \<noteq> (du_Operation i = None) \<and>
      fmlookup payments (result_payment i) \<noteq> None"
    and "distinct (map du_KeyHash is)" "\<forall>i \<in> set is. fmlookup m0 (du_KeyHash i) = None"
  shows "\<exists>m. load_idempotency payments is m0 = Some m \<and>
    fmlookup m = fmlookup m0 ++ map_of (map (\<lambda>i. (du_KeyHash i, load_result i)) is)"
  using assms
proof (induction "is" arbitrary: m0)
  case (Cons i "is")
  have fresh: "\<forall>q \<in> set is. fmlookup (fmupd (du_KeyHash i) (load_result i) m0) (du_KeyHash q) = None" using Cons.prems by auto
  have "du_KeyHash i \<notin> dom (map_of (map (\<lambda>i. (du_KeyHash i, load_result i)) is))"
    using Cons.prems(2) by (auto simp: dom_map_of_conv_image_fst)
  note add = fmupd_map_add [OF this, of "load_result i" m0]
  have "\<exists>m. load_idempotency payments is (fmupd (du_KeyHash i) (load_result i) m0) = Some m \<and>
      fmlookup m = fmlookup (fmupd (du_KeyHash i) (load_result i) m0) ++ map_of (map (\<lambda>i. (du_KeyHash i, load_result i)) is)"
    by (rule Cons.IH) (use Cons.prems fresh in auto)
  moreover have "map_of (map (\<lambda>i. (du_KeyHash i, load_result i)) (i # is)) =
      (map_of (map (\<lambda>i. (du_KeyHash i, load_result i)) is))(du_KeyHash i \<mapsto> load_result i)"
    by (simp add: fun_upd_def)
  moreover have "load_idempotency payments (i # is) m0 = load_idempotency payments is (fmupd (du_KeyHash i) (load_result i) m0)"
    using Cons.prems by auto
  ultimately show ?case by (simp only: add)
qed simp

lemma sorted_entries_keys: "map fst (sorted_entries m) = sorted_list_of_fset (fmdom m)"
  by (simp add: sorted_entries_def comp_def)

lemma sorted_entries_distinct: "distinct (map fst (sorted_entries m))"
  by (simp add: sorted_entries_keys sorted_list_of_fset.rep_eq)

lemma sorted_entries_set: "(k, v) \<in> set (sorted_entries m) \<longleftrightarrow> fmlookup m k = Some v"
proof -
  have "(k, v) \<in> set (sorted_entries m) \<longleftrightarrow> k |\<in>| fmdom m \<and> v = the (fmlookup m k)"
    by (auto simp: sorted_entries_def sorted_list_of_fset.rep_eq)
  also have "\<dots> \<longleftrightarrow> fmlookup m k = Some v" by (auto simp: fmlookup_dom_iff)
  finally show ?thesis .
qed

lemma map_of_sorted_entries: "map_of (sorted_entries m) = fmlookup m"
proof
  fix k
  show "map_of (sorted_entries m) k = fmlookup m k"
  proof (cases "fmlookup m k")
    case None
    then have "k \<notin> fst ` set (sorted_entries m)" using sorted_entries_set [of k _ m] by force
    then show ?thesis using None by (simp add: map_of_eq_None_iff)
  next
    case (Some v)
    then have "(k, v) \<in> set (sorted_entries m)" by (simp add: sorted_entries_set)
    then show ?thesis using Some map_of_is_SomeI [OF sorted_entries_distinct] by simp
  qed
qed

lemma length_sorted_entries: "length (sorted_entries m) = fcard (fmdom m)"
  by (simp add: sorted_entries_def sorted_list_of_fset.rep_eq fcard.rep_eq)

lemma entries_payment:
  assumes "payments_ok cd n m" "(k, p) \<in> set (sorted_entries m)"
  shows "pr_id p = k" "valid_payment cd p"
  using assms by (auto simp: sorted_entries_set payments_ok_def)

lemma sorted_payments:
  assumes "payments_ok cd n m"
  defines "ps \<equiv> sort_key pr_id (map snd (sorted_entries m))"
  shows "\<forall>p \<in> set ps. valid_payment cd p" "distinct (map pr_id ps)" "length ps = fcard (fmdom m)"
    "map_of (map (\<lambda>p. (pr_id p, p)) ps) = fmlookup m"
proof -
  show "\<forall>p \<in> set ps. valid_payment cd p" using entries_payment(2) [OF assms(1)] by (auto simp: ps_def)
  have ids: "map pr_id (map snd (sorted_entries m)) = map fst (sorted_entries m)"
    using entries_payment(1) [OF assms(1)] by auto
  have perm: "mset ps = mset (map snd (sorted_entries m))" by (simp add: ps_def)
  then have "mset (map pr_id ps) = mset (map fst (sorted_entries m))" by (metis ids mset_map)
  then show d: "distinct (map pr_id ps)" using sorted_entries_distinct mset_eq_imp_distinct_iff by metis
  show "length ps = fcard (fmdom m)" by (simp add: ps_def length_sorted_entries)
  have "mset (map (\<lambda>p. (pr_id p, p)) ps) = mset (map (\<lambda>p. (pr_id p, p)) (map snd (sorted_entries m)))"
    using perm by (metis mset_map)
  also have "map (\<lambda>p. (pr_id p, p)) (map snd (sorted_entries m)) = sorted_entries m"
    using entries_payment(1) [OF assms(1)] by (auto intro!: map_idI)
  finally have "set (map (\<lambda>p. (pr_id p, p)) ps) = set (sorted_entries m)" by (metis set_mset_mset)
  then have "map_of (map (\<lambda>p. (pr_id p, p)) ps) = map_of (sorted_entries m)"
    using d sorted_entries_distinct [of m] by (intro map_of_inject_set [THEN iffD2]) (simp_all add: comp_def)
  then show "map_of (map (\<lambda>p. (pr_id p, p)) ps) = fmlookup m" by (simp add: map_of_sorted_entries)
qed

lemma durable_key [simp]: "du_KeyHash (durable_idempotent k r) = k"
  by (simp add: durable_idempotent_def)

lemma load_durable_result: "result_ok m r \<Longrightarrow> load_result (durable_idempotent k r) = r"
  by (cases r) (auto simp: result_ok_def load_result_def durable_idempotent_def zero_checkout_def zero_operation_def)

lemma durable_result_valid:
  assumes "validDigest k \<and> result_ok m r"
  shows "validDigest (du_KeyHash (durable_idempotent k r)) \<and> validDigest (du_Fingerprint (durable_idempotent k r)) \<and>
    (du_Checkout (durable_idempotent k r) = None) \<noteq> (du_Operation (durable_idempotent k r) = None) \<and>
    fmlookup m (result_payment (durable_idempotent k r)) \<noteq> None"
  using assms by (auto simp: durable_idempotent_def result_ok_def result_payment_def zero_checkout_def zero_operation_def)

lemma load_webhooks_all:
  assumes "\<forall>w \<in> set ws. int (length (cd_json_event cd (qw_event w))) \<le> sv_maxWebhookBody s" "webhooks_ok payments step ws"
  shows "\<exists>qs. load_webhooks cd cx s payments step (map durable_webhook ws) = Some qs \<and> map durable_webhook qs = map durable_webhook ws"
  using assms
proof (induction ws)
  case (Cons w ws)
  have "valid_webhook payments step (durable_webhook w)" "\<not> sv_maxWebhookBody s < int (length (cd_json_event cd (qw_event w)))"
    using Cons.prems by (simp_all add: webhooks_ok_def)
  with Cons show ?case by (auto simp: webhooks_ok_def durable_webhook_def)
qed simp

lemma restart_state:
  assumes st: "state_ok cd mx st" and s: "mx \<le> sv_maxWebhooks s" "mx \<le> 100000"
    and fit: "\<forall>w \<in> set (ms_webhooks st). int (length (cd_json_event cd (qw_event w))) \<le> sv_maxWebhookBody s"
    and size: "fcard (fmdom (ms_payments st)) \<le> 100000" "fcard (fmdom (ms_idempotency st)) \<le> 200000"
  shows "\<exists>ws. applyDurableState cd cx (durableStateLocked st) s = Some (s\<lparr>sv_state := st\<lparr>ms_webhooks := ws\<rparr>\<rparr>) \<and>
    map durable_webhook ws = map durable_webhook (ms_webhooks st)"
proof -
  let ?d = "durableStateLocked st"
  have po: "payments_ok cd (ms_nextPayment st) (ms_payments st)" and io: "idempotency_ok (ms_payments st) (ms_idempotency st)"
    and wo: "webhooks_ok (ms_payments st) (ms_step st) (ms_webhooks st)" "int (length (ms_webhooks st)) \<le> mx"
    using st by (auto simp: state_ok_def)
  note sp = sorted_payments [OF po]
  have "load_payments cd (ds_Payments ?d) fmempty = Some (ms_payments st)"
    using load_payments_lookup [of "ds_Payments ?d" cd fmempty] sp(1,2,4)
    by (auto simp: durableStateLocked_def dest: fmempty_map_add)
  moreover have "load_idempotency (ms_payments st) (ds_Idempotency ?d) fmempty = Some (ms_idempotency st)"
  proof -
    let ?es = "sorted_entries (ms_idempotency st)"
    have ds: "ds_Idempotency ?d = map (\<lambda>(k, r). durable_idempotent k r) ?es" by (simp add: durableStateLocked_def)
    have entry: "validDigest k \<and> result_ok (ms_payments st) r" if "(k, r) \<in> set ?es" for k r
      using io that by (auto simp: idempotency_ok_def sorted_entries_set)
    have "map (\<lambda>i. (du_KeyHash i, load_result i)) (ds_Idempotency ?d) = ?es"
      unfolding ds map_map by (intro map_idI) (auto simp: load_durable_result dest: entry)
    moreover have "\<forall>i \<in> set (ds_Idempotency ?d). validDigest (du_KeyHash i) \<and> validDigest (du_Fingerprint i) \<and>
        (du_Checkout i = None) \<noteq> (du_Operation i = None) \<and> fmlookup (ms_payments st) (result_payment i) \<noteq> None"
    proof
      fix i assume "i \<in> set (ds_Idempotency ?d)"
      then obtain k r where i: "i = durable_idempotent k r" and "(k, r) \<in> set ?es" by (auto simp: ds)
      from this(2) show "validDigest (du_KeyHash i) \<and> validDigest (du_Fingerprint i) \<and>
          (du_Checkout i = None) \<noteq> (du_Operation i = None) \<and> fmlookup (ms_payments st) (result_payment i) \<noteq> None"
        unfolding i by (rule durable_result_valid [OF entry])
    qed
    moreover have "map du_KeyHash (ds_Idempotency ?d) = map fst ?es"
      by (auto simp: ds)
    ultimately show ?thesis
      using load_idempotency_lookup [of "ds_Idempotency ?d" "ms_payments st" fmempty] sorted_entries_distinct [of "ms_idempotency st"]
      by (auto simp: map_of_sorted_entries dest: fmempty_map_add)
  qed
  moreover obtain ws where "load_webhooks cd cx s (ms_payments st) (ms_step st) (map durable_webhook (ms_webhooks st)) = Some ws"
      "map durable_webhook ws = map durable_webhook (ms_webhooks st)"
    using load_webhooks_all [OF fit wo(1)] by blast
  moreover have "length (ds_Payments ?d) \<le> 100000" "length (ds_Idempotency ?d) \<le> 200000"
    using sp(3) size by (simp_all add: durableStateLocked_def length_sorted_entries)
  ultimately show ?thesis using s wo(2)
    by (auto simp: applyDurableState_def maxStateRecords_def durableStateLocked_def intro!: exI [of _ ws])
qed

end
