(* ===== verification/Sandbox_Properties.thy ===== *)
theory Sandbox_Properties
  imports Sandbox_Safety
begin

text \<open>
  The properties of the sandbox provider: a key is used once, a failure that is not uncertain changed
  nothing, the money of a payment is what its status says, a restart continues from the last snapshot,
  and webhooks are accepted exactly when they are signed and fresh, with one exception.
\<close>

section \<open>Results are never forgotten\<close>

lemma finish_outcome:
  assumes "finish cx op f prev res s = (out, s')"
  shows "cx_save_fails cx \<and> out = Inl (stateUnavailableError op) \<and> sv_state s' = prev \<or>
    \<not> cx_save_fails cx \<and> sv_state s' = sv_state s \<and> sv_stateFailed s' = sv_stateFailed s \<and>
    (out = Inr res \<or> (\<exists>e. out = Inl e \<and> pe_Uncertain (provider_error e)))"
  using assms by (auto simp: finish_def persistLocked_def afterFault_def faultProviderError_def split: option.splits if_splits)

lemma nextFault_state: "nextFault op s = (f, s1) \<Longrightarrow> sv_state s1 = sv_state s \<and> sv_stateFailed s1 = sv_stateFailed s"
  by (auto simp: nextFault_def split: option.splits prod.splits)

lemma beforeFault_certain: "beforeFault op f = Some e \<Longrightarrow> \<not> pe_Uncertain (provider_error e)"
  by (auto simp: beforeFault_def faultProviderError_def Let_def split: if_splits)

lemma errors_certain [simp]:
  "\<not> pe_Uncertain (provider_error (stateUnavailableError op))" "\<not> pe_Uncertain (provider_error (conflictError op))"
  "\<not> pe_Uncertain (provider_error (validationError op m))" "\<not> pe_Uncertain (provider_error (transportError op False))"
  by (simp_all add: stateUnavailableError_def conflictError_def validationError_def transportError_def)

lemma metadata_certain: "ValidateMetadata u md = Some e \<Longrightarrow> \<not> pe_Uncertain (provider_error (withOperation e op))"
proof -
  have "check_metadata u md = Some e \<Longrightarrow> \<not> pe_Uncertain e" for md
    by (induction u md rule: check_metadata.induct) (auto simp: provider_validationError_def Let_def split: if_splits)
  then show "ValidateMetadata u md = Some e \<Longrightarrow> \<not> pe_Uncertain (provider_error (withOperation e op))"
    by (auto simp: ValidateMetadata_def withOperation_def provider_validationError_def split: if_splits)
qed

lemma operation_valid_certain: "operation_valid cd op r = Some e \<Longrightarrow> \<not> pe_Uncertain (provider_error e)"
  by (auto simp: operation_valid_def metadata_certain split: if_splits option.splits)

lemma validateCommon_certain: "validateCommon cd r = Some e \<Longrightarrow> \<not> pe_Uncertain (provider_error e)"
  by (auto simp: validateCommon_def metadata_certain split: if_splits)

lemma validateTransition_certain: "validateTransition p op = Inl e \<Longrightarrow> \<not> pe_Uncertain (provider_error e)"
  by (cases op) (auto simp: validateTransition_def split: if_splits)

text \<open>
  What a mutating call may do: leave the state alone, or store the answer to its key. A call that
  answers, or whose outcome is uncertain, has its answer stored.
\<close>

definition call_outcome ::
  "string \<Rightarrow> string \<Rightarrow> (idempotentResult \<Rightarrow> 'a) \<Rightarrow> mutableState \<Rightarrow> SandboxError + 'a \<Rightarrow> mutableState \<Rightarrow> bool" where
  "call_outcome key fp answer st out st' \<longleftrightarrow>
     results_kept st st' \<and>
     (st' = st \<or> fmlookup (ms_idempotency st) key = None) \<and>
     (\<forall>e. out = Inl e \<longrightarrow> \<not> pe_Uncertain (provider_error e) \<longrightarrow> st' = st) \<and>
     ((\<forall>e. out = Inl e \<longrightarrow> pe_Uncertain (provider_error e)) \<longrightarrow>
        (\<exists>rep. fmlookup (ms_idempotency st') key = Some rep \<and> id_fingerprint rep = fp \<and>
           (\<forall>x. out = Inr x \<longrightarrow> x = answer rep)))"

lemma call_outcome_refused: "\<not> pe_Uncertain (provider_error e) \<Longrightarrow> call_outcome key fp answer st (Inl e) st"
  by (simp add: call_outcome_def results_kept_def)

lemma call_outcome_replay:
  "fmlookup (ms_idempotency st) key = Some rep \<Longrightarrow> id_fingerprint rep = fp \<Longrightarrow> call_outcome key fp answer st (Inr (answer rep)) st"
  by (simp add: call_outcome_def results_kept_def)

lemma call_outcome_finish:
  assumes "finish cx op f (sv_state s) (answer rep) (s\<lparr>sv_state := st\<rparr>) = (out, s')"
    and "fmlookup (ms_idempotency (sv_state s)) key = None"
    and "ms_idempotency st = fmupd key rep (ms_idempotency (sv_state s))" "id_fingerprint rep = fp"
  shows "call_outcome key fp answer (sv_state s) out (sv_state s')"
  using finish_outcome [OF assms(1)] assms(2-) by (auto simp: call_outcome_def results_kept_def)

lemma commit_transition_finish:
  "\<exists>res st. commit_transition cd cx op r fp f p t e s = finish cx op f (sv_state s) res (s\<lparr>sv_state := st\<rparr>) \<and>
    ms_idempotency st = fmupd (cd_identity cd (or_IdempotencyKey r))
      \<lparr>id_fingerprint = fp, id_checkout = zero_checkout, id_operation = res\<rparr> (ms_idempotency (sv_state s))"
  unfolding commit_transition_def Let_def by (intro exI conjI, rule refl, simp)

lemma commit_checkout_finish:
  "\<exists>res st. commit_checkout cd cx r f s = finish cx OperationCreateCheckout f (sv_state s) res (s\<lparr>sv_state := st\<rparr>) \<and>
    ms_idempotency st = fmupd (cd_identity cd (cc_IdempotencyKey r))
      \<lparr>id_fingerprint = cd_fp_checkout cd r, id_checkout = res, id_operation = zero_operation\<rparr> (ms_idempotency (sv_state s))"
  unfolding commit_checkout_def Let_def by (intro exI conjI, rule refl, simp)

lemma transition_outcome:
  assumes "transition cd cx op r tok s = (out, s')"
  shows "call_outcome (cd_identity cd (or_IdempotencyKey r)) (operation_fingerprint cd op r tok) id_operation
    (sv_state s) out (sv_state s')"
proof -
  let ?key = "cd_identity cd (or_IdempotencyKey r)" and ?fp = "operation_fingerprint cd op r tok"
  obtain f s1 where f: "nextFault op s = (f, s1)" by fastforce
  note st = nextFault_state [OF f]
  have commit: "call_outcome ?key ?fp id_operation (sv_state s1) out (sv_state s')"
    if c: "commit_transition cd cx op r ?fp f p t e s1 = (out, s')" and new: "fmlookup (ms_idempotency (sv_state s)) ?key = None" for p t e
  proof -
    obtain res st' where eq: "commit_transition cd cx op r ?fp f p t e s1 = finish cx op f (sv_state s1) res (s1\<lparr>sv_state := st'\<rparr>)"
      and up: "ms_idempotency st' = fmupd ?key \<lparr>id_fingerprint = ?fp, id_checkout = zero_checkout, id_operation = res\<rparr> (ms_idempotency (sv_state s1))"
      using commit_transition_finish by blast
    from call_outcome_finish [where answer = id_operation, OF _ _ up, of cx op f out s' ?fp] c new st show ?thesis
      by (simp add: eq)
  qed
  show ?thesis
    using assms f st commit
    by (auto simp: transition_def call_outcome_replay beforeFault_certain operation_valid_certain validateTransition_certain
        intro!: call_outcome_refused split: option.splits sum.splits if_splits)
qed

lemma CreateCheckout_outcome:
  assumes "CreateCheckout cd cx r s = (out, s')"
  shows "call_outcome (cd_identity cd (cc_IdempotencyKey r)) (cd_fp_checkout cd r) id_checkout (sv_state s) out (sv_state s')"
proof -
  let ?key = "cd_identity cd (cc_IdempotencyKey r)" and ?fp = "cd_fp_checkout cd r"
  obtain f s1 where f: "nextFault OperationCreateCheckout s = (f, s1)" by fastforce
  note st = nextFault_state [OF f]
  have commit: "call_outcome ?key ?fp id_checkout (sv_state s1) out (sv_state s')"
    if c: "commit_checkout cd cx r f s1 = (out, s')" and new: "fmlookup (ms_idempotency (sv_state s)) ?key = None"
  proof -
    obtain res st' where eq: "commit_checkout cd cx r f s1 = finish cx OperationCreateCheckout f (sv_state s1) res (s1\<lparr>sv_state := st'\<rparr>)"
      and up: "ms_idempotency st' = fmupd ?key \<lparr>id_fingerprint = ?fp, id_checkout = res, id_operation = zero_operation\<rparr> (ms_idempotency (sv_state s1))"
      using commit_checkout_finish by blast
    from call_outcome_finish [where answer = id_checkout, OF _ _ up, of cx OperationCreateCheckout f out s' ?fp] c new st show ?thesis
      by (simp add: eq)
  qed
  show ?thesis
    using assms f st commit
    by (auto simp: CreateCheckout_def call_outcome_replay beforeFault_certain validateCommon_certain
        intro!: call_outcome_refused split: option.splits sum.splits if_splits)
qed

lemma results_kept_refl: "results_kept st st"
  by (simp add: results_kept_def)

lemma results_kept_eq: "ms_idempotency st' = ms_idempotency st \<Longrightarrow> results_kept st st'"
  by (simp add: results_kept_def)

lemma transition_kept: "results_kept (sv_state s) (sv_state (snd (transition cd cx op r tok s)))"
proof -
  obtain out s' where t: "transition cd cx op r tok s = (out, s')" by fastforce
  show ?thesis using transition_outcome [OF t] by (simp add: t call_outcome_def)
qed

lemma CreateCheckout_kept: "results_kept (sv_state s) (sv_state (snd (CreateCheckout cd cx r s)))"
proof -
  obtain out s' where t: "CreateCheckout cd cx r s = (out, s')" by fastforce
  show ?thesis using CreateCheckout_outcome [OF t] by (simp add: t call_outcome_def)
qed

lemma Authorize_kept: "results_kept (sv_state s) (sv_state (snd (Authorize cd cx r tok s)))"
  by (simp add: Authorize_def transition_kept results_kept_refl)

lemma Hosted_kept: "results_kept (sv_state s) (sv_state (snd (CompleteHostedCheckout cd cx h s)))"
  by (simp add: CompleteHostedCheckout_def Let_def Authorize_kept results_kept_refl split: option.split)

lemma Status_kept: "results_kept (sv_state s) (sv_state (snd (GetPaymentStatus cx p s)))"
proof -
  obtain f s1 where f: "nextFault OperationGetStatus s = (f, s1)" by fastforce
  show ?thesis using nextFault_state [OF f]
    by (simp add: GetPaymentStatus_def f results_kept_refl split: option.split)
qed

lemma step_results_kept: "results_kept (sv_state s) (sv_state (sandbox_step cd (cx, c) s))"
proof (cases c)
  case (Call_Advance n)
  then show ?thesis by (auto simp: Advance_def persistLocked_def Let_def intro: results_kept_eq)
next
  case (Call_Drain n)
  then show ?thesis by (auto simp: DrainWebhooksLimit_def intro: results_kept_eq split: prod.split)
next
  case (Call_Fault op f)
  then show ?thesis by (simp add: push_fault_def results_kept_refl split: option.split)
qed (simp_all add: CreateCheckout_kept Authorize_kept Hosted_kept Status_kept Capture_def Void_def Refund_def transition_kept)

lemma run_results_kept: "results_kept (sv_state s) (sv_state (sandbox_run cd calls s))"
proof (induction calls arbitrary: s)
  case (Cons call calls)
  obtain cx c where "call = (cx, c)" by fastforce
  then show ?case using Cons.IH [of "sandbox_step cd call s"] step_results_kept [of s cd cx c]
    by (auto simp: sandbox_run_def intro: results_kept_trans)
qed (simp add: sandbox_run_def results_kept_def)

lemma service_of_store [simp]:
  "sv_maxWebhookBody (service_of (config\<lparr>cf_StateStore := x\<rparr>)) = sv_maxWebhookBody (service_of config)"
  "sv_maxWebhooks (service_of (config\<lparr>cf_StateStore := x\<rparr>)) = sv_maxWebhooks (service_of config)"
  "sv_replayTolerance (service_of (config\<lparr>cf_StateStore := x\<rparr>)) = sv_replayTolerance (service_of config)"
  "sv_keys (service_of (config\<lparr>cf_StateStore := x\<rparr>)) = sv_keys (service_of config)"
  "sv_stateStore (service_of (config\<lparr>cf_StateStore := x\<rparr>)) = x" "sv_state (service_of config) = empty_state"
  by (simp_all add: service_of_def)

lemma config_error_store: "config_error cd (config\<lparr>cf_StateStore := x\<rparr>) = config_error cd config"
  by (simp add: config_error_def Let_def)

section \<open>A concrete service\<close>

definition ex_event :: WebhookEvent where
  "ex_event = \<lparr>ev_ProviderEventID = ''evt_1'', ev_Type = EventCaptured, ev_OriginalType = '''',
     ev_ProviderPaymentID = ''pay_1'', ev_Status = StatusCaptured, ev_AmountMinor = 500, ev_Currency = ''EUR'',
     ev_OccurredAt = 7\<rparr>"

definition ex_codec :: Codec where
  "ex_codec = \<lparr>cd_unicode = \<lparr>uni_lower = \<lambda>s. s, uni_upper = \<lambda>s. s, uni_trim = \<lambda>s. s\<rparr>,
     cd_identity = (\<lambda>k. replicate 64 (if k = ''key-1'' then CHR ''1'' else CHR ''2'')),
     cd_fp_checkout = (\<lambda>_. replicate 64 (CHR ''a'')), cd_fp_operation = (\<lambda>_. replicate 64 (CHR ''b'')),
     cd_json_event = (\<lambda>_. [1]), cd_decode_event = (\<lambda>_. Some (ex_event, True)), cd_hmac = (\<lambda>k m. [171])\<rparr>"

definition ex_call :: CallEnv where
  "ex_call = \<lparr>cx_cancelled = False, cx_now = 62135596801000000000, cx_sign_now = 62135596801000000000, cx_save_fails = False\<rparr>"

definition ex_config :: Config where
  "ex_config = \<lparr>cf_Environment = ''test'', cf_AllowSandboxInProduction = False,
     cf_WebhookKeys = [(''k'', replicate 16 1)], cf_IssueKeyID = ''k'', cf_WebhookMaxBodyBytes = 0,
     cf_WebhookReplayTolerance = 0, cf_MaxQueuedWebhooks = 0, cf_Faults = None, cf_StateStore = None\<rparr>"

definition ex_checkout :: CreateCheckoutRequest where
  "ex_checkout = \<lparr>cc_PaymentIntentID = ''intent-1'', cc_MerchantReference = ''order-1'', cc_AmountMinor = 500,
     cc_Currency = ''EUR'', cc_IdempotencyKey = ''key-1'', cc_Metadata = []\<rparr>"

definition ex_payment_id :: string where
  "ex_payment_id = ''pay_sandbox_000000000001''"

definition ex_authorize :: OperationRequest where
  "ex_authorize = \<lparr>or_PaymentIntentID = ''intent-1'', or_ProviderPaymentID = ex_payment_id, or_AmountMinor = 500,
     or_Currency = ''EUR'', or_IdempotencyKey = ''key-2'', or_Metadata = []\<rparr>"

definition ex_service :: Service where
  "ex_service = service_of ex_config"

definition ex_created :: Service where
  "ex_created = sandbox_run ex_codec [(ex_call, Call_Checkout ex_checkout)] ex_service"

lemma ex_digest: "validDigest (replicate 64 (CHR ''1''))" "validDigest (replicate 64 (CHR ''2''))"
  "validDigest (replicate 64 (CHR ''a''))" "validDigest (replicate 64 (CHR ''b''))"
  by (simp_all add: validDigest_def hex_digit_def byte_of_def list_all_iff)

lemma ex_codec_ok: "codec_ok ex_codec"
  by (simp add: codec_ok_def ex_codec_def ex_digest)

lemma ex_new: "New_sandbox ex_codec ex_call ex_config = Inr ex_service"
  by (simp add: New_sandbox_def config_error_def Let_def ex_config_def service_of_def ex_service_def ex_codec_def
      ToLower_def TrimSpace_def ascii_string_def ascii_space_def ascii_lower_def byte_of_def validKeyID_def alnum_def
      loadDurableState_def)

lemma ex_pad: "pad12 (Suc 0) = ''000000000001''"
  by code_simp

lemma ex_checkout_valid: "validateCommon ex_codec ex_checkout = None"
  by (simp add: validateCommon_def ex_checkout_def ex_codec_def validIdentifier_def alnum_def byte_of_def normalizeCurrency_def
      ToUpper_def TrimSpace_def ascii_string_def ascii_space_def ascii_upper_def ValidateMetadata_def Let_def)

definition ex_record :: paymentRecord where
  "ex_record = \<lparr>pr_id = ex_payment_id, pr_intentID = ''intent-1'', pr_token = ''tok_sandbox_000000000001'',
     pr_status = StatusCreated, pr_amount = 500, pr_currency = ''EUR'', pr_captured = 0, pr_refunded = 0,
     pr_updatedAt = 62135596801000000000\<rparr>"

lemmas ex_create_defs = ex_created_def sandbox_run_def CreateCheckout_def ex_checkout_valid ex_call_def ex_service_def service_of_def
  ex_config_def empty_state_def nextFault_def no_fault_def beforeFault_def commit_checkout_def Let_def finish_def
  persistLocked_def afterFault_def inc64_def new_payment_def new_checkout_def ex_pad ex_payment_id_def ex_record_def

lemmas ex_string_defs = normalizeCurrency_def ToUpper_def TrimSpace_def ascii_string_def ascii_space_def
  ascii_upper_def byte_of_def Let_def

lemma ex_created_payment: "fmlookup (ms_payments (sv_state ex_created)) ex_payment_id = Some ex_record"
  by (simp add: ex_create_defs) (simp add: ex_checkout_def ex_codec_def ex_string_defs)

lemma ex_created_rest:
  "sv_faults ex_created = None" "sv_stateFailed ex_created = False" "ms_nextOperation (sv_state ex_created) = 0"
  "fmlookup (ms_idempotency (sv_state ex_created)) (cd_identity ex_codec ''key-2'') = None"
  by (simp_all add: ex_create_defs) (simp add: ex_checkout_def ex_codec_def)

definition ex_result :: OperationResult where
  "ex_result = \<lparr>re_ProviderPaymentID = ex_payment_id, re_ProviderOperationID = ''op_sandbox_000000000001'',
     re_Status = StatusAuthorized, re_AmountMinor = 500, re_Currency = ''EUR''\<rparr>"

definition ex_authorized :: Service where
  "ex_authorized = snd (transition ex_codec ex_call OperationAuthorize ex_authorize ''tok_sandbox_000000000001'' ex_created)"

lemma ex_authorize_valid: "operation_valid ex_codec OperationAuthorize ex_authorize = None"
  "normalizeCurrency (cd_unicode ex_codec) (or_Currency ex_authorize) = ''EUR''"
  by (simp_all add: operation_valid_def ex_authorize_def ex_payment_id_def validIdentifier_def alnum_def ValidateMetadata_def ex_codec_def ex_string_defs)

lemma ex_authorize_call:
  "\<exists>st. transition ex_codec ex_call OperationAuthorize ex_authorize ''tok_sandbox_000000000001'' ex_created =
     finish ex_call OperationAuthorize no_fault (sv_state ex_created) ex_result (ex_created\<lparr>sv_state := st\<rparr>)"
proof -
  have "fmlookup (ms_payments (sv_state ex_created)) (or_ProviderPaymentID ex_authorize) = Some ex_record"
    "fmlookup (ms_idempotency (sv_state ex_created)) (cd_identity ex_codec (or_IdempotencyKey ex_authorize)) = None"
    using ex_created_payment ex_created_rest by (simp_all add: ex_authorize_def)
  moreover have "\<not> cx_cancelled ex_call" "nextFault OperationAuthorize ex_created = (no_fault, ex_created)"
    by (simp_all add: ex_call_def nextFault_def ex_created_rest)
  ultimately have "transition ex_codec ex_call OperationAuthorize ex_authorize ''tok_sandbox_000000000001'' ex_created =
      commit_transition ex_codec ex_call OperationAuthorize ex_authorize
        (operation_fingerprint ex_codec OperationAuthorize ex_authorize ''tok_sandbox_000000000001'')
        no_fault ex_record StatusAuthorized EventAuthorized ex_created"
    using ex_authorize_valid by (simp add: transition_def ex_created_rest beforeFault_def no_fault_def validateTransition_def
        ex_record_def) (simp add: ex_authorize_def)
  moreover have "\<exists>st. commit_transition ex_codec ex_call OperationAuthorize ex_authorize fp no_fault ex_record StatusAuthorized EventAuthorized ex_created =
      finish ex_call OperationAuthorize no_fault (sv_state ex_created) ex_result (ex_created\<lparr>sv_state := st\<rparr>)" for fp
    by (simp add: commit_transition_def Let_def ex_created_rest inc64_def ex_pad ex_record_def ex_result_def)
       (auto simp: ex_authorize_def)
  ultimately show ?thesis by simp
qed

lemma ex_authorization:
  "transition ex_codec ex_call OperationAuthorize ex_authorize ''tok_sandbox_000000000001'' ex_created = (Inr ex_result, ex_authorized)"
  using ex_authorize_call by (auto simp: ex_authorized_def finish_def persistLocked_def afterFault_def no_fault_def ex_call_def)

lemma ex_authorized_rest: "\<not> sv_stateFailed (sandbox_run ex_codec [(ex_call, Call_Status ex_payment_id)] ex_authorized)"
proof -
  obtain st where "finish ex_call OperationAuthorize no_fault (sv_state ex_created) ex_result (ex_created\<lparr>sv_state := st\<rparr>) =
      (Inr ex_result, ex_authorized)"
    using ex_authorize_call ex_authorization by auto
  from finish_outcome [OF this] have "\<not> sv_stateFailed ex_authorized" using ex_created_rest(2) by (auto simp: ex_call_def)
  moreover have "sv_stateFailed (snd (GetPaymentStatus cx p s)) = sv_stateFailed s" for cx p s
  proof -
    obtain f s1 where f: "nextFault OperationGetStatus s = (f, s1)" by fastforce
    show ?thesis using nextFault_state [OF f] by (simp add: GetPaymentStatus_def f split: option.split)
  qed
  ultimately show ?thesis by (simp add: sandbox_run_def)
qed

section \<open>Properties\<close>

text \<open>
  C11. A key is used once: after an operation that succeeded, or whose outcome the caller could not know, and while
  the service has not failed to save its state, the same request is answered with the same result as often as it is repeated, whatever calls came between,
  and repeating it changes nothing.
\<close>

theorem sandbox_exactly_once:
  assumes "transition cd cx op r tok s = (out, s')" "\<forall>e. out = Inl e \<longrightarrow> pe_Uncertain (provider_error e)"
    and "\<not> cx_cancelled cx'" "\<not> sv_stateFailed (sandbox_run cd calls s')"
  shows "\<exists>res. transition cd cx' op r tok (sandbox_run cd calls s') = (Inr res, sandbox_run cd calls s') \<and>
    (\<forall>x. out = Inr x \<longrightarrow> x = res)"
proof -
  have valid: "operation_valid cd op r = None"
    using assms(1,2) operation_valid_certain [of cd op r] errors_certain(4) [of op]
    by (cases "operation_valid cd op r") (auto simp: transition_def split: if_splits)
  obtain rep where "fmlookup (ms_idempotency (sv_state s')) (cd_identity cd (or_IdempotencyKey r)) = Some rep"
      and rep: "id_fingerprint rep = operation_fingerprint cd op r tok" "\<forall>x. out = Inr x \<longrightarrow> x = id_operation rep"
    using transition_outcome [OF assms(1)] assms(2) by (auto simp: call_outcome_def)
  then have "fmlookup (ms_idempotency (sv_state (sandbox_run cd calls s'))) (cd_identity cd (or_IdempotencyKey r)) = Some rep"
    using run_results_kept [of s' cd calls] by (simp add: results_kept_def)
  then have "transition cd cx' op r tok (sandbox_run cd calls s') = (Inr (id_operation rep), sandbox_run cd calls s')"
    using assms(3,4) valid rep(1) by (simp add: transition_def)
  then show ?thesis using rep(2) by blast
qed

theorem sandbox_exactly_once_witness:
  "\<exists>res. transition ex_codec ex_call OperationAuthorize ex_authorize ''tok_sandbox_000000000001''
      (sandbox_run ex_codec [(ex_call, Call_Status ex_payment_id)] ex_authorized) =
    (Inr res, sandbox_run ex_codec [(ex_call, Call_Status ex_payment_id)] ex_authorized) \<and> res = ex_result"
  using sandbox_exactly_once [OF ex_authorization, of ex_call "[(ex_call, Call_Status ex_payment_id)]"] ex_authorized_rest
  by (auto simp: ex_call_def)

text \<open>
  C36. A failure that is not marked uncertain left the payments, the stored results, the counters and the
  webhooks as they were.
\<close>

theorem sandbox_failure_is_honest:
  assumes "CreateCheckout cd cx r s = (Inl e, s1)" "\<not> pe_Uncertain (provider_error e)"
    and "transition cd cy op q tok t = (Inl d, t1)" "\<not> pe_Uncertain (provider_error d)"
  shows "sv_state s1 = sv_state s \<and> sv_state t1 = sv_state t"
  using CreateCheckout_outcome [OF assms(1)] transition_outcome [OF assms(3)] assms(2,4) by (simp add: call_outcome_def)

definition ex_cancelled :: CallEnv where
  "ex_cancelled = ex_call\<lparr>cx_cancelled := True\<rparr>"

theorem sandbox_failure_is_honest_witness:
  "sv_state (snd (CreateCheckout ex_codec ex_cancelled ex_checkout ex_service)) = sv_state ex_service \<and>
   sv_state (snd (transition ex_codec ex_cancelled OperationAuthorize ex_authorize [] ex_created)) = sv_state ex_created"
  using sandbox_failure_is_honest [where cd = ex_codec and cx = ex_cancelled and r = ex_checkout and s = ex_service and
      e = "transportError OperationCreateCheckout False" and cy = ex_cancelled and op = OperationAuthorize and q = ex_authorize and
      tok = "[]" and t = ex_created and d = "transportError OperationAuthorize False"]
  by (simp add: CreateCheckout_def transition_def ex_cancelled_def)

text \<open>
  C12. Money of the provider: after any calls on a new service every payment has a positive amount, and what
  has been captured and refunded is exactly what its status says: nothing, the whole amount captured, or the
  whole amount captured and refunded. The queue of webhooks never exceeds its limit.
\<close>

theorem sandbox_money_exact:
  assumes "New_sandbox cd cx config = Inr s" "cf_StateStore config = None" "script_ok (cf_Faults config)" "codec_ok cd"
    and "room (length calls)" "\<forall>(cy, c) \<in> set calls. cx_now cy \<noteq> 0"
    and "fmlookup (ms_payments (sv_state (sandbox_run cd calls s))) k = Some p"
  shows "0 < pr_amount p \<and>
    pr_status p \<in> {StatusCreated, StatusAuthorized, StatusCaptured, StatusVoided, StatusRefunded} \<and>
    pr_captured p = (if pr_status p \<in> {StatusCaptured, StatusRefunded} then pr_amount p else 0) \<and>
    pr_refunded p = (if pr_status p = StatusRefunded then pr_amount p else 0) \<and>
    int (length (ms_webhooks (sv_state (sandbox_run cd calls s)))) \<le> sv_maxWebhooks s"
proof -
  have "service_ok cd 0 s" by (rule New_sandbox_fresh [OF assms(1-3)])
  from sandbox_run_ok [OF this assms(4), of calls] assms(5,6)
  have "state_ok cd (sv_maxWebhooks s) (sv_state (sandbox_run cd calls s))" by (auto simp: service_ok_def)
  then show ?thesis using assms(7) by (simp add: state_ok_def payments_ok_def valid_payment_def money_exact_def)
qed

theorem sandbox_money_exact_witness:
  "0 < pr_amount ex_record \<and> pr_captured ex_record = 0 \<and> int (length (ms_webhooks (sv_state ex_created))) \<le> 10000"
  using sandbox_money_exact [OF ex_new _ _ ex_codec_ok, of "[(ex_call, Call_Checkout ex_checkout)]" ex_payment_id ex_record] ex_created_payment
  by (simp add: ex_config_def script_ok_def room_def ex_call_def [THEN arg_cong [where f = cx_now]] ex_created_def ex_service_def service_of_def ex_record_def)

text \<open>
  A restart loses nothing: a service built anew with the same configuration and the stored snapshot loads, when
  the JSON of its stored events is within the limit on webhook bodies,
  and has the payments, the results, the counters and the clock of the service that stopped, and every
  webhook that was still queued. (Webhooks delivered since the last save are queued again.)
\<close>

lemma sandbox_restart:
  assumes "New_sandbox cd cx config = Inr s0" "cf_StateStore config = None" "script_ok (cf_Faults config)" "codec_ok cd"
    and "room (length calls)" "\<forall>(cy, c) \<in> set calls. cx_now cy \<noteq> 0"
    and "s = sandbox_run cd calls s0"
    and "fcard (fmdom (ms_payments (sv_state s))) \<le> 100000" "fcard (fmdom (ms_idempotency (sv_state s))) \<le> 200000"
    and "\<And>d w. sv_stateStore s = Some d \<Longrightarrow> w \<in> set (ds_Webhooks d) \<Longrightarrow>
      int (length (cd_json_event cd (dw_Event w))) \<le> sv_maxWebhookBody (service_of config)"
  shows "\<exists>t. New_sandbox cd cz (config\<lparr>cf_StateStore := sv_stateStore s\<rparr>) = Inr t \<and>
    ms_payments (sv_state t) = ms_payments (sv_state s) \<and> ms_idempotency (sv_state t) = ms_idempotency (sv_state s) \<and>
    ms_nextPayment (sv_state t) = ms_nextPayment (sv_state s) \<and> ms_nextOperation (sv_state t) = ms_nextOperation (sv_state s) \<and>
    ms_nextEvent (sv_state t) = ms_nextEvent (sv_state s) \<and> ms_step (sv_state t) = ms_step (sv_state s) \<and>
    subseq (map durable_webhook (ms_webhooks (sv_state s))) (map durable_webhook (ms_webhooks (sv_state t)))"
proof -
  note fresh = New_sandbox_fresh [OF assms(1-3)]
  let ?c = "config\<lparr>cf_StateStore := sv_stateStore s\<rparr>" and ?st = "sv_state s"
  have run: "service_ok cd (length calls) s" "sv_maxWebhooks s = sv_maxWebhooks s0"
    using sandbox_run_ok [OF fresh(1) assms(4), of calls] assms(5-7) by auto
  have cfg: "config_error cd ?c = None" using fresh(2) by (simp add: config_error_store)
  have lim: "sv_maxWebhooks (service_of ?c) \<le> 100000" "sv_maxWebhooks s \<le> sv_maxWebhooks (service_of ?c)"
    "sv_maxWebhooks s \<le> 100000"
    using config_error_None [OF cfg] run(2) fresh(3) by simp_all
  show ?thesis
  proof (cases "sv_stateStore s")
    case None
    then have "?st = empty_state" using run(1) by (simp add: service_ok_def store_ok_def)
    then show ?thesis using cfg None by (simp add: New_sandbox_def loadDurableState_def)
  next
    case (Some d)
    then obtain ws where ws: "subseq (ms_webhooks ?st) ws" "state_ok cd (sv_maxWebhooks s) (?st\<lparr>ms_webhooks := ws\<rparr>)"
        "d = durableStateLocked (?st\<lparr>ms_webhooks := ws\<rparr>)"
      using run(1) by (auto simp: service_ok_def store_ok_def)
    have fit: "\<forall>w \<in> set ws. int (length (cd_json_event cd (qw_event w))) \<le> sv_maxWebhookBody (service_of ?c)"
    proof
      fix w assume "w \<in> set ws"
      then have "durable_webhook w \<in> set (ds_Webhooks d)" using ws(3) by (simp add: durableStateLocked_def)
      from assms(10) [OF Some this] show "int (length (cd_json_event cd (qw_event w))) \<le> sv_maxWebhookBody (service_of ?c)"
        by (simp add: durable_webhook_def service_of_def split: if_splits)
    qed
    obtain qs where "applyDurableState cd cz d (service_of ?c) = Some ((service_of ?c)\<lparr>sv_state := ?st\<lparr>ms_webhooks := qs\<rparr>\<rparr>)"
        "map durable_webhook qs = map durable_webhook ws"
      using restart_state [OF ws(2) lim(2,3), of cz] assms(8,9) ws(3) fit by auto
    moreover have "subseq (map durable_webhook (ms_webhooks ?st)) (map durable_webhook ws)" by (rule subseq_map [OF ws(1)])
    ultimately show ?thesis
      using cfg Some by (simp add: New_sandbox_def loadDurableState_def)
  qed
qed

section \<open>Webhooks\<close>













text \<open>
  C38. The freshness test accepts a time stamp exactly when it is within the tolerance, or more than
  \<open>2\<^sup>63\<close> nanoseconds (about 292 years) ahead of the clock: there the saturated difference is the least
  duration, and negating it leaves it negative.
\<close>

theorem webhook_window_exact:
  assumes "0 \<le> tolerance" "tolerance < MaxInt64"
  shows "within_tolerance now stamp tolerance \<longleftrightarrow>
    \<bar>now - time_of_unix stamp\<bar> \<le> tolerance \<or> now - time_of_unix stamp \<le> MinInt64"
proof -
  define x where "x = now - time_of_unix stamp"
  have min: "wrap64 (- MinInt64) = MinInt64" by (simp add: wrap64_def MinInt64_def)
  have pos: "wrap64 (- y) = - y" if "MinInt64 < y" "y < 0" for y
    using that by (intro wrap64_id) (simp add: in_int64_def MinInt64_def MaxInt64_def)
  have sub: "Time_Sub now (time_of_unix stamp) = (if x \<le> MinInt64 then MinInt64 else if MaxInt64 \<le> x then MaxInt64 else x)"
    by (auto simp: Time_Sub_def x_def MinInt64_def MaxInt64_def)
  show ?thesis
    using assms pos [of x] min unfolding within_tolerance_def Let_def sub x_def [symmetric]
    by (auto simp: MinInt64_def MaxInt64_def)
qed

theorem webhook_window_exact_witness:
  "within_tolerance 63000000000000000000 18446744073 300000000000"
  using webhook_window_exact [of 300000000000 63000000000000000000 18446744073]
  by (simp add: MaxInt64_def MinInt64_def time_of_unix_def unix_epoch_seconds_def wrap64_def)

end
