(* ===== verification/Payment_Db.thy ===== *)
theory Payment_Db
  imports Payment_Domain Provider_Boundary Booking_Db
begin

text \<open>
  The control-plane tables of payments (\<^verbatim>\<open>migrations/000010_payment_control_plane.up.sql\<close>): intents, sagas,
  provider operations, the inbox of verified webhooks, cases for manual review, and the directories of
  reservations and tickets that the payment worker reads or writes.

  A state column has a CHECK constraint that lists its values, so it is the type of the domain package.
  A lease is one value: its CHECK makes owner and deadline appear together. The guard of a row says what
  its CHECK constraints and its BEFORE UPDATE trigger accept; an update that a guard or a unique index
  refuses fails, and so does its transaction. \<^verbatim>\<open>updated_at\<close> is kept by a trigger and only orders claims; its
  values before and after a statement are taken from the environment.

  \<open>PayEnv\<close> holds what a transaction takes from outside: failing statements, the readings of
  \<^verbatim>\<open>clock_timestamp()\<close> (one per statement), rows locked by other transactions, the derivation of
  identifiers and digests, and whether the connection yields a transaction and commits it.
\<close>

subsection \<open>Texts with a pattern\<close>

definition lower_letter :: "char \<Rightarrow> bool" where
  "lower_letter c \<longleftrightarrow> 97 \<le> byte_of c \<and> byte_of c \<le> 122"

definition upper_letter :: "char \<Rightarrow> bool" where
  "upper_letter c \<longleftrightarrow> 65 \<le> byte_of c \<and> byte_of c \<le> 90"

definition decimal_digit :: "char \<Rightarrow> bool" where
  "decimal_digit c \<longleftrightarrow> 48 \<le> byte_of c \<and> byte_of c \<le> 57"

text \<open>
  \<^verbatim>\<open>^[A-Za-z0-9][A-Za-z0-9._:-]{0,127}$\<close>: owners of leases and identifiers given by a provider; a
  reference to a hosted session may have 256 characters.
\<close>

definition token_text :: "nat \<Rightarrow> string \<Rightarrow> bool" where
  "token_text n s \<longleftrightarrow> s \<noteq> [] \<and> length s \<le> n \<and>
     (lower_letter (hd s) \<or> upper_letter (hd s) \<or> decimal_digit (hd s)) \<and>
     list_all (\<lambda>c. lower_letter c \<or> upper_letter c \<or> decimal_digit c \<or> c \<in> {CHR ''.'', CHR ''_'', CHR '':'', CHR ''-''}) s"

definition identifierPattern :: "string \<Rightarrow> bool" where
  "identifierPattern = token_text 128"

text \<open>\<^verbatim>\<open>^[a-z][a-z0-9_]{0,63}$\<close>: a bounded error category.\<close>

definition categoryPattern :: "string \<Rightarrow> bool" where
  "categoryPattern s \<longleftrightarrow> s \<noteq> [] \<and> length s \<le> 64 \<and> lower_letter (hd s) \<and>
     list_all (\<lambda>c. lower_letter c \<or> decimal_digit c \<or> c = CHR ''_'') s"

text \<open>\<^verbatim>\<open>^[a-z][a-z0-9_-]{0,31}$\<close>: the name of a provider; \<^verbatim>\<open>^[A-Z]{3}$\<close>: a currency.\<close>

definition providerPattern :: "string \<Rightarrow> bool" where
  "providerPattern s \<longleftrightarrow> s \<noteq> [] \<and> length s \<le> 32 \<and> lower_letter (hd s) \<and>
     list_all (\<lambda>c. lower_letter c \<or> decimal_digit c \<or> c \<in> {CHR ''_'', CHR ''-''}) s"

definition currencyPattern :: "string \<Rightarrow> bool" where
  "currencyPattern s \<longleftrightarrow> length s = 3 \<and> list_all upper_letter s"

text \<open>A CHECK on a column holds of a null.\<close>

fun nullable :: "('a \<Rightarrow> bool) \<Rightarrow> 'a option \<Rightarrow> bool" where
  "nullable check None = True"
| "nullable check (Some x) = check x"

subsection \<open>Rows\<close>

type_synonym lease = "(string \<times> gotime) option"

datatype SagaStep =
    StepSecureReservation | StepCreateCheckout | StepAwaitProvider | StepAuthorize | StepCapture
  | StepReconcileProvider | StepIssueTickets | StepVoid | StepRefund | StepCompensate | StepComplete

datatype InboxState =
    InboxReceived | InboxProcessing | InboxProcessed | InboxIgnored | InboxFailedRetryable
  | InboxFailedPermanent | InboxSecurityConflict

record IntentRow =
  pi_id :: uuid
  pi_reservation :: uuid
  pi_train_run :: uuid
  pi_owner :: uuid
  pi_provider :: string
  pi_payment :: "string option"
  pi_hosted :: "string option"
  pi_amount :: int64
  pi_currency :: string
  pi_state :: IntentState
  pi_key :: "byte list"
  pi_fingerprint :: "byte list"
  pi_created :: gotime
  pi_completed :: "gotime option"

record SagaRow =
  sg_id :: uuid
  sg_intent :: uuid
  sg_reservation :: uuid
  sg_step :: SagaStep
  sg_state :: SagaState
  sg_lease :: lease
  sg_attempts :: int
  sg_next :: gotime
  sg_error :: "string option"
  sg_completed :: "gotime option"

record OperationRow =
  po_id :: uuid
  po_intent :: uuid
  po_provider :: string
  po_type :: OperationType
  po_key :: "byte list"
  po_provider_operation :: "string option"
  po_amount :: int64
  po_currency :: string
  po_state :: OperationState
  po_attempts :: int
  po_next :: gotime
  po_lease :: lease
  po_normalized :: "Status option"
  po_response :: "byte list option"
  po_error :: "string option"
  po_created :: gotime
  po_completed :: "gotime option"

record InboxRow =
  wi_id :: uuid
  wi_provider :: string
  wi_event :: string
  wi_type :: EventType
  wi_payment :: "string option"
  wi_hash :: "byte list"
  wi_created :: gotime
  wi_received :: gotime
  wi_state :: InboxState
  wi_attempts :: int
  wi_next :: gotime
  wi_lease :: lease
  wi_error :: "string option"
  wi_processed :: "gotime option"

record ReviewRow =
  rv_id :: uuid
  rv_intent :: uuid
  rv_operation :: "uuid option"
  rv_inbox :: "uuid option"
  rv_reason :: string
  rv_open :: bool
  rv_due :: gotime

text \<open>Another body under the identity of a stored event.\<close>

record ConflictRow =
  xc_id :: uuid
  xc_provider :: string
  xc_event :: string
  xc_canonical :: "byte list"
  xc_conflicting :: "byte list"
  xc_count :: int
  xc_first :: gotime
  xc_last :: gotime

record DirectoryRow =
  rd_reservation :: uuid
  rd_train_run :: uuid
  rd_owner :: uuid
  rd_active :: bool

record PaymentDb =
  payment_intents :: "IntentRow list"
  payment_sagas :: "SagaRow list"
  payment_operations :: "OperationRow list"
  payment_webhook_inbox :: "InboxRow list"
  payment_provider_event_conflicts :: "ConflictRow list"
  payment_manual_review_cases :: "ReviewRow list"
  reservation_directory :: "DirectoryRow list"
  pay_reservation_locators :: "ReservationLocator list"
  pay_ticket_order_locators :: "TicketOrderLocator list"
  pay_ticket_locators :: "TicketLocator list"
  ticket_code_directory :: "(string \<times> uuid) list"
  ticket_code_claims_ready :: bool

subsection \<open>The environment\<close>

text \<open>
  \<open>pid_NewSHA1\<close>, \<open>pid_Sum256\<close> and \<open>pid_String\<close> are \<^verbatim>\<open>uuid.NewSHA1\<close> (of a name space and a name),
  \<^verbatim>\<open>sha256.Sum256\<close> and \<^verbatim>\<open>uuid.UUID.String\<close>.
\<close>

record PayIds =
  pid_NewSHA1 :: "uuid \<Rightarrow> string \<Rightarrow> uuid"
  pid_Sum256 :: "byte list \<Rightarrow> byte list"
  pid_String :: "uuid \<Rightarrow> string"

record PayEnv =
  py_fault :: "string \<Rightarrow> bool"
  py_clock :: "string \<Rightarrow> gotime"
  py_locked_operation :: "uuid \<Rightarrow> bool"
  py_locked_saga :: "uuid \<Rightarrow> bool"
  py_locked_inbox :: "uuid \<Rightarrow> bool"
  py_updated :: "uuid \<Rightarrow> gotime"
  py_touched :: "uuid \<Rightarrow> gotime"
  py_ids :: PayIds

text \<open>Each package has errors of its own, so the error of a transaction is a type parameter.\<close>

type_synonym ('e, 'a) ptx = "(PaymentDb, 'e, 'a) tx"

subsection \<open>Guards of the rows\<close>

text \<open>The edges that the triggers accept, as \<^verbatim>\<open>guard_payment_intent_row\<close> and its like list them.\<close>

fun intent_guard_edges :: "IntentState \<Rightarrow> IntentState list" where
  "intent_guard_edges IntentCreated = [IntentReservationSecuring, IntentCancelled, IntentFailed]"
| "intent_guard_edges IntentReservationSecuring = [IntentCheckoutPending, IntentCancelled, IntentFailed, IntentManualReview]"
| "intent_guard_edges IntentCheckoutPending = [IntentAwaitingCustomer, IntentCancelled, IntentFailed, IntentManualReview]"
| "intent_guard_edges IntentAwaitingCustomer =
     [IntentAuthorizationPending, IntentVoidPending, IntentCancelled, IntentManualReview, IntentExpired]"
| "intent_guard_edges IntentAuthorizationPending = [IntentAuthorized, IntentCancelled, IntentFailed, IntentManualReview]"
| "intent_guard_edges IntentAuthorized = [IntentCapturePending, IntentVoidPending, IntentManualReview]"
| "intent_guard_edges IntentCapturePending = [IntentCaptured, IntentFailed, IntentManualReview]"
| "intent_guard_edges IntentCaptured = [IntentTicketIssuePending, IntentRefundPending, IntentManualReview]"
| "intent_guard_edges IntentTicketIssuePending = [IntentCompleted, IntentRefundPending, IntentFailed, IntentManualReview]"
| "intent_guard_edges IntentCompleted = [IntentRefundPending, IntentManualReview]"
| "intent_guard_edges IntentVoidPending = [IntentVoided, IntentManualReview]"
| "intent_guard_edges IntentVoided = [IntentCancelled]"
| "intent_guard_edges IntentRefundPending = [IntentRefunded, IntentManualReview]"
| "intent_guard_edges IntentRefunded = [IntentCancelled]"
| "intent_guard_edges IntentManualReview =
     [IntentAuthorizationPending, IntentAuthorized, IntentCapturePending, IntentCaptured, IntentTicketIssuePending,
      IntentVoidPending, IntentRefundPending, IntentCancelled, IntentFailed]"
| "intent_guard_edges _ = []"

fun saga_guard_edges :: "SagaState \<Rightarrow> SagaState list" where
  "saga_guard_edges SagaCreated = [SagaReservationSecured, SagaFailed, SagaManualReview]"
| "saga_guard_edges SagaReservationSecured = [SagaCheckoutCreated, SagaFailed, SagaManualReview]"
| "saga_guard_edges SagaCheckoutCreated = [SagaAwaitingProvider, SagaFailed, SagaManualReview]"
| "saga_guard_edges SagaAwaitingProvider = [SagaAuthorized, SagaCompensating, SagaFailed, SagaManualReview]"
| "saga_guard_edges SagaAuthorized = [SagaCapturing, SagaCompensating, SagaManualReview]"
| "saga_guard_edges SagaCapturing = [SagaCaptured, SagaFailed, SagaManualReview]"
| "saga_guard_edges SagaCaptured = [SagaIssuingTickets, SagaCompensating, SagaManualReview]"
| "saga_guard_edges SagaIssuingTickets = [SagaCompleted, SagaCompensating, SagaFailed, SagaManualReview]"
| "saga_guard_edges SagaCompleted = [SagaCompensating]"
| "saga_guard_edges SagaCompensating = [SagaRefunding, SagaCompensated, SagaFailed, SagaManualReview]"
| "saga_guard_edges SagaRefunding = [SagaCompensated, SagaFailed, SagaManualReview]"
| "saga_guard_edges SagaManualReview =
     [SagaAwaitingProvider, SagaAuthorized, SagaCapturing, SagaCaptured, SagaIssuingTickets, SagaCompleted,
      SagaCompensating, SagaRefunding, SagaCompensated, SagaFailed]"
| "saga_guard_edges _ = []"

fun operation_guard_edges :: "OperationState \<Rightarrow> OperationState list" where
  "operation_guard_edges OperationPending = [OperationClaimed, OperationCancelled]"
| "operation_guard_edges OperationClaimed = [OperationPending, OperationInFlight, OperationCancelled]"
| "operation_guard_edges OperationInFlight =
     [OperationSucceeded, OperationFailedRetryable, OperationFailedPermanent, OperationUncertain]"
| "operation_guard_edges OperationFailedRetryable = [OperationPending, OperationCancelled]"
| "operation_guard_edges OperationUncertain = [OperationSucceeded, OperationFailedRetryable, OperationFailedPermanent]"
| "operation_guard_edges _ = []"

fun inbox_guard_edges :: "InboxState \<Rightarrow> InboxState list" where
  "inbox_guard_edges InboxReceived = [InboxProcessing, InboxIgnored, InboxSecurityConflict]"
| "inbox_guard_edges InboxProcessing =
     [InboxProcessed, InboxIgnored, InboxFailedRetryable, InboxFailedPermanent, InboxSecurityConflict]"
| "inbox_guard_edges InboxFailedRetryable = [InboxProcessing, InboxFailedPermanent, InboxSecurityConflict]"
| "inbox_guard_edges _ = []"

definition intent_ended :: "IntentState \<Rightarrow> bool" where
  "intent_ended s \<longleftrightarrow>
     s \<in> {IntentCompleted, IntentVoided, IntentRefunded, IntentCancelled, IntentFailed, IntentExpired}"

definition saga_ended :: "SagaState \<Rightarrow> bool" where
  "saga_ended s \<longleftrightarrow> s \<in> {SagaCompleted, SagaCompensated, SagaFailed}"

definition lease_check :: "lease \<Rightarrow> bool" where
  "lease_check l \<longleftrightarrow> nullable (\<lambda>(owner, _). identifierPattern owner) l"

definition error_check :: "string option \<Rightarrow> bool" where
  "error_check e \<longleftrightarrow> nullable categoryPattern e"

definition attempts_check :: "int \<Rightarrow> bool" where
  "attempts_check n \<longleftrightarrow> 0 \<le> n \<and> n \<le> 1000000"

text \<open>The CHECK constraints of a row.\<close>

definition intent_check :: "IntentRow \<Rightarrow> bool" where
  "intent_check r \<longleftrightarrow>
     providerPattern (pi_provider r) \<and> nullable identifierPattern (pi_payment r) \<and>
     nullable (token_text 256) (pi_hosted r) \<and> 0 \<le> pi_amount r \<and> currencyPattern (pi_currency r) \<and>
     length (pi_key r) = 32 \<and> length (pi_fingerprint r) = 32 \<and>
     (pi_hosted r \<noteq> None \<longrightarrow> pi_payment r \<noteq> None) \<and>
     (intent_ended (pi_state r) \<longrightarrow> pi_completed r \<noteq> None)"

definition saga_check :: "SagaRow \<Rightarrow> bool" where
  "saga_check r \<longleftrightarrow>
     attempts_check (sg_attempts r) \<and> error_check (sg_error r) \<and> lease_check (sg_lease r) \<and>
     (if saga_ended (sg_state r) then sg_completed r \<noteq> None \<and> sg_lease r = None else sg_completed r = None)"

definition success_state :: "OperationType \<Rightarrow> Status \<Rightarrow> bool" where
  "success_state kind status \<longleftrightarrow>
     (case kind of
        OperationQueryStatus \<Rightarrow> True
      | OperationCreateCheckout \<Rightarrow> status = StatusCreated \<or> status = StatusRequiresCustomerAction
      | OperationAuthorize \<Rightarrow> status = StatusAuthorized
      | OperationCapture \<Rightarrow> status = StatusCaptured
      | OperationVoid \<Rightarrow> status = StatusVoided
      | OperationRefund \<Rightarrow> status = StatusRefunded
      | OperationTypeOther _ \<Rightarrow> False)"

fun known_status :: "Status \<Rightarrow> bool" where
  "known_status (StatusOther _) = False"
| "known_status _ = True"

definition operation_check :: "OperationRow \<Rightarrow> bool" where
  "operation_check r \<longleftrightarrow>
     providerPattern (po_provider r) \<and> validOperationTypes (po_type r) \<and> length (po_key r) = 32 \<and>
     nullable identifierPattern (po_provider_operation r) \<and>
     0 \<le> po_amount r \<and> currencyPattern (po_currency r) \<and> attempts_check (po_attempts r) \<and>
     nullable known_status (po_normalized r) \<and> nullable (\<lambda>b. length b = 32) (po_response r) \<and> error_check (po_error r) \<and>
     (if po_state r \<in> {OperationClaimed, OperationInFlight} then po_lease r \<noteq> None \<and> lease_check (po_lease r)
      else po_lease r = None) \<and>
     (po_completed r \<noteq> None \<longleftrightarrow> po_state r \<in> {OperationSucceeded, OperationFailedPermanent, OperationCancelled}) \<and>
     (po_state r \<in> {OperationFailedRetryable, OperationFailedPermanent, OperationUncertain} \<longrightarrow> po_error r \<noteq> None) \<and>
     (po_state r = OperationSucceeded \<longrightarrow>
        po_response r \<noteq> None \<and> (po_type r = OperationQueryStatus \<or> po_provider_operation r \<noteq> None) \<and>
        (case po_normalized r of None \<Rightarrow> False | Some status \<Rightarrow> success_state (po_type r) status))"

definition inbox_check :: "InboxRow \<Rightarrow> bool" where
  "inbox_check r \<longleftrightarrow>
     providerPattern (wi_provider r) \<and> identifierPattern (wi_event r) \<and> identifierPattern (event_type_name (wi_type r)) \<and>
     nullable identifierPattern (wi_payment r) \<and> length (wi_hash r) = 32 \<and> attempts_check (wi_attempts r) \<and> error_check (wi_error r) \<and>
     (if wi_state r = InboxProcessing then wi_lease r \<noteq> None \<and> lease_check (wi_lease r) else wi_lease r = None) \<and>
     (wi_processed r \<noteq> None \<longleftrightarrow>
        wi_state r \<in> {InboxProcessed, InboxIgnored, InboxFailedPermanent, InboxSecurityConflict}) \<and>
     (wi_state r \<in> {InboxFailedRetryable, InboxFailedPermanent, InboxSecurityConflict} \<longrightarrow> wi_error r \<noteq> None)"

text \<open>What the triggers compare between the old row and the new one.\<close>

definition intent_guard :: "DirectoryRow list \<Rightarrow> IntentRow \<Rightarrow> IntentRow \<Rightarrow> bool" where
  "intent_guard dir old new \<longleftrightarrow>
     list_ex (\<lambda>d. rd_reservation d = pi_reservation new \<and> rd_train_run d = pi_train_run new \<and>
                  rd_owner d = pi_owner new \<and> rd_active d) dir \<and>
     pi_id new = pi_id old \<and> pi_reservation new = pi_reservation old \<and> pi_train_run new = pi_train_run old \<and>
     pi_owner new = pi_owner old \<and> pi_provider new = pi_provider old \<and> pi_amount new = pi_amount old \<and>
     pi_currency new = pi_currency old \<and> pi_key new = pi_key old \<and> pi_fingerprint new = pi_fingerprint old \<and>
     (pi_payment old \<noteq> None \<longrightarrow> pi_payment new = pi_payment old) \<and>
     (pi_hosted old \<noteq> None \<longrightarrow> pi_hosted new = pi_hosted old) \<and>
     (pi_completed old \<noteq> None \<longrightarrow> pi_completed new = pi_completed old) \<and>
     (pi_state new \<noteq> pi_state old \<longrightarrow> pi_state new \<in> set (intent_guard_edges (pi_state old))) \<and>
     (pi_completed new \<noteq> None \<and> pi_completed old = None \<longrightarrow> intent_ended (pi_state new))"

definition saga_guard :: "SagaRow \<Rightarrow> SagaRow \<Rightarrow> bool" where
  "saga_guard old new \<longleftrightarrow>
     sg_id new = sg_id old \<and> sg_intent new = sg_intent old \<and> sg_reservation new = sg_reservation old \<and>
     (sg_state new \<noteq> sg_state old \<longrightarrow> sg_state new \<in> set (saga_guard_edges (sg_state old)))"

definition operation_guard :: "OperationRow \<Rightarrow> OperationRow \<Rightarrow> bool" where
  "operation_guard old new \<longleftrightarrow>
     po_id new = po_id old \<and> po_intent new = po_intent old \<and> po_provider new = po_provider old \<and>
     po_type new = po_type old \<and> po_key new = po_key old \<and> po_amount new = po_amount old \<and>
     po_currency new = po_currency old \<and>
     (po_provider_operation old \<noteq> None \<longrightarrow> po_provider_operation new = po_provider_operation old) \<and>
     (po_state old = OperationSucceeded \<longrightarrow>
        po_state new = po_state old \<and> po_provider_operation new = po_provider_operation old \<and>
        po_normalized new = po_normalized old \<and> po_response new = po_response old \<and> po_completed new = po_completed old) \<and>
     (po_state new \<noteq> po_state old \<longrightarrow> po_state new \<in> set (operation_guard_edges (po_state old)))"

definition succeeded :: "OperationRow list \<Rightarrow> uuid \<Rightarrow> OperationType \<Rightarrow> OperationRow \<Rightarrow> bool" where
  "succeeded rows intentID kind r \<longleftrightarrow>
     r \<in> set rows \<and> po_intent r = intentID \<and> po_type r = kind \<and> po_state r = OperationSucceeded"

text \<open>\<^verbatim>\<open>guard_payment_financial_settlement\<close>.\<close>

definition settlement_guard :: "OperationRow list \<Rightarrow> OperationRow \<Rightarrow> OperationRow \<Rightarrow> bool" where
  "settlement_guard rows old new \<longleftrightarrow>
     (po_state new = OperationSucceeded \<and> po_state old \<noteq> po_state new \<longrightarrow>
       (po_type new = OperationRefund \<longrightarrow>
          list_ex (\<lambda>c. succeeded rows (po_intent new) OperationCapture c \<and> po_amount c = po_amount new \<and>
                       po_currency c = po_currency new) rows) \<and>
       (po_type new = OperationCapture \<longrightarrow> \<not> list_ex (succeeded rows (po_intent new) OperationVoid) rows) \<and>
       (po_type new = OperationVoid \<longrightarrow> \<not> list_ex (succeeded rows (po_intent new) OperationCapture) rows))"

definition inbox_guard :: "InboxRow \<Rightarrow> InboxRow \<Rightarrow> bool" where
  "inbox_guard old new \<longleftrightarrow>
     wi_id new = wi_id old \<and> wi_provider new = wi_provider old \<and> wi_event new = wi_event old \<and>
     wi_type new = wi_type old \<and> wi_payment new = wi_payment old \<and> wi_hash new = wi_hash old \<and> wi_created new = wi_created old \<and>
     wi_received new = wi_received old \<and>
     (wi_state new \<noteq> wi_state old \<longrightarrow> wi_state new \<in> set (inbox_guard_edges (wi_state old)))"

text \<open>Unique keys and unique indexes. A null never equals another.\<close>

fun distinct_some :: "'a option list \<Rightarrow> bool" where
  "distinct_some [] = True"
| "distinct_some (None # xs) = distinct_some xs"
| "distinct_some (Some x # xs) = (Some x \<notin> set xs \<and> distinct_some xs)"

definition intents_unique :: "IntentRow list \<Rightarrow> bool" where
  "intents_unique rows \<longleftrightarrow>
     distinct (map pi_id rows) \<and> distinct (map (\<lambda>r. (pi_owner r, pi_key r)) rows) \<and>
     distinct_some (map (\<lambda>r. map_option (Pair (pi_provider r)) (pi_payment r)) rows) \<and>
     distinct (map pi_reservation (filter (\<lambda>r. \<not> intent_ended (pi_state r)) rows))"

definition sagas_unique :: "SagaRow list \<Rightarrow> bool" where
  "sagas_unique rows \<longleftrightarrow>
     distinct (map sg_id rows) \<and>
     distinct (map sg_intent (filter (\<lambda>r. \<not> saga_ended (sg_state r)) rows)) \<and>
     distinct (map sg_reservation (filter (\<lambda>r. \<not> saga_ended (sg_state r)) rows))"

definition operations_unique :: "OperationRow list \<Rightarrow> bool" where
  "operations_unique rows \<longleftrightarrow>
     distinct (map po_id rows) \<and> distinct (map (\<lambda>r. (po_provider r, po_key r)) rows) \<and>
     distinct_some (map (\<lambda>r. map_option (Pair (po_provider r)) (po_provider_operation r)) rows) \<and>
     distinct (map (\<lambda>r. (po_intent r, po_type r)) (filter (\<lambda>r. po_type r \<noteq> OperationQueryStatus) rows))"

definition inbox_unique :: "InboxRow list \<Rightarrow> bool" where
  "inbox_unique rows \<longleftrightarrow> distinct (map wi_id rows) \<and> distinct (map (\<lambda>r. (wi_provider r, wi_event r)) rows)"


subsection \<open>Statements\<close>

text \<open>
  An UPDATE: the rows that satisfy the condition are replaced and counted, unless the statement fails, a guard
  refuses one of the new rows or a unique index would be broken.
\<close>

definition update_table ::
  "(PaymentDb \<Rightarrow> 'r list) \<Rightarrow> ('r list \<Rightarrow> PaymentDb \<Rightarrow> PaymentDb) \<Rightarrow> (PaymentDb \<Rightarrow> 'r \<Rightarrow> 'r \<Rightarrow> bool) \<Rightarrow> ('r list \<Rightarrow> bool) \<Rightarrow>
     PayEnv \<Rightarrow> string \<Rightarrow> 'e \<Rightarrow> (PaymentDb \<Rightarrow> 'r \<Rightarrow> bool) \<Rightarrow> ('r \<Rightarrow> 'r) \<Rightarrow> ('e, nat) ptx" where
  "update_table rows_of put guard uniq env label err wh upd =
     (\<lambda>db. let rows = rows_of db; rows' = map (\<lambda>r. if wh db r then upd r else r) rows in
        if py_fault env label \<or> \<not> list_all (\<lambda>r. wh db r \<longrightarrow> guard db r (upd r)) rows \<or> \<not> uniq rows' then Inl err
        else Inr (length (filter (wh db) rows), put rows' db))"

definition update_intents :: "PayEnv \<Rightarrow> string \<Rightarrow> 'e \<Rightarrow> (PaymentDb \<Rightarrow> IntentRow \<Rightarrow> bool) \<Rightarrow> (IntentRow \<Rightarrow> IntentRow) \<Rightarrow> ('e, nat) ptx" where
  "update_intents =
     update_table payment_intents (\<lambda>rows db. db\<lparr>payment_intents := rows\<rparr>)
       (\<lambda>db old new. intent_guard (reservation_directory db) old new \<and> intent_check new) intents_unique"

definition update_sagas :: "PayEnv \<Rightarrow> string \<Rightarrow> 'e \<Rightarrow> (PaymentDb \<Rightarrow> SagaRow \<Rightarrow> bool) \<Rightarrow> (SagaRow \<Rightarrow> SagaRow) \<Rightarrow> ('e, nat) ptx" where
  "update_sagas =
     update_table payment_sagas (\<lambda>rows db. db\<lparr>payment_sagas := rows\<rparr>)
       (\<lambda>db old new. saga_guard old new \<and> saga_check new) sagas_unique"

definition update_operations ::
  "PayEnv \<Rightarrow> string \<Rightarrow> 'e \<Rightarrow> (PaymentDb \<Rightarrow> OperationRow \<Rightarrow> bool) \<Rightarrow> (OperationRow \<Rightarrow> OperationRow) \<Rightarrow> ('e, nat) ptx" where
  "update_operations =
     update_table payment_operations (\<lambda>rows db. db\<lparr>payment_operations := rows\<rparr>)
       (\<lambda>db old new. operation_guard old new \<and> settlement_guard (payment_operations db) old new \<and> operation_check new)
       operations_unique"

definition update_inbox :: "PayEnv \<Rightarrow> string \<Rightarrow> 'e \<Rightarrow> (PaymentDb \<Rightarrow> InboxRow \<Rightarrow> bool) \<Rightarrow> (InboxRow \<Rightarrow> InboxRow) \<Rightarrow> ('e, nat) ptx" where
  "update_inbox =
     update_table payment_webhook_inbox (\<lambda>rows db. db\<lparr>payment_webhook_inbox := rows\<rparr>)
       (\<lambda>db old new. inbox_guard old new \<and> inbox_check new) inbox_unique"

definition anyRows :: "('e, nat) ptx \<Rightarrow> ('e, unit) ptx" where
  "anyRows m = tx_bind m (\<lambda>_. tx_return ())"

text \<open>The foreign key of an operation: it has the provider, the amount and the currency of its intent.\<close>

definition operation_of_intent :: "IntentRow list \<Rightarrow> OperationRow \<Rightarrow> bool" where
  "operation_of_intent intents r \<longleftrightarrow>
     list_ex (\<lambda>i. pi_id i = po_intent r \<and> pi_provider i = po_provider r \<and> pi_amount i = po_amount r \<and>
                  pi_currency i = po_currency r) intents"

text \<open>A new operation; the columns that are not inserted have their defaults.\<close>

definition new_operation ::
  "gotime \<Rightarrow> uuid \<Rightarrow> uuid \<Rightarrow> string \<Rightarrow> OperationType \<Rightarrow> byte list \<Rightarrow> int64 \<Rightarrow> string \<Rightarrow> OperationRow" where
  "new_operation now operationID intentID provider kind keyHash amount cur =
     \<lparr>po_id = operationID, po_intent = intentID, po_provider = provider, po_type = kind, po_key = keyHash,
      po_provider_operation = None, po_amount = amount, po_currency = cur, po_state = OperationPending,
      po_attempts = 0, po_next = now, po_lease = None, po_normalized = None, po_response = None, po_error = None,
      po_created = now, po_completed = None\<rparr>"

text \<open>\<^verbatim>\<open>INSERT INTO payment_operations ... ON CONFLICT DO NOTHING\<close>.\<close>

definition insert_operation_row :: "PayEnv \<Rightarrow> string \<Rightarrow> 'e \<Rightarrow> OperationRow \<Rightarrow> ('e, unit) ptx" where
  "insert_operation_row env label err r =
     (\<lambda>db. if py_fault env label \<or> \<not> operation_check r then Inl err
           else if \<not> operations_unique (payment_operations db @ [r]) then Inr ((), db)
           else if \<not> operation_of_intent (payment_intents db) r then Inl err
           else Inr ((), db\<lparr>payment_operations := payment_operations db @ [r]\<rparr>))"

text \<open>
  \<^verbatim>\<open>INSERT INTO payment_manual_review_cases ... ON CONFLICT DO NOTHING\<close>: its identifier is unique, and an
  intent has one open case for a reason.
\<close>

definition insert_review_row :: "PayEnv \<Rightarrow> string \<Rightarrow> 'e \<Rightarrow> ReviewRow \<Rightarrow> ('e, unit) ptx" where
  "insert_review_row env label err r =
     (\<lambda>db. if py_fault env label \<or> \<not> categoryPattern (rv_reason r) then Inl err
           else if list_ex (\<lambda>x. rv_id x = rv_id r \<or> rv_intent x = rv_intent r \<and> rv_reason x = rv_reason r \<and> rv_open x)
                     (payment_manual_review_cases db) then Inr ((), db)
           else if \<not> list_ex (\<lambda>i. pi_id i = rv_intent r) (payment_intents db) \<or>
                   \<not> nullable (\<lambda>k. list_ex (\<lambda>x. po_id x = k \<and> po_intent x = rv_intent r) (payment_operations db)) (rv_operation r) \<or>
                   \<not> nullable (\<lambda>k. list_ex (\<lambda>x. wi_id x = k) (payment_webhook_inbox db)) (rv_inbox r) then Inl err
           else Inr ((), db\<lparr>payment_manual_review_cases := payment_manual_review_cases db @ [r]\<rparr>))"

text \<open>A query of one row: the first row, if there is one.\<close>

definition query_row :: "PayEnv \<Rightarrow> string \<Rightarrow> 'e \<Rightarrow> (PaymentDb \<Rightarrow> 'a list) \<Rightarrow> ('e, 'a option) ptx" where
  "query_row env label err q =
     tx_bind (tx_reject (py_fault env label) err)
       (\<lambda>_. tx_get (\<lambda>db. case q db of [] \<Rightarrow> None | x # _ \<Rightarrow> Some x))"

text \<open>A lease held by an owner at an instant.\<close>

definition lease_held :: "string \<Rightarrow> gotime \<Rightarrow> lease \<Rightarrow> bool" where
  "lease_held owner now l \<longleftrightarrow> (case l of None \<Rightarrow> False | Some (o', until) \<Rightarrow> o' = owner \<and> now \<le> until)"

definition lease_owned :: "string \<Rightarrow> lease \<Rightarrow> bool" where
  "lease_owned owner l \<longleftrightarrow> (case l of None \<Rightarrow> False | Some (o', _) \<Rightarrow> o' = owner)"

definition lease_free :: "gotime \<Rightarrow> lease \<Rightarrow> bool" where
  "lease_free now l \<longleftrightarrow> (case l of None \<Rightarrow> True | Some (_, until) \<Rightarrow> until < now)"

end
