(* ===== verification/Payment_Shard.thy ===== *)
theory Payment_Shard
  imports Go_Strings Shard_Route
begin

text \<open>
  Commands of payments to the booking shards (\<^verbatim>\<open>internal/payment/shard\<close>): their records, the fingerprint of a
  cancellation after a void, and the gateway that resolves the shard of a reservation, runs a command there
  and, when the route was stale or the run fenced, resolves it once more.

  The gateway is a client of two interfaces, the directory and the store of a shard; they are arguments of its
  methods, functions on a world of any type. An error is the list of the sentinel errors it wraps (what
  \<^verbatim>\<open>errors.Is\<close> finds) with its text.
\<close>

subsection \<open>Errors\<close>

datatype sentinel =
    IsAssignmentStale | IsWriteFenced | IsPaymentNotFound | IsReservationNotPayable | IsPaymentConflict
  | IsShardPaymentUnavailable | IsTicketPlanUnavailable | IsTicketClaimUnavailable | IsTicketClaimReadFailed
  | IsTicketClaimReadTimeout | IsTicketClaimSQLFailed | IsTicketClaimScanFailed | IsTicketClaimDecodeFailed
  | IsTicketClaimUnauthorized | IsTicketClaimConflict | IsTicketClaimCommitFailed | IsTicketIssueUnavailable

record GoError =
  ge_is :: "sentinel list"
  ge_text :: string

definition errors_Is :: "GoError \<Rightarrow> sentinel \<Rightarrow> bool" where
  "errors_Is e k \<longleftrightarrow> k \<in> set (ge_is e)"

text \<open>\<^verbatim>\<open>errors.Join\<close> separates the texts by a line feed.\<close>

definition errors_Join :: "GoError \<Rightarrow> GoError \<Rightarrow> GoError" where
  "errors_Join a b = \<lparr>ge_is = ge_is a @ ge_is b, ge_text = ge_text a @ [char_of (10 :: nat)] @ ge_text b\<rparr>"

text \<open>The sentinel errors and their texts.\<close>

fun sentinel_text :: "sentinel \<Rightarrow> string" where
  "sentinel_text IsAssignmentStale = ''assignment_stale''"
| "sentinel_text IsWriteFenced = ''write_fenced''"
| "sentinel_text IsPaymentNotFound = ''payment resource not found''"
| "sentinel_text IsReservationNotPayable = ''reservation not payable''"
| "sentinel_text IsPaymentConflict = ''payment intent conflict''"
| "sentinel_text IsShardPaymentUnavailable = ''payment shard unavailable''"
| "sentinel_text IsTicketPlanUnavailable = ''ticket issue plan unavailable''"
| "sentinel_text IsTicketClaimUnavailable = ''ticket code claim unavailable''"
| "sentinel_text IsTicketClaimReadFailed = ''ticket code claim authorization unavailable''"
| "sentinel_text IsTicketClaimReadTimeout = ''ticket code claim authorization timeout''"
| "sentinel_text IsTicketClaimSQLFailed = ''ticket code claim authorization query failed''"
| "sentinel_text IsTicketClaimScanFailed = ''ticket code claim authorization scan failed''"
| "sentinel_text IsTicketClaimDecodeFailed = ''ticket code claim authorization decode failed''"
| "sentinel_text IsTicketClaimUnauthorized = ''ticket code claim not authorized''"
| "sentinel_text IsTicketClaimConflict = ''ticket code claim conflict''"
| "sentinel_text IsTicketClaimCommitFailed = ''ticket code claim commit unavailable''"
| "sentinel_text IsTicketIssueUnavailable = ''ticket issue command unavailable''"

definition sentinel_error :: "sentinel \<Rightarrow> GoError" where
  "sentinel_error k = \<lparr>ge_is = [k], ge_text = sentinel_text k\<rparr>"

text \<open>The error may be nil: a route for another train run is no error of the directory.\<close>

definition mapShardError :: "GoError option \<Rightarrow> GoError" where
  "mapShardError err =
     (case err of
        None \<Rightarrow> sentinel_error IsShardPaymentUnavailable
      | Some e \<Rightarrow>
          if errors_Is e IsPaymentNotFound then sentinel_error IsPaymentNotFound
          else if errors_Is e IsReservationNotPayable then sentinel_error IsReservationNotPayable
          else if errors_Is e IsPaymentConflict then sentinel_error IsPaymentConflict
          else sentinel_error IsShardPaymentUnavailable)"

subsection \<open>Commands and receipts\<close>

record IssueTicketsCommand =
  ic_CommandID :: uuid
  ic_IssuanceID :: uuid
  ic_PaymentIntentID :: uuid
  ic_PaymentOperationID :: uuid
  ic_ReservationID :: uuid
  ic_TrainRunID :: uuid
  ic_OwnerID :: uuid
  ic_AmountMinor :: int64
  ic_Currency :: string
  ic_CaptureProofHash :: "byte list"
  ic_RequestFingerprint :: "byte list"
  ic_PlannedTicketIDs :: "uuid list"
  ic_PlannedTicketCodes :: "string list"

record TicketIdentityPlan =
  tp_TicketIDs :: "uuid list"
  tp_TicketCodes :: "string list"

record IssueTicketsReceipt =
  it_CommandID :: uuid
  it_IssuanceID :: uuid
  it_PaymentIntentID :: uuid
  it_ReservationID :: uuid
  it_TicketOrderID :: uuid
  it_TicketIDs :: "uuid list"
  it_TicketCodes :: "string list"
  it_AmountMinor :: int64
  it_Currency :: string
  it_OrderCreatedAt :: gotime
  it_IssuedAt :: gotime

record MarkRefundPendingCommand =
  mc_CommandID :: uuid
  mc_PaymentIntentID :: uuid
  mc_ReservationID :: uuid
  mc_TrainRunID :: uuid
  mc_OwnerID :: uuid
  mc_AmountMinor :: int64
  mc_Currency :: string
  mc_CaptureProofHash :: "byte list"
  mc_RequestFingerprint :: "byte list"

record MarkRefundPendingReceipt =
  mr_CommandID :: uuid
  mr_PaymentIntentID :: uuid
  mr_ReservationID :: uuid
  mr_TicketOrderID :: uuid

record CancelVoidedReservationCommand =
  vc_CommandID :: uuid
  vc_VoidOperationID :: uuid
  vc_PaymentIntentID :: uuid
  vc_ReservationID :: uuid
  vc_TrainRunID :: uuid
  vc_OwnerID :: uuid
  vc_AmountMinor :: int64
  vc_Currency :: string
  vc_VoidProofHash :: "byte list"
  vc_RequestFingerprint :: "byte list"
  vc_VoidedAt :: gotime

record CancelVoidedReservationReceipt =
  vr_CommandID :: uuid
  vr_VoidOperationID :: uuid
  vr_PaymentIntentID :: uuid
  vr_ReservationID :: uuid
  vr_TicketOrderID :: uuid
  vr_ReleasedSeatCount :: int
  vr_CancelledAt :: gotime

record ApplyRefundCompensationCommand =
  rc_CommandID :: uuid
  rc_CompensationID :: uuid
  rc_RefundOperationID :: uuid
  rc_PaymentIntentID :: uuid
  rc_ReservationID :: uuid
  rc_TrainRunID :: uuid
  rc_OwnerID :: uuid
  rc_AmountMinor :: int64
  rc_Currency :: string
  rc_RefundProofHash :: "byte list"
  rc_RequestFingerprint :: "byte list"
  rc_RefundedAt :: gotime

record ApplyRefundCompensationReceipt =
  rr_CommandID :: uuid
  rr_CompensationID :: uuid
  rr_PaymentIntentID :: uuid
  rr_ReservationID :: uuid
  rr_TicketOrderID :: uuid
  rr_ReleasedSeatCount :: int
  rr_CancelledTicketCount :: int

text \<open>\<^verbatim>\<open>^[A-Za-z0-9_-]{16,64}$\<close>.\<close>

definition ValidTicketCode :: "string \<Rightarrow> bool" where
  "ValidTicketCode value \<longleftrightarrow> 16 \<le> length value \<and> length value \<le> 64 \<and>
     list_all (\<lambda>c. 48 \<le> byte_of c \<and> byte_of c \<le> 57 \<or> 65 \<le> byte_of c \<and> byte_of c \<le> 90 \<or>
                   97 \<le> byte_of c \<and> byte_of c \<le> 122 \<or> c \<in> {CHR ''_'', CHR ''-''}) value"

text \<open>\<^verbatim>\<open>binary.BigEndian\<close>: the \<open>n\<close> lowest bytes of a number, the most significant first.\<close>

fun big_endian :: "nat \<Rightarrow> nat \<Rightarrow> byte list" where
  "big_endian 0 x = []"
| "big_endian (Suc n) x = big_endian n (x div 256) @ [word_of_nat (x mod 256)]"

definition uuid_bytes :: "uuid \<Rightarrow> byte list" where
  "uuid_bytes k = big_endian 16 k"

definition uint64_of :: "int64 \<Rightarrow> nat" where
  "uint64_of i = nat (i mod 2 ^ 64)"

text \<open>\<^verbatim>\<open>writeIdentityField\<close>: a text preceded by its length.\<close>

definition identity_field :: "byte list \<Rightarrow> byte list" where
  "identity_field v = big_endian 8 (length v) @ v"

text \<open>The bytes that \<^verbatim>\<open>VoidCancellationFingerprint\<close> hashes.\<close>

definition void_cancellation_bytes :: "CancelVoidedReservationCommand \<Rightarrow> byte list" where
  "void_cancellation_bytes command =
     string_bytes ''payment-void-cancellation-v1'' @
     concat (map uuid_bytes
       [vc_CommandID command, vc_VoidOperationID command, vc_PaymentIntentID command,
        vc_ReservationID command, vc_TrainRunID command, vc_OwnerID command]) @
     big_endian 8 (uint64_of (vc_AmountMinor command)) @ string_bytes (vc_Currency command) @ vc_VoidProofHash command"

definition VoidCancellationFingerprint :: "(byte list \<Rightarrow> byte list) \<Rightarrow> CancelVoidedReservationCommand \<Rightarrow> byte list" where
  "VoidCancellationFingerprint sum256 command = sum256 (void_cancellation_bytes command)"

subsection \<open>The gateway\<close>

type_synonym ('w, 'a) call = "'w \<Rightarrow> (GoError + 'a) \<times> 'w"

record 'w Gateway =
  gw_ResolveReservation :: "uuid \<Rightarrow> bool \<Rightarrow> ('w, ShardRoute) call"
  gw_ClaimTicketCodes :: "(IssueTicketsCommand \<Rightarrow> TicketIdentityPlan \<Rightarrow> ('w, unit) call) option"

definition stale_route :: "GoError \<Rightarrow> bool" where
  "stale_route e \<longleftrightarrow> errors_Is e IsAssignmentStale \<or> errors_Is e IsWriteFenced"

text \<open>
  The body that \<^verbatim>\<open>BeginPayment\<close>, \<^verbatim>\<open>MarkRefundPending\<close>, \<^verbatim>\<open>CancelVoidedReservation\<close> and
  \<^verbatim>\<open>ApplyRefundCompensation\<close> share: resolve, run, and after a stale route resolve again and run once more.
\<close>

definition gateway_command ::
  "'w Gateway \<Rightarrow> (ShardRoute \<Rightarrow> 'c \<Rightarrow> ('w, 'r) call) \<Rightarrow> uuid \<Rightarrow> uuid \<Rightarrow> 'c \<Rightarrow> ('w, 'r) call" where
  "gateway_command gateway run reservationID trainRunID command w =
     (if reservationID = uuid_Nil \<or> trainRunID = uuid_Nil then (Inl (sentinel_error IsReservationNotPayable), w)
      else case gw_ResolveReservation gateway reservationID False w of
        (Inl e, w1) \<Rightarrow> (Inl (mapShardError (Some e)), w1)
      | (Inr route, w1) \<Rightarrow>
          if route_trainRunID route \<noteq> trainRunID then (Inl (mapShardError None), w1)
          else (case run route command w1 of
             (Inr receipt, w2) \<Rightarrow> (Inr receipt, w2)
           | (Inl e, w2) \<Rightarrow>
               if \<not> stale_route e then (Inl (mapShardError (Some e)), w2)
               else (case gw_ResolveReservation gateway reservationID True w2 of
                  (Inl _, w3) \<Rightarrow> (Inl (sentinel_error IsShardPaymentUnavailable), w3)
                | (Inr refreshed, w3) \<Rightarrow>
                    if route_trainRunID refreshed \<noteq> trainRunID then (Inl (sentinel_error IsShardPaymentUnavailable), w3)
                    else run refreshed command w3)))"

definition Gateway_MarkRefundPending ::
  "'w Gateway \<Rightarrow> (ShardRoute \<Rightarrow> MarkRefundPendingCommand \<Rightarrow> ('w, MarkRefundPendingReceipt) call) \<Rightarrow>
     MarkRefundPendingCommand \<Rightarrow> ('w, MarkRefundPendingReceipt) call" where
  "Gateway_MarkRefundPending gateway run command =
     gateway_command gateway run (mc_ReservationID command) (mc_TrainRunID command) command"

definition Gateway_CancelVoidedReservation ::
  "'w Gateway \<Rightarrow> (ShardRoute \<Rightarrow> CancelVoidedReservationCommand \<Rightarrow> ('w, CancelVoidedReservationReceipt) call) \<Rightarrow>
     CancelVoidedReservationCommand \<Rightarrow> ('w, CancelVoidedReservationReceipt) call" where
  "Gateway_CancelVoidedReservation gateway run command =
     gateway_command gateway run (vc_ReservationID command) (vc_TrainRunID command) command"

definition Gateway_ApplyRefundCompensation ::
  "'w Gateway \<Rightarrow> (ShardRoute \<Rightarrow> ApplyRefundCompensationCommand \<Rightarrow> ('w, ApplyRefundCompensationReceipt) call) \<Rightarrow>
     ApplyRefundCompensationCommand \<Rightarrow> ('w, ApplyRefundCompensationReceipt) call" where
  "Gateway_ApplyRefundCompensation gateway run command =
     gateway_command gateway run (rc_ReservationID command) (rc_TrainRunID command) command"

text \<open>Tickets are issued only for identities that the control plane has claimed for them.\<close>

definition Gateway_IssueTickets ::
  "'w Gateway \<Rightarrow> (ShardRoute \<Rightarrow> IssueTicketsCommand \<Rightarrow> ('w, TicketIdentityPlan) call) \<Rightarrow>
     (ShardRoute \<Rightarrow> IssueTicketsCommand \<Rightarrow> ('w, IssueTicketsReceipt) call) \<Rightarrow>
     IssueTicketsCommand \<Rightarrow> ('w, IssueTicketsReceipt) call" where
  "Gateway_IssueTickets gateway plan_issue issue command w =
     (case gw_ClaimTicketCodes gateway of
        None \<Rightarrow> (Inl (sentinel_error IsReservationNotPayable), w)
      | Some claim_codes \<Rightarrow>
          if ic_ReservationID command = uuid_Nil \<or> ic_TrainRunID command = uuid_Nil
          then (Inl (sentinel_error IsReservationNotPayable), w)
          else case gw_ResolveReservation gateway (ic_ReservationID command) False w of
            (Inl e, w1) \<Rightarrow> (Inl (mapShardError (Some e)), w1)
          | (Inr route, w1) \<Rightarrow>
              if route_trainRunID route \<noteq> ic_TrainRunID command then (Inl (mapShardError None), w1)
              else (case plan_issue route command w1 of
                 (Inl e, w2) \<Rightarrow> (Inl (errors_Join (sentinel_error IsTicketPlanUnavailable) (mapShardError (Some e))), w2)
               | (Inr plan, w2) \<Rightarrow>
                   (case claim_codes command plan w2 of
                      (Inl e, w3) \<Rightarrow> (Inl (errors_Join (sentinel_error IsTicketClaimUnavailable) e), w3)
                    | (Inr _, w3) \<Rightarrow>
                        let planned = command\<lparr>ic_PlannedTicketIDs := tp_TicketIDs plan, ic_PlannedTicketCodes := tp_TicketCodes plan\<rparr> in
                        (case issue route planned w3 of
                           (Inr receipt, w4) \<Rightarrow> (Inr receipt, w4)
                         | (Inl e, w4) \<Rightarrow>
                             if \<not> stale_route e then (Inl (errors_Join (sentinel_error IsTicketIssueUnavailable) (mapShardError (Some e))), w4)
                             else (case gw_ResolveReservation gateway (ic_ReservationID command) True w4 of
                                (Inl _, w5) \<Rightarrow> (Inl (errors_Join (sentinel_error IsTicketIssueUnavailable) (sentinel_error IsShardPaymentUnavailable)), w5)
                              | (Inr refreshed, w5) \<Rightarrow>
                                  if route_trainRunID refreshed \<noteq> ic_TrainRunID command
                                  then (Inl (errors_Join (sentinel_error IsTicketIssueUnavailable) (sentinel_error IsShardPaymentUnavailable)), w5)
                                  else (case issue refreshed planned w5 of
                                     (Inl e', w6) \<Rightarrow> (Inl (errors_Join (sentinel_error IsTicketIssueUnavailable) (mapShardError (Some e'))), w6)
                                   | (Inr receipt, w6) \<Rightarrow> (Inr receipt, w6)))))))"


text \<open>The reservation that a payment is for, and the command that protects it while the payment runs.\<close>

record ReservationSnapshot =
  ss_ID :: uuid
  ss_OwnerID :: uuid
  ss_TrainRunID :: uuid
  ss_Status :: string
  ss_AmountMinor :: int64
  ss_Currency :: string
  ss_ExpiresAt :: gotime

record BeginPaymentCommand =
  bc_CommandID :: uuid
  bc_PaymentIntentID :: uuid
  bc_ReservationID :: uuid
  bc_TrainRunID :: uuid
  bc_OwnerID :: uuid
  bc_AmountMinor :: int64
  bc_Currency :: string
  bc_GraceExpiresAt :: gotime
  bc_RequestFingerprint :: "byte list"

record BeginPaymentReceipt =
  br_CommandID :: uuid
  br_PaymentIntentID :: uuid
  br_RequestFingerprint :: "byte list"

definition Gateway_BeginPayment ::
  "'w Gateway \<Rightarrow> (ShardRoute \<Rightarrow> BeginPaymentCommand \<Rightarrow> ('w, BeginPaymentReceipt) call) \<Rightarrow>
     BeginPaymentCommand \<Rightarrow> ('w, BeginPaymentReceipt) call" where
  "Gateway_BeginPayment gateway run command =
     gateway_command gateway run (bc_ReservationID command) (bc_TrainRunID command) command"

definition Gateway_GetPayableReservation ::
  "'w Gateway \<Rightarrow> (ShardRoute \<Rightarrow> uuid \<Rightarrow> ('w, ReservationSnapshot) call) \<Rightarrow> uuid \<Rightarrow> ('w, ReservationSnapshot) call" where
  "Gateway_GetPayableReservation gateway run reservationID w =
     (let mapped = (\<lambda>(r, w). case r of Inl e \<Rightarrow> (Inl (mapShardError (Some e)), w) | Inr snapshot \<Rightarrow> (Inr snapshot, w)) in
      if reservationID = uuid_Nil then (Inl (sentinel_error IsPaymentNotFound), w)
      else case gw_ResolveReservation gateway reservationID False w of
        (Inl e, w1) \<Rightarrow> (Inl (mapShardError (Some e)), w1)
      | (Inr route, w1) \<Rightarrow>
          (case run route reservationID w1 of
             (Inr snapshot, w2) \<Rightarrow> (Inr snapshot, w2)
           | (Inl e, w2) \<Rightarrow>
               if \<not> stale_route e then (Inl (mapShardError (Some e)), w2)
               else (case gw_ResolveReservation gateway reservationID True w2 of
                  (Inl e', w3) \<Rightarrow> (Inl (mapShardError (Some e')), w3)
                | (Inr refreshed, w3) \<Rightarrow> mapped (run refreshed reservationID w3))))"

end
