(* ===== verification/Payment_Claims.thy ===== *)
theory Payment_Claims
  imports Payment_Db Payment_Shard
begin

text \<open>
  How the payment worker claims work (\<^verbatim>\<open>internal/payment/worker/postgres/claim.go\<close>): due operations, received
  webhooks and saga actions are taken under a lease that is committed before anything is done with them.
  Expired leases are returned first: a claimed operation becomes pending again, one that was in flight becomes
  uncertain.

  A SELECT with joins is a list comprehension over the joined tables, sorted by its ORDER BY columns; in a
  statement with data-modifying parts the outer SELECT reads the rows as they were before it.
\<close>

datatype WorkerError = ErrStoreUnavailable | ErrLeaseLost | ErrStatement string

type_synonym 'a wtx = "(WorkerError, 'a) ptx"

text \<open>\<^verbatim>\<open>oneRow\<close>: a statement that touches another number of rows has lost its lease.\<close>

definition oneRow :: "nat wtx \<Rightarrow> unit wtx" where
  "oneRow m = tx_bind m (\<lambda>n. tx_reject (n \<noteq> 1) ErrLeaseLost)"

definition store_begin :: "PayEnv \<Rightarrow> unit wtx" where
  "store_begin env = tx_reject (py_fault env ''begin'') ErrStoreUnavailable"

definition store_commit :: "PayEnv \<Rightarrow> unit wtx" where
  "store_commit env = tx_reject (py_fault env ''commit'') ErrStoreUnavailable"

record ClaimOptions =
  cl_WorkerID :: string
  cl_BatchSize :: int
  cl_MaxAttempts :: int
  cl_LeaseTTL :: int64
  cl_Now :: gotime

record OperationClaim =
  oc_OperationID :: uuid
  oc_PaymentIntentID :: uuid
  oc_ReservationID :: uuid
  oc_TrainRunID :: uuid
  oc_OwnerID :: uuid
  oc_Provider :: string
  oc_Type :: OperationType
  oc_PreviousState :: OperationState
  oc_ProviderPaymentID :: string
  oc_HostedSessionReference :: string
  oc_ProviderActionToken :: string
  oc_ProviderIdempotencyKey :: string
  oc_AmountMinor :: int64
  oc_Currency :: string
  oc_Attempts :: int
  oc_CreatedAt :: gotime
  oc_LeaseOwner :: string
  oc_LeaseUntil :: gotime

record WebhookClaim =
  wc_InboxID :: uuid
  wc_Provider :: string
  wc_ProviderEventID :: string
  wc_EventType :: EventType
  wc_ProviderPaymentID :: string
  wc_EventCreatedAt :: gotime
  wc_Attempts :: int
  wc_LeaseOwner :: string
  wc_LeaseUntil :: gotime

datatype ActionType =
    ActionIssueTickets | ActionMarkRefundPending | ActionCancelVoided | ActionCompensate | ActionOther string

fun action_text :: "ActionType \<Rightarrow> string" where
  "action_text ActionIssueTickets = ''issue_tickets''"
| "action_text ActionMarkRefundPending = ''mark_refund_pending''"
| "action_text ActionCancelVoided = ''cancel_voided_reservation''"
| "action_text ActionCompensate = ''compensate''"
| "action_text (ActionOther s) = s"

record ActionClaim =
  ac_SagaID :: uuid
  ac_Type :: ActionType
  ac_Provider :: string
  ac_Attempts :: int
  ac_LeaseOwner :: string
  ac_LeaseUntil :: gotime
  ac_Issue :: IssueTicketsCommand
  ac_MarkRefund :: MarkRefundPendingCommand
  ac_CancelVoided :: CancelVoidedReservationCommand
  ac_Compensation :: ApplyRefundCompensationCommand

definition validClaimOptions :: "ClaimOptions \<Rightarrow> bool" where
  "validClaimOptions options \<longleftrightarrow>
     identifierPattern (cl_WorkerID options) \<and> 0 < cl_BatchSize options \<and> cl_BatchSize options \<le> 1000 \<and>
     0 < cl_MaxAttempts options \<and> cl_MaxAttempts options \<le> 1000 \<and> 0 < cl_LeaseTTL options \<and>
     \<not> IsZero_time (cl_Now options)"

text \<open>
  The instant of a claim as the database stores it, and the end of the lease: \<^verbatim>\<open>Milliseconds()\<close> cuts the
  duration to milliseconds.
\<close>

definition claim_now :: "ClaimOptions \<Rightarrow> gotime" where
  "claim_now options = pg_timestamptz (cl_Now options)"

definition claim_until :: "ClaimOptions \<Rightarrow> gotime" where
  "claim_until options = claim_now options + quot (cl_LeaseTTL options) 1000000 * 1000000"

definition coalesce :: "string option \<Rightarrow> string" where
  "coalesce x = (case x of None \<Rightarrow> [] | Some s \<Rightarrow> s)"

definition left_join :: "'a list \<Rightarrow> 'a option list" where
  "left_join xs = (if xs = [] then [None] else map Some xs)"

subsection \<open>Operations\<close>

text \<open>In which state of its saga an operation may be sent to the provider.\<close>

definition claimable_step :: "OperationType \<Rightarrow> SagaRow \<Rightarrow> bool" where
  "claimable_step kind saga \<longleftrightarrow>
     (case kind of
        OperationQueryStatus \<Rightarrow> True
      | OperationCreateCheckout \<Rightarrow> sg_state saga = SagaReservationSecured \<and> sg_step saga = StepCreateCheckout
      | OperationAuthorize \<Rightarrow> sg_state saga = SagaAwaitingProvider \<and> sg_step saga = StepAwaitProvider
      | OperationCapture \<Rightarrow> sg_state saga = SagaAuthorized \<and> sg_step saga = StepCapture
      | OperationVoid \<Rightarrow> sg_state saga = SagaCompensating \<and> sg_step saga = StepVoid
      | OperationRefund \<Rightarrow> sg_state saga = SagaRefunding \<and> sg_step saga = StepRefund
      | OperationTypeOther _ \<Rightarrow> False)"

definition operation_order :: "PayEnv \<Rightarrow> OperationRow \<Rightarrow> gotime \<times> gotime \<times> uuid" where
  "operation_order env r = (po_next r, py_updated env (po_id r), po_id r)"

definition due_operations :: "PayEnv \<Rightarrow> ClaimOptions \<Rightarrow> PaymentDb \<Rightarrow> OperationRow list" where
  "due_operations env options db =
     take (nat (cl_BatchSize options)) (sort_key (operation_order env)
       [p. p \<leftarrow> payment_operations db, i \<leftarrow> payment_intents db, s \<leftarrow> payment_sagas db,
           pi_id i = po_intent p, sg_intent s = po_intent p,
           po_state p = OperationPending, po_next p \<le> claim_now options, lease_free (claim_now options) (po_lease p),
           claimable_step (po_type p) s, \<not> py_locked_operation env (po_id p)])"

definition operation_claim ::
  "OperationRow \<Rightarrow> IntentRow \<Rightarrow> OperationState \<Rightarrow> int \<Rightarrow> string \<Rightarrow> gotime \<Rightarrow> OperationClaim" where
  "operation_claim p i previous attempts owner until =
     \<lparr>oc_OperationID = po_id p, oc_PaymentIntentID = po_intent p, oc_ReservationID = pi_reservation i,
      oc_TrainRunID = pi_train_run i, oc_OwnerID = pi_owner i, oc_Provider = po_provider p, oc_Type = po_type p,
      oc_PreviousState = previous, oc_ProviderPaymentID = coalesce (pi_payment i),
      oc_HostedSessionReference = coalesce (pi_hosted i), oc_ProviderActionToken = [],
      oc_ProviderIdempotencyKey = EncodeToString (po_key p), oc_AmountMinor = po_amount p,
      oc_Currency = po_currency p, oc_Attempts = attempts, oc_CreatedAt = po_created p,
      oc_LeaseOwner = owner, oc_LeaseUntil = until\<rparr>"

text \<open>\<^verbatim>\<open>scanOperationClaims\<close>: a key that is no digest fails the claim.\<close>

definition scanOperationClaims :: "(OperationRow \<times> OperationClaim) list \<Rightarrow> OperationClaim list wtx" where
  "scanOperationClaims rows =
     (if list_all (\<lambda>(p, _). length (po_key p) = 32) rows then tx_return (map snd rows)
      else tx_fail ErrStoreUnavailable)"

definition return_expired_operations :: "PayEnv \<Rightarrow> ClaimOptions \<Rightarrow> unit wtx" where
  "return_expired_operations env options =
     anyRows (update_operations env ''return expired operations'' ErrStoreUnavailable
       (\<lambda>_ r. po_state r \<in> {OperationClaimed, OperationInFlight} \<and>
          (case po_lease r of None \<Rightarrow> False | Some (_, until) \<Rightarrow> until < claim_now options))
       (\<lambda>r. r\<lparr>po_state := (if po_state r = OperationClaimed then OperationPending else OperationUncertain),
              po_lease := None, po_next := claim_now options,
              po_error := (if po_state r = OperationInFlight then Some ''worker_lease_expired'' else None)\<rparr>))"

definition retry_operations :: "PayEnv \<Rightarrow> ClaimOptions \<Rightarrow> unit wtx" where
  "retry_operations env options =
     anyRows (update_operations env ''retry operations'' ErrStoreUnavailable
       (\<lambda>_ r. po_state r = OperationFailedRetryable \<and> po_next r \<le> claim_now options \<and> po_attempts r < cl_MaxAttempts options)
       (\<lambda>r. r\<lparr>po_state := OperationPending, po_error := None\<rparr>))"

definition claim_pending_operations :: "PayEnv \<Rightarrow> ClaimOptions \<Rightarrow> OperationClaim list wtx" where
  "claim_pending_operations env options =
     tx_bind (tx_get (\<lambda>db. (due_operations env options db, payment_intents db))) (\<lambda>(due, intents).
     tx_bind (update_operations env ''claim operations'' ErrStoreUnavailable
       (\<lambda>_ r. po_id r \<in> set (map po_id due))
       (\<lambda>r. r\<lparr>po_state := OperationClaimed, po_attempts := po_attempts r + 1,
              po_lease := Some (cl_WorkerID options, claim_until options)\<rparr>)) (\<lambda>_.
     scanOperationClaims
       [(p, operation_claim p i OperationPending (po_attempts p + 1) (cl_WorkerID options) (claim_until options)).
          p \<leftarrow> sort_key (operation_order env) (remdups due), i \<leftarrow> intents, pi_id i = po_intent p]))"

text \<open>
  An uncertain operation is claimed through the lease of its saga, the one longest untouched first; it is only asked
  about, never sent again.
\<close>

definition saga_order :: "PayEnv \<Rightarrow> SagaRow \<Rightarrow> gotime \<times> uuid" where
  "saga_order env s = (py_updated env (sg_id s), sg_id s)"

definition first_uncertain :: "PayEnv \<Rightarrow> ClaimOptions \<Rightarrow> PaymentDb \<Rightarrow> SagaRow \<Rightarrow> OperationRow list" where
  "first_uncertain env options db s =
     take 1 (sort_key (\<lambda>p. (py_updated env (po_id p), po_id p))
       (filter (\<lambda>p. po_intent p = sg_intent s \<and> po_state p = OperationUncertain \<and> po_next p \<le> claim_now options)
          (payment_operations db)))"

definition uncertain_operations :: "PayEnv \<Rightarrow> ClaimOptions \<Rightarrow> int \<Rightarrow> PaymentDb \<Rightarrow> (SagaRow \<times> OperationRow) list" where
  "uncertain_operations env options remaining db =
     take (nat remaining) (sort_key (\<lambda>(s, p). po_id p)
       [(s, p). s \<leftarrow> sort_key (saga_order env) (payment_sagas db),
          lease_free (claim_now options) (sg_lease s), \<not> py_locked_saga env (sg_id s),
          p \<leftarrow> first_uncertain env options db s])"

definition claim_uncertain_operations :: "PayEnv \<Rightarrow> ClaimOptions \<Rightarrow> int \<Rightarrow> OperationClaim list wtx" where
  "claim_uncertain_operations env options remaining =
     tx_bind (tx_get (\<lambda>db. (uncertain_operations env options remaining db, payment_intents db))) (\<lambda>(selected, intents).
     tx_bind (update_sagas env ''lease sagas of uncertain operations'' ErrStoreUnavailable
       (\<lambda>_ s. sg_id s \<in> set (map (sg_id \<circ> fst) selected))
       (\<lambda>s. s\<lparr>sg_lease := Some (cl_WorkerID options, claim_until options), sg_attempts := sg_attempts s + 1\<rparr>)) (\<lambda>_.
     scanOperationClaims
       [(p, operation_claim p i OperationUncertain (po_attempts p) (cl_WorkerID options) (claim_until options)).
          p \<leftarrow> sort_key (\<lambda>p. (py_updated env (po_id p), po_id p)) (map snd selected), i \<leftarrow> intents, pi_id i = po_intent p]))"

definition claim_operations_tx :: "PayEnv \<Rightarrow> ClaimOptions \<Rightarrow> OperationClaim list wtx" where
  "claim_operations_tx env options =
     tx_bind (return_expired_operations env options) (\<lambda>_.
     tx_bind (retry_operations env options) (\<lambda>_.
     tx_bind (claim_pending_operations env options) (\<lambda>claims.
     tx_bind
       (let remaining = cl_BatchSize options - int (length claims) in
        if 0 < remaining
        then tx_bind (claim_uncertain_operations env options remaining) (\<lambda>more. tx_return (claims @ more))
        else tx_return claims) (\<lambda>all_claims.
     tx_bind (store_commit env) (\<lambda>_. tx_return all_claims)))))"

definition ClaimOperations :: "PayEnv \<Rightarrow> ClaimOptions \<Rightarrow> PaymentDb \<Rightarrow> (WorkerError + OperationClaim list) \<times> PaymentDb" where
  "ClaimOperations env options =
     run_tx (tx_bind (tx_reject (\<not> validClaimOptions options) ErrStoreUnavailable) (\<lambda>_.
             tx_bind (store_begin env) (\<lambda>_. claim_operations_tx env options)))"


subsection \<open>Webhooks\<close>

definition due_webhooks :: "PayEnv \<Rightarrow> ClaimOptions \<Rightarrow> PaymentDb \<Rightarrow> InboxRow list" where
  "due_webhooks env options db =
     take (nat (cl_BatchSize options)) (sort_key (\<lambda>r. (wi_next r, wi_received r, wi_id r))
       (filter (\<lambda>r. wi_state r \<in> {InboxReceived, InboxFailedRetryable} \<and> wi_next r \<le> claim_now options \<and>
          \<not> py_locked_inbox env (wi_id r)) (payment_webhook_inbox db)))"

definition webhook_claim :: "ClaimOptions \<Rightarrow> InboxRow \<Rightarrow> WebhookClaim" where
  "webhook_claim options r =
     \<lparr>wc_InboxID = wi_id r, wc_Provider = wi_provider r, wc_ProviderEventID = wi_event r, wc_EventType = wi_type r,
      wc_ProviderPaymentID = coalesce (wi_payment r), wc_EventCreatedAt = wi_created r, wc_Attempts = wi_attempts r + 1,
      wc_LeaseOwner = cl_WorkerID options, wc_LeaseUntil = claim_until options\<rparr>"

definition claim_webhooks_tx :: "PayEnv \<Rightarrow> ClaimOptions \<Rightarrow> WebhookClaim list wtx" where
  "claim_webhooks_tx env options =
     tx_bind (anyRows (update_inbox env ''return expired webhooks'' ErrStoreUnavailable
       (\<lambda>_ r. wi_state r = InboxProcessing \<and>
          (case wi_lease r of None \<Rightarrow> False | Some (_, until) \<Rightarrow> until < claim_now options))
       (\<lambda>r. r\<lparr>wi_state := InboxFailedRetryable, wi_lease := None, wi_error := Some ''worker_lease_expired'',
              wi_next := claim_now options\<rparr>))) (\<lambda>_.
     tx_bind (tx_get (due_webhooks env options)) (\<lambda>due.
     tx_bind (update_inbox env ''claim webhooks'' ErrStoreUnavailable
       (\<lambda>_ r. wi_id r \<in> set (map wi_id due))
       (\<lambda>r. r\<lparr>wi_state := InboxProcessing, wi_attempts := wi_attempts r + 1,
              wi_lease := Some (cl_WorkerID options, claim_until options), wi_error := None\<rparr>)) (\<lambda>_.
     tx_bind (store_commit env) (\<lambda>_. tx_return (map (webhook_claim options) due)))))"

definition ClaimWebhooks :: "PayEnv \<Rightarrow> ClaimOptions \<Rightarrow> PaymentDb \<Rightarrow> (WorkerError + WebhookClaim list) \<times> PaymentDb" where
  "ClaimWebhooks env options =
     run_tx (tx_bind (tx_reject (\<not> validClaimOptions options) ErrStoreUnavailable) (\<lambda>_.
             tx_bind (store_begin env) (\<lambda>_. claim_webhooks_tx env options)))"

subsection \<open>Actions\<close>

definition actionNamespace :: uuid where
  "actionNamespace = 0x8fd46050e41f5b3c876c77d4f4fa2570"

definition deterministicID :: "PayIds \<Rightarrow> uuid \<Rightarrow> string \<Rightarrow> uuid" where
  "deterministicID ids sagaID purpose = pid_NewSHA1 ids actionNamespace (pid_String ids sagaID @ '':'' @ purpose)"

definition actionFingerprint :: "PayIds \<Rightarrow> uuid \<Rightarrow> ActionType \<Rightarrow> byte list \<Rightarrow> byte list" where
  "actionFingerprint ids sagaID action proof_hash =
     pid_Sum256 ids (string_bytes (''payment-action-v1:'' @ pid_String ids sagaID @ '':'' @ action_text action @ '':'') @ proof_hash)"

definition actionable :: "SagaRow \<Rightarrow> bool" where
  "actionable s \<longleftrightarrow>
     sg_state s = SagaIssuingTickets \<and> sg_step s = StepIssueTickets \<or>
     sg_state s = SagaCompensating \<and> sg_step s = StepRefund \<or>
     sg_state s = SagaCompensating \<and> sg_step s = StepCompensate \<or>
     sg_state s = SagaRefunding \<and> sg_step s = StepCompensate"

definition due_sagas :: "PayEnv \<Rightarrow> ClaimOptions \<Rightarrow> PaymentDb \<Rightarrow> SagaRow list" where
  "due_sagas env options db =
     take (nat (cl_BatchSize options)) (sort_key (\<lambda>s. (sg_next s, py_updated env (sg_id s), sg_id s))
       (filter (\<lambda>s. sg_next s \<le> claim_now options \<and> lease_free (claim_now options) (sg_lease s) \<and> actionable s \<and>
          \<not> py_locked_saga env (sg_id s)) (payment_sagas db)))"

definition succeeded_rows :: "PaymentDb \<Rightarrow> uuid \<Rightarrow> OperationType \<Rightarrow> OperationRow list" where
  "succeeded_rows db intentID kind =
     filter (\<lambda>p. po_intent p = intentID \<and> po_type p = kind \<and> po_state p = OperationSucceeded) (payment_operations db)"

definition proof_of :: "OperationRow option \<Rightarrow> byte list" where
  "proof_of p = (case p of None \<Rightarrow> [] | Some r \<Rightarrow> (case po_response r of None \<Rightarrow> [] | Some b \<Rightarrow> b))"

definition zero_issue :: IssueTicketsCommand where
  "zero_issue = \<lparr>ic_CommandID = 0, ic_IssuanceID = 0, ic_PaymentIntentID = 0, ic_PaymentOperationID = 0, ic_ReservationID = 0,
     ic_TrainRunID = 0, ic_OwnerID = 0, ic_AmountMinor = 0, ic_Currency = [], ic_CaptureProofHash = replicate 32 0,
     ic_RequestFingerprint = replicate 32 0, ic_PlannedTicketIDs = [], ic_PlannedTicketCodes = []\<rparr>"

definition zero_mark :: MarkRefundPendingCommand where
  "zero_mark = \<lparr>mc_CommandID = 0, mc_PaymentIntentID = 0, mc_ReservationID = 0, mc_TrainRunID = 0, mc_OwnerID = 0,
     mc_AmountMinor = 0, mc_Currency = [], mc_CaptureProofHash = replicate 32 0, mc_RequestFingerprint = replicate 32 0\<rparr>"

definition zero_cancel :: CancelVoidedReservationCommand where
  "zero_cancel = \<lparr>vc_CommandID = 0, vc_VoidOperationID = 0, vc_PaymentIntentID = 0, vc_ReservationID = 0, vc_TrainRunID = 0,
     vc_OwnerID = 0, vc_AmountMinor = 0, vc_Currency = [], vc_VoidProofHash = replicate 32 0,
     vc_RequestFingerprint = replicate 32 0, vc_VoidedAt = 0\<rparr>"

definition zero_compensation :: ApplyRefundCompensationCommand where
  "zero_compensation = \<lparr>rc_CommandID = 0, rc_CompensationID = 0, rc_RefundOperationID = 0, rc_PaymentIntentID = 0,
     rc_ReservationID = 0, rc_TrainRunID = 0, rc_OwnerID = 0, rc_AmountMinor = 0, rc_Currency = [],
     rc_RefundProofHash = replicate 32 0, rc_RequestFingerprint = replicate 32 0, rc_RefundedAt = 0\<rparr>"

definition zero_claim :: "ClaimOptions \<Rightarrow> SagaRow \<Rightarrow> IntentRow \<Rightarrow> ActionClaim" where
  "zero_claim options s i =
     \<lparr>ac_SagaID = sg_id s, ac_Type = ActionOther [], ac_Provider = pi_provider i, ac_Attempts = sg_attempts s + 1,
      ac_LeaseOwner = cl_WorkerID options, ac_LeaseUntil = claim_until options, ac_Issue = zero_issue,
      ac_MarkRefund = zero_mark, ac_CancelVoided = zero_cancel, ac_Compensation = zero_compensation\<rparr>"

definition issue_command :: "PayIds \<Rightarrow> uuid \<Rightarrow> IntentRow \<Rightarrow> uuid \<Rightarrow> byte list \<Rightarrow> IssueTicketsCommand" where
  "issue_command ids sagaID i captureID captureProof =
     \<lparr>ic_CommandID = deterministicID ids sagaID ''issue_tickets_command'',
      ic_IssuanceID = deterministicID ids sagaID ''ticket_issuance'', ic_PaymentIntentID = pi_id i,
      ic_PaymentOperationID = captureID, ic_ReservationID = pi_reservation i, ic_TrainRunID = pi_train_run i,
      ic_OwnerID = pi_owner i, ic_AmountMinor = pi_amount i, ic_Currency = pi_currency i,
      ic_CaptureProofHash = captureProof,
      ic_RequestFingerprint = actionFingerprint ids sagaID ActionIssueTickets captureProof,
      ic_PlannedTicketIDs = [], ic_PlannedTicketCodes = []\<rparr>"

definition mark_refund_command :: "PayIds \<Rightarrow> uuid \<Rightarrow> IntentRow \<Rightarrow> byte list \<Rightarrow> MarkRefundPendingCommand" where
  "mark_refund_command ids sagaID i captureProof =
     \<lparr>mc_CommandID = deterministicID ids sagaID ''mark_refund_pending_command'', mc_PaymentIntentID = pi_id i,
      mc_ReservationID = pi_reservation i, mc_TrainRunID = pi_train_run i, mc_OwnerID = pi_owner i,
      mc_AmountMinor = pi_amount i, mc_Currency = pi_currency i, mc_CaptureProofHash = captureProof,
      mc_RequestFingerprint = actionFingerprint ids sagaID ActionMarkRefundPending captureProof\<rparr>"

definition cancel_voided_command ::
  "PayIds \<Rightarrow> uuid \<Rightarrow> IntentRow \<Rightarrow> uuid \<Rightarrow> byte list \<Rightarrow> gotime \<Rightarrow> CancelVoidedReservationCommand" where
  "cancel_voided_command ids sagaID i voidID voidProof voidedAt =
     (let command =
        \<lparr>vc_CommandID = deterministicID ids sagaID ''void_cancellation_command'', vc_VoidOperationID = voidID,
         vc_PaymentIntentID = pi_id i, vc_ReservationID = pi_reservation i, vc_TrainRunID = pi_train_run i,
         vc_OwnerID = pi_owner i, vc_AmountMinor = pi_amount i, vc_Currency = pi_currency i,
         vc_VoidProofHash = voidProof, vc_RequestFingerprint = replicate 32 0, vc_VoidedAt = voidedAt\<rparr>
      in command\<lparr>vc_RequestFingerprint := VoidCancellationFingerprint (pid_Sum256 ids) command\<rparr>)"

definition compensation_command ::
  "PayIds \<Rightarrow> uuid \<Rightarrow> IntentRow \<Rightarrow> uuid \<Rightarrow> byte list \<Rightarrow> gotime \<Rightarrow> ApplyRefundCompensationCommand" where
  "compensation_command ids sagaID i refundID refundProof refundedAt =
     \<lparr>rc_CommandID = deterministicID ids sagaID ''refund_compensation_command'',
      rc_CompensationID = deterministicID ids sagaID ''refund_compensation'', rc_RefundOperationID = refundID,
      rc_PaymentIntentID = pi_id i, rc_ReservationID = pi_reservation i, rc_TrainRunID = pi_train_run i,
      rc_OwnerID = pi_owner i, rc_AmountMinor = pi_amount i, rc_Currency = pi_currency i,
      rc_RefundProofHash = refundProof,
      rc_RequestFingerprint = actionFingerprint ids sagaID ActionCompensate refundProof, rc_RefundedAt = refundedAt\<rparr>"

definition buildActionClaim ::
  "PayIds \<Rightarrow> ActionClaim \<Rightarrow> SagaRow \<Rightarrow> IntentRow \<Rightarrow> OperationRow option \<Rightarrow> OperationRow option \<Rightarrow> OperationRow option \<Rightarrow>
     WorkerError + ActionClaim" where
  "buildActionClaim ids claim s i capture void_op refund =
     (if sg_state s = SagaIssuingTickets \<and> sg_step s = StepIssueTickets \<and> capture \<noteq> None \<and> length (proof_of capture) = 32
      then Inr (claim\<lparr>ac_Type := ActionIssueTickets,
             ac_Issue := issue_command ids (ac_SagaID claim) i (po_id (the capture)) (proof_of capture)\<rparr>)
      else if sg_state s = SagaCompensating \<and> sg_step s = StepRefund \<and> capture \<noteq> None \<and> length (proof_of capture) = 32
      then Inr (claim\<lparr>ac_Type := ActionMarkRefundPending,
             ac_MarkRefund := mark_refund_command ids (ac_SagaID claim) i (proof_of capture)\<rparr>)
      else if sg_state s = SagaCompensating \<and> sg_step s = StepCompensate \<and> void_op \<noteq> None \<and> length (proof_of void_op) = 32 \<and>
              po_completed (the void_op) \<noteq> None
      then Inr (claim\<lparr>ac_Type := ActionCancelVoided,
             ac_CancelVoided := cancel_voided_command ids (ac_SagaID claim) i (po_id (the void_op)) (proof_of void_op)
               (the (po_completed (the void_op)))\<rparr>)
      else if sg_state s = SagaRefunding \<and> sg_step s = StepCompensate \<and> refund \<noteq> None \<and> length (proof_of refund) = 32 \<and>
              po_completed (the refund) \<noteq> None
      then Inr (claim\<lparr>ac_Type := ActionCompensate,
             ac_Compensation := compensation_command ids (ac_SagaID claim) i (po_id (the refund)) (proof_of refund)
               (the (po_completed (the refund)))\<rparr>)
      else Inl ErrStoreUnavailable)"

fun build_all :: "(WorkerError + 'a) list \<Rightarrow> 'a list wtx" where
  "build_all [] = tx_return []"
| "build_all (Inl e # _) = tx_fail e"
| "build_all (Inr x # rest) = tx_bind (build_all rest) (\<lambda>xs. tx_return (x # xs))"

text \<open>The scanned rows are the sagas after the update, which changes neither their state nor their step.\<close>

definition claim_actions_tx :: "PayEnv \<Rightarrow> ClaimOptions \<Rightarrow> ActionClaim list wtx" where
  "claim_actions_tx env options =
     tx_bind (tx_get (\<lambda>db. (due_sagas env options db, db))) (\<lambda>(due, db).
     tx_bind (update_sagas env ''claim actions'' ErrStoreUnavailable
       (\<lambda>_ s. sg_id s \<in> set (map sg_id due))
       (\<lambda>s. s\<lparr>sg_lease := Some (cl_WorkerID options, claim_until options), sg_attempts := sg_attempts s + 1\<rparr>)) (\<lambda>_.
     tx_bind (build_all
       [buildActionClaim (py_ids env) (zero_claim options s i) s i c v f.
          s \<leftarrow> sort_key (\<lambda>s. (sg_next s, py_touched env (sg_id s), sg_id s)) due, i \<leftarrow> payment_intents db, pi_id i = sg_intent s,
          c \<leftarrow> left_join (succeeded_rows db (pi_id i) OperationCapture),
          v \<leftarrow> left_join (succeeded_rows db (pi_id i) OperationVoid),
          f \<leftarrow> left_join (succeeded_rows db (pi_id i) OperationRefund)]) (\<lambda>claims.
     tx_bind (store_commit env) (\<lambda>_. tx_return claims))))"

definition ClaimActions :: "PayEnv \<Rightarrow> ClaimOptions \<Rightarrow> PaymentDb \<Rightarrow> (WorkerError + ActionClaim list) \<times> PaymentDb" where
  "ClaimActions env options =
     run_tx (tx_bind (tx_reject (\<not> validClaimOptions options) ErrStoreUnavailable) (\<lambda>_.
             tx_bind (store_begin env) (\<lambda>_. claim_actions_tx env options)))"

end
