(* ===== verification/Payment_Finalize.thy ===== *)
theory Payment_Finalize
  imports Payment_Claims
begin

text \<open>
  How the payment worker records outcomes (\<^verbatim>\<open>internal/payment/worker/postgres/finalize.go\<close>): every method is one
  short transaction that compares the lease it was given before it changes anything, and that moves the
  operation, its intent and its saga together.
\<close>

datatype OperationDisposition = DispositionApplied | DispositionNotApplied | DispositionUnknown | DispositionConflict

record OperationEvidence =
  oe_Disposition :: OperationDisposition
  oe_ProviderPaymentID :: string
  oe_ProviderOperationID :: string
  oe_HostedSessionRef :: string
  oe_Status :: Status
  oe_AmountMinor :: int64
  oe_Currency :: string
  oe_CapturedMinor :: int64
  oe_RefundedMinor :: int64
  oe_ResponseFingerprint :: "byte list"
  oe_ProviderObservedTime :: gotime

record Failure =
  fl_Category :: string
  fl_NextAttemptAt :: gotime
  fl_ManualReview :: bool
  fl_Uncertain :: bool
  fl_Compensate :: bool

record WebhookEvidence =
  we_Status :: Status
  we_AmountMinor :: int64
  we_Currency :: string
  we_CapturedMinor :: int64
  we_RefundedMinor :: int64
  we_ProviderUpdated :: gotime

record ActionEvidence =
  ae_Issue :: IssueTicketsReceipt
  ae_MarkRefund :: MarkRefundPendingReceipt
  ae_CancelVoided :: CancelVoidedReservationReceipt
  ae_Compensation :: ApplyRefundCompensationReceipt

abbreviation (input) zero_digest :: "byte list" where
  "zero_digest \<equiv> replicate 32 0"

fun operation_type_text :: "OperationType \<Rightarrow> string" where
  "operation_type_text OperationCreateCheckout = ''create_checkout''"
| "operation_type_text OperationQueryStatus = ''query_status''"
| "operation_type_text OperationAuthorize = ''authorize''"
| "operation_type_text OperationCapture = ''capture''"
| "operation_type_text OperationVoid = ''void''"
| "operation_type_text OperationRefund = ''refund''"
| "operation_type_text (OperationTypeOther s) = s"

fun status_text :: "Status \<Rightarrow> string" where
  "status_text StatusCreated = ''created''"
| "status_text StatusRequiresCustomerAction = ''requires_customer_action''"
| "status_text StatusAuthorized = ''authorized''"
| "status_text StatusCaptured = ''captured''"
| "status_text StatusVoided = ''voided''"
| "status_text StatusRefunded = ''refunded''"
| "status_text StatusFailed = ''failed''"
| "status_text StatusCancelled = ''cancelled''"
| "status_text StatusUnknown = ''unknown''"
| "status_text (StatusOther s) = s"

definition in_transaction :: "PayEnv \<Rightarrow> unit wtx \<Rightarrow> unit wtx" where
  "in_transaction env m = tx_bind (store_begin env) (\<lambda>_. tx_bind m (\<lambda>_. store_commit env))"

text \<open>An update of the intent or of the saga of an intent that is in a given state.\<close>

definition set_intent_state ::
  "PayEnv \<Rightarrow> string \<Rightarrow> uuid \<Rightarrow> IntentState \<Rightarrow> IntentState \<Rightarrow> nat wtx" where
  "set_intent_state env label intentID old new =
     update_intents env label ErrStoreUnavailable (\<lambda>_ r. pi_id r = intentID \<and> pi_state r = old) (\<lambda>r. r\<lparr>pi_state := new\<rparr>)"

definition set_saga_state ::
  "PayEnv \<Rightarrow> string \<Rightarrow> uuid \<Rightarrow> SagaState \<Rightarrow> (SagaRow \<Rightarrow> SagaRow) \<Rightarrow> nat wtx" where
  "set_saga_state env label intentID old upd =
     update_sagas env label ErrStoreUnavailable (\<lambda>_ r. sg_intent r = intentID \<and> sg_state r = old) upd"

subsection \<open>Operations\<close>

definition BeginOperation :: "PayEnv \<Rightarrow> OperationClaim \<Rightarrow> PaymentDb \<Rightarrow> (WorkerError + unit) \<times> PaymentDb" where
  "BeginOperation env claim =
     run_tx (tx_bind (tx_reject (oc_OperationID claim = uuid_Nil \<or> oc_LeaseOwner claim = [] \<or>
               oc_PreviousState claim = OperationUncertain) ErrLeaseLost) (\<lambda>_.
     in_transaction env (
       tx_bind (oneRow (update_operations env ''begin operation'' ErrStoreUnavailable
         (\<lambda>_ r. po_id r = oc_OperationID claim \<and> po_state r = OperationClaimed \<and>
            lease_held (oc_LeaseOwner claim) (py_clock env ''begin operation'') (po_lease r))
         (\<lambda>r. r\<lparr>po_state := OperationInFlight\<rparr>))) (\<lambda>_.
       case oc_Type claim of
         OperationAuthorize \<Rightarrow>
           oneRow (set_intent_state env ''authorization pending'' (oc_PaymentIntentID claim)
             IntentAwaitingCustomer IntentAuthorizationPending)
       | OperationCapture \<Rightarrow>
           tx_bind (oneRow (set_intent_state env ''capture pending'' (oc_PaymentIntentID claim)
             IntentAuthorized IntentCapturePending)) (\<lambda>_.
           oneRow (update_sagas env ''capturing'' ErrStoreUnavailable
             (\<lambda>_ r. sg_intent r = oc_PaymentIntentID claim \<and> sg_state r = SagaAuthorized \<and> sg_lease r = None)
             (\<lambda>r. r\<lparr>sg_state := SagaCapturing, sg_step := StepCapture\<rparr>)))
       | _ \<Rightarrow> tx_return ()))))"

definition validProviderEvidence :: "OperationClaim \<Rightarrow> OperationEvidence \<Rightarrow> bool" where
  "validProviderEvidence claim evidence \<longleftrightarrow>
     oe_ProviderPaymentID evidence \<noteq> [] \<and> identifierPattern (oe_ProviderPaymentID evidence) \<and>
     oe_AmountMinor evidence = oc_AmountMinor claim \<and> oe_Currency evidence = oc_Currency claim \<and>
     (oe_ProviderOperationID evidence \<noteq> [] \<longrightarrow> identifierPattern (oe_ProviderOperationID evidence)) \<and>
     (oc_Type claim = OperationVoid \<longrightarrow> oe_CapturedMinor evidence = 0 \<and> oe_RefundedMinor evidence = 0)"

definition confirmedOperationID :: "PayIds \<Rightarrow> string \<Rightarrow> OperationType \<Rightarrow> string" where
  "confirmedOperationID ids paymentID kind =
     (let name = paymentID @ ''.confirmed.'' @ operation_type_text kind in
      if length name \<le> 128 \<and> identifierPattern name then name
      else ''confirmed.'' @ EncodeToString (take 16 (pid_Sum256 ids (string_bytes name))))"

definition insertOperation ::
  "PayEnv \<Rightarrow> uuid \<Rightarrow> string \<Rightarrow> OperationType \<Rightarrow> int64 \<Rightarrow> string \<Rightarrow> unit wtx" where
  "insertOperation env intentID providerName kind amount cur =
     insert_operation_row env ''insert operation'' ErrStoreUnavailable
       (new_operation (py_clock env ''insert operation'')
          (deterministicID (py_ids env) intentID (''provider_operation:'' @ operation_type_text kind))
          intentID providerName kind
          (pid_Sum256 (py_ids env) (string_bytes (''payment-provider-v1:'' @ pid_String (py_ids env) intentID @ '':'' @
             operation_type_text kind)))
          amount cur)"

definition releaseSagaLease :: "PayEnv \<Rightarrow> uuid \<Rightarrow> string \<Rightarrow> unit wtx" where
  "releaseSagaLease env intentID owner =
     oneRow (update_sagas env ''release saga lease'' ErrStoreUnavailable
       (\<lambda>_ r. sg_intent r = intentID \<and> lease_owned owner (sg_lease r)) (\<lambda>r. r\<lparr>sg_lease := None\<rparr>))"

definition applyOperationSuccess :: "PayEnv \<Rightarrow> OperationClaim \<Rightarrow> OperationEvidence \<Rightarrow> unit wtx" where
  "applyOperationSuccess env claim evidence =
     (let intentID = oc_PaymentIntentID claim in
      case oc_Type claim of
        OperationCreateCheckout \<Rightarrow>
          tx_bind (oneRow (update_intents env ''checkout created'' ErrStoreUnavailable
            (\<lambda>_ r. pi_id r = intentID \<and> pi_state r = IntentCheckoutPending)
            (\<lambda>r. r\<lparr>pi_payment := Some (oe_ProviderPaymentID evidence),
                   pi_hosted := (if oe_HostedSessionRef evidence = [] then None else Some (oe_HostedSessionRef evidence)),
                   pi_state := IntentAwaitingCustomer\<rparr>))) (\<lambda>_.
          tx_bind (oneRow (set_saga_state env ''saga checkout created'' intentID SagaReservationSecured
            (\<lambda>r. r\<lparr>sg_state := SagaCheckoutCreated\<rparr>))) (\<lambda>_.
          oneRow (set_saga_state env ''saga awaiting provider'' intentID SagaCheckoutCreated
            (\<lambda>r. r\<lparr>sg_state := SagaAwaitingProvider, sg_step := StepAwaitProvider\<rparr>))))
      | OperationAuthorize \<Rightarrow>
          tx_bind (oneRow (set_intent_state env ''authorized'' intentID IntentAuthorizationPending IntentAuthorized)) (\<lambda>_.
          tx_bind (oneRow (set_saga_state env ''saga authorized'' intentID SagaAwaitingProvider
            (\<lambda>r. r\<lparr>sg_state := SagaAuthorized, sg_step := StepCapture\<rparr>))) (\<lambda>_.
          insertOperation env intentID (oc_Provider claim) OperationCapture (oc_AmountMinor claim) (oc_Currency claim)))
      | OperationCapture \<Rightarrow>
          tx_bind (oneRow (set_intent_state env ''captured'' intentID IntentCapturePending IntentCaptured)) (\<lambda>_.
          tx_bind (oneRow (set_intent_state env ''ticket issue pending'' intentID IntentCaptured IntentTicketIssuePending)) (\<lambda>_.
          tx_bind (oneRow (set_saga_state env ''saga captured'' intentID SagaCapturing (\<lambda>r. r\<lparr>sg_state := SagaCaptured\<rparr>))) (\<lambda>_.
          oneRow (set_saga_state env ''saga issuing tickets'' intentID SagaCaptured
            (\<lambda>r. r\<lparr>sg_state := SagaIssuingTickets, sg_step := StepIssueTickets\<rparr>)))))
      | OperationVoid \<Rightarrow>
          tx_bind (oneRow (update_intents env ''voided'' ErrStoreUnavailable
            (\<lambda>_ r. pi_id r = intentID \<and> pi_state r = IntentVoidPending)
            (\<lambda>r. r\<lparr>pi_state := IntentVoided, pi_completed := Some (py_clock env ''voided'')\<rparr>))) (\<lambda>_.
          oneRow (set_saga_state env ''saga void compensate'' intentID SagaCompensating
            (\<lambda>r. r\<lparr>sg_step := StepCompensate, sg_error := None, sg_next := py_clock env ''saga void compensate'', sg_lease := None\<rparr>)))
      | OperationRefund \<Rightarrow>
          tx_bind (oneRow (update_intents env ''refunded'' ErrStoreUnavailable
            (\<lambda>_ r. pi_id r = intentID \<and> pi_state r = IntentRefundPending)
            (\<lambda>r. r\<lparr>pi_state := IntentRefunded,
                   pi_completed := (if pi_completed r = None then Some (py_clock env ''refunded'') else pi_completed r)\<rparr>))) (\<lambda>_.
          anyRows (update_sagas env ''saga refund compensate'' (ErrStatement ''saga refund compensate'')
            (\<lambda>_ r. sg_intent r = intentID \<and> sg_state r = SagaRefunding)
            (\<lambda>r. r\<lparr>sg_step := StepCompensate, sg_next := py_clock env ''saga refund compensate''\<rparr>)))
      | OperationQueryStatus \<Rightarrow> tx_return ()
      | OperationTypeOther _ \<Rightarrow> tx_fail ErrStoreUnavailable)"

text \<open>An operation whose saga is leased by the owner; that is how an uncertain one is held.\<close>

definition saga_leased :: "PaymentDb \<Rightarrow> string \<Rightarrow> gotime \<Rightarrow> OperationRow \<Rightarrow> bool" where
  "saga_leased db owner now r \<longleftrightarrow>
     list_ex (\<lambda>s. sg_intent s = po_intent r \<and> lease_held owner now (sg_lease s)) (payment_sagas db)"

text \<open>
  The row of an operation that succeeded. The statement for an uncertain operation does not name the lease; it is null
  there by the check of the table, so that clearing it in both statements writes the same row.
\<close>

definition operation_succeeded :: "gotime \<Rightarrow> string \<Rightarrow> OperationEvidence \<Rightarrow> OperationRow \<Rightarrow> OperationRow" where
  "operation_succeeded now providerOperationID evidence r =
     r\<lparr>po_state := OperationSucceeded,
       po_provider_operation := (if providerOperationID = [] then None else Some providerOperationID),
       po_normalized := Some (oe_Status evidence), po_response := Some (oe_ResponseFingerprint evidence),
       po_error := None, po_lease := None, po_completed := Some now, po_next := now\<rparr>"

definition CompleteOperation ::
  "PayEnv \<Rightarrow> OperationClaim \<Rightarrow> OperationEvidence \<Rightarrow> PaymentDb \<Rightarrow> (WorkerError + unit) \<times> PaymentDb" where
  "CompleteOperation env claim evidence =
     run_tx (tx_bind (tx_reject (oc_OperationID claim = uuid_Nil \<or> oc_PaymentIntentID claim = uuid_Nil \<or>
               oe_Disposition evidence \<noteq> DispositionApplied \<or> oe_ResponseFingerprint evidence = zero_digest \<or>
               \<not> validProviderEvidence claim evidence) ErrStoreUnavailable) (\<lambda>_.
     in_transaction env (
       let label = ''complete operation''; now = py_clock env label;
           providerOperationID =
             (if oe_ProviderOperationID evidence = [] \<and> oc_Type claim \<noteq> OperationQueryStatus
              then confirmedOperationID (py_ids env) (oe_ProviderPaymentID evidence) (oc_Type claim)
              else oe_ProviderOperationID evidence) in
       tx_bind
         (if oc_PreviousState claim = OperationUncertain
          then tx_bind (oneRow (update_operations env label ErrStoreUnavailable
                 (\<lambda>db r. po_id r = oc_OperationID claim \<and> po_state r = OperationUncertain \<and>
                    saga_leased db (oc_LeaseOwner claim) now r)
                 (operation_succeeded now providerOperationID evidence))) (\<lambda>_.
               releaseSagaLease env (oc_PaymentIntentID claim) (oc_LeaseOwner claim))
          else oneRow (update_operations env label ErrStoreUnavailable
                 (\<lambda>_ r. po_id r = oc_OperationID claim \<and> po_state r = OperationInFlight \<and>
                    lease_held (oc_LeaseOwner claim) now (po_lease r))
                 (operation_succeeded now providerOperationID evidence))) (\<lambda>_.
       applyOperationSuccess env claim evidence))))"


definition insertReview :: "PayEnv \<Rightarrow> uuid \<Rightarrow> uuid \<Rightarrow> uuid \<Rightarrow> string \<Rightarrow> unit wtx" where
  "insertReview env intentID operationID inboxID reason =
     insert_review_row env ''insert review'' ErrStoreUnavailable
       \<lparr>rv_id = deterministicID (py_ids env) intentID (''manual_review:'' @ reason), rv_intent = intentID,
        rv_operation = (if operationID = uuid_Nil then None else Some operationID),
        rv_inbox = (if inboxID = uuid_Nil then None else Some inboxID), rv_reason = reason, rv_open = True,
        rv_due = py_clock env ''insert review'' + 24 * 3600 * 1000000000\<rparr>"

definition finalizeOperationFailure ::
  "PayEnv \<Rightarrow> OperationClaim \<Rightarrow> OperationState \<Rightarrow> OperationState \<Rightarrow> Failure \<Rightarrow> unit wtx" where
  "finalizeOperationFailure env claim currentState nextState failure =
     (let label = ''finalize operation failure''; now = py_clock env label in
      oneRow (update_operations env label ErrStoreUnavailable
        (\<lambda>db r. po_id r = oc_OperationID claim \<and> po_state r = currentState \<and>
           (lease_held (oc_LeaseOwner claim) now (po_lease r) \<or>
            currentState = OperationUncertain \<and> saga_leased db (oc_LeaseOwner claim) now r))
        (\<lambda>r. r\<lparr>po_state := nextState, po_error := Some (fl_Category failure),
               po_next := pg_timestamptz (fl_NextAttemptAt failure), po_lease := None,
               po_completed := (if nextState = OperationFailedPermanent then Some now else None)\<rparr>)))"

text \<open>Sending an intent and its saga to manual review, unless they have ended.\<close>

definition review_intent :: "PayEnv \<Rightarrow> uuid \<Rightarrow> unit wtx" where
  "review_intent env intentID =
     anyRows (update_intents env ''review intent'' ErrStoreUnavailable
       (\<lambda>_ r. pi_id r = intentID \<and> \<not> intent_ended (pi_state r) \<and> pi_state r \<noteq> IntentManualReview)
       (\<lambda>r. r\<lparr>pi_state := IntentManualReview\<rparr>))"

definition FailOperation ::
  "PayEnv \<Rightarrow> OperationClaim \<Rightarrow> Failure \<Rightarrow> PaymentDb \<Rightarrow> (WorkerError + unit) \<times> PaymentDb" where
  "FailOperation env claim failure =
     run_tx (tx_bind (tx_reject (oc_OperationID claim = uuid_Nil \<or> oc_PaymentIntentID claim = uuid_Nil \<or>
               oc_LeaseOwner claim = [] \<or> fl_Category failure = []) ErrStoreUnavailable) (\<lambda>_.
     in_transaction env (
       let currentState = (if oc_PreviousState claim = OperationUncertain then OperationUncertain else OperationInFlight) in
       if fl_ManualReview failure then
         tx_bind (finalizeOperationFailure env claim currentState OperationFailedPermanent failure) (\<lambda>_.
         tx_bind (review_intent env (oc_PaymentIntentID claim)) (\<lambda>_.
         tx_bind (anyRows (update_sagas env ''review saga'' ErrStoreUnavailable
           (\<lambda>_ r. sg_intent r = oc_PaymentIntentID claim \<and> \<not> saga_ended (sg_state r) \<and> sg_state r \<noteq> SagaManualReview)
           (\<lambda>r. r\<lparr>sg_state := SagaManualReview, sg_lease := None, sg_error := Some (fl_Category failure),
                  sg_next := py_clock env ''review saga''\<rparr>))) (\<lambda>_.
         insertReview env (oc_PaymentIntentID claim) (oc_OperationID claim) uuid_Nil (fl_Category failure))))
       else
         let nextState =
           (if fl_Uncertain failure \<or> currentState = OperationUncertain \<and> fl_Category failure = ''provider_outcome_unknown''
            then OperationUncertain else OperationFailedRetryable) in
         tx_bind (finalizeOperationFailure env claim currentState nextState failure) (\<lambda>_.
         if oc_PreviousState claim = OperationUncertain
         then releaseSagaLease env (oc_PaymentIntentID claim) (oc_LeaseOwner claim) else tx_return ()))))"

subsection \<open>Evidence that the provider has done something\<close>

text \<open>
  \<^verbatim>\<open>confirmOperation\<close>: an operation that the provider reports as done is led along the edges of its
  states to success, whatever state it is in, unless it has failed for good or was cancelled.
\<close>

definition confirmOperation ::
  "PayEnv \<Rightarrow> uuid \<Rightarrow> string \<Rightarrow> OperationType \<Rightarrow> int64 \<Rightarrow> string \<Rightarrow> Status \<Rightarrow> unit wtx" where
  "confirmOperation env intentID providerName kind amount cur status =
     tx_bind (insertOperation env intentID providerName kind amount cur) (\<lambda>_.
     tx_bind (query_row env ''select operation'' ErrStoreUnavailable
       (\<lambda>db. filter (\<lambda>r. po_intent r = intentID \<and> po_type r = kind) (payment_operations db))) (\<lambda>row.
     case row of
       None \<Rightarrow> tx_fail ErrStoreUnavailable
     | Some r \<Rightarrow>
         if po_state r = OperationSucceeded then tx_return ()
         else if po_state r = OperationFailedPermanent \<or> po_state r = OperationCancelled then tx_fail ErrStoreUnavailable
         else
           tx_bind (if po_state r = OperationFailedRetryable
             then anyRows (update_operations env ''confirm: retry'' ErrStoreUnavailable
               (\<lambda>_ x. po_id x = po_id r \<and> po_state x = OperationFailedRetryable)
               (\<lambda>x. x\<lparr>po_state := OperationPending, po_error := None\<rparr>))
             else tx_return ()) (\<lambda>_.
           tx_bind (if po_state r \<in> {OperationFailedRetryable, OperationPending}
             then anyRows (update_operations env ''confirm: claim'' ErrStoreUnavailable
               (\<lambda>_ x. po_id x = po_id r \<and> po_state x = OperationPending)
               (\<lambda>x. x\<lparr>po_state := OperationClaimed, po_attempts := po_attempts x + 1,
                      po_lease := Some (''webhook-confirmation'', py_clock env ''confirm: claim'' + 30 * 1000000000)\<rparr>))
             else tx_return ()) (\<lambda>_.
           tx_bind (if po_state r \<in> {OperationFailedRetryable, OperationPending, OperationClaimed}
             then anyRows (update_operations env ''confirm: begin'' ErrStoreUnavailable
               (\<lambda>_ x. po_id x = po_id r \<and> po_state x = OperationClaimed) (\<lambda>x. x\<lparr>po_state := OperationInFlight\<rparr>))
             else tx_return ()) (\<lambda>_.
           anyRows (update_operations env ''confirm: succeed'' ErrStoreUnavailable
             (\<lambda>_ x. po_id x = po_id r \<and> po_state x \<in> {OperationInFlight, OperationUncertain})
             (\<lambda>x. x\<lparr>po_state := OperationSucceeded,
                    po_provider_operation := Some (confirmedOperationID (py_ids env)
                      (''payment.'' @ pid_String (py_ids env) intentID) kind),
                    po_normalized := Some status,
                    po_response := Some (pid_Sum256 (py_ids env) (string_bytes (''provider-confirmation-v1:'' @
                      pid_String (py_ids env) intentID @ '':'' @ operation_type_text kind @ '':'' @ status_text status))),
                    po_error := None, po_lease := None, po_completed := Some (py_clock env ''confirm: succeed'')\<rparr>)))))))"

text \<open>A cancellation met by a capture turns into a refund of the captured amount.\<close>

definition convergeCapturedCancellation ::
  "PayEnv \<Rightarrow> uuid \<Rightarrow> string \<Rightarrow> int64 \<Rightarrow> string \<Rightarrow> string \<Rightarrow> unit wtx" where
  "convergeCapturedCancellation env intentID providerName amount cur leaseOwner =
     tx_bind (confirmOperation env intentID providerName OperationCapture amount cur StatusCaptured) (\<lambda>_.
     tx_bind (oneRow (set_intent_state env ''converge: review'' intentID IntentVoidPending IntentManualReview)) (\<lambda>_.
     tx_bind (oneRow (set_intent_state env ''converge: refund'' intentID IntentManualReview IntentRefundPending)) (\<lambda>_.
     tx_bind (oneRow (update_sagas env ''converge: saga'' ErrStoreUnavailable
       (\<lambda>_ r. sg_intent r = intentID \<and> sg_state r = SagaCompensating \<and>
          (if leaseOwner = [] then sg_step r = StepVoid else lease_held leaseOwner (py_clock env ''converge: saga'') (sg_lease r)))
       (\<lambda>r. r\<lparr>sg_state := SagaRefunding, sg_step := StepRefund, sg_lease := None, sg_error := None,
              sg_next := py_clock env ''converge: saga''\<rparr>))) (\<lambda>_.
     insertOperation env intentID providerName OperationRefund amount cur))))"

definition SupersedeVoidWithRefund ::
  "PayEnv \<Rightarrow> OperationClaim \<Rightarrow> OperationEvidence \<Rightarrow> PaymentDb \<Rightarrow> (WorkerError + unit) \<times> PaymentDb" where
  "SupersedeVoidWithRefund env claim evidence =
     run_tx (tx_bind (tx_reject (oc_OperationID claim = uuid_Nil \<or> oc_PaymentIntentID claim = uuid_Nil \<or> oc_LeaseOwner claim = [] \<or>
               oc_Type claim \<noteq> OperationVoid \<or> oc_PreviousState claim \<noteq> OperationUncertain \<or>
               oe_Status evidence \<noteq> StatusCaptured \<or> \<not> identifierPattern (oe_ProviderPaymentID evidence) \<or>
               oc_AmountMinor claim \<le> 0 \<or> oe_AmountMinor evidence \<noteq> oc_AmountMinor claim \<or>
               oe_Currency evidence \<noteq> oc_Currency claim \<or> oe_CapturedMinor evidence \<noteq> oc_AmountMinor claim \<or>
               oe_RefundedMinor evidence \<noteq> 0 \<or> oe_ResponseFingerprint evidence = zero_digest) ErrStoreUnavailable) (\<lambda>_.
     tx_bind (tx_reject (oe_ProviderOperationID evidence \<noteq> [] \<and> \<not> identifierPattern (oe_ProviderOperationID evidence))
       ErrStoreUnavailable) (\<lambda>_.
     in_transaction env (
       tx_bind (query_row env ''select intent and saga'' ErrLeaseLost
         (\<lambda>db. [(pi_state i, s). i \<leftarrow> payment_intents db, s \<leftarrow> payment_sagas db,
            sg_intent s = pi_id i, pi_id i = oc_PaymentIntentID claim])) (\<lambda>row.
       tx_bind (tx_reject (case row of
           None \<Rightarrow> True
         | Some (intentState, s) \<Rightarrow>
             intentState \<noteq> IntentVoidPending \<or> sg_state s \<noteq> SagaCompensating \<or> sg_step s \<noteq> StepVoid \<or>
             \<not> lease_owned (oc_LeaseOwner claim) (sg_lease s)) ErrLeaseLost) (\<lambda>_.
       tx_bind (oneRow (update_operations env ''supersede void'' ErrStoreUnavailable
         (\<lambda>_ r. po_id r = oc_OperationID claim \<and> po_intent r = oc_PaymentIntentID claim \<and> po_type r = OperationVoid \<and>
            po_state r = OperationUncertain)
         (\<lambda>r. r\<lparr>po_state := OperationFailedPermanent, po_normalized := Some StatusCaptured,
                po_response := Some (oe_ResponseFingerprint evidence), po_error := Some ''superseded_by_capture'',
                po_lease := None, po_completed := Some (py_clock env ''supersede void'')\<rparr>))) (\<lambda>_.
       convergeCapturedCancellation env (oc_PaymentIntentID claim) (oc_Provider claim) (oc_AmountMinor claim)
         (oc_Currency claim) (oc_LeaseOwner claim))))))))"

text \<open>Each update follows one edge; that none of them applies is accepted for an event that comes late.\<close>

definition advanceAuthorization :: "PayEnv \<Rightarrow> uuid \<Rightarrow> unit wtx" where
  "advanceAuthorization env intentID =
     tx_bind (anyRows (set_intent_state env ''advance: authorization pending'' intentID
       IntentAwaitingCustomer IntentAuthorizationPending)) (\<lambda>_.
     tx_bind (anyRows (set_intent_state env ''advance: authorized'' intentID IntentAuthorizationPending IntentAuthorized)) (\<lambda>_.
     anyRows (set_saga_state env ''advance: saga authorized'' intentID SagaAwaitingProvider
       (\<lambda>r. r\<lparr>sg_state := SagaAuthorized, sg_step := StepCapture\<rparr>))))"

definition advanceCapture :: "PayEnv \<Rightarrow> uuid \<Rightarrow> unit wtx" where
  "advanceCapture env intentID =
     tx_bind (anyRows (set_intent_state env ''advance: capture pending'' intentID IntentAuthorized IntentCapturePending)) (\<lambda>_.
     tx_bind (anyRows (set_intent_state env ''advance: captured'' intentID IntentCapturePending IntentCaptured)) (\<lambda>_.
     tx_bind (anyRows (set_intent_state env ''advance: ticket issue'' intentID IntentCaptured IntentTicketIssuePending)) (\<lambda>_.
     tx_bind (anyRows (set_saga_state env ''advance: capturing'' intentID SagaAuthorized
       (\<lambda>r. r\<lparr>sg_state := SagaCapturing, sg_step := StepCapture\<rparr>))) (\<lambda>_.
     tx_bind (anyRows (set_saga_state env ''advance: saga captured'' intentID SagaCapturing
       (\<lambda>r. r\<lparr>sg_state := SagaCaptured\<rparr>))) (\<lambda>_.
     anyRows (set_saga_state env ''advance: issuing'' intentID SagaCaptured
       (\<lambda>r. r\<lparr>sg_state := SagaIssuingTickets, sg_step := StepIssueTickets, sg_next := py_clock env ''advance: issuing''\<rparr>)))))))"

definition applyProviderConfirmation ::
  "PayEnv \<Rightarrow> uuid \<Rightarrow> string \<Rightarrow> IntentState \<Rightarrow> int64 \<Rightarrow> string \<Rightarrow> WebhookEvidence \<Rightarrow> unit wtx" where
  "applyProviderConfirmation env intentID providerName intentState amount cur evidence =
     (case we_Status evidence of
        StatusCreated \<Rightarrow> tx_return ()
      | StatusRequiresCustomerAction \<Rightarrow> tx_return ()
      | StatusAuthorized \<Rightarrow>
          tx_bind (advanceAuthorization env intentID) (\<lambda>_.
          insertOperation env intentID providerName OperationCapture amount cur)
      | StatusCaptured \<Rightarrow>
          if we_CapturedMinor evidence \<noteq> amount \<or> we_RefundedMinor evidence \<noteq> 0 then tx_fail ErrStoreUnavailable
          else if intentState = IntentVoidPending then
            if amount \<le> 0 then tx_fail ErrStoreUnavailable
            else
            tx_bind (oneRow (update_operations env ''cancel void'' ErrStoreUnavailable
              (\<lambda>_ r. po_intent r = intentID \<and> po_type r = OperationVoid \<and>
                 po_state r \<in> {OperationPending, OperationClaimed, OperationInFlight, OperationFailedRetryable, OperationUncertain})
              (\<lambda>r. r\<lparr>po_state := (if po_state r \<in> {OperationPending, OperationClaimed, OperationFailedRetryable}
                       then OperationCancelled else OperationFailedPermanent),
                     po_normalized := Some StatusCaptured,
                     po_response := Some (pid_Sum256 (py_ids env) (string_bytes (''provider-confirmation-v1:'' @
                       pid_String (py_ids env) intentID @ '':capture:captured''))),
                     po_error := Some ''superseded_by_capture'', po_lease := None,
                     po_completed := Some (py_clock env ''cancel void'')\<rparr>))) (\<lambda>_.
            convergeCapturedCancellation env intentID providerName amount cur [])
          else
            tx_bind (advanceAuthorization env intentID) (\<lambda>_.
            tx_bind (confirmOperation env intentID providerName OperationCapture amount cur StatusCaptured) (\<lambda>_.
            advanceCapture env intentID))
      | StatusRefunded \<Rightarrow>
          if we_CapturedMinor evidence \<noteq> amount \<or> we_RefundedMinor evidence \<noteq> amount then tx_fail ErrStoreUnavailable
          else
            tx_bind (confirmOperation env intentID providerName OperationRefund amount cur StatusRefunded) (\<lambda>_.
            tx_bind (anyRows (update_intents env ''webhook: refunded'' ErrStoreUnavailable
              (\<lambda>_ r. pi_id r = intentID \<and> pi_state r = IntentRefundPending)
              (\<lambda>r. r\<lparr>pi_state := IntentRefunded,
                     pi_completed := (if pi_completed r = None then Some (py_clock env ''webhook: refunded'') else pi_completed r)\<rparr>))) (\<lambda>_.
            anyRows (update_sagas env ''webhook: saga refunding'' (ErrStatement ''webhook: saga refunding'')
              (\<lambda>_ r. sg_intent r = intentID \<and> sg_state r = SagaCompensating)
              (\<lambda>r. r\<lparr>sg_state := SagaRefunding, sg_step := StepCompensate, sg_next := py_clock env ''webhook: saga refunding''\<rparr>))))
      | StatusVoided \<Rightarrow>
          if we_CapturedMinor evidence \<noteq> 0 \<or> we_RefundedMinor evidence \<noteq> 0 then tx_fail ErrStoreUnavailable
          else
            tx_bind (confirmOperation env intentID providerName OperationVoid amount cur StatusVoided) (\<lambda>_.
            tx_bind (anyRows (update_intents env ''webhook: voided'' ErrStoreUnavailable
              (\<lambda>_ r. pi_id r = intentID \<and> pi_state r = IntentVoidPending)
              (\<lambda>r. r\<lparr>pi_state := IntentVoided,
                     pi_completed := (if pi_completed r = None then Some (py_clock env ''webhook: voided'') else pi_completed r)\<rparr>))) (\<lambda>_.
            anyRows (set_saga_state env ''webhook: saga voided'' intentID SagaCompensating
              (\<lambda>r. r\<lparr>sg_step := StepCompensate, sg_error := None, sg_next := py_clock env ''webhook: saga voided'', sg_lease := None\<rparr>))))
      | _ \<Rightarrow> tx_fail ErrStoreUnavailable)"


subsection \<open>Webhooks\<close>

definition inbox_leased :: "WebhookClaim \<Rightarrow> gotime \<Rightarrow> InboxRow \<Rightarrow> bool" where
  "inbox_leased claim now r \<longleftrightarrow>
     wi_id r = wc_InboxID claim \<and> wi_state r = InboxProcessing \<and> lease_held (wc_LeaseOwner claim) now (wi_lease r)"

definition IgnoreWebhook :: "PayEnv \<Rightarrow> WebhookClaim \<Rightarrow> PaymentDb \<Rightarrow> (WorkerError + unit) \<times> PaymentDb" where
  "IgnoreWebhook env claim =
     run_tx (in_transaction env (let label = ''ignore webhook''; now = py_clock env label in
       oneRow (update_inbox env label ErrStoreUnavailable (\<lambda>_. inbox_leased claim now)
         (\<lambda>r. r\<lparr>wi_state := InboxIgnored, wi_lease := None, wi_processed := Some now\<rparr>))))"

definition CompleteWebhook ::
  "PayEnv \<Rightarrow> WebhookClaim \<Rightarrow> WebhookEvidence \<Rightarrow> PaymentDb \<Rightarrow> (WorkerError + unit) \<times> PaymentDb" where
  "CompleteWebhook env claim evidence =
     run_tx (tx_bind (tx_reject (wc_InboxID claim = uuid_Nil \<or> wc_ProviderPaymentID claim = [] \<or> wc_LeaseOwner claim = [] \<or>
               we_AmountMinor evidence < 0 \<or> length (we_Currency evidence) \<noteq> 3) ErrStoreUnavailable) (\<lambda>_.
     in_transaction env (
       tx_bind (query_row env ''select webhook intent'' ErrStoreUnavailable
         (\<lambda>db. [i. i \<leftarrow> payment_intents db, s \<leftarrow> payment_sagas db, sg_intent s = pi_id i,
            pi_provider i = wc_Provider claim, pi_payment i = Some (wc_ProviderPaymentID claim)])) (\<lambda>row.
       case row of
         None \<Rightarrow> tx_fail ErrStoreUnavailable
       | Some i \<Rightarrow>
           tx_bind (tx_reject (pi_amount i \<noteq> we_AmountMinor evidence \<or> pi_currency i \<noteq> we_Currency evidence \<or>
             we_RefundedMinor evidence < 0 \<or> we_CapturedMinor evidence < we_RefundedMinor evidence \<or>
             pi_amount i < we_CapturedMinor evidence) ErrStoreUnavailable) (\<lambda>_.
           tx_bind (tx_reject (we_Status evidence = StatusRefunded \<and>
             pi_state i \<notin> {IntentRefundPending, IntentRefunded, IntentCancelled}) ErrStoreUnavailable) (\<lambda>_.
           tx_bind (tx_reject (we_Status evidence = StatusVoided \<and>
             pi_state i \<notin> {IntentVoidPending, IntentVoided, IntentCancelled}) ErrStoreUnavailable) (\<lambda>_.
           tx_bind (applyProviderConfirmation env (pi_id i) (pi_provider i) (pi_state i) (pi_amount i) (pi_currency i) evidence) (\<lambda>_.
           let label = ''process webhook''; now = py_clock env label in
           oneRow (update_inbox env label ErrStoreUnavailable (\<lambda>_. inbox_leased claim now)
             (\<lambda>r. r\<lparr>wi_state := InboxProcessed, wi_lease := None, wi_error := None, wi_processed := Some now\<rparr>))))))))))"

definition FailWebhook :: "PayEnv \<Rightarrow> WebhookClaim \<Rightarrow> Failure \<Rightarrow> PaymentDb \<Rightarrow> (WorkerError + unit) \<times> PaymentDb" where
  "FailWebhook env claim failure =
     run_tx (tx_bind (tx_reject (wc_InboxID claim = uuid_Nil \<or> wc_LeaseOwner claim = [] \<or> fl_Category failure = []) ErrStoreUnavailable) (\<lambda>_.
     in_transaction env (
       let label = ''fail webhook''; now = py_clock env label;
           nextState = (if fl_ManualReview failure then InboxFailedPermanent else InboxFailedRetryable) in
       tx_bind (oneRow (update_inbox env label ErrStoreUnavailable (\<lambda>_. inbox_leased claim now)
         (\<lambda>r. r\<lparr>wi_state := nextState, wi_lease := None, wi_error := Some (fl_Category failure),
                wi_next := pg_timestamptz (fl_NextAttemptAt failure),
                wi_processed := (if nextState = InboxFailedPermanent then Some now else None)\<rparr>))) (\<lambda>_.
       if \<not> fl_ManualReview failure then tx_return ()
       else
         tx_bind (query_row env ''select intent of webhook'' ErrStoreUnavailable
           (\<lambda>db. filter (\<lambda>i. pi_provider i = wc_Provider claim \<and> pi_payment i = Some (wc_ProviderPaymentID claim))
              (payment_intents db))) (\<lambda>row.
         case row of
           None \<Rightarrow> tx_return ()
         | Some i \<Rightarrow> insertReview env (pi_id i) uuid_Nil (wc_InboxID claim) (fl_Category failure))))))"

subsection \<open>Actions\<close>

definition saga_claimed :: "ActionClaim \<Rightarrow> gotime \<Rightarrow> SagaRow \<Rightarrow> bool" where
  "saga_claimed claim now r \<longleftrightarrow> sg_id r = ac_SagaID claim \<and> lease_held (ac_LeaseOwner claim) now (sg_lease r)"

text \<open>The intent of the claimed saga moves from one state to another.\<close>

definition move_claimed_intent ::
  "PayEnv \<Rightarrow> string \<Rightarrow> ActionClaim \<Rightarrow> IntentState \<Rightarrow> (IntentRow \<Rightarrow> IntentRow) \<Rightarrow> unit wtx" where
  "move_claimed_intent env label claim old upd =
     oneRow (update_intents env label ErrStoreUnavailable
       (\<lambda>db r. pi_state r = old \<and>
          list_ex (\<lambda>s. saga_claimed claim (py_clock env label) s \<and> sg_intent s = pi_id r) (payment_sagas db)) upd)"

definition insert_order_locator :: "PayEnv \<Rightarrow> TicketOrderLocator \<Rightarrow> nat wtx" where
  "insert_order_locator env l =
     (\<lambda>db. let rows = pay_ticket_order_locators db in
        if py_fault env ''insert order locator'' then Inl ErrStoreUnavailable
        else case find (\<lambda>x. ol_order x = ol_order l) rows of
          None \<Rightarrow>
            if ol_reservation l \<in> set (map ol_reservation rows) \<or> ol_total l < 0 \<or> \<not> currencyPattern (ol_currency l)
            then Inl ErrStoreUnavailable
            else Inr (1, db\<lparr>pay_ticket_order_locators := rows @ [l]\<rparr>)
        | Some x \<Rightarrow>
            if x\<lparr>ol_status := ol_status l\<rparr> = l
            then Inr (1, db\<lparr>pay_ticket_order_locators := map (\<lambda>y. if ol_order y = ol_order l then l else y) rows\<rparr>)
            else Inr (0, db))"

definition insert_ticket_locator :: "PayEnv \<Rightarrow> TicketLocator \<Rightarrow> nat wtx" where
  "insert_ticket_locator env l =
     (\<lambda>db. let rows = pay_ticket_locators db in
        if py_fault env ''insert ticket locator'' then Inl ErrStoreUnavailable
        else case find (\<lambda>x. tl_ticket x = tl_ticket l) rows of
          None \<Rightarrow> Inr (1, db\<lparr>pay_ticket_locators := rows @ [l]\<rparr>)
        | Some x \<Rightarrow> if x = l then Inr (1, db) else Inr (0, db))"

definition insert_ticket_code :: "PayEnv \<Rightarrow> string \<Rightarrow> uuid \<Rightarrow> nat wtx" where
  "insert_ticket_code env code ticketID =
     (\<lambda>db. let rows = ticket_code_directory db in
        if py_fault env ''insert ticket code'' then Inl ErrStoreUnavailable
        else case map_of rows code of
          None \<Rightarrow> if ticketID \<in> set (map snd rows) then Inl ErrStoreUnavailable
                  else Inr (1, db\<lparr>ticket_code_directory := rows @ [(code, ticketID)]\<rparr>)
        | Some k \<Rightarrow> if k = ticketID then Inr (1, db) else Inr (0, db))"

fun write_ticket_locators ::
  "PayEnv \<Rightarrow> TicketLocator \<Rightarrow> uuid list \<Rightarrow> string list \<Rightarrow> (uuid \<times> string) list \<Rightarrow> unit wtx" where
  "write_ticket_locators env l seenIDs seenCodes [] = tx_return ()"
| "write_ticket_locators env l seenIDs seenCodes ((ticketID, ticketCode) # rest) =
     tx_bind (tx_reject (ticketID = uuid_Nil \<or> \<not> ValidTicketCode ticketCode \<or> ticketID \<in> set seenIDs \<or> ticketCode \<in> set seenCodes)
       ErrStoreUnavailable) (\<lambda>_.
     tx_bind (oneRow (insert_ticket_locator env (l\<lparr>tl_ticket := ticketID\<rparr>))) (\<lambda>_.
     tx_bind (oneRow (insert_ticket_code env ticketCode ticketID)) (\<lambda>_.
     write_ticket_locators env l (ticketID # seenIDs) (ticketCode # seenCodes) rest)))"

definition writeTicketLocators :: "PayEnv \<Rightarrow> ActionClaim \<Rightarrow> IssueTicketsReceipt \<Rightarrow> unit wtx" where
  "writeTicketLocators env claim receipt =
     tx_bind (tx_reject (it_TicketOrderID receipt = uuid_Nil \<or> it_TicketIDs receipt = [] \<or>
       length (it_TicketCodes receipt) \<noteq> length (it_TicketIDs receipt) \<or> IsZero_time (it_OrderCreatedAt receipt) \<or>
       IsZero_time (it_IssuedAt receipt)) ErrStoreUnavailable) (\<lambda>_.
     tx_bind (query_row env ''select reservation locator'' ErrStoreUnavailable
       (\<lambda>db. filter (\<lambda>l. rl_reservation l = ic_ReservationID (ac_Issue claim)) (pay_reservation_locators db))) (\<lambda>row.
     case row of
       None \<Rightarrow> tx_fail ErrStoreUnavailable
     | Some l \<Rightarrow>
         tx_bind (tx_reject (rl_train_run l \<noteq> ic_TrainRunID (ac_Issue claim) \<or> rl_owner l \<noteq> ic_OwnerID (ac_Issue claim) \<or>
           rl_shard l = [] \<or> rl_generation l < 1) ErrStoreUnavailable) (\<lambda>_.
         tx_bind (oneRow (insert_order_locator env
           \<lparr>ol_order = it_TicketOrderID receipt, ol_reservation = ic_ReservationID (ac_Issue claim),
            ol_train_run = rl_train_run l, ol_shard = rl_shard l, ol_generation = rl_generation l, ol_owner = rl_owner l,
            ol_status = ''confirmed'', ol_total = it_AmountMinor receipt, ol_currency = it_Currency receipt,
            ol_created = pg_timestamptz (it_OrderCreatedAt receipt)\<rparr>)) (\<lambda>_.
         write_ticket_locators env
           \<lparr>tl_ticket = 0, tl_order = it_TicketOrderID receipt, tl_reservation = ic_ReservationID (ac_Issue claim),
            tl_train_run = rl_train_run l, tl_shard = rl_shard l, tl_generation = rl_generation l, tl_owner = rl_owner l\<rparr>
           [] [] (zip (it_TicketIDs receipt) (it_TicketCodes receipt))))))"

definition saga_done :: "gotime \<Rightarrow> SagaState \<Rightarrow> SagaRow \<Rightarrow> SagaRow" where
  "saga_done now state r =
     r\<lparr>sg_state := state, sg_step := StepComplete, sg_completed := Some now, sg_lease := None, sg_error := None\<rparr>"

definition complete_action_tx :: "PayEnv \<Rightarrow> ActionClaim \<Rightarrow> ActionEvidence \<Rightarrow> unit wtx" where
  "complete_action_tx env claim evidence =
     (case ac_Type claim of
        ActionIssueTickets \<Rightarrow>
          tx_bind (writeTicketLocators env claim (ae_Issue evidence)) (\<lambda>_.
          tx_bind (move_claimed_intent env ''intent completed'' claim IntentTicketIssuePending
            (\<lambda>r. r\<lparr>pi_state := IntentCompleted, pi_completed := Some (py_clock env ''intent completed'')\<rparr>)) (\<lambda>_.
          oneRow (update_sagas env ''saga completed'' ErrStoreUnavailable
            (\<lambda>_ r. saga_claimed claim (py_clock env ''saga completed'') r \<and> sg_state r = SagaIssuingTickets)
            (saga_done (py_clock env ''saga completed'') SagaCompleted))))
      | ActionMarkRefundPending \<Rightarrow>
          oneRow (update_sagas env ''saga refunding'' ErrStoreUnavailable
            (\<lambda>_ r. saga_claimed claim (py_clock env ''saga refunding'') r \<and> sg_state r = SagaCompensating \<and> sg_step r = StepRefund)
            (\<lambda>r. r\<lparr>sg_state := SagaRefunding, sg_step := StepRefund, sg_lease := None, sg_error := None,
                   sg_next := py_clock env ''saga refunding''\<rparr>))
      | ActionCancelVoided \<Rightarrow>
          tx_bind (move_claimed_intent env ''intent voided'' claim IntentVoided (\<lambda>r. r\<lparr>pi_state := IntentCancelled\<rparr>)) (\<lambda>_.
          oneRow (update_sagas env ''saga compensated'' ErrStoreUnavailable
            (\<lambda>_ r. saga_claimed claim (py_clock env ''saga compensated'') r \<and> sg_state r = SagaCompensating \<and> sg_step r = StepCompensate)
            (saga_done (py_clock env ''saga compensated'') SagaCompensated)))
      | ActionCompensate \<Rightarrow>
          (let receipt = ae_Compensation evidence; command = ac_Compensation claim;
               matches = (\<lambda>l. ol_order l = rr_TicketOrderID receipt \<and> ol_reservation l = rc_ReservationID command \<and>
                 ol_owner l = rc_OwnerID command);
               expectedLocators = (if 0 < rr_CancelledTicketCount receipt then 1 else 0) in
          tx_bind (tx_get (\<lambda>db. length (filter matches (pay_ticket_order_locators db)))) (\<lambda>n.
          tx_bind (tx_reject (py_fault env ''cancel order locator'' \<or> n \<noteq> expectedLocators) ErrStoreUnavailable) (\<lambda>_.
          tx_bind (tx_modify (\<lambda>db. db\<lparr>pay_ticket_order_locators :=
            map (\<lambda>l. if matches l then l\<lparr>ol_status := ''cancelled''\<rparr> else l) (pay_ticket_order_locators db)\<rparr>)) (\<lambda>_.
          tx_bind (move_claimed_intent env ''intent cancelled'' claim IntentRefunded (\<lambda>r. r\<lparr>pi_state := IntentCancelled\<rparr>)) (\<lambda>_.
          oneRow (update_sagas env ''saga compensated'' ErrStoreUnavailable
            (\<lambda>_ r. saga_claimed claim (py_clock env ''saga compensated'') r \<and> sg_state r = SagaRefunding \<and> sg_step r = StepCompensate)
            (saga_done (py_clock env ''saga compensated'') SagaCompensated)))))))
      | ActionOther _ \<Rightarrow> tx_fail ErrStoreUnavailable)"

definition CompleteAction ::
  "PayEnv \<Rightarrow> ActionClaim \<Rightarrow> ActionEvidence \<Rightarrow> PaymentDb \<Rightarrow> (WorkerError + unit) \<times> PaymentDb" where
  "CompleteAction env claim evidence =
     run_tx (tx_bind (tx_reject (ac_SagaID claim = uuid_Nil \<or> ac_LeaseOwner claim = []) ErrStoreUnavailable) (\<lambda>_.
     in_transaction env (complete_action_tx env claim evidence)))"

definition fail_action_tx :: "PayEnv \<Rightarrow> ActionClaim \<Rightarrow> Failure \<Rightarrow> unit wtx" where
  "fail_action_tx env claim failure =
     (if fl_Compensate failure then
        if ac_Type claim \<noteq> ActionIssueTickets then tx_fail ErrStoreUnavailable
        else
        tx_bind (move_claimed_intent env ''intent refund pending'' claim IntentTicketIssuePending
          (\<lambda>r. r\<lparr>pi_state := IntentRefundPending\<rparr>)) (\<lambda>_.
        tx_bind (oneRow (update_sagas env ''saga compensating'' ErrStoreUnavailable
          (\<lambda>_ r. saga_claimed claim (py_clock env ''saga compensating'') r \<and> sg_state r = SagaIssuingTickets)
          (\<lambda>r. r\<lparr>sg_state := SagaCompensating, sg_step := StepRefund, sg_lease := None, sg_error := Some (fl_Category failure),
                 sg_next := py_clock env ''saga compensating''\<rparr>))) (\<lambda>_.
        tx_bind (tx_reject (ic_PaymentIntentID (ac_Issue claim) = uuid_Nil) ErrStoreUnavailable) (\<lambda>_.
        insertOperation env (ic_PaymentIntentID (ac_Issue claim)) (ac_Provider claim) OperationRefund
          (ic_AmountMinor (ac_Issue claim)) (ic_Currency (ac_Issue claim)))))
      else if fl_ManualReview failure then
        tx_bind (oneRow (update_sagas env ''saga manual review'' ErrStoreUnavailable
          (\<lambda>_ r. saga_claimed claim (py_clock env ''saga manual review'') r \<and> \<not> saga_ended (sg_state r))
          (\<lambda>r. r\<lparr>sg_state := SagaManualReview, sg_lease := None, sg_error := Some (fl_Category failure)\<rparr>))) (\<lambda>_.
        tx_bind (query_row env ''select saga intent'' ErrStoreUnavailable
          (\<lambda>db. map sg_intent (filter (\<lambda>s. sg_id s = ac_SagaID claim) (payment_sagas db)))) (\<lambda>row.
        case row of
          None \<Rightarrow> tx_fail ErrStoreUnavailable
        | Some intentID \<Rightarrow>
            tx_bind (review_intent env intentID) (\<lambda>_.
            insertReview env intentID uuid_Nil uuid_Nil (fl_Category failure))))
      else
        oneRow (update_sagas env ''retry action'' ErrStoreUnavailable
          (\<lambda>_ r. saga_claimed claim (py_clock env ''retry action'') r)
          (\<lambda>r. r\<lparr>sg_lease := None, sg_error := Some (fl_Category failure), sg_next := pg_timestamptz (fl_NextAttemptAt failure)\<rparr>)))"

definition FailAction :: "PayEnv \<Rightarrow> ActionClaim \<Rightarrow> Failure \<Rightarrow> PaymentDb \<Rightarrow> (WorkerError + unit) \<times> PaymentDb" where
  "FailAction env claim failure =
     run_tx (tx_bind (tx_reject (ac_SagaID claim = uuid_Nil \<or> ac_LeaseOwner claim = [] \<or> fl_Category failure = []) ErrStoreUnavailable) (\<lambda>_.
     in_transaction env (fail_action_tx env claim failure)))"

end
