(* ===== verification/Payment_Worker.thy ===== *)
theory Payment_Worker
  imports Payment_Finalize Retry_Backoff
begin

text \<open>
  The payment worker (\<^verbatim>\<open>internal/payment/worker/worker.go\<close>). One run claims operations, webhooks and actions, calls
  the provider or the shard for each of them outside every transaction, and records each outcome in a transaction
  of its own.

  The providers and the shard gateway are interfaces: functions on a world of any type. The store is the one of
  \<open>Payment_Claims\<close> and \<open>Payment_Finalize\<close>; the \<open>n\<close>-th call of a worker to it has an environment of its own and is
  preceded by what other processes have committed. Metrics are left out: they feed nothing back.
\<close>

subsection \<open>Interfaces and configuration\<close>

text \<open>An error of a provider that \<^verbatim>\<open>errors.As\<close> finds to be a \<^verbatim>\<open>*provider.Error\<close>, or another one.\<close>

datatype ClientError = ProviderFailure ProviderError | OtherFailure string

type_synonym ('w, 'a) pcall = "'w \<Rightarrow> (ClientError + 'a) \<times> 'w"

record 'w Client =
  pc_CreateCheckout :: "CreateCheckoutRequest \<Rightarrow> ('w, Checkout) pcall"
  pc_GetPaymentStatus :: "string \<Rightarrow> ('w, ProviderPayment) pcall"
  pc_Authorize :: "OperationRequest \<Rightarrow> string \<Rightarrow> ('w, OperationResult) pcall"
  pc_Capture :: "OperationRequest \<Rightarrow> ('w, OperationResult) pcall"
  pc_Void :: "OperationRequest \<Rightarrow> ('w, OperationResult) pcall"
  pc_Refund :: "OperationRequest \<Rightarrow> ('w, OperationResult) pcall"

record 'w ShardCalls =
  sc_IssueTickets :: "IssueTicketsCommand \<Rightarrow> ('w, IssueTicketsReceipt) call"
  sc_MarkRefundPending :: "MarkRefundPendingCommand \<Rightarrow> ('w, MarkRefundPendingReceipt) call"
  sc_CancelVoidedReservation :: "CancelVoidedReservationCommand \<Rightarrow> ('w, CancelVoidedReservationReceipt) call"
  sc_ApplyRefundCompensation :: "ApplyRefundCompensationCommand \<Rightarrow> ('w, ApplyRefundCompensationReceipt) call"

record WorkerConfig =
  wf_WorkerID :: string
  wf_BatchSize :: int
  wf_MaxAttempts :: int
  wf_LeaseTTL :: int64
  wf_RetryBase :: int64
  wf_RetryMax :: int64
  wf_MaxUncertain :: int64
  wf_Interval :: int64
  wf_Now :: gotime

record 'w Worker =
  wk_config :: WorkerConfig
  wk_providers :: "string \<rightharpoonup> 'w Client"
  wk_shards :: "'w ShardCalls"
  wk_ids :: PayIds
  wk_unicode :: Unicode
  wk_env :: "nat \<Rightarrow> PayEnv"
  wk_others :: "nat \<Rightarrow> PaymentDb \<Rightarrow> PaymentDb"

record 'w WorkerState =
  ws_db :: PaymentDb
  ws_world :: 'w
  ws_calls :: nat

record RunResult =
  rs_OperationsClaimed :: nat
  rs_OperationsDone :: nat
  rs_WebhooksClaimed :: nat
  rs_WebhooksDone :: nat
  rs_ActionsClaimed :: nat
  rs_ActionsDone :: nat
  rs_Retried :: nat
  rs_Compensating :: nat
  rs_ManualReview :: nat
  rs_Failures :: nat

definition no_result :: RunResult where
  "no_result = \<lparr>rs_OperationsClaimed = 0, rs_OperationsDone = 0, rs_WebhooksClaimed = 0, rs_WebhooksDone = 0,
     rs_ActionsClaimed = 0, rs_ActionsDone = 0, rs_Retried = 0, rs_Compensating = 0, rs_ManualReview = 0, rs_Failures = 0\<rparr>"

text \<open>An error of a run: one that wraps an error of the store, a claim that is not valid, or two joined errors.\<close>

datatype RunError =
    ErrInvalidConfiguration | WrappedError string WorkerError | InvalidClaim string | JoinedError RunError "RunError option"

definition validConfig :: "WorkerConfig \<Rightarrow> bool" where
  "validConfig config \<longleftrightarrow>
     identifierPattern (wf_WorkerID config) \<and> 0 < wf_BatchSize config \<and> wf_BatchSize config \<le> 1000 \<and>
     0 < wf_MaxAttempts config \<and> wf_MaxAttempts config \<le> 1000 \<and> 0 < wf_LeaseTTL config \<and>
     0 < wf_RetryBase config \<and> wf_RetryBase config \<le> wf_RetryMax config \<and>
     0 < wf_MaxUncertain config \<and> wf_MaxUncertain config \<le> 30 * 24 * 3600 * 1000000000 \<and> 0 < wf_Interval config"

definition New_worker :: "'w Worker \<Rightarrow> RunError + 'w Worker" where
  "New_worker worker =
     (let config = wk_config worker;
          config' = (if wf_MaxUncertain config = 0 then config\<lparr>wf_MaxUncertain := 24 * 3600 * 1000000000\<rparr> else config) in
      if \<not> validConfig config' then Inl ErrInvalidConfiguration else Inr (worker\<lparr>wk_config := config'\<rparr>))"

text \<open>A call to the store, and a call outside.\<close>

definition store_call ::
  "'w Worker \<Rightarrow> (PayEnv \<Rightarrow> PaymentDb \<Rightarrow> (WorkerError + 'a) \<times> PaymentDb) \<Rightarrow> 'w WorkerState \<Rightarrow>
     (WorkerError + 'a) \<times> 'w WorkerState" where
  "store_call worker run st =
     (let n = ws_calls st; (r, db) = run (wk_env worker n) (wk_others worker n (ws_db st)) in
      (r, st\<lparr>ws_db := db, ws_calls := Suc n\<rparr>))"

definition outside_call :: "('w \<Rightarrow> 'r \<times> 'w) \<Rightarrow> 'w WorkerState \<Rightarrow> 'r \<times> 'w WorkerState" where
  "outside_call run st = (let (r, w) = run (ws_world st) in (r, st\<lparr>ws_world := w\<rparr>))"

subsection \<open>Categories of failures\<close>

definition category_char :: "char \<Rightarrow> bool" where
  "category_char c \<longleftrightarrow> lower_letter c \<or> decimal_digit c \<or> c = CHR ''_''"

text \<open>
  The loop of \<^verbatim>\<open>boundedCategory\<close>. It reads runes: every other character, of one byte or of several, becomes one
  underscore, never twice in a row.
\<close>

fun bounded_loop :: "string \<Rightarrow> string \<Rightarrow> string" where
  "bounded_loop acc [] = acc"
| "bounded_loop acc (c # cs) =
     (let acc' = (if category_char c then acc @ [c]
                  else if acc \<noteq> [] \<and> last acc \<noteq> CHR ''_'' then acc @ ''_'' else acc) in
      if length acc' = 64 then acc' else bounded_loop acc' cs)"

definition trim_underscores :: "string \<Rightarrow> string" where
  "trim_underscores s =
     rev (dropWhile (\<lambda>c. c = CHR ''_'') (rev (dropWhile (\<lambda>c. c = CHR ''_'') s)))"

definition boundedCategory :: "Unicode \<Rightarrow> string \<Rightarrow> string" where
  "boundedCategory u value =
     (let bounded = trim_underscores (bounded_loop [] (ToLower u value)) in
      if bounded = [] \<or> \<not> lower_letter (hd bounded) then ''worker_failure'' else bounded)"

fun category_text :: "ErrorCategory \<Rightarrow> string" where
  "category_text ErrorTransport = ''transport_retryable''"
| "category_text ErrorTimeoutUnknown = ''timeout_unknown''"
| "category_text ErrorPermanentValidation = ''validation_permanent''"
| "category_text ErrorAuthentication = ''authentication''"
| "category_text ErrorUnavailable = ''provider_unavailable''"
| "category_text ErrorRateLimited = ''rate_limited''"
| "category_text ErrorConflict = ''conflict''"
| "category_text ErrorInconsistentResponse = ''inconsistent_response''"

definition classifyProviderError :: "Unicode \<Rightarrow> ClientError \<Rightarrow> string \<times> bool \<times> bool" where
  "classifyProviderError u err =
     (case err of
        OtherFailure _ \<Rightarrow> (''provider_unavailable'', True, False)
      | ProviderFailure e \<Rightarrow> (boundedCategory u (category_text (pe_Category e)), pe_Retryable e, pe_Uncertain e))"

definition permanentShardError :: "Unicode \<Rightarrow> GoError \<Rightarrow> bool" where
  "permanentShardError u err \<longleftrightarrow>
     contains_string (ToLower u (ge_text err)) ''conflict'' \<or> contains_string (ToLower u (ge_text err)) ''not payable''"

definition shardFailureCategory :: "GoError \<Rightarrow> string" where
  "shardFailureCategory err =
     (if errors_Is err IsTicketPlanUnavailable then ''shard_ticket_plan_failed''
      else if errors_Is err IsTicketClaimUnauthorized then ''shard_ticket_claim_unauthorized''
      else if errors_Is err IsTicketClaimReadFailed then
        (if errors_Is err IsTicketClaimReadTimeout then ''shard_ticket_claim_read_timeout''
         else if errors_Is err IsTicketClaimSQLFailed then ''shard_ticket_claim_sql_failed''
         else if errors_Is err IsTicketClaimScanFailed then ''shard_ticket_claim_scan_failed''
         else if errors_Is err IsTicketClaimDecodeFailed then ''shard_ticket_claim_decode_failed''
         else ''shard_ticket_claim_read_failed'')
      else if errors_Is err IsTicketClaimConflict then ''shard_ticket_claim_conflict''
      else if errors_Is err IsTicketClaimCommitFailed then ''shard_ticket_claim_commit_failed''
      else if errors_Is err IsTicketClaimUnavailable then ''shard_ticket_claim_failed''
      else if errors_Is err IsTicketIssueUnavailable then ''shard_ticket_issue_failed''
      else ''shard_command_failed'')"

subsection \<open>Calls of the provider\<close>

definition expectedDisposition :: "OperationType \<Rightarrow> Status \<Rightarrow> OperationDisposition" where
  "expectedDisposition kind status =
     (if kind = OperationCreateCheckout \<and> (status = StatusCreated \<or> status = StatusRequiresCustomerAction) \<or>
         kind = OperationQueryStatus \<or> kind = OperationAuthorize \<and> status = StatusAuthorized \<or>
         kind = OperationCapture \<and> status = StatusCaptured \<or> kind = OperationVoid \<and> status = StatusVoided \<or>
         kind = OperationRefund \<and> status = StatusRefunded
      then DispositionApplied
      else if status = StatusUnknown then DispositionUnknown else DispositionConflict)"

definition uncertainDisposition :: "OperationType \<Rightarrow> Status \<Rightarrow> OperationDisposition" where
  "uncertainDisposition kind status =
     (if expectedDisposition kind status = DispositionApplied then DispositionApplied
      else if kind = OperationAuthorize \<and> (status = StatusCreated \<or> status = StatusRequiresCustomerAction) \<or>
              kind = OperationCapture \<and> status = StatusAuthorized \<or>
              kind = OperationVoid \<and> (status = StatusCreated \<or> status = StatusRequiresCustomerAction \<or> status = StatusAuthorized) \<or>
              kind = OperationRefund \<and> status = StatusCaptured
      then DispositionNotApplied
      else if status = StatusUnknown then DispositionUnknown else DispositionConflict)"

definition fingerprintEvidence :: "PayIds \<Rightarrow> OperationEvidence \<Rightarrow> byte list" where
  "fingerprintEvidence ids evidence =
     pid_Sum256 ids
       (concat (map (identity_field \<circ> string_bytes)
          [''payment-evidence-v1'', oe_ProviderPaymentID evidence, oe_ProviderOperationID evidence,
           status_text (oe_Status evidence), oe_Currency evidence]) @
        concat (map (big_endian 8 \<circ> uint64_of) [oe_AmountMinor evidence, oe_CapturedMinor evidence, oe_RefundedMinor evidence]))"

text \<open>The zero value of the struct; its disposition and status are empty texts in the code, which no branch accepts.\<close>

definition zero_evidence :: OperationEvidence where
  "zero_evidence =
     \<lparr>oe_Disposition = DispositionUnknown, oe_ProviderPaymentID = [], oe_ProviderOperationID = [], oe_HostedSessionRef = [],
      oe_Status = StatusOther [], oe_AmountMinor = 0, oe_Currency = [], oe_CapturedMinor = 0, oe_RefundedMinor = 0,
      oe_ResponseFingerprint = zero_digest, oe_ProviderObservedTime = 0\<rparr>"

definition operationResultEvidence :: "OperationResult \<Rightarrow> OperationEvidence" where
  "operationResultEvidence value =
     zero_evidence\<lparr>oe_ProviderPaymentID := re_ProviderPaymentID value, oe_ProviderOperationID := re_ProviderOperationID value,
       oe_Status := re_Status value, oe_AmountMinor := re_AmountMinor value, oe_Currency := re_Currency value\<rparr>"

definition checkout_evidence :: "Checkout \<Rightarrow> OperationEvidence" where
  "checkout_evidence value =
     zero_evidence\<lparr>oe_ProviderPaymentID := co_ProviderPaymentID value, oe_HostedSessionRef := co_HostedReference value,
       oe_Status := co_Status value, oe_AmountMinor := co_AmountMinor value, oe_Currency := co_Currency value\<rparr>"

definition claim_metadata :: "PayIds \<Rightarrow> OperationClaim \<Rightarrow> Metadata" where
  "claim_metadata ids claim =
     [(''payment_intent_id'', pid_String ids (oc_PaymentIntentID claim)), (''operation_id'', pid_String ids (oc_OperationID claim))]"

definition checkout_request :: "PayIds \<Rightarrow> OperationClaim \<Rightarrow> CreateCheckoutRequest" where
  "checkout_request ids claim =
     \<lparr>cc_PaymentIntentID = pid_String ids (oc_PaymentIntentID claim),
      cc_MerchantReference = pid_String ids (oc_PaymentIntentID claim), cc_AmountMinor = oc_AmountMinor claim,
      cc_Currency = oc_Currency claim, cc_IdempotencyKey = oc_ProviderIdempotencyKey claim,
      cc_Metadata = claim_metadata ids claim\<rparr>"

text \<open>The request of the other operations; a void carries no amount.\<close>

definition operation_request :: "PayIds \<Rightarrow> OperationClaim \<Rightarrow> int64 \<Rightarrow> string \<Rightarrow> OperationRequest" where
  "operation_request ids claim amount cur =
     \<lparr>or_PaymentIntentID = pid_String ids (oc_PaymentIntentID claim), or_ProviderPaymentID = oc_ProviderPaymentID claim,
      or_AmountMinor = amount, or_Currency = cur, or_IdempotencyKey = oc_ProviderIdempotencyKey claim,
      or_Metadata = claim_metadata ids claim\<rparr>"

text \<open>A provider's answer becomes evidence with its disposition and its fingerprint.\<close>

definition with_evidence ::
  "PayIds \<Rightarrow> OperationType \<Rightarrow> ('a \<Rightarrow> OperationEvidence) \<Rightarrow> (ClientError + 'a) \<times> 'w \<Rightarrow> (ClientError + OperationEvidence) \<times> 'w" where
  "with_evidence ids kind conv outcome =
     (case outcome of
        (Inl e, w) \<Rightarrow> (Inl e, w)
      | (Inr value, w) \<Rightarrow>
          let evidence = (conv value)\<lparr>oe_Disposition := expectedDisposition kind (oe_Status (conv value))\<rparr> in
          (Inr (evidence\<lparr>oe_ResponseFingerprint := fingerprintEvidence ids evidence\<rparr>), w))"

definition queryStatus :: "PayIds \<Rightarrow> 'w Client \<Rightarrow> OperationClaim \<Rightarrow> ('w, OperationEvidence) pcall" where
  "queryStatus ids client claim w =
     (case pc_GetPaymentStatus client (oc_ProviderPaymentID claim) w of
        (Inl e, w1) \<Rightarrow> (Inl e, w1)
      | (Inr value, w1) \<Rightarrow>
          let evidence = zero_evidence\<lparr>oe_Disposition := DispositionApplied, oe_ProviderPaymentID := pp_ProviderPaymentID value,
                oe_Status := pp_Status value, oe_AmountMinor := pp_AmountMinor value, oe_Currency := pp_Currency value,
                oe_CapturedMinor := pp_CapturedMinor value, oe_RefundedMinor := pp_RefundedMinor value,
                oe_ProviderObservedTime := pp_ProviderUpdatedAt value\<rparr> in
          (Inr (evidence\<lparr>oe_ResponseFingerprint := fingerprintEvidence ids evidence\<rparr>), w1))"

definition invokeProvider :: "PayIds \<Rightarrow> 'w Client \<Rightarrow> OperationClaim \<Rightarrow> ('w, OperationEvidence) pcall" where
  "invokeProvider ids client claim w =
     (let request = operation_request ids claim (oc_AmountMinor claim) (oc_Currency claim);
          finish = with_evidence ids (oc_Type claim) operationResultEvidence in
      case oc_Type claim of
        OperationCreateCheckout \<Rightarrow>
          with_evidence ids (oc_Type claim) checkout_evidence (pc_CreateCheckout client (checkout_request ids claim) w)
      | OperationQueryStatus \<Rightarrow> queryStatus ids client claim w
      | OperationAuthorize \<Rightarrow> finish (pc_Authorize client request (oc_ProviderActionToken claim) w)
      | OperationCapture \<Rightarrow> finish (pc_Capture client request w)
      | OperationVoid \<Rightarrow> finish (pc_Void client (operation_request ids claim 0 []) w)
      | OperationRefund \<Rightarrow> finish (pc_Refund client request w)
      | OperationTypeOther _ \<Rightarrow>
          (Inl (ProviderFailure \<lparr>pe_Category = ErrorPermanentValidation, pe_Operation = ''unknown'', pe_Retryable = False,
             pe_Uncertain = False, pe_Message = ''payment operation is invalid''\<rparr>), w))"

definition queryUncertain :: "PayIds \<Rightarrow> 'w Client \<Rightarrow> OperationClaim \<Rightarrow> ('w, OperationEvidence) pcall" where
  "queryUncertain ids client claim w =
     (if oc_Type claim = OperationCreateCheckout \<and> oc_ProviderPaymentID claim = []
      then with_evidence ids (oc_Type claim) checkout_evidence (pc_CreateCheckout client (checkout_request ids claim) w)
      else if oc_ProviderPaymentID claim = [] then (Inr zero_evidence, w)
      else case queryStatus ids client claim w of
        (Inl e, w1) \<Rightarrow> (Inl e, w1)
      | (Inr evidence, w1) \<Rightarrow>
          (Inr (evidence\<lparr>oe_Disposition := uncertainDisposition (oc_Type claim) (oe_Status evidence)\<rparr>), w1))"


subsection \<open>Checks of claims and receipts\<close>

definition validateOperationClaim :: "OperationClaim \<Rightarrow> string \<Rightarrow> bool" where
  "validateOperationClaim claim workerID \<longleftrightarrow>
     \<not> (oc_OperationID claim = uuid_Nil \<or> oc_PaymentIntentID claim = uuid_Nil \<or> oc_ReservationID claim = uuid_Nil \<or>
        oc_TrainRunID claim = uuid_Nil \<or> oc_OwnerID claim = uuid_Nil \<or> oc_Provider claim = [] \<or>
        oc_ProviderIdempotencyKey claim = [] \<or> oc_AmountMinor claim < 0 \<or> length (oc_Currency claim) \<noteq> 3 \<or>
        oc_Attempts claim < 1 \<or> IsZero_time (oc_CreatedAt claim) \<or> oc_LeaseOwner claim \<noteq> workerID \<or>
        IsZero_time (oc_LeaseUntil claim))"

definition knownEvent :: "EventType \<Rightarrow> bool" where
  "knownEvent eventType \<longleftrightarrow>
     eventType \<in> {EventCheckoutCreated, EventAuthorized, EventCaptured, EventVoided, EventRefunded}"

definition validWebhookClaim :: "WebhookClaim \<Rightarrow> string \<Rightarrow> bool" where
  "validWebhookClaim claim workerID \<longleftrightarrow>
     wc_InboxID claim \<noteq> uuid_Nil \<and> wc_Provider claim \<noteq> [] \<and> wc_ProviderEventID claim \<noteq> [] \<and>
     \<not> IsZero_time (wc_EventCreatedAt claim) \<and> 0 < wc_Attempts claim \<and> wc_LeaseOwner claim = workerID \<and>
     \<not> IsZero_time (wc_LeaseUntil claim) \<and> (\<not> knownEvent (wc_EventType claim) \<or> wc_ProviderPaymentID claim \<noteq> [])"

definition validActionClaim :: "ActionClaim \<Rightarrow> string \<Rightarrow> bool" where
  "validActionClaim claim workerID \<longleftrightarrow>
     ac_SagaID claim \<noteq> uuid_Nil \<and> ac_Provider claim \<noteq> [] \<and> 0 < ac_Attempts claim \<and> ac_LeaseOwner claim = workerID \<and>
     \<not> IsZero_time (ac_LeaseUntil claim)"

definition validActionEvidence :: "ActionClaim \<Rightarrow> ActionEvidence \<Rightarrow> bool" where
  "validActionEvidence claim evidence \<longleftrightarrow>
     (case ac_Type claim of
        ActionIssueTickets \<Rightarrow>
          (let receipt = ae_Issue evidence; command = ac_Issue claim in
           it_TicketOrderID receipt \<noteq> uuid_Nil \<and> it_TicketIDs receipt \<noteq> [] \<and> \<not> IsZero_time (it_OrderCreatedAt receipt) \<and>
           \<not> IsZero_time (it_IssuedAt receipt) \<and> uuid_Nil \<notin> set (it_TicketIDs receipt) \<and> distinct (it_TicketIDs receipt) \<and>
           it_CommandID receipt = ic_CommandID command \<and> it_IssuanceID receipt = ic_IssuanceID command \<and>
           it_PaymentIntentID receipt = ic_PaymentIntentID command \<and> it_ReservationID receipt = ic_ReservationID command \<and>
           it_AmountMinor receipt = ic_AmountMinor command \<and> it_Currency receipt = ic_Currency command)
      | ActionMarkRefundPending \<Rightarrow>
          (let receipt = ae_MarkRefund evidence; command = ac_MarkRefund claim in
           mr_TicketOrderID receipt \<noteq> uuid_Nil \<and> mr_CommandID receipt = mc_CommandID command \<and>
           mr_PaymentIntentID receipt = mc_PaymentIntentID command \<and> mr_ReservationID receipt = mc_ReservationID command)
      | ActionCancelVoided \<Rightarrow>
          (let receipt = ae_CancelVoided evidence; command = ac_CancelVoided claim in
           vr_TicketOrderID receipt \<noteq> uuid_Nil \<and> 0 < vr_ReleasedSeatCount receipt \<and> \<not> IsZero_time (vr_CancelledAt receipt) \<and>
           vr_CommandID receipt = vc_CommandID command \<and> vr_VoidOperationID receipt = vc_VoidOperationID command \<and>
           vr_PaymentIntentID receipt = vc_PaymentIntentID command \<and> vr_ReservationID receipt = vc_ReservationID command)
      | ActionCompensate \<Rightarrow>
          (let receipt = ae_Compensation evidence; command = ac_Compensation claim in
           rr_TicketOrderID receipt \<noteq> uuid_Nil \<and> 0 < rr_ReleasedSeatCount receipt \<and>
           rr_CommandID receipt = rc_CommandID command \<and> rr_CompensationID receipt = rc_CompensationID command \<and>
           rr_PaymentIntentID receipt = rc_PaymentIntentID command \<and> rr_ReservationID receipt = rc_ReservationID command)
      | ActionOther _ \<Rightarrow> False)"

subsection \<open>Operations\<close>

type_synonym 'w item_outcome = "RunError option \<times> RunResult \<times> 'w WorkerState"

definition retry_at :: "'w Worker \<Rightarrow> gotime \<Rightarrow> uuid \<Rightarrow> int \<Rightarrow> gotime" where
  "retry_at worker now key attempts =
     now + retryDelay key attempts (wf_RetryBase (wk_config worker)) (wf_RetryMax (wk_config worker))"

definition failOperationWithUncertainty ::
  "'w Worker \<Rightarrow> gotime \<Rightarrow> OperationClaim \<Rightarrow> string \<Rightarrow> bool \<Rightarrow> bool \<Rightarrow> RunResult \<Rightarrow> 'w WorkerState \<Rightarrow> 'w item_outcome" where
  "failOperationWithUncertainty worker now claim category review uncertain result st =
     (let failure = \<lparr>fl_Category = boundedCategory (wk_unicode worker) category,
            fl_NextAttemptAt = (if review then 0 else retry_at worker now (oc_OperationID claim) (oc_Attempts claim)),
            fl_ManualReview = review, fl_Uncertain = uncertain, fl_Compensate = False\<rparr> in
      case store_call worker (\<lambda>env. FailOperation env claim failure) st of
        (Inl e, st1) \<Rightarrow> (Some (WrappedError ''fail payment operation'' e), result, st1)
      | (Inr _, st1) \<Rightarrow>
          if review then (None, result\<lparr>rs_ManualReview := rs_ManualReview result + 1\<rparr>, st1)
          else (None, result\<lparr>rs_Retried := rs_Retried result + 1\<rparr>, st1))"

definition failOperation ::
  "'w Worker \<Rightarrow> gotime \<Rightarrow> OperationClaim \<Rightarrow> string \<Rightarrow> bool \<Rightarrow> RunResult \<Rightarrow> 'w WorkerState \<Rightarrow> 'w item_outcome" where
  "failOperation worker now claim category review = failOperationWithUncertainty worker now claim category review False"

definition failInvalidOperation ::
  "'w Worker \<Rightarrow> gotime \<Rightarrow> OperationClaim \<Rightarrow> RunResult \<Rightarrow> 'w WorkerState \<Rightarrow> 'w item_outcome" where
  "failInvalidOperation worker now claim result st =
     (if oc_OperationID claim = uuid_Nil \<or> oc_LeaseOwner claim = [] then (Some (InvalidClaim ''payment operation''), result, st)
      else if oc_PreviousState claim \<noteq> OperationUncertain then
        (case store_call worker (\<lambda>env. BeginOperation env claim) st of
           (Inl e, st1) \<Rightarrow> (Some (WrappedError ''begin invalid payment operation'' e), result, st1)
         | (Inr _, st1) \<Rightarrow> failOperation worker now claim ''invalid_claim'' True result st1)
      else failOperation worker now claim ''invalid_claim'' True result st)"

definition capturedInsteadOfVoided :: "OperationClaim \<Rightarrow> OperationEvidence \<Rightarrow> bool" where
  "capturedInsteadOfVoided claim evidence \<longleftrightarrow>
     oc_Type claim = OperationVoid \<and> oc_PreviousState claim = OperationUncertain \<and> oe_Status evidence = StatusCaptured \<and>
     oe_ProviderPaymentID evidence \<noteq> [] \<and> 0 < oc_AmountMinor claim \<and> oe_AmountMinor evidence = oc_AmountMinor claim \<and>
     oe_Currency evidence = oc_Currency claim \<and> oe_CapturedMinor evidence = oc_AmountMinor claim \<and>
     oe_RefundedMinor evidence = 0 \<and> oe_ResponseFingerprint evidence \<noteq> zero_digest"

text \<open>What follows the answer of the provider.\<close>

definition settle_operation ::
  "'w Worker \<Rightarrow> gotime \<Rightarrow> OperationClaim \<Rightarrow> ClientError + OperationEvidence \<Rightarrow> RunResult \<Rightarrow> 'w WorkerState \<Rightarrow> 'w item_outcome" where
  "settle_operation worker now claim answer result st =
     (let exhausted = (wf_MaxAttempts (wk_config worker) \<le> oc_Attempts claim) in
      case answer of
        Inl err \<Rightarrow>
          (let (category, retryable, uncertain) = classifyProviderError (wk_unicode worker) err in
           failOperationWithUncertainty worker now claim (if uncertain then ''provider_outcome_unknown'' else category)
             (\<not> uncertain \<and> (\<not> retryable \<or> exhausted)) uncertain result st)
      | Inr evidence \<Rightarrow>
          if capturedInsteadOfVoided claim evidence then
            (case store_call worker (\<lambda>env. SupersedeVoidWithRefund env claim evidence) st of
               (Inl e, st1) \<Rightarrow> (Some (WrappedError ''supersede void with refund'' e), result, st1)
             | (Inr _, st1) \<Rightarrow> (None, result\<lparr>rs_OperationsDone := rs_OperationsDone result + 1\<rparr>, st1))
          else if oc_Type claim = OperationVoid \<and> oc_PreviousState claim = OperationUncertain \<and> oe_Status evidence = StatusUnknown
          then failOperation worker now claim ''provider_outcome_unknown'' True result st
          else (case oe_Disposition evidence of
            DispositionApplied \<Rightarrow>
              (case store_call worker (\<lambda>env. CompleteOperation env claim evidence) st of
                 (Inl e, st1) \<Rightarrow> (Some (WrappedError ''complete payment operation'' e), result, st1)
               | (Inr _, st1) \<Rightarrow> (None, result\<lparr>rs_OperationsDone := rs_OperationsDone result + 1\<rparr>, st1))
          | DispositionNotApplied \<Rightarrow> failOperation worker now claim ''provider_not_applied'' exhausted result st
          | DispositionConflict \<Rightarrow> failOperation worker now claim ''provider_state_conflict'' True result st
          | DispositionUnknown \<Rightarrow> failOperation worker now claim ''provider_outcome_unknown'' exhausted result st))"

definition ask_provider ::
  "'w Worker \<Rightarrow> gotime \<Rightarrow> OperationClaim \<Rightarrow> RunResult \<Rightarrow> 'w WorkerState \<Rightarrow> 'w item_outcome" where
  "ask_provider worker now claim result st =
     (case wk_providers worker (oc_Provider claim) of
        None \<Rightarrow> failOperation worker now claim ''provider_unavailable'' True result st
      | Some client \<Rightarrow>
          (let (answer, st1) = outside_call
                 (if oc_PreviousState claim = OperationUncertain then queryUncertain (wk_ids worker) client claim
                  else invokeProvider (wk_ids worker) client claim) st in
           settle_operation worker now claim answer result st1))"

definition processOperation ::
  "'w Worker \<Rightarrow> gotime \<Rightarrow> OperationClaim \<Rightarrow> RunResult \<Rightarrow> 'w WorkerState \<Rightarrow> 'w item_outcome" where
  "processOperation worker now claim result st =
     (if \<not> validateOperationClaim claim (wf_WorkerID (wk_config worker)) then failInvalidOperation worker now claim result st
      else if oc_PreviousState claim = OperationUncertain \<and> oc_CreatedAt claim + wf_MaxUncertain (wk_config worker) \<le> now
      then failOperationWithUncertainty worker now claim ''uncertainty_window_exceeded'' True True result st
      else if oc_PreviousState claim \<noteq> OperationUncertain then
        (case store_call worker (\<lambda>env. BeginOperation env claim) st of
           (Inl e, st1) \<Rightarrow> (Some (WrappedError ''begin payment operation'' e), result, st1)
         | (Inr _, st1) \<Rightarrow> ask_provider worker now claim result st1)
      else ask_provider worker now claim result st)"

subsection \<open>Webhooks\<close>

definition failWebhook ::
  "'w Worker \<Rightarrow> gotime \<Rightarrow> WebhookClaim \<Rightarrow> string \<Rightarrow> bool \<Rightarrow> RunResult \<Rightarrow> 'w WorkerState \<Rightarrow> 'w item_outcome" where
  "failWebhook worker now claim category review result st =
     (if wc_InboxID claim = uuid_Nil \<or> wc_LeaseOwner claim = [] then (Some (InvalidClaim ''payment webhook''), result, st)
      else let failure = \<lparr>fl_Category = boundedCategory (wk_unicode worker) category,
                 fl_NextAttemptAt = (if review then 0 else retry_at worker now (wc_InboxID claim) (wc_Attempts claim)),
                 fl_ManualReview = review, fl_Uncertain = False, fl_Compensate = False\<rparr> in
        (case store_call worker (\<lambda>env. FailWebhook env claim failure) st of
           (Inl e, st1) \<Rightarrow> (Some (WrappedError ''fail payment webhook'' e), result, st1)
         | (Inr _, st1) \<Rightarrow>
             if review then (None, result\<lparr>rs_ManualReview := rs_ManualReview result + 1\<rparr>, st1)
             else (None, result\<lparr>rs_Retried := rs_Retried result + 1\<rparr>, st1)))"

definition processWebhook ::
  "'w Worker \<Rightarrow> gotime \<Rightarrow> WebhookClaim \<Rightarrow> RunResult \<Rightarrow> 'w WorkerState \<Rightarrow> 'w item_outcome" where
  "processWebhook worker now claim result st =
     (let exhausted = (wf_MaxAttempts (wk_config worker) \<le> wc_Attempts claim) in
      if \<not> validWebhookClaim claim (wf_WorkerID (wk_config worker)) then failWebhook worker now claim ''invalid_claim'' True result st
      else if wc_EventType claim = EventUnknown \<or> \<not> knownEvent (wc_EventType claim) then
        (case store_call worker (\<lambda>env. IgnoreWebhook env claim) st of
           (Inl e, st1) \<Rightarrow> (Some (WrappedError ''ignore payment webhook'' e), result, st1)
         | (Inr _, st1) \<Rightarrow> (None, result\<lparr>rs_WebhooksDone := rs_WebhooksDone result + 1\<rparr>, st1))
      else case wk_providers worker (wc_Provider claim) of
        None \<Rightarrow> failWebhook worker now claim ''provider_unavailable'' True result st
      | Some client \<Rightarrow>
          (case outside_call (pc_GetPaymentStatus client (wc_ProviderPaymentID claim)) st of
             (Inl err, st1) \<Rightarrow>
               (let (category, retryable, uncertain) = classifyProviderError (wk_unicode worker) err in
                failWebhook worker now claim category (\<not> retryable \<and> \<not> uncertain \<or> exhausted) result st1)
           | (Inr payment, st1) \<Rightarrow>
               let evidence = \<lparr>we_Status = pp_Status payment, we_AmountMinor = pp_AmountMinor payment,
                     we_Currency = pp_Currency payment, we_CapturedMinor = pp_CapturedMinor payment,
                     we_RefundedMinor = pp_RefundedMinor payment, we_ProviderUpdated = pp_ProviderUpdatedAt payment\<rparr> in
               (case store_call worker (\<lambda>env. CompleteWebhook env claim evidence) st1 of
                  (Inl e, st2) \<Rightarrow>
                    (let (err, result', st3) = failWebhook worker now claim ''database_finalize_failed'' exhausted result st2 in
                     (Some (JoinedError (WrappedError ''complete payment webhook'' e) err), result', st3))
                | (Inr _, st2) \<Rightarrow> (None, result\<lparr>rs_WebhooksDone := rs_WebhooksDone result + 1\<rparr>, st2))))"

subsection \<open>Actions\<close>

definition failAction ::
  "'w Worker \<Rightarrow> gotime \<Rightarrow> ActionClaim \<Rightarrow> string \<Rightarrow> bool \<Rightarrow> RunResult \<Rightarrow> 'w WorkerState \<Rightarrow> 'w item_outcome" where
  "failAction worker now claim category review result st =
     (if ac_SagaID claim = uuid_Nil \<or> ac_LeaseOwner claim = [] then (Some (InvalidClaim ''payment action''), result, st)
      else let compensate = (review \<and> ac_Type claim = ActionIssueTickets \<and> category \<noteq> ''database_finalize_failed'');
               failure = \<lparr>fl_Category = boundedCategory (wk_unicode worker) category,
                 fl_NextAttemptAt = (if review then 0 else retry_at worker now (ac_SagaID claim) (ac_Attempts claim)),
                 fl_ManualReview = (review \<and> \<not> compensate), fl_Uncertain = False, fl_Compensate = compensate\<rparr> in
        (case store_call worker (\<lambda>env. FailAction env claim failure) st of
           (Inl e, st1) \<Rightarrow> (Some (WrappedError ''fail payment action'' e), result, st1)
         | (Inr _, st1) \<Rightarrow>
             if compensate then (None, result\<lparr>rs_Compensating := rs_Compensating result + 1\<rparr>, st1)
             else if review then (None, result\<lparr>rs_ManualReview := rs_ManualReview result + 1\<rparr>, st1)
             else (None, result\<lparr>rs_Retried := rs_Retried result + 1\<rparr>, st1)))"

definition zero_action_evidence :: ActionEvidence where
  "zero_action_evidence =
     \<lparr>ae_Issue = \<lparr>it_CommandID = 0, it_IssuanceID = 0, it_PaymentIntentID = 0, it_ReservationID = 0, it_TicketOrderID = 0,
        it_TicketIDs = [], it_TicketCodes = [], it_AmountMinor = 0, it_Currency = [], it_OrderCreatedAt = 0, it_IssuedAt = 0\<rparr>,
      ae_MarkRefund = \<lparr>mr_CommandID = 0, mr_PaymentIntentID = 0, mr_ReservationID = 0, mr_TicketOrderID = 0\<rparr>,
      ae_CancelVoided = \<lparr>vr_CommandID = 0, vr_VoidOperationID = 0, vr_PaymentIntentID = 0, vr_ReservationID = 0,
        vr_TicketOrderID = 0, vr_ReleasedSeatCount = 0, vr_CancelledAt = 0\<rparr>,
      ae_Compensation = \<lparr>rr_CommandID = 0, rr_CompensationID = 0, rr_PaymentIntentID = 0, rr_ReservationID = 0,
        rr_TicketOrderID = 0, rr_ReleasedSeatCount = 0, rr_CancelledTicketCount = 0\<rparr>\<rparr>"

text \<open>The command of an action, run by the shard; an unknown action has none.\<close>

definition receipt_of :: "('r \<Rightarrow> ActionEvidence) \<Rightarrow> (GoError + 'r) \<times> 'w \<Rightarrow> (GoError + ActionEvidence) \<times> 'w" where
  "receipt_of put outcome = (case outcome of (Inl e, w) \<Rightarrow> (Inl e, w) | (Inr r, w) \<Rightarrow> (Inr (put r), w))"

definition action_command :: "'w ShardCalls \<Rightarrow> ActionClaim \<Rightarrow> ('w, ActionEvidence) call option" where
  "action_command shards claim =
     (let none = zero_action_evidence in
      case ac_Type claim of
        ActionIssueTickets \<Rightarrow>
          Some (\<lambda>w. receipt_of (\<lambda>r. none\<lparr>ae_Issue := r\<rparr>) (sc_IssueTickets shards (ac_Issue claim) w))
      | ActionMarkRefundPending \<Rightarrow>
          Some (\<lambda>w. receipt_of (\<lambda>r. none\<lparr>ae_MarkRefund := r\<rparr>) (sc_MarkRefundPending shards (ac_MarkRefund claim) w))
      | ActionCancelVoided \<Rightarrow>
          Some (\<lambda>w. receipt_of (\<lambda>r. none\<lparr>ae_CancelVoided := r\<rparr>) (sc_CancelVoidedReservation shards (ac_CancelVoided claim) w))
      | ActionCompensate \<Rightarrow>
          Some (\<lambda>w. receipt_of (\<lambda>r. none\<lparr>ae_Compensation := r\<rparr>) (sc_ApplyRefundCompensation shards (ac_Compensation claim) w))
      | ActionOther _ \<Rightarrow> None)"

definition processAction ::
  "'w Worker \<Rightarrow> gotime \<Rightarrow> ActionClaim \<Rightarrow> RunResult \<Rightarrow> 'w WorkerState \<Rightarrow> 'w item_outcome" where
  "processAction worker now claim result st =
     (let exhausted = (wf_MaxAttempts (wk_config worker) \<le> ac_Attempts claim) in
      if \<not> validActionClaim claim (wf_WorkerID (wk_config worker)) then failAction worker now claim ''invalid_claim'' True result st
      else case action_command (wk_shards worker) claim of
        None \<Rightarrow> failAction worker now claim ''invalid_action'' True result st
      | Some run \<Rightarrow>
          (case outside_call run st of
             (Inl err, st1) \<Rightarrow>
               failAction worker now claim (shardFailureCategory err)
                 (exhausted \<or> permanentShardError (wk_unicode worker) err) result st1
           | (Inr evidence, st1) \<Rightarrow>
               if \<not> validActionEvidence claim evidence then failAction worker now claim ''shard_receipt_conflict'' True result st1
               else (case store_call worker (\<lambda>env. CompleteAction env claim evidence) st1 of
                  (Inl e, st2) \<Rightarrow>
                    (let (err, result', st3) = failAction worker now claim ''database_finalize_failed'' exhausted result st2 in
                     (Some (JoinedError (WrappedError ''complete payment action'' e) err), result', st3))
                | (Inr _, st2) \<Rightarrow> (None, result\<lparr>rs_ActionsDone := rs_ActionsDone result + 1\<rparr>, st2))))"

subsection \<open>One run\<close>

text \<open>The loop over the claimed items of one kind; an error does not end it.\<close>

fun process_each ::
  "('c \<Rightarrow> RunResult \<Rightarrow> 'w WorkerState \<Rightarrow> 'w item_outcome) \<Rightarrow> 'c list \<Rightarrow> RunError list \<Rightarrow> RunResult \<Rightarrow> 'w WorkerState \<Rightarrow>
     RunError list \<times> RunResult \<times> 'w WorkerState" where
  "process_each step [] failures result st = (failures, result, st)"
| "process_each step (claim # rest) failures result st =
     (let (err, result', st') = step claim result st in
      process_each step rest (failures @ (case err of None \<Rightarrow> [] | Some e \<Rightarrow> [e])) result' st')"

text \<open>Claiming one kind of items and processing them.\<close>

definition run_lane ::
  "'w Worker \<Rightarrow> (PayEnv \<Rightarrow> PaymentDb \<Rightarrow> (WorkerError + 'c list) \<times> PaymentDb) \<Rightarrow> string \<Rightarrow> (nat \<Rightarrow> RunResult \<Rightarrow> RunResult) \<Rightarrow>
     ('c \<Rightarrow> RunResult \<Rightarrow> 'w WorkerState \<Rightarrow> 'w item_outcome) \<Rightarrow>
     RunError list \<times> RunResult \<times> 'w WorkerState \<Rightarrow> RunError list \<times> RunResult \<times> 'w WorkerState" where
  "run_lane worker claims label counted step acc =
     (let (failures, result, st) = acc in
      case store_call worker claims st of
        (Inl e, st1) \<Rightarrow> (failures @ [WrappedError label e], result, st1)
      | (Inr items, st1) \<Rightarrow> process_each step items failures (counted (length items) result) st1)"

definition claim_options :: "WorkerConfig \<Rightarrow> ClaimOptions" where
  "claim_options config =
     \<lparr>cl_WorkerID = wf_WorkerID config, cl_BatchSize = wf_BatchSize config, cl_MaxAttempts = wf_MaxAttempts config,
      cl_LeaseTTL = wf_LeaseTTL config, cl_Now = wf_Now config\<rparr>"

definition run_lanes :: "'w Worker \<Rightarrow> 'w WorkerState \<Rightarrow> RunError list \<times> RunResult \<times> 'w WorkerState" where
  "run_lanes worker st =
     (let now = wf_Now (wk_config worker); options = claim_options (wk_config worker) in
      run_lane worker (\<lambda>env. ClaimActions env options) ''claim payment actions'' (\<lambda>n r. r\<lparr>rs_ActionsClaimed := n\<rparr>)
        (processAction worker now)
      (run_lane worker (\<lambda>env. ClaimWebhooks env options) ''claim payment webhooks'' (\<lambda>n r. r\<lparr>rs_WebhooksClaimed := n\<rparr>)
        (processWebhook worker now)
      (run_lane worker (\<lambda>env. ClaimOperations env options) ''claim payment operations'' (\<lambda>n r. r\<lparr>rs_OperationsClaimed := n\<rparr>)
        (processOperation worker now) ([], no_result, st))))"

definition RunOnce :: "'w Worker \<Rightarrow> 'w WorkerState \<Rightarrow> (RunResult \<times> RunError list) \<times> 'w WorkerState" where
  "RunOnce worker st =
     (if IsZero_time (wf_Now (wk_config worker)) then ((no_result, [ErrInvalidConfiguration]), st)
      else let (failures, result, st') = run_lanes worker st in
        ((result\<lparr>rs_Failures := length failures\<rparr>, failures), st'))"

end
