(* ===== verification/Payment_Webhook.thy ===== *)
theory Payment_Webhook
  imports Payment_Db
begin

text \<open>
  The intake of provider events (\<^verbatim>\<open>internal/payment/webhook\<close> and its \<^verbatim>\<open>postgres\<close> repository). An event is verified,
  its envelope is bounded, and it is stored once under the identity its provider gave it: the first body is
  canonical, the same body again is a duplicate, another body is kept as evidence and takes the event out of
  processing.

  The verifier is an argument; the columns that only document the verification (key, size and time of the check)
  are not kept.
\<close>

datatype IntakeError = ErrPersistence | ErrWebhookInvalid | ErrWebhookConflict

datatype StoreResult = StoreAccepted | StoreDuplicate | StoreConflict

datatype Disposition = WebhookAccepted | WebhookIgnored | WebhookDuplicate

record WebhookRecord =
  wr_ID :: uuid
  wr_Provider :: string
  wr_ProviderEventID :: string
  wr_EventType :: string
  wr_ProviderPaymentID :: string
  wr_PayloadHash :: "byte list"
  wr_VerifiedKeyID :: string
  wr_EventCreatedAt :: gotime
  wr_ReceivedAt :: gotime
  wr_BodySizeBytes :: nat
  wr_Ignored :: bool

type_synonym 'a ntx = "(IntakeError, 'a) ptx"

text \<open>A stored event type is a text; a worker reads it as a type.\<close>

definition event_of_text :: "string \<Rightarrow> EventType" where
  "event_of_text s =
     (case find (\<lambda>e. event_type_name e = s) [EventCheckoutCreated, EventAuthorized, EventCaptured, EventVoided, EventRefunded, EventUnknown] of
        Some e \<Rightarrow> e | None \<Rightarrow> EventOther s)"

definition nullableString :: "string \<Rightarrow> string option" where
  "nullableString value = (if value = [] then None else Some value)"

definition received_row :: "gotime \<Rightarrow> WebhookRecord \<Rightarrow> InboxRow" where
  "received_row now r =
     \<lparr>wi_id = wr_ID r, wi_provider = wr_Provider r, wi_event = wr_ProviderEventID r, wi_type = event_of_text (wr_EventType r),
      wi_payment = nullableString (wr_ProviderPaymentID r), wi_hash = wr_PayloadHash r,
      wi_created = pg_timestamptz (wr_EventCreatedAt r), wi_received = pg_timestamptz (wr_ReceivedAt r),
      wi_state = InboxReceived, wi_attempts = 0, wi_next = now, wi_lease = None, wi_error = None, wi_processed = None\<rparr>"

definition same_event :: "WebhookRecord \<Rightarrow> InboxRow \<Rightarrow> bool" where
  "same_event r x \<longleftrightarrow> wi_provider x = wr_Provider r \<and> wi_event x = wr_ProviderEventID r"

text \<open>The insert, which does nothing when the provider has used the identity before.\<close>

definition insert_inbox :: "PayEnv \<Rightarrow> WebhookRecord \<Rightarrow> bool ntx" where
  "insert_inbox env r =
     (\<lambda>db. let row = received_row (py_clock env ''insert webhook'') r in
        if py_fault env ''insert webhook'' \<or> \<not> inbox_check row \<or> \<not> token_text 64 (wr_VerifiedKeyID r) \<or>
           wr_BodySizeBytes r < 1 \<or> 1048576 < wr_BodySizeBytes r then Inl ErrPersistence
        else if list_ex (same_event r) (payment_webhook_inbox db) then Inr (False, db)
        else if wr_ID r \<in> set (map wi_id (payment_webhook_inbox db)) then Inl ErrPersistence
        else Inr (True, db\<lparr>payment_webhook_inbox := payment_webhook_inbox db @ [row]\<rparr>))"

definition webhookConflictQuarantinable :: "InboxState \<Rightarrow> bool" where
  "webhookConflictQuarantinable state \<longleftrightarrow> state \<in> {InboxReceived, InboxProcessing, InboxFailedRetryable}"

definition same_conflict :: "WebhookRecord \<Rightarrow> ConflictRow \<Rightarrow> bool" where
  "same_conflict r x \<longleftrightarrow>
     xc_provider x = wr_Provider r \<and> xc_event x = wr_ProviderEventID r \<and> xc_conflicting x = wr_PayloadHash r"

text \<open>The conflict is inserted, or counted again; \<open>fresh\<close> is the \<^verbatim>\<open>uuid.New()\<close> of the call.\<close>

definition record_conflict :: "PayEnv \<Rightarrow> uuid \<Rightarrow> byte list \<Rightarrow> WebhookRecord \<Rightarrow> unit ntx" where
  "record_conflict env fresh canonical r =
     (\<lambda>db. let rows = payment_provider_event_conflicts db; now = pg_timestamptz (wr_ReceivedAt r) in
        if py_fault env ''record conflict'' then Inl ErrPersistence
        else if list_ex (same_conflict r) rows then
          Inr ((), db\<lparr>payment_provider_event_conflicts :=
            map (\<lambda>x. if same_conflict r x
                  then x\<lparr>xc_count := min (xc_count x + 1) 1000000, xc_last := max (xc_last x) now\<rparr> else x) rows\<rparr>)
        else if fresh \<in> set (map xc_id rows) then Inl ErrPersistence
        else Inr ((), db\<lparr>payment_provider_event_conflicts := rows @
          [\<lparr>xc_id = fresh, xc_provider = wr_Provider r, xc_event = wr_ProviderEventID r, xc_canonical = canonical,
            xc_conflicting = wr_PayloadHash r, xc_count = 1, xc_first = now, xc_last = now\<rparr>]\<rparr>))"

definition store_verified_tx :: "PayEnv \<Rightarrow> uuid \<Rightarrow> WebhookRecord \<Rightarrow> StoreResult ntx" where
  "store_verified_tx env fresh r =
     tx_bind (tx_reject (py_fault env ''begin'') ErrPersistence) (\<lambda>_.
     tx_bind (insert_inbox env r) (\<lambda>inserted.
     if inserted then
       tx_bind (if wr_Ignored r
         then tx_bind (update_inbox env ''ignore webhook'' ErrPersistence (\<lambda>_ x. same_event r x \<and> wi_state x = InboxReceived)
                (\<lambda>x. x\<lparr>wi_state := InboxIgnored, wi_processed := Some (pg_timestamptz (wr_ReceivedAt r))\<rparr>))
                (\<lambda>n. tx_reject (n \<noteq> 1) ErrPersistence)
         else tx_return ()) (\<lambda>_.
       tx_bind (tx_reject (py_fault env ''commit'') ErrPersistence) (\<lambda>_. tx_return StoreAccepted))
     else
       tx_bind (query_row env ''select webhook'' ErrPersistence (\<lambda>db. filter (same_event r) (payment_webhook_inbox db))) (\<lambda>row.
       case row of
         None \<Rightarrow> tx_fail ErrPersistence
       | Some x \<Rightarrow>
           if wi_hash x = wr_PayloadHash r
           then tx_bind (tx_reject (py_fault env ''commit'') ErrPersistence) (\<lambda>_. tx_return StoreDuplicate)
           else
             tx_bind (record_conflict env fresh (wi_hash x) r) (\<lambda>_.
             tx_bind (if webhookConflictQuarantinable (wi_state x)
               then tx_bind (update_inbox env ''quarantine webhook'' ErrPersistence
                      (\<lambda>_ y. same_event r y \<and> wi_state y = wi_state x)
                      (\<lambda>y. y\<lparr>wi_state := InboxSecurityConflict, wi_error := Some ''payload_hash_conflict'', wi_lease := None,
                             wi_processed := Some (pg_timestamptz (wr_ReceivedAt r))\<rparr>))
                      (\<lambda>n. tx_reject (n \<noteq> 1) ErrPersistence)
               else tx_return ()) (\<lambda>_.
             tx_bind (tx_reject (py_fault env ''commit'') ErrPersistence) (\<lambda>_. tx_return StoreConflict))))))"

definition StoreVerified :: "PayEnv \<Rightarrow> uuid \<Rightarrow> WebhookRecord \<Rightarrow> PaymentDb \<Rightarrow> (IntakeError + StoreResult) \<times> PaymentDb" where
  "StoreVerified env fresh r = run_tx (store_verified_tx env fresh r)"

subsection \<open>The service\<close>

record PaymentWebhookRequest =
  wq_Provider :: string
  wq_KeyID :: string
  wq_Timestamp :: string
  wq_Signature :: string
  wq_Body :: "byte list"

type_synonym Verifier = "WebhookHeaders \<Rightarrow> byte list \<Rightarrow> ProviderError + WebhookEvent"

record WebhookService =
  ws_providers :: "string \<rightharpoonup> Verifier"
  ws_maxBodyBytes :: nat
  ws_now :: gotime
  ws_newID :: uuid
  ws_sum256 :: "byte list \<Rightarrow> byte list"

definition webhook_validIdentifier :: "string \<Rightarrow> nat \<Rightarrow> bool \<Rightarrow> bool" where
  "webhook_validIdentifier value maximum optional = (if value = [] then optional else token_text maximum value)"

definition validVisibleHeader :: "string \<Rightarrow> nat \<Rightarrow> bool" where
  "validVisibleHeader value maximum \<longleftrightarrow>
     value \<noteq> [] \<and> length value \<le> maximum \<and> list_all (\<lambda>c. 0x21 \<le> byte_of c \<and> byte_of c \<le> 0x7e) value"

text \<open>\<^verbatim>\<open>NewService\<close>: the body limit and the names of the providers.\<close>

definition NewWebhookService :: "(string \<times> Verifier) list \<Rightarrow> int \<Rightarrow> gotime \<Rightarrow> uuid \<Rightarrow> (byte list \<Rightarrow> byte list) \<Rightarrow> WebhookService option" where
  "NewWebhookService providers maxBodyBytes now newID sum256 =
     (let limit = (if maxBodyBytes \<le> 0 then 65536 else maxBodyBytes) in
      if providers = [] \<or> \<not> list_all (\<lambda>(name, _). providerPattern name) providers \<or> 1048576 < limit then None
      else Some \<lparr>ws_providers = map_of providers, ws_maxBodyBytes = nat limit, ws_now = now, ws_newID = newID, ws_sum256 = sum256\<rparr>)"

definition webhook_record :: "WebhookService \<Rightarrow> PaymentWebhookRequest \<Rightarrow> WebhookEvent \<Rightarrow> WebhookRecord" where
  "webhook_record service request event =
     \<lparr>wr_ID = ws_newID service, wr_Provider = wq_Provider request, wr_ProviderEventID = ev_ProviderEventID event,
      wr_EventType = (if ev_Type event = EventUnknown \<and> ev_OriginalType event \<noteq> [] then ev_OriginalType event
                      else event_type_name (ev_Type event)),
      wr_ProviderPaymentID = ev_ProviderPaymentID event, wr_PayloadHash = ws_sum256 service (wq_Body request),
      wr_VerifiedKeyID = wq_KeyID request, wr_EventCreatedAt = ev_OccurredAt event, wr_ReceivedAt = ws_now service,
      wr_BodySizeBytes = length (wq_Body request), wr_Ignored = (ev_Type event = EventUnknown)\<rparr>"

definition IngestPaymentWebhook ::
  "PayEnv \<Rightarrow> uuid \<Rightarrow> WebhookService \<Rightarrow> PaymentWebhookRequest \<Rightarrow> PaymentDb \<Rightarrow> (IntakeError + Disposition) \<times> PaymentDb" where
  "IngestPaymentWebhook env fresh service request db =
     (case ws_providers service (wq_Provider request) of
        None \<Rightarrow> (Inl ErrWebhookInvalid, db)
      | Some verify \<Rightarrow>
          if \<not> webhook_validIdentifier (wq_KeyID request) 64 False \<or> \<not> validVisibleHeader (wq_Timestamp request) 32 \<or>
             \<not> validVisibleHeader (wq_Signature request) 256 \<or> wq_Body request = [] \<or>
             ws_maxBodyBytes service < length (wq_Body request)
          then (Inl ErrWebhookInvalid, db)
          else case verify \<lparr>wh_KeyID = wq_KeyID request, wh_Timestamp = wq_Timestamp request, wh_Signature = wq_Signature request\<rparr>
                 (wq_Body request) of
            Inl _ \<Rightarrow> (Inl ErrWebhookInvalid, db)
          | Inr event \<Rightarrow>
              (let r = webhook_record service request event in
               if IsZero_time (ws_now service) \<or> \<not> webhook_validIdentifier (ev_ProviderEventID event) 128 False \<or>
                  \<not> webhook_validIdentifier (wr_EventType r) 128 False \<or>
                  \<not> webhook_validIdentifier (ev_ProviderPaymentID event) 128 True \<or> IsZero_time (ev_OccurredAt event)
               then (Inl ErrWebhookInvalid, db)
               else if ws_newID service = uuid_Nil then (Inl ErrPersistence, db)
               else case StoreVerified env fresh r db of
                 (Inl _, db1) \<Rightarrow> (Inl ErrPersistence, db1)
               | (Inr StoreAccepted, db1) \<Rightarrow> (Inr (if wr_Ignored r then WebhookIgnored else WebhookAccepted), db1)
               | (Inr StoreDuplicate, db1) \<Rightarrow> (Inr WebhookDuplicate, db1)
               | (Inr StoreConflict, db1) \<Rightarrow> (Inl ErrWebhookConflict, db1)))"

end
