(* ===== verification/Payment_Intents.thy ===== *)
theory Payment_Intents
  imports Payment_Finalize
begin

text \<open>
  The store of payment intents (\<^verbatim>\<open>internal/payment/postgres/store.go\<close>): an intent is reserved together with its
  saga under the key of its owner, is secured or fails, and may be cancelled by a void before the capture or by a
  refund after completion.
\<close>

datatype AppError =
    ErrInvalidPaymentRequest | ErrPaymentNotFound | ErrPaymentConflict | ErrReservationNotPayable
  | ErrPaymentUnavailable | ErrControlFinalizationDeferred | ErrShardPaymentCommandDeferred
  | ErrUniqueViolation | ErrFailed string

type_synonym 'a itx = "(AppError, 'a) ptx"

record IntentRecord =
  ir_ID :: uuid
  ir_SagaID :: uuid
  ir_BeginCommandID :: uuid
  ir_ReservationID :: uuid
  ir_TrainRunID :: uuid
  ir_OwnerID :: uuid
  ir_Provider :: string
  ir_ProviderPaymentID :: string
  ir_HostedSessionRef :: string
  ir_AmountMinor :: int64
  ir_Currency :: string
  ir_State :: IntentState
  ir_CompletedAt :: "gotime option"

record ReserveIntentRequest =
  rq_PaymentIntentID :: uuid
  rq_SagaID :: uuid
  rq_BeginCommandID :: uuid
  rq_ReservationID :: uuid
  rq_TrainRunID :: uuid
  rq_OwnerID :: uuid
  rq_Provider :: string
  rq_AmountMinor :: int64
  rq_Currency :: string
  rq_IdempotencyKeyHash :: "byte list"
  rq_RequestFingerprint :: "byte list"

record CancelIntentRequest =
  cq_OwnerID :: uuid
  cq_PaymentIntentID :: uuid
  cq_OperationID :: uuid
  cq_IdempotencyKeyHash :: "byte list"
  cq_RequestFingerprint :: "byte list"

definition zeroDigest :: "byte list \<Rightarrow> bool" where
  "zeroDigest d \<longleftrightarrow> d = zero_digest"

definition paymentIdentityNamespace :: uuid where
  "paymentIdentityNamespace = 0xd4afbc577bb05f88bff462db186e9ea8"

definition beginCommandID :: "PayIds \<Rightarrow> uuid \<Rightarrow> uuid" where
  "beginCommandID ids sagaID = pid_NewSHA1 ids paymentIdentityNamespace (pid_String ids sagaID @ '':secure_reservation'')"

definition operationIdentity :: "PayIds \<Rightarrow> uuid \<Rightarrow> string \<Rightarrow> uuid \<times> byte list" where
  "operationIdentity ids intentID kind =
     (let identity = pid_String ids intentID @ '':'' @ kind in
      (pid_NewSHA1 ids paymentIdentityNamespace identity, pid_Sum256 ids (string_bytes (''provider:v1:'' @ identity))))"

definition cancellationFingerprint :: "PayIds \<Rightarrow> uuid \<Rightarrow> uuid \<Rightarrow> byte list" where
  "cancellationFingerprint ids ownerID intentID =
     pid_Sum256 ids (concat (map (identity_field \<circ> string_bytes)
       [''v1'', ''payment_intent.cancel'', pid_String ids ownerID, pid_String ids intentID]))"

definition cancellationOperationHash :: "PayIds \<Rightarrow> uuid \<Rightarrow> byte list \<Rightarrow> byte list" where
  "cancellationOperationHash ids ownerID keyHash =
     pid_Sum256 ids (concat (map identity_field
       [string_bytes ''v1'', string_bytes ''payment_operation.cancel'', string_bytes (pid_String ids ownerID), keyHash]))"

definition validReserveRequest :: "ReserveIntentRequest \<Rightarrow> bool" where
  "validReserveRequest request \<longleftrightarrow>
     rq_PaymentIntentID request \<noteq> uuid_Nil \<and> rq_SagaID request \<noteq> uuid_Nil \<and> rq_BeginCommandID request \<noteq> uuid_Nil \<and>
     rq_ReservationID request \<noteq> uuid_Nil \<and> rq_TrainRunID request \<noteq> uuid_Nil \<and> rq_OwnerID request \<noteq> uuid_Nil \<and>
     providerPattern (rq_Provider request) \<and> 0 < rq_AmountMinor request \<and> currencyPattern (rq_Currency request) \<and>
     \<not> zeroDigest (rq_IdempotencyKeyHash request) \<and> \<not> zeroDigest (rq_RequestFingerprint request)"

definition validCancellationRequest :: "PayIds \<Rightarrow> CancelIntentRequest \<Rightarrow> bool" where
  "validCancellationRequest ids request \<longleftrightarrow>
     cq_OwnerID request \<noteq> uuid_Nil \<and> cq_PaymentIntentID request \<noteq> uuid_Nil \<and> cq_OperationID request \<noteq> uuid_Nil \<and>
     \<not> zeroDigest (cq_IdempotencyKeyHash request) \<and> \<not> zeroDigest (cq_RequestFingerprint request) \<and>
     cq_RequestFingerprint request = cancellationFingerprint ids (cq_OwnerID request) (cq_PaymentIntentID request)"

definition stateRequiresCapture :: "IntentState \<Rightarrow> bool" where
  "stateRequiresCapture state \<longleftrightarrow>
     state \<in> {IntentCaptured, IntentTicketIssuePending, IntentCompleted, IntentRefundPending, IntentRefunded}"

definition stateAllowsNewCancellation :: "IntentState \<Rightarrow> OperationType \<Rightarrow> bool" where
  "stateAllowsNewCancellation state kind \<longleftrightarrow>
     (case kind of
        OperationVoid \<Rightarrow> state = IntentAwaitingCustomer \<or> state = IntentAuthorized
      | OperationRefund \<Rightarrow> state = IntentCompleted
      | _ \<Rightarrow> False)"

text \<open>\<^verbatim>\<open>selectIntent\<close> and \<^verbatim>\<open>scanIntent\<close>: intents joined with their sagas.\<close>

definition scan_intent :: "PayIds \<Rightarrow> IntentRow \<Rightarrow> SagaRow \<Rightarrow> IntentRecord" where
  "scan_intent ids i s =
     \<lparr>ir_ID = pi_id i, ir_SagaID = sg_id s, ir_BeginCommandID = beginCommandID ids (sg_id s),
      ir_ReservationID = pi_reservation i, ir_TrainRunID = pi_train_run i, ir_OwnerID = pi_owner i,
      ir_Provider = pi_provider i, ir_ProviderPaymentID = coalesce (pi_payment i),
      ir_HostedSessionRef = coalesce (pi_hosted i), ir_AmountMinor = pi_amount i, ir_Currency = pi_currency i,
      ir_State = pi_state i, ir_CompletedAt = pi_completed i\<rparr>"

definition selectIntent :: "PaymentDb \<Rightarrow> (IntentRow \<times> SagaRow) list" where
  "selectIntent db = [(i, s). i \<leftarrow> payment_intents db, s \<leftarrow> payment_sagas db, sg_intent s = pi_id i]"

definition scanIntent ::
  "PayEnv \<Rightarrow> string \<Rightarrow> (string \<Rightarrow> AppError) \<Rightarrow> (PaymentDb \<Rightarrow> (IntentRow \<times> SagaRow) list) \<Rightarrow> (IntentRecord \<times> byte list) option itx" where
  "scanIntent env label wrap q =
     tx_bind (query_row env label (wrap label) q) (\<lambda>row.
     case row of
       None \<Rightarrow> tx_return None
     | Some (i, s) \<Rightarrow>
         tx_bind (tx_reject (length (pi_fingerprint i) \<noteq> 32) (wrap ''invalid stored payment fingerprint length'')) (\<lambda>_.
         tx_return (Some (scan_intent (py_ids env) i s, pi_fingerprint i))))"

subsection \<open>Lookup and reservation\<close>

definition by_key :: "uuid \<Rightarrow> byte list \<Rightarrow> PaymentDb \<Rightarrow> (IntentRow \<times> SagaRow) list" where
  "by_key ownerID keyHash db = filter (\<lambda>(i, s). pi_owner i = ownerID \<and> pi_key i = keyHash) (selectIntent db)"

definition by_intent :: "uuid \<Rightarrow> PaymentDb \<Rightarrow> (IntentRow \<times> SagaRow) list" where
  "by_intent intentID db = filter (\<lambda>(i, s). pi_id i = intentID) (selectIntent db)"

definition lookup_by_key :: "PayEnv \<Rightarrow> uuid \<Rightarrow> byte list \<Rightarrow> byte list \<Rightarrow> IntentRecord option itx" where
  "lookup_by_key env ownerID keyHash fingerprint =
     tx_bind (scanIntent env ''lookup intent'' ErrFailed (by_key ownerID keyHash)) (\<lambda>found.
     case found of
       None \<Rightarrow> tx_return None
     | Some (intent, stored) \<Rightarrow> if stored \<noteq> fingerprint then tx_fail ErrPaymentConflict else tx_return (Some intent))"

definition LookupIntentByIdempotency ::
  "PayEnv \<Rightarrow> uuid \<Rightarrow> byte list \<Rightarrow> byte list \<Rightarrow> PaymentDb \<Rightarrow> (AppError + IntentRecord option) \<times> PaymentDb" where
  "LookupIntentByIdempotency env ownerID keyHash fingerprint =
     run_tx (tx_bind (tx_reject (ownerID = uuid_Nil \<or> zeroDigest keyHash \<or> zeroDigest fingerprint) ErrPaymentUnavailable) (\<lambda>_.
             lookup_by_key env ownerID keyHash fingerprint))"

text \<open>The trigger on INSERT accepts an intent without provider activity, for an active directory entry.\<close>

definition insert_intent :: "PayEnv \<Rightarrow> IntentRow \<Rightarrow> unit itx" where
  "insert_intent env r =
     (\<lambda>db. if py_fault env ''insert intent'' \<or> \<not> intent_check r \<or>
              \<not> list_ex (\<lambda>d. rd_reservation d = pi_reservation r \<and> rd_train_run d = pi_train_run r \<and>
                   rd_owner d = pi_owner r \<and> rd_active d) (reservation_directory db)
           then Inl (ErrFailed ''insert intent'')
           else if \<not> intents_unique (payment_intents db @ [r]) then Inl ErrUniqueViolation
           else Inr ((), db\<lparr>payment_intents := payment_intents db @ [r]\<rparr>))"

definition insert_saga :: "PayEnv \<Rightarrow> SagaRow \<Rightarrow> unit itx" where
  "insert_saga env r =
     (\<lambda>db. if py_fault env ''insert saga'' \<or> \<not> saga_check r \<or>
              \<not> list_ex (\<lambda>i. pi_id i = sg_intent r \<and> pi_reservation i = sg_reservation r) (payment_intents db)
           then Inl (ErrFailed ''insert saga'')
           else if \<not> sagas_unique (payment_sagas db @ [r]) then Inl ErrPaymentConflict
           else Inr ((), db\<lparr>payment_sagas := payment_sagas db @ [r]\<rparr>))"

definition new_intent :: "PayEnv \<Rightarrow> ReserveIntentRequest \<Rightarrow> IntentRow" where
  "new_intent env request =
     \<lparr>pi_id = rq_PaymentIntentID request, pi_reservation = rq_ReservationID request, pi_train_run = rq_TrainRunID request,
      pi_owner = rq_OwnerID request, pi_provider = rq_Provider request, pi_payment = None, pi_hosted = None,
      pi_amount = rq_AmountMinor request, pi_currency = rq_Currency request, pi_state = IntentReservationSecuring,
      pi_key = rq_IdempotencyKeyHash request, pi_fingerprint = rq_RequestFingerprint request,
      pi_created = py_clock env ''insert intent'', pi_completed = None\<rparr>"

definition new_saga :: "PayEnv \<Rightarrow> ReserveIntentRequest \<Rightarrow> SagaRow" where
  "new_saga env request =
     \<lparr>sg_id = rq_SagaID request, sg_intent = rq_PaymentIntentID request, sg_reservation = rq_ReservationID request,
      sg_step = StepSecureReservation, sg_state = SagaCreated, sg_lease = None, sg_attempts = 0,
      sg_next = py_clock env ''insert saga'', sg_error = None, sg_completed = None\<rparr>"

definition begin_or :: "PayEnv \<Rightarrow> AppError \<Rightarrow> unit itx" where
  "begin_or env err = tx_reject (py_fault env ''begin'') err"

definition commit_or :: "PayEnv \<Rightarrow> AppError \<Rightarrow> unit itx" where
  "commit_or env err = tx_reject (py_fault env ''commit'') err"

definition reserve_intent_tx :: "PayEnv \<Rightarrow> ReserveIntentRequest \<Rightarrow> (IntentRecord \<times> bool) itx" where
  "reserve_intent_tx env request =
     tx_bind (begin_or env (ErrFailed ''begin'')) (\<lambda>_.
     tx_bind (scanIntent env ''select existing intent'' ErrFailed
       (by_key (rq_OwnerID request) (rq_IdempotencyKeyHash request))) (\<lambda>existing.
     case existing of
       Some (intent, stored) \<Rightarrow>
         if stored \<noteq> rq_RequestFingerprint request then tx_fail ErrPaymentConflict
         else tx_bind (commit_or env (ErrFailed ''commit'')) (\<lambda>_. tx_return (intent, True))
     | None \<Rightarrow>
         tx_bind (scanIntent env ''select active intent'' ErrFailed
           (\<lambda>db. filter (\<lambda>(i, s). pi_reservation i = rq_ReservationID request \<and> \<not> intent_ended (pi_state i)) (selectIntent db))) (\<lambda>active.
         if active \<noteq> None then tx_fail ErrPaymentConflict
         else
         tx_bind (tx_get ticket_code_claims_ready) (\<lambda>ready.
         tx_bind (tx_reject (py_fault env ''readiness'' \<or> \<not> ready) ErrPaymentUnavailable) (\<lambda>_.
         tx_bind (insert_intent env (new_intent env request)) (\<lambda>_.
         tx_bind (insert_saga env (new_saga env request)) (\<lambda>_.
         tx_bind (scanIntent env ''select new intent'' ErrFailed (by_intent (rq_PaymentIntentID request))) (\<lambda>created.
         case created of
           None \<Rightarrow> tx_fail (ErrFailed ''no rows'')
         | Some (intent, _) \<Rightarrow>
             tx_bind (commit_or env (ErrFailed ''commit'')) (\<lambda>_. tx_return (intent, False))))))))))"

text \<open>After a unique violation the rolled back transaction is followed by a lookup of the key.\<close>

definition ReserveIntent ::
  "PayEnv \<Rightarrow> ReserveIntentRequest \<Rightarrow> PaymentDb \<Rightarrow> (AppError + IntentRecord \<times> bool) \<times> PaymentDb" where
  "ReserveIntent env request db =
     (if \<not> validReserveRequest request then (Inl ErrPaymentUnavailable, db)
      else case run_tx (reserve_intent_tx env request) db of
        (Inl ErrUniqueViolation, db1) \<Rightarrow>
          (case LookupIntentByIdempotency env (rq_OwnerID request) (rq_IdempotencyKeyHash request)
                  (rq_RequestFingerprint request) db1 of
             (Inl e, db2) \<Rightarrow> (Inl e, db2)
           | (Inr (Some intent), db2) \<Rightarrow> (Inr (intent, True), db2)
           | (Inr None, db2) \<Rightarrow> (Inl ErrPaymentConflict, db2))
      | outcome \<Rightarrow> outcome)"


subsection \<open>Securing the reservation\<close>

definition mark_secured_tx :: "PayEnv \<Rightarrow> uuid \<Rightarrow> uuid \<Rightarrow> byte list \<Rightarrow> IntentRecord itx" where
  "mark_secured_tx env intentID commandID fingerprint =
     (let deferred = ErrControlFinalizationDeferred; (operationID, operationHash) = operationIdentity (py_ids env) intentID ''create_checkout'' in
     tx_bind (begin_or env deferred) (\<lambda>_.
     tx_bind (scanIntent env ''lock intent'' (\<lambda>_. deferred) (by_intent intentID)) (\<lambda>found.
     case found of
       None \<Rightarrow> tx_fail ErrPaymentNotFound
     | Some (intent, stored) \<Rightarrow>
         tx_bind (tx_reject (ir_BeginCommandID intent \<noteq> commandID \<or> stored \<noteq> fingerprint) ErrPaymentConflict) (\<lambda>_.
         tx_bind (anyRows (update_intents env ''checkout pending'' deferred
           (\<lambda>_ r. pi_id r = intentID \<and> pi_state r = IntentReservationSecuring) (\<lambda>r. r\<lparr>pi_state := IntentCheckoutPending\<rparr>))) (\<lambda>_.
         tx_bind (anyRows (update_sagas env ''reservation secured'' deferred
           (\<lambda>_ r. sg_intent r = intentID \<and> sg_state r = SagaCreated)
           (\<lambda>r. r\<lparr>sg_state := SagaReservationSecured, sg_step := StepCreateCheckout, sg_next := py_clock env ''reservation secured''\<rparr>))) (\<lambda>_.
         tx_bind (tx_get (\<lambda>db. filter (\<lambda>i. pi_id i = intentID) (payment_intents db))) (\<lambda>rows.
         tx_bind (tx_each (\<lambda>i. insert_operation_row env ''insert checkout'' deferred
           (new_operation (py_clock env ''insert checkout'') operationID (pi_id i) (pi_provider i) OperationCreateCheckout
              operationHash (pi_amount i) (pi_currency i))) rows) (\<lambda>_.
         tx_bind (query_row env ''select checkout'' deferred
           (\<lambda>db. filter (\<lambda>r. po_intent r = intentID \<and> po_type r = OperationCreateCheckout) (payment_operations db))) (\<lambda>op.
         case op of
           None \<Rightarrow> tx_fail deferred
         | Some r \<Rightarrow>
             tx_bind (tx_reject (po_id r \<noteq> operationID \<or> po_key r \<noteq> operationHash \<or> po_amount r \<noteq> ir_AmountMinor intent \<or>
               po_currency r \<noteq> ir_Currency intent) ErrPaymentConflict) (\<lambda>_.
             tx_bind (scanIntent env ''select secured intent'' (\<lambda>_. deferred) (by_intent intentID)) (\<lambda>secured.
             case secured of
               None \<Rightarrow> tx_fail deferred
             | Some (intent', _) \<Rightarrow> tx_bind (commit_or env deferred) (\<lambda>_. tx_return intent'))))))))))))"

definition MarkReservationSecured ::
  "PayEnv \<Rightarrow> uuid \<Rightarrow> uuid \<Rightarrow> byte list \<Rightarrow> PaymentDb \<Rightarrow> (AppError + IntentRecord) \<times> PaymentDb" where
  "MarkReservationSecured env intentID commandID fingerprint =
     run_tx (tx_bind (tx_reject (intentID = uuid_Nil \<or> commandID = uuid_Nil \<or> zeroDigest fingerprint) ErrControlFinalizationDeferred) (\<lambda>_.
             mark_secured_tx env intentID commandID fingerprint))"

definition FailReservationSecuring ::
  "PayEnv \<Rightarrow> uuid \<Rightarrow> byte list \<Rightarrow> PaymentDb \<Rightarrow> (AppError + unit) \<times> PaymentDb" where
  "FailReservationSecuring env intentID fingerprint =
     (let deferred = ErrControlFinalizationDeferred in
     run_tx (tx_bind (tx_reject (intentID = uuid_Nil \<or> zeroDigest fingerprint) deferred) (\<lambda>_.
     tx_bind (begin_or env deferred) (\<lambda>_.
     tx_bind (update_intents env ''intent failed'' deferred
       (\<lambda>_ r. pi_id r = intentID \<and> pi_state r = IntentReservationSecuring \<and> pi_fingerprint r = fingerprint)
       (\<lambda>r. r\<lparr>pi_state := IntentFailed, pi_completed := Some (py_clock env ''intent failed'')\<rparr>)) (\<lambda>n.
     tx_bind (tx_reject (n \<noteq> 1) deferred) (\<lambda>_.
     tx_bind (update_sagas env ''saga failed'' deferred
       (\<lambda>_ r. sg_intent r = intentID \<and> sg_state r = SagaCreated \<and> sg_step r = StepSecureReservation)
       (\<lambda>r. r\<lparr>sg_state := SagaFailed, sg_step := StepComplete, sg_error := Some ''reservation_not_payable'',
              sg_completed := Some (py_clock env ''saga failed''), sg_lease := None\<rparr>)) (\<lambda>k.
     tx_bind (tx_reject (k \<noteq> 1) deferred) (\<lambda>_. commit_or env deferred))))))))"

subsection \<open>Reads\<close>

definition GetOwnedIntent :: "PayEnv \<Rightarrow> uuid \<Rightarrow> uuid \<Rightarrow> PaymentDb \<Rightarrow> (AppError + IntentRecord) \<times> PaymentDb" where
  "GetOwnedIntent env ownerID intentID =
     run_tx (tx_bind (tx_reject (ownerID = uuid_Nil \<or> intentID = uuid_Nil) ErrPaymentNotFound) (\<lambda>_.
     tx_bind (scanIntent env ''get intent'' ErrFailed
       (\<lambda>db. filter (\<lambda>(i, s). pi_id i = intentID \<and> pi_owner i = ownerID) (selectIntent db))) (\<lambda>found.
     case found of None \<Rightarrow> tx_fail ErrPaymentNotFound | Some (intent, _) \<Rightarrow> tx_return intent)))"

text \<open>The newest intent of the reservation.\<close>

definition GetOwnedIntentByReservation :: "PayEnv \<Rightarrow> uuid \<Rightarrow> uuid \<Rightarrow> PaymentDb \<Rightarrow> (AppError + IntentRecord) \<times> PaymentDb" where
  "GetOwnedIntentByReservation env ownerID reservationID =
     run_tx (tx_bind (tx_reject (ownerID = uuid_Nil \<or> reservationID = uuid_Nil) ErrPaymentNotFound) (\<lambda>_.
     tx_bind (scanIntent env ''get intent by reservation'' ErrFailed
       (\<lambda>db. sort_key (\<lambda>(i, s). - pi_created i)
          (filter (\<lambda>(i, s). pi_reservation i = reservationID \<and> pi_owner i = ownerID) (selectIntent db)))) (\<lambda>found.
     case found of None \<Rightarrow> tx_fail ErrPaymentNotFound | Some (intent, _) \<Rightarrow> tx_return intent)))"

subsection \<open>Cancellation\<close>

text \<open>The new operation, the intent and the saga of a cancellation.\<close>

definition write_cancellation_request ::
  "PayEnv \<Rightarrow> CancelIntentRequest \<Rightarrow> IntentRecord \<Rightarrow> OperationType \<Rightarrow> byte list \<Rightarrow> IntentRecord itx" where
  "write_cancellation_request env request intent kind providerHash =
     (let intentID = cq_PaymentIntentID request in
     tx_bind (tx_get (\<lambda>db. filter (\<lambda>i. pi_id i = intentID) (payment_intents db))) (\<lambda>rows.
     tx_bind (tx_each (\<lambda>i. insert_operation_row env ''insert cancellation'' (ErrFailed ''insert cancellation'')
       (new_operation (py_clock env ''insert cancellation'') (cq_OperationID request) (pi_id i) (pi_provider i) kind
          providerHash (pi_amount i) (pi_currency i))) rows) (\<lambda>_.
     tx_bind (query_row env ''select cancellation'' (ErrFailed ''select cancellation'')
       (\<lambda>db. filter (\<lambda>r. po_intent r = intentID \<and> po_type r = kind) (payment_operations db))) (\<lambda>op.
     case op of
       None \<Rightarrow> tx_fail (ErrFailed ''no rows'')
     | Some r \<Rightarrow>
         tx_bind (tx_reject (po_intent r \<noteq> intentID \<or> po_key r \<noteq> providerHash \<or> po_amount r \<noteq> ir_AmountMinor intent \<or>
           po_currency r \<noteq> ir_Currency intent) ErrPaymentConflict) (\<lambda>_.
         tx_bind (if kind = OperationRefund
           then update_intents env ''cancel: intent'' (ErrFailed ''cancel: intent'')
             (\<lambda>_ x. pi_id x = intentID \<and> pi_state x = IntentCompleted) (\<lambda>x. x\<lparr>pi_state := IntentRefundPending\<rparr>)
           else update_intents env ''cancel: intent'' (ErrFailed ''cancel: intent'')
             (\<lambda>_ x. pi_id x = intentID \<and> pi_state x \<in> {IntentAwaitingCustomer, IntentAuthorized})
             (\<lambda>x. x\<lparr>pi_state := IntentVoidPending\<rparr>)) (\<lambda>n.
         tx_bind (tx_reject (n \<noteq> 1) ErrPaymentConflict) (\<lambda>_.
         tx_bind (update_sagas env ''cancel: saga'' (ErrFailed ''cancel: saga'')
           (\<lambda>_ s. sg_intent s = intentID \<and>
              (kind = OperationVoid \<and> sg_state s \<in> {SagaAwaitingProvider, SagaAuthorized} \<or>
               kind = OperationRefund \<and> sg_state s = SagaCompleted))
           (\<lambda>s. s\<lparr>sg_state := SagaCompensating, sg_step := (if kind = OperationRefund then StepRefund else StepVoid),
                  sg_next := py_clock env ''cancel: saga'', sg_completed := None\<rparr>)) (\<lambda>k.
         tx_bind (tx_reject (k \<noteq> 1) ErrPaymentConflict) (\<lambda>_.
         tx_bind (scanIntent env ''select cancelled intent'' ErrFailed (by_intent intentID)) (\<lambda>found.
         case found of
           None \<Rightarrow> tx_fail (ErrFailed ''no rows'')
         | Some (intent', _) \<Rightarrow> tx_bind (commit_or env (ErrFailed ''commit'')) (\<lambda>_. tx_return intent')))))))))))"

definition request_cancellation_tx :: "PayEnv \<Rightarrow> CancelIntentRequest \<Rightarrow> IntentRecord itx" where
  "request_cancellation_tx env request =
     (let intentID = cq_PaymentIntentID request in
     tx_bind (begin_or env (ErrFailed ''begin'')) (\<lambda>_.
     tx_bind (scanIntent env ''lock intent'' ErrFailed
       (\<lambda>db. filter (\<lambda>(i, s). pi_id i = intentID \<and> pi_owner i = cq_OwnerID request) (selectIntent db))) (\<lambda>found.
     case found of
       None \<Rightarrow> tx_fail ErrPaymentNotFound
     | Some (intent, _) \<Rightarrow>
         tx_bind (query_row env ''select capture'' (ErrFailed ''select capture'')
           (\<lambda>db. succeeded_rows db intentID OperationCapture)) (\<lambda>capture.
         let captured = (capture \<noteq> None); kind = (if captured then OperationRefund else OperationVoid);
             providerHash = cancellationOperationHash (py_ids env) (cq_OwnerID request) (cq_IdempotencyKeyHash request) in
         if stateRequiresCapture (ir_State intent) \<and> \<not> captured then tx_fail ErrPaymentConflict
         else
         tx_bind (query_row env ''select by key'' (ErrFailed ''select by key'')
           (\<lambda>db. filter (\<lambda>r. po_provider r = ir_Provider intent \<and> po_key r = providerHash) (payment_operations db))) (\<lambda>same_key.
         case same_key of
           Some r \<Rightarrow>
             if po_intent r \<noteq> intentID \<or> po_type r \<noteq> kind then tx_fail ErrPaymentConflict
             else tx_bind (commit_or env (ErrFailed ''commit'')) (\<lambda>_. tx_return intent)
         | None \<Rightarrow>
             tx_bind (query_row env ''select by kind'' (ErrFailed ''select by kind'')
               (\<lambda>db. filter (\<lambda>r. po_intent r = intentID \<and> po_type r = kind) (payment_operations db))) (\<lambda>same_kind.
             case same_kind of
               Some _ \<Rightarrow> tx_bind (commit_or env (ErrFailed ''commit'')) (\<lambda>_. tx_return intent)
             | None \<Rightarrow>
                 if \<not> stateAllowsNewCancellation (ir_State intent) kind then tx_fail ErrPaymentConflict
                 else write_cancellation_request env request intent kind providerHash))))))"

definition RequestCancellation :: "PayEnv \<Rightarrow> CancelIntentRequest \<Rightarrow> PaymentDb \<Rightarrow> (AppError + IntentRecord) \<times> PaymentDb" where
  "RequestCancellation env request =
     run_tx (tx_bind (tx_reject (\<not> validCancellationRequest (py_ids env) request) ErrPaymentConflict) (\<lambda>_.
             request_cancellation_tx env request))"

end
