(* ===== verification/Payment_Application.thy ===== *)
theory Payment_Application
  imports Payment_Intents
begin

text \<open>
  The payment service (\<^verbatim>\<open>internal/payment/application/service.go\<close>): an intent is created by reserving it in the
  control database, beginning the payment on the shard of the reservation, and recording in the control database
  that the reservation is secured. No transaction spans the two; a call with the same key continues where the one
  before it stopped.

  The reservation gateway is an interface, functions on a world of any type; \<open>ap_env\<close> is the environment of the
  \<open>n\<close>-th call to the store, \<open>ap_newID\<close> gives the fresh identifiers.
\<close>

record 'w AppService =
  ap_GetPayableReservation :: "uuid \<Rightarrow> ('w, ReservationSnapshot) call"
  ap_BeginPayment :: "BeginPaymentCommand \<Rightarrow> ('w, BeginPaymentReceipt) call"
  ap_now :: gotime
  ap_newID :: "nat \<Rightarrow> uuid"
  ap_grace :: int64
  ap_provider :: string
  ap_ids :: PayIds
  ap_unicode :: Unicode
  ap_env :: "nat \<Rightarrow> PayEnv"

definition WithProcessingGrace :: "int64 \<Rightarrow> 'w AppService \<Rightarrow> 'w AppService" where
  "WithProcessingGrace grace service =
     (if 0 < grace \<and> grace \<le> 24 * 3600 * 1000000000 then service\<lparr>ap_grace := grace\<rparr> else service)"

definition normalizeStoreError :: "AppError \<Rightarrow> AppError" where
  "normalizeStoreError err =
     (if err = ErrPaymentConflict then ErrPaymentConflict
      else if err = ErrControlFinalizationDeferred then ErrControlFinalizationDeferred else ErrPaymentUnavailable)"

definition normalizeReservationError :: "GoError \<Rightarrow> AppError" where
  "normalizeReservationError err =
     (if errors_Is err IsPaymentNotFound then ErrPaymentNotFound
      else if errors_Is err IsReservationNotPayable then ErrReservationNotPayable
      else if errors_Is err IsPaymentConflict then ErrPaymentConflict else ErrShardPaymentCommandDeferred)"

text \<open>The trimmed key, if it may be used: 8 to 128 bytes, each a visible ASCII character.\<close>

definition idempotency_key :: "Unicode \<Rightarrow> string \<Rightarrow> string option" where
  "idempotency_key u raw =
     (let key = TrimSpace u raw in
      if length key < 8 \<or> 128 < length key \<or> \<not> list_all (\<lambda>c. 0x21 \<le> byte_of c \<and> byte_of c \<le> 0x7e) key then None
      else Some key)"

definition identity_digest :: "PayIds \<Rightarrow> string \<Rightarrow> uuid \<Rightarrow> uuid \<Rightarrow> byte list" where
  "identity_digest ids operation ownerID subjectID =
     pid_Sum256 ids (concat (map (identity_field \<circ> string_bytes)
       [''v1'', operation, pid_String ids ownerID, pid_String ids subjectID]))"

definition intentIdentity :: "PayIds \<Rightarrow> Unicode \<Rightarrow> uuid \<Rightarrow> uuid \<Rightarrow> string \<Rightarrow> (byte list \<times> byte list) option" where
  "intentIdentity ids u ownerID reservationID raw =
     (if ownerID = uuid_Nil \<or> reservationID = uuid_Nil then None
      else case idempotency_key u raw of
        None \<Rightarrow> None
      | Some key \<Rightarrow> Some (pid_Sum256 ids (string_bytes key), identity_digest ids ''payment_intent.create'' ownerID reservationID))"

definition cancellationIdentity :: "PayIds \<Rightarrow> Unicode \<Rightarrow> uuid \<Rightarrow> uuid \<Rightarrow> string \<Rightarrow> (byte list \<times> byte list) option" where
  "cancellationIdentity ids u ownerID intentID raw =
     (if ownerID = uuid_Nil \<or> intentID = uuid_Nil then None
      else case idempotency_key u raw of
        None \<Rightarrow> None
      | Some key \<Rightarrow> Some (pid_Sum256 ids (string_bytes key), identity_digest ids ''payment_intent.cancel'' ownerID intentID))"

subsection \<open>Creating an intent\<close>

type_synonym ('w, 'a) appcall = "PaymentDb \<times> 'w \<Rightarrow> (AppError + 'a) \<times> PaymentDb \<times> 'w"

definition begin_command :: "'w AppService \<Rightarrow> IntentRecord \<Rightarrow> byte list \<Rightarrow> BeginPaymentCommand" where
  "begin_command service intent fingerprint =
     \<lparr>bc_CommandID = ir_BeginCommandID intent, bc_PaymentIntentID = ir_ID intent, bc_ReservationID = ir_ReservationID intent,
      bc_TrainRunID = ir_TrainRunID intent, bc_OwnerID = ir_OwnerID intent, bc_AmountMinor = ir_AmountMinor intent,
      bc_Currency = ir_Currency intent, bc_GraceExpiresAt = ap_now service + ap_grace service,
      bc_RequestFingerprint = fingerprint\<rparr>"

definition secureReservation :: "'w AppService \<Rightarrow> IntentRecord \<Rightarrow> byte list \<Rightarrow> ('w, IntentRecord) appcall" where
  "secureReservation service intent fingerprint = (\<lambda>(db, w).
     case ap_BeginPayment service (begin_command service intent fingerprint) w of
       (Inl err, w1) \<Rightarrow>
         if errors_Is err IsReservationNotPayable then
           (case FailReservationSecuring (ap_env service 3) (ir_ID intent) fingerprint db of
              (Inl e, db1) \<Rightarrow> (Inl (normalizeStoreError e), db1, w1)
            | (Inr _, db1) \<Rightarrow> (Inl (normalizeReservationError err), db1, w1))
         else (Inl (normalizeReservationError err), db, w1)
     | (Inr receipt, w1) \<Rightarrow>
         if br_CommandID receipt \<noteq> ir_BeginCommandID intent \<or> br_PaymentIntentID receipt \<noteq> ir_ID intent \<or>
            br_RequestFingerprint receipt \<noteq> fingerprint
         then (Inl ErrPaymentConflict, db, w1)
         else (case MarkReservationSecured (ap_env service 4) (ir_ID intent) (br_CommandID receipt) (br_RequestFingerprint receipt) db of
            (Inl e, db1) \<Rightarrow> (Inl (normalizeStoreError e), db1, w1)
          | (Inr secured, db1) \<Rightarrow> (Inr secured, db1, w1)))"

definition reserve_request :: "'w AppService \<Rightarrow> ReservationSnapshot \<Rightarrow> byte list \<Rightarrow> byte list \<Rightarrow> ReserveIntentRequest" where
  "reserve_request service snapshot keyHash fingerprint =
     \<lparr>rq_PaymentIntentID = ap_newID service 0, rq_SagaID = ap_newID service 1, rq_BeginCommandID = ap_newID service 2,
      rq_ReservationID = ss_ID snapshot, rq_TrainRunID = ss_TrainRunID snapshot, rq_OwnerID = ss_OwnerID snapshot,
      rq_Provider = ap_provider service, rq_AmountMinor = ss_AmountMinor snapshot, rq_Currency = ss_Currency snapshot,
      rq_IdempotencyKeyHash = keyHash, rq_RequestFingerprint = fingerprint\<rparr>"

definition reserve_and_secure ::
  "'w AppService \<Rightarrow> uuid \<Rightarrow> uuid \<Rightarrow> byte list \<Rightarrow> byte list \<Rightarrow> ('w, IntentRecord) appcall" where
  "reserve_and_secure service ownerID reservationID keyHash fingerprint = (\<lambda>(db, w).
     case ap_GetPayableReservation service reservationID w of
       (Inl err, w1) \<Rightarrow> (Inl (normalizeReservationError err), db, w1)
     | (Inr snapshot, w1) \<Rightarrow>
         if ss_ID snapshot \<noteq> reservationID \<or> ss_OwnerID snapshot \<noteq> ownerID then (Inl ErrPaymentNotFound, db, w1)
         else if ss_TrainRunID snapshot = uuid_Nil \<or> ss_Status snapshot \<noteq> ''held'' \<or> ss_ExpiresAt snapshot \<le> ap_now service \<or>
            ss_AmountMinor snapshot \<le> 0 \<or> \<not> currencyPattern (ss_Currency snapshot)
         then (Inl ErrReservationNotPayable, db, w1)
         else if ap_newID service 0 = uuid_Nil \<or> ap_newID service 1 = uuid_Nil \<or> ap_newID service 2 = uuid_Nil
         then (Inl ErrPaymentUnavailable, db, w1)
         else (case ReserveIntent (ap_env service 2) (reserve_request service snapshot keyHash fingerprint) db of
            (Inl e, db1) \<Rightarrow> (Inl (normalizeStoreError e), db1, w1)
          | (Inr (intent, replayed), db1) \<Rightarrow>
              if replayed \<and> ir_State intent \<noteq> IntentReservationSecuring then (Inr intent, db1, w1)
              else secureReservation service intent fingerprint (db1, w1)))"

definition CreateIntent :: "'w AppService \<Rightarrow> uuid \<Rightarrow> uuid \<Rightarrow> string \<Rightarrow> ('w, IntentRecord) appcall" where
  "CreateIntent service ownerID reservationID key = (\<lambda>(db, w).
     case intentIdentity (ap_ids service) (ap_unicode service) ownerID reservationID key of
       None \<Rightarrow> (Inl ErrInvalidPaymentRequest, db, w)
     | Some (keyHash, fingerprint) \<Rightarrow>
         (case LookupIntentByIdempotency (ap_env service 1) ownerID keyHash fingerprint db of
            (Inl e, db1) \<Rightarrow> (Inl (normalizeStoreError e), db1, w)
          | (Inr (Some existing), db1) \<Rightarrow>
              if ir_State existing \<noteq> IntentReservationSecuring then (Inr existing, db1, w)
              else secureReservation service existing fingerprint (db1, w)
          | (Inr None, db1) \<Rightarrow> reserve_and_secure service ownerID reservationID keyHash fingerprint (db1, w)))"

subsection \<open>Reading and cancelling\<close>

definition GetIntent :: "'w AppService \<Rightarrow> uuid \<Rightarrow> uuid \<Rightarrow> PaymentDb \<Rightarrow> (AppError + IntentRecord) \<times> PaymentDb" where
  "GetIntent service ownerID intentID db =
     (if ownerID = uuid_Nil \<or> intentID = uuid_Nil then (Inl ErrInvalidPaymentRequest, db)
      else case GetOwnedIntent (ap_env service 1) ownerID intentID db of
        (Inl e, db1) \<Rightarrow> (Inl (if e = ErrPaymentNotFound then ErrPaymentNotFound else ErrPaymentUnavailable), db1)
      | (Inr intent, db1) \<Rightarrow> (Inr intent, db1))"

definition cancel_request :: "'w AppService \<Rightarrow> uuid \<Rightarrow> uuid \<Rightarrow> byte list \<Rightarrow> byte list \<Rightarrow> CancelIntentRequest" where
  "cancel_request service ownerID intentID keyHash fingerprint =
     \<lparr>cq_OwnerID = ownerID, cq_PaymentIntentID = intentID, cq_OperationID = ap_newID service 0,
      cq_IdempotencyKeyHash = keyHash, cq_RequestFingerprint = fingerprint\<rparr>"

definition CancelIntent :: "'w AppService \<Rightarrow> uuid \<Rightarrow> uuid \<Rightarrow> string \<Rightarrow> PaymentDb \<Rightarrow> (AppError + IntentRecord) \<times> PaymentDb" where
  "CancelIntent service ownerID intentID key db =
     (case cancellationIdentity (ap_ids service) (ap_unicode service) ownerID intentID key of
        None \<Rightarrow> (Inl ErrInvalidPaymentRequest, db)
      | Some (keyHash, fingerprint) \<Rightarrow>
          if ap_newID service 0 = uuid_Nil then (Inl ErrPaymentUnavailable, db)
          else (case RequestCancellation (ap_env service 2) (cancel_request service ownerID intentID keyHash fingerprint) db of
             (Inl e, db1) \<Rightarrow>
               (Inl (if e = ErrPaymentNotFound then ErrPaymentNotFound
                     else if e = ErrPaymentConflict then ErrPaymentConflict else ErrPaymentUnavailable), db1)
           | (Inr intent, db1) \<Rightarrow> (Inr intent, db1)))"

definition CancelPaidReservation :: "'w AppService \<Rightarrow> uuid \<Rightarrow> uuid \<Rightarrow> string \<Rightarrow> PaymentDb \<Rightarrow> (AppError + IntentRecord) \<times> PaymentDb" where
  "CancelPaidReservation service ownerID reservationID key db =
     (if ownerID = uuid_Nil \<or> reservationID = uuid_Nil then (Inl ErrInvalidPaymentRequest, db)
      else case GetOwnedIntentByReservation (ap_env service 1) ownerID reservationID db of
        (Inl e, db1) \<Rightarrow> (Inl (if e = ErrPaymentNotFound then ErrPaymentNotFound else ErrPaymentUnavailable), db1)
      | (Inr intent, db1) \<Rightarrow>
          if ir_State intent \<in> {IntentFailed, IntentExpired} then (Inl ErrPaymentNotFound, db1)
          else if ir_State intent \<in> {IntentCancelled, IntentVoided, IntentRefunded} then (Inr intent, db1)
          else if ir_State intent \<in> {IntentCreated, IntentReservationSecuring, IntentCheckoutPending, IntentAuthorizationPending,
                    IntentCapturePending, IntentCaptured, IntentTicketIssuePending, IntentManualReview}
          then (Inl ErrPaymentConflict, db1)
          else CancelIntent service ownerID (ir_ID intent) key db1)"

end
