(* ===== verification/Payment_Ledger.thy ===== *)
theory Payment_Ledger
  imports Payment_Worker Payment_Webhook Payment_Application
begin

text \<open>
  What every transaction of the payment control plane keeps. The locale \<open>payment_invariant\<close> asks of a property of
  the tables that it survives each kind of accepted statement; in it every operation of the stores, of the webhook
  intake, of the service and of the worker is shown to keep the property. The locales it extends ask less:
  \<open>payment_frame\<close> says nothing of updates of sagas and operations, \<open>payment_sagas_invariant\<close> nothing of those of operations. \<open>payments_ok\<close>, the integrity of the ledger, is
  one interpretation, and the history of the rows is another.
\<close>

subsection \<open>Accepted changes\<close>

definition intent_change :: "PaymentDb \<Rightarrow> IntentRow \<Rightarrow> IntentRow \<Rightarrow> bool" where
  "intent_change db r r' \<longleftrightarrow> r' = r \<or> intent_guard (reservation_directory db) r r' \<and> intent_check r'"

definition saga_change :: "SagaRow \<Rightarrow> SagaRow \<Rightarrow> bool" where
  "saga_change r r' \<longleftrightarrow> r' = r \<or> saga_guard r r' \<and> saga_check r'"

definition operation_change :: "PaymentDb \<Rightarrow> OperationRow \<Rightarrow> OperationRow \<Rightarrow> bool" where
  "operation_change db r r' \<longleftrightarrow>
     r' = r \<or> operation_guard r r' \<and> settlement_guard (payment_operations db) r r' \<and> operation_check r'"

definition inbox_change :: "InboxRow \<Rightarrow> InboxRow \<Rightarrow> bool" where
  "inbox_change r r' \<longleftrightarrow> r' = r \<or> inbox_guard r r' \<and> inbox_check r'"

text \<open>No statement lets two operations succeed at once.\<close>

definition newly_succeeded :: "OperationRow \<times> OperationRow \<Rightarrow> bool" where
  "newly_succeeded p \<longleftrightarrow> po_state (snd p) = OperationSucceeded \<and> po_state (fst p) \<noteq> OperationSucceeded"

definition single_success :: "OperationRow list \<Rightarrow> OperationRow list \<Rightarrow> bool" where
  "single_success rows rows' \<longleftrightarrow>
     (\<forall>p \<in> set (zip rows rows'). \<forall>q \<in> set (zip rows rows'). newly_succeeded p \<and> newly_succeeded q \<longrightarrow> po_id (fst p) = po_id (fst q))"

text \<open>A new intent comes with its saga.\<close>

definition fresh_pair :: "PaymentDb \<Rightarrow> IntentRow \<Rightarrow> SagaRow \<Rightarrow> bool" where
  "fresh_pair db i s \<longleftrightarrow>
     intent_check i \<and> saga_check s \<and> sg_intent s = pi_id i \<and> sg_reservation s = pi_reservation i \<and>
     intents_unique (payment_intents db @ [i]) \<and> sagas_unique (payment_sagas db @ [s])"

lemma keeps_update_table:
  assumes "\<And>db rows'. Q db \<Longrightarrow> rows' = map (\<lambda>r. if wh db r then upd r else r) (rows_of db) \<Longrightarrow>
     list_all2 (\<lambda>r r'. r' = r \<or> guard db r r') (rows_of db) rows' \<Longrightarrow> uniq rows' \<Longrightarrow> Q (put rows' db)"
  shows "tx_keeps Q (update_table rows_of put guard uniq env label err wh upd)"
proof -
  have "list_all2 (\<lambda>r r'. r' = r \<or> guard db r r') rows (map (\<lambda>r. if wh db r then upd r else r) rows)"
    if "list_all (\<lambda>r. wh db r \<longrightarrow> guard db r (upd r)) rows" for db and rows
    using that by (induction rows) auto
  then show ?thesis
    using assms by (auto simp: tx_keeps_def update_table_def Let_def split: if_splits)
qed

locale payment_frame =
  fixes P :: "PaymentDb \<Rightarrow> bool"
  assumes intents_law:
      "P db \<Longrightarrow> list_all2 (intent_change db) (payment_intents db) rows \<Longrightarrow> intents_unique rows \<Longrightarrow>
        P (db\<lparr>payment_intents := rows\<rparr>)"
    and inbox_law:
      "P db \<Longrightarrow> list_all2 inbox_change (payment_webhook_inbox db) wrows \<Longrightarrow> inbox_unique wrows \<Longrightarrow>
        P (db\<lparr>payment_webhook_inbox := wrows\<rparr>)"
    and new_operation_law:
      "P db \<Longrightarrow> operation_check r \<Longrightarrow> po_state r = OperationPending \<Longrightarrow> operations_unique (payment_operations db @ [r]) \<Longrightarrow>
        operation_of_intent (payment_intents db) r \<Longrightarrow> P (db\<lparr>payment_operations := payment_operations db @ [r]\<rparr>)"
    and new_intent_law:
      "P db \<Longrightarrow> fresh_pair db i s \<Longrightarrow>
        P (db\<lparr>payment_intents := payment_intents db @ [i], payment_sagas := payment_sagas db @ [s]\<rparr>)"
    and new_inbox_law:
      "P db \<Longrightarrow> inbox_check w \<Longrightarrow> wi_state w = InboxReceived \<Longrightarrow> wi_id w \<notin> wi_id ` set (payment_webhook_inbox db) \<Longrightarrow>
        (wi_provider w, wi_event w) \<notin> (\<lambda>x. (wi_provider x, wi_event x)) ` set (payment_webhook_inbox db) \<Longrightarrow>
        P (db\<lparr>payment_webhook_inbox := payment_webhook_inbox db @ [w]\<rparr>)"
    and review_law: "P db \<Longrightarrow> P (db\<lparr>payment_manual_review_cases := vrows\<rparr>)"
    and conflict_law: "P db \<Longrightarrow> P (db\<lparr>payment_provider_event_conflicts := xrows\<rparr>)"
    and locator_law: "P db \<Longrightarrow> P (db\<lparr>pay_ticket_order_locators := lrows\<rparr>)"
    and ticket_law: "P db \<Longrightarrow> P (db\<lparr>pay_ticket_locators := trows\<rparr>)"
    and code_law: "P db \<Longrightarrow> P (db\<lparr>ticket_code_directory := crows\<rparr>)"
begin

lemma keeps_basic [tx_keeps_rules]:
  "tx_keeps P (tx_return x)" "tx_keeps P (tx_fail e)" "tx_keeps P (tx_get g)" "tx_keeps P (tx_reject b e)"
  by (simp_all add: tx_keeps_def)

lemma keeps_option [tx_keeps_rules]:
  "(x = None \<Longrightarrow> tx_keeps P m) \<Longrightarrow> (\<And>y. x = Some y \<Longrightarrow> tx_keeps P (f y)) \<Longrightarrow>
     tx_keeps P (case x of None \<Rightarrow> m | Some y \<Rightarrow> f y)"
  by (cases x) simp_all

lemma keeps_prod [tx_keeps_rules]: "(\<And>a b. x = (a, b) \<Longrightarrow> tx_keeps P (f a b)) \<Longrightarrow> tx_keeps P (case x of (a, b) \<Rightarrow> f a b)"
  by (cases x) simp

lemma keeps_let [tx_keeps_rules]: "(\<And>x. x = t \<Longrightarrow> tx_keeps P (f x)) \<Longrightarrow> tx_keeps P (Let t f)"
  by simp

lemma keeps_each [tx_keeps_rules]: "(\<And>x. tx_keeps P (f x)) \<Longrightarrow> tx_keeps P (tx_each f xs)"
  by (induction xs) (simp_all add: tx_keeps_rules)

lemma keeps_query_row [tx_keeps_rules]: "tx_keeps P (query_row env label err q)"
  by (simp add: query_row_def tx_keeps_rules)

lemma keeps_anyRows [tx_keeps_rules]: "tx_keeps P m \<Longrightarrow> tx_keeps P (anyRows m)"
  by (simp add: anyRows_def tx_keeps_rules)

lemma keeps_oneRow [tx_keeps_rules]: "tx_keeps P m \<Longrightarrow> tx_keeps P (oneRow m)"
  by (simp add: oneRow_def tx_keeps_rules)

lemma keeps_update_intents [tx_keeps_rules]: "tx_keeps P (update_intents env label err wh upd)"
  unfolding update_intents_def
  by (rule keeps_update_table, rule intents_law) (simp_all add: intent_change_def [abs_def])

lemma keeps_update_inbox [tx_keeps_rules]: "tx_keeps P (update_inbox env label err wh upd)"
  unfolding update_inbox_def
  by (rule keeps_update_table, rule inbox_law) (simp_all add: inbox_change_def [abs_def])

lemma keeps_insert_operation [tx_keeps_rules]:
  "po_state r = OperationPending \<Longrightarrow> tx_keeps P (insert_operation_row env label err r)"
  by (auto simp: tx_keeps_def insert_operation_row_def intro!: new_operation_law split: if_splits)

lemma keeps_insertOperation [tx_keeps_rules]: "tx_keeps P (insertOperation env intentID providerName kind amount cur)"
  unfolding insertOperation_def by (rule keeps_insert_operation) (simp add: new_operation_def)

lemma keeps_insert_review [tx_keeps_rules]: "tx_keeps P (insert_review_row env label err r)"
  by (auto simp: tx_keeps_def insert_review_row_def intro!: review_law split: if_splits)

lemma keeps_insertReview [tx_keeps_rules]: "tx_keeps P (insertReview env intentID operationID inboxID reason)"
  unfolding insertReview_def by (rule keeps_insert_review)

lemma keeps_cases [tx_keeps_rules]:
  "tx_keeps P m1 \<Longrightarrow> tx_keeps P m2 \<Longrightarrow> tx_keeps P m3 \<Longrightarrow> tx_keeps P m4 \<Longrightarrow> tx_keeps P m5 \<Longrightarrow> tx_keeps P m6 \<Longrightarrow>
     (\<And>s. tx_keeps P (m7 s)) \<Longrightarrow> tx_keeps P (case_OperationType m1 m2 m3 m4 m5 m6 m7 kind)"
  "tx_keeps P m1 \<Longrightarrow> tx_keeps P m2 \<Longrightarrow> tx_keeps P m3 \<Longrightarrow> tx_keeps P m4 \<Longrightarrow> (\<And>s. tx_keeps P (m7 s)) \<Longrightarrow>
     tx_keeps P (case_ActionType m1 m2 m3 m4 m7 action)"
  "tx_keeps P m1 \<Longrightarrow> tx_keeps P m2 \<Longrightarrow> tx_keeps P m3 \<Longrightarrow> tx_keeps P m4 \<Longrightarrow> tx_keeps P m5 \<Longrightarrow> tx_keeps P m6 \<Longrightarrow>
     tx_keeps P m8 \<Longrightarrow> tx_keeps P m9 \<Longrightarrow> tx_keeps P m10 \<Longrightarrow> (\<And>s. tx_keeps P (m7 s)) \<Longrightarrow>
     tx_keeps P (case_Status m1 m2 m3 m4 m5 m6 m8 m9 m10 m7 status)"
  by (cases kind, simp_all) (cases action, simp_all, cases status, simp_all)



lemma keeps_store [tx_keeps_rules]:
  "tx_keeps P (store_begin env)" "tx_keeps P (store_commit env)" "tx_keeps P m \<Longrightarrow> tx_keeps P (in_transaction env m)"
  "tx_keeps P (set_intent_state env label intentID old new)"
  by (simp_all add: store_begin_def store_commit_def in_transaction_def set_intent_state_def tx_keeps_rules)

lemma keeps_scan [tx_keeps_rules]: "tx_keeps P (scanOperationClaims rows)"
  by (simp add: scanOperationClaims_def tx_keeps_rules)

lemma keeps_build_all [tx_keeps_rules]: "tx_keeps P (build_all xs)"
  by (induction xs rule: build_all.induct) (simp_all add: tx_keeps_rules)

lemma keeps_review_intent [tx_keeps_rules]: "tx_keeps P (review_intent env intentID)"
  unfolding review_intent_def by (intro tx_keeps_rules)

lemma keeps_locators [tx_keeps_rules]:
  "tx_keeps P (insert_order_locator env l)" "tx_keeps P (insert_ticket_locator env t)" "tx_keeps P (insert_ticket_code env c k)"
  by (auto simp: tx_keeps_def insert_order_locator_def insert_ticket_locator_def insert_ticket_code_def Let_def
      intro: locator_law ticket_law code_law split: if_splits option.splits)

lemma keeps_write_ticket_locators [tx_keeps_rules]: "tx_keeps P (write_ticket_locators env l seenIDs seenCodes xs)"
  by (induction env l seenIDs seenCodes xs rule: write_ticket_locators.induct)
    (simp_all only: write_ticket_locators.simps, (intro tx_keeps_rules; assumption?)+)

lemma keeps_modify_orders [tx_keeps_rules]: "tx_keeps P (tx_modify (\<lambda>db. db\<lparr>pay_ticket_order_locators := f db\<rparr>))"
  by (auto simp: tx_keeps_def intro: locator_law)

lemma keeps_scanIntent [tx_keeps_rules]: "tx_keeps P (scanIntent env label wrap q)"
  unfolding scanIntent_def by (intro tx_keeps_rules)

lemma keeps_begin_or [tx_keeps_rules]: "tx_keeps P (begin_or env err)" "tx_keeps P (commit_or env err)"
  by (simp_all add: begin_or_def commit_or_def tx_keeps_rules)

lemma keeps_insert_pair:
  assumes "sg_intent s = pi_id i" "sg_reservation s = pi_reservation i" "\<And>x. tx_keeps P (k x)"
  shows "tx_keeps P (tx_bind (insert_intent env i) (\<lambda>_. tx_bind (insert_saga env s) k))"
proof -
  have "P db1" if "P db" "insert_intent env i db = Inr (u, db0)" "insert_saga env s db0 = Inr (v, db1)" for db db0 db1 u v
    using that assms(1,2) new_intent_law[of db i s]
    by (auto simp: insert_intent_def insert_saga_def fresh_pair_def split: if_splits)
  then show ?thesis
    using assms(3) unfolding tx_keeps_def tx_bind_eq_Inr by blast
qed

lemma keeps_insert_inbox [tx_keeps_rules]: "tx_keeps P (insert_inbox env r)"
proof -
  have "P (db\<lparr>payment_webhook_inbox := payment_webhook_inbox db @ [received_row now r]\<rparr>)"
    if "P db" "inbox_check (received_row now r)" "\<not> list_ex (same_event r) (payment_webhook_inbox db)"
      "wr_ID r \<notin> wi_id ` set (payment_webhook_inbox db)" for db now
    using that by (intro new_inbox_law) (auto simp: received_row_def same_event_def list_ex_iff)
  then show ?thesis
    unfolding tx_keeps_def insert_inbox_def Let_def by (auto split: if_splits)
qed

lemma keeps_record_conflict [tx_keeps_rules]: "tx_keeps P (record_conflict env fresh canonical r)"
  unfolding tx_keeps_def record_conflict_def Let_def by (auto intro: conflict_law split: if_splits)

subsection \<open>Transactions that change neither sagas nor operations\<close>

lemma keeps_ClaimWebhooks: "P db \<Longrightarrow> P (snd (ClaimWebhooks env options db))"
  unfolding ClaimWebhooks_def claim_webhooks_tx_def
  by (rule run_tx_keeps) (intro tx_keeps_rules)

lemma keeps_IgnoreWebhook: "P db \<Longrightarrow> P (snd (IgnoreWebhook env claim db))"
  unfolding IgnoreWebhook_def by (rule run_tx_keeps) (intro tx_keeps_rules)

lemma keeps_LookupIntent: "P db \<Longrightarrow> P (snd (LookupIntentByIdempotency env ownerID keyHash fingerprint db))"
  unfolding LookupIntentByIdempotency_def lookup_by_key_def by (rule run_tx_keeps) (intro tx_keeps_rules)

lemma keeps_reserve_intent_tx: "tx_keeps P (reserve_intent_tx env request)"
  unfolding reserve_intent_tx_def
  by (intro tx_keeps_rules keeps_insert_pair) (simp_all add: new_intent_def new_saga_def)

lemma keeps_ReserveIntent: "P db \<Longrightarrow> P (snd (ReserveIntent env request db))"
proof -
  assume "P db"
  then have "P (snd (run_tx (reserve_intent_tx env request) db))" by (rule run_tx_keeps [OF keeps_reserve_intent_tx])
  then show ?thesis
    using \<open>P db\<close> keeps_LookupIntent[of "snd (run_tx (reserve_intent_tx env request) db)" env "rq_OwnerID request"
        "rq_IdempotencyKeyHash request" "rq_RequestFingerprint request"]
    by (auto simp: ReserveIntent_def split: prod.splits sum.splits AppError.splits option.splits)
qed

lemma keeps_GetOwnedIntent: "P db \<Longrightarrow> P (snd (GetOwnedIntent env ownerID intentID db))"
  unfolding GetOwnedIntent_def by (rule run_tx_keeps) (intro tx_keeps_rules)

lemma keeps_GetByReservation: "P db \<Longrightarrow> P (snd (GetOwnedIntentByReservation env ownerID reservationID db))"
  unfolding GetOwnedIntentByReservation_def by (rule run_tx_keeps) (intro tx_keeps_rules)

lemma keeps_StoreVerified: "P db \<Longrightarrow> P (snd (StoreVerified env fresh r db))"
  unfolding StoreVerified_def store_verified_tx_def
  by (rule run_tx_keeps) (intro tx_keeps_rules; auto)

end

text \<open>A property that survives every accepted update of sagas as well: the transactions that change no operation keep it.\<close>

locale payment_sagas_invariant = payment_frame +
  assumes sagas_law:
      "P db \<Longrightarrow> list_all2 saga_change (payment_sagas db) srows \<Longrightarrow> sagas_unique srows \<Longrightarrow> P (db\<lparr>payment_sagas := srows\<rparr>)"
begin

lemma keeps_update_sagas [tx_keeps_rules]: "tx_keeps P (update_sagas env label err wh upd)"
  unfolding update_sagas_def
  by (rule keeps_update_table, rule sagas_law) (simp_all add: saga_change_def [abs_def])

lemma keeps_saga_statements [tx_keeps_rules]:
  "tx_keeps P (set_saga_state env label intentID so supd)" "tx_keeps P (releaseSagaLease env intentID owner)"
  by (simp_all add: set_saga_state_def releaseSagaLease_def tx_keeps_rules)

lemma keeps_ClaimActions: "P db \<Longrightarrow> P (snd (ClaimActions env options db))"
  unfolding ClaimActions_def claim_actions_tx_def
  by (rule run_tx_keeps) (intro tx_keeps_rules)

lemma keeps_applyOperationSuccess [tx_keeps_rules]: "tx_keeps P (applyOperationSuccess env claim evidence)"
  unfolding applyOperationSuccess_def by (intro tx_keeps_rules)

lemma keeps_FailWebhook: "P db \<Longrightarrow> P (snd (FailWebhook env claim failure db))"
  unfolding FailWebhook_def by (rule run_tx_keeps) (intro tx_keeps_rules)

lemma keeps_CompleteAction: "P db \<Longrightarrow> P (snd (CompleteAction env claim evidence db))"
  unfolding CompleteAction_def complete_action_tx_def writeTicketLocators_def move_claimed_intent_def
  by (rule run_tx_keeps) (intro tx_keeps_rules)

lemma keeps_FailAction: "P db \<Longrightarrow> P (snd (FailAction env claim failure db))"
  unfolding FailAction_def fail_action_tx_def move_claimed_intent_def
  by (rule run_tx_keeps) (intro tx_keeps_rules)

lemma keeps_MarkReservationSecured: "P db \<Longrightarrow> P (snd (MarkReservationSecured env intentID commandID fingerprint db))"
  unfolding MarkReservationSecured_def mark_secured_tx_def
  by (rule run_tx_keeps) (intro tx_keeps_rules; simp add: new_operation_def)

lemma keeps_FailReservationSecuring: "P db \<Longrightarrow> P (snd (FailReservationSecuring env intentID fingerprint db))"
  unfolding FailReservationSecuring_def Let_def
  by (rule run_tx_keeps) (intro tx_keeps_rules)

lemma keeps_RequestCancellation: "P db \<Longrightarrow> P (snd (RequestCancellation env request db))"
  unfolding RequestCancellation_def request_cancellation_tx_def write_cancellation_request_def
  by (rule run_tx_keeps) (intro tx_keeps_rules; simp add: new_operation_def)

end

text \<open>A property that survives every accepted update of operations too: every transaction keeps it.\<close>

locale payment_invariant = payment_sagas_invariant +
  assumes operations_law:
      "P db \<Longrightarrow> list_all2 (operation_change db) (payment_operations db) orows \<Longrightarrow> operations_unique orows \<Longrightarrow>
        single_success (payment_operations db) orows \<Longrightarrow> P (db\<lparr>payment_operations := orows\<rparr>)"
begin

lemma keeps_update_operations:
  assumes "(\<forall>db r s. wh db r \<longrightarrow> wh db s \<longrightarrow> po_id r = po_id s) \<or>
    (\<forall>r. po_state (upd r) = OperationSucceeded \<longrightarrow> po_state r = OperationSucceeded)"
  shows "tx_keeps P (update_operations env label err wh upd)"
proof -
  have single: "single_success rows (map (\<lambda>r. if wh db r then upd r else r) rows)" for rows db
    unfolding single_success_def
  proof (intro ballI impI)
    fix p q
    assume "p \<in> set (zip rows (map (\<lambda>r. if wh db r then upd r else r) rows))"
      and "q \<in> set (zip rows (map (\<lambda>r. if wh db r then upd r else r) rows))"
      and new: "newly_succeeded p \<and> newly_succeeded q"
    then obtain r s where pq: "p = (r, if wh db r then upd r else r)" "q = (s, if wh db s then upd s else s)"
      by (auto simp: zip_map2 zip_same_conv_map)
    with new have hit: "wh db r" "wh db s" by (auto simp: newly_succeeded_def split: if_splits)
    with new pq have "po_state (upd r) = OperationSucceeded" "po_state r \<noteq> OperationSucceeded"
      by (simp_all add: newly_succeeded_def)
    with assms hit pq show "po_id (fst p) = po_id (fst q)" by auto
  qed
  show ?thesis
    unfolding update_operations_def
    by (rule keeps_update_table, rule operations_law) (simp_all add: operation_change_def [abs_def] single)
qed

subsection \<open>Operations\<close>

lemma keeps_ClaimOperations: "P db \<Longrightarrow> P (snd (ClaimOperations env options db))"
  unfolding ClaimOperations_def claim_operations_tx_def return_expired_operations_def retry_operations_def
    claim_pending_operations_def claim_uncertain_operations_def
  by (rule run_tx_keeps) (intro tx_keeps_rules keeps_update_operations; auto)

lemma keeps_BeginOperation: "P db \<Longrightarrow> P (snd (BeginOperation env claim db))"
  unfolding BeginOperation_def by (rule run_tx_keeps) (intro tx_keeps_rules keeps_update_operations; auto)

lemma keeps_CompleteOperation: "P db \<Longrightarrow> P (snd (CompleteOperation env claim evidence db))"
  unfolding CompleteOperation_def by (rule run_tx_keeps) (intro tx_keeps_rules keeps_update_operations; auto)

lemma keeps_finalize [tx_keeps_rules]: "tx_keeps P (finalizeOperationFailure env claim cs ns failure)"
  unfolding finalizeOperationFailure_def by (intro tx_keeps_rules keeps_update_operations; auto)

lemma keeps_FailOperation: "P db \<Longrightarrow> P (snd (FailOperation env claim failure db))"
  unfolding FailOperation_def by (rule run_tx_keeps) (intro tx_keeps_rules keeps_update_operations)

lemma keeps_confirmOperation [tx_keeps_rules]: "tx_keeps P (confirmOperation env intentID providerName kind amount cur status)"
  unfolding confirmOperation_def by (intro tx_keeps_rules keeps_update_operations; auto)

lemma keeps_converge [tx_keeps_rules]:
  "tx_keeps P (convergeCapturedCancellation env intentID providerName amount cur leaseOwner)"
  unfolding convergeCapturedCancellation_def by (intro tx_keeps_rules keeps_update_operations)

lemma keeps_SupersedeVoidWithRefund: "P db \<Longrightarrow> P (snd (SupersedeVoidWithRefund env claim evidence db))"
  unfolding SupersedeVoidWithRefund_def by (rule run_tx_keeps) (intro tx_keeps_rules keeps_update_operations; auto)

lemma keeps_confirmation [tx_keeps_rules]:
  "tx_keeps P (applyProviderConfirmation env intentID providerName intentState amount cur evidence)"
  unfolding applyProviderConfirmation_def advanceAuthorization_def advanceCapture_def by (intro tx_keeps_rules keeps_update_operations; auto)

lemma keeps_CompleteWebhook: "P db \<Longrightarrow> P (snd (CompleteWebhook env claim evidence db))"
  unfolding CompleteWebhook_def by (rule run_tx_keeps) (intro tx_keeps_rules keeps_update_operations)

subsection \<open>The worker and the service\<close>

lemma keeps_store_call:
  assumes others: "\<And>n db. P db \<Longrightarrow> P (wk_others worker n db)" and run: "\<And>env db. P db \<Longrightarrow> P (snd (run env db))"
    and "P (ws_db st)" "store_call worker run st = (r, st')"
  shows "P (ws_db st')"
proof -
  have "P (snd (run (wk_env worker (ws_calls st)) (wk_others worker (ws_calls st) (ws_db st))))"
    using run others assms(3) by blast
  with assms(4) show ?thesis by (auto simp: store_call_def Let_def split: prod.splits)
qed

lemma keeps_outside_call: "P (ws_db st) \<Longrightarrow> outside_call run st = (r, st') \<Longrightarrow> P (ws_db st')"
  by (auto simp: outside_call_def split: prod.splits)

lemma keeps_snd: "P (snd x) \<Longrightarrow> x = (r, db') \<Longrightarrow> P db'"
  by simp

lemmas keeps_intent_calls =
  keeps_snd [OF keeps_FailReservationSecuring] keeps_snd [OF keeps_MarkReservationSecured] keeps_snd [OF keeps_ReserveIntent]
  keeps_snd [OF keeps_LookupIntent] keeps_snd [OF keeps_RequestCancellation] keeps_snd [OF keeps_GetByReservation]

lemma keeps_secureReservation: "P db \<Longrightarrow> P (fst (snd (secureReservation service intent fingerprint (db, w))))"
  unfolding secureReservation_def by (auto dest: keeps_intent_calls split: prod.splits sum.splits)

lemma keeps_reserve_and_secure:
  "P db \<Longrightarrow> P (fst (snd (reserve_and_secure service ownerID reservationID keyHash fingerprint (db, w))))"
  unfolding reserve_and_secure_def
  by (auto dest: keeps_intent_calls intro!: keeps_secureReservation split: prod.splits sum.splits)

lemma keeps_CreateIntent: "P db \<Longrightarrow> P (fst (snd (CreateIntent service ownerID reservationID key (db, w))))"
  unfolding CreateIntent_def
  by (auto dest: keeps_intent_calls intro!: keeps_secureReservation keeps_reserve_and_secure
      split: prod.splits sum.splits option.splits)

lemma keeps_CancelIntent: "P db \<Longrightarrow> P (snd (CancelIntent service ownerID intentID key db))"
  unfolding CancelIntent_def by (auto dest: keeps_intent_calls split: prod.splits sum.splits option.splits)

lemma keeps_CancelPaidReservation: "P db \<Longrightarrow> P (snd (CancelPaidReservation service ownerID reservationID key db))"
  unfolding CancelPaidReservation_def
  by (auto dest: keeps_intent_calls intro!: keeps_CancelIntent split: prod.splits sum.splits)

lemma keeps_IngestPaymentWebhook: "P db \<Longrightarrow> P (snd (IngestPaymentWebhook env fresh service request db))"
  unfolding IngestPaymentWebhook_def Let_def
  by (auto dest: keeps_snd [OF keeps_StoreVerified] split: prod.splits sum.splits option.splits StoreResult.splits)

end

text \<open>A worker among other processes that keep the property.\<close>

locale payment_worker_invariant = payment_invariant +
  fixes worker :: "'w Worker"
  assumes others_law: "P db \<Longrightarrow> P (wk_others worker n db)"
begin

lemma keeps_call:
  "P (ws_db st) \<Longrightarrow> store_call worker run st = (r, st') \<Longrightarrow> (\<And>env db. P db \<Longrightarrow> P (snd (run env db))) \<Longrightarrow> P (ws_db st')"
  using keeps_store_call[where worker = worker] others_law by blast

lemma keeps_failOperation:
  "P (ws_db st) \<Longrightarrow> P (ws_db (snd (snd (failOperationWithUncertainty worker now claim category review uncertain result st))))"
  unfolding failOperationWithUncertainty_def Let_def
  by (auto dest: keeps_call [OF _ _ keeps_FailOperation] split: prod.splits sum.splits)

lemma keeps_settle:
  "P (ws_db st) \<Longrightarrow> P (ws_db (snd (snd (settle_operation worker now claim answer result st))))"
  unfolding settle_operation_def Let_def failOperation_def
  by (auto dest: keeps_call [OF _ _ keeps_SupersedeVoidWithRefund] keeps_call [OF _ _ keeps_CompleteOperation]
      intro: keeps_failOperation split: prod.splits sum.splits OperationDisposition.splits)

lemma keeps_processOperation: "P (ws_db st) \<Longrightarrow> P (ws_db (snd (snd (processOperation worker now claim result st))))"
proof -
  assume inv: "P (ws_db st)"
  have ask: "P (ws_db (snd (snd (ask_provider worker now claim result st1))))" if "P (ws_db st1)" for st1
    using that unfolding ask_provider_def failOperation_def
    by (auto intro!: keeps_failOperation keeps_settle dest: keeps_outside_call split: option.splits prod.splits)
  have invalid: "P (ws_db (snd (snd (failInvalidOperation worker now claim result st))))"
    using inv unfolding failInvalidOperation_def failOperation_def
    by (auto dest: keeps_call [OF _ _ keeps_BeginOperation] intro!: keeps_failOperation split: prod.splits sum.splits)
  show ?thesis
    using inv invalid unfolding processOperation_def
    by (auto dest: keeps_call [OF _ _ keeps_BeginOperation] intro!: keeps_failOperation ask split: prod.splits sum.splits)
qed

lemma keeps_failWebhook: "P (ws_db st) \<Longrightarrow> P (ws_db (snd (snd (failWebhook worker now claim category review result st))))"
  unfolding failWebhook_def Let_def by (auto dest: keeps_call [OF _ _ keeps_FailWebhook] split: prod.splits sum.splits)

lemma keeps_processWebhook: "P (ws_db st) \<Longrightarrow> P (ws_db (snd (snd (processWebhook worker now claim result st))))"
proof -
  assume inv: "P (ws_db st)"
  have after: "P (ws_db st3)"
    if "outside_call run st = (a, st1)" "store_call worker (\<lambda>env. CompleteWebhook env claim evidence) st1 = (b, st2)"
      "failWebhook worker now claim category review result st2 = (e, result', st3)"
    for run evidence category review result' and a :: "'d" and b e st1 st2 st3
    using keeps_failWebhook[OF keeps_call[OF keeps_outside_call[OF inv that(1)] that(2) keeps_CompleteWebhook],
        of now claim category review result] that(3) by simp
  show ?thesis
    using inv unfolding processWebhook_def Let_def
    by (auto dest: keeps_call [OF _ _ keeps_IgnoreWebhook] keeps_call [OF _ _ keeps_CompleteWebhook]
        keeps_outside_call after intro!: keeps_failWebhook split: prod.splits sum.splits option.splits)
qed

lemma keeps_failAction: "P (ws_db st) \<Longrightarrow> P (ws_db (snd (snd (failAction worker now claim category review result st))))"
  unfolding failAction_def Let_def by (auto dest: keeps_call [OF _ _ keeps_FailAction] split: prod.splits sum.splits)

lemma keeps_processAction: "P (ws_db st) \<Longrightarrow> P (ws_db (snd (snd (processAction worker now claim result st))))"
proof -
  assume inv: "P (ws_db st)"
  have after: "P (ws_db st3)"
    if "outside_call run st = (a, st1)" "store_call worker (\<lambda>env. CompleteAction env claim evidence) st1 = (b, st2)"
      "failAction worker now claim category review result st2 = (e, result', st3)"
    for run evidence category review result' and a :: "'d" and b e st1 st2 st3
    using keeps_failAction[OF keeps_call[OF keeps_outside_call[OF inv that(1)] that(2) keeps_CompleteAction],
        of now claim category review result] that(3) by simp
  show ?thesis
    using inv unfolding processAction_def Let_def
    by (auto dest: keeps_call [OF _ _ keeps_CompleteAction] keeps_outside_call after
        intro!: keeps_failAction split: prod.splits sum.splits option.splits)
qed

lemma keeps_process_each:
  assumes "\<And>claim result st. P (ws_db st) \<Longrightarrow> P (ws_db (snd (snd (step claim result st))))" "P (ws_db st)"
  shows "P (ws_db (snd (snd (process_each step items failures result st))))"
  using assms(2)
proof (induction items arbitrary: failures result st)
  case (Cons claim rest)
  then show ?case using assms(1)[of st claim result] by (auto split: prod.splits)
qed simp

lemma keeps_run_lane:
  assumes "\<And>env db. P db \<Longrightarrow> P (snd (claims env db))"
    and "\<And>claim result st. P (ws_db st) \<Longrightarrow> P (ws_db (snd (snd (step claim result st))))" "P (ws_db (snd (snd acc)))"
  shows "P (ws_db (snd (snd (run_lane worker claims label counted step acc))))"
  using assms(3) keeps_process_each[where step = step, OF assms(2)]
  by (cases acc) (auto simp: run_lane_def dest: keeps_call [OF _ _ assms(1)] split: prod.splits sum.splits)

lemma keeps_RunOnce: "P (ws_db st) \<Longrightarrow> P (ws_db (snd (RunOnce worker st)))"
proof -
  assume "P (ws_db st)"
  then have "P (ws_db (snd (snd (run_lanes worker st))))"
    unfolding run_lanes_def Let_def
    by (intro keeps_run_lane keeps_ClaimActions keeps_ClaimWebhooks keeps_ClaimOperations keeps_processAction
        keeps_processWebhook keeps_processOperation) auto
  with \<open>P (ws_db st)\<close> show ?thesis by (auto simp: RunOnce_def split: prod.splits)
qed

end

subsection \<open>Integrity of the ledger\<close>

definition is_succeeded :: "OperationType \<Rightarrow> OperationRow \<Rightarrow> bool" where
  "is_succeeded kind r \<longleftrightarrow> po_type r = kind \<and> po_state r = OperationSucceeded"

text \<open>A captured payment is not also voided, and only a captured amount is refunded.\<close>

definition settled :: "OperationRow list \<Rightarrow> bool" where
  "settled rows \<longleftrightarrow>
     (\<forall>c \<in> set rows. \<forall>v \<in> set rows. is_succeeded OperationCapture c \<and> is_succeeded OperationVoid v \<longrightarrow> po_intent c \<noteq> po_intent v) \<and>
     (\<forall>r \<in> set rows. is_succeeded OperationRefund r \<longrightarrow>
        (\<exists>c \<in> set rows. is_succeeded OperationCapture c \<and> po_intent c = po_intent r \<and> po_amount c = po_amount r \<and>
           po_currency c = po_currency r))"

definition saga_of_intent :: "IntentRow list \<Rightarrow> SagaRow \<Rightarrow> bool" where
  "saga_of_intent intents s \<longleftrightarrow> list_ex (\<lambda>i. pi_id i = sg_intent s \<and> pi_reservation i = sg_reservation s) intents"

definition rows_ok :: "PaymentDb \<Rightarrow> bool" where
  "rows_ok db \<longleftrightarrow>
     list_all intent_check (payment_intents db) \<and> list_all saga_check (payment_sagas db) \<and>
     list_all operation_check (payment_operations db) \<and> list_all inbox_check (payment_webhook_inbox db) \<and>
     intents_unique (payment_intents db) \<and> sagas_unique (payment_sagas db) \<and> operations_unique (payment_operations db) \<and>
     inbox_unique (payment_webhook_inbox db)"

definition links_ok :: "PaymentDb \<Rightarrow> bool" where
  "links_ok db \<longleftrightarrow>
     list_all (operation_of_intent (payment_intents db)) (payment_operations db) \<and>
     list_all (saga_of_intent (payment_intents db)) (payment_sagas db) \<and> distinct (map sg_intent (payment_sagas db))"

definition payments_ok :: "PaymentDb \<Rightarrow> bool" where
  "payments_ok db \<longleftrightarrow> rows_ok db \<and> links_ok db \<and> settled (payment_operations db)"

lemma list_all2_origin: "list_all2 R xs ys \<Longrightarrow> y \<in> set ys \<Longrightarrow> \<exists>x \<in> set xs. (x, y) \<in> set (zip xs ys) \<and> R x y"
  by (induction rule: list_all2_induct) auto

lemma list_all2_image: "list_all2 R xs ys \<Longrightarrow> x \<in> set xs \<Longrightarrow> \<exists>y \<in> set ys. R x y"
  by (induction rule: list_all2_induct) auto

lemma list_all2_kept:
  "list_all2 R xs ys \<Longrightarrow> list_all Q xs \<Longrightarrow> (\<And>x y. Q x \<Longrightarrow> R x y \<Longrightarrow> Q y) \<Longrightarrow> list_all Q ys"
  by (induction rule: list_all2_induct) auto

lemma list_all2_map: "list_all2 R xs ys \<Longrightarrow> (\<And>x y. R x y \<Longrightarrow> f y = f x) \<Longrightarrow> map f ys = map f xs"
  by (induction rule: list_all2_induct) auto

lemma intent_change_identity:
  "intent_change db i i' \<Longrightarrow> pi_id i' = pi_id i \<and> pi_reservation i' = pi_reservation i \<and> pi_provider i' = pi_provider i \<and>
     pi_amount i' = pi_amount i \<and> pi_currency i' = pi_currency i"
  by (auto simp: intent_change_def intent_guard_def)

lemma operation_change_identity:
  "operation_change db r r' \<Longrightarrow> po_id r' = po_id r \<and> po_intent r' = po_intent r \<and> po_provider r' = po_provider r \<and>
     po_type r' = po_type r \<and> po_key r' = po_key r \<and> po_amount r' = po_amount r \<and> po_currency r' = po_currency r \<and>
     (po_state r = OperationSucceeded \<longrightarrow> po_state r' = OperationSucceeded)"
  by (auto simp: operation_change_def operation_guard_def)

lemma links_intents:
  assumes "list_all2 (intent_change db) intents rows"
  shows "list_all (operation_of_intent intents) ops \<Longrightarrow> list_all (operation_of_intent rows) ops"
    and "list_all (saga_of_intent intents) sagas \<Longrightarrow> list_all (saga_of_intent rows) sagas"
proof -
  have "operation_of_intent rows r" if "operation_of_intent intents r" for r
    using that list_all2_image[OF assms] unfolding operation_of_intent_def list_ex_iff by (metis intent_change_identity)
  then show "list_all (operation_of_intent intents) ops \<Longrightarrow> list_all (operation_of_intent rows) ops"
    by (auto simp: list_all_iff)
  have "saga_of_intent rows r" if "saga_of_intent intents r" for r
    using that list_all2_image[OF assms] unfolding saga_of_intent_def list_ex_iff by (metis intent_change_identity)
  then show "list_all (saga_of_intent intents) sagas \<Longrightarrow> list_all (saga_of_intent rows) sagas"
    by (auto simp: list_all_iff)
qed

lemma settled_capture_void:
  assumes ok: "settled rows" and uniq: "distinct (map po_id rows)" and change: "list_all2 (operation_change db) rows rows'"
    and db: "payment_operations db = rows" and single: "single_success rows rows'"
    and in_rows: "c' \<in> set rows'" "v' \<in> set rows'" and won: "is_succeeded OperationCapture c'" "is_succeeded OperationVoid v'"
  shows "po_intent c' \<noteq> po_intent v'"
proof
  assume same: "po_intent c' = po_intent v'"
  obtain c v where c: "c \<in> set rows" "(c, c') \<in> set (zip rows rows')" "operation_change db c c'"
    and v: "v \<in> set rows" "(v, v') \<in> set (zip rows rows')" "operation_change db v v'"
    using list_all2_origin[OF change in_rows(1)] list_all2_origin[OF change in_rows(2)] by blast
  have kinds: "po_type c = OperationCapture" "po_type v = OperationVoid" "po_intent c = po_intent v"
    "po_intent c' = po_intent c" "po_intent v' = po_intent v" "po_state c' = OperationSucceeded" "po_state v' = OperationSucceeded"
    "po_type c' = OperationCapture" "po_type v' = OperationVoid"
    using won same operation_change_identity[OF c(3)] operation_change_identity[OF v(3)] by (simp_all add: is_succeeded_def)
  have first_new: "settlement_guard rows c c'" if "po_state c \<noteq> OperationSucceeded"
    using that c(3) kinds db by (auto simp: operation_change_def)
  have second_new: "settlement_guard rows v v'" if "po_state v \<noteq> OperationSucceeded"
    using that v(3) kinds db by (auto simp: operation_change_def)
  consider "po_state c = OperationSucceeded" "po_state v = OperationSucceeded"
    | "po_state c \<noteq> OperationSucceeded" "po_state v = OperationSucceeded"
    | "po_state c = OperationSucceeded" "po_state v \<noteq> OperationSucceeded"
    | "po_state c \<noteq> OperationSucceeded" "po_state v \<noteq> OperationSucceeded" by blast
  then show False
  proof cases
    case 1
    then have "is_succeeded OperationCapture c" "is_succeeded OperationVoid v" by (simp_all add: is_succeeded_def kinds)
    then show False using ok c(1) v(1) kinds(3) unfolding settled_def by blast
  next
    case 2
    then have "succeeded rows (po_intent c') OperationVoid v" using v(1) kinds by (simp add: succeeded_def)
    then show False using first_new[OF 2(1)] 2(1) v(1) kinds by (auto simp: settlement_guard_def list_ex_iff)
  next
    case 3
    then have "succeeded rows (po_intent v') OperationCapture c" using c(1) kinds by (simp add: succeeded_def)
    then show False using second_new[OF 3(2)] 3(2) c(1) kinds by (auto simp: settlement_guard_def list_ex_iff)
  next
    case 4
    then have "newly_succeeded (c, c')" "newly_succeeded (v, v')" using kinds by (simp_all add: newly_succeeded_def)
    then have "po_id c = po_id v" using single c(2) v(2) unfolding single_success_def by (metis fst_conv)
    then have "c = v" using uniq c(1) v(1) by (auto simp: distinct_map dest: inj_onD)
    then show False using kinds by simp
  qed
qed

lemma settled_refund:
  assumes ok: "settled rows" and change: "list_all2 (operation_change db) rows rows'" and db: "payment_operations db = rows"
    and in_rows: "r' \<in> set rows'" and won: "is_succeeded OperationRefund r'"
  shows "\<exists>c' \<in> set rows'. is_succeeded OperationCapture c' \<and> po_intent c' = po_intent r' \<and> po_amount c' = po_amount r' \<and>
    po_currency c' = po_currency r'"
proof -
  obtain r where r: "r \<in> set rows" "operation_change db r r'" using list_all2_origin[OF change in_rows] by blast
  have kinds: "po_type r = OperationRefund" "po_intent r' = po_intent r" "po_amount r' = po_amount r" "po_currency r' = po_currency r"
    "po_state r' = OperationSucceeded" "po_type r' = OperationRefund"
    using won operation_change_identity[OF r(2)] by (simp_all add: is_succeeded_def)
  have "\<exists>c \<in> set rows. is_succeeded OperationCapture c \<and> po_intent c = po_intent r \<and> po_amount c = po_amount r \<and>
      po_currency c = po_currency r"
  proof (cases "po_state r = OperationSucceeded")
    case True
    then have "is_succeeded OperationRefund r" by (simp add: is_succeeded_def kinds)
    then show ?thesis using ok r(1) unfolding settled_def by blast
  next
    case False
    then have "settlement_guard rows r r'" using r kinds db by (auto simp: operation_change_def)
    then obtain c where "c \<in> set rows" "succeeded rows (po_intent r') OperationCapture c" "po_amount c = po_amount r'"
      "po_currency c = po_currency r'"
      using False kinds by (auto simp: settlement_guard_def list_ex_iff)
    then show ?thesis using kinds by (auto simp: succeeded_def is_succeeded_def)
  qed
  then obtain c where c: "c \<in> set rows" "is_succeeded OperationCapture c" "po_intent c = po_intent r"
    "po_amount c = po_amount r" "po_currency c = po_currency r" by blast
  obtain c' where c': "c' \<in> set rows'" "operation_change db c c'" using list_all2_image[OF change c(1)] by blast
  have "is_succeeded OperationCapture c'" "po_intent c' = po_intent r'" "po_amount c' = po_amount r'" "po_currency c' = po_currency r'"
    using c kinds operation_change_identity[OF c'(2)] by (simp_all add: is_succeeded_def)
  then show ?thesis using c'(1) by blast
qed

lemma settled_change:
  "settled rows \<Longrightarrow> distinct (map po_id rows) \<Longrightarrow> list_all2 (operation_change db) rows rows' \<Longrightarrow> payment_operations db = rows \<Longrightarrow>
     single_success rows rows' \<Longrightarrow> settled rows'"
  using settled_capture_void[of rows db rows'] settled_refund[of rows db rows'] unfolding settled_def [of rows'] by blast

lemma operations_links: "list_all2 (operation_change db) rows rows' \<Longrightarrow> list_all (operation_of_intent intents) rows \<Longrightarrow>
    list_all (operation_of_intent intents) rows'"
  by (erule list_all2_kept, assumption) (auto simp: operation_of_intent_def list_ex_iff dest!: operation_change_identity)

lemma sagas_links:
  assumes "list_all2 saga_change rows rows'"
  shows "list_all (saga_of_intent intents) rows \<Longrightarrow> list_all (saga_of_intent intents) rows'" "map sg_intent rows' = map sg_intent rows"
  by (erule list_all2_kept[OF assms], force simp: saga_of_intent_def list_ex_iff saga_change_def saga_guard_def)
    (rule list_all2_map[OF assms], auto simp: saga_change_def saga_guard_def)

lemma fresh_pair_links:
  assumes "links_ok db" "fresh_pair db i s"
  shows "links_ok (db\<lparr>payment_intents := payment_intents db @ [i], payment_sagas := payment_sagas db @ [s]\<rparr>)"
proof -
  have new: "pi_id i \<notin> pi_id ` set (payment_intents db)" and s: "sg_intent s = pi_id i" "sg_reservation s = pi_reservation i"
    using assms(2) by (auto simp: fresh_pair_def intents_unique_def)
  have "pi_id i \<notin> sg_intent ` set (payment_sagas db)"
    using assms(1) new unfolding links_ok_def list_all_iff saga_of_intent_def list_ex_iff by (metis (no_types, lifting) image_iff)
  then have "distinct (map sg_intent (payment_sagas db @ [s]))" using assms(1) s by (auto simp: links_ok_def)
  with assms(1) s show ?thesis
    by (auto simp: links_ok_def list_all_iff operation_of_intent_def saga_of_intent_def)
qed

lemma settled_append: "settled rows \<Longrightarrow> po_state r = OperationPending \<Longrightarrow> settled (rows @ [r])"
  by (auto simp: settled_def is_succeeded_def)

interpretation ledger: payment_invariant payments_ok
proof
  fix db rows
  assume "payments_ok db" "list_all2 (intent_change db) (payment_intents db) rows" "intents_unique rows"
  then show "payments_ok (db\<lparr>payment_intents := rows\<rparr>)"
    using links_intents[of db "payment_intents db" rows] list_all2_kept[of "intent_change db" "payment_intents db" rows intent_check]
    by (auto simp: payments_ok_def rows_ok_def links_ok_def intent_change_def)
next
  fix db srows
  assume "payments_ok db" "list_all2 saga_change (payment_sagas db) srows" "sagas_unique srows"
  then show "payments_ok (db\<lparr>payment_sagas := srows\<rparr>)"
    using sagas_links[of "payment_sagas db" srows] list_all2_kept[of saga_change "payment_sagas db" srows saga_check]
    by (auto simp: payments_ok_def rows_ok_def links_ok_def saga_change_def)
next
  fix db orows
  assume "payments_ok db" "list_all2 (operation_change db) (payment_operations db) orows" "operations_unique orows"
    "single_success (payment_operations db) orows"
  then show "payments_ok (db\<lparr>payment_operations := orows\<rparr>)"
    using operations_links[of db "payment_operations db" orows] settled_change[of "payment_operations db" db orows]
      list_all2_kept[of "operation_change db" "payment_operations db" orows operation_check]
    by (auto simp: payments_ok_def rows_ok_def links_ok_def operation_change_def operations_unique_def)
next
  fix db wrows
  assume "payments_ok db" "list_all2 inbox_change (payment_webhook_inbox db) wrows" "inbox_unique wrows"
  then show "payments_ok (db\<lparr>payment_webhook_inbox := wrows\<rparr>)"
    using list_all2_kept[of inbox_change "payment_webhook_inbox db" wrows inbox_check]
    by (auto simp: payments_ok_def rows_ok_def links_ok_def inbox_change_def)
next
  fix db i s
  assume "payments_ok db" "fresh_pair db i s"
  then show "payments_ok (db\<lparr>payment_intents := payment_intents db @ [i], payment_sagas := payment_sagas db @ [s]\<rparr>)"
    using fresh_pair_links[of db i s] by (auto simp: payments_ok_def rows_ok_def fresh_pair_def)
next
  fix db w
  assume "payments_ok db" "inbox_check w" "wi_id w \<notin> wi_id ` set (payment_webhook_inbox db)"
    "(wi_provider w, wi_event w) \<notin> (\<lambda>x. (wi_provider x, wi_event x)) ` set (payment_webhook_inbox db)"
  then show "payments_ok (db\<lparr>payment_webhook_inbox := payment_webhook_inbox db @ [w]\<rparr>)"
    by (simp add: payments_ok_def rows_ok_def links_ok_def inbox_unique_def)
qed (simp_all add: payments_ok_def rows_ok_def links_ok_def settled_append)

subsection \<open>Histories\<close>

text \<open>
  What may happen to the control plane, in any order and interleaving: the transactions of the service, of arriving
  webhooks, and of any number of workers, with claims and evidence of any content.
\<close>

inductive pay_step :: "PaymentDb \<Rightarrow> PaymentDb \<Rightarrow> bool" where
  reserve: "pay_step db (snd (ReserveIntent env request db))"
| secure: "pay_step db (snd (MarkReservationSecured env intentID commandID fingerprint db))"
| fail_securing: "pay_step db (snd (FailReservationSecuring env intentID fingerprint db))"
| cancel: "pay_step db (snd (RequestCancellation env cancellation db))"
| receive: "pay_step db (snd (StoreVerified env fresh envelope db))"
| claim_operations: "pay_step db (snd (ClaimOperations env options db))"
| claim_webhooks: "pay_step db (snd (ClaimWebhooks env options db))"
| claim_actions: "pay_step db (snd (ClaimActions env options db))"
| begin_operation: "pay_step db (snd (BeginOperation env claim db))"
| complete_operation: "pay_step db (snd (CompleteOperation env claim evidence db))"
| supersede: "pay_step db (snd (SupersedeVoidWithRefund env claim evidence db))"
| fail_operation: "pay_step db (snd (FailOperation env claim failure db))"
| complete_webhook: "pay_step db (snd (CompleteWebhook env wclaim wevidence db))"
| ignore_webhook: "pay_step db (snd (IgnoreWebhook env wclaim db))"
| fail_webhook: "pay_step db (snd (FailWebhook env wclaim failure db))"
| complete_action: "pay_step db (snd (CompleteAction env aclaim aevidence db))"
| fail_action: "pay_step db (snd (FailAction env aclaim failure db))"

context payment_invariant
begin

lemma keeps_pay_step: "pay_step db db' \<Longrightarrow> P db \<Longrightarrow> P db'"
  by (induction rule: pay_step.induct)
    (simp_all add: keeps_ReserveIntent keeps_MarkReservationSecured keeps_FailReservationSecuring keeps_RequestCancellation
      keeps_StoreVerified keeps_ClaimOperations keeps_ClaimWebhooks keeps_ClaimActions keeps_BeginOperation keeps_CompleteOperation
      keeps_SupersedeVoidWithRefund keeps_FailOperation keeps_CompleteWebhook keeps_IgnoreWebhook keeps_FailWebhook
      keeps_CompleteAction keeps_FailAction)

lemma keeps_pay_steps: "pay_step\<^sup>*\<^sup>* db db' \<Longrightarrow> P db \<Longrightarrow> P db'"
  by (induction rule: rtranclp_induct) (auto intro: keeps_pay_step)

end

end
