(* ===== verification/Payment_History.thy ===== *)
theory Payment_History
  imports Payment_Ledger
begin

text \<open>
  What becomes of a row of the control plane: its identity and money never change, its state follows the transition
  tables of the domain package, and what a success has written stays. This is the second interpretation of
  \<open>payment_invariant\<close>; the third speaks of sagas.
\<close>

text \<open>The edges of the triggers are those of the domain tables, but for a completed saga, which a refund reopens.\<close>

lemma intent_edges: "t \<in> set (intent_guard_edges s) \<longleftrightarrow> t \<in> set (intentTransitions s)"
  by (cases s) auto

lemma operation_edges: "t \<in> set (operation_guard_edges s) \<longleftrightarrow> t \<in> set (operationTransitions s)"
  by (cases s) auto

lemma saga_edges:
  "t \<in> set (saga_guard_edges s) \<longleftrightarrow> t \<in> set (sagaTransitions s) \<or> s = SagaCompleted \<and> t = SagaCompensating"
  by (cases s) auto

definition intent_later :: "IntentRow \<Rightarrow> IntentRow \<Rightarrow> bool" where
  "intent_later i i' \<longleftrightarrow>
     pi_id i' = pi_id i \<and> pi_reservation i' = pi_reservation i \<and> pi_train_run i' = pi_train_run i \<and> pi_owner i' = pi_owner i \<and>
     pi_provider i' = pi_provider i \<and> pi_amount i' = pi_amount i \<and> pi_currency i' = pi_currency i \<and> pi_key i' = pi_key i \<and>
     pi_fingerprint i' = pi_fingerprint i \<and> (pi_payment i \<noteq> None \<longrightarrow> pi_payment i' = pi_payment i) \<and>
     (\<lambda>s t. t \<in> set (intentTransitions s))\<^sup>*\<^sup>* (pi_state i) (pi_state i')"

definition operation_later :: "OperationRow \<Rightarrow> OperationRow \<Rightarrow> bool" where
  "operation_later r r' \<longleftrightarrow>
     po_id r' = po_id r \<and> po_intent r' = po_intent r \<and> po_provider r' = po_provider r \<and> po_type r' = po_type r \<and>
     po_key r' = po_key r \<and> po_amount r' = po_amount r \<and> po_currency r' = po_currency r \<and>
     (\<lambda>s t. t \<in> set (operationTransitions s))\<^sup>*\<^sup>* (po_state r) (po_state r') \<and>
     (po_state r = OperationSucceeded \<longrightarrow>
        po_provider_operation r' = po_provider_operation r \<and> po_normalized r' = po_normalized r \<and>
        po_response r' = po_response r \<and> po_completed r' = po_completed r)"

definition saga_later :: "SagaRow \<Rightarrow> SagaRow \<Rightarrow> bool" where
  "saga_later s s' \<longleftrightarrow>
     sg_id s' = sg_id s \<and> sg_intent s' = sg_intent s \<and> sg_reservation s' = sg_reservation s \<and>
     (\<lambda>s t. t \<in> set (sagaTransitions s) \<or> s = SagaCompleted \<and> t = SagaCompensating)\<^sup>*\<^sup>* (sg_state s) (sg_state s')"

definition later_rows :: "('r \<Rightarrow> 'r \<Rightarrow> bool) \<Rightarrow> 'r list \<Rightarrow> 'r list \<Rightarrow> bool" where
  "later_rows later rows rows' \<longleftrightarrow> (\<forall>r \<in> set rows. \<exists>r' \<in> set rows'. later r r')"

definition later_than :: "PaymentDb \<Rightarrow> PaymentDb \<Rightarrow> bool" where
  "later_than db0 db \<longleftrightarrow>
     later_rows intent_later (payment_intents db0) (payment_intents db) \<and>
     later_rows operation_later (payment_operations db0) (payment_operations db) \<and>
     later_rows saga_later (payment_sagas db0) (payment_sagas db)"

lemma intent_later_change: "intent_later i j \<Longrightarrow> intent_change db j k \<Longrightarrow> intent_later i k"
  by (auto simp: intent_later_def intent_change_def intent_guard_def intent_edges elim: rtranclp.rtrancl_into_rtrancl)

lemma operation_later_change: "operation_later i j \<Longrightarrow> operation_change db j k \<Longrightarrow> operation_later i k"
proof -
  assume later: "operation_later i j" and change: "operation_change db j k"
  have step: "(\<lambda>s t. t \<in> set (operationTransitions s))\<^sup>*\<^sup>* (po_state i) (po_state k)"
    using later change by (auto simp: operation_later_def operation_change_def operation_guard_def operation_edges
        elim: rtranclp.rtrancl_into_rtrancl)
  have final: "po_state j = OperationSucceeded" if "po_state i = OperationSucceeded"
    using later that by (auto simp: operation_later_def elim: converse_rtranclpE)
  show ?thesis
    using later change step final by (auto simp: operation_later_def operation_change_def operation_guard_def)
qed

lemma saga_later_change: "saga_later i j \<Longrightarrow> saga_change j k \<Longrightarrow> saga_later i k"
  by (auto simp: saga_later_def saga_change_def saga_guard_def saga_edges elim: rtranclp.rtrancl_into_rtrancl)

lemma later_rows_change:
  assumes "later_rows later rows rows'" "list_all2 R rows' rows''" "\<And>i j k. later i j \<Longrightarrow> R j k \<Longrightarrow> later i k"
  shows "later_rows later rows rows''"
  using assms list_all2_image[OF assms(2)] unfolding later_rows_def by meson

lemma later_rows_append: "later_rows later rows rows' \<Longrightarrow> later_rows later rows (rows' @ new)"
  by (auto simp: later_rows_def)

lemma later_than_refl: "later_than db db"
  by (auto simp: later_than_def later_rows_def intent_later_def operation_later_def saga_later_def)

interpretation history: payment_invariant "later_than db0" for db0
proof
  fix db rows
  assume "later_than db0 db" "list_all2 (intent_change db) (payment_intents db) rows"
  then show "later_than db0 (db\<lparr>payment_intents := rows\<rparr>)"
    by (auto simp: later_than_def elim: later_rows_change intent_later_change)
next
  fix db srows
  assume "later_than db0 db" "list_all2 saga_change (payment_sagas db) srows"
  then show "later_than db0 (db\<lparr>payment_sagas := srows\<rparr>)"
    by (auto simp: later_than_def elim: later_rows_change saga_later_change)
next
  fix db orows
  assume "later_than db0 db" "list_all2 (operation_change db) (payment_operations db) orows"
  then show "later_than db0 (db\<lparr>payment_operations := orows\<rparr>)"
    by (auto simp: later_than_def elim: later_rows_change operation_later_change)
qed (auto simp: later_than_def later_rows_append)

lemma pay_steps_later: "pay_step\<^sup>*\<^sup>* db db' \<Longrightarrow> later_than db db'"
  using history.keeps_pay_steps[OF _ later_than_refl] .

end
