(* ===== verification/Payment_Leases.thy ===== *)
theory Payment_Leases
  imports Payment_History
begin

text \<open>
  What a claim says about the tables: the lease that backs it, and why another worker cannot claim the same
  operation while the lease lasts.
\<close>

subsection \<open>What an update leaves behind\<close>

lemma update_operations_Inr:
  "update_operations env label err wh upd db = Inr (n, db') \<Longrightarrow>
     db' = db\<lparr>payment_operations := map (\<lambda>r. if wh db r then upd r else r) (payment_operations db)\<rparr> \<and>
     n = length (filter (wh db) (payment_operations db))"
  by (auto simp: update_operations_def update_table_def Let_def split: if_splits)

lemma update_sagas_Inr:
  "update_sagas env label err wh upd db = Inr (n, db') \<Longrightarrow>
     db' = db\<lparr>payment_sagas := map (\<lambda>r. if wh db r then upd r else r) (payment_sagas db)\<rparr> \<and>
     n = length (filter (wh db) (payment_sagas db))"
  by (auto simp: update_sagas_def update_table_def Let_def split: if_splits)

lemma update_intents_Inr:
  "update_intents env label err wh upd db = Inr (n, db') \<Longrightarrow>
     db' = db\<lparr>payment_intents := map (\<lambda>r. if wh db r then upd r else r) (payment_intents db)\<rparr> \<and>
     n = length (filter (wh db) (payment_intents db))"
  by (auto simp: update_intents_def update_table_def Let_def split: if_splits)

lemma update_inbox_Inr:
  "update_inbox env label err wh upd db = Inr (n, db') \<Longrightarrow>
     db' = db\<lparr>payment_webhook_inbox := map (\<lambda>r. if wh db r then upd r else r) (payment_webhook_inbox db)\<rparr> \<and>
     n = length (filter (wh db) (payment_webhook_inbox db))"
  by (auto simp: update_inbox_def update_table_def Let_def split: if_splits)

lemma anyRows_Inr: "anyRows m db = Inr (u, db') \<longleftrightarrow> (\<exists>n. m db = Inr (n, db'))"
  by (auto simp: anyRows_def)

lemma oneRow_Inr: "oneRow m db = Inr (u, db') \<longleftrightarrow> m db = Inr (1, db')"
  by (auto simp: oneRow_def)

lemma filter_length_1: "length (filter P xs) = 1 \<Longrightarrow> \<exists>x \<in> set xs. P x"
  by (cases "filter P xs") (auto simp: filter_eq_Cons_iff)

text \<open>A statement that must touch one row has found it.\<close>

lemma oneRow_sagas:
  assumes "oneRow (update_sagas env label err wh upd) db = Inr (u, db')"
  shows "db' = db\<lparr>payment_sagas := map (\<lambda>r. if wh db r then upd r else r) (payment_sagas db)\<rparr>"
    and "\<exists>s \<in> set (payment_sagas db). wh db s \<and> upd s \<in> set (payment_sagas db')"
  using update_sagas_Inr[of env label err wh upd db 1 db'] assms filter_length_1[of "wh db" "payment_sagas db"] by (force simp: oneRow_Inr)+

lemma oneRow_intents:
  assumes "oneRow (update_intents env label err wh upd) db = Inr (u, db')"
  shows "db' = db\<lparr>payment_intents := map (\<lambda>r. if wh db r then upd r else r) (payment_intents db)\<rparr>"
    and "\<exists>s \<in> set (payment_intents db). wh db s \<and> upd s \<in> set (payment_intents db')"
  using update_intents_Inr[of env label err wh upd db 1 db'] assms filter_length_1[of "wh db" "payment_intents db"] by (force simp: oneRow_Inr)+

lemma oneRow_operations:
  assumes "oneRow (update_operations env label err wh upd) db = Inr (u, db')"
  shows "db' = db\<lparr>payment_operations := map (\<lambda>r. if wh db r then upd r else r) (payment_operations db)\<rparr>"
    and "\<exists>s \<in> set (payment_operations db). wh db s \<and> upd s \<in> set (payment_operations db')"
  using update_operations_Inr[of env label err wh upd db 1 db'] assms filter_length_1[of "wh db" "payment_operations db"] by (force simp: oneRow_Inr)+

subsection \<open>Claims of operations\<close>

text \<open>The rows after the first two statements of a claim.\<close>

definition reclaimed :: "ClaimOptions \<Rightarrow> OperationRow \<Rightarrow> OperationRow" where
  "reclaimed options r =
     (if po_state r \<in> {OperationClaimed, OperationInFlight} \<and>
         (case po_lease r of None \<Rightarrow> False | Some (_, until) \<Rightarrow> until < claim_now options)
      then r\<lparr>po_state := (if po_state r = OperationClaimed then OperationPending else OperationUncertain),
             po_lease := None, po_next := claim_now options,
             po_error := (if po_state r = OperationInFlight then Some ''worker_lease_expired'' else None)\<rparr>
      else r)"

definition retried :: "ClaimOptions \<Rightarrow> OperationRow \<Rightarrow> OperationRow" where
  "retried options r =
     (if po_state r = OperationFailedRetryable \<and> po_next r \<le> claim_now options \<and> po_attempts r < cl_MaxAttempts options
      then r\<lparr>po_state := OperationPending, po_error := None\<rparr> else r)"

definition ready :: "ClaimOptions \<Rightarrow> OperationRow \<Rightarrow> OperationRow" where
  "ready options r = retried options (reclaimed options r)"

definition leased_operation :: "ClaimOptions \<Rightarrow> OperationRow \<Rightarrow> OperationRow" where
  "leased_operation options r =
     r\<lparr>po_state := OperationClaimed, po_attempts := po_attempts r + 1, po_lease := Some (cl_WorkerID options, claim_until options)\<rparr>"

lemma ready_id [simp]: "po_id (ready options r) = po_id r"
  by (simp add: ready_def retried_def reclaimed_def)

lemma ready_live:
  "po_state r = OperationUncertain \<Longrightarrow> ready options r = r"
  "po_state r = OperationClaimed \<Longrightarrow> po_lease r = Some (owner, until) \<Longrightarrow> claim_now options \<le> until \<Longrightarrow> ready options r = r"
  by (auto simp: ready_def retried_def reclaimed_def)

text \<open>A claim of operations in full: what it returns, and the two tables it changes.\<close>

definition claims_from ::
  "ClaimOptions \<Rightarrow> PaymentDb \<Rightarrow> OperationRow list \<Rightarrow> (SagaRow \<times> OperationRow) list \<Rightarrow> PaymentDb \<Rightarrow> bool" where
  "claims_from options db due selected db' \<longleftrightarrow>
     (let ops = map (ready options) (payment_operations db);
          ops' = map (\<lambda>r. if po_id r \<in> po_id ` set due then leased_operation options r else r) ops in
      set due \<subseteq> {p \<in> set ops. po_state p = OperationPending} \<and>
      (\<forall>(s, p) \<in> set selected. s \<in> set (payment_sagas db) \<and> p \<in> set ops' \<and> po_state p = OperationUncertain \<and>
         po_intent p = sg_intent s \<and> lease_free (claim_now options) (sg_lease s)) \<and>
      payment_operations db' = ops' \<and>
      payment_sagas db' = map (\<lambda>s. if sg_id s \<in> sg_id ` fst ` set selected
        then s\<lparr>sg_lease := Some (cl_WorkerID options, claim_until options), sg_attempts := sg_attempts s + 1\<rparr> else s) (payment_sagas db))"

lemma due_operations_mem: "p \<in> set (due_operations env options db) \<Longrightarrow> p \<in> set (payment_operations db) \<and> po_state p = OperationPending"
  by (auto simp: due_operations_def dest!: in_set_takeD split: if_splits)

lemma uncertain_operations_mem:
  "(s, p) \<in> set (uncertain_operations env options n db) \<Longrightarrow>
     s \<in> set (payment_sagas db) \<and> p \<in> set (payment_operations db) \<and> po_state p = OperationUncertain \<and> po_intent p = sg_intent s \<and>
     lease_free (claim_now options) (sg_lease s)"
  by (auto simp: uncertain_operations_def first_uncertain_def dest!: in_set_takeD split: if_splits)

lemma scan_Inr: "scanOperationClaims rows db = Inr (claims, db') \<Longrightarrow> claims = map snd rows \<and> db' = db"
  by (auto simp: scanOperationClaims_def split: if_splits)

lemma claim_pending_spec:
  assumes "claim_pending_operations env options db = Inr (claims, db')"
  shows "db' = db\<lparr>payment_operations := map (\<lambda>r. if po_id r \<in> po_id ` set (due_operations env options db)
           then leased_operation options r else r) (payment_operations db)\<rparr>"
    and "c \<in> set claims \<Longrightarrow> oc_PreviousState c = OperationPending \<and> oc_LeaseOwner c = cl_WorkerID options \<and>
           oc_LeaseUntil c = claim_until options \<and> oc_OperationID c \<in> po_id ` set (due_operations env options db)"
  using assms unfolding claim_pending_operations_def
  by (auto simp: leased_operation_def operation_claim_def dest!: update_operations_Inr scan_Inr split: if_splits)

lemma claim_uncertain_spec:
  assumes "claim_uncertain_operations env options n db = Inr (claims, db')"
  shows "db' = db\<lparr>payment_sagas := map (\<lambda>s. if sg_id s \<in> sg_id ` fst ` set (uncertain_operations env options n db)
           then s\<lparr>sg_lease := Some (cl_WorkerID options, claim_until options), sg_attempts := sg_attempts s + 1\<rparr> else s)
           (payment_sagas db)\<rparr>"
    and "c \<in> set claims \<Longrightarrow> oc_PreviousState c = OperationUncertain \<and> oc_LeaseOwner c = cl_WorkerID options \<and>
           oc_LeaseUntil c = claim_until options \<and> oc_OperationID c \<in> po_id ` snd ` set (uncertain_operations env options n db)"
    and "c \<in> set claims \<Longrightarrow> \<exists>(s, p) \<in> set (uncertain_operations env options n db).
           oc_OperationID c = po_id p \<and> oc_PaymentIntentID c = po_intent p"
  using assms unfolding claim_uncertain_operations_def
  by (auto simp: operation_claim_def image_image comp_def dest!: update_sagas_Inr scan_Inr split: if_splits) force+

lemma return_retry_spec:
  assumes "return_expired_operations env options db = Inr (u, db1)" "retry_operations env options db1 = Inr (v, db2)"
  shows "db2 = db\<lparr>payment_operations := map (ready options) (payment_operations db)\<rparr>"
  using assms unfolding return_expired_operations_def retry_operations_def anyRows_Inr
  by (auto dest!: update_operations_Inr simp: ready_def [abs_def] retried_def [abs_def] reclaimed_def [abs_def] comp_def)

lemma ClaimOperations_steps:
  assumes "ClaimOperations env options db = (Inr claims, db')"
  obtains u v db1 db2 pending db3 where "return_expired_operations env options db = Inr (u, db1)"
    "retry_operations env options db1 = Inr (v, db2)" "claim_pending_operations env options db2 = Inr (pending, db3)"
    "if 0 < cl_BatchSize options - int (length pending)
      then \<exists>more. claim_uncertain_operations env options (cl_BatchSize options - int (length pending)) db3 = Inr (more, db') \<and>
        claims = pending @ more
      else claims = pending \<and> db' = db3"
  using assms unfolding ClaimOperations_def claim_operations_tx_def run_tx_Inr store_begin_def store_commit_def Let_def
  by (auto split: if_splits)

lemma ClaimOperations_spec:
  assumes "ClaimOperations env options db = (Inr claims, db')"
  obtains due selected where "claims_from options db due selected db'"
    "\<And>c. c \<in> set claims \<Longrightarrow> oc_LeaseOwner c = cl_WorkerID options \<and> oc_LeaseUntil c = claim_until options \<and>
       (oc_PreviousState c = OperationPending \<and> oc_OperationID c \<in> po_id ` set due \<or>
        oc_PreviousState c = OperationUncertain \<and> oc_OperationID c \<in> po_id ` snd ` set selected)"
    "\<And>c. c \<in> set claims \<Longrightarrow> oc_PreviousState c = OperationUncertain \<Longrightarrow>
       \<exists>(s, p) \<in> set selected. oc_OperationID c = po_id p \<and> oc_PaymentIntentID c = po_intent p"
proof -
  obtain u v db1 db2 pending db3 where steps: "return_expired_operations env options db = Inr (u, db1)"
      "retry_operations env options db1 = Inr (v, db2)" "claim_pending_operations env options db2 = Inr (pending, db3)"
    and rest: "if 0 < cl_BatchSize options - int (length pending)
      then \<exists>more. claim_uncertain_operations env options (cl_BatchSize options - int (length pending)) db3 = Inr (more, db') \<and>
        claims = pending @ more
      else claims = pending \<and> db' = db3"
    using ClaimOperations_steps[OF assms] by metis
  define due where "due = due_operations env options db2"
  define selected where "selected = (let n = cl_BatchSize options - int (length pending) in
    if 0 < n then uncertain_operations env options n db3 else [])"
  have db2: "db2 = db\<lparr>payment_operations := map (ready options) (payment_operations db)\<rparr>"
    by (rule return_retry_spec [OF steps(1,2)])
  note pend = claim_pending_spec [OF steps(3), folded due_def]
  have "claims_from options db due selected db'"
    using rest pend(1) db2 due_operations_mem[of _ env options db2] claim_uncertain_spec(1)
    unfolding claims_from_def Let_def selected_def due_def
    by (auto split: if_splits dest!: uncertain_operations_mem claim_uncertain_spec(1))
  moreover have "oc_LeaseOwner c = cl_WorkerID options \<and> oc_LeaseUntil c = claim_until options \<and>
       (oc_PreviousState c = OperationPending \<and> oc_OperationID c \<in> po_id ` set due \<or>
        oc_PreviousState c = OperationUncertain \<and> oc_OperationID c \<in> po_id ` snd ` set selected)" if "c \<in> set claims" for c
    using that rest pend(2)[of c] unfolding selected_def Let_def
    by (auto split: if_splits dest: claim_uncertain_spec(2))
  moreover have "\<exists>(s, p) \<in> set selected. oc_OperationID c = po_id p \<and> oc_PaymentIntentID c = po_intent p"
    if "c \<in> set claims" "oc_PreviousState c = OperationUncertain" for c
    using that rest pend(2)[of c] unfolding selected_def Let_def
    by (auto split: if_splits dest!: claim_uncertain_spec(3))
  ultimately show ?thesis by (rule that)
qed

lemma claims_from_due:
  assumes "claims_from options db due selected db'" "p \<in> set due"
  shows "p \<in> ready options ` set (payment_operations db) \<and> po_state p = OperationPending \<and>
    leased_operation options p \<in> set (payment_operations db')"
  using assms unfolding claims_from_def Let_def by (force simp: image_iff)

subsection \<open>Holding an operation\<close>

text \<open>
  A claim holds its operation. One taken to be sent is held by the lease of its row, first claimed and then in flight; one
  that is uncertain is held by the lease of its saga. The hold ends in an outcome that nothing takes back.
\<close>

definition held_row :: "OperationClaim \<Rightarrow> OperationRow \<Rightarrow> bool" where
  "held_row c r \<longleftrightarrow>
     (if oc_PreviousState c = OperationUncertain
      then po_state r = OperationUncertain \<and> po_lease r = None \<and> po_intent r = oc_PaymentIntentID c
      else po_state r \<in> {OperationClaimed, OperationInFlight} \<and> po_lease r = Some (oc_LeaseOwner c, oc_LeaseUntil c)) \<or>
     po_state r \<in> {OperationSucceeded, OperationFailedPermanent, OperationCancelled}"

definition kept_operation :: "OperationClaim \<Rightarrow> PaymentDb \<Rightarrow> bool" where
  "kept_operation c db \<longleftrightarrow> (\<exists>r \<in> set (payment_operations db). po_id r = oc_OperationID c \<and> held_row c r)"

definition lease_stands :: "OperationClaim \<Rightarrow> PaymentDb \<Rightarrow> bool" where
  "lease_stands c db \<longleftrightarrow>
     (oc_PreviousState c = OperationUncertain \<longrightarrow>
      (\<exists>s \<in> set (payment_sagas db). sg_intent s = oc_PaymentIntentID c \<and> sg_lease s = Some (oc_LeaseOwner c, oc_LeaseUntil c)))"

interpretation kept: payment_sagas_invariant "kept_operation c" for c
  by unfold_locales (auto simp: kept_operation_def)

lemma kept_map:
  assumes "kept_operation c db" "payment_operations db' = map f (payment_operations db)"
    and "\<And>r. r \<in> set (payment_operations db) \<Longrightarrow> po_id r = oc_OperationID c \<Longrightarrow> held_row c r \<Longrightarrow>
      po_id (f r) = oc_OperationID c \<and> held_row c (f r)"
  shows "kept_operation c db'"
  using assms by (auto simp: kept_operation_def)

lemma kept_update_operations:
  assumes "\<And>db r. wh db r \<Longrightarrow> po_id r = oc_OperationID c \<Longrightarrow> held_row c r \<Longrightarrow> po_id (upd r) = oc_OperationID c \<and> held_row c (upd r)"
  shows "tx_keeps (kept_operation c) (update_operations env label err wh upd)"
  unfolding tx_keeps_def
proof (intro allI impI)
  fix db n db'
  assume kept: "kept_operation c db" and run: "update_operations env label err wh upd db = Inr (n, db')"
  show "kept_operation c db'"
    by (rule kept_map [OF kept, where f = "\<lambda>r. if wh db r then upd r else r"])
      (use update_operations_Inr[OF run] assms in auto)
qed

lemma kept_confirmOperation [tx_keeps_rules]:
  "tx_keeps (kept_operation c) (confirmOperation env intentID providerName kind amount cur status)"
  unfolding confirmOperation_def by (intro tx_keeps_rules kept_update_operations; auto simp: held_row_def split: if_splits)

lemma kept_converge [tx_keeps_rules]:
  "tx_keeps (kept_operation c) (convergeCapturedCancellation env intentID providerName amount cur leaseOwner)"
  unfolding convergeCapturedCancellation_def by (intro tx_keeps_rules)

lemma kept_confirmation [tx_keeps_rules]:
  "tx_keeps (kept_operation c) (applyProviderConfirmation env intentID providerName intentState amount cur evidence)"
  unfolding applyProviderConfirmation_def advanceAuthorization_def advanceCapture_def
  by (intro tx_keeps_rules kept_update_operations; auto simp: held_row_def split: if_splits)

lemma kept_BeginOperation: "kept_operation c db \<Longrightarrow> kept_operation c (snd (BeginOperation env claim db))"
  unfolding BeginOperation_def
  by (rule run_tx_keeps) (intro tx_keeps_rules kept_update_operations; auto simp: held_row_def)

lemma kept_CompleteOperation: "kept_operation c db \<Longrightarrow> kept_operation c (snd (CompleteOperation env claim evidence db))"
  unfolding CompleteOperation_def
  by (rule run_tx_keeps) (intro tx_keeps_rules kept_update_operations; auto simp: held_row_def operation_succeeded_def)

lemma kept_Supersede: "kept_operation c db \<Longrightarrow> kept_operation c (snd (SupersedeVoidWithRefund env claim evidence db))"
  unfolding SupersedeVoidWithRefund_def
  by (rule run_tx_keeps) (intro tx_keeps_rules kept_update_operations; auto simp: held_row_def)

lemma kept_CompleteWebhook: "kept_operation c db \<Longrightarrow> kept_operation c (snd (CompleteWebhook env wclaim wevidence db))"
  unfolding CompleteWebhook_def by (rule run_tx_keeps) (intro tx_keeps_rules)

subsubsection \<open>Failures reported by others\<close>

lemma run_tx_failed: "run_tx m db = (Inl e, db') \<Longrightarrow> db' = db"
  by (auto simp: run_tx_def split: sum.splits prod.splits)

lemma in_transaction_Inr: "in_transaction env m db = Inr (u, db') \<Longrightarrow> m db = Inr ((), db')"
  by (auto simp: in_transaction_def store_begin_def store_commit_def)

lemma tx_bind_from:
  "tx_bind m f db = Inr (y, db') \<Longrightarrow> (\<And>x db1. m db = Inr (x, db1) \<Longrightarrow> P db1) \<Longrightarrow> (\<And>x. tx_keeps P (f x)) \<Longrightarrow> P db'"
  unfolding tx_keeps_def tx_bind_eq_Inr by blast

text \<open>While the lease stands, no one but the holder can report that the operation has failed.\<close>

lemma stands_not_leased:
  assumes "payments_ok db" "lease_stands c db" "oc_PreviousState c = OperationUncertain" "po_intent r = oc_PaymentIntentID c"
    and "saga_leased db owner now r"
  shows "owner = oc_LeaseOwner c"
proof -
  obtain s where s: "s \<in> set (payment_sagas db)" "sg_intent s = oc_PaymentIntentID c" "sg_lease s = Some (oc_LeaseOwner c, oc_LeaseUntil c)"
    using assms(2,3) by (auto simp: lease_stands_def)
  obtain t where t: "t \<in> set (payment_sagas db)" "sg_intent t = oc_PaymentIntentID c" "lease_held owner now (sg_lease t)"
    using assms(4,5) by (auto simp: saga_leased_def list_ex_iff)
  have "inj_on sg_intent (set (payment_sagas db))" using assms(1) by (auto simp: payments_ok_def links_ok_def distinct_map)
  then have "t = s" using inj_onD s(1,2) t(1,2) by metis
  with s(3) t(3) show ?thesis by (simp add: lease_held_def)
qed

lemma kept_finalize:
  assumes kept: "kept_operation c db" and ok: "payments_ok db" and stands: "lease_stands c db"
    and other: "oc_OperationID claim \<noteq> oc_OperationID c \<or> oc_LeaseOwner claim \<noteq> oc_LeaseOwner c"
    and state: "currentState \<in> {OperationInFlight, OperationUncertain}"
    and run: "finalizeOperationFailure env claim currentState nextState failure db = Inr (u, db')"
  shows "kept_operation c db'"
proof -
  define now where "now = py_clock env ''finalize operation failure''"
  define hit where "hit = (\<lambda>r. po_id r = oc_OperationID claim \<and> po_state r = currentState \<and>
    (lease_held (oc_LeaseOwner claim) now (po_lease r) \<or>
     currentState = OperationUncertain \<and> saga_leased db (oc_LeaseOwner claim) now r))"
  have miss: "\<not> hit r" if r: "po_id r = oc_OperationID c" "held_row c r" for r
    using r other state stands_not_leased[OF ok stands, of r "oc_LeaseOwner claim" now]
    by (auto simp: hit_def held_row_def lease_held_def split: if_splits)
  define failed where "failed = (\<lambda>r :: OperationRow. r\<lparr>po_state := nextState, po_error := Some (fl_Category failure),
      po_next := pg_timestamptz (fl_NextAttemptAt failure), po_lease := None,
      po_completed := (if nextState = OperationFailedPermanent then Some now else None)\<rparr>)"
  have "db' = db\<lparr>payment_operations := map (\<lambda>r. if hit r then failed r else r) (payment_operations db)\<rparr>"
    using oneRow_operations(1)[OF run[unfolded finalizeOperationFailure_def Let_def]] unfolding hit_def now_def failed_def .
  then have rows: "payment_operations db' = map (\<lambda>r. if hit r then failed r else r) (payment_operations db)" by simp
  show ?thesis by (rule kept_map [OF kept rows]) (simp add: miss)
qed

lemma fail_operation_shape:
  assumes "run_tx (tx_bind (tx_reject b e) (\<lambda>_. in_transaction env
      (if review then tx_bind (m ns1) (\<lambda>_. rest1) else tx_bind (m ns2) (\<lambda>_. rest2)))) db = (Inr u, db')"
    and "tx_keeps P rest1" "tx_keeps P rest2"
  obtains ns rest where "tx_bind (m ns) (\<lambda>_. rest) db = Inr ((), db')" "tx_keeps P rest"
proof -
  have "(if review then tx_bind (m ns1) (\<lambda>_. rest1) else tx_bind (m ns2) (\<lambda>_. rest2)) db = Inr ((), db')"
    using assms(1) unfolding run_tx_Inr tx_bind_eq_Inr tx_reject_eq_Inr by (auto dest: in_transaction_Inr)
  then show thesis using that assms(2,3) by (cases review) metis+
qed

lemma kept_FailOperation:
  assumes kept: "kept_operation c db" and ok: "payments_ok db" and stands: "lease_stands c db"
    and other: "oc_OperationID claim \<noteq> oc_OperationID c \<or> oc_LeaseOwner claim \<noteq> oc_LeaseOwner c"
  shows "kept_operation c (snd (FailOperation env claim failure db))"
proof (cases "FailOperation env claim failure db")
  case (Pair y db')
  define cs where "cs = (if oc_PreviousState claim = OperationUncertain then OperationUncertain else OperationInFlight)"
  have finish: "kept_operation c db1" if "finalizeOperationFailure env claim cs ns failure db = Inr (v, db1)" for ns v db1
    by (rule kept_finalize [OF kept ok stands other _ that]) (simp add: cs_def)
  show ?thesis
  proof (cases y)
    case (Inl e)
    with Pair have "FailOperation env claim failure db = (Inl e, db')" by simp
    from run_tx_failed[OF this[unfolded FailOperation_def]] show ?thesis using Pair kept by simp
  next
    case (Inr u)
    with Pair have "FailOperation env claim failure db = (Inr u, db')" by simp
    then have "kept_operation c db'"
      unfolding FailOperation_def Let_def cs_def [symmetric]
      by (rule fail_operation_shape [where m = "\<lambda>ns. finalizeOperationFailure env claim cs ns failure" and P = "kept_operation c"])
        (intro tx_keeps_rules, intro tx_keeps_rules, erule tx_bind_from, erule finish)
    then show ?thesis using Pair by simp
  qed
qed

lemma held_ready:
  assumes "held_row c r" "oc_PreviousState c \<noteq> OperationUncertain \<longrightarrow> claim_now options \<le> oc_LeaseUntil c"
  shows "ready options r = r"
proof -
  have "reclaimed options r = r"
    using assms by (auto simp only: reclaimed_def held_row_def option.case prod.case split: if_split if_split_asm)
  moreover have "retried options r = r" using assms(1) by (auto simp only: retried_def held_row_def split: if_split if_split_asm)
  ultimately show ?thesis by (simp add: ready_def)
qed

subsubsection \<open>Claims by others\<close>

lemma kept_not_claimed:
  assumes ok: "payments_ok db" and kept: "kept_operation c db" and live: "claim_now options \<le> oc_LeaseUntil c"
    and stands: "lease_stands c db" and claims: "claims_from options db due selected db'"
  shows "oc_OperationID c \<notin> po_id ` set due" "oc_OperationID c \<notin> po_id ` snd ` set selected" "kept_operation c db'"
proof -
  obtain r where r: "r \<in> set (payment_operations db)" "po_id r = oc_OperationID c" "held_row c r"
    using kept by (auto simp: kept_operation_def)
  have ids: "inj_on po_id (set (payment_operations db))" and sagas: "inj_on sg_intent (set (payment_sagas db))"
    using ok by (auto simp: payments_ok_def rows_ok_def operations_unique_def links_ok_def distinct_map)
  have same: "p = r" if p: "p \<in> ready options ` set (payment_operations db)" "po_id p = oc_OperationID c" for p
    using p r(1,2) inj_onD[OF ids] held_ready[OF r(3)] live by (metis (no_types, lifting) imageE ready_id)
  show not_due: "oc_OperationID c \<notin> po_id ` set due"
  proof
    assume "oc_OperationID c \<in> po_id ` set due"
    then obtain p where p: "p \<in> set due" "po_id p = oc_OperationID c" by auto
    show False using claims_from_due[OF claims p(1)] same[of p] p(2) r(3) by (auto simp: held_row_def split: if_splits)
  qed
  show "oc_OperationID c \<notin> po_id ` snd ` set selected"
  proof
    assume "oc_OperationID c \<in> po_id ` snd ` set selected"
    then obtain s p where sp: "(s, p) \<in> set selected" "po_id p = oc_OperationID c" by auto
    then have p: "po_state p = OperationUncertain" "po_intent p = sg_intent s" "lease_free (claim_now options) (sg_lease s)"
        "s \<in> set (payment_sagas db)"
      and mem: "p \<in> (\<lambda>r. if po_id r \<in> po_id ` set due then leased_operation options r else r) ` ready options ` set (payment_operations db)"
      using claims by (auto simp: claims_from_def Let_def image_image)
    from mem p(1) have "p \<in> ready options ` set (payment_operations db)" by (auto simp: leased_operation_def split: if_splits)
    then have "p = r" using same sp(2) by blast
    then have c: "oc_PreviousState c = OperationUncertain" "sg_intent s = oc_PaymentIntentID c"
      using r(3) p(1,2) by (auto simp: held_row_def split: if_splits)
    then obtain t where t: "t \<in> set (payment_sagas db)" "sg_intent t = sg_intent s" "sg_lease t = Some (oc_LeaseOwner c, oc_LeaseUntil c)"
      using stands by (auto simp: lease_stands_def)
    then have "t = s" using inj_onD[OF sagas] p(4) by blast
    with t(3) p(3) live show False by (auto simp: lease_free_def)
  qed
  have "payment_operations db' = map (\<lambda>r. if po_id r \<in> po_id ` set due then leased_operation options r else r)
      (map (ready options) (payment_operations db))"
    using claims by (simp add: claims_from_def Let_def)
  moreover have "ready options r = r" using held_ready[OF r(3)] live by blast
  ultimately have "r \<in> set (payment_operations db')" using r(1,2) not_due by force
  then show "kept_operation c db'" using r by (auto simp: kept_operation_def)
qed

lemma claims_kept:
  assumes run: "ClaimOperations env options db = (Inr claims, db')" and ok: "payments_ok db'" and c: "c \<in> set claims"
  shows "kept_operation c db' \<and> lease_stands c db'"
proof -
  obtain due selected where from_db: "claims_from options db due selected db'"
    and spec: "\<And>c. c \<in> set claims \<Longrightarrow> oc_LeaseOwner c = cl_WorkerID options \<and> oc_LeaseUntil c = claim_until options \<and>
       (oc_PreviousState c = OperationPending \<and> oc_OperationID c \<in> po_id ` set due \<or>
        oc_PreviousState c = OperationUncertain \<and> oc_OperationID c \<in> po_id ` snd ` set selected)"
    and asked: "\<And>c. c \<in> set claims \<Longrightarrow> oc_PreviousState c = OperationUncertain \<Longrightarrow>
       \<exists>(s, p) \<in> set selected. oc_OperationID c = po_id p \<and> oc_PaymentIntentID c = po_intent p"
    using ClaimOperations_spec[OF run] by blast
  have lease: "oc_LeaseOwner c = cl_WorkerID options" "oc_LeaseUntil c = claim_until options" using spec[OF c] by auto
  show ?thesis
  proof (cases "oc_PreviousState c = OperationUncertain")
    case True
    then obtain s p where sp: "(s, p) \<in> set selected" "oc_OperationID c = po_id p" "oc_PaymentIntentID c = po_intent p"
      using asked[OF c] by auto
    then have p: "p \<in> set (payment_operations db')" "po_state p = OperationUncertain" "po_intent p = sg_intent s"
        and s: "s \<in> set (payment_sagas db)"
      using from_db by (auto simp: claims_from_def Let_def)
    have "sg_id s \<in> sg_id ` fst ` set selected" using sp by force
    then have "s\<lparr>sg_lease := Some (cl_WorkerID options, claim_until options), sg_attempts := sg_attempts s + 1\<rparr> \<in> set (payment_sagas db')"
      using s from_db by (auto simp: claims_from_def Let_def)
    then have "lease_stands c db'"
      unfolding lease_stands_def by (intro impI bexI [rotated], assumption) (use p(3) sp(3) lease in simp)
    moreover have "operation_check p" using ok p(1) by (auto simp: payments_ok_def rows_ok_def list_all_iff)
    then have "po_lease p = None" using p(2) by (simp add: operation_check_def)
    ultimately show ?thesis using p sp True by (auto simp: kept_operation_def held_row_def)
  next
    case False
    then obtain p where p: "p \<in> set due" "oc_OperationID c = po_id p" using spec[OF c] by auto
    then have "leased_operation options p \<in> set (payment_operations db')" using claims_from_due[OF from_db] by blast
    then show ?thesis
      using p lease False unfolding kept_operation_def lease_stands_def
      by (auto simp: held_row_def leased_operation_def intro!: bexI[of _ "leased_operation options p"])
  qed
qed

subsubsection \<open>What may happen meanwhile\<close>

text \<open>
  While a claim holds its operation, any transaction of the service, of the webhook intake and of any worker may run, but
  for two that end the hold: the holder itself reports that the operation has failed, or a claim comes after the
  lease has run out. The hold of an uncertain operation also ends when its saga loses the lease.
\<close>

inductive held_call :: "OperationClaim \<Rightarrow> PaymentDb \<Rightarrow> PaymentDb \<Rightarrow> bool" for c where
  reserve: "held_call c db (snd (ReserveIntent env request db))"
| secure: "held_call c db (snd (MarkReservationSecured env intentID commandID fingerprint db))"
| fail_securing: "held_call c db (snd (FailReservationSecuring env intentID fingerprint db))"
| cancel: "held_call c db (snd (RequestCancellation env cancellation db))"
| receive: "held_call c db (snd (StoreVerified env fresh envelope db))"
| claim_operations: "claim_now options \<le> oc_LeaseUntil c \<Longrightarrow> held_call c db (snd (ClaimOperations env options db))"
| claim_webhooks: "held_call c db (snd (ClaimWebhooks env options db))"
| claim_actions: "held_call c db (snd (ClaimActions env options db))"
| begin_operation: "held_call c db (snd (BeginOperation env claim db))"
| complete_operation: "held_call c db (snd (CompleteOperation env claim evidence db))"
| supersede: "held_call c db (snd (SupersedeVoidWithRefund env claim evidence db))"
| fail_operation: "oc_OperationID claim \<noteq> oc_OperationID c \<or> oc_LeaseOwner claim \<noteq> oc_LeaseOwner c \<Longrightarrow>
    held_call c db (snd (FailOperation env claim failure db))"
| complete_webhook: "held_call c db (snd (CompleteWebhook env wclaim wevidence db))"
| ignore_webhook: "held_call c db (snd (IgnoreWebhook env wclaim db))"
| fail_webhook: "held_call c db (snd (FailWebhook env wclaim failure db))"
| complete_action: "held_call c db (snd (CompleteAction env aclaim aevidence db))"
| fail_action: "held_call c db (snd (FailAction env aclaim failure db))"

definition held_step :: "OperationClaim \<Rightarrow> PaymentDb \<Rightarrow> PaymentDb \<Rightarrow> bool" where
  "held_step c db db' \<longleftrightarrow> held_call c db db' \<and> lease_stands c db'"

lemma held_call_pay_step: "held_call c db db' \<Longrightarrow> pay_step db db'"
  by (induction rule: held_call.induct) (rule pay_step.intros)+

lemma held_call_kept:
  assumes "held_call c db db'" "payments_ok db" "kept_operation c db" "lease_stands c db"
  shows "kept_operation c db'"
  using assms
proof (induction rule: held_call.induct)
  case (claim_operations options db env)
  show ?case
  proof (cases "fst (ClaimOperations env options db)")
    case (Inl e)
    then have "snd (ClaimOperations env options db) = db"
      unfolding ClaimOperations_def using run_tx_failed by (metis prod.collapse)
    then show ?thesis using claim_operations by simp
  next
    case (Inr claims)
    then have "ClaimOperations env options db = (Inr claims, snd (ClaimOperations env options db))" by (simp add: prod_eq_iff)
    then show ?thesis using ClaimOperations_spec kept_not_claimed(3)[OF claim_operations(2,3,1,4)] by metis
  qed
qed (simp_all add: kept_BeginOperation kept_CompleteOperation kept_Supersede kept_CompleteWebhook kept_FailOperation
    kept.keeps_ReserveIntent kept.keeps_MarkReservationSecured kept.keeps_FailReservationSecuring
    kept.keeps_RequestCancellation kept.keeps_StoreVerified kept.keeps_ClaimWebhooks kept.keeps_ClaimActions kept.keeps_IgnoreWebhook
    kept.keeps_FailWebhook kept.keeps_CompleteAction kept.keeps_FailAction)

lemma held_steps_kept:
  assumes "(held_step c)\<^sup>*\<^sup>* db db'" "payments_ok db" "kept_operation c db" "lease_stands c db"
  shows "payments_ok db' \<and> kept_operation c db' \<and> lease_stands c db'"
  using assms
proof (induction rule: rtranclp_induct)
  case (step x y)
  then have x: "payments_ok x" "kept_operation c x" "lease_stands c x" and y: "held_call c x y" "lease_stands c y"
    by (auto simp: held_step_def)
  show ?case using ledger.keeps_pay_step[OF held_call_pay_step[OF y(1)] x(1)] held_call_kept[OF y(1) x] y(2) by blast
qed simp

end
