(* ===== verification/Payment_Run.thy ===== *)
theory Payment_Run
  imports Payment_Leases
begin

text \<open>
  What one run of the payment worker does with what it has claimed: how items are counted, what it may ask a
  provider, and that the categories it records fit their column.
\<close>

subsection \<open>Counting\<close>

definition handled :: "RunResult \<Rightarrow> nat" where
  "handled r = rs_OperationsDone r + rs_WebhooksDone r + rs_ActionsDone r + rs_Retried r + rs_Compensating r + rs_ManualReview r"

definition claimed :: "RunResult \<Rightarrow> nat" where
  "claimed r = rs_OperationsClaimed r + rs_WebhooksClaimed r + rs_ActionsClaimed r"

text \<open>An item is counted once, or it ends in an error; the numbers of claimed items are not touched.\<close>

definition counts_item :: "RunResult \<Rightarrow> 'w item_outcome \<Rightarrow> bool" where
  "counts_item result outcome \<longleftrightarrow>
     (case outcome of (err, result', _) \<Rightarrow>
        claimed result' = claimed result \<and> rs_OperationsClaimed result' = rs_OperationsClaimed result \<and>
        rs_WebhooksClaimed result' = rs_WebhooksClaimed result \<and> rs_ActionsClaimed result' = rs_ActionsClaimed result \<and>
        (handled result' = Suc (handled result) \<or> handled result' = handled result \<and> err \<noteq> None))"

lemmas counting = counts_item_def handled_def claimed_def

lemma count_failOperation: "counts_item result (failOperationWithUncertainty worker now claim category review uncertain result st)"
  unfolding failOperationWithUncertainty_def Let_def by (auto simp: counting split: prod.splits sum.splits)

lemma count_settle: "counts_item result (settle_operation worker now claim answer result st)"
  unfolding settle_operation_def Let_def failOperation_def
  by (auto simp: count_failOperation split: prod.splits sum.splits OperationDisposition.splits) (auto simp: counting)

lemma count_processOperation: "counts_item result (processOperation worker now claim result st)"
proof -
  have failed: "counts_item result (Some e, result, st')" for e st' by (simp add: counting)
  have ask: "counts_item result (ask_provider worker now claim result st')" for st'
    unfolding ask_provider_def failOperation_def by (auto simp: count_failOperation count_settle split: option.splits prod.splits)
  show ?thesis
    unfolding processOperation_def failInvalidOperation_def failOperation_def
    by (auto simp: count_failOperation ask failed split: prod.splits sum.splits)
qed

lemma count_failWebhook: "counts_item result (failWebhook worker now claim category review result st)"
  unfolding failWebhook_def Let_def by (auto simp: counting split: prod.splits sum.splits)

lemma count_joined: "counts_item result (e, result', st) \<Longrightarrow> counts_item result (Some f, result', st')"
  by (auto simp: counting)

lemma count_processWebhook: "counts_item result (processWebhook worker now claim result st)"
proof -
  have failed: "counts_item result (Some e, result, st')" "counts_item result (None, result\<lparr>rs_WebhooksDone := Suc (rs_WebhooksDone result)\<rparr>, st')"
    for e st' by (simp_all add: counting)
  have joined: "counts_item result (Some e, result', st')" if "failWebhook worker now claim c b result st2 = (f, result', st')" for c b f e result' st2 st'
    using count_failWebhook[of result worker now claim c b st2] that by (auto intro: count_joined)
  show ?thesis
    unfolding processWebhook_def Let_def
    by (auto simp: count_failWebhook failed joined split: prod.splits sum.splits option.splits)
qed

lemma count_failAction: "counts_item result (failAction worker now claim category review result st)"
  unfolding failAction_def Let_def by (auto simp: counting split: prod.splits sum.splits)

lemma count_processAction: "counts_item result (processAction worker now claim result st)"
proof -
  have finished: "counts_item result (None, result\<lparr>rs_ActionsDone := Suc (rs_ActionsDone result)\<rparr>, st')" for st'
    by (simp add: counting)
  have joined: "counts_item result (Some e, result', st')" if "failAction worker now claim c b result st2 = (f, result', st')" for c b f e result' st2 st'
    using count_failAction[of result worker now claim c b st2] that by (auto intro: count_joined)
  show ?thesis
    unfolding processAction_def Let_def
    by (auto simp: count_failAction finished joined split: prod.splits sum.splits option.splits)
qed

lemma count_process_each:
  assumes "\<And>claim result st. counts_item result (step claim result st)"
    and "process_each step items failures result st = (failures', result', st')"
  shows "claimed result' = claimed result \<and> rs_OperationsClaimed result' = rs_OperationsClaimed result \<and>
    rs_WebhooksClaimed result' = rs_WebhooksClaimed result \<and> rs_ActionsClaimed result' = rs_ActionsClaimed result \<and>
    handled result' \<le> handled result + length items \<and>
    handled result + length items + length failures \<le> handled result' + length failures'"
  using assms(2)
proof (induction items arbitrary: failures result st)
  case (Cons claim rest)
  obtain err result1 st1 where step: "step claim result st = (err, result1, st1)" by (metis prod_cases3)
  with assms(1)[of result claim st] Cons.prems Cons.IH[of "failures @ (case err of None \<Rightarrow> [] | Some e \<Rightarrow> [e])" result1 st1]
  show ?case by (auto simp: counts_item_def split: option.splits)
qed simp

definition lane_balanced :: "RunError list \<times> RunResult \<times> 'w WorkerState \<Rightarrow> bool" where
  "lane_balanced acc \<longleftrightarrow>
     (case acc of (failures, result, _) \<Rightarrow>
        handled result \<le> claimed result \<and> claimed result \<le> handled result + length failures)"

lemma balanced_lane:
  assumes "\<And>claim result st. counts_item result (step claim result st)" "lane_balanced acc"
    and "\<And>n. claimed (counted n (fst (snd acc))) = claimed (fst (snd acc)) + n \<and> handled (counted n (fst (snd acc))) = handled (fst (snd acc))"
  shows "lane_balanced (run_lane worker claims label counted step acc)"
proof -
  obtain failures result st where acc: "acc = (failures, result, st)" by (metis prod_cases3)
  obtain r st1 where call: "store_call worker claims st = (r, st1)" by fastforce
  show ?thesis
  proof (cases r)
    case (Inl e)
    with assms(2) call acc show ?thesis by (simp add: run_lane_def lane_balanced_def)
  next
    case (Inr items)
    obtain f2 r2 st2 where each: "process_each step items failures (counted (length items) result) st1 = (f2, r2, st2)" by (metis prod_cases3)
    with count_process_each[OF assms(1) each] assms(2) assms(3)[of "length items"] call acc Inr
    show ?thesis by (auto simp: run_lane_def lane_balanced_def)
  qed
qed

lemma lane_fields:
  assumes "\<And>claim result st. counts_item result (step claim result st)"
    and "out = fst (snd (run_lane worker claims label counted step acc))" "result = fst (snd acc)"
  shows "out = result \<or> (\<exists>n. rs_OperationsClaimed out = rs_OperationsClaimed (counted n result) \<and>
    rs_WebhooksClaimed out = rs_WebhooksClaimed (counted n result) \<and> rs_ActionsClaimed out = rs_ActionsClaimed (counted n result))"
proof -
  obtain failures st where acc: "acc = (failures, result, st)" using assms(3) by (cases acc) auto
  obtain r st1 where call: "store_call worker claims st = (r, st1)" by fastforce
  show ?thesis
  proof (cases r)
    case (Inr items)
    obtain f2 st2 where "process_each step items failures (counted (length items) result) st1 = (f2, out, st2)"
      using assms(2) call Inr acc by (cases "process_each step items failures (counted (length items) result) st1") (auto simp: run_lane_def)
    from count_process_each[where step = step, OF assms(1) this] show ?thesis by blast
  qed (use assms(2) call acc in \<open>simp add: run_lane_def\<close>)
qed

lemma run_lanes_balanced: "lane_balanced (run_lanes worker st)"
proof -
  define now options where "now = wf_Now (wk_config worker)" and "options = claim_options (wk_config worker)"
  define a where "a = run_lane worker (\<lambda>env. ClaimOperations env options) ''claim payment operations''
    (\<lambda>n r. r\<lparr>rs_OperationsClaimed := n\<rparr>) (processOperation worker now) ([], no_result, st)"
  define b where "b = run_lane worker (\<lambda>env. ClaimWebhooks env options) ''claim payment webhooks''
    (\<lambda>n r. r\<lparr>rs_WebhooksClaimed := n\<rparr>) (processWebhook worker now) a"
  have a: "lane_balanced a" unfolding a_def
    by (rule balanced_lane) (auto simp: count_processOperation lane_balanced_def no_result_def claimed_def handled_def)
  have az: "rs_WebhooksClaimed (fst (snd a)) = 0 \<and> rs_ActionsClaimed (fst (snd a)) = 0"
    using lane_fields[OF count_processOperation arg_cong[OF a_def, of "\<lambda>x. fst (snd x)"] refl] by (auto simp: no_result_def)
  have b: "lane_balanced b" unfolding b_def
    by (rule balanced_lane) (auto simp: count_processWebhook a az claimed_def handled_def)
  have bz: "rs_ActionsClaimed (fst (snd b)) = 0"
    using lane_fields[OF count_processWebhook arg_cong[OF b_def, of "\<lambda>x. fst (snd x)"] refl] az by auto
  have "run_lanes worker st = run_lane worker (\<lambda>env. ClaimActions env options) ''claim payment actions''
    (\<lambda>n r. r\<lparr>rs_ActionsClaimed := n\<rparr>) (processAction worker now) b"
    by (simp add: run_lanes_def a_def b_def now_def options_def Let_def)
  then show ?thesis
    by (simp only:) (rule balanced_lane, auto simp: count_processAction b bz claimed_def handled_def)
qed

subsection \<open>Categories\<close>

lemma bounded_loop_chars:
  "list_all category_char acc \<Longrightarrow> length acc < 64 \<Longrightarrow>
     list_all category_char (bounded_loop acc cs) \<and> length (bounded_loop acc cs) \<le> 64"
proof (induction acc cs rule: bounded_loop.induct)
  case (2 acc c cs)
  then show ?case by (auto simp: Let_def category_char_def)
qed simp

lemma trim_underscores_sub: "set (trim_underscores s) \<subseteq> set s" "length (trim_underscores s) \<le> length s"
proof -
  show "set (trim_underscores s) \<subseteq> set s"
    unfolding trim_underscores_def by (auto dest!: set_dropWhileD)
  have "length (dropWhile P xs) \<le> length xs" for P :: "char \<Rightarrow> bool" and xs by (rule length_dropWhile_le)
  then show "length (trim_underscores s) \<le> length s"
    unfolding trim_underscores_def by (metis length_rev order_trans)
qed

subsection \<open>What an uncertain operation asks of its provider\<close>

text \<open>Two providers that answer alike when asked for the status and when the checkout of the claim is repeated.\<close>

definition same_answers :: "PayIds \<Rightarrow> OperationClaim \<Rightarrow> 'w Client \<Rightarrow> 'w Client \<Rightarrow> bool" where
  "same_answers ids claim c c' \<longleftrightarrow>
     pc_GetPaymentStatus c' (oc_ProviderPaymentID claim) = pc_GetPaymentStatus c (oc_ProviderPaymentID claim) \<and>
     (oc_Type claim = OperationCreateCheckout \<and> oc_ProviderPaymentID claim = [] \<longrightarrow>
        pc_CreateCheckout c' (checkout_request ids claim) = pc_CreateCheckout c (checkout_request ids claim))"

lemma queryUncertain_same: "same_answers ids claim c c' \<Longrightarrow> queryUncertain ids c' claim = queryUncertain ids c claim"
  by (rule ext) (auto simp: queryUncertain_def queryStatus_def same_answers_def)

text \<open>Nothing but the call itself looks at the providers of a worker.\<close>

lemma providers_unused:
  "store_call (worker\<lparr>wk_providers := ps\<rparr>) = store_call worker"
  "failOperationWithUncertainty (worker\<lparr>wk_providers := ps\<rparr>) = failOperationWithUncertainty worker"
  by (simp_all add: store_call_def failOperationWithUncertainty_def retry_at_def Let_def fun_eq_iff)

lemma providers_fields:
  "wk_unicode (worker\<lparr>wk_providers := ps\<rparr>) = wk_unicode worker" "wk_config (worker\<lparr>wk_providers := ps\<rparr>) = wk_config worker"
  "wk_ids (worker\<lparr>wk_providers := ps\<rparr>) = wk_ids worker" "wk_providers (worker\<lparr>wk_providers := ps\<rparr>) = ps"
  by simp_all

lemma settle_providers: "settle_operation (worker\<lparr>wk_providers := ps\<rparr>) = settle_operation worker"
  unfolding fun_eq_iff settle_operation_def failOperation_def providers_unused providers_fields by simp

subsection \<open>A run among others\<close>

text \<open>What others do between the calls of a run, as far as it is made of transactions of this model.\<close>

definition among_transactions :: "'w Worker \<Rightarrow> 'w Worker" where
  "among_transactions worker =
     worker\<lparr>wk_others := \<lambda>n db. if pay_step\<^sup>*\<^sup>* db (wk_others worker n db) then wk_others worker n db else db\<rparr>"

interpretation ledger_run: payment_worker_invariant payments_ok "among_transactions worker" for worker
  by unfold_locales (auto simp: among_transactions_def intro: ledger.keeps_pay_steps)

lemma among_transactions_id:
  assumes "\<And>n db. pay_step\<^sup>*\<^sup>* db (wk_others worker n db)"
  shows "among_transactions worker = worker"
  unfolding among_transactions_def using assms by simp

end
