(* ===== verification/Payment_Flow.thy ===== *)
theory Payment_Flow
  imports Payment_Run
begin

text \<open>
  How the steps of a payment follow each other: which saga lets an operation be claimed, on which evidence a command
  to a shard rests, what the intake of a webhook leaves behind and where a key leads.
\<close>

subsection \<open>Operations and their sagas\<close>

lemma due_operations_step:
  "p \<in> set (due_operations env options db) \<Longrightarrow> \<exists>s \<in> set (payment_sagas db). sg_intent s = po_intent p \<and> claimable_step (po_type p) s"
  by (auto simp: due_operations_def dest!: in_set_takeD split: if_splits)

lemma pending_claim_step:
  assumes "ClaimOperations env options db = (Inr claims, db')" "c \<in> set claims" "oc_PreviousState c = OperationPending"
  shows "\<exists>s \<in> set (payment_sagas db). sg_intent s = oc_PaymentIntentID c \<and> claimable_step (oc_Type c) s"
proof -
  obtain u v db1 db2 pending db3 where steps: "return_expired_operations env options db = Inr (u, db1)"
      "retry_operations env options db1 = Inr (v, db2)" "claim_pending_operations env options db2 = Inr (pending, db3)"
    and rest: "claims = pending \<or>
      (\<exists>n more db4. claim_uncertain_operations env options n db3 = Inr (more, db4) \<and> claims = pending @ more)"
    using ClaimOperations_steps[OF assms(1)] by metis
  have sagas: "payment_sagas db2 = payment_sagas db" using return_retry_spec[OF steps(1,2)] by simp
  have "c \<in> set pending" using rest assms(2,3) by (auto dest: claim_uncertain_spec(2))
  then obtain p where "p \<in> set (due_operations env options db2)" "oc_PaymentIntentID c = po_intent p" "oc_Type c = po_type p"
    using steps(3) unfolding claim_pending_operations_def
    by (auto simp: operation_claim_def dest!: update_operations_Inr scan_Inr split: if_splits)
  then show ?thesis using due_operations_step[of p env options db2] sagas by auto
qed

lemma begin_capture_saga:
  assumes "BeginOperation env claim db = (Inr (), db')" "oc_Type claim = OperationCapture"
  shows "oc_PreviousState claim \<noteq> OperationUncertain \<and>
    (\<exists>s \<in> set (payment_sagas db'). sg_intent s = oc_PaymentIntentID claim \<and> sg_state s = SagaCapturing)"
  using assms unfolding BeginOperation_def run_tx_Inr
  by (auto dest!: in_transaction_Inr oneRow_sagas(2)) (rule bexI [rotated], assumption, simp)

lemma fail_operation_sagas:
  assumes "FailOperation env claim failure db = (Inr (), db')" "\<not> fl_ManualReview failure" "oc_PreviousState claim \<noteq> OperationUncertain"
  shows "payment_sagas db' = payment_sagas db"
  using assms unfolding FailOperation_def run_tx_Inr finalizeOperationFailure_def
  by (auto dest!: in_transaction_Inr update_operations_Inr simp: oneRow_Inr Let_def)

subsection \<open>Evidence of commands\<close>

lemma operation_amount:
  assumes "payments_ok db" "r \<in> set (payment_operations db)" "i \<in> set (payment_intents db)" "po_intent r = pi_id i"
  shows "po_amount r = pi_amount i \<and> po_currency r = pi_currency i \<and> po_provider r = pi_provider i"
proof -
  obtain j where j: "j \<in> set (payment_intents db)" "pi_id j = po_intent r" "pi_amount j = po_amount r"
      "pi_currency j = po_currency r" "pi_provider j = po_provider r"
    using assms(1,2) by (auto simp: payments_ok_def links_ok_def list_all_iff operation_of_intent_def list_ex_iff)
  have "inj_on pi_id (set (payment_intents db))"
    using assms(1) by (auto simp: payments_ok_def rows_ok_def intents_unique_def distinct_map)
  then have "j = i" using inj_onD j(1,2) assms(3,4) by metis
  with j show ?thesis by simp
qed

text \<open>A succeeded operation of the intent, for its money, with the proof that a command carries.\<close>

definition backed :: "PaymentDb \<Rightarrow> OperationType \<Rightarrow> uuid \<Rightarrow> int64 \<Rightarrow> string \<Rightarrow> byte list \<Rightarrow> OperationRow \<Rightarrow> bool" where
  "backed db kind intentID amount cur evidence r \<longleftrightarrow>
     r \<in> set (payment_operations db) \<and> is_succeeded kind r \<and> po_intent r = intentID \<and> po_amount r = amount \<and>
     po_currency r = cur \<and> po_response r = Some evidence"

definition command_backed :: "PaymentDb \<Rightarrow> ActionClaim \<Rightarrow> bool" where
  "command_backed db c \<longleftrightarrow>
     (case ac_Type c of
        ActionIssueTickets \<Rightarrow> (let m = ac_Issue c in
          \<exists>r. backed db OperationCapture (ic_PaymentIntentID m) (ic_AmountMinor m) (ic_Currency m) (ic_CaptureProofHash m) r \<and>
              ic_PaymentOperationID m = po_id r)
      | ActionMarkRefundPending \<Rightarrow> (let m = ac_MarkRefund c in
          \<exists>r. backed db OperationCapture (mc_PaymentIntentID m) (mc_AmountMinor m) (mc_Currency m) (mc_CaptureProofHash m) r)
      | ActionCancelVoided \<Rightarrow> (let m = ac_CancelVoided c in
          \<exists>r. backed db OperationVoid (vc_PaymentIntentID m) (vc_AmountMinor m) (vc_Currency m) (vc_VoidProofHash m) r \<and>
              vc_VoidOperationID m = po_id r \<and> po_completed r = Some (vc_VoidedAt m))
      | ActionCompensate \<Rightarrow> (let m = ac_Compensation c in
          \<exists>r. backed db OperationRefund (rc_PaymentIntentID m) (rc_AmountMinor m) (rc_Currency m) (rc_RefundProofHash m) r \<and>
              rc_RefundOperationID m = po_id r \<and> po_completed r = Some (rc_RefundedAt m))
      | ActionOther _ \<Rightarrow> False)"

lemma build_all_Inr: "build_all xs db = Inr (ys, db') \<Longrightarrow> xs = map Inr ys \<and> db' = db"
  by (induction xs arbitrary: ys rule: build_all.induct) auto

lemma left_join_mem: "x \<in> set (left_join xs) \<Longrightarrow> x = None \<or> (\<exists>y \<in> set xs. x = Some y)"
  by (auto simp: left_join_def split: if_splits)

lemma proof_of_Some: "length (proof_of (Some r)) = 32 \<Longrightarrow> po_response r = Some (proof_of (Some r))"
  by (auto simp: proof_of_def split: option.splits)

text \<open>The operations that the query joins to a saga are succeeded operations of its intent.\<close>

definition joined_operation :: "PaymentDb \<Rightarrow> uuid \<Rightarrow> OperationType \<Rightarrow> OperationRow option \<Rightarrow> bool" where
  "joined_operation db intentID kind x \<longleftrightarrow>
     (case x of None \<Rightarrow> True | Some r \<Rightarrow> r \<in> set (payment_operations db) \<and> is_succeeded kind r \<and> po_intent r = intentID)"

lemma left_join_succeeded: "x \<in> set (left_join (succeeded_rows db k kind)) \<Longrightarrow> joined_operation db k kind x"
  by (auto dest!: left_join_mem simp: joined_operation_def succeeded_rows_def is_succeeded_def)

lemma claim_actions_rows:
  assumes "ClaimActions env options db = (Inr claims, db')" "c \<in> set claims"
  shows "\<exists>s i cap v f. i \<in> set (payment_intents db) \<and> s \<in> set (payment_sagas db) \<and> sg_intent s = pi_id i \<and>
    joined_operation db (pi_id i) OperationCapture cap \<and> joined_operation db (pi_id i) OperationVoid v \<and>
    joined_operation db (pi_id i) OperationRefund f \<and> buildActionClaim (py_ids env) (zero_claim options s i) s i cap v f = Inr c"
proof -
  obtain xs where xs: "xs = [buildActionClaim (py_ids env) (zero_claim options s i) s i cap v f.
        s \<leftarrow> sort_key (\<lambda>s. (sg_next s, py_touched env (sg_id s), sg_id s)) (due_sagas env options db),
        i \<leftarrow> payment_intents db, pi_id i = sg_intent s,
        cap \<leftarrow> left_join (succeeded_rows db (pi_id i) OperationCapture), v \<leftarrow> left_join (succeeded_rows db (pi_id i) OperationVoid),
        f \<leftarrow> left_join (succeeded_rows db (pi_id i) OperationRefund)]" "xs = map Inr claims"
    using assms(1) unfolding ClaimActions_def claim_actions_tx_def run_tx_Inr
    by (auto dest!: build_all_Inr simp: store_begin_def store_commit_def)
  have "Inr c \<in> set xs" unfolding xs(2) using assms(2) by simp
  then obtain s i cap v f where "i \<in> set (payment_intents db)" "cap \<in> set (left_join (succeeded_rows db (pi_id i) OperationCapture))"
      "v \<in> set (left_join (succeeded_rows db (pi_id i) OperationVoid))" "f \<in> set (left_join (succeeded_rows db (pi_id i) OperationRefund))"
      "Inr c = buildActionClaim (py_ids env) (zero_claim options s i) s i cap v f"
      "s \<in> set (due_sagas env options db)" "pi_id i = sg_intent s"
    unfolding xs(1) by (auto split: if_splits)
  moreover have "set (due_sagas env options db) \<subseteq> set (payment_sagas db)"
    unfolding due_sagas_def by (rule order_trans [OF set_take_subset]) auto
  ultimately show ?thesis using left_join_succeeded by (metis subsetD)
qed

lemma claim_actions_origin:
  assumes "ClaimActions env options db = (Inr claims, db')" "c \<in> set claims"
  shows "\<exists>s i cap v f. i \<in> set (payment_intents db) \<and> joined_operation db (pi_id i) OperationCapture cap \<and>
    joined_operation db (pi_id i) OperationVoid v \<and> joined_operation db (pi_id i) OperationRefund f \<and>
    buildActionClaim (py_ids env) (zero_claim options s i) s i cap v f = Inr c"
  using claim_actions_rows[OF assms] by blast

lemma built_claim_backed:
  assumes "payments_ok db" "i \<in> set (payment_intents db)" "joined_operation db (pi_id i) OperationCapture cap"
    "joined_operation db (pi_id i) OperationVoid v" "joined_operation db (pi_id i) OperationRefund f"
    and built: "buildActionClaim ids (zero_claim options s i) s i cap v f = Inr c"
  shows "command_backed db c"
proof -
  have backed: "backed db kind (pi_id i) (pi_amount i) (pi_currency i) (proof_of x) (the x)"
    if "joined_operation db (pi_id i) kind x" "x \<noteq> None" "length (proof_of x) = 32" for kind x
    using that assms(2) operation_amount[OF assms(1), of "the x" i]
    by (auto simp: joined_operation_def backed_def dest: proof_of_Some)
  show ?thesis
    using built backed[OF assms(3)] backed[OF assms(4)] backed[OF assms(5)] unfolding buildActionClaim_def
    by (auto simp: command_backed_def issue_command_def mark_refund_command_def cancel_voided_command_def compensation_command_def
        Let_def split: if_splits)
qed

subsection \<open>Intake of events\<close>

text \<open>What a stored event leaves behind, for each of the three answers.\<close>

definition stored_as :: "WebhookRecord \<Rightarrow> StoreResult \<Rightarrow> PaymentDb \<Rightarrow> PaymentDb \<Rightarrow> bool" where
  "stored_as r answer db db' \<longleftrightarrow>
     (case answer of
        StoreAccepted \<Rightarrow>
          \<not> list_ex (same_event r) (payment_webhook_inbox db) \<and>
          (\<exists>x. payment_webhook_inbox db' = payment_webhook_inbox db @ [x] \<and> same_event r x \<and> wi_hash x = wr_PayloadHash r \<and>
               wi_state x = (if wr_Ignored r then InboxIgnored else InboxReceived))
      | StoreDuplicate \<Rightarrow> db' = db \<and> (\<exists>x \<in> set (payment_webhook_inbox db). same_event r x \<and> wi_hash x = wr_PayloadHash r)
      | StoreConflict \<Rightarrow>
          map wi_hash (payment_webhook_inbox db') = map wi_hash (payment_webhook_inbox db) \<and>
          (\<exists>x \<in> set (payment_webhook_inbox db). same_event r x \<and> wi_hash x \<noteq> wr_PayloadHash r) \<and>
          list_all (\<lambda>x. same_event r x \<longrightarrow> \<not> webhookConflictQuarantinable (wi_state x)) (payment_webhook_inbox db') \<and>
          list_ex (same_conflict r) (payment_provider_event_conflicts db'))"

lemma same_event_one:
  assumes "payments_ok db" "filter (same_event r) (payment_webhook_inbox db) = x # xs"
  shows "xs = []" "x \<in> set (payment_webhook_inbox db)" "same_event r x"
    "\<And>y. y \<in> set (payment_webhook_inbox db) \<Longrightarrow> same_event r y \<Longrightarrow> y = x"
proof -
  have d: "distinct (map (\<lambda>y. (wi_provider y, wi_event y)) (payment_webhook_inbox db))"
    using assms(1) by (simp add: payments_ok_def rows_ok_def inbox_unique_def)
  have "distinct (map (\<lambda>y. (wi_provider y, wi_event y)) (x # xs))" using distinct_map_filter[OF d] assms(2) by metis
  moreover have rows: "set (x # xs) = {y \<in> set (payment_webhook_inbox db). same_event r y}" by (metis assms(2) set_filter)
  then have "\<forall>y \<in> set (x # xs). same_event r y" by blast
  ultimately show none: "xs = []" by (cases xs) (auto simp: same_event_def)
  show "x \<in> set (payment_webhook_inbox db)" "same_event r x" using rows by auto
  show "y = x" if "y \<in> set (payment_webhook_inbox db)" "same_event r y" for y using rows that none by auto
qed

lemma store_accepted:
  assumes "store_verified_tx env fresh r db = Inr (StoreAccepted, db')"
  shows "stored_as r StoreAccepted db db'"
proof -
  obtain db1 where new: "insert_inbox env r db = Inr (True, db1)"
    and rest: "if wr_Ignored r
      then \<exists>n. update_inbox env ''ignore webhook'' ErrPersistence (\<lambda>_ x. same_event r x \<and> wi_state x = InboxReceived)
             (\<lambda>x. x\<lparr>wi_state := InboxIgnored, wi_processed := Some (pg_timestamptz (wr_ReceivedAt r))\<rparr>) db1 = Inr (n, db')
      else db' = db1"
    using assms unfolding store_verified_tx_def by (auto split: if_splits option.splits)
  have none: "\<not> list_ex (same_event r) (payment_webhook_inbox db)"
    and db1: "db1 = db\<lparr>payment_webhook_inbox := payment_webhook_inbox db @ [received_row (py_clock env ''insert webhook'') r]\<rparr>"
    using new by (auto simp: insert_inbox_def Let_def split: if_splits)
  have rest_same: "map (\<lambda>x. if wi_provider x = wr_Provider r \<and> wi_event x = wr_ProviderEventID r \<and> P x then f x else x)
      (payment_webhook_inbox db) = payment_webhook_inbox db" for P f
    using none by (auto simp: list_ex_iff same_event_def intro!: map_idI)
  have row: "same_event r (received_row now r)" for now by (simp add: same_event_def received_row_def)
  show ?thesis
    using rest none row by (auto simp: db1 stored_as_def rest_same received_row_def same_event_def dest!: update_inbox_Inr split: if_splits)
qed

lemma store_duplicate:
  assumes "store_verified_tx env fresh r db = Inr (StoreDuplicate, db')"
  shows "stored_as r StoreDuplicate db db'"
  using assms unfolding store_verified_tx_def
  by (auto simp: insert_inbox_def query_row_def stored_as_def Let_def tx_get_def dest!: filter_eq_ConsD split: if_splits option.splits list.splits)

lemma list_ex_update: "list_ex Q xs \<Longrightarrow> (\<And>x. Q x \<Longrightarrow> Q (f x)) \<Longrightarrow> list_ex Q (map (\<lambda>x. if Q x then f x else x) xs)"
  by (induction xs) auto

lemma record_conflict_Inr:
  assumes "record_conflict env fresh canonical r db = Inr (u, db')"
  shows "payment_webhook_inbox db' = payment_webhook_inbox db \<and> list_ex (same_conflict r) (payment_provider_event_conflicts db')"
  using assms unfolding record_conflict_def Let_def
  by (auto intro!: list_ex_update split: if_splits) (auto simp: same_conflict_def)

lemma quarantine_states:
  assumes "\<And>y. y \<in> set rows \<Longrightarrow> same_event r y \<Longrightarrow> y = x" "\<not> webhookConflictQuarantinable (wi_state (f x))"
  shows "list_all (\<lambda>y. same_event r y \<longrightarrow> \<not> webhookConflictQuarantinable (wi_state y))
    (map (\<lambda>y. if same_event r y \<and> wi_state y = wi_state x then f y else y) rows)"
  using assms by (fastforce simp: list_all_iff)

lemma store_conflict:
  assumes "store_verified_tx env fresh r db = Inr (StoreConflict, db')" "payments_ok db"
  shows "stored_as r StoreConflict db db'"
proof -
  define quarantined where "quarantined = (\<lambda>y :: InboxRow. y\<lparr>wi_state := InboxSecurityConflict, wi_error := Some ''payload_hash_conflict'',
    wi_lease := None, wi_processed := Some (pg_timestamptz (wr_ReceivedAt r))\<rparr>)"
  obtain x xs db1 u where rows: "filter (same_event r) (payment_webhook_inbox db) = x # xs" "wi_hash x \<noteq> wr_PayloadHash r"
    and kept: "record_conflict env fresh (wi_hash x) r db = Inr (u, db1)"
    and last: "if webhookConflictQuarantinable (wi_state x)
       then \<exists>n. update_inbox env ''quarantine webhook'' ErrPersistence (\<lambda>_ y. same_event r y \<and> wi_state y = wi_state x)
              quarantined db1 = Inr (n, db')
       else db' = db1"
    using assms(1) unfolding store_verified_tx_def insert_inbox_def query_row_def quarantined_def
    by (auto simp: Let_def tx_get_def split: if_splits option.splits list.splits)
  note one = same_event_one[OF assms(2) rows(1)] and conflict = record_conflict_Inr[OF kept]
  have hashes: "wi_hash (quarantined y) = wi_hash y" for y by (simp add: quarantined_def)
  have "list_all (\<lambda>y. same_event r y \<longrightarrow> \<not> webhookConflictQuarantinable (wi_state y)) (payment_webhook_inbox db') \<and>
    map wi_hash (payment_webhook_inbox db') = map wi_hash (payment_webhook_inbox db) \<and>
    payment_provider_event_conflicts db' = payment_provider_event_conflicts db1"
  proof (cases "webhookConflictQuarantinable (wi_state x)")
    case True
    then obtain n where "update_inbox env ''quarantine webhook'' ErrPersistence (\<lambda>_ y. same_event r y \<and> wi_state y = wi_state x)
        quarantined db1 = Inr (n, db')" using last by auto
    from update_inbox_Inr[OF this] conflict have "db' = db1\<lparr>payment_webhook_inbox :=
      map (\<lambda>y. if same_event r y \<and> wi_state y = wi_state x then quarantined y else y) (payment_webhook_inbox db)\<rparr>" by simp
    moreover have "\<not> webhookConflictQuarantinable (wi_state (quarantined x))" by (simp add: quarantined_def webhookConflictQuarantinable_def)
    ultimately show ?thesis
      using quarantine_states[of "payment_webhook_inbox db" r x quarantined] one(4) hashes by simp
  next
    case False
    then show ?thesis using last conflict one(4) by (auto simp: list_all_iff)
  qed
  then show ?thesis using conflict one(2,3) rows(2) by (auto simp: stored_as_def)
qed

lemma store_verified_frame:
  assumes "store_verified_tx env fresh r db = Inr (result, db')"
  shows "payment_operations db' = payment_operations db \<and> payment_intents db' = payment_intents db \<and> payment_sagas db' = payment_sagas db"
  using assms unfolding store_verified_tx_def
  by (auto simp: insert_inbox_def record_conflict_def query_row_def tx_get_def Let_def dest!: update_inbox_Inr
      split: if_splits option.splits list.splits)

subsection \<open>Completion of a capture\<close>

definition capture_recorded :: "OperationClaim \<Rightarrow> OperationEvidence \<Rightarrow> PaymentDb \<Rightarrow> bool" where
  "capture_recorded claim evidence db \<longleftrightarrow>
     list_ex (\<lambda>r. po_id r = oc_OperationID claim \<and> po_state r = OperationSucceeded \<and> po_lease r = None \<and>
        po_response r = Some (oe_ResponseFingerprint evidence)) (payment_operations db) \<and>
     list_ex (\<lambda>i. pi_id i = oc_PaymentIntentID claim \<and> pi_state i = IntentTicketIssuePending) (payment_intents db) \<and>
     list_ex (\<lambda>s. sg_intent s = oc_PaymentIntentID claim \<and> sg_state s = SagaIssuingTickets \<and> sg_step s = StepIssueTickets)
       (payment_sagas db)"

lemma capture_applied:
  assumes "applyOperationSuccess env claim evidence db = Inr (u, db')" "oc_Type claim = OperationCapture"
  shows "payment_operations db' = payment_operations db"
    and "list_ex (\<lambda>i. pi_id i = oc_PaymentIntentID claim \<and> pi_state i = IntentTicketIssuePending) (payment_intents db')"
    and "list_ex (\<lambda>s. sg_intent s = oc_PaymentIntentID claim \<and> sg_state s = SagaIssuingTickets \<and> sg_step s = StepIssueTickets)
      (payment_sagas db')"
proof -
  obtain a b c d1 d2 d3 where steps:
      "oneRow (set_intent_state env ''captured'' (oc_PaymentIntentID claim) IntentCapturePending IntentCaptured) db = Inr (a, d1)"
      "oneRow (set_intent_state env ''ticket issue pending'' (oc_PaymentIntentID claim) IntentCaptured IntentTicketIssuePending) d1 = Inr (b, d2)"
      "oneRow (set_saga_state env ''saga captured'' (oc_PaymentIntentID claim) SagaCapturing (\<lambda>r. r\<lparr>sg_state := SagaCaptured\<rparr>)) d2 = Inr (c, d3)"
      "oneRow (set_saga_state env ''saga issuing tickets'' (oc_PaymentIntentID claim) SagaCaptured
        (\<lambda>r. r\<lparr>sg_state := SagaIssuingTickets, sg_step := StepIssueTickets\<rparr>)) d3 = Inr (u, db')"
    using assms unfolding applyOperationSuccess_def Let_def by auto
  note rows = oneRow_intents(1)[OF steps(1)[unfolded set_intent_state_def]] oneRow_intents(1)[OF steps(2)[unfolded set_intent_state_def]]
    oneRow_sagas(1)[OF steps(3)[unfolded set_saga_state_def]] oneRow_sagas(1)[OF steps(4)[unfolded set_saga_state_def]]
  show "payment_operations db' = payment_operations db" using rows by simp
  have "payment_intents db' = payment_intents d2" using rows(3,4) by simp
  then show "list_ex (\<lambda>i. pi_id i = oc_PaymentIntentID claim \<and> pi_state i = IntentTicketIssuePending) (payment_intents db')"
    using oneRow_intents(2)[OF steps(2)[unfolded set_intent_state_def]] by (auto simp: list_ex_iff) (rule bexI [rotated], assumption, simp)
  show "list_ex (\<lambda>s. sg_intent s = oc_PaymentIntentID claim \<and> sg_state s = SagaIssuingTickets \<and> sg_step s = StepIssueTickets)
      (payment_sagas db')"
    using oneRow_sagas(2)[OF steps(4)[unfolded set_saga_state_def]] by (auto simp: list_ex_iff) (rule bexI [rotated], assumption, simp)
qed

lemma run_tx_rolled_back: "run_tx m db = (Inl e, db') \<Longrightarrow> db' = db"
  by (auto simp: run_tx_def split: sum.splits)

lemma operation_completed:
  assumes "oneRow (update_operations env label err wh (operation_succeeded now providerID evidence)) db = Inr (u, db')"
    and "\<And>r. wh db r \<Longrightarrow> po_id r = k"
  shows "list_ex (\<lambda>r. po_id r = k \<and> po_state r = OperationSucceeded \<and> po_lease r = None \<and>
    po_response r = Some (oe_ResponseFingerprint evidence)) (payment_operations db')"
  using oneRow_operations(2)[OF assms(1)] assms(2)
  by (auto simp: list_ex_iff) (rule bexI [rotated], assumption, simp add: operation_succeeded_def)

lemma capture_completed:
  assumes "CompleteOperation env claim evidence db = (Inr (), db')" "oc_Type claim = OperationCapture"
  shows "capture_recorded claim evidence db'"
proof -
  define recorded where "recorded = (\<lambda>db :: PaymentDb. list_ex (\<lambda>r. po_id r = oc_OperationID claim \<and> po_state r = OperationSucceeded \<and> po_lease r = None \<and>
    po_response r = Some (oe_ResponseFingerprint evidence)) (payment_operations db))"
  obtain u db1 where applied: "applyOperationSuccess env claim evidence db1 = Inr (u, db')" and "recorded db1"
    using assms unfolding CompleteOperation_def run_tx_Inr
    by (auto simp: Let_def releaseSagaLease_def recorded_def dest!: in_transaction_Inr oneRow_sagas(1) operation_completed[where k = "oc_OperationID claim"]
        split: if_splits)
  with capture_applied[OF applied assms(2)] show ?thesis by (simp add: capture_recorded_def recorded_def)
qed

end
