(* ===== verification/Payment_Example.thy ===== *)
theory Payment_Example
  imports Payment_Flow "HOL-Library.Code_Target_Numeral"
begin

text \<open>
  A concrete payment of 50 EUR at the stages of its life, a worker and a provider, at which the properties of the
  payment control plane are applied. The digest and the identities are stand-ins that keep apart what is used here.
\<close>

definition ex_pay_ids :: PayIds where
  "ex_pay_ids =
     \<lparr>pid_NewSHA1 = (\<lambda>ns name. 1000 + sum_list (map byte_of name)), pid_Sum256 = (\<lambda>b. take 32 (rev b @ replicate 32 1)),
      pid_String = (\<lambda>k. [hex_char (k div 256 mod 16), hex_char (k div 16 mod 16), hex_char (k mod 16)])\<rparr>"

definition pay_env_at :: "gotime \<Rightarrow> PayEnv" where
  "pay_env_at t =
     \<lparr>py_fault = (\<lambda>_. False), py_clock = (\<lambda>_. t), py_locked_operation = (\<lambda>_. False), py_locked_saga = (\<lambda>_. False),
      py_locked_inbox = (\<lambda>_. False), py_updated = (\<lambda>_. 0), py_touched = (\<lambda>_. 0), py_ids = ex_pay_ids\<rparr>"

definition ex_options :: "string \<Rightarrow> gotime \<Rightarrow> ClaimOptions" where
  "ex_options owner t = \<lparr>cl_WorkerID = owner, cl_BatchSize = 10, cl_MaxAttempts = 5, cl_LeaseTTL = 60000000000, cl_Now = t\<rparr>"

definition ex_intent :: "IntentState \<Rightarrow> string option \<Rightarrow> IntentRow" where
  "ex_intent state payment =
     \<lparr>pi_id = 1, pi_reservation = 10, pi_train_run = 20, pi_owner = 30, pi_provider = ''sandbox'', pi_payment = payment,
      pi_hosted = payment, pi_amount = 5000, pi_currency = ''EUR'', pi_state = state, pi_key = replicate 32 7,
      pi_fingerprint = replicate 32 9, pi_created = 1000, pi_completed = None\<rparr>"

definition ex_saga :: "SagaState \<Rightarrow> SagaStep \<Rightarrow> SagaRow" where
  "ex_saga state step =
     \<lparr>sg_id = 2, sg_intent = 1, sg_reservation = 10, sg_step = step, sg_state = state, sg_lease = None, sg_attempts = 0,
      sg_next = 2000, sg_error = None, sg_completed = None\<rparr>"

definition ex_operation :: "uuid \<Rightarrow> OperationType \<Rightarrow> OperationState \<Rightarrow> lease \<Rightarrow> OperationRow" where
  "ex_operation k kind state held =
     \<lparr>po_id = k, po_intent = 1, po_provider = ''sandbox'', po_type = kind, po_key = replicate 32 (of_nat k),
      po_provider_operation = None, po_amount = 5000, po_currency = ''EUR'', po_state = state, po_attempts = 1, po_next = 2000,
      po_lease = held, po_normalized = None, po_response = None, po_error = None, po_created = 2000, po_completed = None\<rparr>"

definition ex_succeeded :: "uuid \<Rightarrow> OperationType \<Rightarrow> Status \<Rightarrow> OperationRow" where
  "ex_succeeded k kind status =
     (ex_operation k kind OperationSucceeded None)\<lparr>po_provider_operation := Some (''op_'' @ operation_type_text kind),
        po_normalized := Some status, po_response := Some (replicate 32 5), po_completed := Some 5000\<rparr>"

definition ex_tables :: "IntentRow \<Rightarrow> SagaRow \<Rightarrow> OperationRow list \<Rightarrow> PaymentDb" where
  "ex_tables intent saga operations =
     \<lparr>payment_intents = [intent], payment_sagas = [saga], payment_operations = operations, payment_webhook_inbox = [],
      payment_provider_event_conflicts = [], payment_manual_review_cases = [],
      reservation_directory = [\<lparr>rd_reservation = 10, rd_train_run = 20, rd_owner = 30, rd_active = True\<rparr>],
      pay_reservation_locators = [], pay_ticket_order_locators = [], pay_ticket_locators = [], ticket_code_directory = [],
      ticket_code_claims_ready = True\<rparr>"

definition secured_db :: PaymentDb where
  "secured_db = ex_tables (ex_intent IntentCheckoutPending None) (ex_saga SagaReservationSecured StepCreateCheckout)
     [ex_operation 40 OperationCreateCheckout OperationPending None]"

definition ex_checkout :: OperationRow where
  "ex_checkout = ex_succeeded 40 OperationCreateCheckout StatusRequiresCustomerAction"

definition awaiting_db :: PaymentDb where
  "awaiting_db = ex_tables (ex_intent IntentAwaitingCustomer (Some ''pay_1'')) (ex_saga SagaAwaitingProvider StepAwaitProvider) [ex_checkout]"

definition authorized_db :: PaymentDb where
  "authorized_db = ex_tables (ex_intent IntentAuthorized (Some ''pay_1'')) (ex_saga SagaAuthorized StepCapture)
     [ex_checkout, ex_operation 41 OperationCapture OperationClaimed (Some (''w1'', 60000003000))]"

definition capturing_db :: PaymentDb where
  "capturing_db = ex_tables (ex_intent IntentCapturePending (Some ''pay_1'')) (ex_saga SagaCapturing StepCapture)
     [ex_checkout, ex_operation 41 OperationCapture OperationInFlight (Some (''w1'', 60000003000))]"

definition captured_db :: PaymentDb where
  "captured_db = ex_tables (ex_intent IntentTicketIssuePending (Some ''pay_1'')) (ex_saga SagaIssuingTickets StepIssueTickets)
     [ex_checkout, ex_succeeded 41 OperationCapture StatusCaptured]"

lemmas example_tables = secured_db_def awaiting_db_def authorized_db_def capturing_db_def captured_db_def ex_tables_def

lemma examples_ok:
  "payments_ok secured_db" "payments_ok awaiting_db" "payments_ok authorized_db" "payments_ok captured_db"
  by code_simp+

definition ex_claim :: "OperationType \<Rightarrow> uuid \<Rightarrow> OperationState \<Rightarrow> OperationClaim" where
  "ex_claim kind k previous =
     \<lparr>oc_OperationID = k, oc_PaymentIntentID = 1, oc_ReservationID = 10, oc_TrainRunID = 20, oc_OwnerID = 30,
      oc_Provider = ''sandbox'', oc_Type = kind, oc_PreviousState = previous, oc_ProviderPaymentID = ''pay_1'',
      oc_HostedSessionReference = ''pay_1'', oc_ProviderActionToken = [], oc_ProviderIdempotencyKey = ''key-41'',
      oc_AmountMinor = 5000, oc_Currency = ''EUR'', oc_Attempts = 1, oc_CreatedAt = 2000, oc_LeaseOwner = ''w1'',
      oc_LeaseUntil = 60000003000\<rparr>"

definition ex_evidence :: OperationEvidence where
  "ex_evidence =
     \<lparr>oe_Disposition = DispositionApplied, oe_ProviderPaymentID = ''pay_1'', oe_ProviderOperationID = ''op_capture'',
      oe_HostedSessionRef = [], oe_Status = StatusCaptured, oe_AmountMinor = 5000, oe_Currency = ''EUR'',
      oe_CapturedMinor = 5000, oe_RefundedMinor = 0, oe_ResponseFingerprint = replicate 32 5, oe_ProviderObservedTime = 0\<rparr>"

definition ex_failure :: Failure where
  "ex_failure = \<lparr>fl_Category = ''provider_unavailable'', fl_NextAttemptAt = 5000000, fl_ManualReview = False,
     fl_Uncertain = False, fl_Compensate = False\<rparr>"

definition ex_event :: WebhookRecord where
  "ex_event =
     \<lparr>wr_ID = 50, wr_Provider = ''sandbox'', wr_ProviderEventID = ''evt_1'', wr_EventType = ''payment.captured'',
      wr_ProviderPaymentID = ''pay_1'', wr_PayloadHash = replicate 32 4, wr_VerifiedKeyID = ''key1'', wr_EventCreatedAt = 5500,
      wr_ReceivedAt = 6000, wr_BodySizeBytes = 100, wr_Ignored = False\<rparr>"

text \<open>A provider that opens one checkout and refuses everything else, and a worker that uses it.\<close>

definition ex_client :: "unit Client" where
  "ex_client =
     \<lparr>pc_CreateCheckout = (\<lambda>request w. (Inr \<lparr>co_ProviderPaymentID = ''pay_1'', co_HostedReference = ''host_1'',
        co_SyntheticToken = ''token'', co_Status = StatusRequiresCustomerAction, co_AmountMinor = cc_AmountMinor request,
        co_Currency = cc_Currency request\<rparr>, w)),
      pc_GetPaymentStatus = (\<lambda>_ w. (Inl (OtherFailure ''down''), w)), pc_Authorize = (\<lambda>_ _ w. (Inl (OtherFailure ''down''), w)),
      pc_Capture = (\<lambda>_ w. (Inl (OtherFailure ''down''), w)), pc_Void = (\<lambda>_ w. (Inl (OtherFailure ''down''), w)),
      pc_Refund = (\<lambda>_ w. (Inl (OtherFailure ''down''), w))\<rparr>"

definition ex_worker :: "unit Worker" where
  "ex_worker =
     \<lparr>wk_config = \<lparr>wf_WorkerID = ''w1'', wf_BatchSize = 10, wf_MaxAttempts = 5, wf_LeaseTTL = 60000000000,
        wf_RetryBase = 1000000000, wf_RetryMax = 60000000000, wf_MaxUncertain = 3600000000000, wf_Interval = 1000000000,
        wf_Now = 3000\<rparr>,
      wk_providers = [''sandbox'' \<mapsto> ex_client],
      wk_shards = \<lparr>sc_IssueTickets = (\<lambda>_ w. (Inl (sentinel_error IsShardPaymentUnavailable), w)), sc_MarkRefundPending = (\<lambda>_ w. (Inl (sentinel_error IsShardPaymentUnavailable), w)),
        sc_CancelVoidedReservation = (\<lambda>_ w. (Inl (sentinel_error IsShardPaymentUnavailable), w)), sc_ApplyRefundCompensation = (\<lambda>_ w. (Inl (sentinel_error IsShardPaymentUnavailable), w))\<rparr>,
      wk_ids = ex_pay_ids, wk_unicode = \<lparr>uni_lower = (\<lambda>s. s), uni_upper = (\<lambda>s. s), uni_trim = (\<lambda>s. s)\<rparr>,
      wk_env = (\<lambda>_. pay_env_at 3000), wk_others = (\<lambda>_ db. db)\<rparr>"

definition ex_worker_state :: "unit WorkerState" where
  "ex_worker_state = \<lparr>ws_db = secured_db, ws_world = (), ws_calls = 0\<rparr>"

lemma returned: "\<not> isl (fst run) \<Longrightarrow> run = (Inr (projr (fst run)), snd run)"
  by (cases run; cases "fst run") auto

end
