(* ===== verification/Payment_Capture.thy ===== *)
theory Payment_Capture
  imports Payment_Flow
begin

text \<open>
  There is no way back to a capture. Once the saga of an intent has left the states before the capture, no transaction of
  the payment control plane puts it back into one of them, and a capture is claimed only while the saga is
  authorized.
\<close>

definition capture_begun :: "SagaRow \<Rightarrow> bool" where
  "capture_begun s \<longleftrightarrow>
     sg_state s \<notin> {SagaCreated, SagaReservationSecured, SagaCheckoutCreated, SagaAwaitingProvider, SagaAuthorized}"

definition past_capture :: "uuid \<Rightarrow> PaymentDb \<Rightarrow> bool" where
  "past_capture k db \<longleftrightarrow> (\<exists>s \<in> set (payment_sagas db). sg_intent s = k \<and> capture_begun s)"

interpretation past: payment_frame "past_capture k" for k
  by unfold_locales (auto simp: past_capture_def)

lemma past_update_operations [tx_keeps_rules]: "tx_keeps (past_capture k) (update_operations env label err wh upd)"
  by (auto simp: tx_keeps_def past_capture_def dest!: update_operations_Inr)

lemma past_update_sagas:
  assumes "\<And>db r. wh db r \<Longrightarrow> capture_begun r \<Longrightarrow> sg_intent (upd r) = sg_intent r \<and> capture_begun (upd r)"
  shows "tx_keeps (past_capture k) (update_sagas env label err wh upd)"
  unfolding tx_keeps_def
proof (intro allI impI)
  fix db n db'
  assume past: "past_capture k db" and run: "update_sagas env label err wh upd db = Inr (n, db')"
  then obtain s where s: "s \<in> set (payment_sagas db)" "sg_intent s = k" "capture_begun s" by (auto simp: past_capture_def)
  have "(if wh db s then upd s else s) \<in> set (payment_sagas db')" using update_sagas_Inr[OF run] s(1) by simp
  then show "past_capture k db'" using assms[of db s] s by (auto simp: past_capture_def split: if_splits)
qed

lemma past_set_saga_state:
  "(\<And>r. sg_state r = so \<Longrightarrow> capture_begun r \<Longrightarrow> sg_intent (supd r) = sg_intent r \<and> capture_begun (supd r)) \<Longrightarrow>
     tx_keeps (past_capture k) (set_saga_state env label intentID so supd)"
  unfolding set_saga_state_def by (rule past_update_sagas) simp

lemma past_releaseSagaLease [tx_keeps_rules]: "tx_keeps (past_capture k) (releaseSagaLease env intentID owner)"
  unfolding releaseSagaLease_def by (intro tx_keeps_rules past_update_sagas; simp add: capture_begun_def)

lemma past_applyOperationSuccess [tx_keeps_rules]: "tx_keeps (past_capture k) (applyOperationSuccess env claim evidence)"
  unfolding applyOperationSuccess_def by (intro tx_keeps_rules past_update_sagas past_set_saga_state; simp add: capture_begun_def)

lemma past_finalize [tx_keeps_rules]: "tx_keeps (past_capture k) (finalizeOperationFailure env claim cs ns failure)"
  unfolding finalizeOperationFailure_def by (intro tx_keeps_rules)

lemma past_confirmOperation [tx_keeps_rules]:
  "tx_keeps (past_capture k) (confirmOperation env intentID providerName kind amount cur status)"
  unfolding confirmOperation_def by (intro tx_keeps_rules)

lemma past_converge [tx_keeps_rules]:
  "tx_keeps (past_capture k) (convergeCapturedCancellation env intentID providerName amount cur leaseOwner)"
  unfolding convergeCapturedCancellation_def by (intro tx_keeps_rules past_update_sagas; simp add: capture_begun_def)

lemma past_confirmation [tx_keeps_rules]:
  "tx_keeps (past_capture k) (applyProviderConfirmation env intentID providerName intentState amount cur evidence)"
  unfolding applyProviderConfirmation_def advanceAuthorization_def advanceCapture_def
  by (intro tx_keeps_rules past_update_sagas past_set_saga_state; simp add: capture_begun_def)

subsection \<open>Transactions\<close>

lemma past_MarkReservationSecured:
  "past_capture k db \<Longrightarrow> past_capture k (snd (MarkReservationSecured env intentID commandID fingerprint db))"
  unfolding MarkReservationSecured_def mark_secured_tx_def
  by (rule run_tx_keeps) (intro tx_keeps_rules past_update_sagas; simp add: new_operation_def capture_begun_def)

lemma past_FailReservationSecuring:
  "past_capture k db \<Longrightarrow> past_capture k (snd (FailReservationSecuring env intentID fingerprint db))"
  unfolding FailReservationSecuring_def Let_def
  by (rule run_tx_keeps) (intro tx_keeps_rules past_update_sagas; simp add: capture_begun_def)

lemma past_RequestCancellation: "past_capture k db \<Longrightarrow> past_capture k (snd (RequestCancellation env request db))"
  unfolding RequestCancellation_def request_cancellation_tx_def write_cancellation_request_def
  by (rule run_tx_keeps) (intro tx_keeps_rules past_update_sagas; auto simp: new_operation_def capture_begun_def)

lemma past_ClaimOperations: "past_capture k db \<Longrightarrow> past_capture k (snd (ClaimOperations env options db))"
  unfolding ClaimOperations_def claim_operations_tx_def return_expired_operations_def retry_operations_def
    claim_pending_operations_def claim_uncertain_operations_def
  by (rule run_tx_keeps) (intro tx_keeps_rules past_update_sagas; simp add: capture_begun_def)

lemma past_ClaimActions: "past_capture k db \<Longrightarrow> past_capture k (snd (ClaimActions env options db))"
  unfolding ClaimActions_def claim_actions_tx_def
  by (rule run_tx_keeps) (intro tx_keeps_rules past_update_sagas; simp add: capture_begun_def)

lemma past_BeginOperation: "past_capture k db \<Longrightarrow> past_capture k (snd (BeginOperation env claim db))"
  unfolding BeginOperation_def by (rule run_tx_keeps) (intro tx_keeps_rules past_update_sagas; simp add: capture_begun_def)

lemma past_CompleteOperation: "past_capture k db \<Longrightarrow> past_capture k (snd (CompleteOperation env claim evidence db))"
  unfolding CompleteOperation_def by (rule run_tx_keeps) (intro tx_keeps_rules)

lemma past_Supersede: "past_capture k db \<Longrightarrow> past_capture k (snd (SupersedeVoidWithRefund env claim evidence db))"
  unfolding SupersedeVoidWithRefund_def by (rule run_tx_keeps) (intro tx_keeps_rules)

lemma past_FailOperation: "past_capture k db \<Longrightarrow> past_capture k (snd (FailOperation env claim failure db))"
  unfolding FailOperation_def by (rule run_tx_keeps) (intro tx_keeps_rules past_update_sagas; simp add: capture_begun_def)

lemma past_CompleteWebhook: "past_capture k db \<Longrightarrow> past_capture k (snd (CompleteWebhook env claim evidence db))"
  unfolding CompleteWebhook_def by (rule run_tx_keeps) (intro tx_keeps_rules)

lemma past_FailWebhook: "past_capture k db \<Longrightarrow> past_capture k (snd (FailWebhook env claim failure db))"
  unfolding FailWebhook_def by (rule run_tx_keeps) (intro tx_keeps_rules past_update_sagas past_set_saga_state; simp add: capture_begun_def)

lemma past_CompleteAction: "past_capture k db \<Longrightarrow> past_capture k (snd (CompleteAction env claim evidence db))"
  unfolding CompleteAction_def complete_action_tx_def writeTicketLocators_def move_claimed_intent_def
  by (rule run_tx_keeps) (intro tx_keeps_rules past_update_sagas; simp add: capture_begun_def saga_done_def)

lemma past_FailAction: "past_capture k db \<Longrightarrow> past_capture k (snd (FailAction env claim failure db))"
  unfolding FailAction_def fail_action_tx_def move_claimed_intent_def
  by (rule run_tx_keeps) (intro tx_keeps_rules past_update_sagas; simp add: capture_begun_def)

lemma pay_step_past: "pay_step db db' \<Longrightarrow> past_capture k db \<Longrightarrow> past_capture k db'"
  by (induction rule: pay_step.induct)
    (simp_all add: past.keeps_ReserveIntent past_MarkReservationSecured past_FailReservationSecuring past_RequestCancellation
      past.keeps_StoreVerified past_ClaimOperations past.keeps_ClaimWebhooks past_ClaimActions past_BeginOperation past_CompleteOperation
      past_Supersede past_FailOperation past_CompleteWebhook past.keeps_IgnoreWebhook past_FailWebhook past_CompleteAction past_FailAction)

lemma pay_steps_past: "pay_step\<^sup>*\<^sup>* db db' \<Longrightarrow> past_capture k db \<Longrightarrow> past_capture k db'"
  by (induction rule: rtranclp_induct) (auto intro: pay_step_past)

subsection \<open>Captures\<close>

lemma past_not_claimed:
  assumes "payments_ok db" "past_capture k db" "ClaimOperations env options db = (Inr claims, db')"
    and "c \<in> set claims" "oc_PreviousState c = OperationPending" "oc_PaymentIntentID c = k"
  shows "oc_Type c \<noteq> OperationCapture"
proof -
  obtain s where s: "s \<in> set (payment_sagas db)" "sg_intent s = k" "capture_begun s" using assms(2) by (auto simp: past_capture_def)
  obtain t where t: "t \<in> set (payment_sagas db)" "sg_intent t = k" "claimable_step (oc_Type c) t"
    using pending_claim_step[OF assms(3-5)] assms(6) by auto
  have "inj_on sg_intent (set (payment_sagas db))" using assms(1) by (auto simp: payments_ok_def links_ok_def distinct_map)
  then have "t = s" using inj_onD t(1,2) s(1,2) by metis
  with t(3) s(3) show ?thesis by (auto simp: claimable_step_def capture_begun_def)
qed

lemma failed_retryable_row:
  assumes "FailOperation env claim failure db = (Inr (), db')" "oc_PreviousState claim \<noteq> OperationUncertain"
    and "\<not> fl_ManualReview failure" "\<not> fl_Uncertain failure"
  shows "\<exists>r \<in> set (payment_operations db'). po_id r = oc_OperationID claim \<and> po_state r = OperationFailedRetryable \<and>
    po_next r = pg_timestamptz (fl_NextAttemptAt failure)"
  using assms unfolding FailOperation_def run_tx_Inr finalizeOperationFailure_def
  by (auto simp: Let_def dest!: in_transaction_Inr oneRow_operations(2)) (rule bexI [rotated], assumption, simp)

end
