(* ===== verification/Payment_Properties.thy ===== *)
theory Payment_Properties
  imports Payment_Example Payment_Capture
begin

text \<open>
  The properties of the payment control plane and of its worker, with the concrete payment at which they are
  applied.
\<close>

subsection \<open>Money\<close>

definition settled_minor :: "PaymentDb \<Rightarrow> uuid \<Rightarrow> OperationType \<Rightarrow> int64" where
  "settled_minor db intentID kind = sum_list (map po_amount (succeeded_rows db intentID kind))"

lemma one_per_kind:
  assumes "distinct (map (\<lambda>r. (po_intent r, po_type r)) (filter (\<lambda>r. po_type r \<noteq> OperationQueryStatus) rows))" "kind \<noteq> OperationQueryStatus"
    and "r \<in> set rows" "po_intent r = k \<and> po_type r = kind \<and> P r"
  shows "filter (\<lambda>r. po_intent r = k \<and> po_type r = kind \<and> P r) rows = [r]"
  using assms
proof (induction rows)
  case (Cons x rows)
  show ?case
  proof (cases "po_intent x = k \<and> po_type x = kind")
    case True
    then have "\<forall>y \<in> set rows. \<not> (po_intent y = k \<and> po_type y = kind)" using Cons.prems by (auto simp: image_iff) metis+
    with Cons.prems True show ?thesis by (auto simp: filter_empty_conv)
  next
    case False
    then have "r \<in> set rows" using Cons.prems by auto
    moreover have "distinct (map (\<lambda>r. (po_intent r, po_type r)) (filter (\<lambda>r. po_type r \<noteq> OperationQueryStatus) rows))"
      using Cons.prems(1) by (simp split: if_splits)
    ultimately show ?thesis using Cons.IH Cons.prems False by auto
  qed
qed simp

lemma succeeded_one:
  assumes "payments_ok db" "r \<in> set (payment_operations db)" "is_succeeded kind r" "kind \<noteq> OperationQueryStatus"
  shows "succeeded_rows db (po_intent r) kind = [r]"
  using assms one_per_kind[of "payment_operations db" kind r "po_intent r" "\<lambda>r. po_state r = OperationSucceeded"]
  by (simp add: payments_ok_def rows_ok_def operations_unique_def is_succeeded_def succeeded_rows_def)

lemma settled_cases:
  assumes "payments_ok db" "i \<in> set (payment_intents db)" "kind \<noteq> OperationQueryStatus"
  shows "succeeded_rows db (pi_id i) kind = [] \<and> settled_minor db (pi_id i) kind = 0 \<or>
    (\<exists>r \<in> set (payment_operations db). is_succeeded kind r \<and> po_intent r = pi_id i \<and> succeeded_rows db (pi_id i) kind = [r] \<and>
       settled_minor db (pi_id i) kind = pi_amount i)"
proof (cases "succeeded_rows db (pi_id i) kind")
  case (Cons r rs)
  then have "r \<in> set (succeeded_rows db (pi_id i) kind)" by simp
  then have r: "r \<in> set (payment_operations db)" "is_succeeded kind r" "po_intent r = pi_id i"
    by (auto simp: succeeded_rows_def is_succeeded_def)
  have "succeeded_rows db (pi_id i) kind = [r]" using succeeded_one[OF assms(1) r(1,2) assms(3)] r(3) by simp
  moreover have "po_amount r = pi_amount i" using operation_amount[OF assms(1) r(1) assms(2) r(3)] by simp
  ultimately show ?thesis using r by (auto simp: settled_minor_def)
qed (simp add: settled_minor_def)

text \<open>
  C5. In every state that the transactions of the service, of the webhook intake and of any number of workers reach
  from consistent tables, whatever their claims and evidence say: an intent has been captured for its whole amount or
  not at all, refunded for its whole amount or not at all and never without a capture, and an intent that was
  voided has not been captured.
\<close>

theorem payment_ledger:
  assumes "payments_ok db" "pay_step\<^sup>*\<^sup>* db db'" "i \<in> set (payment_intents db')"
  shows "settled_minor db' (pi_id i) OperationCapture \<in> {0, pi_amount i} \<and>
    settled_minor db' (pi_id i) OperationRefund \<in> {0, settled_minor db' (pi_id i) OperationCapture} \<and>
    (succeeded_rows db' (pi_id i) OperationVoid = [] \<or> settled_minor db' (pi_id i) OperationCapture = 0) \<and>
    length (succeeded_rows db' (pi_id i) OperationCapture) \<le> 1 \<and> length (succeeded_rows db' (pi_id i) OperationRefund) \<le> 1"
proof -
  have ok: "payments_ok db'" by (rule ledger.keeps_pay_steps [OF assms(2,1)])
  then have settled: "settled (payment_operations db')" by (simp add: payments_ok_def)
  have refund: "succeeded_rows db' (pi_id i) OperationRefund = []" if "succeeded_rows db' (pi_id i) OperationCapture = []"
    using settled that by (fastforce simp: settled_def succeeded_rows_def is_succeeded_def filter_empty_conv)
  have void: "succeeded_rows db' (pi_id i) OperationVoid = []" if "succeeded_rows db' (pi_id i) OperationCapture \<noteq> []"
    using settled that by (fastforce simp: settled_def succeeded_rows_def is_succeeded_def filter_empty_conv)
  show ?thesis
    using settled_cases[OF ok assms(3), of OperationCapture] settled_cases[OF ok assms(3), of OperationRefund] refund void
    by (auto simp: settled_minor_def)
qed

theorem payment_ledger_witness:
  "payments_ok captured_db \<and> pay_step\<^sup>*\<^sup>* captured_db (snd (ClaimActions (pay_env_at 9000) (ex_options ''w1'' 9000) captured_db)) \<and>
   settled_minor captured_db 1 OperationCapture = 5000 \<and>
   settled_minor (snd (ClaimActions (pay_env_at 9000) (ex_options ''w1'' 9000) captured_db)) 1 OperationRefund \<in> {0, 5000}"
proof -
  let ?db = "snd (ClaimActions (pay_env_at 9000) (ex_options ''w1'' 9000) captured_db)"
  have step: "pay_step\<^sup>*\<^sup>* captured_db ?db" by (rule r_into_rtranclp) (rule pay_step.claim_actions)
  have mem: "ex_intent IntentTicketIssuePending (Some ''pay_1'') \<in> set (payment_intents ?db)" by code_simp
  have "settled_minor captured_db 1 OperationCapture = 5000" by code_simp
  moreover have "settled_minor ?db 1 OperationCapture \<in> {0, 5000}"
    using payment_ledger[OF examples_ok(4) step mem] by (simp add: ex_intent_def)
  ultimately show ?thesis
    using payment_ledger[OF examples_ok(4) step mem] step examples_ok(4) by (auto simp: ex_intent_def)
qed

text \<open>
  C23. The store refines the domain aggregates: across any transactions an intent, an operation and a saga keep
  their identity, their owner and their money, their states move along the transition tables of the domain package
  (but for a completed saga, which a refund reopens), and an operation that has succeeded keeps the evidence of it.
\<close>

theorem payment_rows_follow_domain:
  assumes "pay_step\<^sup>*\<^sup>* db db'"
  shows "later_rows intent_later (payment_intents db) (payment_intents db') \<and>
    later_rows operation_later (payment_operations db) (payment_operations db') \<and>
    later_rows saga_later (payment_sagas db) (payment_sagas db')"
  using pay_steps_later[OF assms] by (simp add: later_than_def)

theorem payment_rows_follow_domain_witness:
  "pay_step\<^sup>*\<^sup>* secured_db (snd (ClaimOperations (pay_env_at 3000) (ex_options ''w1'' 3000) secured_db)) \<and>
   later_rows operation_later (payment_operations secured_db)
     (payment_operations (snd (ClaimOperations (pay_env_at 3000) (ex_options ''w1'' 3000) secured_db)))"
proof -
  have step: "pay_step\<^sup>*\<^sup>* secured_db (snd (ClaimOperations (pay_env_at 3000) (ex_options ''w1'' 3000) secured_db))"
    by (rule r_into_rtranclp) (rule pay_step.claim_operations)
  then show ?thesis using payment_rows_follow_domain[OF step] by simp
qed

subsection \<open>Leases\<close>

text \<open>
  C6. Two workers never hold the same operation. What one claim has returned, no claim returns again while the lease of
  the first lasts, whatever transactions of the service, of the webhook intake and of any workers have run in between,
  in any order, claims, begins and outcomes included; only the holder's own report of a failure gives the operation back.
  An operation that is uncertain is held by the lease of its saga, and is not returned while that lease stands.
\<close>

theorem operation_claims_exclusive:
  assumes "payments_ok db" "ClaimOperations env options db = (Inr claims, db1)" "c \<in> set claims"
    and "(held_step c)\<^sup>*\<^sup>* db1 db2"
    and "ClaimOperations env' options' db2 = (Inr claims', db3)" "claim_now options' \<le> claim_until options"
  shows "oc_LeaseOwner c = cl_WorkerID options \<and> oc_LeaseUntil c = claim_until options \<and>
    oc_OperationID c \<notin> oc_OperationID ` set claims'"
proof -
  have ok: "payments_ok db1" using ledger.keeps_ClaimOperations[OF assms(1), of env options] assms(2) by simp
  have lease: "oc_LeaseOwner c = cl_WorkerID options \<and> oc_LeaseUntil c = claim_until options"
    using ClaimOperations_spec[OF assms(2)] assms(3) by metis
  have held: "payments_ok db2" "kept_operation c db2" "lease_stands c db2"
    using held_steps_kept[OF assms(4) ok] claims_kept[OF assms(2) ok assms(3)] by auto
  obtain due selected where two: "claims_from options' db2 due selected db3"
    "\<And>d. d \<in> set claims' \<Longrightarrow> oc_OperationID d \<in> po_id ` set due \<or> oc_OperationID d \<in> po_id ` snd ` set selected"
    using ClaimOperations_spec[OF assms(5)] by metis
  have "oc_OperationID d \<noteq> oc_OperationID c" if "d \<in> set claims'" for d
    using two(2)[OF that] kept_not_claimed(1,2)[OF held(1,2) _ held(3) two(1)] lease assms(6) by metis
  then show ?thesis using lease by force
qed

theorem operation_claims_exclusive_witness:
  "let run = ClaimOperations (pay_env_at 3000) (ex_options ''w1'' 3000) secured_db; c = hd (projr (fst run));
       begun = BeginOperation (pay_env_at 3200) c (snd run);
       again = ClaimOperations (pay_env_at 3500) (ex_options ''w2'' 3500) (snd begun) in
   map oc_OperationID (projr (fst run)) = [40] \<and> fst begun = Inr () \<and> \<not> isl (fst again) \<and>
   40 \<notin> oc_OperationID ` set (projr (fst again))"
proof -
  let ?run = "ClaimOperations (pay_env_at 3000) (ex_options ''w1'' 3000) secured_db"
  let ?c = "hd (projr (fst ?run))"
  let ?begun = "BeginOperation (pay_env_at 3200) ?c (snd ?run)"
  let ?again = "ClaimOperations (pay_env_at 3500) (ex_options ''w2'' 3500) (snd ?begun)"
  have run: "\<not> isl (fst ?run)" "map oc_OperationID (projr (fst ?run)) = [40]" "fst ?begun = Inr ()" by code_simp+
  have again: "\<not> isl (fst ?again)" by code_simp
  have c: "?c \<in> set (projr (fst ?run))" "oc_OperationID ?c = 40" using run(2) by (cases "projr (fst ?run)"; auto)+
  have "oc_PreviousState ?c = OperationPending" by code_simp
  then have "(held_step ?c)\<^sup>*\<^sup>* (snd ?run) (snd ?begun)"
    by (intro r_into_rtranclp) (simp add: held_step_def held_call.begin_operation lease_stands_def)
  moreover have "claim_now (ex_options ''w2'' 3500) \<le> claim_until (ex_options ''w1'' 3000)" by code_simp
  ultimately show ?thesis
    using operation_claims_exclusive[OF examples_ok(1) returned[OF run(1)] c(1) _ returned[OF again]] run again c(2)
    by (simp add: Let_def)
qed

subsection \<open>The worker\<close>

text \<open>
  C7. An uncertain operation is never sent again: what processing it does, to the tables and to the world, is the
  same for any two providers that answer alike when asked for the status of its payment and, for a checkout whose
  payment is not known, when the checkout is repeated under its own key; how they would authorize, capture, void or
  refund does not matter.
\<close>

theorem uncertain_never_resent:
  assumes "oc_PreviousState claim = OperationUncertain"
    and "\<And>name. rel_option (same_answers (wk_ids worker) claim) (wk_providers worker name) (providers name)"
  shows "processOperation (worker\<lparr>wk_providers := providers\<rparr>) now claim result st = processOperation worker now claim result st"
proof -
  have ask: "ask_provider (worker\<lparr>wk_providers := providers\<rparr>) now claim result st = ask_provider worker now claim result st"
    using assms(1) assms(2)[of "oc_Provider claim"]
    unfolding ask_provider_def failOperation_def providers_unused providers_fields settle_providers
    by (cases "wk_providers worker (oc_Provider claim)"; cases "providers (oc_Provider claim)") (simp_all add: queryUncertain_same)
  show ?thesis
    using assms(1) ask unfolding processOperation_def failInvalidOperation_def failOperation_def providers_unused providers_fields by simp
qed

theorem uncertain_never_resent_witness:
  "let claim = ex_claim OperationCapture 41 OperationUncertain;
       other = [''sandbox'' \<mapsto> ex_client\<lparr>pc_Capture := \<lambda>_ w. (Inl (OtherFailure ''sent twice''), w)\<rparr>] in
   oc_PreviousState claim = OperationUncertain \<and>
   processOperation (ex_worker\<lparr>wk_providers := other\<rparr>) 3000 claim no_result ex_worker_state =
   processOperation ex_worker 3000 claim no_result ex_worker_state"
proof -
  let ?claim = "ex_claim OperationCapture 41 OperationUncertain"
  have "oc_PreviousState ?claim = OperationUncertain" by code_simp
  moreover have "rel_option (same_answers (wk_ids ex_worker) ?claim) (wk_providers ex_worker name)
    ([''sandbox'' \<mapsto> ex_client\<lparr>pc_Capture := \<lambda>_ w. (Inl (OtherFailure ''sent twice''), w)\<rparr>] name)" for name
    by (simp add: ex_worker_def same_answers_def ex_claim_def)
  ultimately show ?thesis using uncertain_never_resent[of ?claim ex_worker] by simp
qed

text \<open>
  A run accounts for everything it has claimed: an item is counted once as done, retried, compensating or under
  review, and one that is not counted is among the failures the run returns.
\<close>

lemma run_once_accounts:
  assumes "RunOnce worker st = ((result, failures), st')"
  shows "handled result \<le> claimed result \<and> claimed result \<le> handled result + length failures \<and>
    (wf_Now (wk_config worker) \<noteq> 0 \<longrightarrow> rs_Failures result = length failures)"
  using assms run_lanes_balanced[of worker st]
  by (auto simp: RunOnce_def lane_balanced_def handled_def claimed_def no_result_def split: if_splits prod.splits)

text \<open>
  Whatever text an error carries, the category that the worker records of it fits the column: a lower-case
  letter followed by at most 63 lower-case letters, digits and underscores.
\<close>

lemma recorded_category_fits: "categoryPattern (boundedCategory u value)"
proof -
  define s where "s = bounded_loop [] (ToLower u value)"
  have "list_all category_char s \<and> length s \<le> 64" unfolding s_def by (rule bounded_loop_chars) simp_all
  then have "list_all category_char (trim_underscores s)" "length (trim_underscores s) \<le> 64"
    using trim_underscores_sub[of s] by (auto simp: list_all_iff)
  moreover have "categoryPattern ''worker_failure''" by code_simp
  ultimately show ?thesis
    by (auto simp: boundedCategory_def categoryPattern_def category_char_def [abs_def] s_def [symmetric] Let_def)
qed

subsection \<open>The steps of a payment\<close>

text \<open>
  C24. A command that a worker takes to a shard rests on evidence: tickets are issued and a refund is marked only for
  an intent whose capture of that amount has succeeded, a reservation is cancelled only after the void, and
  compensated only after the refund, and the command carries the fingerprint of that operation's response.
\<close>

theorem actions_have_proof:
  assumes "payments_ok db" "ClaimActions env options db = (Inr claims, db')" "c \<in> set claims"
  shows "command_backed db c"
  using claim_actions_origin[OF assms(2,3)] built_claim_backed[OF assms(1)] by metis

theorem actions_have_proof_witness:
  "\<exists>c. projr (fst (ClaimActions (pay_env_at 9000) (ex_options ''w1'' 9000) captured_db)) = [c] \<and> command_backed captured_db c"
proof -
  let ?run = "ClaimActions (pay_env_at 9000) (ex_options ''w1'' 9000) captured_db"
  have run: "\<not> isl (fst ?run)" "length (projr (fst ?run)) = 1" by code_simp+
  then obtain c where "projr (fst ?run) = [c]" by (auto simp: length_Suc_conv)
  then show ?thesis using actions_have_proof[OF examples_ok(4) returned[OF run(1)], of c] by simp
qed

text \<open>
  C25. Completing a capture is atomic: either an error leaves every table as it was, or the operation has succeeded
  with the evidence of it and its lease given up, the intent waits for its tickets, and the saga is at the step that
  issues them.
\<close>

theorem capture_completes_together:
  assumes "CompleteOperation env claim evidence db = (answer, db')" "oc_Type claim = OperationCapture"
  shows "(isl answer \<and> db' = db) \<or> (answer = Inr () \<and> capture_recorded claim evidence db')"
proof (cases answer)
  case (Inl e)
  then show ?thesis using assms(1) unfolding CompleteOperation_def by (auto dest: run_tx_rolled_back)
next
  case (Inr u)
  then show ?thesis using capture_completed[of env claim evidence db db'] assms by simp
qed

theorem capture_completes_together_witness:
  "let claim = ex_claim OperationCapture 41 OperationPending in
   capture_recorded claim ex_evidence (snd (CompleteOperation (pay_env_at 5000) claim ex_evidence capturing_db))"
proof -
  let ?claim = "ex_claim OperationCapture 41 OperationPending"
  let ?run = "CompleteOperation (pay_env_at 5000) ?claim ex_evidence capturing_db"
  have "\<not> isl (fst ?run)" by code_simp
  moreover have "oc_Type ?claim = OperationCapture" by code_simp
  ultimately show ?thesis
    using capture_completes_together[of "pay_env_at 5000" ?claim ex_evidence capturing_db "fst ?run" "snd ?run"] by auto
qed

text \<open>
  C26. A provider event is stored once under its identity. Accepted, it is new and is kept with its hash; a
  duplicate changes nothing; an event with another body leaves every stored hash alone, is kept as a conflict and
  takes the stored event out of processing. Operations, intents and sagas are not touched, and an error changes
  nothing at all.
\<close>

theorem webhook_stored_once:
  assumes "payments_ok db" "StoreVerified env fresh r db = (answer, db')"
  shows "(isl answer \<and> db' = db) \<or>
    (\<exists>result. answer = Inr result \<and> stored_as r result db db' \<and> payment_operations db' = payment_operations db \<and>
       payment_intents db' = payment_intents db \<and> payment_sagas db' = payment_sagas db)"
proof (cases answer)
  case (Inl e)
  then show ?thesis using assms(2) unfolding StoreVerified_def by (auto dest: run_tx_rolled_back)
next
  case (Inr result)
  then have tx: "store_verified_tx env fresh r db = Inr (result, db')" using assms(2) by (simp add: StoreVerified_def run_tx_Inr)
  then have "stored_as r result db db'"
    using assms(1) by (cases result) (auto intro: store_accepted store_duplicate store_conflict)
  then show ?thesis using Inr store_verified_frame[OF tx] by simp
qed

theorem webhook_stored_once_witness:
  "stored_as ex_event StoreAccepted awaiting_db (snd (StoreVerified (pay_env_at 6000) 51 ex_event awaiting_db))"
proof -
  let ?run = "StoreVerified (pay_env_at 6000) 51 ex_event awaiting_db"
  have "fst ?run = Inr StoreAccepted" by code_simp
  then show ?thesis using webhook_stored_once[OF examples_ok(2) surjective_pairing [of ?run]] by auto
qed

text \<open>
  C35. A capture that has been begun and then failed in a way that may be retried is never sent again. Beginning it moves
  the saga on to capturing; the failure marks the operation for a retry at the given time and leaves the
  saga where it is; and whatever transactions of the service, of the webhook intake and of the workers follow, none puts
  the saga back to authorized, so that no claim takes a capture of this intent to be sent.
\<close>

theorem capture_retry_stranded:
  assumes "payments_ok db" "BeginOperation env claim db = (Inr (), db1)" "oc_Type claim = OperationCapture"
    and "FailOperation env' claim failure db1 = (Inr (), db2)" "\<not> fl_ManualReview failure" "\<not> fl_Uncertain failure"
    and "pay_step\<^sup>*\<^sup>* db2 db3" "ClaimOperations env'' options db3 = (Inr claims, db4)"
  shows "(\<exists>r \<in> set (payment_operations db2). po_id r = oc_OperationID claim \<and> po_state r = OperationFailedRetryable \<and>
      po_next r = pg_timestamptz (fl_NextAttemptAt failure)) \<and>
    (\<forall>c \<in> set claims. oc_PaymentIntentID c = oc_PaymentIntentID claim \<and> oc_PreviousState c = OperationPending \<longrightarrow>
      oc_Type c \<noteq> OperationCapture)"
proof -
  have "payments_ok db2"
    using ledger.keeps_FailOperation[OF ledger.keeps_BeginOperation[OF assms(1), of env claim], of env' claim failure] assms(2,4) by simp
  then have ok: "payments_ok db3" using assms(7) ledger.keeps_pay_steps by blast
  obtain s where s: "oc_PreviousState claim \<noteq> OperationUncertain" "s \<in> set (payment_sagas db1)"
      "sg_intent s = oc_PaymentIntentID claim" "sg_state s = SagaCapturing"
    using begin_capture_saga[OF assms(2,3)] by auto
  then have "past_capture (oc_PaymentIntentID claim) db2"
    using fail_operation_sagas[OF assms(4,5)] by (auto simp: past_capture_def capture_begun_def)
  then have "past_capture (oc_PaymentIntentID claim) db3" by (rule pay_steps_past [OF assms(7)])
  then show ?thesis using past_not_claimed[OF ok _ assms(8)] failed_retryable_row[OF assms(4) s(1) assms(5,6)] by blast
qed

theorem capture_retry_stranded_witness:
  "let claim = ex_claim OperationCapture 41 OperationPending;
       begun = BeginOperation (pay_env_at 4000) claim authorized_db;
       failed = FailOperation (pay_env_at 5000) claim ex_failure (snd begun);
       first_claim = ClaimOperations (pay_env_at 6000000) (ex_options ''w1'' 6000000) (snd failed);
       run = ClaimOperations (pay_env_at 7000000) (ex_options ''w1'' 7000000) (snd first_claim) in
   fst begun = Inr () \<and> fst failed = Inr () \<and> map po_state (payment_operations (snd run)) = [OperationSucceeded, OperationPending] \<and>
   (\<forall>c \<in> set (projr (fst run)). oc_PaymentIntentID c = 1 \<and> oc_PreviousState c = OperationPending \<longrightarrow> oc_Type c \<noteq> OperationCapture)"
proof -
  let ?claim = "ex_claim OperationCapture 41 OperationPending"
  let ?begun = "BeginOperation (pay_env_at 4000) ?claim authorized_db"
  let ?failed = "FailOperation (pay_env_at 5000) ?claim ex_failure (snd ?begun)"
  let ?first = "ClaimOperations (pay_env_at 6000000) (ex_options ''w1'' 6000000) (snd ?failed)"
  let ?run = "ClaimOperations (pay_env_at 7000000) (ex_options ''w1'' 7000000) (snd ?first)"
  have states: "fst ?begun = Inr ()" "fst ?failed = Inr ()" "\<not> isl (fst ?run)"
    "map po_state (payment_operations (snd ?run)) = [OperationSucceeded, OperationPending]" by code_simp+
  have runs: "?begun = (Inr (), snd ?begun)" "?failed = (Inr (), snd ?failed)" using states by (simp_all add: prod_eq_iff)
  have kinds: "oc_Type ?claim = OperationCapture" "\<not> fl_ManualReview ex_failure" "\<not> fl_Uncertain ex_failure" by code_simp+
  have intent: "oc_PaymentIntentID ?claim = 1" by code_simp
  have step: "pay_step\<^sup>*\<^sup>* (snd ?failed) (snd ?first)" by (rule r_into_rtranclp) (rule pay_step.claim_operations)
  show ?thesis
    using capture_retry_stranded[OF examples_ok(3) runs(1) kinds(1) runs(2) kinds(2,3) step returned[OF states(3)]] states intent
    by (simp add: Let_def)
qed

text \<open>
  The tables stay well formed through a whole run of the worker, whatever its providers and shards answer, where
  its calls fail and whichever transactions of others fall between them.
\<close>

lemma run_once_well_formed:
  assumes "payments_ok (ws_db st)" "\<And>n db. pay_step\<^sup>*\<^sup>* db (wk_others worker n db)"
  shows "payments_ok (ws_db (snd (RunOnce worker st)))"
  using ledger_run.keeps_RunOnce[of st worker] assms(1) among_transactions_id[of worker, OF assms(2)] by simp

end
