(* ===== verification/Payment_Reconciler.thy ===== *)
theory Payment_Reconciler
  imports Payment_Db Provider_Boundary "HOL-Library.List_Lexorder" "HOL-Library.Char_ord"
begin

text \<open>
  Reconciliation of payments (\<^verbatim>\<open>internal/payment/reconcile\<close>): what the control plane, the shard and the provider say of
  one intent is compared, every disagreement is a finding with a fixed code, and a finding is escalated to manual
  review or, in a confirmed repair, settled by replaying a command that is already recorded.

  The store, the repairer, the providers, the clock and the cancellation of the context are arguments that act on an
  outside world \<open>'w\<close>.
\<close>

subsection \<open>Types\<close>

datatype Scope = ScopeIntents | ScopeOperations | ScopeWebhooks | ScopeTickets | ScopeProvider | ScopeAll | ScopeOther string

definition Scope_Valid :: "Scope \<Rightarrow> bool" where
  "Scope_Valid scope \<longleftrightarrow> (case scope of ScopeOther _ \<Rightarrow> False | _ \<Rightarrow> True)"

datatype ReconcileError =
    RecInvalidConfiguration | RecInvalidRequest | RecRepairConfirmation | RecRepairUnavailable | RecFailed string
  | RecNoRows | RecWrapped string ReconcileError | RecJoined ReconcileError ReconcileError

record ReconIntent =
  in_ID :: uuid
  in_ReservationID :: uuid
  in_TrainRunID :: uuid
  in_Provider :: string
  in_ProviderPaymentID :: string
  in_State :: IntentState
  in_AmountMinor :: int64
  in_Currency :: string
  in_Fingerprint :: "byte list"
  in_ActiveForReservation :: int

record ReconSaga =
  ns_ID :: uuid
  ns_State :: SagaState
  ns_Step :: "SagaStep option"
  ns_ErrorCategory :: string
  ns_ActiveCount :: int

record ReconOperation =
  no_ID :: uuid
  no_Type :: OperationType
  no_State :: OperationState
  no_ProviderOperationID :: string
  no_AmountMinor :: int64
  no_Currency :: string
  no_EvidenceHash :: "byte list"

record ControlSnapshot =
  ct_Intent :: ReconIntent
  ct_Saga :: ReconSaga
  ct_Operations :: "ReconOperation list"
  ct_DuplicateProviderEventIDs :: int
  ct_ProviderEventHashConflicts :: int
  ct_OpenManualReviewCases :: int
  ct_ActiveReconciliationCases :: int

record RecordedCommand =
  rc_ID :: uuid
  rc_Kind :: string
  rc_Fingerprint :: "byte list"

record ShardSnapshot =
  ss_Found :: bool
  ss_DirectoryResolved :: bool
  ss_ReservationState :: string
  ss_ReservationAmountMinor :: int64
  ss_ReservationCurrency :: string
  ss_ReservationSeatCount :: int
  ss_TicketOrderFound :: bool
  ss_TicketOrderID :: uuid
  ss_TicketOrderState :: string
  ss_TicketOrderAmountMinor :: int64
  ss_TicketOrderCurrency :: string
  ss_IssuanceReceiptFound :: bool
  ss_IssuancePaymentIntentID :: uuid
  ss_BeginReceiptFound :: bool
  ss_BeginCommandID :: uuid
  ss_RefundPendingReceiptFound :: bool
  ss_CancellationReceiptFound :: bool
  ss_CompensationReceiptFound :: bool
  ss_ReceiptFingerprint :: "byte list"
  ss_ActiveTicketCount :: int
  ss_RefundPendingTicketCount :: int
  ss_CancelledTicketCount :: int
  ss_DuplicateTicketCodeCount :: int
  ss_MissingTicketCodeClaims :: int
  ss_ConflictingTicketCodes :: int
  ss_UnexpectedTicketCodeClaims :: int
  ss_RecordedCommands :: "RecordedCommand list"

definition no_digest :: "byte list" where
  "no_digest = replicate 32 0"

definition zero_shard_snapshot :: ShardSnapshot where
  "zero_shard_snapshot =
     \<lparr>ss_Found = False, ss_DirectoryResolved = False, ss_ReservationState = [], ss_ReservationAmountMinor = 0,
      ss_ReservationCurrency = [], ss_ReservationSeatCount = 0, ss_TicketOrderFound = False, ss_TicketOrderID = uuid_Nil,
      ss_TicketOrderState = [], ss_TicketOrderAmountMinor = 0, ss_TicketOrderCurrency = [], ss_IssuanceReceiptFound = False,
      ss_IssuancePaymentIntentID = uuid_Nil, ss_BeginReceiptFound = False, ss_BeginCommandID = uuid_Nil,
      ss_RefundPendingReceiptFound = False, ss_CancellationReceiptFound = False, ss_CompensationReceiptFound = False,
      ss_ReceiptFingerprint = no_digest, ss_ActiveTicketCount = 0, ss_RefundPendingTicketCount = 0, ss_CancelledTicketCount = 0,
      ss_DuplicateTicketCodeCount = 0, ss_MissingTicketCodeClaims = 0, ss_ConflictingTicketCodes = 0,
      ss_UnexpectedTicketCodeClaims = 0, ss_RecordedCommands = []\<rparr>"

record Finding =
  fd_Code :: string
  fd_Repairable :: bool
  fd_CommandID :: uuid
  fd_commandFingerprint :: "byte list"

record Report =
  rt_PaymentIntentID :: uuid
  rt_Scope :: Scope
  rt_RowsExamined :: int
  rt_Findings :: "Finding list"
  rt_ProviderQueried :: bool
  rt_RepairsApplied :: int
  rt_Truncated :: bool
  rt_ShardFound :: bool
  rt_TicketOrderFound :: bool
  rt_TicketOrderState :: string

record ReconResult =
  rr_Scope :: Scope
  rr_ReadOnly :: bool
  rr_RowsExamined :: int
  rr_MismatchCount :: int
  rr_RepairCount :: int
  rr_ManualReviews :: int
  rr_Truncated :: bool
  rr_Reports :: "Report list"

record Checkpoint =
  ck_ID :: uuid
  ck_Scope :: Scope
  ck_PaymentIntentID :: uuid
  ck_Repair :: bool
  ck_StartedAt :: gotime

record CheckpointResult =
  kr_RowsExamined :: int
  kr_MismatchCount :: int
  kr_RepairCount :: int
  kr_Truncated :: bool
  kr_Failed :: bool
  kr_ErrorCategory :: string
  kr_CompletedAt :: gotime

record ReconOptions =
  ro_Scope :: Scope
  ro_Limit :: int
  ro_Repair :: bool
  ro_ConfirmRepair :: bool

type_synonym ('w, 'a) rcall = "'w \<Rightarrow> (ReconcileError + 'a) \<times> 'w"

record 'w ReconStore =
  st_CandidateIntentIDs :: "Scope \<Rightarrow> gotime \<Rightarrow> int \<Rightarrow> ('w, uuid list \<times> bool) rcall"
  st_LoadControlSnapshot :: "uuid \<Rightarrow> ('w, ControlSnapshot) rcall"
  st_LoadShardSnapshot :: "uuid \<Rightarrow> ('w, ShardSnapshot) rcall"
  st_StartCheckpoint :: "Scope \<Rightarrow> uuid \<Rightarrow> bool \<Rightarrow> gotime \<Rightarrow> ('w, Checkpoint) rcall"
  st_FinishCheckpoint :: "Checkpoint \<Rightarrow> CheckpointResult \<Rightarrow> ('w, unit) rcall"
  st_EscalateManualReview :: "uuid \<Rightarrow> uuid \<Rightarrow> string \<Rightarrow> gotime \<Rightarrow> ('w, bool) rcall"

type_synonym 'w StatusQuerier = "string \<Rightarrow> ('w, ProviderPayment) rcall"

record 'w Reconciler =
  rn_store :: "'w ReconStore"
  rn_providers :: "(string \<rightharpoonup> 'w StatusQuerier) option"
  rn_repairer :: "(uuid \<Rightarrow> RecordedCommand \<Rightarrow> ('w, unit) rcall) option"
  rn_BatchSize :: int
  rn_StaleAfter :: int64
  rn_ReviewDue :: int64
  rn_Now :: "'w \<Rightarrow> gotime \<times> 'w"
  rn_ctxErr :: "'w \<Rightarrow> ReconcileError option"

abbreviation (input) MaxBatchSize :: int where
  "MaxBatchSize \<equiv> 1000"

abbreviation (input) MaxFindingsPerIntent :: nat where
  "MaxFindingsPerIntent \<equiv> 64"

definition New_reconciler :: "'w Reconciler \<Rightarrow> ReconcileError + 'w Reconciler" where
  "New_reconciler r =
     (if rn_BatchSize r < 1 \<or> MaxBatchSize < rn_BatchSize r \<or> rn_StaleAfter r \<le> 0 \<or> rn_ReviewDue r \<le> 0
      then Inl RecInvalidConfiguration else Inr r)"

subsection \<open>Checks\<close>

text \<open>
  A check is a condition and the code of the finding it gives; no check reads what others have found, so each
  \<^verbatim>\<open>check\<close> function is the list of its checks in the order of the code. \<open>add_finding\<close> is the closure \<^verbatim>\<open>add\<close>: a
  code is recorded once, and beyond the limit the report is only marked as truncated.
\<close>

type_synonym check = "bool \<times> string"

definition add_finding :: "string \<Rightarrow> Report \<Rightarrow> Report" where
  "add_finding code report =
     (if code \<in> fd_Code ` set (rt_Findings report) then report
      else if MaxFindingsPerIntent \<le> length (rt_Findings report) then report\<lparr>rt_Truncated := True\<rparr>
      else report\<lparr>rt_Findings := rt_Findings report @
        [\<lparr>fd_Code = code, fd_Repairable = False, fd_CommandID = uuid_Nil, fd_commandFingerprint = no_digest\<rparr>]\<rparr>)"

definition run_checks :: "check list \<Rightarrow> Report \<Rightarrow> Report" where
  "run_checks checks report = fold (\<lambda>(holds, code) r. if holds then add_finding code r else r) checks report"

definition hasSucceeded :: "ReconOperation list \<Rightarrow> OperationType \<Rightarrow> bool" where
  "hasSucceeded operations kind \<longleftrightarrow> list_ex (\<lambda>p. no_Type p = kind \<and> no_State p = OperationSucceeded) operations"

fun add_amounts :: "ReconOperation list \<Rightarrow> OperationType \<Rightarrow> int64 \<Rightarrow> int64" where
  "add_amounts [] kind total_minor = total_minor"
| "add_amounts (p # ps) kind total_minor =
     add_amounts ps kind (if no_Type p = kind \<and> no_State p = OperationSucceeded then wrap64 (total_minor + no_AmountMinor p) else total_minor)"

definition succeededAmount :: "ReconOperation list \<Rightarrow> OperationType \<Rightarrow> int64" where
  "succeededAmount operations kind = add_amounts operations kind 0"

fun duplicate_identities :: "string set \<Rightarrow> ReconOperation list \<Rightarrow> check list" where
  "duplicate_identities seen [] = []"
| "duplicate_identities seen (p # ps) =
     (let ref = no_ProviderOperationID p in
      if ref = [] then duplicate_identities seen ps
      else (ref \<in> seen, ''duplicate_provider_operation_id'') # duplicate_identities (insert ref seen) ps)"

definition count_kind :: "ReconOperation list \<Rightarrow> OperationType \<Rightarrow> nat" where
  "count_kind operations kind = length (filter (\<lambda>p. no_Type p = kind) operations)"

definition count_succeeded :: "ReconOperation list \<Rightarrow> OperationType \<Rightarrow> nat" where
  "count_succeeded operations kind = length (filter (\<lambda>p. no_Type p = kind \<and> no_State p = OperationSucceeded) operations)"

definition checkControl :: "Scope \<Rightarrow> ControlSnapshot \<Rightarrow> check list" where
  "checkControl scope s =
     (let i = ct_Intent s; g = ct_Saga s; ps = ct_Operations s;
          captured = succeededAmount ps OperationCapture; refunded = succeededAmount ps OperationRefund;
          succeededCaptures = count_succeeded ps OperationCapture in
      (if scope = ScopeIntents \<or> scope = ScopeAll then
         [(1 < in_ActiveForReservation i, ''multiple_active_payment_intents''),
          (1 < ns_ActiveCount g, ''multiple_active_payment_sagas''),
          (ns_ID g = uuid_Nil, ''payment_saga_missing''),
          (in_State i = IntentManualReview \<and> ct_OpenManualReviewCases s = 0, ''manual_review_not_visible'')]
       else []) @
      (if scope = ScopeWebhooks \<or> scope = ScopeAll then
         [(0 < ct_DuplicateProviderEventIDs s, ''duplicate_provider_event_id''),
          (0 < ct_ProviderEventHashConflicts s, ''provider_event_payload_conflict'')]
       else []) @
      (if scope \<noteq> ScopeOperations \<and> scope \<noteq> ScopeAll then []
       else duplicate_identities {} ps @
         [(1 < count_kind ps OperationCapture, ''duplicate_capture_operation''),
          (1 < count_kind ps OperationRefund, ''duplicate_refund_operation''),
          (0 < succeededCaptures \<and> captured \<noteq> in_AmountMinor i, ''captured_amount_mismatch''),
          (captured < refunded, ''refund_exceeds_capture''),
          (ns_State g = SagaCompleted \<and> (succeededCaptures \<noteq> 1 \<or> captured \<noteq> in_AmountMinor i), ''completed_saga_without_full_capture''),
          (list_ex (\<lambda>p. no_State p = OperationUncertain) ps \<and> ct_ActiveReconciliationCases s = 0,
             ''uncertain_operation_without_reconciliation'')]))"

definition capturedRequiresIssuedTickets :: "ControlSnapshot \<Rightarrow> ShardSnapshot \<Rightarrow> bool \<Rightarrow> bool \<Rightarrow> bool" where
  "capturedRequiresIssuedTickets control shard refunded voided \<longleftrightarrow>
     \<not> (refunded \<or> voided) \<and>
     (if in_State (ct_Intent control) \<in> {IntentRefundPending, IntentRefunded, IntentVoided, IntentCancelled} then False
      else if in_State (ct_Intent control) = IntentManualReview then
        \<not> (ns_State (ct_Saga control) = SagaManualReview \<and> ns_Step (ct_Saga control) = Some StepRefund \<and>
           ns_ErrorCategory (ct_Saga control) = ''database_finalize_failed'' \<and> ss_RefundPendingReceiptFound shard)
      else True)"

definition controlFinalizeIncomplete :: "ControlSnapshot \<Rightarrow> IntentState \<Rightarrow> SagaState \<Rightarrow> SagaStep \<Rightarrow> bool \<Rightarrow> bool" where
  "controlFinalizeIncomplete control intentState sagaState step intentMayBeManual \<longleftrightarrow>
     (let i = ct_Intent control; g = ct_Saga control in
      in_State i = intentState \<and> ns_State g = sagaState \<and> ns_Step g = Some step \<or>
      (in_State i = intentState \<or> intentMayBeManual \<and> in_State i = IntentManualReview) \<and>
      ns_State g = SagaManualReview \<and> ns_Step g = Some step \<and> ns_ErrorCategory g = ''database_finalize_failed'')"

definition checkTickets :: "ControlSnapshot \<Rightarrow> ShardSnapshot \<Rightarrow> check list" where
  "checkTickets control shard =
     (let i = ct_Intent control; ps = ct_Operations control;
          captured = hasSucceeded ps OperationCapture; refunded = hasSucceeded ps OperationRefund;
          voided = hasSucceeded ps OperationVoid;
          issued = (ss_TicketOrderState shard = ''issued'') in
      [(in_State i = IntentCompleted \<and> (\<not> ss_TicketOrderFound shard \<or> \<not> issued), ''completed_payment_without_issued_ticket_order''),
       (captured \<and> capturedRequiresIssuedTickets control shard refunded voided \<and> (\<not> ss_TicketOrderFound shard \<or> \<not> issued),
          ''captured_payment_without_ticket''),
       (\<not> captured \<and> (issued \<or> 0 < ss_ActiveTicketCount shard), ''ticket_without_captured_payment''),
       (ss_TicketOrderFound shard \<and> ss_TicketOrderAmountMinor shard \<noteq> in_AmountMinor i, ''ticket_order_amount_mismatch''),
       (ss_TicketOrderFound shard \<and> ss_TicketOrderCurrency shard \<noteq> in_Currency i, ''ticket_order_currency_mismatch''),
       (issued \<and> \<not> ss_IssuanceReceiptFound shard, ''issued_ticket_order_without_receipt''),
       (ss_IssuanceReceiptFound shard \<and> ss_IssuancePaymentIntentID shard \<noteq> in_ID i, ''issuance_receipt_intent_mismatch''),
       (ss_IssuanceReceiptFound shard \<and>
          controlFinalizeIncomplete control IntentTicketIssuePending SagaIssuingTickets StepIssueTickets True,
          ''issuance_receipt_control_not_finalized''),
       (ss_RefundPendingReceiptFound shard \<and>
          controlFinalizeIncomplete control IntentRefundPending SagaCompensating StepRefund True,
          ''refund_pending_receipt_control_not_finalized''),
       (refunded \<and> ss_CompensationReceiptFound shard \<and>
          controlFinalizeIncomplete control IntentRefunded SagaRefunding StepCompensate False,
          ''refund_receipt_control_not_finalized''),
       (voided \<and> ss_CancellationReceiptFound shard \<and> \<not> ss_CompensationReceiptFound shard \<and>
          controlFinalizeIncomplete control IntentVoided SagaCompensating StepCompensate False,
          ''void_receipt_control_not_finalized'')] @
      (if ss_ReservationState shard = ''confirmed'' \<and> ss_ActiveTicketCount shard = 0
       then [(True, ''confirmed_reservation_without_active_ticket'')]
       else [(issued \<and> ss_ActiveTicketCount shard \<noteq> ss_ReservationSeatCount shard, ''ticket_count_mismatch'')]) @
      [(refunded \<and> 0 < ss_ActiveTicketCount shard, ''fully_refunded_payment_with_active_ticket''),
       (voided \<and> ss_ReservationState shard \<noteq> ''cancelled'', ''voided_payment_with_live_reservation''),
       (0 < ss_CancelledTicketCount shard \<and> captured \<and> \<not> refunded \<and> in_State i \<noteq> IntentRefundPending,
          ''cancelled_ticket_without_required_refund''),
       (0 < ss_DuplicateTicketCodeCount shard, ''duplicate_ticket_code''),
       (0 < ss_MissingTicketCodeClaims shard, ''global_ticket_code_claim_missing''),
       (0 < ss_ConflictingTicketCodes shard, ''global_ticket_code_conflict''),
       (0 < ss_UnexpectedTicketCodeClaims shard, ''global_ticket_code_claim_unexpected''),
       (ss_IssuanceReceiptFound shard \<and> ss_ReceiptFingerprint shard \<noteq> no_digest \<and>
          ss_ReceiptFingerprint shard \<noteq> in_Fingerprint i, ''shard_control_fingerprint_mismatch'')])"

definition checkShard :: "Scope \<Rightarrow> ControlSnapshot \<Rightarrow> ShardSnapshot \<Rightarrow> check list" where
  "checkShard scope control shard =
     (let i = ct_Intent control; captured = hasSucceeded (ct_Operations control) OperationCapture in
      if scope \<noteq> ScopeIntents \<and> scope \<noteq> ScopeTickets \<and> scope \<noteq> ScopeAll then []
      else if \<not> ss_DirectoryResolved shard then [(True, ''reservation_directory_unresolved'')]
      else if \<not> ss_Found shard then [(True, ''shard_payment_state_missing'')]
      else
        [(in_AmountMinor i \<noteq> ss_ReservationAmountMinor shard, ''reservation_amount_mismatch''),
         (in_Currency i \<noteq> ss_ReservationCurrency shard, ''reservation_currency_mismatch'')] @
        (if (scope = ScopeIntents \<or> scope = ScopeAll) \<and> in_State i = IntentReservationSecuring \<and> ss_BeginReceiptFound shard
         then [(True, if ss_ReceiptFingerprint shard = in_Fingerprint i then ''begin_payment_shard_committed_control_incomplete''
                      else ''begin_payment_shard_receipt_mismatch'')]
         else []) @
        (if scope = ScopeIntents \<or> scope = ScopeAll
         then [(captured \<and> ss_ReservationState shard \<notin> {''payment_pending'', ''confirmed'', ''refund_pending'', ''cancelled''},
                ''captured_payment_reservation_state_mismatch'')]
         else []) @
        (if scope \<noteq> ScopeTickets \<and> scope \<noteq> ScopeAll then [] else checkTickets control shard))"

definition shouldQueryProvider :: "Scope \<Rightarrow> ControlSnapshot \<Rightarrow> bool" where
  "shouldQueryProvider scope control \<longleftrightarrow>
     scope = ScopeProvider \<or> scope = ScopeAll \<or> list_ex (\<lambda>p. no_State p = OperationUncertain) (ct_Operations control)"

definition provider_checks :: "ControlSnapshot \<Rightarrow> ProviderPayment \<Rightarrow> check list" where
  "provider_checks control status =
     (let i = ct_Intent control; ps = ct_Operations control in
      [(pp_AmountMinor status \<noteq> in_AmountMinor i \<or> pp_Currency status \<noteq> in_Currency i, ''provider_money_mismatch''),
       (pp_CapturedMinor status \<noteq> succeededAmount ps OperationCapture \<or>
          hasSucceeded ps OperationCapture \<and> pp_Status status \<noteq> StatusCaptured \<and> pp_Status status \<noteq> StatusRefunded,
          ''provider_capture_mismatch''),
       (pp_RefundedMinor status \<noteq> succeededAmount ps OperationRefund \<or>
          hasSucceeded ps OperationRefund \<and> pp_Status status \<noteq> StatusRefunded, ''provider_refund_mismatch'')])"

definition checkProvider :: "(string \<rightharpoonup> 'w StatusQuerier) option \<Rightarrow> ControlSnapshot \<Rightarrow> 'w \<Rightarrow> check list \<times> 'w" where
  "checkProvider registry control w =
     (let i = ct_Intent control in
      case registry of
        None \<Rightarrow> ([(True, ''provider_status_unavailable'')], w)
      | Some clients \<Rightarrow>
          if in_ProviderPaymentID i = [] then ([(True, ''provider_status_unavailable'')], w)
          else (case clients (in_Provider i) of
            None \<Rightarrow> ([(True, ''provider_status_unavailable'')], w)
          | Some query \<Rightarrow>
              (case query (in_ProviderPaymentID i) w of
                 (Inl _, w1) \<Rightarrow> ([(True, ''provider_status_query_failed'')], w1)
               | (Inr status, w1) \<Rightarrow> (provider_checks control status, w1))))"

subsection \<open>Recorded commands\<close>

definition validateRecordedCommand :: "RecordedCommand \<Rightarrow> bool" where
  "validateRecordedCommand command \<longleftrightarrow>
     rc_ID command \<noteq> uuid_Nil \<and>
     rc_Kind command \<in> {''finalize_reservation_begin'', ''issue_tickets'', ''mark_refund_pending'',
       ''apply_refund_compensation'', ''cancel_voided_reservation''} \<and>
     rc_Fingerprint command \<noteq> no_digest"

definition repairKind :: "string \<Rightarrow> string" where
  "repairKind code =
     (if code = ''begin_payment_shard_committed_control_incomplete'' then ''finalize_reservation_begin''
      else if code = ''issuance_receipt_control_not_finalized'' then ''issue_tickets''
      else if code = ''refund_pending_receipt_control_not_finalized'' then ''mark_refund_pending''
      else if code = ''refund_receipt_control_not_finalized'' then ''apply_refund_compensation''
      else if code = ''void_receipt_control_not_finalized'' then ''cancel_voided_reservation''
      else [])"

text \<open>
  \<^verbatim>\<open>matchingRecordedCommand\<close> spells the table of \<^verbatim>\<open>repairKind\<close> out again, with the same codes and kinds.
\<close>

definition matchingRecordedCommand :: "string \<Rightarrow> RecordedCommand list \<Rightarrow> RecordedCommand option" where
  "matchingRecordedCommand code commands =
     find (\<lambda>command. rc_Kind command = repairKind code \<and> validateRecordedCommand command) commands"

definition commandForFinding :: "Finding \<Rightarrow> RecordedCommand option" where
  "commandForFinding finding =
     (if fd_CommandID finding \<noteq> uuid_Nil \<and> fd_commandFingerprint finding \<noteq> no_digest
      then Some \<lparr>rc_ID = fd_CommandID finding, rc_Kind = repairKind (fd_Code finding), rc_Fingerprint = fd_commandFingerprint finding\<rparr>
      else None)"

definition match_finding :: "RecordedCommand list \<Rightarrow> Finding \<Rightarrow> Finding" where
  "match_finding commands finding =
     (case matchingRecordedCommand (fd_Code finding) commands of
        None \<Rightarrow> finding
      | Some command \<Rightarrow> finding\<lparr>fd_Repairable := True, fd_CommandID := rc_ID command, fd_commandFingerprint := rc_Fingerprint command\<rparr>)"

subsection \<open>Inspection\<close>

definition new_report :: "uuid \<Rightarrow> Scope \<Rightarrow> ShardSnapshot \<Rightarrow> Report" where
  "new_report k scope shard =
     \<lparr>rt_PaymentIntentID = k, rt_Scope = scope, rt_RowsExamined = 1, rt_Findings = [], rt_ProviderQueried = False,
      rt_RepairsApplied = 0, rt_Truncated = False, rt_ShardFound = ss_Found shard, rt_TicketOrderFound = ss_TicketOrderFound shard,
      rt_TicketOrderState = ss_TicketOrderState shard\<rparr>"

definition report_of :: "'w Reconciler \<Rightarrow> uuid \<Rightarrow> Scope \<Rightarrow> ControlSnapshot \<Rightarrow> ShardSnapshot \<Rightarrow> 'w \<Rightarrow> Report \<times> 'w" where
  "report_of r k scope control shard w =
     (let queried = shouldQueryProvider scope control;
          (asked, w1) = (if queried then checkProvider (rn_providers r) control w else ([], w));
          report = run_checks (checkControl scope control @ checkShard scope control shard @ asked) (new_report k scope shard) in
      (report\<lparr>rt_ProviderQueried := queried,
         rt_Findings := sort_key fd_Code (map (match_finding (ss_RecordedCommands shard)) (rt_Findings report))\<rparr>, w1))"

definition inspect :: "'w Reconciler \<Rightarrow> uuid \<Rightarrow> Scope \<Rightarrow> ('w, Report) rcall" where
  "inspect r k scope w =
     (if k = uuid_Nil \<or> \<not> Scope_Valid scope then (Inl RecInvalidRequest, w)
      else case st_LoadControlSnapshot (rn_store r) k w of
        (Inl e, w1) \<Rightarrow> (Inl e, w1)
      | (Inr control, w1) \<Rightarrow>
          if in_ID (ct_Intent control) \<noteq> k then (Inl RecInvalidRequest, w1)
          else if scope = ScopeIntents \<or> scope = ScopeTickets \<or> scope = ScopeAll then
            (case st_LoadShardSnapshot (rn_store r) k w1 of
               (Inl e, w2) \<Rightarrow> (Inl e, w2)
             | (Inr shard, w2) \<Rightarrow> (case report_of r k scope control shard w2 of (report, w3) \<Rightarrow> (Inr report, w3)))
          else (case report_of r k scope control zero_shard_snapshot w1 of (report, w2) \<Rightarrow> (Inr report, w2)))"

definition InspectPayment :: "'w Reconciler \<Rightarrow> uuid \<Rightarrow> ('w, Report) rcall" where
  "InspectPayment r k = inspect r k ScopeAll"

subsection \<open>Settling the findings\<close>

text \<open>
  The loop over the findings of one report. It carries the findings already handled, the commands replayed, the
  number of repairs and of new reviews; an error ends it, with the reviews counted so far.
\<close>

record Handling =
  hd_findings :: "Finding list"
  hd_replayed :: "uuid list"
  hd_repairs :: int
  hd_reviews :: int

definition escalate :: "'w Reconciler \<Rightarrow> Checkpoint \<Rightarrow> uuid \<Rightarrow> gotime \<Rightarrow> string \<Rightarrow> Handling \<Rightarrow> 'w \<Rightarrow> (ReconcileError option \<times> Handling) \<times> 'w" where
  "escalate r checkpoint k now code h w =
     (case st_EscalateManualReview (rn_store r) (ck_ID checkpoint) k code (now + rn_ReviewDue r) w of
        (Inl e, w1) \<Rightarrow> ((Some e, h), w1)
      | (Inr created, w1) \<Rightarrow> ((None, if created then h\<lparr>hd_reviews := hd_reviews h + 1\<rparr> else h), w1))"

definition handle_finding ::
  "'w Reconciler \<Rightarrow> Checkpoint \<Rightarrow> uuid \<Rightarrow> gotime \<Rightarrow> bool \<Rightarrow> Finding \<Rightarrow> Handling \<Rightarrow> 'w \<Rightarrow> (ReconcileError option \<times> Handling) \<times> 'w" where
  "handle_finding r checkpoint k now repair finding h w =
     (case (if repair \<and> fd_Repairable finding then commandForFinding finding else None) of
        Some command \<Rightarrow>
          (let h' = h\<lparr>hd_findings := hd_findings h @ [finding\<lparr>fd_CommandID := rc_ID command\<rparr>]\<rparr> in
           if rc_ID command \<in> set (hd_replayed h) then ((None, h'), w)
           else if \<not> validateRecordedCommand command then ((Some RecInvalidRequest, h), w)
           else case (case rn_repairer r of None \<Rightarrow> (Inl RecRepairUnavailable, w) | Some replay \<Rightarrow> replay k command w) of
             (Inr _, w1) \<Rightarrow> ((None, h'\<lparr>hd_replayed := rc_ID command # hd_replayed h, hd_repairs := hd_repairs h + 1\<rparr>), w1)
           | (Inl e, w1) \<Rightarrow>
               (case escalate r checkpoint k now ''safe_replay_failed'' h w1 of
                  ((None, h1), w2) \<Rightarrow> ((Some (RecWrapped ''replay recorded payment command'' e), h1), w2)
                | ((Some e', h1), w2) \<Rightarrow> ((Some (RecJoined (RecWrapped ''replay recorded payment command'' e) e'), h1), w2)))
      | None \<Rightarrow>
          (case escalate r checkpoint k now (fd_Code finding) h w of
             ((None, h1), w1) \<Rightarrow> ((None, h1\<lparr>hd_findings := hd_findings h1 @ [finding]\<rparr>), w1)
           | ((Some e, h1), w1) \<Rightarrow> ((Some (RecWrapped ''escalate payment reconciliation mismatch'' e), h1), w1)))"

fun handle_findings ::
  "'w Reconciler \<Rightarrow> Checkpoint \<Rightarrow> uuid \<Rightarrow> gotime \<Rightarrow> bool \<Rightarrow> Finding list \<Rightarrow> Handling \<Rightarrow> 'w \<Rightarrow> (ReconcileError option \<times> Handling) \<times> 'w" where
  "handle_findings r checkpoint k now repair [] h w = ((None, h), w)"
| "handle_findings r checkpoint k now repair (f # fs) h w =
     (case handle_finding r checkpoint k now repair f h w of
        ((Some e, h1), w1) \<Rightarrow> ((Some e, h1), w1)
      | ((None, h1), w1) \<Rightarrow> handle_findings r checkpoint k now repair fs h1 w1)"

definition no_handling :: Handling where
  "no_handling = \<lparr>hd_findings = [], hd_replayed = [], hd_repairs = 0, hd_reviews = 0\<rparr>"

definition reconcile_one ::
  "'w Reconciler \<Rightarrow> Checkpoint \<Rightarrow> Scope \<Rightarrow> gotime \<Rightarrow> bool \<Rightarrow> uuid \<Rightarrow> ReconResult \<Rightarrow> 'w \<Rightarrow> (ReconcileError option \<times> ReconResult) \<times> 'w" where
  "reconcile_one r checkpoint scope now repair k result w =
     (case rn_ctxErr r w of
        Some e \<Rightarrow> ((Some e, result), w)
      | None \<Rightarrow>
          (case inspect r k scope w of
             (Inl e, w1) \<Rightarrow> ((Some (RecWrapped ''inspect payment intent'' e), result), w1)
           | (Inr report, w1) \<Rightarrow>
               (let result1 = result\<lparr>rr_RowsExamined := rr_RowsExamined result + rt_RowsExamined report,
                      rr_MismatchCount := rr_MismatchCount result + (if rt_Findings report \<noteq> [] then 1 else 0)\<rparr> in
                case handle_findings r checkpoint k now repair (rt_Findings report) no_handling w1 of
                  ((Some e, h), w2) \<Rightarrow> ((Some e, result1\<lparr>rr_ManualReviews := rr_ManualReviews result1 + hd_reviews h\<rparr>), w2)
                | ((None, h), w2) \<Rightarrow>
                    ((None, result1\<lparr>rr_ManualReviews := rr_ManualReviews result1 + hd_reviews h,
                        rr_RepairCount := rr_RepairCount result1 + (if 0 < hd_repairs h then 1 else 0),
                        rr_Reports := rr_Reports result1 @
                          [report\<lparr>rt_Findings := hd_findings h, rt_RepairsApplied := rt_RepairsApplied report + hd_repairs h\<rparr>]\<rparr>), w2))))"

fun reconcile_each ::
  "'w Reconciler \<Rightarrow> Checkpoint \<Rightarrow> Scope \<Rightarrow> gotime \<Rightarrow> bool \<Rightarrow> uuid list \<Rightarrow> ReconResult \<Rightarrow> 'w \<Rightarrow> (ReconcileError option \<times> ReconResult) \<times> 'w" where
  "reconcile_each r checkpoint scope now repair [] result w = ((None, result), w)"
| "reconcile_each r checkpoint scope now repair (k # ks) result w =
     (case reconcile_one r checkpoint scope now repair k result w of
        ((Some e, result1), w1) \<Rightarrow> ((Some e, result1), w1)
      | ((None, result1), w1) \<Rightarrow> reconcile_each r checkpoint scope now repair ks result1 w1)"

definition singleIntent :: "uuid list \<Rightarrow> uuid" where
  "singleIntent ids = (case ids of [k] \<Rightarrow> k | _ \<Rightarrow> uuid_Nil)"

definition no_recon_result :: "Scope \<Rightarrow> bool \<Rightarrow> bool \<Rightarrow> ReconResult" where
  "no_recon_result scope readOnly truncated =
     \<lparr>rr_Scope = scope, rr_ReadOnly = readOnly, rr_RowsExamined = 0, rr_MismatchCount = 0, rr_RepairCount = 0,
      rr_ManualReviews = 0, rr_Truncated = truncated, rr_Reports = []\<rparr>"

definition zero_result :: ReconResult where
  "zero_result = no_recon_result (ScopeOther []) False False"

text \<open>The deferred function finishes the checkpoint, whatever the loop returned, and joins its error.\<close>

definition checkpoint_result :: "ReconcileError option \<Rightarrow> ReconResult \<Rightarrow> gotime \<Rightarrow> CheckpointResult" where
  "checkpoint_result err result completed =
     \<lparr>kr_RowsExamined = rr_RowsExamined result, kr_MismatchCount = rr_MismatchCount result, kr_RepairCount = rr_RepairCount result,
      kr_Truncated = rr_Truncated result, kr_Failed = (err \<noteq> None),
      kr_ErrorCategory = (if err \<noteq> None then ''reconciliation_failed'' else []), kr_CompletedAt = completed\<rparr>"

definition finish_run :: "'w Reconciler \<Rightarrow> Checkpoint \<Rightarrow> ReconcileError option \<Rightarrow> ReconResult \<Rightarrow> 'w \<Rightarrow> (ReconcileError option \<times> ReconResult) \<times> 'w" where
  "finish_run r checkpoint err result w =
     (case rn_Now r w of (completed, w1) \<Rightarrow>
        (case st_FinishCheckpoint (rn_store r) checkpoint (checkpoint_result err result completed) w1 of
          (Inr _, w2) \<Rightarrow> ((err, result), w2)
        | (Inl e, w2) \<Rightarrow>
            ((Some (case err of None \<Rightarrow> RecWrapped ''finish payment reconciliation checkpoint'' e
                    | Some e0 \<Rightarrow> RecJoined e0 (RecWrapped ''finish payment reconciliation checkpoint'' e)), result), w2)))"

definition reconcileIDs ::
  "'w Reconciler \<Rightarrow> Scope \<Rightarrow> uuid list \<Rightarrow> bool \<Rightarrow> bool \<Rightarrow> bool \<Rightarrow> 'w \<Rightarrow> (ReconcileError option \<times> ReconResult) \<times> 'w" where
  "reconcileIDs r scope ids truncated repair confirmed w =
     (if \<not> Scope_Valid scope \<or> MaxBatchSize < int (length ids) \<or> repair \<noteq> confirmed then ((Some RecInvalidRequest, zero_result), w)
      else case rn_Now r w of (now, w1) \<Rightarrow>
        (case st_StartCheckpoint (rn_store r) scope (singleIntent ids) repair now w1 of
          (Inl e, w2) \<Rightarrow> ((Some (RecWrapped ''start payment reconciliation checkpoint'' e), zero_result), w2)
        | (Inr checkpoint, w2) \<Rightarrow>
            (case reconcile_each r checkpoint scope now repair ids (no_recon_result scope (\<not> repair) truncated) w2 of
               ((err, result), w3) \<Rightarrow> finish_run r checkpoint err result w3)))"

text \<open>
  \<^verbatim>\<open>canonicalIDs\<close> sorts by the text of an identifier: hexadecimal digits of fixed length, so the order of the texts is
  the order of the 128-bit numbers.
\<close>

fun distinct_ids :: "uuid list \<Rightarrow> uuid list \<Rightarrow> uuid list" where
  "distinct_ids seen [] = []"
| "distinct_ids seen (k # ks) =
     (if k = uuid_Nil \<or> k \<in> set seen then distinct_ids seen ks else k # distinct_ids (k # seen) ks)"

definition canonicalIDs :: "uuid list \<Rightarrow> int \<Rightarrow> uuid list" where
  "canonicalIDs ids limit = take (nat limit) (sort (distinct_ids [] ids))"

text \<open>The loop over the candidates: one checkpoint each, and the totals of the parts.\<close>

fun reconcile_candidates ::
  "'w Reconciler \<Rightarrow> Scope \<Rightarrow> bool \<Rightarrow> bool \<Rightarrow> bool \<Rightarrow> uuid list \<Rightarrow> ReconResult \<Rightarrow> 'w \<Rightarrow> (ReconcileError option \<times> ReconResult) \<times> 'w" where
  "reconcile_candidates r scope truncated repair confirmed [] result w = ((None, result), w)"
| "reconcile_candidates r scope truncated repair confirmed (k # ks) result w =
     (case reconcileIDs r scope [k] (truncated \<and> ks = []) repair confirmed w of
        ((err, part), w1) \<Rightarrow>
          (let result1 = result\<lparr>rr_RowsExamined := rr_RowsExamined result + rr_RowsExamined part,
                 rr_MismatchCount := rr_MismatchCount result + rr_MismatchCount part,
                 rr_RepairCount := rr_RepairCount result + rr_RepairCount part,
                 rr_ManualReviews := rr_ManualReviews result + rr_ManualReviews part,
                 rr_Reports := rr_Reports result @ rr_Reports part\<rparr> in
           case err of
             Some e \<Rightarrow> ((Some e, result1), w1)
           | None \<Rightarrow> reconcile_candidates r scope truncated repair confirmed ks result1 w1))"

definition ReconcileAll :: "'w Reconciler \<Rightarrow> ReconOptions \<Rightarrow> 'w \<Rightarrow> (ReconcileError option \<times> ReconResult) \<times> 'w" where
  "ReconcileAll r options w =
     (if \<not> Scope_Valid (ro_Scope options) \<or> ro_Limit options < 1 \<or> MaxBatchSize < ro_Limit options
      then ((Some RecInvalidRequest, zero_result), w)
      else if ro_Repair options \<and> \<not> ro_ConfirmRepair options then ((Some RecRepairConfirmation, zero_result), w)
      else if ro_Repair options \<and> rn_repairer r = None then ((Some RecRepairUnavailable, zero_result), w)
      else case rn_Now r w of (now, w1) \<Rightarrow>
        (case st_CandidateIntentIDs (rn_store r) (ro_Scope options) (now - rn_StaleAfter r) (ro_Limit options) w1 of
          (Inl e, w2) \<Rightarrow> ((Some (RecWrapped ''list payment reconciliation candidates'' e), zero_result), w2)
        | (Inr (found, beyond), w2) \<Rightarrow>
            (let truncated = (beyond \<or> ro_Limit options < int (length found)); ids = canonicalIDs found (ro_Limit options) in
             if ids = [] then reconcileIDs r (ro_Scope options) [] truncated (ro_Repair options) (ro_ConfirmRepair options) w2
             else reconcile_candidates r (ro_Scope options) truncated (ro_Repair options) (ro_ConfirmRepair options) ids
               (no_recon_result (ro_Scope options) (\<not> ro_Repair options) truncated) w2)))"

definition RunOnce_reconciler :: "'w Reconciler \<Rightarrow> 'w \<Rightarrow> (ReconcileError option \<times> ReconResult) \<times> 'w" where
  "RunOnce_reconciler r = ReconcileAll r \<lparr>ro_Scope = ScopeAll, ro_Limit = rn_BatchSize r, ro_Repair = False, ro_ConfirmRepair = False\<rparr>"

definition ReconcilePayment :: "'w Reconciler \<Rightarrow> uuid \<Rightarrow> 'w \<Rightarrow> (ReconcileError option \<times> ReconResult) \<times> 'w" where
  "ReconcilePayment r k w =
     (if k = uuid_Nil then ((Some RecInvalidRequest, zero_result), w) else reconcileIDs r ScopeAll [k] False False False w)"

definition RepairPayment :: "'w Reconciler \<Rightarrow> uuid \<Rightarrow> 'w \<Rightarrow> (ReconcileError option \<times> ReconResult) \<times> 'w" where
  "RepairPayment r k w =
     (if rn_repairer r = None \<or> k = uuid_Nil then ((Some RecRepairUnavailable, zero_result), w)
      else reconcileIDs r ScopeAll [k] False True True w)"

end
