(* ===== verification/Payment_Recon_Store.thy ===== *)
theory Payment_Recon_Store
  imports Payment_Reconciler Payment_Intents
begin

text \<open>
  The store of the reconciler (\<^verbatim>\<open>internal/payment/reconcile/postgres/store.go\<close>): candidates, the snapshot of the
  control plane, the comparison of ticket codes, checkpoints and cases for manual review. The tables are those of the
  payment control plane with the checkpoints beside them.

  Of a review case the model keeps the columns of \<open>ReviewRow\<close>; the foreign key to the checkpoint is checked when a
  case is inserted. A conflict between event bodies is never closed by this code, so all of them are open.
\<close>

subsection \<open>Checkpoints\<close>

datatype CheckpointState =
    CheckpointPending | CheckpointRunning | CheckpointPassed | CheckpointMismatch | CheckpointPartial | CheckpointFailed

record CheckpointRow =
  cp_id :: uuid
  cp_scope :: Scope
  cp_intent :: "uuid option"
  cp_safe_repair :: bool
  cp_state :: CheckpointState
  cp_rows :: int
  cp_mismatches :: int
  cp_repairs :: int
  cp_truncated :: bool
  cp_attempts :: int
  cp_next :: gotime
  cp_lease :: lease
  cp_error :: "string option"
  cp_started :: "gotime option"
  cp_completed :: "gotime option"

record ReconDb =
  rb_pay :: PaymentDb
  rb_checkpoints :: "CheckpointRow list"

type_synonym 'a ktx = "(ReconDb, ReconcileError, 'a) tx"

definition checkpoint_ended :: "CheckpointState \<Rightarrow> bool" where
  "checkpoint_ended s \<longleftrightarrow> s \<in> {CheckpointPassed, CheckpointMismatch, CheckpointPartial, CheckpointFailed}"

definition checkpoint_active :: "CheckpointState \<Rightarrow> bool" where
  "checkpoint_active s \<longleftrightarrow> s \<in> {CheckpointPending, CheckpointRunning}"

text \<open>The CHECK constraints, the trigger on inserts and updates, and the unique keys.\<close>

definition checkpoint_check :: "CheckpointRow \<Rightarrow> bool" where
  "checkpoint_check r \<longleftrightarrow>
     Scope_Valid (cp_scope r) \<and> 0 \<le> cp_rows r \<and> 0 \<le> cp_mismatches r \<and> 0 \<le> cp_repairs r \<and>
     0 \<le> cp_attempts r \<and> cp_attempts r \<le> 1000000 \<and> nullable categoryPattern (cp_error r) \<and>
     (cp_safe_repair r \<or> cp_repairs r = 0) \<and> cp_mismatches r \<le> cp_rows r \<and> cp_repairs r \<le> cp_mismatches r \<and>
     (if cp_state r = CheckpointRunning
      then (case cp_lease r of None \<Rightarrow> False | Some (owner, _) \<Rightarrow> identifierPattern owner) \<and> cp_started r \<noteq> None \<and> cp_completed r = None
      else cp_lease r = None) \<and>
     (if checkpoint_ended (cp_state r)
      then (case (cp_started r, cp_completed r) of (Some a, Some b) \<Rightarrow> a \<le> b | _ \<Rightarrow> False)
      else cp_state r = CheckpointPending \<longrightarrow> cp_started r = None \<and> cp_completed r = None) \<and>
     (cp_state r = CheckpointFailed \<longrightarrow> cp_error r \<noteq> None)"

definition checkpoint_insert_guard :: "CheckpointRow \<Rightarrow> bool" where
  "checkpoint_insert_guard r \<longleftrightarrow>
     cp_state r = CheckpointPending \<and> cp_rows r = 0 \<and> cp_mismatches r = 0 \<and> cp_repairs r = 0 \<and> cp_attempts r = 0 \<and>
     cp_lease r = None \<and> cp_started r = None \<and> cp_completed r = None"

definition checkpoint_update_guard :: "CheckpointRow \<Rightarrow> CheckpointRow \<Rightarrow> bool" where
  "checkpoint_update_guard old new \<longleftrightarrow>
     cp_id new = cp_id old \<and> cp_scope new = cp_scope old \<and> cp_intent new = cp_intent old \<and> cp_safe_repair new = cp_safe_repair old \<and>
     (if checkpoint_ended (cp_state old)
      then cp_state new = cp_state old \<and> cp_rows new = cp_rows old \<and> cp_mismatches new = cp_mismatches old \<and>
           cp_repairs new = cp_repairs old \<and> cp_truncated new = cp_truncated old \<and> cp_attempts new = cp_attempts old \<and>
           cp_next new = cp_next old \<and> cp_error new = cp_error old \<and> cp_started new = cp_started old \<and>
           cp_completed new = cp_completed old
      else cp_state new = cp_state old \<or> cp_state old = CheckpointPending \<and> cp_state new = CheckpointRunning \<or>
           cp_state old = CheckpointRunning \<and> (cp_state new = CheckpointPending \<or> checkpoint_ended (cp_state new)))"

definition checkpoints_unique :: "CheckpointRow list \<Rightarrow> bool" where
  "checkpoints_unique rows \<longleftrightarrow>
     distinct (map cp_id rows) \<and>
     distinct (map (\<lambda>r. (cp_scope r, cp_intent r)) (filter (\<lambda>r. checkpoint_active (cp_state r)) rows))"

definition insert_checkpoint :: "PayEnv \<Rightarrow> string \<Rightarrow> ReconcileError \<Rightarrow> CheckpointRow \<Rightarrow> unit ktx" where
  "insert_checkpoint env label err r =
     (\<lambda>db. if py_fault env label \<or> \<not> checkpoint_check r \<or> \<not> checkpoint_insert_guard r \<or>
              \<not> checkpoints_unique (rb_checkpoints db @ [r]) \<or>
              \<not> nullable (\<lambda>k. list_ex (\<lambda>i. pi_id i = k) (payment_intents (rb_pay db))) (cp_intent r) then Inl err
           else Inr ((), db\<lparr>rb_checkpoints := rb_checkpoints db @ [r]\<rparr>))"

definition update_checkpoints ::
  "PayEnv \<Rightarrow> string \<Rightarrow> ReconcileError \<Rightarrow> (CheckpointRow \<Rightarrow> bool) \<Rightarrow> (CheckpointRow \<Rightarrow> CheckpointRow) \<Rightarrow> nat ktx" where
  "update_checkpoints env label err wh upd =
     (\<lambda>db. let rows = rb_checkpoints db; rows' = map (\<lambda>r. if wh r then upd r else r) rows in
        if py_fault env label \<or> \<not> list_all (\<lambda>r. wh r \<longrightarrow> checkpoint_update_guard r (upd r) \<and> checkpoint_check (upd r)) rows \<or>
           \<not> checkpoints_unique rows' then Inl err
        else Inr (length (filter wh rows), db\<lparr>rb_checkpoints := rows'\<rparr>))"

text \<open>A statement on the payment tables inside a transaction of this package.\<close>

definition on_pay :: "(ReconcileError, 'a) ptx \<Rightarrow> 'a ktx" where
  "on_pay m = (\<lambda>db. case m (rb_pay db) of Inl e \<Rightarrow> Inl e | Inr (x, pay) \<Rightarrow> Inr (x, db\<lparr>rb_pay := pay\<rparr>))"

definition begin_k :: "PayEnv \<Rightarrow> ReconcileError \<Rightarrow> unit ktx" where
  "begin_k env err = tx_reject (py_fault env ''begin'') err"

definition commit_k :: "PayEnv \<Rightarrow> ReconcileError \<Rightarrow> unit ktx" where
  "commit_k env err = tx_reject (py_fault env ''commit'') err"

subsection \<open>Candidates\<close>

text \<open>
  \<open>py_updated\<close> gives the \<^verbatim>\<open>updated_at\<close> of operations and \<open>py_touched\<close> that of sagas and intents. Time stamps of
  webhooks that the intent's payment has received count for the scopes of webhooks.
\<close>

definition last_changed :: "PayEnv \<Rightarrow> Scope \<Rightarrow> PaymentDb \<Rightarrow> IntentRow \<Rightarrow> gotime" where
  "last_changed env scope db i =
     Max (set (py_touched env (pi_id i) #
       map (py_touched env \<circ> sg_id) (filter (\<lambda>s. sg_intent s = pi_id i) (payment_sagas db)) @
       (if scope \<in> {ScopeOperations, ScopeProvider, ScopeAll}
        then map (py_updated env \<circ> po_id) (filter (\<lambda>p. po_intent p = pi_id i) (payment_operations db)) else []) @
       (if scope \<in> {ScopeWebhooks, ScopeAll}
        then map wi_received (filter (\<lambda>x. wi_provider x = pi_provider i \<and> pi_payment i \<noteq> None \<and> wi_payment x = pi_payment i)
               (payment_webhook_inbox db)) else [])))"

definition recovering_state :: "IntentState \<Rightarrow> bool" where
  "recovering_state s \<longleftrightarrow>
     s \<in> {IntentReservationSecuring, IntentCheckoutPending, IntentAuthorizationPending, IntentCapturePending, IntentCaptured,
          IntentTicketIssuePending, IntentVoidPending, IntentRefundPending, IntentManualReview}"

definition reconciled_since :: "Scope \<Rightarrow> uuid \<Rightarrow> gotime \<Rightarrow> ReconDb \<Rightarrow> bool" where
  "reconciled_since scope k changed db \<longleftrightarrow>
     list_ex (\<lambda>c. cp_scope c = scope \<and> cp_intent c = Some k \<and> cp_state c \<in> {CheckpointPassed, CheckpointMismatch, CheckpointPartial} \<and>
        (case cp_completed c of None \<Rightarrow> False | Some t \<Rightarrow> changed \<le> t)) (rb_checkpoints db)"

definition candidate_intents :: "PayEnv \<Rightarrow> Scope \<Rightarrow> gotime \<Rightarrow> ReconDb \<Rightarrow> uuid list" where
  "candidate_intents env scope staleBefore db =
     (let pay = rb_pay db; changed = last_changed env scope pay in
      map pi_id (sort_key (\<lambda>i. (changed i, pi_id i))
        (filter (\<lambda>i. changed i \<le> staleBefore \<and>
           (recovering_state (pi_state i) \<or> \<not> reconciled_since scope (pi_id i) (changed i) db)) (payment_intents pay))))"

definition CandidateIntentIDs :: "PayEnv \<Rightarrow> Scope \<Rightarrow> gotime \<Rightarrow> int \<Rightarrow> ReconDb \<Rightarrow> ReconcileError + uuid list \<times> bool" where
  "CandidateIntentIDs env scope staleBefore limit db =
     (if \<not> Scope_Valid scope \<or> IsZero_time staleBefore \<or> limit < 1 \<or> MaxBatchSize < limit then Inl RecInvalidRequest
      else if py_fault env ''candidates'' then Inl (RecFailed ''candidates'')
      else let ids = take (nat (limit + 1)) (candidate_intents env scope (pg_timestamptz staleBefore) db) in
        if uuid_Nil \<in> set ids then Inl (RecFailed ''invalid payment reconciliation candidate'')
        else Inr (take (nat limit) ids, limit < int (length ids)))"

subsection \<open>The control snapshot\<close>

definition boundedCount :: "int64 \<Rightarrow> int" where
  "boundedCount value = (if value < 0 then 0 else if MaxInt64 < value then MaxInt64 else value)"

definition count_rows :: "('a \<Rightarrow> bool) \<Rightarrow> 'a list \<Rightarrow> int" where
  "count_rows P xs = boundedCount (int (length (filter P xs)))"

text \<open>Events of the intent's payment whose identity occurs more than once: the groups of the inner query.\<close>

definition duplicate_events :: "IntentRow \<Rightarrow> InboxRow list \<Rightarrow> int" where
  "duplicate_events i inbox =
     (let keys = map (\<lambda>x. (wi_provider x, wi_event x))
            (filter (\<lambda>x. wi_provider x = pi_provider i \<and> pi_payment i \<noteq> None \<and> wi_payment x = pi_payment i) inbox) in
      boundedCount (int (length (filter (\<lambda>key. 1 < count_list keys key) (remdups keys)))))"

definition hash_conflicts :: "IntentRow \<Rightarrow> PaymentDb \<Rightarrow> int" where
  "hash_conflicts i db =
     boundedCount (int (length [(x, w). x \<leftarrow> payment_provider_event_conflicts db, w \<leftarrow> payment_webhook_inbox db,
       wi_provider w = xc_provider x \<and> wi_event w = xc_event x \<and> wi_hash w = xc_canonical x \<and>
       wi_provider w = pi_provider i \<and> pi_payment i \<noteq> None \<and> wi_payment w = pi_payment i]))"

definition observed_operation :: "OperationRow \<Rightarrow> ReconOperation" where
  "observed_operation p =
     \<lparr>no_ID = po_id p, no_Type = po_type p, no_State = po_state p, no_ProviderOperationID = coalesce (po_provider_operation p),
      no_AmountMinor = po_amount p, no_Currency = po_currency p,
      no_EvidenceHash = (case po_response p of None \<Rightarrow> no_digest | Some b \<Rightarrow> b)\<rparr>"

definition observed_saga :: "(uuid \<Rightarrow> gotime) \<Rightarrow> PaymentDb \<Rightarrow> IntentRow \<Rightarrow> ReconSaga" where
  "observed_saga created db i =
     (let sagas = filter (\<lambda>s. sg_intent s = pi_id i) (payment_sagas db);
          active = count_rows (\<lambda>s. \<not> saga_ended (sg_state s)) sagas in
      case sort_key (\<lambda>s. (created (sg_id s), sg_id s)) sagas of
        [] \<Rightarrow> \<lparr>ns_ID = uuid_Nil, ns_State = SagaOther [], ns_Step = None, ns_ErrorCategory = [], ns_ActiveCount = active\<rparr>
      | s # _ \<Rightarrow> \<lparr>ns_ID = sg_id s, ns_State = sg_state s, ns_Step = Some (sg_step s), ns_ErrorCategory = coalesce (sg_error s),
                 ns_ActiveCount = active\<rparr>)"

definition observed_intent :: "PaymentDb \<Rightarrow> IntentRow \<Rightarrow> ReconIntent" where
  "observed_intent db i =
     \<lparr>in_ID = pi_id i, in_ReservationID = pi_reservation i, in_TrainRunID = pi_train_run i, in_Provider = pi_provider i,
      in_ProviderPaymentID = coalesce (pi_payment i), in_State = pi_state i, in_AmountMinor = pi_amount i,
      in_Currency = pi_currency i, in_Fingerprint = pi_fingerprint i,
      in_ActiveForReservation =
        count_rows (\<lambda>a. pi_reservation a = pi_reservation i \<and> \<not> intent_ended (pi_state a)) (payment_intents db)\<rparr>"

text \<open>
  Two statements outside a transaction: the second sees the operations in the tables \<open>later\<close>, which others may have
  changed since the first. \<open>created\<close> is the \<^verbatim>\<open>created_at\<close> of a saga.
\<close>

definition LoadControlSnapshot ::
  "PayEnv \<Rightarrow> (uuid \<Rightarrow> gotime) \<Rightarrow> uuid \<Rightarrow> ReconDb \<Rightarrow> PaymentDb \<Rightarrow> ReconcileError + ControlSnapshot" where
  "LoadControlSnapshot env created intentID db later =
     (let pay = rb_pay db in
      if intentID = uuid_Nil then Inl RecInvalidRequest
      else if py_fault env ''control snapshot'' then Inl (RecFailed ''control snapshot'')
      else case filter (\<lambda>i. pi_id i = intentID) (payment_intents pay) of
        [] \<Rightarrow> Inl RecNoRows
      | i # _ \<Rightarrow>
          if length (pi_fingerprint i) \<noteq> 32 then Inl (RecFailed ''invalid payment fingerprint'')
          else if list_ex (\<lambda>s. sg_intent s = pi_id i) (payment_sagas pay) \<and> ns_ID (observed_saga created pay i) = uuid_Nil
          then Inl (RecFailed ''invalid payment saga identity'')
          else if py_fault env ''control operations'' then Inl (RecFailed ''control operations'')
          else let rows = take 1001 (sort_key (\<lambda>p. (po_created p, po_id p)) (filter (\<lambda>p. po_intent p = intentID) (payment_operations later))) in
            if 1000 < length rows then Inl (RecFailed ''payment operation observation exceeded bound'')
            else if list_ex (\<lambda>p. case po_response p of None \<Rightarrow> False | Some b \<Rightarrow> length b \<noteq> 0 \<and> length b \<noteq> 32) rows
            then Inl (RecFailed ''invalid payment operation evidence'')
            else Inr \<lparr>ct_Intent = observed_intent pay i, ct_Saga = observed_saga created pay i,
              ct_Operations = map observed_operation rows,
              ct_DuplicateProviderEventIDs = duplicate_events i (payment_webhook_inbox pay),
              ct_ProviderEventHashConflicts = hash_conflicts i pay,
              ct_OpenManualReviewCases = count_rows (\<lambda>v. rv_intent v = pi_id i \<and> rv_open v) (payment_manual_review_cases pay),
              ct_ActiveReconciliationCases =
                count_rows (\<lambda>c. cp_intent c = Some (pi_id i) \<and> checkpoint_active (cp_state c)) (rb_checkpoints db)\<rparr>)"

subsection \<open>Ticket codes\<close>

record TicketIdentity =
  ti_id :: uuid
  ti_code :: string

record DirectoryIdentity =
  di_id :: uuid
  di_code :: string
  di_orderID :: uuid

text \<open>The loop over what the directory holds: the tickets matched, those in conflict, and entries of the order that no ticket explains.\<close>

fun compare_codes ::
  "(uuid \<rightharpoonup> string) \<Rightarrow> (string \<rightharpoonup> uuid) \<Rightarrow> uuid \<Rightarrow> DirectoryIdentity list \<Rightarrow> uuid list \<times> uuid list \<times> int \<Rightarrow> uuid list \<times> uuid list \<times> int" where
  "compare_codes byID byCode orderID [] acc = acc"
| "compare_codes byID byCode orderID (d # ds) (matched, conflicted, unexpected) =
     (let expectedID = byCode (di_code d); expectedCode = byID (di_id d);
          c1 = (case expectedID of Some k \<Rightarrow> if k \<noteq> di_id d then k # conflicted else conflicted | None \<Rightarrow> conflicted);
          c2 = (case expectedCode of Some c \<Rightarrow> if c \<noteq> di_code d then di_id d # c1 else c1 | None \<Rightarrow> c1);
          m = (if expectedID = Some (di_id d) \<and> expectedCode = Some (di_code d) then di_id d # matched else matched);
          u = (if di_orderID d = orderID \<and> expectedCode \<noteq> Some (di_code d) then unexpected + 1 else unexpected) in
      compare_codes byID byCode orderID ds (m, c2, u))"

definition compareTicketCodeRows ::
  "uuid \<Rightarrow> TicketIdentity list \<Rightarrow> DirectoryIdentity list \<Rightarrow> ReconcileError + int \<times> int \<times> int" where
  "compareTicketCodeRows orderID issuedTickets observed =
     (if orderID = uuid_Nil \<or> 100 < length issuedTickets \<or> 200 < length observed \<or>
         list_ex (\<lambda>t. ti_id t = uuid_Nil \<or> \<not> ValidTicketCode (ti_code t)) issuedTickets then Inl RecInvalidRequest
      else let byID = map_of (rev (map (\<lambda>t. (ti_id t, ti_code t)) issuedTickets)); byCode = map_of (rev (map (\<lambda>t. (ti_code t, ti_id t)) issuedTickets));
               (matched, conflicted, unexpected) = compare_codes byID byCode orderID observed ([], [], 0) in
        Inr (int (length (filter (\<lambda>k. k \<notin> set conflicted \<and> k \<notin> set matched) (remdups (map ti_id issuedTickets)))),
             int (card (set conflicted)), unexpected))"

definition compareTicketCodeDirectory :: "PayEnv \<Rightarrow> uuid \<Rightarrow> TicketIdentity list \<Rightarrow> PaymentDb \<Rightarrow> ReconcileError + int \<times> int \<times> int" where
  "compareTicketCodeDirectory env orderID issuedTickets db =
     (if orderID = uuid_Nil \<or> 100 < length issuedTickets \<or> list_ex (\<lambda>t. ti_id t = uuid_Nil \<or> \<not> ValidTicketCode (ti_code t)) issuedTickets
      then Inl RecInvalidRequest
      else if py_fault env ''ticket codes'' then Inl (RecFailed ''ticket codes'')
      else let rows = take 201 (sort_key (\<lambda>d. (di_code d, di_id d))
             [\<lparr>di_id = k, di_code = code, di_orderID = tl_order l\<rparr>. (code, k) \<leftarrow> ticket_code_directory db, l \<leftarrow> pay_ticket_locators db,
                tl_ticket l = k \<and> (code \<in> ti_code ` set issuedTickets \<or> k \<in> ti_id ` set issuedTickets \<or> tl_order l = orderID)]) in
        if 200 < length rows then Inl (RecFailed ''ticket code directory comparison exceeds bound'')
        else compareTicketCodeRows orderID issuedTickets rows)"

subsection \<open>Checkpoints of a run\<close>

definition new_checkpoint :: "uuid \<Rightarrow> Scope \<Rightarrow> uuid \<Rightarrow> bool \<Rightarrow> gotime \<Rightarrow> CheckpointRow" where
  "new_checkpoint fresh scope intentID repair now =
     \<lparr>cp_id = fresh, cp_scope = scope, cp_intent = (if intentID = uuid_Nil then None else Some intentID), cp_safe_repair = repair,
      cp_state = CheckpointPending, cp_rows = 0, cp_mismatches = 0, cp_repairs = 0, cp_truncated = False, cp_attempts = 0,
      cp_next = pg_timestamptz now, cp_lease = None, cp_error = None, cp_started = None, cp_completed = None\<rparr>"

definition StartCheckpoint :: "PayEnv \<Rightarrow> uuid \<Rightarrow> Scope \<Rightarrow> uuid \<Rightarrow> bool \<Rightarrow> gotime \<Rightarrow> ReconDb \<Rightarrow> (ReconcileError + Checkpoint) \<times> ReconDb" where
  "StartCheckpoint env fresh scope intentID repair now =
     run_tx (tx_bind (tx_reject (\<not> Scope_Valid scope \<or> IsZero_time now) RecInvalidRequest) (\<lambda>_.
     tx_bind (begin_k env (RecFailed ''begin'')) (\<lambda>_.
     tx_bind (insert_checkpoint env ''insert checkpoint'' (RecFailed ''insert checkpoint'') (new_checkpoint fresh scope intentID repair now)) (\<lambda>_.
     tx_bind (update_checkpoints env ''run checkpoint'' (RecFailed ''run checkpoint'') (\<lambda>r. cp_id r = fresh \<and> cp_state r = CheckpointPending)
       (\<lambda>r. r\<lparr>cp_state := CheckpointRunning, cp_attempts := 1,
              cp_lease := Some (''reconciler:'' @ pid_String (py_ids env) fresh, pg_timestamptz (now + 5 * 60 * 1000000000)),
              cp_started := Some (pg_timestamptz now)\<rparr>)) (\<lambda>_.
     tx_bind (commit_k env (RecFailed ''commit'')) (\<lambda>_.
     tx_return \<lparr>ck_ID = fresh, ck_Scope = scope, ck_PaymentIntentID = intentID, ck_Repair = repair, ck_StartedAt = now\<rparr>))))))"

definition store_boundedCategory :: "string \<Rightarrow> string" where
  "store_boundedCategory value =
     (if value = [] \<or> 64 < length value \<or> \<not> list_all (\<lambda>c. lower_letter c \<or> decimal_digit c \<or> c = CHR ''_'') value
      then ''reconciliation_failed'' else value)"

definition checkpoint_result_state :: "CheckpointResult \<Rightarrow> CheckpointState" where
  "checkpoint_result_state result =
     (if kr_Failed result then CheckpointFailed else if kr_Truncated result then CheckpointPartial
      else if 0 < kr_MismatchCount result then CheckpointMismatch else CheckpointPassed)"

definition FinishCheckpoint :: "PayEnv \<Rightarrow> Checkpoint \<Rightarrow> CheckpointResult \<Rightarrow> ReconDb \<Rightarrow> (ReconcileError + unit) \<times> ReconDb" where
  "FinishCheckpoint env checkpoint result =
     run_tx (tx_bind (tx_reject (ck_ID checkpoint = uuid_Nil \<or> IsZero_time (kr_CompletedAt result) \<or> kr_RowsExamined result < 0 \<or>
               kr_MismatchCount result < 0 \<or> kr_RepairCount result < 0 \<or> kr_RowsExamined result < kr_MismatchCount result \<or>
               kr_MismatchCount result < kr_RepairCount result) RecInvalidRequest) (\<lambda>_.
     tx_bind (begin_k env (RecFailed ''begin'')) (\<lambda>_.
     tx_bind (update_checkpoints env ''finish checkpoint'' (RecFailed ''finish checkpoint'')
       (\<lambda>r. cp_id r = ck_ID checkpoint \<and> cp_state r = CheckpointRunning)
       (\<lambda>r. r\<lparr>cp_state := checkpoint_result_state result, cp_rows := kr_RowsExamined result, cp_mismatches := kr_MismatchCount result,
              cp_repairs := kr_RepairCount result, cp_truncated := kr_Truncated result,
              cp_error := (if kr_Failed result then Some (store_boundedCategory (kr_ErrorCategory result)) else None),
              cp_lease := None, cp_completed := Some (pg_timestamptz (kr_CompletedAt result))\<rparr>)) (\<lambda>n.
     tx_bind (tx_reject (n \<noteq> 1) (RecFailed ''payment reconciliation checkpoint lease lost'')) (\<lambda>_.
     commit_k env (RecFailed ''commit''))))))"

definition EscalateManualReview ::
  "PayEnv \<Rightarrow> uuid \<Rightarrow> uuid \<Rightarrow> uuid \<Rightarrow> string \<Rightarrow> gotime \<Rightarrow> ReconDb \<Rightarrow> (ReconcileError + bool) \<times> ReconDb" where
  "EscalateManualReview env fresh reconciliationID intentID reason due =
     run_tx (tx_bind (tx_reject (reconciliationID = uuid_Nil \<or> intentID = uuid_Nil \<or> store_boundedCategory reason \<noteq> reason \<or>
               IsZero_time due) RecInvalidRequest) (\<lambda>_.
     tx_bind (begin_k env (RecFailed ''begin'')) (\<lambda>_.
     tx_bind (\<lambda>db. let pay = rb_pay db; cases = payment_manual_review_cases pay in
         if py_fault env ''insert case'' \<or> \<not> categoryPattern reason \<or> pg_timestamptz due < py_clock env ''insert case'' then Inl (RecFailed ''insert case'')
         else if list_ex (\<lambda>v. rv_intent v = intentID \<and> rv_reason v = reason \<and> rv_open v) cases then Inr (False, db)
         else if fresh \<in> set (map rv_id cases) \<or> \<not> list_ex (\<lambda>i. pi_id i = intentID) (payment_intents pay) \<or>
                 reconciliationID \<notin> set (map cp_id (rb_checkpoints db)) then Inl (RecFailed ''insert case'')
         else Inr (True, db\<lparr>rb_pay := pay\<lparr>payment_manual_review_cases := cases @
           [\<lparr>rv_id = fresh, rv_intent = intentID, rv_operation = None, rv_inbox = None, rv_reason = reason, rv_open = True,
             rv_due = pg_timestamptz due\<rparr>]\<rparr>\<rparr>)) (\<lambda>created.
     tx_bind (commit_k env (RecFailed ''commit'')) (\<lambda>_. tx_return created)))))"

end
