(* ===== verification/Payment_Repair.thy ===== *)
theory Payment_Repair
  imports Payment_Recon_Store Payment_Worker
begin

text \<open>
  The repairer of the reconciler (\<^verbatim>\<open>internal/payment/reconcile/postgres/repair.go\<close>): it replays a command whose identity
  and fingerprint follow from what the control plane has recorded, under a lease of its own on the saga, and it gives an
  operator a few explicit actions.

  As for the worker, the gateway of the shards acts on an outside world, and before the \<open>n\<close>-th call to the store others may
  have committed. \<open>rp_fresh\<close> is the identifier that \<^verbatim>\<open>uuid.New\<close> draws in that call.
\<close>

subsection \<open>Evidence\<close>

record repairEvidence =
  rep_SagaID :: uuid
  rep_IntentID :: uuid
  rep_ReservationID :: uuid
  rep_TrainRunID :: uuid
  rep_OwnerID :: uuid
  rep_OperationID :: uuid
  rep_IntentState :: IntentState
  rep_SagaState :: SagaState
  rep_Step :: SagaStep
  rep_Currency :: string
  rep_ErrorCategory :: string
  rep_AmountMinor :: int64
  rep_Proof :: "byte list"
  rep_CompletedAt :: gotime
  rep_ActiveLease :: bool

definition evidence_operation :: "string \<Rightarrow> OperationType option" where
  "evidence_operation kind =
     map_of [(''issue_tickets'', OperationCapture), (''mark_refund_pending'', OperationCapture),
             (''cancel_voided_reservation'', OperationVoid), (''apply_refund_compensation'', OperationRefund)] kind"

definition evidence_rows :: "uuid \<Rightarrow> OperationType \<Rightarrow> PaymentDb \<Rightarrow> (IntentRow \<times> SagaRow \<times> OperationRow) list" where
  "evidence_rows intentID operationType db =
     [(i, s, p). i \<leftarrow> payment_intents db, pi_id i = intentID, s \<leftarrow> payment_sagas db, sg_intent s = pi_id i,
        p \<leftarrow> payment_operations db, po_intent p = pi_id i \<and> po_type p = operationType \<and> po_state p = OperationSucceeded \<and>
        po_response p \<noteq> None]"

definition scan_evidence :: "gotime \<Rightarrow> IntentRow \<times> SagaRow \<times> OperationRow \<Rightarrow> repairEvidence" where
  "scan_evidence now = (\<lambda>(i, s, p).
     \<lparr>rep_SagaID = sg_id s, rep_IntentID = pi_id i, rep_ReservationID = pi_reservation i, rep_TrainRunID = pi_train_run i,
      rep_OwnerID = pi_owner i, rep_OperationID = po_id p, rep_IntentState = pi_state i, rep_SagaState = sg_state s,
      rep_Step = sg_step s, rep_Currency = pi_currency i, rep_ErrorCategory = coalesce (sg_error s), rep_AmountMinor = pi_amount i,
      rep_Proof = proof_of (Some p), rep_CompletedAt = (case po_completed p of None \<Rightarrow> 0 | Some t \<Rightarrow> t),
      rep_ActiveLease = (\<not> lease_free now (sg_lease s))\<rparr>)"

definition loadRepairEvidence :: "PayEnv \<Rightarrow> uuid \<Rightarrow> string \<Rightarrow> PaymentDb \<Rightarrow> ReconcileError + repairEvidence" where
  "loadRepairEvidence env intentID kind db =
     (let label = ''evidence:'' @ kind in
      case evidence_operation kind of
        None \<Rightarrow> Inl RecInvalidRequest
      | Some operationType \<Rightarrow>
          if intentID = uuid_Nil then Inl RecInvalidRequest
          else if py_fault env label then Inl (RecFailed label)
          else (case evidence_rows intentID operationType db of
            [] \<Rightarrow> Inl RecNoRows
          | (i, s, p) # _ \<Rightarrow>
              if length (proof_of (Some p)) \<noteq> 32 \<or> po_completed p = None \<or> sg_id s = uuid_Nil \<or> po_id p = uuid_Nil \<or> pi_amount i \<le> 0
              then Inl RecRepairUnavailable
              else Inr (scan_evidence (py_clock env label) (i, s, p))))"

subsection \<open>Commands\<close>

definition repairActionNamespace :: uuid where
  "repairActionNamespace = 0x8fd46050e41f5b3c876c77d4f4fa2570"

definition controlPaymentIdentityNamespace :: uuid where
  "controlPaymentIdentityNamespace = 0xd4afbc577bb05f88bff462db186e9ea8"

definition deterministicRepairID :: "PayIds \<Rightarrow> uuid \<Rightarrow> string \<Rightarrow> uuid" where
  "deterministicRepairID ids sagaID purpose = pid_NewSHA1 ids repairActionNamespace (pid_String ids sagaID @ '':'' @ purpose)"

definition repairFingerprint :: "PayIds \<Rightarrow> uuid \<Rightarrow> string \<Rightarrow> byte list \<Rightarrow> byte list" where
  "repairFingerprint ids sagaID action proof_hash =
     pid_Sum256 ids (string_bytes (''payment-action-v1:'' @ pid_String ids sagaID @ '':'' @ action @ '':'') @ proof_hash)"

definition issueCommand :: "PayIds \<Rightarrow> repairEvidence \<Rightarrow> IssueTicketsCommand" where
  "issueCommand ids e =
     \<lparr>ic_CommandID = deterministicRepairID ids (rep_SagaID e) ''issue_tickets_command'',
      ic_IssuanceID = deterministicRepairID ids (rep_SagaID e) ''ticket_issuance'', ic_PaymentIntentID = rep_IntentID e,
      ic_PaymentOperationID = rep_OperationID e, ic_ReservationID = rep_ReservationID e, ic_TrainRunID = rep_TrainRunID e,
      ic_OwnerID = rep_OwnerID e, ic_AmountMinor = rep_AmountMinor e, ic_Currency = rep_Currency e,
      ic_CaptureProofHash = rep_Proof e, ic_RequestFingerprint = repairFingerprint ids (rep_SagaID e) ''issue_tickets'' (rep_Proof e),
      ic_PlannedTicketIDs = [], ic_PlannedTicketCodes = []\<rparr>"

definition markRefundPendingCommand :: "PayIds \<Rightarrow> repairEvidence \<Rightarrow> MarkRefundPendingCommand" where
  "markRefundPendingCommand ids e =
     \<lparr>mc_CommandID = deterministicRepairID ids (rep_SagaID e) ''mark_refund_pending_command'', mc_PaymentIntentID = rep_IntentID e,
      mc_ReservationID = rep_ReservationID e, mc_TrainRunID = rep_TrainRunID e, mc_OwnerID = rep_OwnerID e,
      mc_AmountMinor = rep_AmountMinor e, mc_Currency = rep_Currency e, mc_CaptureProofHash = rep_Proof e,
      mc_RequestFingerprint = repairFingerprint ids (rep_SagaID e) ''mark_refund_pending'' (rep_Proof e)\<rparr>"

definition voidCommand :: "PayIds \<Rightarrow> repairEvidence \<Rightarrow> CancelVoidedReservationCommand" where
  "voidCommand ids e =
     (let command =
        \<lparr>vc_CommandID = deterministicRepairID ids (rep_SagaID e) ''void_cancellation_command'', vc_VoidOperationID = rep_OperationID e,
         vc_PaymentIntentID = rep_IntentID e, vc_ReservationID = rep_ReservationID e, vc_TrainRunID = rep_TrainRunID e,
         vc_OwnerID = rep_OwnerID e, vc_AmountMinor = rep_AmountMinor e, vc_Currency = rep_Currency e,
         vc_VoidProofHash = rep_Proof e, vc_RequestFingerprint = replicate 32 0, vc_VoidedAt = rep_CompletedAt e\<rparr>
      in command\<lparr>vc_RequestFingerprint := VoidCancellationFingerprint (pid_Sum256 ids) command\<rparr>)"

definition compensationCommand :: "PayIds \<Rightarrow> repairEvidence \<Rightarrow> ApplyRefundCompensationCommand" where
  "compensationCommand ids e =
     \<lparr>rc_CommandID = deterministicRepairID ids (rep_SagaID e) ''refund_compensation_command'',
      rc_CompensationID = deterministicRepairID ids (rep_SagaID e) ''refund_compensation'', rc_RefundOperationID = rep_OperationID e,
      rc_PaymentIntentID = rep_IntentID e, rc_ReservationID = rep_ReservationID e, rc_TrainRunID = rep_TrainRunID e,
      rc_OwnerID = rep_OwnerID e, rc_AmountMinor = rep_AmountMinor e, rc_Currency = rep_Currency e, rc_RefundProofHash = rep_Proof e,
      rc_RequestFingerprint = repairFingerprint ids (rep_SagaID e) ''compensate'' (rep_Proof e), rc_RefundedAt = rep_CompletedAt e\<rparr>"

definition recordedCommand :: "PayIds \<Rightarrow> repairEvidence \<Rightarrow> string \<Rightarrow> ReconcileError + RecordedCommand" where
  "recordedCommand ids e kind =
     (let rid = deterministicRepairID ids (rep_SagaID e); print = repairFingerprint ids (rep_SagaID e) in
      if kind = ''issue_tickets'' then
        Inr \<lparr>rc_ID = rid ''issue_tickets_command'', rc_Kind = kind, rc_Fingerprint = print ''issue_tickets'' (rep_Proof e)\<rparr>
      else if kind = ''mark_refund_pending'' then
        Inr \<lparr>rc_ID = rid ''mark_refund_pending_command'', rc_Kind = kind, rc_Fingerprint = print ''mark_refund_pending'' (rep_Proof e)\<rparr>
      else if kind = ''apply_refund_compensation'' then
        Inr \<lparr>rc_ID = rid ''refund_compensation_command'', rc_Kind = kind, rc_Fingerprint = print ''compensate'' (rep_Proof e)\<rparr>
      else if kind = ''cancel_voided_reservation'' then
        Inr \<lparr>rc_ID = vc_CommandID (voidCommand ids e), rc_Kind = kind, rc_Fingerprint = vc_RequestFingerprint (voidCommand ids e)\<rparr>
      else Inl RecInvalidRequest)"

text \<open>The commands that a snapshot of the shard carries: the loop over the four kinds.\<close>

fun load_commands :: "PayEnv \<Rightarrow> uuid \<Rightarrow> PaymentDb \<Rightarrow> string list \<Rightarrow> RecordedCommand list \<Rightarrow> ReconcileError + RecordedCommand list" where
  "load_commands env intentID db [] result = Inr result"
| "load_commands env intentID db (kind # kinds) result =
     (case loadRepairEvidence env intentID kind db of
        Inl e \<Rightarrow> if e = RecNoRows then load_commands env intentID db kinds result else Inl e
      | Inr evidence \<Rightarrow>
          (case recordedCommand (py_ids env) evidence kind of
             Inl e \<Rightarrow> Inl e
           | Inr command \<Rightarrow> load_commands env intentID db kinds (result @ [command])))"

definition loadRecordedCommands :: "PayEnv \<Rightarrow> uuid \<Rightarrow> PaymentDb \<Rightarrow> ReconcileError + RecordedCommand list" where
  "loadRecordedCommands env intentID db =
     load_commands env intentID db
       [''issue_tickets'', ''mark_refund_pending'', ''cancel_voided_reservation'', ''apply_refund_compensation''] []"

subsection \<open>Leases and the audit\<close>

text \<open>A statement that has to change one row, and one that is shared with the worker.\<close>

definition repair_row :: "(ReconcileError, nat) ptx \<Rightarrow> unit ktx" where
  "repair_row m = tx_bind (on_pay m) (\<lambda>n. tx_reject (n \<noteq> 1) RecRepairUnavailable)"

definition worker_row :: "nat wtx \<Rightarrow> unit ktx" where
  "worker_row m =
     repair_row (\<lambda>db. case m db of Inl _ \<Rightarrow> Inl RecRepairUnavailable | Inr r \<Rightarrow> Inr r)"

definition repair_state :: "string \<Rightarrow> (IntentState \<times> SagaState \<times> SagaStep) option" where
  "repair_state kind =
     map_of [(''issue_tickets'', (IntentTicketIssuePending, SagaIssuingTickets, StepIssueTickets)),
             (''mark_refund_pending'', (IntentRefundPending, SagaCompensating, StepRefund)),
             (''cancel_voided_reservation'', (IntentVoided, SagaCompensating, StepCompensate)),
             (''apply_refund_compensation'', (IntentRefunded, SagaRefunding, StepCompensate))] kind"

definition claim_repair_tx ::
  "PayEnv \<Rightarrow> string \<Rightarrow> repairEvidence \<Rightarrow> string \<Rightarrow> bool \<Rightarrow> IntentState \<times> SagaState \<times> SagaStep \<Rightarrow> string ktx" where
  "claim_repair_tx env leaseOwner e kind manualFinalize = (\<lambda>(expectedIntent, expectedSaga, expectedStep).
     let unavailable = RecRepairUnavailable in
     tx_bind (begin_k env (RecFailed ''begin'')) (\<lambda>_.
     tx_bind (if manualFinalize \<and> (kind = ''issue_tickets'' \<or> kind = ''mark_refund_pending'')
       then repair_row (update_intents env ''reopen intent'' unavailable
         (\<lambda>_ r. pi_id r = rep_IntentID e \<and> pi_state r = IntentManualReview) (\<lambda>r. r\<lparr>pi_state := expectedIntent\<rparr>))
       else tx_return ()) (\<lambda>_.
     tx_bind (if manualFinalize
       then repair_row (update_sagas env ''reopen saga'' unavailable
         (\<lambda>_ r. sg_id r = rep_SagaID e \<and> sg_state r = SagaManualReview \<and> sg_step r = expectedStep \<and>
            sg_error r = Some ''database_finalize_failed'' \<and> lease_free (py_clock env ''reopen saga'') (sg_lease r))
         (\<lambda>r. r\<lparr>sg_state := expectedSaga, sg_error := None\<rparr>))
       else tx_return ()) (\<lambda>_.
     tx_bind (repair_row (update_sagas env ''lease saga'' unavailable
       (\<lambda>db r. sg_id r = rep_SagaID e \<and>
          list_ex (\<lambda>i. pi_id i = rep_IntentID e \<and> pi_id i = sg_intent r \<and> pi_state i = expectedIntent) (payment_intents db) \<and>
          sg_state r = expectedSaga \<and> sg_step r = expectedStep \<and> lease_free (py_clock env ''lease saga'') (sg_lease r))
       (\<lambda>r. r\<lparr>sg_lease := Some (leaseOwner, py_clock env ''lease saga'' + 120 * 1000000000)\<rparr>))) (\<lambda>_.
     tx_bind (commit_k env (RecFailed ''commit'')) (\<lambda>_. tx_return leaseOwner))))))"

definition claimRepairSaga :: "PayEnv \<Rightarrow> uuid \<Rightarrow> repairEvidence \<Rightarrow> string \<Rightarrow> ReconDb \<Rightarrow> (ReconcileError + string) \<times> ReconDb" where
  "claimRepairSaga env fresh e kind db =
     (case repair_state kind of
        None \<Rightarrow> (Inl RecRepairUnavailable, db)
      | Some (expectedIntent, expectedSaga, expectedStep) \<Rightarrow>
          let regular = (rep_IntentState e = expectedIntent \<and> rep_SagaState e = expectedSaga \<and> rep_Step e = expectedStep);
              manualFinalize = (rep_SagaState e = SagaManualReview \<and> rep_Step e = expectedStep \<and>
                rep_ErrorCategory e = ''database_finalize_failed'' \<and>
                (rep_IntentState e = expectedIntent \<or>
                 (kind = ''issue_tickets'' \<or> kind = ''mark_refund_pending'') \<and> rep_IntentState e = IntentManualReview)) in
          if \<not> regular \<and> \<not> manualFinalize then (Inl RecRepairUnavailable, db)
          else run_tx (claim_repair_tx env (''payment-admin-repair:'' @ pid_String (py_ids env) fresh) e kind manualFinalize
                 (expectedIntent, expectedSaga, expectedStep)) db)"

definition releaseRepairLease :: "PayEnv \<Rightarrow> uuid \<Rightarrow> string \<Rightarrow> ReconDb \<Rightarrow> (ReconcileError + unit) \<times> ReconDb" where
  "releaseRepairLease env sagaID leaseOwner =
     run_tx (tx_bind (begin_k env (RecFailed ''begin'')) (\<lambda>_.
     tx_bind (on_pay (update_sagas env ''release lease'' (RecFailed ''release lease'')
       (\<lambda>_ r. sg_id r = sagaID \<and> lease_owned leaseOwner (sg_lease r)) (\<lambda>r. r\<lparr>sg_lease := None\<rparr>))) (\<lambda>_.
     commit_k env (RecFailed ''commit''))))"

definition audit_row :: "PayEnv \<Rightarrow> uuid \<Rightarrow> uuid \<Rightarrow> Scope \<Rightarrow> bool \<Rightarrow> CheckpointRow" where
  "audit_row env fresh intentID scope repaired =
     \<lparr>cp_id = fresh, cp_scope = scope, cp_intent = Some intentID, cp_safe_repair = repaired, cp_state = CheckpointMismatch,
      cp_rows = 1, cp_mismatches = 1, cp_repairs = (if repaired then 1 else 0), cp_truncated = False, cp_attempts = 1,
      cp_next = py_clock env ''audit'', cp_lease = None, cp_error = None, cp_started = Some (py_clock env ''audit''),
      cp_completed = Some (py_clock env ''audit'')\<rparr>"

definition insertRepairAudit :: "PayEnv \<Rightarrow> uuid \<Rightarrow> uuid \<Rightarrow> Scope \<Rightarrow> bool \<Rightarrow> unit ktx" where
  "insertRepairAudit env fresh intentID scope repaired =
     insert_checkpoint env ''audit'' (RecFailed ''audit'') (audit_row env fresh intentID scope repaired)"


subsection \<open>Recording the outcome\<close>

definition select_row :: "PayEnv \<Rightarrow> string \<Rightarrow> (PaymentDb \<Rightarrow> 'a list) \<Rightarrow> 'a ktx" where
  "select_row env label q =
     tx_bind (on_pay (query_row env label (RecFailed label) q)) (\<lambda>row. tx_some row RecNoRows)"

text \<open>The error of a statement is replaced by \<^verbatim>\<open>ErrRepairUnavailable\<close>.\<close>

definition or_unavailable :: "'a ktx \<Rightarrow> 'a ktx" where
  "or_unavailable m = (\<lambda>db. case m db of Inl _ \<Rightarrow> Inl RecRepairUnavailable | Inr r \<Rightarrow> Inr r)"

definition repair_rows :: "repairEvidence \<Rightarrow> PaymentDb \<Rightarrow> (IntentRow \<times> SagaRow) list" where
  "repair_rows e db =
     [(i, s). i \<leftarrow> payment_intents db, pi_id i = rep_IntentID e, s \<leftarrow> payment_sagas db, sg_intent s = pi_id i \<and> sg_id s = rep_SagaID e]"

definition repair_leased :: "PayEnv \<Rightarrow> string \<Rightarrow> repairEvidence \<Rightarrow> SagaState \<Rightarrow> SagaStep \<Rightarrow> string \<Rightarrow> SagaRow \<Rightarrow> bool" where
  "repair_leased env leaseOwner e state step label r \<longleftrightarrow>
     sg_id r = rep_SagaID e \<and> sg_state r = state \<and> sg_step r = step \<and> lease_held leaseOwner (py_clock env label) (sg_lease r)"

definition validIssueRepairReceipt :: "repairEvidence \<Rightarrow> IssueTicketsCommand \<Rightarrow> IssueTicketsReceipt \<Rightarrow> bool" where
  "validIssueRepairReceipt e command receipt \<longleftrightarrow>
     it_CommandID receipt = ic_CommandID command \<and> it_IssuanceID receipt = ic_IssuanceID command \<and>
     it_PaymentIntentID receipt = rep_IntentID e \<and> it_ReservationID receipt = rep_ReservationID e \<and>
     it_TicketOrderID receipt \<noteq> uuid_Nil \<and> it_TicketIDs receipt \<noteq> [] \<and>
     length (it_TicketCodes receipt) = length (it_TicketIDs receipt) \<and> it_AmountMinor receipt = rep_AmountMinor e \<and>
     it_Currency receipt = rep_Currency e \<and> \<not> IsZero_time (it_OrderCreatedAt receipt) \<and> \<not> IsZero_time (it_IssuedAt receipt) \<and>
     list_all (\<lambda>k. k \<noteq> uuid_Nil) (it_TicketIDs receipt) \<and> list_all ValidTicketCode (it_TicketCodes receipt) \<and>
     distinct (it_TicketIDs receipt) \<and> distinct (it_TicketCodes receipt)"

definition validVoidRepairReceipt ::
  "repairEvidence \<Rightarrow> CancelVoidedReservationCommand \<Rightarrow> CancelVoidedReservationReceipt \<Rightarrow> bool" where
  "validVoidRepairReceipt e command receipt \<longleftrightarrow>
     vr_CommandID receipt = vc_CommandID command \<and> vr_VoidOperationID receipt = rep_OperationID e \<and>
     vr_PaymentIntentID receipt = rep_IntentID e \<and> vr_ReservationID receipt = rep_ReservationID e \<and>
     vr_TicketOrderID receipt \<noteq> uuid_Nil \<and> 0 < vr_ReleasedSeatCount receipt \<and> \<not> IsZero_time (vr_CancelledAt receipt)"

definition validCompensationRepairReceipt ::
  "repairEvidence \<Rightarrow> ApplyRefundCompensationCommand \<Rightarrow> ApplyRefundCompensationReceipt \<Rightarrow> bool" where
  "validCompensationRepairReceipt e command receipt \<longleftrightarrow>
     rr_CommandID receipt = rc_CommandID command \<and> rr_CompensationID receipt = rc_CompensationID command \<and>
     rr_PaymentIntentID receipt = rep_IntentID e \<and> rr_ReservationID receipt = rep_ReservationID e \<and>
     rr_TicketOrderID receipt \<noteq> uuid_Nil \<and> 0 < rr_ReleasedSeatCount receipt \<and> 0 \<le> rr_CancelledTicketCount receipt"

fun repair_tickets :: "PayEnv \<Rightarrow> TicketLocator \<Rightarrow> (uuid \<times> string) list \<Rightarrow> unit ktx" where
  "repair_tickets env l [] = tx_return ()"
| "repair_tickets env l ((ticketID, ticketCode) # rest) =
     tx_bind (tx_reject (ticketID = uuid_Nil \<or> \<not> ValidTicketCode ticketCode) RecRepairUnavailable) (\<lambda>_.
     tx_bind (worker_row (insert_ticket_locator env (l\<lparr>tl_ticket := ticketID\<rparr>))) (\<lambda>_.
     tx_bind (worker_row (insert_ticket_code env ticketCode ticketID)) (\<lambda>_.
     repair_tickets env l rest)))"

definition finalize_issue_tx :: "PayEnv \<Rightarrow> repairEvidence \<Rightarrow> IssueTicketsReceipt \<Rightarrow> string \<Rightarrow> unit ktx" where
  "finalize_issue_tx env e receipt leaseOwner =
     tx_bind (begin_k env (RecFailed ''begin'')) (\<lambda>_.
     tx_bind (select_row env ''lock payment''
       (\<lambda>db. [(i, s, l). (i, s) \<leftarrow> repair_rows e db, l \<leftarrow> pay_reservation_locators db, rl_reservation l = pi_reservation i])) (\<lambda>(i, s, l).
     tx_bind (tx_reject (pi_state i \<noteq> IntentTicketIssuePending \<or>
       \<not> repair_leased env leaseOwner e SagaIssuingTickets StepIssueTickets ''lock payment'' s \<or>
       rl_train_run l \<noteq> rep_TrainRunID e \<or> rl_owner l \<noteq> rep_OwnerID e \<or> rl_shard l = [] \<or> rl_generation l < 1) RecRepairUnavailable) (\<lambda>_.
     tx_bind (worker_row (insert_order_locator env
       \<lparr>ol_order = it_TicketOrderID receipt, ol_reservation = rep_ReservationID e, ol_train_run = rl_train_run l, ol_shard = rl_shard l,
        ol_generation = rl_generation l, ol_owner = rl_owner l, ol_status = ''confirmed'', ol_total = rep_AmountMinor e,
        ol_currency = rep_Currency e, ol_created = pg_timestamptz (it_OrderCreatedAt receipt)\<rparr>)) (\<lambda>_.
     tx_bind (repair_tickets env
       \<lparr>tl_ticket = 0, tl_order = it_TicketOrderID receipt, tl_reservation = rep_ReservationID e, tl_train_run = rl_train_run l,
        tl_shard = rl_shard l, tl_generation = rl_generation l, tl_owner = rl_owner l\<rparr>
       (zip (it_TicketIDs receipt) (it_TicketCodes receipt))) (\<lambda>_.
     tx_bind (repair_row (update_intents env ''intent completed'' RecRepairUnavailable
       (\<lambda>_ r. pi_id r = rep_IntentID e \<and> pi_state r = IntentTicketIssuePending)
       (\<lambda>r. r\<lparr>pi_state := IntentCompleted, pi_completed := Some (py_clock env ''intent completed'')\<rparr>))) (\<lambda>_.
     tx_bind (repair_row (update_sagas env ''saga completed'' RecRepairUnavailable
       (\<lambda>_. repair_leased env leaseOwner e SagaIssuingTickets StepIssueTickets ''saga completed'')
       (saga_done (py_clock env ''saga completed'') SagaCompleted))) (\<lambda>_.
     commit_k env (RecFailed ''commit''))))))))"

definition finalizeIssue ::
  "PayEnv \<Rightarrow> repairEvidence \<Rightarrow> IssueTicketsCommand \<Rightarrow> IssueTicketsReceipt \<Rightarrow> string \<Rightarrow> ReconDb \<Rightarrow> (ReconcileError + unit) \<times> ReconDb" where
  "finalizeIssue env e command receipt leaseOwner =
     run_tx (tx_bind (tx_reject (\<not> validIssueRepairReceipt e command receipt) RecRepairUnavailable) (\<lambda>_.
             finalize_issue_tx env e receipt leaseOwner))"

definition finalizeMarkRefundPending ::
  "PayEnv \<Rightarrow> repairEvidence \<Rightarrow> MarkRefundPendingCommand \<Rightarrow> MarkRefundPendingReceipt \<Rightarrow> string \<Rightarrow> ReconDb \<Rightarrow>
     (ReconcileError + unit) \<times> ReconDb" where
  "finalizeMarkRefundPending env e command receipt leaseOwner =
     run_tx (tx_bind (tx_reject (mr_CommandID receipt \<noteq> mc_CommandID command \<or> mr_PaymentIntentID receipt \<noteq> rep_IntentID e \<or>
               mr_ReservationID receipt \<noteq> rep_ReservationID e \<or> mr_TicketOrderID receipt = uuid_Nil) RecRepairUnavailable) (\<lambda>_.
     tx_bind (begin_k env (RecFailed ''begin'')) (\<lambda>_.
     tx_bind (or_unavailable (select_row env ''lock payment'' (repair_rows e))) (\<lambda>(i, s).
     tx_bind (tx_reject (pi_state i \<noteq> IntentRefundPending \<or>
       \<not> repair_leased env leaseOwner e SagaCompensating StepRefund ''lock payment'' s) RecRepairUnavailable) (\<lambda>_.
     tx_bind (repair_row (update_sagas env ''saga refunding'' RecRepairUnavailable
       (\<lambda>_. repair_leased env leaseOwner e SagaCompensating StepRefund ''saga refunding'')
       (\<lambda>r. r\<lparr>sg_state := SagaRefunding, sg_step := StepRefund, sg_lease := None, sg_error := None,
              sg_next := py_clock env ''saga refunding''\<rparr>))) (\<lambda>_.
     commit_k env (RecFailed ''commit'')))))))"

definition terminal_compensation_tx ::
  "PayEnv \<Rightarrow> repairEvidence \<Rightarrow> IntentState \<Rightarrow> SagaState \<Rightarrow> uuid \<Rightarrow> bool \<Rightarrow> string \<Rightarrow> unit ktx" where
  "terminal_compensation_tx env e intentState sagaState orderID requireLocator leaseOwner =
     (let matches = (\<lambda>l. ol_order l = orderID \<and> ol_reservation l = rep_ReservationID e \<and> ol_owner l = rep_OwnerID e) in
     tx_bind (begin_k env (RecFailed ''begin'')) (\<lambda>_.
     tx_bind (or_unavailable (select_row env ''lock payment'' (repair_rows e))) (\<lambda>(i, s).
     tx_bind (tx_reject (pi_state i \<noteq> intentState \<or>
       \<not> repair_leased env leaseOwner e sagaState StepCompensate ''lock payment'' s) RecRepairUnavailable) (\<lambda>_.
     tx_bind (tx_get (\<lambda>db. length (filter matches (pay_ticket_order_locators (rb_pay db))))) (\<lambda>n.
     tx_bind (tx_reject (orderID \<noteq> uuid_Nil \<and> (py_fault env ''cancel order locator'' \<or> requireLocator \<and> n \<noteq> 1 \<or> \<not> requireLocator \<and> n \<noteq> 0))
       RecRepairUnavailable) (\<lambda>_.
     tx_bind (if orderID = uuid_Nil then tx_return () else on_pay (tx_modify (\<lambda>db. db\<lparr>pay_ticket_order_locators :=
       map (\<lambda>l. if matches l then l\<lparr>ol_status := ''cancelled''\<rparr> else l) (pay_ticket_order_locators db)\<rparr>))) (\<lambda>_.
     tx_bind (tx_reject (orderID = uuid_Nil \<and> requireLocator) RecRepairUnavailable) (\<lambda>_.
     tx_bind (repair_row (update_intents env ''intent cancelled'' RecRepairUnavailable
       (\<lambda>_ r. pi_id r = rep_IntentID e \<and> pi_state r = intentState) (\<lambda>r. r\<lparr>pi_state := IntentCancelled\<rparr>))) (\<lambda>_.
     tx_bind (repair_row (update_sagas env ''saga compensated'' RecRepairUnavailable
       (\<lambda>_. repair_leased env leaseOwner e sagaState StepCompensate ''saga compensated'')
       (saga_done (py_clock env ''saga compensated'') SagaCompensated))) (\<lambda>_.
     commit_k env (RecFailed ''commit'')))))))))))"

definition finalizeTerminalCompensation ::
  "PayEnv \<Rightarrow> repairEvidence \<Rightarrow> IntentState \<Rightarrow> SagaState \<Rightarrow> uuid \<Rightarrow> bool \<Rightarrow> string \<Rightarrow> ReconDb \<Rightarrow> (ReconcileError + unit) \<times> ReconDb" where
  "finalizeTerminalCompensation env e intentState sagaState orderID requireLocator leaseOwner =
     run_tx (tx_bind (tx_reject (requireLocator \<and> orderID = uuid_Nil) RecRepairUnavailable) (\<lambda>_.
             terminal_compensation_tx env e intentState sagaState orderID requireLocator leaseOwner))"

definition finalizeVoid ::
  "PayEnv \<Rightarrow> repairEvidence \<Rightarrow> CancelVoidedReservationCommand \<Rightarrow> CancelVoidedReservationReceipt \<Rightarrow> string \<Rightarrow> ReconDb \<Rightarrow>
     (ReconcileError + unit) \<times> ReconDb" where
  "finalizeVoid env e command receipt leaseOwner db =
     (if \<not> validVoidRepairReceipt e command receipt then (Inl RecRepairUnavailable, db)
      else finalizeTerminalCompensation env e IntentVoided SagaCompensating (vr_TicketOrderID receipt) False leaseOwner db)"

definition finalizeCompensation ::
  "PayEnv \<Rightarrow> repairEvidence \<Rightarrow> ApplyRefundCompensationCommand \<Rightarrow> ApplyRefundCompensationReceipt \<Rightarrow> string \<Rightarrow> ReconDb \<Rightarrow>
     (ReconcileError + unit) \<times> ReconDb" where
  "finalizeCompensation env e command receipt leaseOwner db =
     (if \<not> validCompensationRepairReceipt e command receipt then (Inl RecRepairUnavailable, db)
      else finalizeTerminalCompensation env e IntentRefunded SagaRefunding (rr_TicketOrderID receipt)
             (0 < rr_CancelledTicketCount receipt) leaseOwner db)"


subsection \<open>Replaying a recorded command\<close>

record 'w Repairer =
  rp_gateway :: "'w ShardCalls"
  rp_begin :: "uuid \<Rightarrow> uuid \<Rightarrow> byte list \<Rightarrow> ('w, unit) rcall"
  rp_env :: "nat \<Rightarrow> PayEnv"
  rp_fresh :: "nat \<Rightarrow> uuid"
  rp_others :: "nat \<Rightarrow> ReconDb \<Rightarrow> ReconDb"

record 'w RepairState =
  rw_db :: ReconDb
  rw_world :: 'w
  rw_calls :: nat

type_synonym ('w, 'a) repair = "'w RepairState \<Rightarrow> (ReconcileError + 'a) \<times> 'w RepairState"

definition repair_store :: "'w Repairer \<Rightarrow> (PayEnv \<Rightarrow> uuid \<Rightarrow> ReconDb \<Rightarrow> (ReconcileError + 'a) \<times> ReconDb) \<Rightarrow> ('w, 'a) repair" where
  "repair_store r run st =
     (let n = rw_calls st; (x, db) = run (rp_env r n) (rp_fresh r n) (rp_others r n (rw_db st)) in
      (x, st\<lparr>rw_db := db, rw_calls := Suc n\<rparr>))"

definition repair_gateway :: "('w, 'a) call \<Rightarrow> ('w, 'a) repair" where
  "repair_gateway run st =
     (let (x, w) = run (rw_world st) in
      ((case x of Inl e \<Rightarrow> Inl (RecFailed (ge_text e)) | Inr a \<Rightarrow> Inr a), st\<lparr>rw_world := w\<rparr>))"

definition repair_then :: "('w, 'a) repair \<Rightarrow> ('a \<Rightarrow> ('w, 'b) repair) \<Rightarrow> ('w, 'b) repair" where
  "repair_then m f st = (case m st of (Inl e, st') \<Rightarrow> (Inl e, st') | (Inr x, st') \<Rightarrow> f x st')"

definition repair_evidence :: "'w Repairer \<Rightarrow> uuid \<Rightarrow> string \<Rightarrow> ('w, repairEvidence) repair" where
  "repair_evidence r intentID kind = repair_store r (\<lambda>env _ db. (loadRepairEvidence env intentID kind (rb_pay db), db))"

text \<open>The switch on the kind, between the claim of the saga and the release of the lease.\<close>

definition execute_repair :: "'w Repairer \<Rightarrow> PayIds \<Rightarrow> repairEvidence \<Rightarrow> string \<Rightarrow> string \<Rightarrow> ('w, unit) repair" where
  "execute_repair r ids e kind leaseOwner =
     (if kind = ''issue_tickets'' then
        repair_then (repair_gateway (sc_IssueTickets (rp_gateway r) (issueCommand ids e)))
          (\<lambda>receipt. repair_store r (\<lambda>env _. finalizeIssue env e (issueCommand ids e) receipt leaseOwner))
      else if kind = ''mark_refund_pending'' then
        repair_then (repair_gateway (sc_MarkRefundPending (rp_gateway r) (markRefundPendingCommand ids e)))
          (\<lambda>receipt. repair_store r (\<lambda>env _. finalizeMarkRefundPending env e (markRefundPendingCommand ids e) receipt leaseOwner))
      else if kind = ''cancel_voided_reservation'' then
        repair_then (repair_gateway (sc_CancelVoidedReservation (rp_gateway r) (voidCommand ids e)))
          (\<lambda>receipt. repair_store r (\<lambda>env _. finalizeVoid env e (voidCommand ids e) receipt leaseOwner))
      else if kind = ''apply_refund_compensation'' then
        repair_then (repair_gateway (sc_ApplyRefundCompensation (rp_gateway r) (compensationCommand ids e)))
          (\<lambda>receipt. repair_store r (\<lambda>env _. finalizeCompensation env e (compensationCommand ids e) receipt leaseOwner))
      else (\<lambda>st. (Inl RecRepairUnavailable, st)))"

definition beginPaymentCommandID :: "PayIds \<Rightarrow> uuid \<Rightarrow> uuid" where
  "beginPaymentCommandID ids sagaID =
     pid_NewSHA1 ids controlPaymentIdentityNamespace (pid_String ids sagaID @ '':secure_reservation'')"

definition checkoutOperationIdentity :: "PayIds \<Rightarrow> uuid \<Rightarrow> uuid \<times> byte list" where
  "checkoutOperationIdentity ids intentID =
     (let identity = pid_String ids intentID @ '':create_checkout'' in
      (pid_NewSHA1 ids controlPaymentIdentityNamespace identity, pid_Sum256 ids (string_bytes (''provider:v1:'' @ identity))))"

definition begin_rows :: "uuid \<Rightarrow> PaymentDb \<Rightarrow> (IntentRow \<times> SagaRow \<times> DirectoryRow) list" where
  "begin_rows intentID db =
     [(i, s, d). i \<leftarrow> payment_intents db, pi_id i = intentID, s \<leftarrow> payment_sagas db, sg_intent s = pi_id i,
        d \<leftarrow> reservation_directory db, rd_reservation d = pi_reservation i \<and> rd_train_run d = pi_train_run i \<and> rd_owner d = pi_owner i]"

definition finalize_begin_tx :: "PayEnv \<Rightarrow> uuid \<Rightarrow> uuid \<Rightarrow> RecordedCommand \<Rightarrow> unit ktx" where
  "finalize_begin_tx env fresh intentID recorded =
     (let unavailable = RecRepairUnavailable; (operationID, operationHash) = checkoutOperationIdentity (py_ids env) intentID in
     tx_bind (begin_k env (RecFailed ''begin'')) (\<lambda>_.
     tx_bind (or_unavailable (select_row env ''lock payment'' (begin_rows intentID))) (\<lambda>(i, s, d).
     tx_bind (tx_reject (pi_state i \<noteq> IntentReservationSecuring \<or> sg_state s \<noteq> SagaCreated \<or> sg_step s \<noteq> StepSecureReservation \<or>
       \<not> lease_free (py_clock env ''lock payment'') (sg_lease s) \<or> \<not> rd_active d \<or> length (pi_fingerprint i) \<noteq> 32 \<or>
       rc_ID recorded \<noteq> beginPaymentCommandID (py_ids env) (sg_id s)) unavailable) (\<lambda>_.
     tx_bind (tx_reject (pi_fingerprint i \<noteq> rc_Fingerprint recorded \<or> pi_reservation i = uuid_Nil \<or> pi_train_run i = uuid_Nil \<or>
       pi_owner i = uuid_Nil \<or> pi_provider i = [] \<or> pi_amount i < 0 \<or> length (pi_currency i) \<noteq> 3) unavailable) (\<lambda>_.
     tx_bind (repair_row (update_intents env ''checkout pending'' unavailable
       (\<lambda>_ r. pi_id r = intentID \<and> pi_state r = IntentReservationSecuring) (\<lambda>r. r\<lparr>pi_state := IntentCheckoutPending\<rparr>))) (\<lambda>_.
     tx_bind (repair_row (update_sagas env ''reservation secured'' unavailable
       (\<lambda>_ r. sg_id r = sg_id s \<and> sg_state r = SagaCreated \<and> sg_step r = StepSecureReservation \<and>
          lease_free (py_clock env ''reservation secured'') (sg_lease r))
       (\<lambda>r. r\<lparr>sg_state := SagaReservationSecured, sg_step := StepCreateCheckout, sg_next := py_clock env ''reservation secured'',
              sg_lease := None, sg_error := None\<rparr>))) (\<lambda>_.
     tx_bind (on_pay (insert_operation_row env ''insert checkout'' (RecFailed ''insert checkout'')
       (new_operation (py_clock env ''insert checkout'') operationID intentID (pi_provider i) OperationCreateCheckout operationHash
          (pi_amount i) (pi_currency i)))) (\<lambda>_.
     tx_bind (or_unavailable (select_row env ''select checkout''
       (\<lambda>db. filter (\<lambda>p. po_intent p = intentID \<and> po_type p = OperationCreateCheckout) (payment_operations db)))) (\<lambda>p.
     tx_bind (tx_reject (po_id p \<noteq> operationID \<or> length (po_key p) \<noteq> 32 \<or> po_amount p \<noteq> pi_amount i \<or> po_currency p \<noteq> pi_currency i \<or>
       po_provider p \<noteq> pi_provider i \<or> po_key p \<noteq> operationHash) unavailable) (\<lambda>_.
     tx_bind (insertRepairAudit env fresh intentID ScopeIntents True) (\<lambda>_.
     commit_k env (RecFailed ''commit''))))))))))))"

definition finalizeReservationBegin :: "'w Repairer \<Rightarrow> uuid \<Rightarrow> RecordedCommand \<Rightarrow> ('w, unit) repair" where
  "finalizeReservationBegin r intentID recorded st =
     (if rc_ID recorded = uuid_Nil \<or> rc_Fingerprint recorded = no_digest \<or> rc_Kind recorded \<noteq> ''finalize_reservation_begin''
      then (Inl RecRepairUnavailable, st)
      else (case rp_begin r intentID (rc_ID recorded) (rc_Fingerprint recorded) (rw_world st) of
        (Inl _, w) \<Rightarrow> (Inl RecRepairUnavailable, st\<lparr>rw_world := w\<rparr>)
      | (Inr _, w) \<Rightarrow>
          repair_store r (\<lambda>env fresh. run_tx (finalize_begin_tx env fresh intentID recorded)) (st\<lparr>rw_world := w\<rparr>)))"

definition ReplayRecordedCommand :: "'w Repairer \<Rightarrow> PayIds \<Rightarrow> uuid \<Rightarrow> RecordedCommand \<Rightarrow> ('w, unit) repair" where
  "ReplayRecordedCommand r ids intentID recorded st =
     (if intentID = uuid_Nil then (Inl RecRepairUnavailable, st)
      else if rc_Kind recorded = ''finalize_reservation_begin'' then finalizeReservationBegin r intentID recorded st
      else (case repair_evidence r intentID (rc_Kind recorded) st of
        (Inl e, st1) \<Rightarrow> (Inl (RecWrapped ''load recorded repair evidence'' e), st1)
      | (Inr evidence, st1) \<Rightarrow>
          if recordedCommand ids evidence (rc_Kind recorded) \<noteq> Inr recorded \<or> rep_ActiveLease evidence
          then (Inl RecRepairUnavailable, st1)
          else (case repair_store r (\<lambda>env fresh. claimRepairSaga env fresh evidence (rc_Kind recorded)) st1 of
            (Inl e, st2) \<Rightarrow> (Inl e, st2)
          | (Inr leaseOwner, st2) \<Rightarrow>
              (case execute_repair r ids evidence (rc_Kind recorded) leaseOwner st2 of
                (Inr _, st3) \<Rightarrow> (Inr (), st3)
              | (Inl e, st3) \<Rightarrow>
                  (Inl e, snd (repair_store r (\<lambda>env _. releaseRepairLease env (rep_SagaID evidence) leaseOwner) st3))))))"

subsection \<open>Actions of an operator\<close>

definition issuanceRetrySafeCategory :: "string \<Rightarrow> bool" where
  "issuanceRetrySafeCategory category \<longleftrightarrow> category = ''shard_command_failed'' \<or> category = ''database_finalize_failed''"

text \<open>The transaction that brings a saga with a captured payment back to the issue of its tickets.\<close>

definition resume_issuance_tx :: "PayEnv \<Rightarrow> uuid \<Rightarrow> uuid \<Rightarrow> repairEvidence \<Rightarrow> unit ktx" where
  "resume_issuance_tx env fresh intentID e =
     (let unavailable = RecRepairUnavailable;
          unsafe = (rep_Step e \<noteq> StepIssueTickets \<or> \<not> issuanceRetrySafeCategory (rep_ErrorCategory e));
          intentReview = (rep_IntentState e = IntentManualReview); sagaReview = (rep_SagaState e = SagaManualReview) in
     tx_bind (begin_k env (RecFailed ''begin'')) (\<lambda>_.
     tx_bind (tx_reject (intentReview \<and> unsafe) unavailable) (\<lambda>_.
     tx_bind (if intentReview then repair_row (update_intents env ''reopen intent'' unavailable
         (\<lambda>_ r. pi_id r = intentID \<and> pi_state r = IntentManualReview) (\<lambda>r. r\<lparr>pi_state := IntentCaptured\<rparr>))
       else tx_return ()) (\<lambda>_.
     tx_bind (tx_reject (sagaReview \<and> unsafe) unavailable) (\<lambda>_.
     tx_bind (if sagaReview then repair_row (update_sagas env ''reopen saga'' unavailable
         (\<lambda>_ r. sg_id r = rep_SagaID e \<and> sg_state r = SagaManualReview \<and> lease_free (py_clock env ''reopen saga'') (sg_lease r))
         (\<lambda>r. r\<lparr>sg_state := SagaCaptured, sg_step := StepIssueTickets, sg_error := None, sg_lease := None\<rparr>))
       else tx_return ()) (\<lambda>_.
     tx_bind (tx_reject (\<not> (intentReview \<or> rep_IntentState e = IntentCaptured) \<or> \<not> (sagaReview \<or> rep_SagaState e = SagaCaptured)) unavailable) (\<lambda>_.
     tx_bind (repair_row (update_intents env ''issue pending'' unavailable
       (\<lambda>_ r. pi_id r = intentID \<and> pi_state r = IntentCaptured) (\<lambda>r. r\<lparr>pi_state := IntentTicketIssuePending\<rparr>))) (\<lambda>_.
     tx_bind (repair_row (update_sagas env ''saga issuing'' unavailable
       (\<lambda>_ r. sg_id r = rep_SagaID e \<and> sg_state r = SagaCaptured \<and> lease_free (py_clock env ''saga issuing'') (sg_lease r))
       (\<lambda>r. r\<lparr>sg_state := SagaIssuingTickets, sg_step := StepIssueTickets, sg_next := py_clock env ''saga issuing'', sg_lease := None\<rparr>))) (\<lambda>_.
     tx_bind (insertRepairAudit env fresh intentID ScopeTickets True) (\<lambda>_.
     commit_k env (RecFailed ''commit'')))))))))))"

definition ResumeTicketIssuance :: "'w Repairer \<Rightarrow> PayIds \<Rightarrow> uuid \<Rightarrow> ('w, unit) repair" where
  "ResumeTicketIssuance r ids intentID =
     repair_then (repair_evidence r intentID ''issue_tickets'') (\<lambda>e.
     repair_then
       (if rep_ActiveLease e then (\<lambda>st. (Inl RecRepairUnavailable, st))
        else if rep_IntentState e \<noteq> IntentTicketIssuePending \<or> rep_SagaState e \<noteq> SagaIssuingTickets \<or> rep_Step e \<noteq> StepIssueTickets
        then repair_store r (\<lambda>env fresh. run_tx (resume_issuance_tx env fresh intentID e))
        else (\<lambda>st. (Inr (), st))) (\<lambda>_.
     case recordedCommand ids e ''issue_tickets'' of
       Inl err \<Rightarrow> (\<lambda>st. (Inl err, st))
     | Inr recorded \<Rightarrow> ReplayRecordedCommand r ids intentID recorded))"

definition providerOperationClaimable :: "OperationType \<Rightarrow> SagaState \<Rightarrow> SagaStep \<Rightarrow> bool" where
  "providerOperationClaimable operationType sagaState sagaStep \<longleftrightarrow>
     (case operationType of
        OperationCreateCheckout \<Rightarrow> sagaState = SagaReservationSecured \<and> sagaStep = StepCreateCheckout
      | OperationAuthorize \<Rightarrow> sagaState = SagaAwaitingProvider \<and> sagaStep = StepAwaitProvider
      | OperationCapture \<Rightarrow> sagaState = SagaAuthorized \<and> sagaStep = StepCapture
      | OperationVoid \<Rightarrow> sagaState = SagaCompensating \<and> sagaStep = StepVoid
      | OperationRefund \<Rightarrow> sagaState = SagaRefunding \<and> sagaStep = StepRefund
      | _ \<Rightarrow> False)"

definition retry_rows :: "uuid \<Rightarrow> uuid \<Rightarrow> OperationType \<Rightarrow> PaymentDb \<Rightarrow> (OperationRow \<times> SagaRow) list" where
  "retry_rows intentID operationID operationType db =
     [(p, s). p \<leftarrow> payment_operations db, po_id p = operationID \<and> po_intent p = intentID \<and> po_type p = operationType,
        i \<leftarrow> payment_intents db, pi_id i = po_intent p \<and> po_amount p = pi_amount i \<and> po_currency p = pi_currency i,
        s \<leftarrow> payment_sagas db, sg_intent s = pi_id i]"

definition retry_operation_tx :: "PayEnv \<Rightarrow> uuid \<Rightarrow> uuid \<Rightarrow> uuid \<Rightarrow> OperationType \<Rightarrow> unit ktx" where
  "retry_operation_tx env fresh intentID operationID operationType =
     (let unavailable = RecRepairUnavailable in
     tx_bind (begin_k env (RecFailed ''begin'')) (\<lambda>_.
     tx_bind (or_unavailable (select_row env ''lock operation'' (retry_rows intentID operationID operationType))) (\<lambda>(p, s).
     tx_bind (tx_reject (\<not> lease_free (py_clock env ''lock operation'') (po_lease p) \<or> \<not> lease_free (py_clock env ''lock operation'') (sg_lease s) \<or>
       po_state p \<notin> {OperationPending, OperationFailedRetryable, OperationUncertain} \<or>
       \<not> providerOperationClaimable operationType (sg_state s) (sg_step s)) unavailable) (\<lambda>_.
     tx_bind (repair_row (update_operations env ''schedule operation'' unavailable
       (\<lambda>_ r. po_id r = operationID \<and> po_state r = po_state p \<and> lease_free (py_clock env ''schedule operation'') (po_lease r))
       (\<lambda>r. r\<lparr>po_next := py_clock env ''schedule operation'', po_lease := None\<rparr>))) (\<lambda>_.
     tx_bind (repair_row (update_sagas env ''schedule saga'' unavailable
       (\<lambda>_ r. sg_id r = sg_id s \<and> sg_state r = sg_state s \<and> lease_free (py_clock env ''schedule saga'') (sg_lease r))
       (\<lambda>r. r\<lparr>sg_next := py_clock env ''schedule saga'', sg_lease := None\<rparr>))) (\<lambda>_.
     tx_bind (insertRepairAudit env fresh intentID ScopeOperations True) (\<lambda>_.
     commit_k env (RecFailed ''commit''))))))))"

definition RetryProviderOperation :: "'w Repairer \<Rightarrow> uuid \<Rightarrow> uuid \<Rightarrow> OperationType \<Rightarrow> ('w, unit) repair" where
  "RetryProviderOperation r intentID operationID operationType st =
     (if intentID = uuid_Nil \<or> operationID = uuid_Nil \<or>
         operationType \<notin> {OperationCreateCheckout, OperationAuthorize, OperationCapture, OperationVoid, OperationRefund}
      then (Inl RecInvalidRequest, st)
      else repair_store r (\<lambda>env fresh. run_tx (retry_operation_tx env fresh intentID operationID operationType)) st)"

fun step_operation :: "SagaStep \<Rightarrow> OperationType option" where
  "step_operation StepCreateCheckout = Some OperationCreateCheckout"
| "step_operation StepAuthorize = Some OperationAuthorize"
| "step_operation StepCapture = Some OperationCapture"
| "step_operation StepVoid = Some OperationVoid"
| "step_operation StepRefund = Some OperationRefund"
| "step_operation StepReconcileProvider = Some OperationCapture"
| "step_operation _ = None"

text \<open>The loop over the two kinds of compensation: the first with evidence is replayed.\<close>

fun retry_compensation :: "'w Repairer \<Rightarrow> PayIds \<Rightarrow> uuid \<Rightarrow> string list \<Rightarrow> ('w, unit) repair \<Rightarrow> ('w, unit) repair" where
  "retry_compensation r ids intentID [] otherwise = otherwise"
| "retry_compensation r ids intentID (kind # kinds) otherwise =
     (\<lambda>st. case repair_evidence r intentID kind st of
        (Inl e, st1) \<Rightarrow> if e = RecNoRows then retry_compensation r ids intentID kinds otherwise st1 else (Inl e, st1)
      | (Inr evidence, st1) \<Rightarrow>
          (case recordedCommand ids evidence kind of
             Inl e \<Rightarrow> (Inl e, st1)
           | Inr recorded \<Rightarrow> ReplayRecordedCommand r ids intentID recorded st1))"

definition retry_step :: "'w Repairer \<Rightarrow> uuid \<Rightarrow> SagaStep \<Rightarrow> ('w, unit) repair" where
  "retry_step r intentID step =
     (case step_operation step of
        None \<Rightarrow> (\<lambda>st. (Inl RecRepairUnavailable, st))
      | Some operationType \<Rightarrow>
          repair_then (repair_store r (\<lambda>env _. run_tx (or_unavailable (select_row env ''select operation''
            (\<lambda>db. sort_key (\<lambda>p. (po_created p, po_id p)) (filter (\<lambda>p. po_intent p = intentID \<and> po_type p = operationType \<and>
               po_state p \<in> {OperationPending, OperationFailedRetryable, OperationUncertain}) (payment_operations db)))))))
          (\<lambda>p. RetryProviderOperation r intentID (po_id p) operationType))"

definition RetrySaga :: "'w Repairer \<Rightarrow> PayIds \<Rightarrow> uuid \<Rightarrow> ('w, unit) repair" where
  "RetrySaga r ids sagaID st =
     (if sagaID = uuid_Nil then (Inl RecInvalidRequest, st)
      else repair_then (repair_store r (\<lambda>env _. run_tx (or_unavailable (select_row env ''select saga''
             (\<lambda>db. filter (\<lambda>s. sg_id s = sagaID) (payment_sagas db)))))) (\<lambda>s.
        if sg_state s = SagaIssuingTickets \<or> sg_state s = SagaCaptured \<or> sg_state s = SagaManualReview \<and> sg_step s = StepIssueTickets
        then ResumeTicketIssuance r ids (sg_intent s)
        else if sg_step s = StepCompensate
        then retry_compensation r ids (sg_intent s) [''apply_refund_compensation'', ''cancel_voided_reservation'']
               (retry_step r (sg_intent s) (sg_step s))
        else retry_step r (sg_intent s) (sg_step s)) st)"

definition operator_review :: "PayEnv \<Rightarrow> uuid \<Rightarrow> uuid \<Rightarrow> unit ktx" where
  "operator_review env fresh intentID =
     on_pay (\<lambda>db. let cases = payment_manual_review_cases db; reason = ''operator_requested'' in
       if py_fault env ''insert case'' \<or> py_clock env ''case due'' < py_clock env ''case created'' then Inl (RecFailed ''insert case'')
       else if list_ex (\<lambda>v. rv_intent v = intentID \<and> rv_reason v = reason \<and> rv_open v) cases then Inr ((), db)
       else if fresh \<in> set (map rv_id cases) then Inl (RecFailed ''insert case'')
       else Inr ((), db\<lparr>payment_manual_review_cases := cases @
         [\<lparr>rv_id = fresh, rv_intent = intentID, rv_operation = None, rv_inbox = None, rv_reason = reason, rv_open = True,
           rv_due = py_clock env ''case due''\<rparr>]\<rparr>))"

definition reviewable :: "IntentState \<Rightarrow> bool" where
  "reviewable s \<longleftrightarrow>
     s \<in> {IntentReservationSecuring, IntentCheckoutPending, IntentAwaitingCustomer, IntentAuthorizationPending, IntentAuthorized,
          IntentCapturePending, IntentCaptured, IntentTicketIssuePending, IntentVoidPending, IntentRefundPending}"

definition MarkManualReview :: "PayEnv \<Rightarrow> uuid \<Rightarrow> uuid \<Rightarrow> uuid \<Rightarrow> ReconDb \<Rightarrow> (ReconcileError + unit) \<times> ReconDb" where
  "MarkManualReview env fresh fresh' intentID =
     run_tx (tx_bind (tx_reject (intentID = uuid_Nil) RecInvalidRequest) (\<lambda>_.
     tx_bind (begin_k env (RecFailed ''begin'')) (\<lambda>_.
     tx_bind (repair_row (update_intents env ''review intent'' RecRepairUnavailable
       (\<lambda>_ r. pi_id r = intentID \<and> reviewable (pi_state r)) (\<lambda>r. r\<lparr>pi_state := IntentManualReview\<rparr>))) (\<lambda>_.
     tx_bind (repair_row (update_sagas env ''review saga'' RecRepairUnavailable
       (\<lambda>_ r. sg_intent r = intentID \<and> \<not> saga_ended (sg_state r) \<and> sg_state r \<noteq> SagaManualReview \<and>
          lease_free (py_clock env ''review saga'') (sg_lease r))
       (\<lambda>r. r\<lparr>sg_state := SagaManualReview, sg_lease := None, sg_error := Some ''operator_requested'',
              sg_next := py_clock env ''review saga''\<rparr>))) (\<lambda>_.
     tx_bind (operator_review env fresh intentID) (\<lambda>_.
     tx_bind (insertRepairAudit env fresh' intentID ScopeAll False) (\<lambda>_.
     commit_k env (RecFailed ''commit''))))))))"

end
