(* ===== verification/Payment_Findings.thy ===== *)
theory Payment_Findings
  imports Payment_Reconciler "HOL-Library.Multiset"
begin

text \<open>
  The lemmas on reconciliation: which findings a report has, that a finding is repaired only by a command that the
  shard has recorded, that a run without repair never reaches the repairer, and how the counts of a run relate.
\<close>

subsection \<open>Codes\<close>

definition finding_codes :: "string list" where
  "finding_codes =
     [''multiple_active_payment_intents'', ''multiple_active_payment_sagas'', ''payment_saga_missing'', ''manual_review_not_visible'',
      ''duplicate_provider_event_id'', ''provider_event_payload_conflict'', ''duplicate_provider_operation_id'',
      ''duplicate_capture_operation'', ''duplicate_refund_operation'', ''captured_amount_mismatch'', ''refund_exceeds_capture'',
      ''completed_saga_without_full_capture'', ''uncertain_operation_without_reconciliation'',
      ''reservation_directory_unresolved'', ''shard_payment_state_missing'', ''reservation_amount_mismatch'',
      ''reservation_currency_mismatch'', ''begin_payment_shard_committed_control_incomplete'', ''begin_payment_shard_receipt_mismatch'',
      ''captured_payment_reservation_state_mismatch'', ''completed_payment_without_issued_ticket_order'',
      ''captured_payment_without_ticket'', ''ticket_without_captured_payment'', ''ticket_order_amount_mismatch'',
      ''ticket_order_currency_mismatch'', ''issued_ticket_order_without_receipt'', ''issuance_receipt_intent_mismatch'',
      ''issuance_receipt_control_not_finalized'', ''refund_pending_receipt_control_not_finalized'',
      ''refund_receipt_control_not_finalized'', ''void_receipt_control_not_finalized'', ''confirmed_reservation_without_active_ticket'',
      ''ticket_count_mismatch'', ''fully_refunded_payment_with_active_ticket'', ''voided_payment_with_live_reservation'',
      ''cancelled_ticket_without_required_refund'', ''duplicate_ticket_code'', ''global_ticket_code_claim_missing'',
      ''global_ticket_code_conflict'', ''global_ticket_code_claim_unexpected'', ''shard_control_fingerprint_mismatch'',
      ''provider_status_unavailable'', ''provider_status_query_failed'', ''provider_money_mismatch'', ''provider_capture_mismatch'',
      ''provider_refund_mismatch'']"

definition codes_of :: "check list \<Rightarrow> string set" where
  "codes_of checks = {code. (True, code) \<in> set checks}"

lemma codes_of_simps [simp]:
  "codes_of [] = {}" "codes_of ((b, c) # cs) = (if b then insert c (codes_of cs) else codes_of cs)"
  "codes_of (xs @ ys) = codes_of xs \<union> codes_of ys"
  by (auto simp: codes_of_def)

lemma duplicate_identities_codes: "snd ` set (duplicate_identities seen ps) \<subseteq> {''duplicate_provider_operation_id''}"
  by (induction seen ps rule: duplicate_identities.induct) (auto simp: Let_def split: if_splits)

text \<open>The codes are long words: membership in the list is settled by reflexivity, without comparing letters.\<close>

lemmas codes_listed = finding_codes_def list.set list.map set_append image_Un image_insert image_empty snd_conv Un_subset_iff insert_subset
  empty_subsetI insert_iff refl simp_thms

lemma checkControl_codes: "snd ` set (checkControl scope s) \<subseteq> set finding_codes"
proof -
  have "{''duplicate_provider_operation_id''} \<subseteq> set finding_codes" by (simp only: codes_listed)
  with duplicate_identities_codes have "snd ` set (duplicate_identities {} (ct_Operations s)) \<subseteq> set finding_codes" by (rule subset_trans)
  then show ?thesis unfolding checkControl_def Let_def by (simp only: codes_listed split: if_split)
qed

lemma checkTickets_codes: "snd ` set (checkTickets control shard) \<subseteq> set finding_codes"
  unfolding checkTickets_def Let_def by (simp only: codes_listed split: if_split)

lemma checkShard_codes: "snd ` set (checkShard scope control shard) \<subseteq> set finding_codes"
  using checkTickets_codes[of control shard] unfolding checkShard_def Let_def by (simp only: codes_listed split: if_split)

lemma checkProvider_codes: "snd ` set (fst (checkProvider registry control w)) \<subseteq> set finding_codes"
proof -
  have "snd ` set (provider_checks control status) \<subseteq> set finding_codes" for status
    unfolding provider_checks_def Let_def by (simp only: codes_listed)
  moreover have "''provider_status_unavailable'' \<in> set finding_codes" "''provider_status_query_failed'' \<in> set finding_codes"
    by (simp_all only: codes_listed)
  ultimately show ?thesis
    unfolding checkProvider_def Let_def by (auto simp del: insert_iff split: option.splits prod.splits sum.splits if_splits)
qed

subsection \<open>Reports\<close>

definition report_codes :: "Report \<Rightarrow> string list" where
  "report_codes report = map fd_Code (rt_Findings report)"

lemma add_finding_codes:
  assumes "distinct (report_codes report)" "set (report_codes report) \<subseteq> set finding_codes" "code \<in> set finding_codes"
  shows "distinct (report_codes (add_finding code report))" "set (report_codes (add_finding code report)) = insert code (set (report_codes report))"
    "rt_Truncated (add_finding code report) = rt_Truncated report"
proof -
  have bound: "length (rt_Findings report) < 64" if "code \<notin> set (report_codes report)"
  proof -
    have "set (report_codes report) \<subset> set finding_codes" using assms(2,3) that by auto
    then have "card (set (report_codes report)) < card (set finding_codes)" by (rule psubset_card_mono[OF finite_set])
    also have "\<dots> \<le> length finding_codes" by (rule card_length)
    also have "\<dots> \<le> 64" by (simp add: finding_codes_def)
    finally show ?thesis using distinct_card[OF assms(1)] by (simp add: report_codes_def)
  qed
  show "distinct (report_codes (add_finding code report))"
    "set (report_codes (add_finding code report)) = insert code (set (report_codes report))"
    "rt_Truncated (add_finding code report) = rt_Truncated report"
    using assms(1) bound by (auto simp: add_finding_def report_codes_def not_le [symmetric])
qed

lemma run_checks_codes:
  assumes "snd ` set checks \<subseteq> set finding_codes" "distinct (report_codes report)" "set (report_codes report) \<subseteq> set finding_codes"
  shows "distinct (report_codes (run_checks checks report)) \<and>
    set (report_codes (run_checks checks report)) = set (report_codes report) \<union> codes_of checks \<and>
    rt_Truncated (run_checks checks report) = rt_Truncated report"
  using assms
proof (induction checks arbitrary: report)
  case (Cons check checks)
  obtain holds code where check: "check = (holds, code)" by fastforce
  define report1 where "report1 = (if holds then add_finding code report else report)"
  have "distinct (report_codes report1)" "set (report_codes report1) = (if holds then insert code else (\<lambda>x. x)) (set (report_codes report))"
    "rt_Truncated report1 = rt_Truncated report"
    using add_finding_codes[of report code] Cons.prems unfolding report1_def check by auto
  moreover have "run_checks (check # checks) report = run_checks checks report1" by (simp add: run_checks_def check report1_def)
  ultimately show ?case using Cons.IH[of report1] Cons.prems by (auto simp: check split: if_splits)
qed (simp add: run_checks_def)

subsection \<open>Recorded commands\<close>

lemma match_finding_code [simp]: "fd_Code (match_finding commands f) = fd_Code f"
  by (simp add: match_finding_def split: option.splits)

lemma matching_Some:
  "matchingRecordedCommand code commands = Some c \<Longrightarrow> c \<in> set commands \<and> rc_Kind c = repairKind code \<and> validateRecordedCommand c"
  by (auto simp: matchingRecordedCommand_def find_Some_iff)

definition bare_finding :: "Finding \<Rightarrow> bool" where
  "bare_finding f \<longleftrightarrow> \<not> fd_Repairable f \<and> fd_CommandID f = uuid_Nil \<and> fd_commandFingerprint f = no_digest"

lemma commandForFinding_matched:
  assumes "bare_finding f"
  shows "commandForFinding (match_finding commands f) = matchingRecordedCommand (fd_Code f) commands"
    "fd_Repairable (match_finding commands f) \<longleftrightarrow> matchingRecordedCommand (fd_Code f) commands \<noteq> None"
proof -
  note assms [unfolded bare_finding_def, simp]
  show "fd_Repairable (match_finding commands f) \<longleftrightarrow> matchingRecordedCommand (fd_Code f) commands \<noteq> None"
    by (simp add: match_finding_def split: option.split)
  show "commandForFinding (match_finding commands f) = matchingRecordedCommand (fd_Code f) commands"
  proof (cases "matchingRecordedCommand (fd_Code f) commands")
    case (Some c)
    then have "rc_ID c \<noteq> uuid_Nil" "rc_Fingerprint c \<noteq> no_digest" "rc_Kind c = repairKind (fd_Code f)"
      using matching_Some[OF Some] by (simp_all add: validateRecordedCommand_def)
    then show ?thesis by (simp add: match_finding_def commandForFinding_def Some)
  qed (simp add: match_finding_def commandForFinding_def)
qed

lemma run_checks_bare: "list_all bare_finding (rt_Findings report) \<Longrightarrow> list_all bare_finding (rt_Findings (run_checks checks report))"
proof (induction checks arbitrary: report)
  case (Cons check checks)
  obtain holds code where check: "check = (holds, code)" by fastforce
  have "list_all bare_finding (rt_Findings (if holds then add_finding code report else report))"
    using Cons.prems unfolding add_finding_def by (simp add: bare_finding_def [abs_def])
  then show ?case using Cons.IH by (simp add: run_checks_def check)
qed (simp add: run_checks_def)

lemma report_of_findings:
  assumes "f \<in> set (rt_Findings (fst (report_of r k scope control shard w)))"
  shows "commandForFinding f = matchingRecordedCommand (fd_Code f) (ss_RecordedCommands shard)"
    "fd_Repairable f \<longleftrightarrow> commandForFinding f \<noteq> None"
proof -
  obtain asked w1 where asked: "(if shouldQueryProvider scope control then checkProvider (rn_providers r) control w else ([], w)) = (asked, w1)"
    by fastforce
  define found where "found = rt_Findings (run_checks (checkControl scope control @ checkShard scope control shard @ asked) (new_report k scope shard))"
  obtain g where g: "g \<in> set found" "f = match_finding (ss_RecordedCommands shard) g"
    using assms by (auto simp: report_of_def Let_def asked found_def)
  have "list_all bare_finding found" unfolding found_def by (rule run_checks_bare) (simp add: new_report_def)
  then have "bare_finding g" using g(1) by (simp add: list_all_iff)
  from commandForFinding_matched[OF this, of "ss_RecordedCommands shard"] g(2)
  show "commandForFinding f = matchingRecordedCommand (fd_Code f) (ss_RecordedCommands shard)"
    "fd_Repairable f \<longleftrightarrow> commandForFinding f \<noteq> None" by simp_all
qed

definition all_checks :: "'w Reconciler \<Rightarrow> Scope \<Rightarrow> ControlSnapshot \<Rightarrow> ShardSnapshot \<Rightarrow> 'w \<Rightarrow> check list" where
  "all_checks r scope control shard w =
     checkControl scope control @ checkShard scope control shard @
     (if shouldQueryProvider scope control then fst (checkProvider (rn_providers r) control w) else [])"

lemma all_checks_codes: "snd ` set (all_checks r scope control shard w) \<subseteq> set finding_codes"
  using checkControl_codes[of scope control] checkShard_codes[of scope control shard] checkProvider_codes[of "rn_providers r" control w]
  unfolding all_checks_def by (cases "shouldQueryProvider scope control") (simp_all add: image_Un)

lemma report_of_codes:
  shows "set (report_codes (fst (report_of r k scope control shard w))) =
      codes_of (all_checks r scope control shard w)"
    "distinct (report_codes (fst (report_of r k scope control shard w)))" "sorted (report_codes (fst (report_of r k scope control shard w)))"
    "\<not> rt_Truncated (fst (report_of r k scope control shard w))"
proof -
  define checks where "checks = all_checks r scope control shard w"
  define start where "start = new_report k scope shard"
  have "snd ` set checks \<subseteq> set finding_codes"
    unfolding checks_def by (rule all_checks_codes)
  then have all: "distinct (report_codes (run_checks checks start)) \<and> set (report_codes (run_checks checks start)) = codes_of checks \<and>
      rt_Truncated (run_checks checks start) = False"
    using run_checks_codes[of checks start] by (simp add: start_def new_report_def report_codes_def)
  have report: "fst (report_of r k scope control shard w) = (run_checks checks start)\<lparr>rt_ProviderQueried := shouldQueryProvider scope control,
      rt_Findings := sort_key fd_Code (map (match_finding (ss_RecordedCommands shard)) (rt_Findings (run_checks checks start)))\<rparr>"
    by (simp add: report_of_def checks_def start_def all_checks_def Let_def split: prod.split)
  have codes: "report_codes (fst (report_of r k scope control shard w)) =
      map fd_Code (sort_key fd_Code (map (match_finding (ss_RecordedCommands shard)) (rt_Findings (run_checks checks start))))"
    by (simp add: report report_codes_def)
  have same: "mset (report_codes (fst (report_of r k scope control shard w))) = mset (report_codes (run_checks checks start))"
    unfolding codes by (simp add: report_codes_def multiset.map_comp comp_def)
  show "set (report_codes (fst (report_of r k scope control shard w))) = codes_of (all_checks r scope control shard w)"
    using all mset_eq_setD[OF same] by (simp add: checks_def)
  show "distinct (report_codes (fst (report_of r k scope control shard w)))" using all mset_eq_imp_distinct_iff[OF same] by simp
  show "sorted (report_codes (fst (report_of r k scope control shard w)))" by (simp add: codes)
  show "\<not> rt_Truncated (fst (report_of r k scope control shard w))" using all by (simp add: report)
qed


subsection \<open>Runs\<close>

text \<open>Nothing of a run without repair depends on the repairer.\<close>

lemma repairer_fields:
  "rn_store (r\<lparr>rn_repairer := x\<rparr>) = rn_store r" "rn_providers (r\<lparr>rn_repairer := x\<rparr>) = rn_providers r"
  "rn_Now (r\<lparr>rn_repairer := x\<rparr>) = rn_Now r" "rn_ctxErr (r\<lparr>rn_repairer := x\<rparr>) = rn_ctxErr r"
  "rn_ReviewDue (r\<lparr>rn_repairer := x\<rparr>) = rn_ReviewDue r" "rn_StaleAfter (r\<lparr>rn_repairer := x\<rparr>) = rn_StaleAfter r"
  by simp_all

lemma inspect_repairer: "inspect (r\<lparr>rn_repairer := x\<rparr>) = inspect r"
  unfolding inspect_def [abs_def] report_of_def repairer_fields ..

lemma escalate_repairer: "escalate (r\<lparr>rn_repairer := x\<rparr>) = escalate r"
  unfolding escalate_def [abs_def] repairer_fields ..

lemma handle_finding_read_only: "handle_finding (r\<lparr>rn_repairer := x\<rparr>) c k now False f h w = handle_finding r c k now False f h w"
  unfolding handle_finding_def escalate_repairer by simp

lemma handle_findings_read_only:
  "handle_findings (r\<lparr>rn_repairer := x\<rparr>) c k now False fs h w = handle_findings r c k now False fs h w"
  by (induction fs arbitrary: h w) (auto simp: handle_finding_read_only split: prod.splits option.splits)

lemma reconcile_one_read_only:
  "reconcile_one (r\<lparr>rn_repairer := x\<rparr>) c scope now False k result w = reconcile_one r c scope now False k result w"
  unfolding reconcile_one_def inspect_repairer handle_findings_read_only repairer_fields ..

lemma reconcile_each_read_only:
  "reconcile_each (r\<lparr>rn_repairer := x\<rparr>) c scope now False ks result w = reconcile_each r c scope now False ks result w"
  by (induction ks arbitrary: result w) (auto simp: reconcile_one_read_only split: prod.splits option.splits)

lemma reconcileIDs_read_only:
  "reconcileIDs (r\<lparr>rn_repairer := x\<rparr>) scope ids truncated False confirmed w = reconcileIDs r scope ids truncated False confirmed w"
  unfolding reconcileIDs_def reconcile_each_read_only finish_run_def repairer_fields ..

lemma reconcile_candidates_read_only:
  "reconcile_candidates (r\<lparr>rn_repairer := x\<rparr>) scope truncated False confirmed ks result w =
     reconcile_candidates r scope truncated False confirmed ks result w"
  by (induction ks arbitrary: result w) (auto simp: reconcileIDs_read_only Let_def split: prod.splits option.splits)

lemma ReconcileAll_read_only:
  assumes "\<not> ro_Repair options"
  shows "ReconcileAll (r\<lparr>rn_repairer := x\<rparr>) options w = ReconcileAll r options w"
proof -
  have "ro_Repair options = False" using assms by simp
  then show ?thesis unfolding ReconcileAll_def reconcile_candidates_read_only reconcileIDs_read_only repairer_fields
    by (simp only: reconcile_candidates_read_only reconcileIDs_read_only simp_thms if_False)
qed

text \<open>A repair hands the repairer only commands that the findings carry.\<close>

lemma handle_finding_recorded:
  assumes "\<And>c w. commandForFinding f = Some c \<Longrightarrow> validateRecordedCommand c \<Longrightarrow> replay k c w = replay' k c w"
  shows "handle_finding (r\<lparr>rn_repairer := Some replay\<rparr>) cp k now repair f h w = handle_finding (r\<lparr>rn_repairer := Some replay'\<rparr>) cp k now repair f h w"
  unfolding handle_finding_def escalate_repairer using assms by (cases "commandForFinding f") (auto simp: Let_def)

lemma handle_findings_recorded:
  assumes "\<And>f c w. f \<in> set fs \<Longrightarrow> commandForFinding f = Some c \<Longrightarrow> validateRecordedCommand c \<Longrightarrow> replay k c w = replay' k c w"
  shows "handle_findings (r\<lparr>rn_repairer := Some replay\<rparr>) cp k now repair fs h w = handle_findings (r\<lparr>rn_repairer := Some replay'\<rparr>) cp k now repair fs h w"
  using assms
proof (induction fs arbitrary: h w)
  case (Cons f fs)
  have "handle_finding (r\<lparr>rn_repairer := Some replay\<rparr>) cp k now repair f h w = handle_finding (r\<lparr>rn_repairer := Some replay'\<rparr>) cp k now repair f h w"
    using Cons.prems by (intro handle_finding_recorded) auto
  moreover have "handle_findings (r\<lparr>rn_repairer := Some replay\<rparr>) cp k now repair fs h1 w1 =
      handle_findings (r\<lparr>rn_repairer := Some replay'\<rparr>) cp k now repair fs h1 w1" for h1 w1
    using Cons.prems by (intro Cons.IH) auto
  ultimately show ?case unfolding handle_findings.simps by (simp only:)
qed simp

text \<open>How the counts of a run relate.\<close>

definition counts_fit :: "ReconResult \<Rightarrow> bool" where
  "counts_fit result \<longleftrightarrow>
     0 \<le> rr_RepairCount result \<and> rr_RepairCount result \<le> rr_MismatchCount result \<and> rr_MismatchCount result \<le> rr_RowsExamined result"

lemma inspect_rows:
  assumes "inspect r k scope w = (Inr report, w')"
  shows "rt_RowsExamined report = 1"
proof -
  have "rt_RowsExamined (add_finding code rep) = rt_RowsExamined rep" for code rep by (simp add: add_finding_def)
  then have checks: "rt_RowsExamined (run_checks cs rep) = rt_RowsExamined rep" for cs rep
    by (induction cs arbitrary: rep) (auto simp: run_checks_def)
  have "rt_RowsExamined (fst (report_of r k scope control shard v)) = 1" for control shard v
    by (simp add: report_of_def Let_def checks new_report_def split: prod.split)
  then show ?thesis using assms by (auto simp: inspect_def split: if_splits prod.splits sum.splits) (metis fst_conv)+
qed

lemma handle_findings_repairs: "handle_findings r c k now repair fs h w = ((err, h'), w') \<Longrightarrow> fs = [] \<Longrightarrow> hd_repairs h' = hd_repairs h"
  by simp

lemma reconcile_one_counts:
  assumes "reconcile_one r c scope now repair k result w = ((err, result'), w')" "counts_fit result"
  shows "counts_fit result'"
  using assms inspect_rows[of r k scope w] handle_findings_repairs[of r c k now repair]
  by (auto simp: reconcile_one_def counts_fit_def Let_def no_handling_def split: option.splits prod.splits sum.splits if_splits)

lemma reconcile_each_counts:
  "reconcile_each r c scope now repair ks result w = ((err, result'), w') \<Longrightarrow> counts_fit result \<Longrightarrow> counts_fit result'"
  by (induction ks arbitrary: result w) (auto dest: reconcile_one_counts split: prod.splits option.splits)


lemma handle_finding_no_repair: "hd_repairs (snd (fst (handle_finding r c k now False f h w))) = hd_repairs h"
  by (simp add: handle_finding_def escalate_def split: prod.splits sum.splits option.splits)

lemma handle_findings_no_repair: "hd_repairs (snd (fst (handle_findings r c k now False fs h w))) = hd_repairs h"
proof (induction fs arbitrary: h w)
  case (Cons f fs)
  show ?case
    using handle_finding_no_repair[of r c k now f h w] Cons.IH by (auto split: prod.splits option.splits)
qed simp

lemma reconcile_each_no_repair:
  "rr_RepairCount (snd (fst (reconcile_each r c scope now False ks result w))) = rr_RepairCount result"
proof (induction ks arbitrary: result w)
  case (Cons k ks)
  have "rr_RepairCount (snd (fst (reconcile_one r c scope now False k result w))) = rr_RepairCount result"
    using handle_findings_no_repair[of r c k now _ no_handling]
    by (auto simp: reconcile_one_def Let_def no_handling_def split: option.splits prod.splits sum.splits) (metis fst_conv snd_conv order_less_irrefl)+
  then show ?case using Cons.IH by (auto split: prod.splits option.splits)
qed simp

end
