(* ===== verification/Payment_Recon_Safety.thy ===== *)
theory Payment_Recon_Safety
  imports Payment_Repair Payment_Findings Payment_History Payment_Leases
begin

text \<open>
  What reconciliation and repair keep. Every transaction of the reconciliation store and of the repairer is made of the
  same guarded statements as the worker's, so whatever the locale \<open>payment_invariant\<close> keeps they keep too; checkpoints have
  an invariant of their own. Then: the commands that are replayed are those of the worker, and the audit row of an
  operator's action is refused by the table.
\<close>

subsection \<open>Histories with reconciliation\<close>

text \<open>Every transaction but those of a checkpoint's own life.\<close>

inductive repair_step :: "ReconDb \<Rightarrow> ReconDb \<Rightarrow> bool" where
  escalate: "repair_step db (snd (EscalateManualReview env fresh reconciliationID intentID reason due db))"
| claim_repair: "repair_step db (snd (claimRepairSaga env fresh e kind db))"
| release: "repair_step db (snd (releaseRepairLease env sagaID leaseOwner db))"
| issue: "repair_step db (snd (finalizeIssue env e command receipt leaseOwner db))"
| mark_refund: "repair_step db (snd (finalizeMarkRefundPending env e mark mreceipt leaseOwner db))"
| compensate: "repair_step db (snd (finalizeTerminalCompensation env e istate sstate orderID requireLocator leaseOwner db))"
| secure: "repair_step db (snd (run_tx (finalize_begin_tx env fresh intentID recorded) db))"
| resume: "repair_step db (snd (run_tx (resume_issuance_tx env fresh intentID e) db))"
| retry: "repair_step db (snd (run_tx (retry_operation_tx env fresh intentID operationID operationType) db))"
| review: "repair_step db (snd (MarkManualReview env fresh fresh' intentID db))"

inductive recon_step :: "ReconDb \<Rightarrow> ReconDb \<Rightarrow> bool" where
  payment: "pay_step (rb_pay db) pay \<Longrightarrow> recon_step db (db\<lparr>rb_pay := pay\<rparr>)"
| start: "recon_step db (snd (StartCheckpoint env fresh scope intentID repair now db))"
| finish: "recon_step db (snd (FinishCheckpoint env checkpoint result db))"
| repair: "repair_step db db' \<Longrightarrow> recon_step db db'"

text \<open>The statements on the payment tables that these transactions are made of, by what they do to the tables.\<close>

inductive repair_change :: "PaymentDb \<Rightarrow> PaymentDb \<Rightarrow> bool" where
  read: "repair_change db db"
| intents: "update_intents env label (err :: ReconcileError) wh upd db = Inr (n, db') \<Longrightarrow> repair_change db db'"
| sagas: "update_sagas env label (err :: ReconcileError) wh upd db = Inr (n, db') \<Longrightarrow> repair_change db db'"
| operations: "update_operations env label (err :: ReconcileError) wh upd db = Inr (n, db') \<Longrightarrow>
    \<forall>r. po_state (upd r) = OperationSucceeded \<longrightarrow> po_state r = OperationSucceeded \<Longrightarrow> repair_change db db'"
| operation: "insert_operation_row env label (err :: ReconcileError) r db = Inr (u, db') \<Longrightarrow> po_state r = OperationPending \<Longrightarrow>
    repair_change db db'"
| review_cases: "repair_change db (db\<lparr>payment_manual_review_cases := vrows\<rparr>)"
| orders: "repair_change db (db\<lparr>pay_ticket_order_locators := lrows\<rparr>)"
| order: "insert_order_locator env l db = Inr (m, db') \<Longrightarrow> repair_change db db'"
| ticket: "insert_ticket_locator env t db = Inr (m, db') \<Longrightarrow> repair_change db db'"
| code: "insert_ticket_code env c k db = Inr (m, db') \<Longrightarrow> repair_change db db'"

definition changes :: "('e, 'a) ptx \<Rightarrow> bool" where
  "changes m \<longleftrightarrow> (\<forall>db x db'. m db = Inr (x, db') \<longrightarrow> repair_change db db')"

lemma changes_statements:
  "changes (update_intents env label (err :: ReconcileError) iw iu)"
  "changes (update_sagas env label (err :: ReconcileError) sw su)"
  "(\<And>r. po_state (ou r) = OperationSucceeded \<Longrightarrow> po_state r = OperationSucceeded) \<Longrightarrow>
     changes (update_operations env label (err :: ReconcileError) ow ou)"
  "po_state r = OperationPending \<Longrightarrow> changes (insert_operation_row env label (err :: ReconcileError) r)"
  "changes (insert_order_locator env l)" "changes (insert_ticket_locator env t)" "changes (insert_ticket_code env c k)"
  "changes (query_row env label err' q)"
  "changes (tx_modify (\<lambda>db. db\<lparr>pay_ticket_order_locators := f db\<rparr>))"
  by (auto simp: changes_def query_row_def intro: repair_change.intros)

lemma changes_new_case:
  "changes (\<lambda>db. if c1 db then Inl err else if c2 db then Inr (x, db) else if c3 db then Inl err
     else Inr (y, db\<lparr>payment_manual_review_cases := cs db\<rparr>))"
  by (auto simp: changes_def intro: repair_change.read repair_change.review_cases split: if_splits)

locale repair_invariant =
  fixes Q :: "ReconDb \<Rightarrow> bool"
  assumes payment_law: "Q db \<Longrightarrow> pay_step (rb_pay db) pay \<Longrightarrow> Q (db\<lparr>rb_pay := pay\<rparr>)"
    and change_law: "Q db \<Longrightarrow> repair_change (rb_pay db) pay \<Longrightarrow> Q (db\<lparr>rb_pay := pay\<rparr>)"
    and insert_law: "tx_keeps Q (insert_checkpoint env label err r)"
begin

lemma keeps_simple:
  "tx_keeps Q (tx_return x)" "tx_keeps Q (tx_get g)" "tx_keeps Q (tx_reject b err)" "tx_keeps Q (tx_some y err)"
  "tx_keeps Q (begin_k env err)" "tx_keeps Q (commit_k env err)"
  by (simp_all add: tx_keeps_def begin_k_def commit_k_def)

lemma keeps_case_prod: "(\<And>a b. x = (a, b) \<Longrightarrow> tx_keeps Q (f a b)) \<Longrightarrow> tx_keeps Q (case x of (a, b) \<Rightarrow> f a b)"
  by (cases x) simp

lemma keeps_lets: "(\<And>x. x = t \<Longrightarrow> tx_keeps Q (f x)) \<Longrightarrow> tx_keeps Q (Let t f)"
  by simp

lemma keeps_on_pay: "changes m \<Longrightarrow> tx_keeps Q (on_pay m)"
  by (force simp: tx_keeps_def on_pay_def changes_def intro: change_law split: sum.splits prod.splits)

lemma keeps_repair_row: "changes m \<Longrightarrow> tx_keeps Q (repair_row m)"
  unfolding repair_row_def by (intro tx_keeps_bind keeps_on_pay keeps_simple)

lemma keeps_worker_row: "changes m \<Longrightarrow> tx_keeps Q (worker_row m)"
  unfolding worker_row_def by (rule keeps_repair_row) (auto simp: changes_def split: sum.splits)

lemma keeps_select_row: "tx_keeps Q (select_row env label q)"
  unfolding select_row_def by (intro tx_keeps_bind keeps_on_pay keeps_simple changes_statements)

lemma keeps_or_unavailable: "tx_keeps Q m \<Longrightarrow> tx_keeps Q (or_unavailable m)"
  by (auto simp: tx_keeps_def or_unavailable_def split: sum.splits)

lemmas keeps_all = tx_keeps_bind tx_keeps_if keeps_simple keeps_case_prod keeps_lets keeps_repair_row keeps_worker_row
  keeps_select_row keeps_or_unavailable insert_law changes_statements

lemma keeps_repair_tickets: "tx_keeps Q (repair_tickets env l xs)"
  by (induction env l xs rule: repair_tickets.induct) (simp_all only: repair_tickets.simps, (intro keeps_all; assumption?)+)

lemma keeps_audit: "tx_keeps Q (insertRepairAudit env fresh intentID scope repaired)"
  unfolding insertRepairAudit_def by (intro keeps_all)

lemma keeps_new_review:
  "tx_keeps Q (\<lambda>db. if c1 db then Inl err else if c2 db then Inr (x, db) else if c3 db then Inl err
     else Inr (y, db\<lparr>rb_pay := rb_pay db\<lparr>payment_manual_review_cases := cs db\<rparr>\<rparr>))"
  by (auto simp: tx_keeps_def intro: change_law repair_change.review_cases split: if_splits)

lemma keeps_EscalateManualReview: "Q db \<Longrightarrow> Q (snd (EscalateManualReview env fresh reconciliationID intentID reason due db))"
  unfolding EscalateManualReview_def Let_def by (rule run_tx_keeps) (intro tx_keeps_bind keeps_simple keeps_new_review)

lemma keeps_claimRepairSaga: "Q db \<Longrightarrow> Q (snd (claimRepairSaga env fresh e kind db))"
proof -
  assume ok: "Q db"
  have "tx_keeps Q (claim_repair_tx env owner e kind manual expected)" for owner manual expected
    unfolding claim_repair_tx_def by (intro keeps_all)
  from run_tx_keeps [OF this, OF ok] show ?thesis
    using ok by (simp add: claimRepairSaga_def Let_def split: option.splits prod.splits)
qed

lemma keeps_releaseRepairLease: "Q db \<Longrightarrow> Q (snd (releaseRepairLease env sagaID leaseOwner db))"
  unfolding releaseRepairLease_def by (rule run_tx_keeps) (intro keeps_all keeps_on_pay)

lemma keeps_finalizeIssue: "Q db \<Longrightarrow> Q (snd (finalizeIssue env e command receipt leaseOwner db))"
  unfolding finalizeIssue_def finalize_issue_tx_def by (rule run_tx_keeps) (intro keeps_all keeps_repair_tickets)

lemma keeps_finalizeMark: "Q db \<Longrightarrow> Q (snd (finalizeMarkRefundPending env e command receipt leaseOwner db))"
  unfolding finalizeMarkRefundPending_def by (rule run_tx_keeps) (intro keeps_all)

lemma keeps_terminal:
  "Q db \<Longrightarrow> Q (snd (finalizeTerminalCompensation env e istate sstate orderID requireLocator leaseOwner db))"
  unfolding finalizeTerminalCompensation_def terminal_compensation_tx_def
  by (rule run_tx_keeps) (intro keeps_all keeps_on_pay)

lemma keeps_finalize_begin: "Q db \<Longrightarrow> Q (snd (run_tx (finalize_begin_tx env fresh intentID recorded) db))"
  unfolding finalize_begin_tx_def
  by (rule run_tx_keeps) (intro keeps_all keeps_audit keeps_on_pay; simp add: new_operation_def)

lemma keeps_resume: "Q db \<Longrightarrow> Q (snd (run_tx (resume_issuance_tx env fresh intentID e) db))"
  unfolding resume_issuance_tx_def by (rule run_tx_keeps) (intro keeps_all keeps_audit)

lemma keeps_retry: "Q db \<Longrightarrow> Q (snd (run_tx (retry_operation_tx env fresh intentID operationID operationType) db))"
  unfolding retry_operation_tx_def by (rule run_tx_keeps) (intro keeps_all keeps_audit; simp)

lemma keeps_operator_review: "tx_keeps Q (operator_review env fresh intentID)"
  unfolding operator_review_def Let_def by (rule keeps_on_pay, rule changes_new_case)

lemma keeps_MarkManualReview: "Q db \<Longrightarrow> Q (snd (MarkManualReview env fresh fresh' intentID db))"
  unfolding MarkManualReview_def by (rule run_tx_keeps) (intro keeps_all keeps_audit keeps_operator_review)

lemma keeps_repair_step: "repair_step db db' \<Longrightarrow> Q db \<Longrightarrow> Q db'"
  by (induction rule: repair_step.induct)
    (simp_all add: keeps_EscalateManualReview keeps_claimRepairSaga keeps_releaseRepairLease keeps_finalizeIssue keeps_finalizeMark
      keeps_terminal keeps_finalize_begin keeps_resume keeps_retry keeps_MarkManualReview)

end

locale recon_invariant = repair_invariant +
  assumes update_law: "tx_keeps Q (update_checkpoints env label err wh upd)"
begin

lemma keeps_StartCheckpoint: "Q db \<Longrightarrow> Q (snd (StartCheckpoint env fresh scope intentID repair now db))"
  unfolding StartCheckpoint_def by (rule run_tx_keeps) (intro keeps_all update_law)

lemma keeps_FinishCheckpoint: "Q db \<Longrightarrow> Q (snd (FinishCheckpoint env checkpoint result db))"
  unfolding FinishCheckpoint_def by (rule run_tx_keeps) (intro keeps_all update_law)

lemma keeps_recon_step: "recon_step db db' \<Longrightarrow> Q db \<Longrightarrow> Q db'"
  by (induction rule: recon_step.induct)
    (simp_all add: payment_law keeps_StartCheckpoint keeps_FinishCheckpoint keeps_repair_step)

lemma keeps_recon_steps: "recon_step\<^sup>*\<^sup>* db db' \<Longrightarrow> Q db \<Longrightarrow> Q db'"
  by (induction rule: rtranclp_induct) (auto intro: keeps_recon_step)

end

text \<open>Whatever the payment tables keep, reconciliation and repair keep.\<close>

lemma insert_update_pay:
  "insert_checkpoint env label err r db = Inr (u, db') \<Longrightarrow> rb_pay db' = rb_pay db"
  "update_checkpoints env label err wh upd db = Inr (n, db') \<Longrightarrow> rb_pay db' = rb_pay db"
  by (auto simp: insert_checkpoint_def update_checkpoints_def Let_def split: if_splits)

context payment_invariant
begin

lemma keeps_repair_change: "repair_change db db' \<Longrightarrow> P db \<Longrightarrow> P db'"
proof (induction rule: repair_change.induct)
  case intents
  show ?case by (rule tx_keepsD [OF keeps_update_intents intents])
next
  case sagas
  show ?case by (rule tx_keepsD [OF keeps_update_sagas sagas])
next
  case operations
  show ?case by (rule tx_keepsD [OF keeps_update_operations [OF disjI2 [OF operations(2)]] operations(1,3)])
next
  case operation
  show ?case by (rule tx_keepsD [OF keeps_insert_operation [OF operation(2)] operation(1,3)])
next
  case order
  show ?case by (rule tx_keepsD [OF keeps_locators(1) order])
next
  case ticket
  show ?case by (rule tx_keepsD [OF keeps_locators(2) ticket])
next
  case code
  show ?case by (rule tx_keepsD [OF keeps_locators(3) code])
qed (simp_all add: review_law locator_law)

end

sublocale payment_invariant \<subseteq> recon: recon_invariant "\<lambda>db. P (rb_pay db)"
  by unfold_locales
    (auto simp: tx_keeps_def dest: insert_update_pay intro: keeps_pay_step keeps_repair_change)

subsection \<open>Checkpoints\<close>

definition checkpoint_change :: "CheckpointRow \<Rightarrow> CheckpointRow \<Rightarrow> bool" where
  "checkpoint_change r r' \<longleftrightarrow> r' = r \<or> checkpoint_update_guard r r' \<and> checkpoint_check r'"

locale checkpoint_invariant =
  fixes C :: "CheckpointRow list \<Rightarrow> bool"
  assumes new_law: "C rows \<Longrightarrow> checkpoint_check r \<Longrightarrow> checkpoint_insert_guard r \<Longrightarrow> checkpoints_unique (rows @ [r]) \<Longrightarrow> C (rows @ [r])"
    and row_law: "C rows \<Longrightarrow> list_all2 checkpoint_change rows rows' \<Longrightarrow> checkpoints_unique rows' \<Longrightarrow> C rows'"

lemma checkpoint_rows_change:
  "list_all (\<lambda>r. wh r \<longrightarrow> checkpoint_update_guard r (upd r) \<and> checkpoint_check (upd r)) rows \<Longrightarrow>
     list_all2 checkpoint_change rows (map (\<lambda>r. if wh r then upd r else r) rows)"
  by (induction rows) (auto simp: checkpoint_change_def)

sublocale checkpoint_invariant \<subseteq> recon: recon_invariant "\<lambda>db. C (rb_checkpoints db)"
  by unfold_locales
    (auto simp: tx_keeps_def insert_checkpoint_def update_checkpoints_def Let_def
      intro: new_law row_law checkpoint_rows_change split: if_splits)

definition checkpoints_ok :: "CheckpointRow list \<Rightarrow> bool" where
  "checkpoints_ok rows \<longleftrightarrow> list_all checkpoint_check rows \<and> checkpoints_unique rows"

interpretation checkpoint_rows: checkpoint_invariant checkpoints_ok
proof
  fix rows rows'
  assume "checkpoints_ok rows" "list_all2 checkpoint_change rows rows'" "checkpoints_unique rows'"
  then show "checkpoints_ok rows'"
    using list_all2_kept [of checkpoint_change rows rows' checkpoint_check]
    by (auto simp: checkpoints_ok_def checkpoint_change_def)
qed (auto simp: checkpoints_ok_def)

text \<open>A checkpoint that has ended stays as it is.\<close>

definition kept_checkpoint :: "CheckpointRow \<Rightarrow> CheckpointRow list \<Rightarrow> bool" where
  "kept_checkpoint c rows \<longleftrightarrow> checkpoint_check c \<and> checkpoint_ended (cp_state c) \<longrightarrow> c \<in> set rows"

lemma ended_unchanged:
  "checkpoint_change c c' \<Longrightarrow> checkpoint_check c \<Longrightarrow> checkpoint_ended (cp_state c) \<Longrightarrow> c' = c"
  by (cases c, cases c') (auto simp: checkpoint_change_def checkpoint_update_guard_def checkpoint_check_def checkpoint_ended_def split: if_splits)

interpretation ended: checkpoint_invariant "kept_checkpoint c" for c
proof
  fix rows rows'
  assume "kept_checkpoint c rows" "list_all2 checkpoint_change rows rows'"
  then show "kept_checkpoint c rows'"
    using list_all2_image [of checkpoint_change rows rows' c] ended_unchanged by (auto simp: kept_checkpoint_def)
qed (auto simp: kept_checkpoint_def)

text \<open>The identity of a checkpoint and its intent never part, and only the end of a checkpoint changes a row that is there.\<close>

definition identified_checkpoint :: "uuid \<Rightarrow> uuid option \<Rightarrow> CheckpointRow list \<Rightarrow> bool" where
  "identified_checkpoint k intent rows \<longleftrightarrow> list_ex (\<lambda>c. cp_id c = k \<and> cp_intent c = intent) rows"

interpretation identity: checkpoint_invariant "identified_checkpoint k intent" for k intent
proof
  fix rows rows'
  assume "identified_checkpoint k intent rows" "list_all2 checkpoint_change rows rows'"
  then show "identified_checkpoint k intent rows'"
    using list_all2_image [of checkpoint_change rows rows']
    by (fastforce simp: identified_checkpoint_def list_ex_iff checkpoint_change_def checkpoint_update_guard_def)
qed (simp add: identified_checkpoint_def)

interpretation rows_kept: repair_invariant "\<lambda>db. c \<in> set (rb_checkpoints db)" for c
  by unfold_locales (auto simp: tx_keeps_def insert_checkpoint_def split: if_splits)

end
