(* ===== verification/Payment_Recon_Flow.thy ===== *)
theory Payment_Recon_Flow
  imports Payment_Recon_Safety Payment_Flow
begin

text \<open>
  How a repair runs: the command it sends is the one the worker would send, the gateway is called at most once and only
  with the recorded command, and what needs an audit row is refused.
\<close>

subsection \<open>The audit row\<close>

lemma audit_refused: "insertRepairAudit env fresh intentID scope repaired db = Inl (RecFailed ''audit'')"
  by (simp add: insertRepairAudit_def insert_checkpoint_def audit_row_def checkpoint_insert_guard_def)

lemma audit_never [simp]: "insertRepairAudit env fresh intentID scope repaired db \<noteq> Inr r"
  by (simp add: audit_refused)

lemma run_tx_never: "(\<And>x db'. m db \<noteq> Inr (x, db')) \<Longrightarrow> \<exists>e. run_tx m db = (Inl e, db)"
  by (cases "m db") (auto simp: run_tx_def)

lemma audited_tx_refused:
  "\<exists>err. run_tx (finalize_begin_tx env fresh intentID recorded) db = (Inl err, db)"
  "\<exists>err. run_tx (resume_issuance_tx env fresh intentID e) db = (Inl err, db)"
  "\<exists>err. run_tx (retry_operation_tx env fresh intentID operationID operationType) db = (Inl err, db)"
  "\<exists>err. MarkManualReview env fresh fresh' intentID db = (Inl err, db)"
  by (rule run_tx_never; simp add: finalize_begin_tx_def resume_issuance_tx_def retry_operation_tx_def Let_def split: prod.splits)+
    (unfold MarkManualReview_def, rule run_tx_never, simp)

text \<open>A call that always fails and rolls back leaves the tables as it has found them.\<close>

lemma repair_store_refused:
  assumes "\<And>env fresh db. \<exists>err. run env fresh db = (Inl err, db)"
  shows "\<exists>err. repair_store r run st = (Inl err, st\<lparr>rw_db := rp_others r (rw_calls st) (rw_db st), rw_calls := Suc (rw_calls st)\<rparr>)"
  using assms[of "rp_env r (rw_calls st)" "rp_fresh r (rw_calls st)" "rp_others r (rw_calls st) (rw_db st)"]
  by (auto simp: repair_store_def Let_def)

subsection \<open>Commands\<close>

lemma repair_identities:
  "deterministicRepairID = deterministicID"
  "repairFingerprint ids sagaID (action_text action) = actionFingerprint ids sagaID action"
  "beginPaymentCommandID = beginCommandID"
  "checkoutOperationIdentity ids intentID = operationIdentity ids intentID ''create_checkout''"
  by (simp_all add: fun_eq_iff deterministicRepairID_def deterministicID_def repairActionNamespace_def actionNamespace_def
      repairFingerprint_def actionFingerprint_def beginPaymentCommandID_def beginCommandID_def controlPaymentIdentityNamespace_def
      paymentIdentityNamespace_def checkoutOperationIdentity_def operationIdentity_def Let_def)


text \<open>The recorded kind of a worker's action, and the intent it is about.\<close>

fun action_kind :: "ActionType \<Rightarrow> string" where
  "action_kind ActionIssueTickets = ''issue_tickets''"
| "action_kind ActionMarkRefundPending = ''mark_refund_pending''"
| "action_kind ActionCancelVoided = ''cancel_voided_reservation''"
| "action_kind ActionCompensate = ''apply_refund_compensation''"
| "action_kind (ActionOther s) = s"

definition action_intent :: "ActionClaim \<Rightarrow> uuid" where
  "action_intent c =
     (case ac_Type c of ActionIssueTickets \<Rightarrow> ic_PaymentIntentID (ac_Issue c)
      | ActionMarkRefundPending \<Rightarrow> mc_PaymentIntentID (ac_MarkRefund c)
      | ActionCancelVoided \<Rightarrow> vc_PaymentIntentID (ac_CancelVoided c)
      | ActionCompensate \<Rightarrow> rc_PaymentIntentID (ac_Compensation c)
      | ActionOther _ \<Rightarrow> uuid_Nil)"

definition same_command :: "PayIds \<Rightarrow> repairEvidence \<Rightarrow> ActionClaim \<Rightarrow> bool" where
  "same_command ids e c \<longleftrightarrow>
     (case ac_Type c of ActionIssueTickets \<Rightarrow> issueCommand ids e = ac_Issue c
      | ActionMarkRefundPending \<Rightarrow> markRefundPendingCommand ids e = ac_MarkRefund c
      | ActionCancelVoided \<Rightarrow> voidCommand ids e = ac_CancelVoided c
      | ActionCompensate \<Rightarrow> compensationCommand ids e = ac_Compensation c
      | ActionOther _ \<Rightarrow> False)"

lemma evidence_Inr:
  assumes "loadRepairEvidence env k kind db = Inr e"
  obtains operationType i s p where "evidence_operation kind = Some operationType" "i \<in> set (payment_intents db)" "pi_id i = k"
    "s \<in> set (payment_sagas db)" "sg_intent s = k" "p \<in> set (payment_operations db)" "po_intent p = k"
    "is_succeeded operationType p" "po_completed p \<noteq> None" "length (proof_of (Some p)) = 32" "0 < pi_amount i"
    "e = scan_evidence (py_clock env (''evidence:'' @ kind)) (i, s, p)"
proof -
  obtain operationType i s p rest where row: "evidence_operation kind = Some operationType"
      "evidence_rows k operationType db = (i, s, p) # rest" "po_completed p \<noteq> None" "length (proof_of (Some p)) = 32" "0 < pi_amount i"
      "e = scan_evidence (py_clock env (''evidence:'' @ kind)) (i, s, p)"
    using assms unfolding loadRepairEvidence_def Let_def
    by (cases "evidence_operation kind") (auto split: if_splits list.splits prod.splits)
  then have "(i, s, p) \<in> set (evidence_rows k operationType db)" by simp
  then show ?thesis
    using that[OF row(1), of i s p] row(3-) by (auto simp: evidence_rows_def is_succeeded_def split: if_splits)
qed

lemma succeeded_unique:
  assumes "payments_ok db" "p \<in> set (payment_operations db)" "q \<in> set (payment_operations db)" "is_succeeded kind p" "is_succeeded kind q"
    "po_intent p = po_intent q" "kind \<noteq> OperationQueryStatus"
  shows "p = q"
proof -
  have "inj_on (\<lambda>r. (po_intent r, po_type r)) {r \<in> set (payment_operations db). po_type r \<noteq> OperationQueryStatus}"
    using assms(1) by (simp add: payments_ok_def rows_ok_def operations_unique_def distinct_map)
  then show ?thesis by (rule inj_onD) (use assms in \<open>auto simp: is_succeeded_def\<close>)
qed

lemma same_rows:
  assumes "payments_ok db"
  shows "i \<in> set (payment_intents db) \<Longrightarrow> j \<in> set (payment_intents db) \<Longrightarrow> pi_id i = pi_id j \<Longrightarrow> i = j"
    and "s \<in> set (payment_sagas db) \<Longrightarrow> t \<in> set (payment_sagas db) \<Longrightarrow> sg_intent s = sg_intent t \<Longrightarrow> s = t"
  using assms by (auto simp: payments_ok_def rows_ok_def links_ok_def intents_unique_def distinct_map dest: inj_onD)


lemma built_same_command:
  assumes ok: "payments_ok db" and i: "i \<in> set (payment_intents db)" and s: "s \<in> set (payment_sagas db)" "sg_intent s = pi_id i"
    and joined: "joined_operation db (pi_id i) OperationCapture cap" "joined_operation db (pi_id i) OperationVoid v"
      "joined_operation db (pi_id i) OperationRefund f"
    and built: "buildActionClaim ids (zero_claim options s i) s i cap v f = Inr c"
    and loaded: "loadRepairEvidence env (action_intent c) (action_kind (ac_Type c)) db = Inr e"
  shows "same_command ids e c"
proof -
  have intent: "action_intent c = pi_id i"
    using built by (auto simp: buildActionClaim_def action_intent_def issue_command_def mark_refund_command_def
        cancel_voided_command_def compensation_command_def Let_def split: if_splits)
  obtain operationType i' s' p where row: "evidence_operation (action_kind (ac_Type c)) = Some operationType"
      "i' \<in> set (payment_intents db)" "pi_id i' = pi_id i" "s' \<in> set (payment_sagas db)" "sg_intent s' = pi_id i"
      "p \<in> set (payment_operations db)" "po_intent p = pi_id i" "is_succeeded operationType p" "po_completed p \<noteq> None"
      "e = scan_evidence (py_clock env (''evidence:'' @ action_kind (ac_Type c))) (i', s', p)"
    using evidence_Inr[OF loaded] unfolding intent by metis
  have same: "i' = i" "s' = s"
    using same_rows[OF ok] i s row by metis+
  have one: "x = Some p" if "joined_operation db (pi_id i) kind x" "x \<noteq> None" "operationType = kind" "kind \<noteq> OperationQueryStatus" for x kind
    using that row(6-8) succeeded_unique[OF ok, of p "the x" kind] by (auto simp: joined_operation_def)
  note commands = same_command_def scan_evidence_def same row(10) repair_identities(1) repair_identities(2) [of _ _ ActionIssueTickets, simplified]
    repair_identities(2) [of _ _ ActionMarkRefundPending, simplified] repair_identities(2) [of _ _ ActionCompensate, simplified]
  show ?thesis
  proof (cases "ac_Type c")
    case ActionIssueTickets
    then have "operationType = OperationCapture" using row(1) by (simp add: evidence_operation_def)
    then have "cap \<noteq> None \<longrightarrow> cap = Some p" using one[OF joined(1)] by auto
    then show ?thesis
      using built ActionIssueTickets
      by (auto simp: buildActionClaim_def zero_claim_def issueCommand_def issue_command_def commands split: if_splits)
  next
    case ActionMarkRefundPending
    then have "operationType = OperationCapture" using row(1) by (simp add: evidence_operation_def)
    then have "cap \<noteq> None \<longrightarrow> cap = Some p" using one[OF joined(1)] by auto
    then show ?thesis
      using built ActionMarkRefundPending
      by (auto simp: buildActionClaim_def zero_claim_def markRefundPendingCommand_def mark_refund_command_def commands split: if_splits)
  next
    case ActionCancelVoided
    then have "operationType = OperationVoid" using row(1) by (simp add: evidence_operation_def)
    then have "v \<noteq> None \<longrightarrow> v = Some p" using one[OF joined(2)] by auto
    then show ?thesis
      using built ActionCancelVoided
      by (auto simp: buildActionClaim_def zero_claim_def voidCommand_def cancel_voided_command_def Let_def commands split: if_splits)
  next
    case ActionCompensate
    then have "operationType = OperationRefund" using row(1) by (simp add: evidence_operation_def)
    then have "f \<noteq> None \<longrightarrow> f = Some p" using one[OF joined(3)] by auto
    then show ?thesis
      using built ActionCompensate
      by (auto simp: buildActionClaim_def zero_claim_def compensationCommand_def compensation_command_def commands split: if_splits)
  next
    case (ActionOther x)
    then show ?thesis using built by (auto simp: buildActionClaim_def zero_claim_def split: if_splits)
  qed
qed

subsection \<open>One call to the gateway\<close>

text \<open>What the world of a repair has seen: nothing, or the one command that the recorded identity stands for.\<close>

definition gateway_effect :: "'w ShardCalls \<Rightarrow> PayIds \<Rightarrow> repairEvidence \<Rightarrow> string \<Rightarrow> 'w \<Rightarrow> 'w" where
  "gateway_effect g ids e kind w =
     (if kind = ''issue_tickets'' then snd (sc_IssueTickets g (issueCommand ids e) w)
      else if kind = ''mark_refund_pending'' then snd (sc_MarkRefundPending g (markRefundPendingCommand ids e) w)
      else if kind = ''cancel_voided_reservation'' then snd (sc_CancelVoidedReservation g (voidCommand ids e) w)
      else if kind = ''apply_refund_compensation'' then snd (sc_ApplyRefundCompensation g (compensationCommand ids e) w)
      else w)"

lemma repair_store_world [simp]: "rw_world (snd (repair_store r run st)) = rw_world st"
  by (simp add: repair_store_def Let_def split: prod.splits)

lemma repair_gateway_world: "rw_world (snd (repair_gateway run st)) = snd (run (rw_world st))"
  by (simp add: repair_gateway_def Let_def split: prod.splits)

lemma repair_then_world:
  "(\<And>x st'. rw_world (snd (f x st')) = rw_world st') \<Longrightarrow> rw_world (snd (repair_then m f st)) = rw_world (snd (m st))"
  by (auto simp: repair_then_def split: prod.splits sum.splits)

lemma execute_repair_world: "rw_world (snd (execute_repair r ids e kind owner st)) = gateway_effect (rp_gateway r) ids e kind (rw_world st)"
  by (simp add: execute_repair_def gateway_effect_def repair_then_world repair_gateway_world)


text \<open>The identity of the command that a repair sends.\<close>

definition command_identity :: "PayIds \<Rightarrow> repairEvidence \<Rightarrow> string \<Rightarrow> uuid \<times> byte list" where
  "command_identity ids e kind =
     (if kind = ''issue_tickets'' then (ic_CommandID (issueCommand ids e), ic_RequestFingerprint (issueCommand ids e))
      else if kind = ''mark_refund_pending'' then (mc_CommandID (markRefundPendingCommand ids e), mc_RequestFingerprint (markRefundPendingCommand ids e))
      else if kind = ''cancel_voided_reservation'' then (vc_CommandID (voidCommand ids e), vc_RequestFingerprint (voidCommand ids e))
      else (rc_CommandID (compensationCommand ids e), rc_RequestFingerprint (compensationCommand ids e)))"

lemma recorded_identity:
  "recordedCommand ids e kind = Inr recorded \<Longrightarrow> command_identity ids e kind = (rc_ID recorded, rc_Fingerprint recorded)"
  by (auto simp: recordedCommand_def command_identity_def issueCommand_def markRefundPendingCommand_def compensationCommand_def Let_def
      split: if_splits)

lemma repair_row_Inr: "repair_row m db = Inr ((), db') \<longleftrightarrow> (\<exists>pay. m (rb_pay db) = Inr (1, pay) \<and> db' = db\<lparr>rb_pay := pay\<rparr>)"
  by (auto simp: repair_row_def on_pay_def split: sum.splits)

lemma claim_repair_lease:
  assumes "claimRepairSaga env fresh e kind db = (Inr owner, db')"
  shows "\<exists>s \<in> set (payment_sagas (rb_pay db')). sg_id s = rep_SagaID e \<and> lease_owned owner (sg_lease s)"
proof -
  obtain manual expected owner' where "run_tx (claim_repair_tx env owner' e kind manual expected) db = (Inr owner, db')"
    using assms unfolding claimRepairSaga_def Let_def by (auto split: option.splits prod.splits if_splits)
  then have "claim_repair_tx env owner' e kind manual expected db = Inr (owner, db')" by (simp only: run_tx_Inr)
  then obtain db1 wh where "owner' = owner"
      "repair_row (update_sagas env ''lease saga'' RecRepairUnavailable (\<lambda>db r. sg_id r = rep_SagaID e \<and> wh db r)
         (\<lambda>r. r\<lparr>sg_lease := Some (owner, py_clock env ''lease saga'' + 120 * 1000000000)\<rparr>)) db1 = Inr ((), db')"
    unfolding claim_repair_tx_def Let_def by (cases expected) (auto simp: commit_k_def)
  then obtain pay where pay: "rb_pay db' = pay"
      "update_sagas env ''lease saga'' RecRepairUnavailable (\<lambda>db r. sg_id r = rep_SagaID e \<and> wh db r)
         (\<lambda>r. r\<lparr>sg_lease := Some (owner, py_clock env ''lease saga'' + 120 * 1000000000)\<rparr>) (rb_pay db1) = Inr (1, pay)"
    by (auto simp: repair_row_Inr)
  then obtain s where s: "s \<in> set (payment_sagas (rb_pay db1))" "sg_id s = rep_SagaID e \<and> wh (rb_pay db1) s"
    using filter_length_1 by (fastforce dest: update_sagas_Inr)
  have rows: "payment_sagas pay = map (\<lambda>r. if sg_id r = rep_SagaID e \<and> wh (rb_pay db1) r
      then r\<lparr>sg_lease := Some (owner, py_clock env ''lease saga'' + 120 * 1000000000)\<rparr> else r) (payment_sagas (rb_pay db1))"
    using pay(2) by (auto dest: update_sagas_Inr)
  have "s\<lparr>sg_lease := Some (owner, py_clock env ''lease saga'' + 120 * 1000000000)\<rparr> \<in> set (payment_sagas pay)"
    unfolding rows set_map by (rule image_eqI [OF _ s(1)]) (simp add: s(2))
  then show ?thesis unfolding pay(1) by (rule bexI [rotated]) (simp add: s(2) lease_owned_def)
qed

text \<open>
  A replay that reaches the shards: the evidence it has loaded, the claim of the saga on the tables it finds next, and the
  command sent and finished on the tables that the claim has left.
\<close>

lemma replay_calls:
  assumes kind: "rc_Kind recorded \<noteq> ''finalize_reservation_begin''" and run: "ReplayRecordedCommand r ids k recorded st = (answer, st')"
    and world: "rw_world st' \<noteq> rw_world st"
  defines "n \<equiv> rw_calls st"
  obtains e owner db x st3 where
    "loadRepairEvidence (rp_env r n) k (rc_Kind recorded) (rb_pay (rp_others r n (rw_db st))) = Inr e"
    "recordedCommand ids e (rc_Kind recorded) = Inr recorded" "\<not> rep_ActiveLease e"
    "claimRepairSaga (rp_env r (Suc n)) (rp_fresh r (Suc n)) e (rc_Kind recorded) (rp_others r (Suc n) (rp_others r n (rw_db st))) = (Inr owner, db)"
    "execute_repair r ids e (rc_Kind recorded) owner \<lparr>rw_db = db, rw_world = rw_world st, rw_calls = Suc (Suc n)\<rparr> = (x, st3)"
    "answer = x" "st' = (if isl x then snd (repair_store r (\<lambda>env _. releaseRepairLease env (rep_SagaID e) owner) st3) else st3)"
proof -
  let ?db1 = "rp_others r n (rw_db st)"
  define st1 where "st1 = st\<lparr>rw_db := ?db1, rw_calls := Suc n\<rparr>"
  define x where "x = loadRepairEvidence (rp_env r n) k (rc_Kind recorded) (rb_pay ?db1)"
  have load: "repair_evidence r k (rc_Kind recorded) st = (x, st1)"
    by (simp add: repair_evidence_def repair_store_def Let_def x_def st1_def n_def)
  obtain e where e: "x = Inr e" "recordedCommand ids e (rc_Kind recorded) = Inr recorded" "\<not> rep_ActiveLease e"
    using world run unfolding ReplayRecordedCommand_def load by (cases x) (auto simp: kind st1_def split: if_splits)
  obtain y db where claim: "claimRepairSaga (rp_env r (Suc n)) (rp_fresh r (Suc n)) e (rc_Kind recorded) (rp_others r (Suc n) ?db1) = (y, db)"
    by fastforce
  define st2 where "st2 = \<lparr>rw_db = db, rw_world = rw_world st, rw_calls = Suc (Suc n)\<rparr>"
  have store: "repair_store r (\<lambda>env fresh. claimRepairSaga env fresh e (rc_Kind recorded)) st1 = (y, st2)"
    using claim by (cases st) (simp add: repair_store_def st1_def st2_def)
  obtain owner where owner: "y = Inr owner"
    using world run e kind unfolding ReplayRecordedCommand_def load by (cases y) (auto simp: store st2_def split: if_splits)
  obtain z st3 where exec: "execute_repair r ids e (rc_Kind recorded) owner st2 = (z, st3)" by fastforce
  have "answer = z" "st' = (if isl z then snd (repair_store r (\<lambda>env _. releaseRepairLease env (rep_SagaID e) owner) st3) else st3)"
    using world run e kind owner unfolding ReplayRecordedCommand_def load
    by (auto simp: store exec split: if_splits sum.splits)
  then show ?thesis
    using that e claim exec owner unfolding x_def st2_def by blast
qed

lemma replay_world:
  assumes "execute_repair r ids e kind owner \<lparr>rw_db = db, rw_world = w, rw_calls = n\<rparr> = (x, st3)"
    and "st' = (if isl x then snd (repair_store r run st3) else st3)"
  shows "rw_world st' = gateway_effect (rp_gateway r) ids e kind w"
  using execute_repair_world[of r ids e kind owner "\<lparr>rw_db = db, rw_world = w, rw_calls = n\<rparr>"] assms
  by (auto simp: repair_store_world)

text \<open>A begin that is finalized reaches the shard with the recorded identity, or not at all.\<close>

lemma finalize_begin_world:
  assumes "finalizeReservationBegin r k recorded st = (answer, st')"
  shows "rw_world st' = rw_world st \<or>
    rc_ID recorded \<noteq> uuid_Nil \<and> rc_Fingerprint recorded \<noteq> no_digest \<and>
    rw_world st' = snd (rp_begin r k (rc_ID recorded) (rc_Fingerprint recorded) (rw_world st))"
proof -
  obtain x w where begun: "rp_begin r k (rc_ID recorded) (rc_Fingerprint recorded) (rw_world st) = (x, w)" by fastforce
  have "rw_world st' = w" if "repair_store r (\<lambda>env fresh. run_tx (finalize_begin_tx env fresh k recorded)) (st\<lparr>rw_world := w\<rparr>) = (answer, st')"
    using repair_store_world[of r "\<lambda>env fresh. run_tx (finalize_begin_tx env fresh k recorded)" "st\<lparr>rw_world := w\<rparr>"] that by simp
  then show ?thesis
    using assms begun by (cases x) (auto simp: finalizeReservationBegin_def split: if_splits)
qed

end
