(* ===== verification/Payment_Recon_Snapshot.thy ===== *)
theory Payment_Recon_Snapshot
  imports Payment_Recon_Flow
begin

text \<open>
  What the reconciler sees of sound tables. The snapshot of an intent is taken by two statements, between which others may
  commit; as the ledger is kept and the identity of rows never changes, the checks on the control plane that look for
  duplicates and for money that does not add up find nothing.
\<close>

lemma boundedCount_le: "boundedCount (int n) \<le> int n"
  by (simp add: boundedCount_def)

lemma distinct_count_list: "distinct xs \<Longrightarrow> count_list xs x \<le> Suc 0"
  by (induction xs) auto

lemma filter_distinct_le_1:
  assumes "distinct (map key (filter live rows))"
  shows "length (filter (\<lambda>r. key r = k \<and> live r) rows) \<le> 1"
proof -
  have "length (filter (\<lambda>r. key r = k \<and> live r) rows) = length (filter ((=) k) (map key (filter live rows)))"
    by (simp add: filter_map comp_def) (simp add: eq_commute conj_commute)
  also have "\<dots> = count_list (map key (filter live rows)) k"
    by (simp add: count_list_eq_length_filter)
  also have "\<dots> \<le> 1" using assms by (simp add: distinct_count_list)
  finally show ?thesis .
qed

lemma observed_intent_active:
  "payments_ok db \<Longrightarrow> in_ActiveForReservation (observed_intent db i) \<le> 1"
  using filter_distinct_le_1[of pi_reservation "\<lambda>a. \<not> intent_ended (pi_state a)" "payment_intents db" "pi_reservation i"]
    boundedCount_le[of "length (filter (\<lambda>a. pi_reservation a = pi_reservation i \<and> \<not> intent_ended (pi_state a)) (payment_intents db))"]
  by (simp add: observed_intent_def count_rows_def payments_ok_def rows_ok_def intents_unique_def)

lemma observed_saga_active:
  assumes "payments_ok db"
  shows "ns_ActiveCount (observed_saga created db i) \<le> 1"
proof -
  have "length (filter (\<lambda>s. \<not> saga_ended (sg_state s)) (filter (\<lambda>s. sg_intent s = pi_id i) (payment_sagas db))) \<le> 1"
    using filter_distinct_le_1[of sg_intent "\<lambda>s. \<not> saga_ended (sg_state s)" "payment_sagas db" "pi_id i"] assms
    by (simp add: payments_ok_def rows_ok_def sagas_unique_def conj_commute)
  then have "count_rows (\<lambda>s. \<not> saga_ended (sg_state s)) (filter (\<lambda>s. sg_intent s = pi_id i) (payment_sagas db)) \<le> 1"
    unfolding count_rows_def using boundedCount_le by (meson order_trans of_nat_le_1_iff)
  then show ?thesis by (simp add: observed_saga_def Let_def split: list.split)
qed

lemma duplicate_events_none:
  assumes "payments_ok db"
  shows "duplicate_events i (payment_webhook_inbox db) = 0"
proof -
  define keys where "keys = map (\<lambda>x. (wi_provider x, wi_event x))
    (filter (\<lambda>x. wi_provider x = pi_provider i \<and> pi_payment i \<noteq> None \<and> wi_payment x = pi_payment i) (payment_webhook_inbox db))"
  have "distinct keys"
    using assms unfolding keys_def payments_ok_def rows_ok_def inbox_unique_def by (auto intro: distinct_map_filter)
  then have "filter (\<lambda>key. 1 < count_list keys key) (remdups keys) = []"
    by (simp add: filter_empty_conv not_less distinct_count_list)
  moreover have "duplicate_events i (payment_webhook_inbox db) =
      boundedCount (int (length (filter (\<lambda>key. 1 < count_list keys key) (remdups keys))))"
    unfolding duplicate_events_def keys_def Let_def ..
  ultimately show ?thesis by (simp only: list.size boundedCount_def) (simp add: MaxInt64_def)
qed


text \<open>The operations of one intent, as observed.\<close>

definition own_operations :: "PaymentDb \<Rightarrow> IntentRow \<Rightarrow> ReconOperation list \<Rightarrow> bool" where
  "own_operations db i ps \<longleftrightarrow>
     (\<exists>rows. ps = map observed_operation rows \<and> distinct rows \<and>
        set rows = {p \<in> set (payment_operations db). po_intent p = pi_id i})"

lemma kind_le_1:
  assumes "payments_ok db" "own_operations db i ps" "kind \<noteq> OperationQueryStatus"
  shows "count_kind ps kind \<le> 1"
proof -
  obtain rows where rows: "ps = map observed_operation rows" "distinct rows"
      "set rows = {p \<in> set (payment_operations db). po_intent p = pi_id i}"
    using assms(2) by (auto simp: own_operations_def)
  have "inj_on (\<lambda>r. (po_intent r, po_type r)) {r \<in> set (payment_operations db). po_type r \<noteq> OperationQueryStatus}"
    using assms(1) by (simp add: payments_ok_def rows_ok_def operations_unique_def distinct_map)
  then have "p = q" if "p \<in> set (filter (\<lambda>p. po_type p = kind) rows)" "q \<in> set (filter (\<lambda>p. po_type p = kind) rows)" for p q
    by (rule inj_onD) (use that assms(3) rows(3) in auto)
  then have "card (set (filter (\<lambda>p. po_type p = kind) rows)) \<le> 1" using card_le_Suc0_iff_eq[OF finite_set] by (metis One_nat_def)
  moreover have "count_kind ps kind = length (filter (\<lambda>p. po_type p = kind) rows)"
    by (simp add: count_kind_def rows(1) filter_map comp_def observed_operation_def)
  ultimately show ?thesis using rows(2) distinct_card[of "filter (\<lambda>p. po_type p = kind) rows"] by simp
qed

lemma add_amounts_none: "count_succeeded ps kind = 0 \<Longrightarrow> add_amounts ps kind n = n"
  by (induction ps arbitrary: n) (auto simp: count_succeeded_def split: if_splits)

lemma add_amounts_one:
  "count_succeeded ps kind = 1 \<Longrightarrow>
     \<exists>p \<in> set ps. no_Type p = kind \<and> no_State p = OperationSucceeded \<and> add_amounts ps kind n = wrap64 (n + no_AmountMinor p)"
proof (induction ps arbitrary: n)
  case (Cons p ps)
  show ?case
  proof (cases "no_Type p = kind \<and> no_State p = OperationSucceeded")
    case True
    then have "count_succeeded ps kind = 0" using Cons.prems by (simp add: count_succeeded_def)
    then show ?thesis using True add_amounts_none[of ps kind] by simp
  next
    case False
    then have "count_succeeded ps kind = 1" using Cons.prems by (simp only: count_succeeded_def filter.simps if_False)
    from Cons.IH[OF this, of n] False show ?thesis by auto
  qed
qed (simp add: count_succeeded_def)

lemma succeeded_le_kind: "count_succeeded ps kind \<le> count_kind ps kind"
proof -
  have "filter (\<lambda>p. no_Type p = kind \<and> no_State p = OperationSucceeded) ps =
      filter (\<lambda>p. no_State p = OperationSucceeded) (filter (\<lambda>p. no_Type p = kind) ps)" by (simp add: conj_commute)
  then show ?thesis unfolding count_succeeded_def count_kind_def by (metis length_filter_le)
qed

lemma succeeded_amount:
  assumes "payments_ok db" "i \<in> set (payment_intents db)" "own_operations db i ps" "kind \<noteq> OperationQueryStatus" "in_int64 (pi_amount i)"
  shows "succeededAmount ps kind = (if count_succeeded ps kind = 0 then 0 else pi_amount i)"
proof (cases "count_succeeded ps kind = 0")
  case False
  then have "count_succeeded ps kind = 1"
    using kind_le_1[OF assms(1,3,4)] succeeded_le_kind[of ps kind] by simp
  then obtain p where p: "p \<in> set ps" "add_amounts ps kind 0 = wrap64 (0 + no_AmountMinor p)" using add_amounts_one by blast
  then obtain r where "r \<in> set (payment_operations db)" "po_intent r = pi_id i" "no_AmountMinor p = po_amount r"
    using assms(3) by (auto simp: own_operations_def observed_operation_def)
  then show ?thesis
    using operation_amount[OF assms(1) _ assms(2)] assms(5) p(2) False by (simp add: succeededAmount_def)
qed (simp add: succeededAmount_def add_amounts_none)

lemma refund_needs_capture:
  assumes "payments_ok db" "own_operations db i ps" "count_succeeded ps OperationRefund \<noteq> 0"
  shows "count_succeeded ps OperationCapture \<noteq> 0"
proof -
  obtain rows where rows: "ps = map observed_operation rows" "set rows = {p \<in> set (payment_operations db). po_intent p = pi_id i}"
    using assms(2) by (auto simp: own_operations_def)
  obtain r where r: "r \<in> set rows" "is_succeeded OperationRefund r"
    using assms(3) unfolding count_succeeded_def rows(1)
    by (auto simp: filter_empty_conv observed_operation_def is_succeeded_def)
  then obtain c where c: "c \<in> set (payment_operations db)" "is_succeeded OperationCapture c" "po_intent c = po_intent r"
    using assms(1) rows(2) unfolding payments_ok_def settled_def by blast
  then have "c \<in> set rows" using r(1) rows(2) by auto
  then show ?thesis
    using c(2) unfolding count_succeeded_def rows(1) by (force simp: filter_empty_conv observed_operation_def is_succeeded_def)
qed

lemma duplicate_identities_none:
  assumes "distinct (map no_ProviderOperationID (filter (\<lambda>p. no_ProviderOperationID p \<noteq> []) ps))"
    "\<forall>p \<in> set ps. no_ProviderOperationID p \<notin> seen \<or> no_ProviderOperationID p = []"
  shows "\<forall>c \<in> set (duplicate_identities seen ps). \<not> fst c"
  using assms
proof (induction ps arbitrary: seen)
  case (Cons p ps)
  show ?case
  proof (cases "no_ProviderOperationID p = []")
    case True
    then show ?thesis using Cons by auto
  next
    case False
    then have "\<forall>q \<in> set ps. no_ProviderOperationID q \<notin> insert (no_ProviderOperationID p) seen \<or> no_ProviderOperationID q = []"
      using Cons.prems by (auto simp: image_iff)
    moreover have "distinct (map no_ProviderOperationID (filter (\<lambda>p. no_ProviderOperationID p \<noteq> []) ps))"
      using Cons.prems(1) False by simp
    ultimately have "\<forall>c \<in> set (duplicate_identities (insert (no_ProviderOperationID p) seen) ps). \<not> fst c"
      using Cons.IH by blast
    moreover have "no_ProviderOperationID p \<notin> seen" using Cons.prems(2) False by simp
    ultimately show ?thesis using False by (simp add: Let_def)
  qed
qed simp


lemma distinct_some_inj:
  "distinct_some (map g xs) \<Longrightarrow> x \<in> set xs \<Longrightarrow> y \<in> set xs \<Longrightarrow> g x = Some v \<Longrightarrow> g y = Some v \<Longrightarrow> x = y"
proof (induction xs)
  case (Cons z xs)
  show ?case
  proof (cases "g z")
    case (Some u)
    then have "Some u \<notin> g ` set xs" "distinct_some (map g xs)" using Cons.prems(1) by simp_all
    then show ?thesis using Cons Some by (metis imageI set_ConsD)
  qed (use Cons in auto)
qed simp

lemma own_identities_distinct:
  assumes "payments_ok db" "i \<in> set (payment_intents db)" "own_operations db i ps"
  shows "distinct (map no_ProviderOperationID (filter (\<lambda>p. no_ProviderOperationID p \<noteq> []) ps))"
proof -
  obtain rows where rows: "ps = map observed_operation rows" "distinct rows"
      "set rows = {p \<in> set (payment_operations db). po_intent p = pi_id i}"
    using assms(3) by (auto simp: own_operations_def)
  define ref where "ref = (\<lambda>p :: OperationRow. coalesce (po_provider_operation p))"
  have "p = q" if "p \<in> set rows" "q \<in> set rows" "ref p \<noteq> []" "ref p = ref q" for p q
  proof -
    have "po_provider_operation p = Some (ref p)" "po_provider_operation q = Some (ref p)"
      using that by (auto simp: ref_def coalesce_def split: option.splits)
    moreover have "po_provider p = pi_provider i" "po_provider q = pi_provider i"
      using operation_amount[OF assms(1) _ assms(2)] that(1,2) rows(3) by auto
    moreover have "distinct_some (map (\<lambda>r. map_option (Pair (po_provider r)) (po_provider_operation r)) (payment_operations db))"
      using assms(1) by (simp add: payments_ok_def rows_ok_def operations_unique_def)
    ultimately show ?thesis
      using distinct_some_inj[of "\<lambda>r. map_option (Pair (po_provider r)) (po_provider_operation r)" "payment_operations db" p q
          "(pi_provider i, ref p)"] that(1,2) rows(3) by simp
  qed
  then have "inj_on ref (set (filter (\<lambda>p. ref p \<noteq> []) rows))" by (auto simp: inj_on_def)
  moreover have "map no_ProviderOperationID (filter (\<lambda>p. no_ProviderOperationID p \<noteq> []) ps) = map ref (filter (\<lambda>p. ref p \<noteq> []) rows)"
    by (simp add: rows(1) filter_map comp_def observed_operation_def ref_def)
  ultimately show ?thesis using rows(2) by (simp add: distinct_map)
qed

lemma snapshot_Inr:
  assumes "LoadControlSnapshot env created k db later = Inr s"
  obtains i where "i \<in> set (payment_intents (rb_pay db))" "pi_id i = k" "ct_Intent s = observed_intent (rb_pay db) i"
    "ct_Saga s = observed_saga created (rb_pay db) i"
    "ct_Operations s = map observed_operation (sort_key (\<lambda>p. (po_created p, po_id p)) (filter (\<lambda>p. po_intent p = k) (payment_operations later)))"
    "ct_DuplicateProviderEventIDs s = duplicate_events i (payment_webhook_inbox (rb_pay db))"
proof -
  obtain i rest where i: "filter (\<lambda>i. pi_id i = k) (payment_intents (rb_pay db)) = i # rest"
    using assms unfolding LoadControlSnapshot_def Let_def
    by (cases "filter (\<lambda>i. pi_id i = k) (payment_intents (rb_pay db))") (auto split: if_splits)
  then have "i \<in> set (filter (\<lambda>i. pi_id i = k) (payment_intents (rb_pay db)))" by simp
  then have mem: "i \<in> set (payment_intents (rb_pay db))" "pi_id i = k" by simp_all
  define rows where "rows = sort_key (\<lambda>p. (po_created p, po_id p)) (filter (\<lambda>p. po_intent p = k) (payment_operations later))"
  have "ct_Intent s = observed_intent (rb_pay db) i \<and> ct_Saga s = observed_saga created (rb_pay db) i \<and>
      ct_Operations s = map observed_operation (take 1001 rows) \<and> length (take 1001 rows) \<le> 1000 \<and>
      ct_DuplicateProviderEventIDs s = duplicate_events i (payment_webhook_inbox (rb_pay db))"
    using assms unfolding LoadControlSnapshot_def Let_def i list.case rows_def [symmetric] by (auto split: if_splits)
  then show ?thesis using that[of i] mem unfolding rows_def by auto
qed

definition open_codes :: "string set" where
  "open_codes = {''payment_saga_missing'', ''manual_review_not_visible'', ''provider_event_payload_conflict'',
     ''completed_saga_without_full_capture'', ''uncertain_operation_without_reconciliation''}"

lemma open_listed:
  "''payment_saga_missing'' \<in> open_codes" "''manual_review_not_visible'' \<in> open_codes" "''provider_event_payload_conflict'' \<in> open_codes"
  "''completed_saga_without_full_capture'' \<in> open_codes" "''uncertain_operation_without_reconciliation'' \<in> open_codes"
  by (simp_all only: open_codes_def insert_iff refl simp_thms)

lemma codes_within:
  "codes_of [] \<subseteq> S" "(b \<Longrightarrow> c \<in> S) \<Longrightarrow> codes_of cs \<subseteq> S \<Longrightarrow> codes_of ((b, c) # cs) \<subseteq> S"
  "codes_of xs \<subseteq> S \<Longrightarrow> codes_of ys \<subseteq> S \<Longrightarrow> codes_of (xs @ ys) \<subseteq> S"
  "(q \<Longrightarrow> codes_of xs \<subseteq> S) \<Longrightarrow> (\<not> q \<Longrightarrow> codes_of ys \<subseteq> S) \<Longrightarrow> codes_of (if q then xs else ys) \<subseteq> S"
  by simp_all

lemma checkControl_within:
  assumes "\<not> 1 < in_ActiveForReservation (ct_Intent s)" "\<not> 1 < ns_ActiveCount (ct_Saga s)" "\<not> 0 < ct_DuplicateProviderEventIDs s"
    "codes_of (duplicate_identities {} (ct_Operations s)) \<subseteq> open_codes"
    "\<not> 1 < count_kind (ct_Operations s) OperationCapture" "\<not> 1 < count_kind (ct_Operations s) OperationRefund"
    "\<not> (0 < count_succeeded (ct_Operations s) OperationCapture \<and>
        succeededAmount (ct_Operations s) OperationCapture \<noteq> in_AmountMinor (ct_Intent s))"
    "\<not> succeededAmount (ct_Operations s) OperationCapture < succeededAmount (ct_Operations s) OperationRefund"
  shows "codes_of (checkControl scope s) \<subseteq> open_codes"
  unfolding checkControl_def Let_def
  by (intro codes_within assms(4) open_listed; drule notE [OF assms(1)] notE [OF assms(2)] notE [OF assms(3)] notE [OF assms(5)]
      notE [OF assms(6)] notE [OF assms(7)] notE [OF assms(8)]; assumption)

lemma sound_snapshot_codes:
  assumes ok: "payments_ok (rb_pay db)" "payments_ok later" "later_than (rb_pay db) later"
    and snapshot: "LoadControlSnapshot env created k db later = Inr s"
    and money: "\<forall>i \<in> set (payment_intents (rb_pay db)). in_int64 (pi_amount i)"
  shows "codes_of (checkControl scope s) \<subseteq> open_codes"
proof -
  obtain i where i: "i \<in> set (payment_intents (rb_pay db))" "pi_id i = k" "ct_Intent s = observed_intent (rb_pay db) i"
    "ct_Saga s = observed_saga created (rb_pay db) i"
    "ct_Operations s = map observed_operation (sort_key (\<lambda>p. (po_created p, po_id p)) (filter (\<lambda>p. po_intent p = k) (payment_operations later)))"
    "ct_DuplicateProviderEventIDs s = duplicate_events i (payment_webhook_inbox (rb_pay db))"
    by (rule snapshot_Inr[OF snapshot])
  obtain j where j: "j \<in> set (payment_intents later)" "pi_id j = k" "pi_amount j = pi_amount i"
    using ok(3) i(1,2) by (auto simp: later_than_def later_rows_def intent_later_def)
  have "distinct (payment_operations later)"
    using ok(2) by (simp add: payments_ok_def rows_ok_def operations_unique_def distinct_map)
  then have own: "own_operations later j (ct_Operations s)"
    unfolding own_operations_def i(5) j(2) 
    by (intro exI [of _ "sort_key (\<lambda>p. (po_created p, po_id p)) (filter (\<lambda>p. po_intent p = k) (payment_operations later))"]) simp
  have range: "in_int64 (pi_amount j)" using money i(1) j(3) by simp
  note amounts = succeeded_amount[OF ok(2) j(1) own _ range]
  have kinds: "\<not> 1 < count_kind (ct_Operations s) OperationCapture" "\<not> 1 < count_kind (ct_Operations s) OperationRefund"
    using kind_le_1[OF ok(2) own, of OperationCapture] kind_le_1[OF ok(2) own, of OperationRefund] by simp_all
  have captured: "\<not> (0 < count_succeeded (ct_Operations s) OperationCapture \<and>
      succeededAmount (ct_Operations s) OperationCapture \<noteq> in_AmountMinor (ct_Intent s))"
    using amounts[of OperationCapture] j(3) i(3) by (simp add: observed_intent_def)
  have nonneg: "0 \<le> pi_amount j"
    using ok(2) j(1) by (auto simp: payments_ok_def rows_ok_def intent_check_def list_all_iff)
  have refunded: "\<not> succeededAmount (ct_Operations s) OperationCapture < succeededAmount (ct_Operations s) OperationRefund"
    using amounts[of OperationCapture] amounts[of OperationRefund] refund_needs_capture[OF ok(2) own] nonneg by auto
  have identities: "\<forall>c \<in> set (duplicate_identities {} (ct_Operations s)). \<not> fst c"
    by (rule duplicate_identities_none[OF own_identities_distinct[OF ok(2) j(1) own]]) simp
  have active: "\<not> 1 < in_ActiveForReservation (ct_Intent s)" "\<not> 1 < ns_ActiveCount (ct_Saga s)" "\<not> 0 < ct_DuplicateProviderEventIDs s"
    using observed_intent_active[OF ok(1)] observed_saga_active[OF ok(1)] duplicate_events_none[OF ok(1)] i by (simp_all add: not_less)
  have same: "codes_of (duplicate_identities {} (ct_Operations s)) \<subseteq> open_codes"
    using identities by (auto simp: codes_of_def)
  show ?thesis by (rule checkControl_within [OF active same kinds captured refunded])
qed


lemma snapshot_cases:
  assumes "LoadControlSnapshot env created k db later = Inr s"
  shows "ct_ActiveReconciliationCases s = count_rows (\<lambda>c. cp_intent c = Some k \<and> checkpoint_active (cp_state c)) (rb_checkpoints db)"
proof -
  obtain i rest where i: "filter (\<lambda>i. pi_id i = k) (payment_intents (rb_pay db)) = i # rest"
    using assms unfolding LoadControlSnapshot_def Let_def
    by (cases "filter (\<lambda>i. pi_id i = k) (payment_intents (rb_pay db))") (auto split: if_splits)
  then have "i \<in> set (filter (\<lambda>i. pi_id i = k) (payment_intents (rb_pay db)))" by simp
  then have "pi_id i = k" by simp
  then show ?thesis using assms unfolding LoadControlSnapshot_def Let_def i list.case by (auto split: if_splits)
qed

end
