(* ===== verification/Payment_Checkpoints.thy ===== *)
theory Payment_Checkpoints
  imports Payment_Recon_Snapshot "HOL-Library.Code_Target_Numeral"
begin

text \<open>
  The life of a checkpoint: a run opens one, nothing but its own end closes it, and its end is accepted when the counts of
  the run fit. While it is open no second one opens for the same scope and intent.
\<close>

lemma distinct_row: "distinct (map f xs) \<Longrightarrow> x \<in> set xs \<Longrightarrow> y \<in> set xs \<Longrightarrow> f x = f y \<Longrightarrow> x = y"
  by (auto simp: distinct_map dest: inj_onD)

lemma active_states: "checkpoint_active s \<longleftrightarrow> \<not> checkpoint_ended s"
  by (cases s) (simp_all add: checkpoint_active_def checkpoint_ended_def)

lemma insert_checkpoint_Inr:
  "insert_checkpoint env label err r db = Inr (u, db') \<longleftrightarrow>
     \<not> py_fault env label \<and> checkpoint_check r \<and> checkpoint_insert_guard r \<and> checkpoints_unique (rb_checkpoints db @ [r]) \<and>
     nullable (\<lambda>k. list_ex (\<lambda>i. pi_id i = k) (payment_intents (rb_pay db))) (cp_intent r) \<and>
     db' = db\<lparr>rb_checkpoints := rb_checkpoints db @ [r]\<rparr>"
  by (auto simp: insert_checkpoint_def)

lemma update_checkpoints_Inr:
  "update_checkpoints env label err wh upd db = Inr (n, db') \<longleftrightarrow>
     \<not> py_fault env label \<and>
     list_all (\<lambda>r. wh r \<longrightarrow> checkpoint_update_guard r (upd r) \<and> checkpoint_check (upd r)) (rb_checkpoints db) \<and>
     checkpoints_unique (map (\<lambda>r. if wh r then upd r else r) (rb_checkpoints db)) \<and> n = length (filter wh (rb_checkpoints db)) \<and>
     db' = db\<lparr>rb_checkpoints := map (\<lambda>r. if wh r then upd r else r) (rb_checkpoints db)\<rparr>"
  by (auto simp: update_checkpoints_def Let_def)

lemma begin_commit_k [simp]:
  "begin_k env err db = Inr r \<longleftrightarrow> \<not> py_fault env ''begin'' \<and> r = ((), db)"
  "commit_k env err db = Inr r \<longleftrightarrow> \<not> py_fault env ''commit'' \<and> r = ((), db)"
  by (simp_all add: begin_k_def commit_k_def)

definition running_checkpoint :: "PayEnv \<Rightarrow> uuid \<Rightarrow> gotime \<Rightarrow> CheckpointRow \<Rightarrow> CheckpointRow" where
  "running_checkpoint env fresh now r = r\<lparr>cp_state := CheckpointRunning, cp_attempts := 1,
     cp_lease := Some (''reconciler:'' @ pid_String (py_ids env) fresh, pg_timestamptz (now + 5 * 60 * 1000000000)),
     cp_started := Some (pg_timestamptz now)\<rparr>"

lemma start_Inr:
  assumes "StartCheckpoint env fresh scope k repair now db = (Inr cp, db')"
  shows "cp = \<lparr>ck_ID = fresh, ck_Scope = scope, ck_PaymentIntentID = k, ck_Repair = repair, ck_StartedAt = now\<rparr>"
    "checkpoints_unique (rb_checkpoints db @ [new_checkpoint fresh scope k repair now])"
    "db' = db\<lparr>rb_checkpoints := rb_checkpoints db @ [running_checkpoint env fresh now (new_checkpoint fresh scope k repair now)]\<rparr>"
proof -
  let ?new = "new_checkpoint fresh scope k repair now"
  let ?wh = "\<lambda>r. cp_id r = fresh \<and> cp_state r = CheckpointPending"
  have run: "cp = \<lparr>ck_ID = fresh, ck_Scope = scope, ck_PaymentIntentID = k, ck_Repair = repair, ck_StartedAt = now\<rparr> \<and>
      checkpoints_unique (rb_checkpoints db @ [?new]) \<and>
      db' = db\<lparr>rb_checkpoints := map (\<lambda>r. if ?wh r then running_checkpoint env fresh now r else r) (rb_checkpoints db @ [?new])\<rparr>"
    using assms unfolding StartCheckpoint_def run_tx_Inr running_checkpoint_def [symmetric]
    by (simp only: tx_bind_eq_Inr insert_checkpoint_Inr update_checkpoints_Inr tx_reject_eq_Inr begin_commit_k tx_return_eq_Inr) clarsimp
  then show "cp = \<lparr>ck_ID = fresh, ck_Scope = scope, ck_PaymentIntentID = k, ck_Repair = repair, ck_StartedAt = now\<rparr>"
    and unique: "checkpoints_unique (rb_checkpoints db @ [?new])" by blast+
  have "map (\<lambda>r. if ?wh r then running_checkpoint env fresh now r else r) (rb_checkpoints db) = rb_checkpoints db"
    using unique by (intro map_idI) (auto simp: checkpoints_unique_def new_checkpoint_def)
  then show "db' = db\<lparr>rb_checkpoints := rb_checkpoints db @ [running_checkpoint env fresh now ?new]\<rparr>"
    using run by (simp add: new_checkpoint_def)
qed

lemma start_Inl: "StartCheckpoint env fresh scope k repair now db = (Inl e, db') \<Longrightarrow> db' = db"
  unfolding StartCheckpoint_def by (simp only: run_tx_Inl)

lemma start_refused:
  assumes "c \<in> set (rb_checkpoints db)" "checkpoint_active (cp_state c)" "cp_intent c = (if k = uuid_Nil then None else Some k)"
  shows "\<exists>e. StartCheckpoint env fresh (cp_scope c) k repair now db = (Inl e, db)"
proof -
  have "\<not> checkpoints_unique (rb_checkpoints db @ [new_checkpoint fresh (cp_scope c) k repair now])"
  proof -
    have "(cp_scope c, cp_intent c) \<in> (\<lambda>r. (cp_scope r, cp_intent r)) ` {r \<in> set (rb_checkpoints db). checkpoint_active (cp_state r)}"
      using assms(1,2) by (intro imageI) simp
    then show ?thesis unfolding assms(3) by (simp add: checkpoints_unique_def new_checkpoint_def checkpoint_active_def)
  qed
  then have "StartCheckpoint env fresh (cp_scope c) k repair now db \<noteq> (Inr x, db')" for x db'
    using start_Inr(2) by blast
  then show ?thesis unfolding StartCheckpoint_def run_tx_Inr by (rule run_tx_never)
qed


text \<open>Only the end of a checkpoint changes a row that is there.\<close>

lemma recon_step_row:
  assumes "recon_step db db'" "c \<in> set (rb_checkpoints db)"
  shows "c \<in> set (rb_checkpoints db') \<or> (\<exists>env checkpoint result. ck_ID checkpoint = cp_id c \<and> db' = snd (FinishCheckpoint env checkpoint result db))"
  using assms
proof (induction rule: recon_step.induct)
  case (start db env fresh scope intentID repair now)
  show ?case
  proof (cases "StartCheckpoint env fresh scope intentID repair now db")
    case (Pair r db')
    then show ?thesis
      using start start_Inr(3)[of env fresh scope intentID repair now db] start_Inl[of env fresh scope intentID repair now db]
      by (cases r) auto
  qed
next
  case (finish db env checkpoint result)
  show ?case
  proof (cases "ck_ID checkpoint = cp_id c")
    case False
    then have "c \<in> set (rb_checkpoints (snd (FinishCheckpoint env checkpoint result db)))"
      using finish unfolding FinishCheckpoint_def
      by (intro run_tx_keeps [where P = "\<lambda>db. c \<in> set (rb_checkpoints db)"] tx_keeps_bind) (auto simp: tx_keeps_def update_checkpoints_Inr)
    then show ?thesis ..
  qed blast
next
  case (repair db db')
  then show ?case using rows_kept.keeps_repair_step by blast
qed simp

subsection \<open>The end of a run\<close>

definition result_fits :: "CheckpointRow \<Rightarrow> CheckpointResult \<Rightarrow> bool" where
  "result_fits c result \<longleftrightarrow>
     0 \<le> kr_RepairCount result \<and> kr_RepairCount result \<le> kr_MismatchCount result \<and> kr_MismatchCount result \<le> kr_RowsExamined result \<and>
     (cp_safe_repair c \<or> kr_RepairCount result = 0) \<and> \<not> IsZero_time (kr_CompletedAt result) \<and>
     (\<exists>t. cp_started c = Some t \<and> t \<le> pg_timestamptz (kr_CompletedAt result)) \<and>
     (kr_Failed result \<longrightarrow> kr_ErrorCategory result = ''reconciliation_failed'')"

definition finished_checkpoint :: "CheckpointResult \<Rightarrow> CheckpointRow \<Rightarrow> CheckpointRow" where
  "finished_checkpoint result r =
     r\<lparr>cp_state := checkpoint_result_state result, cp_rows := kr_RowsExamined result, cp_mismatches := kr_MismatchCount result,
       cp_repairs := kr_RepairCount result, cp_truncated := kr_Truncated result,
       cp_error := (if kr_Failed result then Some (store_boundedCategory (kr_ErrorCategory result)) else None),
       cp_lease := None, cp_completed := Some (pg_timestamptz (kr_CompletedAt result))\<rparr>"

lemma result_state_ended: "checkpoint_ended (checkpoint_result_state result)" "checkpoint_result_state result = CheckpointFailed \<longleftrightarrow> kr_Failed result"
  by (simp_all add: checkpoint_result_state_def checkpoint_ended_def)

lemma failed_category: "categoryPattern (store_boundedCategory ''reconciliation_failed'')"
  by code_simp

lemma finished_accepted:
  assumes "checkpoint_check c" "cp_state c = CheckpointRunning" "result_fits c result"
  shows "checkpoint_update_guard c (finished_checkpoint result c)" "checkpoint_check (finished_checkpoint result c)"
proof -
  show "checkpoint_update_guard c (finished_checkpoint result c)"
    using assms(2) result_state_ended by (auto simp: checkpoint_update_guard_def finished_checkpoint_def checkpoint_ended_def)
  have "checkpoint_result_state result \<noteq> CheckpointRunning" "checkpoint_result_state result \<noteq> CheckpointPending"
    by (simp_all add: checkpoint_result_state_def)
  then show "checkpoint_check (finished_checkpoint result c)"
    using assms result_state_ended[of result] failed_category
    by (auto simp: checkpoint_check_def finished_checkpoint_def result_fits_def)
qed

lemma filter_closed:
  "(\<And>r. \<not> live (upd r)) \<Longrightarrow> filter live (map (\<lambda>r. if wh r then upd r else r) rows) = filter (\<lambda>r. \<not> wh r) (filter live rows)"
  by (induction rows) auto

lemma finish_accepted:
  assumes rows: "checkpoints_ok (rb_checkpoints db)" "c \<in> set (rb_checkpoints db)" "cp_state c = CheckpointRunning"
    and run: "ck_ID checkpoint = cp_id c" "cp_id c \<noteq> uuid_Nil" "result_fits c result"
    and quiet: "\<And>label. \<not> py_fault env label"
  shows "\<exists>db'. FinishCheckpoint env checkpoint result db = (Inr (), db') \<and> rb_pay db' = rb_pay db \<and>
    finished_checkpoint result c \<in> set (rb_checkpoints db')"
proof -
  let ?wh = "\<lambda>r. cp_id r = ck_ID checkpoint \<and> cp_state r = CheckpointRunning"
  let ?rows = "map (\<lambda>r. if ?wh r then finished_checkpoint result r else r) (rb_checkpoints db)"
  have ids: "distinct (map cp_id (rb_checkpoints db))" using rows(1) by (simp add: checkpoints_ok_def checkpoints_unique_def)
  have only: "?wh r \<longleftrightarrow> r = c" if "r \<in> set (rb_checkpoints db)" for r
    using distinct_row[OF ids that rows(2)] rows(3) run(1) by auto
  have guards: "list_all (\<lambda>r. ?wh r \<longrightarrow> checkpoint_update_guard r (finished_checkpoint result r) \<and> checkpoint_check (finished_checkpoint result r))
      (rb_checkpoints db)"
    using only finished_accepted[of c result] rows run(3) by (auto simp: list_all_iff checkpoints_ok_def)
  have "map cp_id ?rows = map cp_id (rb_checkpoints db)" by (simp add: finished_checkpoint_def)
  moreover have "filter (\<lambda>r. checkpoint_active (cp_state r)) ?rows =
      filter (\<lambda>r. \<not> ?wh r) (filter (\<lambda>r. checkpoint_active (cp_state r)) (rb_checkpoints db))"
    by (rule filter_closed) (simp add: finished_checkpoint_def active_states result_state_ended)
  ultimately have unique: "checkpoints_unique ?rows"
    using rows(1) unfolding checkpoints_ok_def checkpoints_unique_def by (simp only: distinct_map_filter simp_thms)
  have "length (filter ?wh (rb_checkpoints db)) = 1"
  proof -
    have "filter ?wh (rb_checkpoints db) = filter (\<lambda>r. r = c) (rb_checkpoints db)" using only by (intro filter_cong) auto
    moreover have "distinct (rb_checkpoints db)" using ids by (simp add: distinct_map)
    ultimately show ?thesis using rows(2) by (simp add: distinct_length_filter Collect_conv_if)
  qed
  then have "FinishCheckpoint env checkpoint result db = (Inr (), db\<lparr>rb_checkpoints := ?rows\<rparr>)"
    unfolding FinishCheckpoint_def run_tx_Inr finished_checkpoint_def [symmetric]
    using guards unique quiet run by (simp add: update_checkpoints_Inr result_fits_def)
  moreover have "finished_checkpoint result c \<in> set ?rows" using rows(2) only by force
  ultimately show ?thesis by auto
qed


subsection \<open>Escalation\<close>

lemma finding_codes_fit: "code \<in> set finding_codes \<Longrightarrow> store_boundedCategory code = code \<and> categoryPattern code"
proof -
  have "list_all (\<lambda>code. store_boundedCategory code = code \<and> categoryPattern code) finding_codes" by code_simp
  then show "code \<in> set finding_codes \<Longrightarrow> store_boundedCategory code = code \<and> categoryPattern code" by (simp add: list_all_iff)
qed

definition open_case :: "uuid \<Rightarrow> string \<Rightarrow> ReconDb \<Rightarrow> bool" where
  "open_case k code db \<longleftrightarrow> list_ex (\<lambda>v. rv_intent v = k \<and> rv_reason v = code \<and> rv_open v) (payment_manual_review_cases (rb_pay db))"

lemma escalate_accepted:
  assumes code: "code \<in> set finding_codes"
    and refs: "reconciliationID \<in> set (map cp_id (rb_checkpoints db))" "reconciliationID \<noteq> uuid_Nil"
      "k \<in> set (map pi_id (payment_intents (rb_pay db)))" "k \<noteq> uuid_Nil"
      "fresh \<notin> set (map rv_id (payment_manual_review_cases (rb_pay db)))"
    and due: "\<not> IsZero_time due" "py_clock env ''insert case'' \<le> pg_timestamptz due" and quiet: "\<And>label. \<not> py_fault env label"
  shows "\<exists>db'. EscalateManualReview env fresh reconciliationID k code due db = (Inr (\<not> open_case k code db), db') \<and> open_case k code db'"
proof -
  have fit: "store_boundedCategory code = code" "categoryPattern code" using finding_codes_fit[OF code] by simp_all
  have "list_ex (\<lambda>i. pi_id i = k) (payment_intents (rb_pay db))" using refs(3) by (auto simp: list_ex_iff)
  then show ?thesis
    unfolding EscalateManualReview_def run_tx_Inr open_case_def
    using fit refs(1,2,4,5) due quiet by (auto simp: Let_def not_less)
qed


subsection \<open>The check on uncertain operations\<close>

lemma other_codes:
  "list_all (\<lambda>code. code = ''uncertain_operation_without_reconciliation'' \<or> code \<in> - {''uncertain_operation_without_reconciliation''})
     finding_codes"
  by (simp add: list_all_iff)

lemma active_masks:
  assumes "LoadControlSnapshot env created k db later = Inr s" "c \<in> set (rb_checkpoints db)" "cp_intent c = Some k"
    "checkpoint_active (cp_state c)"
  shows "''uncertain_operation_without_reconciliation'' \<notin> codes_of (checkControl scope s)"
proof -
  have "0 < length (filter (\<lambda>c. cp_intent c = Some k \<and> checkpoint_active (cp_state c)) (rb_checkpoints db))"
    using assms(2-4) by (auto simp: filter_empty_conv)
  then have "count_rows (\<lambda>c. cp_intent c = Some k \<and> checkpoint_active (cp_state c)) (rb_checkpoints db) \<noteq> 0"
    by (simp add: count_rows_def boundedCount_def MaxInt64_def)
  then have "ct_ActiveReconciliationCases s \<noteq> 0" using snapshot_cases[OF assms(1)] by simp
  then show ?thesis
    using duplicate_identities_codes[of "{}" "ct_Operations s"] unfolding checkControl_def Let_def codes_of_def by auto
qed

end
