(* ===== verification/Payment_Recon_Properties.thy ===== *)
theory Payment_Recon_Properties
  imports Payment_Checkpoints Payment_Example
begin

text \<open>
  The properties of payment reconciliation, each with a witness on the example payment: what a report says, what a repair
  may do, what both keep, and where the code falls short of its purpose.
\<close>

subsection \<open>The example under reconciliation\<close>

definition ex_checkpoint :: CheckpointRow where
  "ex_checkpoint =
     \<lparr>cp_id = 60, cp_scope = ScopeAll, cp_intent = Some 1, cp_safe_repair = False, cp_state = CheckpointRunning, cp_rows = 0,
      cp_mismatches = 0, cp_repairs = 0, cp_truncated = False, cp_attempts = 1, cp_next = 4000,
      cp_lease = Some (''reconciler:60'', 300000004000), cp_error = None, cp_started = Some 4000, cp_completed = None\<rparr>"

definition reconciling_db :: ReconDb where
  "reconciling_db = \<lparr>rb_pay = captured_db, rb_checkpoints = [ex_checkpoint]\<rparr>"

lemma reconciling_ok: "checkpoints_ok (rb_checkpoints reconciling_db)"
  by code_simp

definition uncertain_db :: PaymentDb where
  "uncertain_db = ex_tables (ex_intent IntentCapturePending (Some ''pay_1'')) (ex_saga SagaCapturing StepReconcileProvider)
     [ex_checkout, (ex_operation 41 OperationCapture OperationUncertain None)\<lparr>po_error := Some ''timeout_unknown''\<rparr>]"

definition ex_run :: Checkpoint where
  "ex_run = \<lparr>ck_ID = 60, ck_Scope = ScopeAll, ck_PaymentIntentID = 1, ck_Repair = False, ck_StartedAt = 4000\<rparr>"

definition ex_control :: ControlSnapshot where
  "ex_control = projr (LoadControlSnapshot (pay_env_at 9000) (\<lambda>_. 0) 1 reconciling_db captured_db)"

text \<open>A reconciler whose store always answers with the example and with a shard that knows nothing of it.\<close>

definition ex_reconciler :: "unit Reconciler" where
  "ex_reconciler =
     \<lparr>rn_store = \<lparr>st_CandidateIntentIDs = (\<lambda>_ _ _ w. (Inr ([1], False), w)), st_LoadControlSnapshot = (\<lambda>_ w. (Inr ex_control, w)),
        st_LoadShardSnapshot = (\<lambda>_ w. (Inr zero_shard_snapshot, w)), st_StartCheckpoint = (\<lambda>_ _ _ _ w. (Inr ex_run, w)),
        st_FinishCheckpoint = (\<lambda>_ _ w. (Inr (), w)), st_EscalateManualReview = (\<lambda>_ _ _ _ w. (Inr True, w))\<rparr>,
      rn_providers = None, rn_repairer = None, rn_BatchSize = 10, rn_StaleAfter = 1000, rn_ReviewDue = 1000000,
      rn_Now = (\<lambda>w. (9000, w)), rn_ctxErr = (\<lambda>_. None)\<rparr>"




subsection \<open>Reports\<close>

text \<open>
  C28. A report names exactly what its checks have found: the codes of its findings are those of the checks that hold,
  each once and in order, and the limit on findings never cuts a report short.
\<close>

theorem findings_exact:
  "let report = fst (report_of r k scope control shard w); codes = report_codes report in
   set codes = codes_of (all_checks r scope control shard w) \<and> distinct codes \<and> sorted codes \<and> \<not> rt_Truncated report"
  unfolding Let_def by (intro conjI report_of_codes)

text \<open>
  C27. Sound tables raise no alarm about duplicates or money: with the ledger intact, and whatever is committed between the
  two statements of a snapshot, the checks of the control plane find neither a second active intent or saga, nor a
  repeated event or provider operation, nor a second capture or refund, nor a captured or refunded amount that is off.
\<close>

theorem sound_ledger_raises_no_alarm:
  assumes "payments_ok (rb_pay db)" "recon_step\<^sup>*\<^sup>* db db'" "LoadControlSnapshot env created k db (rb_pay db') = Inr s"
    and "\<forall>i \<in> set (payment_intents (rb_pay db)). in_int64 (pi_amount i)"
  shows "codes_of (checkControl scope s) \<subseteq> open_codes"
proof -
  have "payments_ok (rb_pay db')" "later_than (rb_pay db) (rb_pay db')"
    using ledger.recon.keeps_recon_steps[OF assms(2,1)] history.recon.keeps_recon_steps[OF assms(2) later_than_refl] by simp_all
  then show ?thesis using sound_snapshot_codes assms by blast
qed

theorem sound_ledger_raises_no_alarm_witness:
  "let s = LoadControlSnapshot (pay_env_at 9000) (\<lambda>_. 0) 1 reconciling_db captured_db in
   \<not> isl s \<and> length (ct_Operations (projr s)) = 2 \<and> codes_of (checkControl ScopeAll (projr s)) \<subseteq> open_codes"
proof -
  let ?s = "LoadControlSnapshot (pay_env_at 9000) (\<lambda>_. 0) 1 reconciling_db captured_db"
  have s: "\<not> isl ?s" "length (ct_Operations (projr ?s)) = 2" by code_simp+
  have "\<forall>i \<in> set (payment_intents (rb_pay reconciling_db)). in_int64 (pi_amount i)" by code_simp
  moreover have "?s = Inr (projr ?s)" using s(1) by simp
  ultimately show ?thesis
    using sound_ledger_raises_no_alarm[of reconciling_db reconciling_db "pay_env_at 9000" "\<lambda>_. 0" 1 "projr ?s" ScopeAll] examples_ok(4) s
    by (simp add: reconciling_db_def Let_def)
qed

text \<open>
  C33. A finding can always be brought to a person: every code of the reconciler is a reason that the table of review cases
  accepts, so for an intent and a checkpoint that exist the escalation of a finding succeeds, leaves an open case for it,
  and says that it has created one exactly when there was none.
\<close>

theorem findings_can_be_escalated:
  assumes "f \<in> set (rt_Findings (fst (report_of r k scope control shard w)))"
    and "reconciliationID \<in> set (map cp_id (rb_checkpoints db))" "reconciliationID \<noteq> uuid_Nil"
      "k \<in> set (map pi_id (payment_intents (rb_pay db)))" "k \<noteq> uuid_Nil"
      "fresh \<notin> set (map rv_id (payment_manual_review_cases (rb_pay db)))"
    and "\<not> IsZero_time due" "py_clock env ''insert case'' \<le> pg_timestamptz due" "\<And>label. \<not> py_fault env label"
  shows "\<exists>db'. EscalateManualReview env fresh reconciliationID k (fd_Code f) due db = (Inr (\<not> open_case k (fd_Code f) db), db') \<and>
    open_case k (fd_Code f) db'"
proof -
  have "fd_Code f \<in> set (report_codes (fst (report_of r k scope control shard w)))"
    using assms(1) by (simp add: report_codes_def)
  then have "fd_Code f \<in> codes_of (all_checks r scope control shard w)" by (simp only: report_of_codes(1))
  then have "fd_Code f \<in> set finding_codes"
    using all_checks_codes[of r scope control shard w] unfolding codes_of_def by force
  then show ?thesis using escalate_accepted assms by blast
qed


theorem findings_can_be_escalated_witness:
  "let report = fst (report_of ex_reconciler 1 ScopeAll ex_control zero_shard_snapshot ()); f = hd (rt_Findings report) in
   rt_Findings report \<noteq> [] \<and> (\<exists>db'. EscalateManualReview (pay_env_at 9000) 70 60 1 (fd_Code f) 20000 reconciling_db = (Inr True, db') \<and>
     open_case 1 (fd_Code f) db')"
proof -
  let ?fs = "rt_Findings (fst (report_of ex_reconciler 1 ScopeAll ex_control zero_shard_snapshot ()))"
  have "?fs \<noteq> []" by code_simp
  then have "hd ?fs \<in> set ?fs" by simp
  from findings_can_be_escalated[OF this, of 60 reconciling_db 70 20000 "pay_env_at 9000"]
  have "\<exists>db'. EscalateManualReview (pay_env_at 9000) 70 60 1 (fd_Code (hd ?fs)) 20000 reconciling_db =
      (Inr (\<not> open_case 1 (fd_Code (hd ?fs)) reconciling_db), db') \<and> open_case 1 (fd_Code (hd ?fs)) db'"
    by (simp add: reconciling_db_def ex_checkpoint_def example_tables ex_intent_def pg_timestamptz_def pay_env_at_def)
  moreover have "\<not> open_case 1 (fd_Code (hd ?fs)) reconciling_db" by (simp add: open_case_def reconciling_db_def example_tables)
  ultimately show ?thesis using \<open>?fs \<noteq> []\<close> by (simp add: Let_def)
qed

subsection \<open>Repairs\<close>

text \<open>
  C29. A repair replays nothing but what the shard has recorded: how the findings of a report are handled depends on the
  repairer only through the valid commands among those that the snapshot of the shard carries.
\<close>

theorem repair_only_recorded:
  assumes "\<And>c w. c \<in> set (ss_RecordedCommands shard) \<Longrightarrow> validateRecordedCommand c \<Longrightarrow> replay k c w = replay' k c w"
  shows "handle_findings (r\<lparr>rn_repairer := Some replay\<rparr>) cp k now repair (rt_Findings (fst (report_of r k scope control shard w))) h w1 =
    handle_findings (r\<lparr>rn_repairer := Some replay'\<rparr>) cp k now repair (rt_Findings (fst (report_of r k scope control shard w))) h w1"
  by (rule handle_findings_recorded) (metis assms report_of_findings(1) matching_Some)

theorem repair_only_recorded_witness:
  "let command = \<lparr>rc_ID = 5, rc_Kind = ''issue_tickets'', rc_Fingerprint = replicate 32 3\<rparr>;
       shard = zero_shard_snapshot\<lparr>ss_RecordedCommands := [command]\<rparr>;
       findings = rt_Findings (fst (report_of ex_reconciler 1 ScopeAll ex_control shard ()));
       replay = (\<lambda>error _ c w. if c = command then (Inr (), w) else (Inl (RecFailed error), w)) in
   validateRecordedCommand command \<and>
   handle_findings (ex_reconciler\<lparr>rn_repairer := Some (replay ''a'')\<rparr>) ex_run 1 9000 True findings no_handling () =
   handle_findings (ex_reconciler\<lparr>rn_repairer := Some (replay ''b'')\<rparr>) ex_run 1 9000 True findings no_handling ()"
proof -
  have "validateRecordedCommand \<lparr>rc_ID = 5, rc_Kind = ''issue_tickets'', rc_Fingerprint = replicate 32 3\<rparr>" by code_simp
  then show ?thesis unfolding Let_def by (intro conjI repair_only_recorded) simp_all
qed

text \<open>
  C9. The command that a repair sends is the one that the worker sends: for an action that a worker has claimed, the
  evidence that the repairer loads from the same tables gives the same command, identifiers, proof, times and fingerprint
  included, so the shard takes either of them for the other.
\<close>

theorem repair_sends_worker_command:
  assumes "payments_ok db" "ClaimActions env options db = (Inr claims, db')" "c \<in> set claims"
    and "loadRepairEvidence env' (action_intent c) (action_kind (ac_Type c)) db = Inr e"
  shows "same_command (py_ids env) e c"
  using claim_actions_rows[OF assms(2,3)] built_same_command[OF assms(1) _ _ _ _ _ _ _ assms(4)] by blast

theorem repair_sends_worker_command_witness:
  "let claims = projr (fst (ClaimActions (pay_env_at 9000) (ex_options ''w1'' 9000) captured_db));
       e = loadRepairEvidence (pay_env_at 9500) 1 ''issue_tickets'' captured_db in
   map ac_Type claims = [ActionIssueTickets] \<and> \<not> isl e \<and> same_command ex_pay_ids (projr e) (hd claims)"
proof -
  let ?run = "ClaimActions (pay_env_at 9000) (ex_options ''w1'' 9000) captured_db"
  let ?e = "loadRepairEvidence (pay_env_at 9500) 1 ''issue_tickets'' captured_db"
  have run: "\<not> isl (fst ?run)" "map ac_Type (projr (fst ?run)) = [ActionIssueTickets]" "action_intent (hd (projr (fst ?run))) = 1"
    and e: "\<not> isl ?e" by code_simp+
  have first: "hd (projr (fst ?run)) \<in> set (projr (fst ?run))" "ac_Type (hd (projr (fst ?run))) = ActionIssueTickets"
    using run(2) by (cases "projr (fst ?run)"; simp)+
  have "loadRepairEvidence (pay_env_at 9500) (action_intent (hd (projr (fst ?run)))) (action_kind (ac_Type (hd (projr (fst ?run))))) captured_db =
      Inr (projr ?e)"
    unfolding run(3) first(2) action_kind.simps using e by simp
  from repair_sends_worker_command[OF examples_ok(4) returned[OF run(1)] first(1) this]
  show ?thesis using run e by (simp add: Let_def pay_env_at_def)
qed



text \<open>
  C8. Reconciliation and repair keep what the payments keep: through any interleaving of the payment transactions with runs
  of the reconciler and actions of operators the tables stay well formed and the ledger settled, rows keep their identity and
  money, checkpoints stay within their constraints, and a checkpoint that has ended stays as it is.
\<close>

theorem reconciliation_keeps_ledger:
  assumes "recon_step\<^sup>*\<^sup>* db db'" "payments_ok (rb_pay db)" "checkpoints_ok (rb_checkpoints db)"
  shows "payments_ok (rb_pay db') \<and> later_than (rb_pay db) (rb_pay db') \<and> checkpoints_ok (rb_checkpoints db') \<and>
    {c \<in> set (rb_checkpoints db). checkpoint_ended (cp_state c)} \<subseteq> set (rb_checkpoints db')"
proof -
  have "c \<in> set (rb_checkpoints db')" if "c \<in> set (rb_checkpoints db)" "checkpoint_ended (cp_state c)" for c
    using ended.recon.keeps_recon_steps[OF assms(1), of c] that assms(3)
    by (auto simp: kept_checkpoint_def checkpoints_ok_def list_all_iff)
  then show ?thesis
    using ledger.recon.keeps_recon_steps[OF assms(1,2)] history.recon.keeps_recon_steps[OF assms(1) later_than_refl]
      checkpoint_rows.recon.keeps_recon_steps[OF assms(1,3)] by auto
qed

theorem reconciliation_keeps_ledger_witness:
  "let db = snd (FinishCheckpoint (pay_env_at 9000) ex_run (checkpoint_result None (no_recon_result ScopeAll True False) 9000) reconciling_db) in
   recon_step\<^sup>*\<^sup>* reconciling_db db \<and> map cp_state (rb_checkpoints db) = [CheckpointPassed] \<and> payments_ok (rb_pay db) \<and>
   checkpoints_ok (rb_checkpoints db)"
proof -
  let ?db = "snd (FinishCheckpoint (pay_env_at 9000) ex_run (checkpoint_result None (no_recon_result ScopeAll True False) 9000) reconciling_db)"
  have step: "recon_step\<^sup>*\<^sup>* reconciling_db ?db" by (rule r_into_rtranclp) (rule recon_step.finish)
  have ok: "payments_ok (rb_pay reconciling_db)" using examples_ok(4) by (simp add: reconciling_db_def)
  have passed: "map cp_state (rb_checkpoints ?db) = [CheckpointPassed]" by code_simp
  show ?thesis using reconciliation_keeps_ledger[OF step ok reconciling_ok] step passed unfolding Let_def by blast
qed

subsection \<open>Checkpoints\<close>

text \<open>
  C32. The end of a run is accepted: whatever the run has found and however it ended, the counts it has kept fit the
  constraints of its checkpoint, so without a fault of the database the checkpoint is closed with them.
\<close>

theorem run_closes_checkpoint:
  assumes "reconcile_each r checkpoint scope now repair ks (no_recon_result scope (\<not> repair) truncated) w = ((err, result), w')"
    and "checkpoints_ok (rb_checkpoints db)" "c \<in> set (rb_checkpoints db)" "cp_state c = CheckpointRunning" "cp_safe_repair c = repair"
    and "ck_ID checkpoint = cp_id c" "cp_id c \<noteq> uuid_Nil" "\<not> IsZero_time completed"
    and "cp_started c = Some t" "t \<le> pg_timestamptz completed" "\<And>label. \<not> py_fault env label"
  shows "\<exists>db'. FinishCheckpoint env checkpoint (checkpoint_result err result completed) db = (Inr (), db') \<and>
    (\<exists>c' \<in> set (rb_checkpoints db'). cp_id c' = cp_id c \<and> checkpoint_ended (cp_state c') \<and> cp_rows c' = rr_RowsExamined result \<and>
       cp_mismatches c' = rr_MismatchCount result \<and> cp_repairs c' = rr_RepairCount result)"
proof -
  let ?closing = "checkpoint_result err result completed"
  have "counts_fit result" using reconcile_each_counts[OF assms(1)] by (simp add: counts_fit_def no_recon_result_def)
  moreover have "repair \<or> rr_RepairCount result = 0"
    using reconcile_each_no_repair[of r checkpoint scope now ks "no_recon_result scope (\<not> repair) truncated" w] assms(1)
    by (cases repair) (simp_all add: no_recon_result_def)
  ultimately have "result_fits c ?closing" using assms by (simp add: result_fits_def counts_fit_def checkpoint_result_def)
  from finish_accepted[OF assms(2-4,6,7) this assms(11)] obtain db' where
    "FinishCheckpoint env checkpoint ?closing db = (Inr (), db')" "finished_checkpoint ?closing c \<in> set (rb_checkpoints db')" by blast
  moreover have "cp_id (finished_checkpoint ?closing c) = cp_id c \<and> checkpoint_ended (cp_state (finished_checkpoint ?closing c)) \<and>
      cp_rows (finished_checkpoint ?closing c) = rr_RowsExamined result \<and> cp_mismatches (finished_checkpoint ?closing c) = rr_MismatchCount result \<and>
      cp_repairs (finished_checkpoint ?closing c) = rr_RepairCount result"
    by (simp add: finished_checkpoint_def result_state_ended checkpoint_result_def)
  ultimately show ?thesis by blast
qed

theorem run_closes_checkpoint_witness:
  "let run = reconcile_each ex_reconciler ex_run ScopeAll 5000 False [1] (no_recon_result ScopeAll True False) ();
       finished = FinishCheckpoint (pay_env_at 9000) ex_run (checkpoint_result (fst (fst run)) (snd (fst run)) 9000) reconciling_db in
   rr_MismatchCount (snd (fst run)) = 1 \<and> fst finished = Inr () \<and> list_ex (\<lambda>c. cp_mismatches c = 1) (rb_checkpoints (snd finished))"
proof -
  let ?run = "reconcile_each ex_reconciler ex_run ScopeAll 5000 False [1] (no_recon_result ScopeAll True False) ()"
  have found: "rr_MismatchCount (snd (fst ?run)) = 1" by code_simp
  have run: "reconcile_each ex_reconciler ex_run ScopeAll 5000 False [1] (no_recon_result ScopeAll (\<not> False) False) () =
      ((fst (fst ?run), snd (fst ?run)), snd ?run)" by (simp only: prod.collapse simp_thms)
  have row: "ex_checkpoint \<in> set (rb_checkpoints reconciling_db)" "cp_state ex_checkpoint = CheckpointRunning" "\<not> cp_safe_repair ex_checkpoint"
      "ck_ID ex_run = cp_id ex_checkpoint" "cp_id ex_checkpoint \<noteq> uuid_Nil" "cp_started ex_checkpoint = Some 4000"
      "\<not> IsZero_time 9000" "4000 \<le> pg_timestamptz 9000" by code_simp+
  have "cp_safe_repair ex_checkpoint = False" using row(3) by simp
  from run_closes_checkpoint[OF run reconciling_ok row(1,2) this row(4,5,7,6,8), of "pay_env_at 9000"] found
  show ?thesis by (auto simp: Let_def pay_env_at_def list_ex_iff)
qed

text \<open>
  C34. While a payment is reconciled, an uncertain operation of it is never reported as lacking a reconciliation: the run has
  opened a checkpoint for the intent before it looks, and the check counts that very checkpoint.
\<close>

theorem own_checkpoint_masks_uncertain:
  assumes "checkpoints_ok (rb_checkpoints db)" "StartCheckpoint env fresh scope k repair now db = (Inr checkpoint, db1)" "k \<noteq> uuid_Nil"
    and "recon_step\<^sup>*\<^sup>* db1 db2" "c \<in> set (rb_checkpoints db2)" "cp_id c = ck_ID checkpoint" "checkpoint_active (cp_state c)"
    and "LoadControlSnapshot env' created k db2 later = Inr s"
  shows "''uncertain_operation_without_reconciliation'' \<notin> codes_of (checkControl scope' s)"
proof -
  have start: "recon_step db db1" using recon_step.start[of db env fresh scope k repair now] assms(2) by simp
  note opened = start_Inr[OF assms(2)]
  have "identified_checkpoint fresh (Some k) (rb_checkpoints db1)"
    unfolding opened(3) identified_checkpoint_def using assms(3) by (simp add: running_checkpoint_def new_checkpoint_def)
  then have "identified_checkpoint fresh (Some k) (rb_checkpoints db2)" by (rule identity.recon.keeps_recon_steps[OF assms(4)])
  then obtain c' where c': "c' \<in> set (rb_checkpoints db2)" "cp_id c' = fresh" "cp_intent c' = Some k"
    by (auto simp: identified_checkpoint_def list_ex_iff)
  have "checkpoints_ok (rb_checkpoints db2)"
    using checkpoint_rows.recon.keeps_recon_steps[OF assms(4)] checkpoint_rows.recon.keeps_recon_step[OF start assms(1)] by blast
  then have "c = c'" using distinct_row[of cp_id "rb_checkpoints db2" c c'] assms(5,6) c' opened(1) by (simp add: checkpoints_ok_def checkpoints_unique_def)
  then show ?thesis using active_masks[OF assms(8,5)] c'(3) assms(7) by simp
qed

theorem own_checkpoint_masks_uncertain_witness:
  "let db = \<lparr>rb_pay = uncertain_db, rb_checkpoints = []\<rparr>; run = StartCheckpoint (pay_env_at 9000) 60 ScopeAll 1 False 9000 db;
       s = LoadControlSnapshot (pay_env_at 9000) (\<lambda>_. 0) 1 (snd run) uncertain_db in
   \<not> isl (fst run) \<and> \<not> isl s \<and> list_ex (\<lambda>p. no_State p = OperationUncertain) (ct_Operations (projr s)) \<and>
   ''uncertain_operation_without_reconciliation'' \<notin> codes_of (checkControl ScopeAll (projr s))"
proof -
  let ?db = "\<lparr>rb_pay = uncertain_db, rb_checkpoints = []\<rparr>"
  let ?run = "StartCheckpoint (pay_env_at 9000) 60 ScopeAll 1 False 9000 ?db"
  let ?s = "LoadControlSnapshot (pay_env_at 9000) (\<lambda>_. 0) 1 (snd ?run) uncertain_db"
  let ?c = "hd (rb_checkpoints (snd ?run))"
  have run: "\<not> isl (fst ?run)" "?c \<in> set (rb_checkpoints (snd ?run))" "cp_id ?c = ck_ID (projr (fst ?run))" "checkpoint_active (cp_state ?c)"
    and s: "\<not> isl ?s" "list_ex (\<lambda>p. no_State p = OperationUncertain) (ct_Operations (projr ?s))" by code_simp+
  have "checkpoints_ok (rb_checkpoints ?db)" "(1 :: uuid) \<noteq> uuid_Nil" by (simp_all add: checkpoints_ok_def checkpoints_unique_def)
  moreover have "?s = Inr (projr ?s)" using s(1) by simp
  ultimately show ?thesis
    using own_checkpoint_masks_uncertain[OF _ returned[OF run(1)] _ rtranclp.rtrancl_refl run(2-4)] run(1) s unfolding Let_def by blast
qed

text \<open>
  C31. A checkpoint that a run has left open blocks its intent: no other run of that scope starts on the intent, at any time
  and whatever lease the checkpoint has, and no transaction of the system touches the row but the end of the very run that
  has opened it.
\<close>

theorem abandoned_checkpoint_blocks:
  assumes "c \<in> set (rb_checkpoints db)" "checkpoint_active (cp_state c)" "cp_intent c = Some k" "k \<noteq> uuid_Nil"
  shows "(\<exists>e. StartCheckpoint env fresh (cp_scope c) k repair now db = (Inl e, db)) \<and>
    (recon_step db db' \<longrightarrow> c \<in> set (rb_checkpoints db') \<or>
       (\<exists>env checkpoint result. ck_ID checkpoint = cp_id c \<and> db' = snd (FinishCheckpoint env checkpoint result db)))"
  using start_refused[OF assms(1,2)] assms(3,4) recon_step_row[OF _ assms(1)] by auto

theorem abandoned_checkpoint_blocks_witness:
  "\<exists>e. StartCheckpoint (pay_env_at 999999999999) 61 ScopeAll 1 False 999999999999 reconciling_db = (Inl e, reconciling_db)"
proof -
  have row: "ex_checkpoint \<in> set (rb_checkpoints reconciling_db)" "checkpoint_active (cp_state ex_checkpoint)" "cp_intent ex_checkpoint = Some 1"
      "(1 :: uuid) \<noteq> uuid_Nil" "cp_scope ex_checkpoint = ScopeAll" by code_simp+
  show ?thesis using abandoned_checkpoint_blocks[OF row(1-4)] unfolding row(5) by blast
qed


end
