(* ===== verification/Spec2Isabelle.thy ===== *)
theory Spec2Isabelle
  imports Booking_Properties Router_Properties Domain_Properties Payment_Domain Retry_Backoff Migration_Machine
    Sandbox_Properties Payment_Properties Payment_Recon_Properties
begin

text \<open>
  A railway ticketing platform: users hold seats on segments of a train run, pay, receive tickets and
  cancel; holds that are not paid in time expire. Train runs are assigned to booking shards, and an
  assignment may move from one shard to another while bookings continue.

  \<^bold>\<open>Parts and theories.\<close>

  \<^item> \<open>Rail_Prelude\<close>, \<open>Go_Strings\<close>, \<open>Tx_Monad\<close>: machine integers, Go's string functions and database
    transactions (a transaction maps the tables to an error or to a value and new tables; on an error the
    tables stay as they were).
  \<^item> \<open>Money\<close>, \<open>Segment_Algebra\<close>, \<open>Segment_Mask\<close>, \<open>Varbit\<close>, \<open>Reservation\<close>
    (\<^verbatim>\<open>internal/booking/domain\<close>, \<^verbatim>\<open>segment_bits.go\<close>): amounts with overflow checks, masks of travelled
    segments as bytes and as PostgreSQL bit strings, and the life cycle of a reservation. The length of a stored
    mask is the 32-bit integer of the driver; \<open>varbit_recv_ok\<close> says which parameters the server takes. The locale
    \<open>segment_algebra\<close> says what both representations of masks promise; it is interpreted on each.
  \<^item> \<open>Offering_Domain\<close> (\<^verbatim>\<open>internal/offering/domain\<close>): stations, seat classes, routes and train runs.
  \<^item> \<open>Shard_Route\<close>, \<open>Route_Cache\<close>, \<open>Shard_Router\<close> (\<^verbatim>\<open>internal/sharding\<close>): shard names, routes with a
    generation, the cache of routes (locale \<open>advisory_cache\<close>) and the router that admits a transaction only
    under the current assignment and an open fence.
  \<^item> \<open>Booking_Db\<close>, \<open>Booking_Idempotency\<close>, \<open>Booking_Inventory\<close>, \<open>Booking_Ledger\<close>, \<open>Booking_Store\<close>,
    \<open>Booking_Expiry\<close> (\<^verbatim>\<open>internal/booking/postgres\<close>): the tables, the idempotency keys, the seat
    inventory, the shared ledgers (admission policy, quota, locators, outbox, generation evidence), the
    commands and the expiration sweep.
  \<^item> \<open>State_Machine\<close>, \<open>Payment_Domain\<close> (\<^verbatim>\<open>internal/payment/domain\<close>): transition tables (locale
    \<open>transition_table\<close>, interpreted for intents, operations and sagas) and the money of an intent.
  \<^item> \<open>Retry_Backoff\<close> (\<^verbatim>\<open>internal/payment/worker/backoff.go\<close>): the delay between two attempts of a worker.
  \<^item> \<open>Migration_Machine\<close> (\<^verbatim>\<open>internal/sharding/migration\<close>): the state machines that move a train run between
    schemas and between databases. The locale \<open>evidence_machine\<close> says what both promise
    of any sequence of their calls, the start of a reverse migration included.
  \<^item> \<open>Provider_Boundary\<close>, \<open>Sandbox_Provider\<close> (\<^verbatim>\<open>internal/payment/provider\<close>, \<^verbatim>\<open>provider/sandbox\<close>): the types of the
    provider interface, and the sandbox provider with its faults, webhooks and snapshots; \<open>Sandbox_Safety\<close> is its
    lemma library, \<open>Sandbox_Properties\<close> its properties and a concrete run.
  \<^item> \<open>Payment_Db\<close> (\<^verbatim>\<open>migrations/000010_payment_control_plane.up.sql\<close>): the payment tables with their checks, keys and
    guard triggers; \<open>Payment_Shard\<close> (\<^verbatim>\<open>internal/payment/shard\<close>): the commands to a shard and the gateway that
    routes them; \<open>Payment_Claims\<close> and \<open>Payment_Finalize\<close> (\<^verbatim>\<open>internal/payment/worker/postgres\<close>): what a worker
    leases and how it records outcomes; \<open>Payment_Worker\<close> (\<^verbatim>\<open>internal/payment/worker\<close>): a run of the worker;
    \<open>Payment_Intents\<close> (\<^verbatim>\<open>internal/payment/postgres\<close>), \<open>Payment_Application\<close> (\<^verbatim>\<open>internal/payment/application\<close>) and
    \<open>Payment_Webhook\<close> (\<^verbatim>\<open>internal/payment/webhook\<close>): intents, the service over them and the intake of events.
  \<^item> \<open>Payment_Ledger\<close>: the locale \<open>payment_invariant\<close> (a predicate of the tables that every statement keeps is kept by
    every transaction and by every run of a worker), interpreted on the consistency of the tables; the steps
    \<open>pay_step\<close>. It extends \<open>payment_sagas_invariant\<close> and \<open>payment_frame\<close>, which ask nothing of updates of operations
    (and of sagas) and say less. \<open>Payment_History\<close> interprets \<open>payment_invariant\<close> on \<open>later_than\<close>, which follows the rows through
    time. \<open>Payment_Leases\<close>: claims and leases; \<open>held_step\<close> is what may happen while a claim holds its operation, and
    \<open>payment_sagas_invariant\<close> is interpreted on the operation it holds. \<open>Payment_Run\<close>, \<open>Payment_Flow\<close>: the accounts of a run, and how
    the steps of a payment follow each other. \<open>Payment_Capture\<close> interprets \<open>payment_frame\<close> on sagas that have left the states
    before a capture: none of them comes back. \<open>Payment_Example\<close>, \<open>Payment_Properties\<close>: a concrete payment and the properties.
  \<^item> \<open>Payment_Reconciler\<close> (\<^verbatim>\<open>internal/payment/reconcile\<close>): a run of the reconciler, its checks and what it does about
    a finding; \<open>Payment_Recon_Store\<close> and \<open>Payment_Repair\<close> (\<^verbatim>\<open>reconcile/postgres\<close>): checkpoints, snapshots, review cases and
    the actions of an operator. \<open>Payment_Findings\<close>: what a report holds. \<open>Payment_Recon_Safety\<close>: the steps
    \<open>recon_step\<close> and the locales \<open>repair_invariant\<close>, \<open>recon_invariant\<close> (a sublocale of \<open>payment_invariant\<close>) and
    \<open>checkpoint_invariant\<close>, interpreted on the rows of checkpoints. \<open>Payment_Recon_Flow\<close>, \<open>Payment_Recon_Snapshot\<close>,
    \<open>Payment_Checkpoints\<close>: commands of repairs, snapshots of sound tables, the life of a checkpoint;
    \<open>Payment_Recon_Properties\<close>: the properties.
  \<^item> \<open>Booking_Frame\<close>, \<open>Booking_Invariant\<close>, \<open>Booking_Safety\<close>, \<open>Booking_Holds\<close>, \<open>Booking_Endings\<close>: the lemma
    library of the store; \<open>Booking_Example\<close>: a concrete run of its commands.
  \<^item> \<open>Booking_Properties\<close>, \<open>Router_Properties\<close>, \<open>Domain_Properties\<close> and the last section of
    \<open>Payment_Domain\<close>: the properties, each with a concrete instance.

  \<^bold>\<open>How the code is represented.\<close> A table is a list of rows, a statement is a function on the tables, and
  a command is a function from the tables to an error or a result and the new tables. What the code does
  not decide is the record \<open>TxEnv\<close>: clock readings, fresh identifiers, rows locked by others (skipped
  by \<^verbatim>\<open>SKIP LOCKED\<close>), collation, the JSON encoder and which statements fail with which SQLSTATE.
  A successful insert that would break a unique key fails as the database makes it fail.
  \<open>booking_step\<close> is one committed command in some environment; reachability is its closure, so every
  interleaving of committed transactions is covered. Payment processes and shard migrations that
  change inventory are outside \<open>booking_step\<close>. Lookups of a route before a transaction read the
  committed tables the transaction starts from; the fence is read again inside it.

  The sandbox provider holds its mutex for the whole of each call, so a call is one function on its state;
  \<^verbatim>\<open>CompleteHostedCheckout\<close> releases it between reading the fields of a payment that never change and the
  authorisation. JSON, SHA-256 and HMAC are the record \<open>Codec\<close>; \<open>codec_ok\<close> says what is used of them: a digest
  is 32 bytes in hexadecimal. \<open>CallEnv\<close> holds the clock,
  a cancelled context and a store that fails to save. A saved snapshot is kept as a value. \<open>room\<close> bounds the
  number of calls so that no 64-bit counter wraps.

  A transaction of the payment control plane takes a \<open>PayEnv\<close>: the clock at each statement, which statements fail,
  which rows others have locked and the order of update times. A guard trigger that refuses a row fails the
  statement. \<open>pay_step\<close> is one transaction with any arguments, so its closure covers every interleaving of the
  service, of the webhook intake and of any number of workers, with claims and evidence of any content. Between two
  calls of a run other processes may change the tables (\<open>wk_others\<close>); providers and shards are functions of an
  outside world. SHA-256 and UUIDs are the record \<open>PayIds\<close>.

  \<^bold>\<open>What is shown.\<close> No seat is sold twice for a segment and the occupied bits are exactly the live
  journeys, whatever commands run; what each command writes; keys replay or conflict; quota and
  retry bounds; the sweep ends and is bounded (its fuel, the limit plus one, is proved to be enough);
  fencing admits one route per run; the cache refines a least-recently-used list; masks and their
  stored form round-trip; money is conserved through captures and refunds. The provider performs an operation
  once per key, fails honestly, survives restarts and verifies exactly the webhooks it signed in the replay window
  (and, by an overflow, stamps far in the future). A migration whose target accepted a write is never rolled back,
  and every migration ends. In the payment control plane money is captured and refunded whole and once, whatever
  the workers do; the rows refine the state machines of the domain; a claimed operation is claimed by no one else while its lease
  lasts; an uncertain
  operation is asked about and never sent again; a command to a shard carries the proof of the operation it rests
  on; an event is stored once; a run accounts for what it has claimed; and a capture that fails retryably is never
  claimed again, whatever follows. Reconciliation and repair keep the ledger; reports are exact and raise no false alarm on sound tables; a repair
  sends the command of the worker, once and under its lease, and only if the shard has recorded it; every finding can be
  escalated; a run can always close its checkpoint, but one left open blocks its intent, a run masks one of its own
  checks, and the actions that write an audit row are refused by the table.

  \<^bold>\<open>Not modelled.\<close> HTTP, configuration, metrics, process wiring, accounts (password hashing and tokens of
  other packages), the Redis waiting room, the read model, the event relay, the payment transactions on a
  shard and the snapshots that reconciliation reads there (arguments of the model), the HTTP provider client, the copy of rows between databases; row timestamps kept by triggers; the compatibility triggers of
  the public schema; the readers \<^verbatim>\<open>GetReservation\<close> and \<^verbatim>\<open>InventoryMasks\<close>.
\<close>

end
